(* ===== verification/Prelude.thy ===== *)
theory Prelude
  imports Complex_Main "HOL-Library.State_Monad" "HOL-Library.Product_Lexorder"
    "HOL-Library.List_Lexorder" "HOL-Library.Char_ord" "HOL-Library.Signed_Division"
    "HOL-Library.Multiset" "HOL-Library.AList"
begin

text \<open>
  Shared vocabulary of the development: fixed-width integers and the Go conversions the
  sources use, human-readable messages, HTTP responses, weakest preconditions for the
  state monad in which every handler that talks to the Kubernetes API is written, and
  the generic list facts the components share.
\<close>

section \<open>Collections of facts\<close>

named_theorems wp_rules \<open>weakest-precondition introduction rules of API-server calls\<close>
named_theorems i32_simps \<open>arithmetic on 32-bit integers that stays in range\<close>

section \<open>Fixed-width integers\<close>

text \<open>
  Go's \<^verbatim>\<open>int32\<close> and \<^verbatim>\<open>int64\<close> values are integers with the wrap-around of two's
  complement written out: a conversion or an arithmetic result is passed through
  \<open>int32\<close> or \<open>int64\<close>, which keep the low 32 or 64 bits and read them as signed.
\<close>

definition int32 :: "int \<Rightarrow> int" where
  "int32 x = signed_take_bit 31 x"

definition int64 :: "int \<Rightarrow> int" where
  "int64 x = signed_take_bit 63 x"

definition is_int32 :: "int \<Rightarrow> bool" where
  "is_int32 x \<longleftrightarrow> - (2 ^ 31) \<le> x \<and> x < 2 ^ 31"

lemma int32_id [i32_simps]: "is_int32 x \<Longrightarrow> int32 x = x"
  by (simp add: int32_def is_int32_def signed_take_bit_int_eq_self)

lemma is_int32_int32 [simp, intro]: "is_int32 (int32 x)"
proof -
  have "- (2 ^ 31) \<le> signed_take_bit 31 x" "signed_take_bit 31 x < 2 ^ 31"
    by (rule signed_take_bit_int_greater_eq_minus_exp, rule signed_take_bit_int_less_exp)
  then show ?thesis by (simp add: int32_def is_int32_def)
qed

lemma int64_id: "- (2 ^ 63) \<le> x \<Longrightarrow> x < 2 ^ 63 \<Longrightarrow> int64 x = x"
  by (simp add: int64_def signed_take_bit_int_eq_self)

lemma int32_range: "- 2147483648 \<le> int32 x" "int32 x < 2147483648"
  using is_int32_int32 [of x] by (simp_all add: is_int32_def)

text \<open>Go's \<^verbatim>\<open>/\<close> on integers truncates towards zero, as \<open>sdiv\<close> does.\<close>

lemma sdiv_nonneg: "0 \<le> a \<Longrightarrow> 0 < b \<Longrightarrow> a sdiv b = a div (b::int)"
  by (simp add: signed_divide_int_def sgn_if)

lemma sdiv_nonpos: "a \<le> 0 \<Longrightarrow> 0 < b \<Longrightarrow> a sdiv b \<le> (0::int)"
  by (auto simp: signed_divide_int_def sgn_if pos_imp_zdiv_nonneg_iff)

section \<open>Messages and responses\<close>

text \<open>\<open>CodeEmpty\<close> is the empty string, the code of an error whose body named none.\<close>

datatype ErrorCode =
    CodeEmpty | InvalidRequest | Unauthenticated | Forbidden | NotFoundCode | ConflictCode
  | ReservationExpired | InsufficientCapacity | TooManyRequests | InternalError
  | UpstreamError | ServiceUnavailable | TimeoutCode

text \<open>
  A rendered message is kept as the format string of its \<^verbatim>\<open>fmt.Sprintf\<close> and the values
  substituted into it, which may be messages themselves.
\<close>

datatype arg = AStr string | AInt int | ATime int | ACode ErrorCode | AMsg message
and message = Sprintf string "arg list"

abbreviation text_msg :: "string \<Rightarrow> message" where
  "text_msg s \<equiv> Sprintf s []"

text \<open>
  An HTTP answer: \<^verbatim>\<open>writeError(w, status, ErrorResponse{Code, Message})\<close> or
  \<^verbatim>\<open>writeJSON(w, status, body)\<close>. \<^verbatim>\<open>RequestID\<close> only echoes a request header and is left out.
\<close>

datatype 'a response = writeError nat ErrorCode message | writeJSON nat 'a

fun response_status :: "'a response \<Rightarrow> nat" where
  "response_status (writeError s _ _) = s"
| "response_status (writeJSON s _) = s"

section \<open>Weakest preconditions\<close>

text \<open>
  Handlers and reconcilers are \<open>('w, 'a) state\<close> computations over the world \<open>'w\<close> of the
  API server. \<open>wp m Q w\<close> says that running \<open>m\<close> in \<open>w\<close> ends with a result and a world
  that satisfy \<open>Q\<close>; since the monad is total this is total correctness.
\<close>

definition wp :: "('w, 'a) state \<Rightarrow> ('a \<Rightarrow> 'w \<Rightarrow> bool) \<Rightarrow> 'w \<Rightarrow> bool" where
  "wp m Q w \<longleftrightarrow> (case run_state m w of (a, w') \<Rightarrow> Q a w')"

lemma wp_return [simp]: "wp (State_Monad.return a) Q w \<longleftrightarrow> Q a w"
  by (simp add: wp_def)

lemma wp_bind [simp]:
  "wp (State_Monad.bind m f) Q w \<longleftrightarrow> wp m (\<lambda>a. wp (f a) Q) w"
  by (simp add: wp_def split: prod.splits)

lemma wp_mono: "wp m P w \<Longrightarrow> (\<And>a w'. P a w' \<Longrightarrow> Q a w') \<Longrightarrow> wp m Q w"
  by (auto simp: wp_def split: prod.splits)

lemma wp_conj: "wp m P w \<Longrightarrow> wp m Q w \<Longrightarrow> wp m (\<lambda>a w'. P a w' \<and> Q a w') w"
  by (auto simp: wp_def split: prod.splits)

lemma wp_run: "wp m Q w \<Longrightarrow> run_state m w = (a, w') \<Longrightarrow> Q a w'"
  by (simp add: wp_def)

lemma wpI: "(\<And>a w'. run_state m w = (a, w') \<Longrightarrow> Q a w') \<Longrightarrow> wp m Q w"
  by (simp add: wp_def split: prod.splits)

lemma wp_result: "wp m Q w \<Longrightarrow> \<exists>a w'. run_state m w = (a, w') \<and> Q a w'"
  by (auto simp: wp_def split: prod.splits)

section \<open>Lists\<close>

lemma sort_key_first:
  assumes "sort_key f xs = ys @ y # zs" and "x \<in> set zs"
  shows "f y \<le> f x"
proof -
  have "sorted (map f (ys @ y # zs))"
    by (simp flip: assms(1))
  with assms(2) show ?thesis
    by (auto simp: sorted_append)
qed

lemma first_separator:
  "xs @ a # ys = xs' @ a # ys' \<Longrightarrow> a \<notin> set xs \<Longrightarrow> a \<notin> set xs' \<Longrightarrow> xs = xs' \<and> ys = ys'"
proof (induction xs arbitrary: xs')
  case Nil
  then show ?case by (cases xs') auto
next
  case (Cons x xs)
  then show ?case by (cases xs') auto
qed

end
