(* ===== verification/ApiTypes.thy ===== *)
theory ApiTypes
  imports Prelude
begin

text \<open>
  The data model: the custom resources of \<^verbatim>\<open>api/broker/v1alpha1\<close> and
  \<^verbatim>\<open>api/autoscaling/v1alpha1\<close> and the wire types of \<^verbatim>\<open>internal/broker/api/types.go\<close>.
  A struct is a record whose fields carry the Go names behind a short prefix; a pointer
  that may be nil is an \<open>option\<close>; a Go map whose keys are looked up or ranged over is an
  association list. Times and durations are integers (nanoseconds), \<^verbatim>\<open>float64\<close> values are
  real numbers.
\<close>

section \<open>Kubernetes values\<close>

text \<open>
  \<^verbatim>\<open>resource.Quantity\<close> is a third-party fixed-point number; a quantity is represented by the
  number it denotes, and every method the sources call on it is a parameter
  (\<open>quantity_api\<close>), so that its rounding is not fixed here.
\<close>

type_synonym Time = int
type_synonym Duration = int
type_synonym Quantity = rat
type_synonym ResourceList = "(string \<times> Quantity) list"

abbreviation ResourceCPU :: string where "ResourceCPU \<equiv> ''cpu''"
abbreviation ResourceMemory :: string where "ResourceMemory \<equiv> ''memory''"
abbreviation gpuResourceName :: string where "gpuResourceName \<equiv> ''nvidia.com/gpu''"

record quantity_api =
  q_Value :: "Quantity \<Rightarrow> int"
  q_MilliValue :: "Quantity \<Rightarrow> int"
  q_Float :: "Quantity \<Rightarrow> real"
  q_Sign :: "Quantity \<Rightarrow> int"
  q_New :: "int \<Rightarrow> Quantity"
  q_NewMilli :: "int \<Rightarrow> Quantity"
  q_Add :: "Quantity \<Rightarrow> Quantity \<Rightarrow> Quantity"
  q_MustParse :: "string \<Rightarrow> Quantity"

text \<open>\<^verbatim>\<open>corev1.Taint\<close>; \<^verbatim>\<open>TimeAdded\<close> is not used.\<close>

record Taint =
  tn_Key :: string
  tn_Value :: string
  tn_Effect :: string

text \<open>A Go map read of a missing key yields the zero value.\<close>

definition rl_get :: "ResourceList \<Rightarrow> string \<Rightarrow> Quantity" where
  "rl_get rl k = (case map_of rl k of Some q \<Rightarrow> q | None \<Rightarrow> 0)"

section \<open>Object metadata\<close>

record ObjectMeta =
  m_Name :: string
  m_Annotations :: "(string \<times> string) list"
  m_Finalizers :: "string list"
  m_DeletionTimestamp :: "Time option"
  m_CreationTimestamp :: Time
  m_Generation :: int
  m_ResourceVersion :: nat
  m_OwnerRef :: "string option"

definition named_meta :: "string \<Rightarrow> ObjectMeta" where
  "named_meta n = \<lparr>m_Name = n, m_Annotations = [], m_Finalizers = [],
     m_DeletionTimestamp = None, m_CreationTimestamp = 0, m_Generation = 0,
     m_ResourceVersion = 0, m_OwnerRef = None\<rparr>"

section \<open>Broker API group\<close>

type_synonym ChunkType = string

abbreviation ChunkTypeStandard :: ChunkType where "ChunkTypeStandard \<equiv> ''standard''"
abbreviation ChunkTypeGPU :: ChunkType where "ChunkTypeGPU \<equiv> ''gpu''"

text \<open>The empty phase is the zero value of a reservation whose status was never written.\<close>

datatype ReservationPhase =
    PhaseEmpty | Pending | GeneratingKubeconfig | KubeconfigReady | Peering | Peered
  | Unpeering | Released | Expired | Failed

fun phase_string :: "ReservationPhase \<Rightarrow> string" where
  "phase_string PhaseEmpty = ''''"
| "phase_string Pending = ''Pending''"
| "phase_string GeneratingKubeconfig = ''GeneratingKubeconfig''"
| "phase_string KubeconfigReady = ''KubeconfigReady''"
| "phase_string Peering = ''Peering''"
| "phase_string Peered = ''Peered''"
| "phase_string Unpeering = ''Unpeering''"
| "phase_string Released = ''Released''"
| "phase_string Expired = ''Expired''"
| "phase_string Failed = ''Failed''"

record Topology =
  t_Zone :: string
  t_Region :: string
  t_City :: string
  t_Latitude :: real
  t_Longitude :: real

record ClusterAdvertisementSpec =
  ca_ClusterID :: string
  ca_LiqoClusterID :: string
  ca_ClusterType :: ChunkType
  ca_Allocatable :: ResourceList
  ca_Topology :: "Topology option"
  ca_UnitPrices :: ResourceList
  ca_CarbonIntensity :: "real option"
  ca_CarbonForecast :: "real list"
  ca_CapacityScalePercent :: "(string \<times> int) list"
  ca_CapacityFixed :: ResourceList
  ca_Renewable :: bool
  ca_ProbeEndpoint :: string

record ClusterAdvertisementStatus =
  ca_ObservedGeneration :: int
  ca_LastSeen :: "Time option"
  ca_Available :: bool
  ca_TotalChunks :: int
  ca_ReservedChunks :: int
  ca_AvailableChunks :: int

record ClusterAdvertisement =
  ca_Meta :: ObjectMeta
  ca_Spec :: ClusterAdvertisementSpec
  ca_Status :: ClusterAdvertisementStatus

record ReservationSpec =
  rs_ConsumerClusterID :: string
  rs_ConsumerLiqoClusterID :: string
  rs_ProviderClusterID :: string
  rs_ProviderLiqoClusterID :: string
  rs_ChunkCount :: int
  rs_ChunkType :: ChunkType
  rs_Resources :: ResourceList
  rs_Namespaces :: "string list"

record ReservationStatus =
  rs_ObservedGeneration :: int
  rs_Phase :: ReservationPhase
  rs_CreatedAt :: "Time option"
  rs_ExpiresAt :: "Time option"
  rs_VirtualNodeNames :: "string list"
  rs_TerminatedAt :: "Time option"
  rs_Message :: message

record Reservation =
  rs_Meta :: ObjectMeta
  rs_Spec :: ReservationSpec
  rs_Status :: ReservationStatus

definition zero_ReservationStatus :: ReservationStatus where
  "zero_ReservationStatus = \<lparr>rs_ObservedGeneration = 0, rs_Phase = PhaseEmpty,
     rs_CreatedAt = None, rs_ExpiresAt = None, rs_VirtualNodeNames = [],
     rs_TerminatedAt = None, rs_Message = text_msg ''''\<rparr>"

definition zero_ClusterAdvertisementStatus :: ClusterAdvertisementStatus where
  "zero_ClusterAdvertisementStatus = \<lparr>ca_ObservedGeneration = 0, ca_LastSeen = None,
     ca_Available = False, ca_TotalChunks = 0, ca_ReservedChunks = 0, ca_AvailableChunks = 0\<rparr>"

text \<open>A provider with the given chunk counts, for the concrete examples of the development.\<close>

definition exampleAdv :: "string \<Rightarrow> int \<Rightarrow> int \<Rightarrow> ClusterAdvertisement" where
  "exampleAdv n tot reserved = \<lparr>ca_Meta = named_meta n,
     ca_Spec = \<lparr>ca_ClusterID = n, ca_LiqoClusterID = n, ca_ClusterType = ''standard'', ca_Allocatable = [],
       ca_Topology = None, ca_UnitPrices = [], ca_CarbonIntensity = None, ca_CarbonForecast = [],
       ca_CapacityScalePercent = [], ca_CapacityFixed = [], ca_Renewable = False, ca_ProbeEndpoint = ''''\<rparr>,
     ca_Status = zero_ClusterAdvertisementStatus\<lparr>ca_Available := True, ca_TotalChunks := tot,
       ca_ReservedChunks := reserved, ca_AvailableChunks := tot - reserved\<rparr>\<rparr>"


definition exampleResv :: "string \<Rightarrow> string \<Rightarrow> string \<Rightarrow> ReservationPhase \<Rightarrow> Reservation" where
  "exampleResv n consumer provider phase = \<lparr>rs_Meta = named_meta n,
     rs_Spec = \<lparr>rs_ConsumerClusterID = consumer, rs_ConsumerLiqoClusterID = consumer,
       rs_ProviderClusterID = provider, rs_ProviderLiqoClusterID = provider, rs_ChunkCount = 1,
       rs_ChunkType = ''standard'', rs_Resources = [], rs_Namespaces = []\<rparr>,
     rs_Status = zero_ReservationStatus\<lparr>rs_Phase := phase\<rparr>\<rparr>"

subsection \<open>The chunks-released marker (common_types.go)\<close>

definition ChunksReleasedAnnotation :: string where
  "ChunksReleasedAnnotation = ''federation-autoscaler.io/chunks-released''"

definition IsChunksReleased :: "Reservation \<Rightarrow> bool" where
  "IsChunksReleased resv \<longleftrightarrow>
     map_of (m_Annotations (rs_Meta resv)) ChunksReleasedAnnotation = Some ''true''"

definition MarkChunksReleased :: "Reservation \<Rightarrow> Reservation" where
  "MarkChunksReleased resv = resv\<lparr>rs_Meta := (rs_Meta resv)\<lparr>m_Annotations :=
     (ChunksReleasedAnnotation, ''true'') #
       AList.delete ChunksReleasedAnnotation (m_Annotations (rs_Meta resv))\<rparr>\<rparr>"

section \<open>Autoscaling API group\<close>

datatype ProviderInstructionKind = PIGenerateKubeconfig | PICleanup | PIReconcile

datatype ReservationInstructionKind = RIPeer | RIUnpeer | RICleanup | RIReconcile

type_synonym PlacementStrategy = string

abbreviation PlacementStrategyStandard :: PlacementStrategy where
  "PlacementStrategyStandard \<equiv> ''Standard''"
abbreviation PlacementStrategyPrice :: PlacementStrategy where
  "PlacementStrategyPrice \<equiv> ''Price''"
abbreviation PlacementStrategyEco :: PlacementStrategy where
  "PlacementStrategyEco \<equiv> ''Eco''"
abbreviation PlacementStrategyLatency :: PlacementStrategy where
  "PlacementStrategyLatency \<equiv> ''Latency''"
abbreviation PlacementStrategyConsumerChoice :: PlacementStrategy where
  "PlacementStrategyConsumerChoice \<equiv> ''ConsumerChoice''"
abbreviation PlacementStrategyRandom :: PlacementStrategy where
  "PlacementStrategyRandom \<equiv> ''Random''"

record ProviderInstructionSpec =
  pi_ReservationID :: string
  pi_Kind :: ProviderInstructionKind
  pi_TargetClusterID :: string
  pi_ConsumerClusterID :: string
  pi_ConsumerLiqoClusterID :: string
  pi_ChunkCount :: int
  pi_LastChunk :: bool
  pi_ExpiresAt :: "Time option"

record ReservationInstructionSpec =
  ri_ReservationID :: string
  ri_Kind :: ReservationInstructionKind
  ri_TargetClusterID :: string
  ri_ProviderClusterID :: string
  ri_ProviderLiqoClusterID :: string
  ri_ResourceSliceNames :: "string list"
  ri_ChunkCount :: int
  ri_LastChunk :: bool
  ri_KubeconfigRef :: string
  ri_ExpiresAt :: "Time option"

text \<open>Both instruction kinds carry the same status fields.\<close>

record InstructionStatus =
  is_ObservedGeneration :: int
  is_Enforced :: bool
  is_IssuedAt :: "Time option"
  is_LastDeliveredAt :: "Time option"
  is_LastUpdateTime :: "Time option"
  is_Attempts :: int
  is_Message :: message

record ProviderInstruction =
  pi_Meta :: ObjectMeta
  pi_Spec :: ProviderInstructionSpec
  pi_Status :: InstructionStatus

record ReservationInstruction =
  ri_Meta :: ObjectMeta
  ri_Spec :: ReservationInstructionSpec
  ri_Status :: InstructionStatus

definition zero_InstructionStatus :: InstructionStatus where
  "zero_InstructionStatus = \<lparr>is_ObservedGeneration = 0, is_Enforced = False,
     is_IssuedAt = None, is_LastDeliveredAt = None, is_LastUpdateTime = None,
     is_Attempts = 0, is_Message = text_msg ''''\<rparr>"

definition examplePI :: "string \<Rightarrow> ProviderInstructionKind \<Rightarrow> string \<Rightarrow> string \<Rightarrow> string \<Rightarrow> ProviderInstruction" where
  "examplePI n k target consumer resv = \<lparr>pi_Meta = named_meta n,
     pi_Spec = \<lparr>pi_ReservationID = resv, pi_Kind = k, pi_TargetClusterID = target,
       pi_ConsumerClusterID = consumer, pi_ConsumerLiqoClusterID = consumer, pi_ChunkCount = 1,
       pi_LastChunk = False, pi_ExpiresAt = None\<rparr>,
     pi_Status = zero_InstructionStatus\<rparr>"

definition exampleRI :: "string \<Rightarrow> ReservationInstructionKind \<Rightarrow> string \<Rightarrow> string \<Rightarrow> string \<Rightarrow> ReservationInstruction" where
  "exampleRI n k target provider resv = \<lparr>ri_Meta = named_meta n,
     ri_Spec = \<lparr>ri_ReservationID = resv, ri_Kind = k, ri_TargetClusterID = target,
       ri_ProviderClusterID = provider, ri_ProviderLiqoClusterID = provider, ri_ResourceSliceNames = [],
       ri_ChunkCount = 1, ri_LastChunk = False, ri_KubeconfigRef = '''', ri_ExpiresAt = None\<rparr>,
     ri_Status = zero_InstructionStatus\<rparr>"

text \<open>The staging Secret that holds a peering-user kubeconfig.\<close>

record Secret =
  sec_Meta :: ObjectMeta
  sec_Labels :: "(string \<times> string) list"
  sec_Data :: "(string \<times> string) list"

lemma IsChunksReleased_Mark [simp]: "IsChunksReleased (MarkChunksReleased r)"
  by (simp add: IsChunksReleased_def MarkChunksReleased_def)

lemma MarkChunksReleased_frame [simp]:
  "rs_Spec (MarkChunksReleased r) = rs_Spec r"
  "rs_Status (MarkChunksReleased r) = rs_Status r"
  "m_Name (rs_Meta (MarkChunksReleased r)) = m_Name (rs_Meta r)"
  "m_Finalizers (rs_Meta (MarkChunksReleased r)) = m_Finalizers (rs_Meta r)"
  "m_DeletionTimestamp (rs_Meta (MarkChunksReleased r)) = m_DeletionTimestamp (rs_Meta r)"
  "m_ResourceVersion (rs_Meta (MarkChunksReleased r)) = m_ResourceVersion (rs_Meta r)"
  by (simp_all add: MarkChunksReleased_def)

end
