(* ===== verification/Chunk.thy ===== *)
theory Chunk
  imports ApiTypes
begin

text \<open>
  \<^verbatim>\<open>internal/broker/chunk\<close>: dividing a provider's advertised resources into fixed-size
  chunks. The section on quantities states what the code relies on of \<^verbatim>\<open>resource.Quantity\<close>;
  the sizer contract is what the HTTP layer relies on of \<^verbatim>\<open>chunk.Sizer\<close>.
\<close>

section \<open>Quantities\<close>

text \<open>
  The documented behaviour of \<^verbatim>\<open>resource.Quantity\<close>: \<^verbatim>\<open>Value\<close> and \<^verbatim>\<open>MilliValue\<close> round up,
  and are exact only while the result fits 64 bits; the float approximation keeps the sign
  and is exact on integers below $2^{53}$; addition is exact, and a literal denotes the number
  it spells.
\<close>

locale quantity_laws =
  fixes Q :: quantity_api
  assumes Value_law: "0 \<le> q \<Longrightarrow> \<lceil>q\<rceil> < 2 ^ 63 \<Longrightarrow> q_Value Q q = \<lceil>q\<rceil>"
    and MilliValue_law: "0 \<le> q \<Longrightarrow> \<lceil>1000 * q\<rceil> < 2 ^ 63 \<Longrightarrow> q_MilliValue Q q = \<lceil>1000 * q\<rceil>"
    and Sign_law: "q_Sign Q q = (if q < 0 then - 1 else if q = 0 then 0 else 1)"
    and New_law: "q_New Q n = of_int n"
    and NewMilli_law: "q_NewMilli Q n = of_int n / 1000"
    and Float_nonneg: "0 \<le> q \<Longrightarrow> 0 \<le> q_Float Q q"
    and Float_int: "\<bar>n\<bar> < 2 ^ 53 \<Longrightarrow> q_Float Q (of_int n) = real_of_int n"
    and Add_law: "q_Add Q a b = a + b"
    and MustParse_law: "q_MustParse Q ''2'' = 2" "q_MustParse Q ''4Gi'' = 4 * 2 ^ 30" "q_MustParse Q ''110'' = 110"

definition exactQ :: quantity_api where
  "exactQ = \<lparr>q_Value = ceiling, q_MilliValue = (\<lambda>q. \<lceil>1000 * q\<rceil>), q_Float = of_rat,
     q_Sign = (\<lambda>q. if q < 0 then - 1 else if q = 0 then 0 else 1),
     q_New = of_int, q_NewMilli = (\<lambda>n. of_int n / 1000), q_Add = (+),
     q_MustParse = (\<lambda>s. if s = ''4Gi'' then 4 * 2 ^ 30 else if s = ''110'' then 110 else 2)\<rparr>"

interpretation exact: quantity_laws exactQ
  by unfold_locales (simp_all add: exactQ_def)

section \<open>Sizing\<close>

record Result =
  r_Type :: ChunkType
  r_Count :: int
  r_PerChunk :: ResourceList

type_synonym Sizer = "ResourceList \<Rightarrow> Result list"

definition min64 :: "int \<Rightarrow> int \<Rightarrow> int" where
  "min64 a b = (if a < b then a else b)"

definition sizeStandard :: "quantity_api \<Rightarrow> ResourceList \<Rightarrow> Result" where
  "sizeStandard Q advertised =
    (let stdCPUMilli = 2 * 1000;
         stdMemBytes = 4 * 1024 * 1024 * 1024;
         cpuQty = rl_get advertised ResourceCPU;
         memQty = rl_get advertised ResourceMemory;
         cpuChunks = q_MilliValue Q cpuQty sdiv stdCPUMilli;
         memChunks = q_Value Q memQty sdiv stdMemBytes;
         count = int32 (min64 cpuChunks memChunks)
     in \<lparr>r_Type = ChunkTypeStandard,
         r_Count = (if count < 0 then 0 else count),
         r_PerChunk = [(ResourceCPU, q_New Q 2), (ResourceMemory, q_New Q stdMemBytes)]\<rparr>)"

definition sizeGPU :: "quantity_api \<Rightarrow> ResourceList \<Rightarrow> int \<Rightarrow> Result" where
  "sizeGPU Q advertised gpuCount =
    (let gpuCPUMilli = 4 * 1000;
         gpuMemBytes = 8 * 1024 * 1024 * 1024;
         cpuQty = rl_get advertised ResourceCPU;
         memQty = rl_get advertised ResourceMemory;
         cpuChunks = q_MilliValue Q cpuQty sdiv gpuCPUMilli;
         memChunks = q_Value Q memQty sdiv gpuMemBytes;
         count = int32 (min64 (min64 cpuChunks memChunks) gpuCount)
     in \<lparr>r_Type = ChunkTypeGPU,
         r_Count = (if count < 0 then 0 else count),
         r_PerChunk = [(ResourceCPU, q_New Q 4), (ResourceMemory, q_New Q gpuMemBytes),
                       (gpuResourceName, q_New Q 1)]\<rparr>)"

definition DefaultSizer_Size :: "quantity_api \<Rightarrow> Sizer" where
  "DefaultSizer_Size Q advertised =
    (let hasGPU = (map_of advertised gpuResourceName \<noteq> None);
         gpuCount = q_Value Q (rl_get advertised gpuResourceName)
     in if hasGPU \<and> gpuCount > 0 then [sizeGPU Q advertised gpuCount]
        else [sizeStandard Q advertised])"

section \<open>The sizer contract\<close>

text \<open>
  What the handlers assume of \<^verbatim>\<open>chunk.Sizer\<close>: at most one group per chunk type, a count that
  is a non-negative 32-bit integer and a non-empty per-chunk shape without negative amounts.
\<close>

locale sizer_contract =
  fixes size :: Sizer
  assumes count_range: "r \<in> set (size rl) \<Longrightarrow> 0 \<le> r_Count r \<and> is_int32 (r_Count r)"
    and shape: "r \<in> set (size rl) \<Longrightarrow> r_PerChunk r \<noteq> [] \<and> (\<forall>(k, q) \<in> set (r_PerChunk r). 0 < q)"
    and one_per_type: "distinct (map r_Type (size rl))"

lemma clamped_count: "0 \<le> (if int32 x < 0 then 0 else int32 x) \<and>
    is_int32 (if int32 x < 0 then 0 else int32 x)"
  using is_int32_int32 [of x] by (simp add: is_int32_def)

lemma is_int32_0 [simp]: "is_int32 0"
  by (simp add: is_int32_def)

lemma default_sizer_contract:
  assumes "quantity_laws Q"
  shows "sizer_contract (DefaultSizer_Size Q)"
proof -
  note New = quantity_laws.New_law [OF assms]
  have "r \<in> {sizeStandard Q rl} \<union> range (sizeGPU Q rl)" if "r \<in> set (DefaultSizer_Size Q rl)" for r rl
    using that by (auto simp: DefaultSizer_Size_def Let_def split: if_splits)
  moreover have "0 \<le> r_Count r \<and> is_int32 (r_Count r) \<and> r_PerChunk r \<noteq> [] \<and>
      (\<forall>(k, q) \<in> set (r_PerChunk r). 0 < q)"
    if "r \<in> {sizeStandard Q rl} \<union> range (sizeGPU Q rl)" for r rl
    using that clamped_count
    by (auto simp: sizeStandard_def sizeGPU_def Let_def New split: if_splits)
  ultimately show ?thesis
    by unfold_locales (blast, blast, simp add: DefaultSizer_Size_def Let_def)
qed

interpretation default_sizer: sizer_contract "DefaultSizer_Size exactQ"
  by (rule default_sizer_contract) (rule exact.quantity_laws_axioms)

section \<open>How many chunks fit\<close>

text \<open>\<open>n\<close> chunks of a box fit the advertised amounts, resource by resource.\<close>

definition fits :: "quantity_api \<Rightarrow> ResourceList \<Rightarrow> int \<Rightarrow> int \<Rightarrow> int \<Rightarrow> bool" where
  "fits Q rl cpuMilli memBytes n \<longleftrightarrow>
     n * cpuMilli \<le> q_MilliValue Q (rl_get rl ResourceCPU) \<and>
     n * memBytes \<le> q_Value Q (rl_get rl ResourceMemory)"

definition nonneg_amounts :: "quantity_api \<Rightarrow> ResourceList \<Rightarrow> bool" where
  "nonneg_amounts Q rl \<longleftrightarrow> 0 \<le> q_MilliValue Q (rl_get rl ResourceCPU) \<and>
     0 \<le> q_Value Q (rl_get rl ResourceMemory)"

lemma le_sdiv_iff: "0 \<le> a \<Longrightarrow> 0 < b \<Longrightarrow> n \<le> a sdiv b \<longleftrightarrow> n * b \<le> (a::int)"
proof -
  assume a: "0 \<le> a" and b: "0 < b"
  have "n \<le> a div b \<longleftrightarrow> n * b \<le> a"
  proof
    assume "n \<le> a div b"
    then have "n * b \<le> a div b * b" using b by simp
    also have "\<dots> = a - a mod b" by (simp add: minus_mod_eq_div_mult)
    also have "\<dots> \<le> a" using b by simp
    finally show "n * b \<le> a" .
  next
    assume "n * b \<le> a"
    then have "n * b div b \<le> a div b" using b by (rule zdiv_mono1)
    with b show "n \<le> a div b" by simp
  qed
  with a b show ?thesis by (simp add: sdiv_nonneg)
qed

text \<open>Before the conversion to 32 bits, the division counts exactly the chunks that fit.\<close>

lemma box_quotient:
  assumes "nonneg_amounts Q rl" and "0 < c" and "0 < m"
  shows "n \<le> min64 (q_MilliValue Q (rl_get rl ResourceCPU) sdiv c)
           (q_Value Q (rl_get rl ResourceMemory) sdiv m) \<longleftrightarrow> fits Q rl c m n"
  using assms by (auto simp: min64_def fits_def nonneg_amounts_def simp flip: le_sdiv_iff)

lemma clamped_exact:
  assumes "x < 2 ^ 31" and "0 \<le> x"
  shows "(if int32 x < 0 then 0 else int32 x) = x"
  using assms by (simp add: int32_id is_int32_def)

lemma quotient_range:
  assumes "nonneg_amounts Q rl" and "0 < c" and "0 < m"
    and "q_MilliValue Q (rl_get rl ResourceCPU) < 2 ^ 31 * c"
  shows "0 \<le> min64 (q_MilliValue Q (rl_get rl ResourceCPU) sdiv c)
           (q_Value Q (rl_get rl ResourceMemory) sdiv m)"
    and "min64 (q_MilliValue Q (rl_get rl ResourceCPU) sdiv c)
           (q_Value Q (rl_get rl ResourceMemory) sdiv m) < 2 ^ 31"
proof -
  show "0 \<le> min64 (q_MilliValue Q (rl_get rl ResourceCPU) sdiv c)
           (q_Value Q (rl_get rl ResourceMemory) sdiv m)"
    using assms(1-3) by (subst box_quotient) (auto simp: fits_def nonneg_amounts_def)
  have "\<not> fits Q rl c m (2 ^ 31)" using assms(4) by (simp add: fits_def)
  then show "min64 (q_MilliValue Q (rl_get rl ResourceCPU) sdiv c)
           (q_Value Q (rl_get rl ResourceMemory) sdiv m) < 2 ^ 31"
    using box_quotient [OF assms(1-3), of "2 ^ 31"] by linarith
qed

definition boxCPUMilli :: "ChunkType \<Rightarrow> int" where
  "boxCPUMilli t = (if t = ChunkTypeGPU then 4 * 1000 else 2 * 1000)"

definition boxMemBytes :: "ChunkType \<Rightarrow> int" where
  "boxMemBytes t = (if t = ChunkTypeGPU then 8 * 1024 * 1024 * 1024 else 4 * 1024 * 1024 * 1024)"

lemma sizeStandard_count:
  assumes "nonneg_amounts Q rl" and "q_MilliValue Q (rl_get rl ResourceCPU) < 2 ^ 31 * 2000"
  shows "n \<le> r_Count (sizeStandard Q rl) \<longleftrightarrow> fits Q rl 2000 (4 * 1024 * 1024 * 1024) n"
  using quotient_range [OF assms(1) _ _ assms(2), of "4 * 1024 * 1024 * 1024"]
    box_quotient [OF assms(1), of 2000 "4 * 1024 * 1024 * 1024" n]
  by (simp add: sizeStandard_def Let_def clamped_exact)

lemma sizeGPU_count:
  assumes "nonneg_amounts Q rl" and "q_MilliValue Q (rl_get rl ResourceCPU) < 2 ^ 31 * 4000"
    and "0 \<le> g"
  shows "n \<le> r_Count (sizeGPU Q rl g) \<longleftrightarrow> fits Q rl 4000 (8 * 1024 * 1024 * 1024) n \<and> n \<le> g"
proof -
  let ?q = "min64 (q_MilliValue Q (rl_get rl ResourceCPU) sdiv 4000)
    (q_Value Q (rl_get rl ResourceMemory) sdiv (8 * 1024 * 1024 * 1024))"
  have q: "0 \<le> ?q" "?q < 2 ^ 31"
    using quotient_range [OF assms(1) _ _ assms(2), of "8 * 1024 * 1024 * 1024"] by simp_all
  then have "0 \<le> min64 ?q g" "min64 ?q g < 2 ^ 31" using assms(3) by (simp_all add: min64_def)
  then have "r_Count (sizeGPU Q rl g) = min64 ?q g"
    by (simp add: sizeGPU_def Let_def clamped_exact)
  then show ?thesis
    using box_quotient [OF assms(1), of 4000 "8 * 1024 * 1024 * 1024" n]
    by (auto simp: min64_def split: if_splits)
qed

lemma sized_fits:
  assumes "nonneg_amounts Q rl" and "q_MilliValue Q (rl_get rl ResourceCPU) < 2 ^ 31 * 2000"
    and "r \<in> set (DefaultSizer_Size Q rl)"
  shows "n \<le> r_Count r \<longleftrightarrow>
    fits Q rl (boxCPUMilli (r_Type r)) (boxMemBytes (r_Type r)) n \<and>
    (r_Type r = ChunkTypeGPU \<longrightarrow> n \<le> q_Value Q (rl_get rl gpuResourceName))"
proof -
  let ?g = "q_Value Q (rl_get rl gpuResourceName)"
  consider "r = sizeGPU Q rl ?g" "0 < ?g" | "r = sizeStandard Q rl"
    using assms(3) by (auto simp: DefaultSizer_Size_def Let_def split: if_splits)
  then show ?thesis
  proof cases
    case 1
    with sizeGPU_count [OF assms(1), of ?g n] assms(2) show ?thesis
      by (auto simp: sizeGPU_def Let_def boxCPUMilli_def boxMemBytes_def)
  next
    case 2
    with sizeStandard_count [OF assms(1,2), of n] show ?thesis
      by (simp add: sizeStandard_def Let_def boxCPUMilli_def boxMemBytes_def)
  qed
qed

text \<open>
  C37. The number of chunks the sizer derives from an advertisement is exactly the largest
  number of identical boxes (2 cores and 4 GiB, or 4 cores, 8 GiB and one GPU) that fit the
  advertised amounts in every resource at once, for non-negative amounts below $2^{31}$
  chunks of cpu.
\<close>

theorem chunk_count_maximal:
  assumes "nonneg_amounts Q rl" and "q_MilliValue Q (rl_get rl ResourceCPU) < 2 ^ 31 * 2000"
    and "r \<in> set (DefaultSizer_Size Q rl)"
  shows "n \<le> r_Count r \<longleftrightarrow>
    fits Q rl (boxCPUMilli (r_Type r)) (boxMemBytes (r_Type r)) n \<and>
    (r_Type r = ChunkTypeGPU \<longrightarrow> n \<le> q_Value Q (rl_get rl gpuResourceName))"
  by (rule sized_fits [OF assms])

text \<open>Witness: 9 cores and 16 GiB make 4 standard chunks under exact quantities.\<close>

theorem chunk_count_maximal_witness:
  "(4::int) \<le> r_Count (sizeStandard exactQ [(ResourceCPU, 9), (ResourceMemory, 17179869184)])"
proof -
  let ?rl = "[(ResourceCPU, 9), (ResourceMemory, 17179869184)] :: ResourceList"
  have "nonneg_amounts exactQ ?rl" "q_MilliValue exactQ (rl_get ?rl ResourceCPU) < 2 ^ 31 * 2000"
    "sizeStandard exactQ ?rl \<in> set (DefaultSizer_Size exactQ ?rl)"
    by (simp_all add: nonneg_amounts_def rl_get_def exactQ_def DefaultSizer_Size_def Let_def)
  from chunk_count_maximal [OF this, of 4] show ?thesis
    by (simp add: sizeStandard_def Let_def fits_def rl_get_def exactQ_def boxCPUMilli_def
      boxMemBytes_def)
qed

end
