(* ===== verification/Pricing.thy ===== *)
theory Pricing
  imports Chunk
begin

text \<open>
  The ranking inputs of the placement policies: \<^verbatim>\<open>pricing.go\<close> (per-chunk cost),
  \<^verbatim>\<open>geo.go\<close> (great-circle distance) and the carbon score of \<^verbatim>\<open>nodegroups.go\<close>.
  \<^verbatim>\<open>float64\<close> arithmetic is exact arithmetic on real numbers here: rounding errors are not
  modelled.
\<close>

section \<open>Per-chunk cost\<close>

definition memBytesPerGiB :: real where
  "memBytesPerGiB = 1024 * 1024 * 1024"

definition perChunkResourcesWith :: "Sizer \<Rightarrow> ClusterAdvertisement \<Rightarrow> ResourceList" where
  "perChunkResourcesWith sizer cadv =
    (let results = sizer (ca_Allocatable (ca_Spec cadv))
     in case find (\<lambda>r. r_Type r = ca_ClusterType (ca_Spec cadv)) results of
          Some r \<Rightarrow> r_PerChunk r
        | None \<Rightarrow> (case results of r # _ \<Rightarrow> r_PerChunk r | [] \<Rightarrow> []))"

definition resourceUnits :: "quantity_api \<Rightarrow> string \<Rightarrow> Quantity \<Rightarrow> real" where
  "resourceUnits Q name qty =
    (if name = ResourceMemory then q_Float Q qty / memBytesPerGiB else q_Float Q qty)"

text \<open>The loop over the chunk's resources; the pair is Go's \<^verbatim>\<open>(cost, ok)\<close>.\<close>

fun costLoop :: "quantity_api \<Rightarrow> ResourceList \<Rightarrow> real \<Rightarrow> ResourceList \<Rightarrow> real \<times> bool" where
  "costLoop Q prices tot [] = (tot, True)"
| "costLoop Q prices tot ((name, qty) # rest) =
    (case map_of prices name of
       None \<Rightarrow> (0, False)
     | Some price \<Rightarrow>
         if q_Sign Q price < 0 then (0, False)
         else costLoop Q prices (tot + q_Float Q price * resourceUnits Q name qty) rest)"

definition perChunkCostWith :: "quantity_api \<Rightarrow> Sizer \<Rightarrow> ClusterAdvertisement \<Rightarrow> real \<times> bool" where
  "perChunkCostWith Q sizer cadv =
    (let prices = ca_UnitPrices (ca_Spec cadv)
     in if prices = [] then (0, False)
        else let perChunk = perChunkResourcesWith sizer cadv
             in if perChunk = [] then (0, False) else costLoop Q prices 0 perChunk)"

text \<open>
  Go's \<^verbatim>\<open>int64(f)\<close> truncates towards zero; values outside 64 bits are implementation-defined
  in Go and not modelled.
\<close>

definition float_to_int64 :: "real \<Rightarrow> int" where
  "float_to_int64 x = (if x < 0 then \<lceil>x\<rceil> else \<lfloor>x\<rfloor>)"

definition costQuantity :: "quantity_api \<Rightarrow> real \<Rightarrow> bool \<Rightarrow> Quantity option" where
  "costQuantity Q cost priced =
    (if \<not> priced then None else Some (q_NewMilli Q (float_to_int64 (cost * 1000))))"

subsection \<open>What the cost is\<close>

text \<open>A price list covers a shape when every resource has a non-negative price.\<close>

definition fully_priced :: "quantity_api \<Rightarrow> ResourceList \<Rightarrow> ResourceList \<Rightarrow> bool" where
  "fully_priced Q prices rl \<longleftrightarrow>
     (\<forall>(name, qty) \<in> set rl. \<exists>p. map_of prices name = Some p \<and> \<not> q_Sign Q p < 0)"

definition cost_sum :: "quantity_api \<Rightarrow> ResourceList \<Rightarrow> ResourceList \<Rightarrow> real" where
  "cost_sum Q prices rl =
     (\<Sum>(name, qty) \<leftarrow> rl. q_Float Q (rl_get prices name) * resourceUnits Q name qty)"

lemma costLoop_eq:
  "costLoop Q prices tot rl =
     (if fully_priced Q prices rl then (tot + cost_sum Q prices rl, True) else (0, False))"
  by (induction Q prices tot rl rule: costLoop.induct)
    (auto simp: fully_priced_def cost_sum_def rl_get_def split: option.splits)

text \<open>
  A provider is priced exactly when it publishes a non-negative price for every resource
  of its chunk, and then its cost is the sum of price times amount, which does not depend on
  the order in which the chunk's resource map is traversed.
\<close>

theorem cost_fully_priced:
  assumes "mset rl = mset (perChunkResourcesWith sizer cadv)"
  shows "perChunkCostWith Q sizer cadv =
    (if ca_UnitPrices (ca_Spec cadv) \<noteq> [] \<and> rl \<noteq> [] \<and> fully_priced Q (ca_UnitPrices (ca_Spec cadv)) rl
     then (cost_sum Q (ca_UnitPrices (ca_Spec cadv)) rl, True) else (0, False))"
proof -
  let ?rl = "perChunkResourcesWith sizer cadv" and ?p = "ca_UnitPrices (ca_Spec cadv)"
  have "set rl = set ?rl" "rl = [] \<longleftrightarrow> ?rl = []"
    using assms by (auto dest: mset_eq_setD)
  moreover have "cost_sum Q ?p rl = cost_sum Q ?p ?rl"
    by (simp only: cost_sum_def mset_map assms flip: sum_mset_sum_list)
  ultimately show ?thesis
    by (simp add: perChunkCostWith_def Let_def costLoop_eq fully_priced_def)
qed

lemma fully_priced_cost_nonneg:
  assumes "quantity_laws Q" and "fully_priced Q prices rl" and "\<forall>(k, q) \<in> set rl. 0 \<le> q"
  shows "0 \<le> cost_sum Q prices rl"
proof -
  note F = quantity_laws.Float_nonneg [OF assms(1)] and S = quantity_laws.Sign_law [OF assms(1)]
  have "0 \<le> q_Float Q (rl_get prices k) * resourceUnits Q k q" if "(k, q) \<in> set rl" for k q
  proof -
    from assms(2) that obtain p where "map_of prices k = Some p" "0 \<le> p"
      by (auto simp: fully_priced_def S split: if_splits)
    moreover have "0 \<le> q" using assms(3) that by auto
    ultimately show ?thesis
      by (auto simp: rl_get_def resourceUnits_def memBytesPerGiB_def F intro!: mult_nonneg_nonneg)
  qed
  then show ?thesis unfolding cost_sum_def by (intro sum_list_nonneg) auto
qed

text \<open>Witness: one core at 3 and two GiB at 5 per unit cost 13 whichever resource comes first.\<close>

theorem cost_fully_priced_witness:
  "perChunkCostWith exactQ (\<lambda>_. [\<lparr>r_Type = ChunkTypeStandard, r_Count = 1,
       r_PerChunk = [(ResourceCPU, 1), (ResourceMemory, 2147483648)]\<rparr>])
     \<lparr>ca_Meta = named_meta ''p'', ca_Spec = \<lparr>ca_ClusterID = ''p'', ca_LiqoClusterID = ''l'',
       ca_ClusterType = ChunkTypeStandard, ca_Allocatable = [], ca_Topology = None,
       ca_UnitPrices = [(ResourceCPU, 3), (ResourceMemory, 5)], ca_CarbonIntensity = None,
       ca_CarbonForecast = [], ca_CapacityScalePercent = [], ca_CapacityFixed = [],
       ca_Renewable = False, ca_ProbeEndpoint = ''''\<rparr>,
       ca_Status = zero_ClusterAdvertisementStatus\<rparr> = (13, True)"
  by (subst cost_fully_priced [where rl = "[(ResourceMemory, 2147483648), (ResourceCPU, 1)]"])
    (simp_all add: perChunkResourcesWith_def fully_priced_def cost_sum_def rl_get_def
      resourceUnits_def exactQ_def memBytesPerGiB_def)

section \<open>Carbon score\<close>

definition ecoWeights :: "real list" where
  "ecoWeights = [0.40, 0.25, 0.15, 0.10, 0.06, 0.04]"

definition ecoWeightedScore :: "real list \<Rightarrow> real \<times> bool" where
  "ecoWeightedScore forecast =
    (let n = min (length forecast) (length ecoWeights)
     in if n = 0 then (0, False)
        else (let sm = (\<Sum>i\<leftarrow>[0..<n]. ecoWeights ! i * forecast ! i);
                  wsum = (\<Sum>i\<leftarrow>[0..<n]. ecoWeights ! i)
              in (sm / wsum, True)))"

definition weightedCarbon :: "ClusterAdvertisement \<Rightarrow> real \<times> bool" where
  "weightedCarbon cadv =
    (case ecoWeightedScore (ca_CarbonForecast (ca_Spec cadv)) of
       (v, True) \<Rightarrow> (v, True)
     | (_, False) \<Rightarrow> (case ca_CarbonIntensity (ca_Spec cadv) of Some c \<Rightarrow> (c, True) | None \<Rightarrow> (0, False)))"

lemma ecoWeights_pos: "i < length ecoWeights \<Longrightarrow> 0 < ecoWeights ! i"
  by (auto simp: ecoWeights_def less_Suc_eq numeral_eq_Suc)

text \<open>A weighted mean with positive weights lies between the extremes.\<close>

lemma sum_list_pos:
  fixes w :: "nat \<Rightarrow> real"
  assumes "is \<noteq> []" and "\<And>i. i \<in> set is \<Longrightarrow> 0 < w i"
  shows "0 < (\<Sum>i\<leftarrow>is. w i)"
  using assms
proof (induction "is")
  case (Cons i "is")
  then show ?case by (cases "is = []") (auto intro: add_pos_pos)
qed simp

lemma weighted_mean_bounds:
  fixes w f :: "nat \<Rightarrow> real"
  assumes "is \<noteq> []" and "\<And>i. i \<in> set is \<Longrightarrow> 0 < w i" and "\<And>i. i \<in> set is \<Longrightarrow> lo \<le> f i \<and> f i \<le> hi"
  shows "lo \<le> (\<Sum>i\<leftarrow>is. w i * f i) / (\<Sum>i\<leftarrow>is. w i) \<and>
         (\<Sum>i\<leftarrow>is. w i * f i) / (\<Sum>i\<leftarrow>is. w i) \<le> hi"
proof -
  have W: "0 < (\<Sum>i\<leftarrow>is. w i)"
    using assms(1,2) by (intro sum_list_pos) auto
  have "(\<Sum>i\<leftarrow>is. w i * lo) \<le> (\<Sum>i\<leftarrow>is. w i * f i)" "(\<Sum>i\<leftarrow>is. w i * f i) \<le> (\<Sum>i\<leftarrow>is. w i * hi)"
    by (rule sum_list_mono, use assms(2,3) in \<open>simp add: mult_left_mono less_imp_le\<close>)+
  then show ?thesis
    using W by (simp add: sum_list_mult_const [of w] pos_le_divide_eq pos_divide_le_eq
        mult.commute [of _ "sum_list (map w is)"])
qed

text \<open>
  The eco score of a provider that publishes a forecast lies between the least and the
  greatest of its first six hourly values, whatever the length of the forecast; a single
  current value is used only when there is no forecast at all.
\<close>

theorem eco_score_bounds:
  assumes "ecoWeightedScore forecast = (v, True)"
    and "\<forall>x \<in> set (take 6 forecast). lo \<le> x \<and> x \<le> hi"
  shows "lo \<le> v \<and> v \<le> hi"
proof -
  let ?n = "min (length forecast) (length ecoWeights)"
  have len: "length ecoWeights = 6" by (simp add: ecoWeights_def)
  have n: "[0..<?n] \<noteq> []" and v: "v = (\<Sum>i\<leftarrow>[0..<?n]. ecoWeights ! i * forecast ! i) /
      (\<Sum>i\<leftarrow>[0..<?n]. ecoWeights ! i)"
    using assms(1) by (auto simp: ecoWeightedScore_def Let_def split: if_splits)
  have "lo \<le> forecast ! i \<and> forecast ! i \<le> hi" if "i \<in> set [0..<?n]" for i
    using assms(2) that len nth_mem [of i "take 6 forecast"] by auto
  with weighted_mean_bounds [OF n, of "(!) ecoWeights" lo "(!) forecast" hi] ecoWeights_pos show ?thesis
    by (simp add: v)
qed

theorem eco_score_bounds_witness:
  "100 \<le> fst (ecoWeightedScore [100, 300]) \<and> fst (ecoWeightedScore [100, 300]) \<le> 300"
proof -
  have "ecoWeightedScore [100, 300] = (fst (ecoWeightedScore [100, 300]), True)"
    by (simp add: ecoWeightedScore_def ecoWeights_def Let_def)
  from eco_score_bounds [OF this, of 100 300] show ?thesis by simp
qed

section \<open>Great-circle distance\<close>

definition earthRadiusKm :: real where
  "earthRadiusKm = 6371"

text \<open>Go's \<^verbatim>\<open>math.Atan2\<close>.\<close>

definition atan2 :: "real \<Rightarrow> real \<Rightarrow> real" where
  "atan2 y x = (if x > 0 then arctan (y / x)
     else if x < 0 then (if y \<ge> 0 then arctan (y / x) + pi else arctan (y / x) - pi)
     else if y > 0 then pi / 2 else if y < 0 then - (pi / 2) else 0)"

definition toRad :: "real \<Rightarrow> real" where
  "toRad deg = deg * pi / 180"

definition HaversineKm :: "real \<Rightarrow> real \<Rightarrow> real \<Rightarrow> real \<Rightarrow> real" where
  "HaversineKm lat1 lon1 lat2 lon2 =
    (let phi1 = toRad lat1; phi2 = toRad lat2;
         dPhi = toRad (lat2 - lat1);
         dLambda = toRad (lon2 - lon1);
         a = sin (dPhi / 2) * sin (dPhi / 2) +
             cos phi1 * cos phi2 * sin (dLambda / 2) * sin (dLambda / 2);
         c = 2 * atan2 (sqrt a) (sqrt (1 - a))
     in earthRadiusKm * c)"

lemma atan2_nonneg:
  assumes "0 \<le> y" and "0 \<le> x"
  shows "0 \<le> atan2 y x \<and> atan2 y x \<le> pi / 2"
  using assms arctan_ubound [of "y / x"] by (auto simp: atan2_def)

text \<open>The haversine of the central angle is a number between 0 and 1.\<close>

lemma cos_lat_nonneg: "\<bar>lat\<bar> \<le> 90 \<Longrightarrow> 0 \<le> cos (toRad lat)"
proof -
  assume "\<bar>lat\<bar> \<le> 90"
  then have "\<bar>toRad lat\<bar> \<le> pi / 2" by (simp add: toRad_def abs_mult)
  then show ?thesis by (intro cos_ge_zero) (auto simp: abs_le_iff)
qed

lemma toRad_diff: "toRad (x - y) = toRad x - toRad y"
  by (simp add: toRad_def left_diff_distrib diff_divide_distrib)

lemma haversine_range:
  fixes lat1 lat2 d :: real
  assumes "\<bar>lat1\<bar> \<le> 90" and "\<bar>lat2\<bar> \<le> 90"
  defines "a \<equiv> sin (toRad (lat2 - lat1) / 2) * sin (toRad (lat2 - lat1) / 2) +
             cos (toRad lat1) * cos (toRad lat2) * sin d * sin d"
  shows "0 \<le> a \<and> a \<le> 1"
proof -
  let ?p = "cos (toRad lat1) * cos (toRad lat2)" and ?h = "toRad (lat2 - lat1) / 2"
  have p: "0 \<le> ?p" using cos_lat_nonneg assms(1,2) by simp
  have a: "a = (sin ?h)\<^sup>2 + ?p * (sin d)\<^sup>2"
    by (simp add: a_def power2_eq_square)
  have "2 * ?p = cos (toRad lat2 - toRad lat1) + cos (toRad lat2 + toRad lat1)"
    by (simp add: cos_diff cos_add)
  also have "\<dots> \<le> cos (toRad lat2 - toRad lat1) + 1" by simp
  also have "cos (toRad lat2 - toRad lat1) = 1 - 2 * (sin ?h)\<^sup>2"
  proof -
    have "2 * ?h = toRad lat2 - toRad lat1" by (simp add: toRad_diff)
    then show ?thesis using cos_double_sin [of ?h] by (simp only:)
  qed
  finally have "?p \<le> 1 - (sin ?h)\<^sup>2" by simp
  moreover have "?p * (sin d)\<^sup>2 \<le> ?p" using p by (intro mult_left_le) (simp_all add: abs_square_le_1)
  ultimately show ?thesis using p by (simp add: a)
qed

text \<open>
  The distance used by the latency policy behaves as a distance on the globe: it does not
  depend on the direction, a provider at the consumer's own coordinates is at distance 0,
  and for latitudes in range it lies between 0 and half the circumference.
\<close>

theorem haversine_distance:
  assumes "\<bar>lat1\<bar> \<le> 90" and "\<bar>lat2\<bar> \<le> 90"
  shows "HaversineKm lat1 lon1 lat2 lon2 = HaversineKm lat2 lon2 lat1 lon1 \<and>
    HaversineKm lat1 lon1 lat1 lon1 = 0 \<and>
    0 \<le> HaversineKm lat1 lon1 lat2 lon2 \<and> HaversineKm lat1 lon1 lat2 lon2 \<le> pi * earthRadiusKm"
proof -
  have neg: "toRad (x - y) / 2 = - (toRad (y - x) / 2)" for x y
    by (simp add: toRad_def field_simps)
  have sym: "HaversineKm lat1 lon1 lat2 lon2 = HaversineKm lat2 lon2 lat1 lon1"
    unfolding HaversineKm_def Let_def neg [of lat2] neg [of lon2] by (simp add: mult.commute mult.left_commute)
  have zero: "HaversineKm lat1 lon1 lat1 lon1 = 0"
    by (simp add: HaversineKm_def toRad_def atan2_def)
  let ?a = "sin (toRad (lat2 - lat1) / 2) * sin (toRad (lat2 - lat1) / 2) +
    cos (toRad lat1) * cos (toRad lat2) * sin (toRad (lon2 - lon1) / 2) * sin (toRad (lon2 - lon1) / 2)"
  have "0 \<le> ?a \<and> ?a \<le> 1" using haversine_range [OF assms] by simp
  then have "0 \<le> atan2 (sqrt ?a) (sqrt (1 - ?a)) \<and> atan2 (sqrt ?a) (sqrt (1 - ?a)) \<le> pi / 2"
    by (intro atan2_nonneg) simp_all
  then show ?thesis
    using sym zero by (simp add: HaversineKm_def Let_def earthRadiusKm_def)
qed

theorem haversine_distance_witness:
  "HaversineKm 45 7 48 2 = HaversineKm 48 2 45 7 \<and> 0 \<le> HaversineKm 45 7 48 2"
  using haversine_distance [of 45 48 7 2] by simp

end
