(* ===== verification/Registry.thy ===== *)
theory Registry
  imports ApiTypes
begin

text \<open>
  \<^verbatim>\<open>internal/broker/api/registry.go\<close> and \<^verbatim>\<open>heartbeat.go\<close>: the in-memory registry of consumers
  and the heartbeat handler that fills it. The mutex-protected Go map is an association list
  keyed by cluster ID; every method is one atomic step on it.
\<close>

section \<open>Consumer registry\<close>

record PlacementPolicy =
  pp_Type :: PlacementStrategy

record ConsumerEntry =
  ce_ClusterID :: string
  ce_LiqoClusterID :: string
  ce_LastSeen :: Time
  ce_Placement :: PlacementPolicy
  ce_Region :: string
  ce_City :: string
  ce_MeasuredLatencies :: "(string \<times> real) list"
  ce_ChosenProvider :: string
  ce_DecidedBy :: string
  ce_Latitude :: real
  ce_Longitude :: real
  ce_HasLocation :: bool

definition zero_ConsumerEntry :: ConsumerEntry where
  "zero_ConsumerEntry = \<lparr>ce_ClusterID = '''', ce_LiqoClusterID = '''', ce_LastSeen = 0,
     ce_Placement = \<lparr>pp_Type = ''''\<rparr>, ce_Region = '''', ce_City = '''',
     ce_MeasuredLatencies = [], ce_ChosenProvider = '''', ce_DecidedBy = '''',
     ce_Latitude = 0, ce_Longitude = 0, ce_HasLocation = False\<rparr>"

type_synonym ConsumerRegistry = "(string \<times> ConsumerEntry) list"

definition NewConsumerRegistry :: ConsumerRegistry where
  "NewConsumerRegistry = []"

definition Touch :: "Time \<Rightarrow> ConsumerRegistry \<Rightarrow> string \<Rightarrow> string \<Rightarrow> PlacementPolicy \<Rightarrow>
    string \<Rightarrow> string \<Rightarrow> real option \<Rightarrow> real option \<Rightarrow> ConsumerRegistry" where
  "Touch now r clusterID liqoClusterID placement region city lat lon =
    (let entry = zero_ConsumerEntry\<lparr>ce_ClusterID := clusterID, ce_LiqoClusterID := liqoClusterID,
           ce_LastSeen := now, ce_Placement := placement, ce_Region := region, ce_City := city\<rparr>;
         entry = (case (lat, lon) of
             (Some la, Some lo) \<Rightarrow> entry\<lparr>ce_Latitude := la, ce_Longitude := lo, ce_HasLocation := True\<rparr>
           | _ \<Rightarrow> entry)
     in AList.update clusterID entry r)"

definition SetDecision :: "ConsumerRegistry \<Rightarrow> string \<Rightarrow> (string \<times> real) list \<Rightarrow> string \<Rightarrow> string \<Rightarrow>
    ConsumerRegistry" where
  "SetDecision r clusterID rtts chosen decidedBy =
    (case map_of r clusterID of
       None \<Rightarrow> r
     | Some entry \<Rightarrow> AList.update clusterID (entry\<lparr>ce_MeasuredLatencies := rtts,
         ce_ChosenProvider := chosen, ce_DecidedBy := decidedBy\<rparr>) r)"

definition Lookup :: "ConsumerRegistry \<Rightarrow> string \<Rightarrow> ConsumerEntry \<times> bool" where
  "Lookup r clusterID = (case map_of r clusterID of
     Some e \<Rightarrow> (e, True) | None \<Rightarrow> (zero_ConsumerEntry, False))"

definition Snapshot :: "ConsumerRegistry \<Rightarrow> ConsumerEntry list" where
  "Snapshot r = sort_key ce_ClusterID (map snd r)"

section \<open>Heartbeats\<close>

record HeartbeatRequest =
  hb_ClusterID :: string
  hb_LiqoClusterID :: string
  hb_Placement :: "PlacementPolicy option"
  hb_Region :: string
  hb_City :: string
  hb_Latitude :: "real option"
  hb_Longitude :: "real option"
  hb_MeasuredLatencies :: "(string \<times> real) list"
  hb_ChosenProvider :: string
  hb_DecidedBy :: string

record HeartbeatResponse =
  hr_AckAt :: Time

abbreviation DecidedByLocal :: string where "DecidedByLocal \<equiv> ''local''"

definition validateHeartbeatRequest :: "HeartbeatRequest \<Rightarrow> message option" where
  "validateHeartbeatRequest req =
    (if hb_ClusterID req = '''' then Some (text_msg ''clusterId is required'')
     else if hb_LiqoClusterID req = '''' then Some (text_msg ''liqoClusterId is required'')
     else if hb_DecidedBy req \<noteq> '''' \<and> hb_DecidedBy req \<noteq> DecidedByLocal then
       Some (Sprintf ''decidedBy must be empty or %q, got %q'' [AStr DecidedByLocal, AStr (hb_DecidedBy req)])
     else None)"

text \<open>
  \<open>clusterID\<close> is the identity the middleware took from the client certificate; \<open>body\<close> is the
  outcome of decoding the JSON body.
\<close>

definition handleHeartbeat :: "Time \<Rightarrow> string \<Rightarrow> message + HeartbeatRequest \<Rightarrow> ConsumerRegistry \<Rightarrow>
    HeartbeatResponse response \<times> ConsumerRegistry" where
  "handleHeartbeat now clusterID body consumers =
    (case body of
       Inl err \<Rightarrow> (writeError 400 InvalidRequest err, consumers)
     | Inr req \<Rightarrow>
        (case validateHeartbeatRequest req of
           Some err \<Rightarrow> (writeError 400 InvalidRequest err, consumers)
         | None \<Rightarrow>
            if hb_ClusterID req \<noteq> clusterID then
              (writeError 403 Forbidden (Sprintf ''body.clusterId %q does not match certificate CN %q''
                 [AStr (hb_ClusterID req), AStr clusterID]), consumers)
            else
              (let placement = (case hb_Placement req of Some p \<Rightarrow> p | None \<Rightarrow> \<lparr>pp_Type = ''''\<rparr>);
                   consumers = Touch now consumers (hb_ClusterID req) (hb_LiqoClusterID req) placement
                     (hb_Region req) (hb_City req) (hb_Latitude req) (hb_Longitude req);
                   consumers = SetDecision consumers (hb_ClusterID req) (hb_MeasuredLatencies req)
                     (hb_ChosenProvider req) (hb_DecidedBy req)
               in (writeJSON 200 \<lparr>hr_AckAt = now\<rparr>, consumers))))"

section \<open>Registry invariant\<close>

definition registry_ok :: "ConsumerRegistry \<Rightarrow> bool" where
  "registry_ok r \<longleftrightarrow> distinct (map fst r) \<and> (\<forall>(k, e) \<in> set r. ce_ClusterID e = k)"

lemma registry_ok_new [simp]: "registry_ok NewConsumerRegistry"
  by (simp add: registry_ok_def NewConsumerRegistry_def)

lemma set_update_subset: "set (AList.update k v xs) \<subseteq> insert (k, v) (set xs)"
  by (induction xs) auto

lemma registry_ok_update:
  "registry_ok r \<Longrightarrow> ce_ClusterID e = k \<Longrightarrow> registry_ok (AList.update k e r)"
  using set_update_subset [of k e r] by (auto simp: registry_ok_def distinct_update)

lemma registry_ok_lookup: "registry_ok r \<Longrightarrow> map_of r k = Some e \<Longrightarrow> ce_ClusterID e = k"
  by (auto simp: registry_ok_def dest: map_of_SomeD)

lemma registry_ok_Touch: "registry_ok r \<Longrightarrow> registry_ok (Touch now r c l p rg ct la lo)"
  by (auto simp: Touch_def Let_def intro!: registry_ok_update split: option.splits)

lemma registry_ok_SetDecision: "registry_ok r \<Longrightarrow> registry_ok (SetDecision r c rtts ch d)"
  by (auto simp: SetDecision_def intro!: registry_ok_update dest: registry_ok_lookup
      split: option.splits)

lemma Lookup_Touch_other: "c \<noteq> c' \<Longrightarrow> Lookup (Touch now r c l p rg ct la lo) c' = Lookup r c'"
  by (simp add: Lookup_def Touch_def Let_def update_conv')

lemma Lookup_SetDecision_other: "c \<noteq> c' \<Longrightarrow> Lookup (SetDecision r c rtts ch d) c' = Lookup r c'"
  by (simp add: Lookup_def SetDecision_def update_conv' split: option.splits)

text \<open>A snapshot of a well-formed registry lists each entry once, ordered by cluster ID.\<close>

lemma Snapshot_ok:
  assumes "registry_ok r"
  shows "sorted (map ce_ClusterID (Snapshot r))" and "distinct (map ce_ClusterID (Snapshot r))"
    and "set (Snapshot r) = snd ` set r"
proof -
  show "sorted (map ce_ClusterID (Snapshot r))" by (simp add: Snapshot_def)
  show "set (Snapshot r) = snd ` set r" by (simp add: Snapshot_def)
  have "map (\<lambda>x. ce_ClusterID (snd x)) r = map fst r"
    using assms by (auto simp: registry_ok_def)
  moreover have "distinct (map fst r)" using assms by (simp add: registry_ok_def)
  ultimately have "distinct (map ce_ClusterID (map snd r))"
    by (simp only: list.map_comp comp_def)
  then show "distinct (map ce_ClusterID (Snapshot r))"
    unfolding Snapshot_def
    by (metis mset_map mset_sort mset_eq_imp_distinct_iff)
qed

lemma Lookup_in_Snapshot: "registry_ok r \<Longrightarrow> Lookup r c = (e, True) \<Longrightarrow> e \<in> set (Snapshot r)"
  by (force simp: Lookup_def Snapshot_ok dest!: map_of_SomeD split: option.splits)

lemma handleHeartbeat_ok:
  assumes "handleHeartbeat now caller (Inr req) r = (writeJSON 200 ack, r')"
  shows "r' = SetDecision (Touch now r caller (hb_LiqoClusterID req)
      (case hb_Placement req of Some p \<Rightarrow> p | None \<Rightarrow> \<lparr>pp_Type = ''''\<rparr>) (hb_Region req) (hb_City req)
      (hb_Latitude req) (hb_Longitude req)) caller (hb_MeasuredLatencies req)
      (hb_ChosenProvider req) (hb_DecidedBy req)"
  using assms by (auto simp: handleHeartbeat_def Let_def split: option.splits if_splits)

section \<open>Properties\<close>

text \<open>
  A heartbeat can change no registry entry but that of the cluster named by the client
  certificate: whatever the body claims, the entry of any other consumer is untouched, and a
  refused heartbeat changes nothing at all.
\<close>

theorem heartbeat_only_own_entry:
  assumes "handleHeartbeat now caller body r = (resp, r')"
  shows "(other \<noteq> caller \<longrightarrow> Lookup r' other = Lookup r other) \<and>
         (response_status resp \<noteq> 200 \<longrightarrow> r' = r)"
  using assms
  by (auto simp: handleHeartbeat_def Let_def Lookup_Touch_other Lookup_SetDecision_other
      split: sum.splits option.splits if_splits)

theorem heartbeat_only_own_entry_witness:
  "Lookup (snd (handleHeartbeat 7 ''c1'' (Inr \<lparr>hb_ClusterID = ''c2'', hb_LiqoClusterID = ''l'',
     hb_Placement = None, hb_Region = '''', hb_City = '''', hb_Latitude = None, hb_Longitude = None,
     hb_MeasuredLatencies = [], hb_ChosenProvider = '''', hb_DecidedBy = ''''\<rparr>) [])) ''c2''
   = Lookup [] ''c2''"
proof -
  let ?b = "Inr \<lparr>hb_ClusterID = ''c2'', hb_LiqoClusterID = ''l'',
     hb_Placement = None, hb_Region = '''', hb_City = '''', hb_Latitude = None, hb_Longitude = None,
     hb_MeasuredLatencies = [], hb_ChosenProvider = '''', hb_DecidedBy = ''''\<rparr> :: message + HeartbeatRequest"
  show ?thesis
    using heartbeat_only_own_entry [of 7 "''c1''" ?b "[]"
      "fst (handleHeartbeat 7 ''c1'' ?b [])" "snd (handleHeartbeat 7 ''c1'' ?b [])" "''c2''"]
    by simp
qed

text \<open>
  An accepted heartbeat is readable back: the caller's entry then carries the Liqo ID,
  policy and decision it sent, it has a location exactly when both coordinates were sent,
  and the registry stays well formed, so a snapshot lists every consumer once, in the order
  of the cluster IDs.
\<close>

theorem heartbeat_roundtrip:
  assumes "registry_ok r" and "handleHeartbeat now caller (Inr req) r = (writeJSON 200 ack, r')"
  shows "registry_ok r' \<and> sorted (map ce_ClusterID (Snapshot r')) \<and>
    distinct (map ce_ClusterID (Snapshot r')) \<and>
    (\<exists>e. Lookup r' caller = (e, True) \<and> e \<in> set (Snapshot r') \<and>
       ce_LiqoClusterID e = hb_LiqoClusterID req \<and> ce_LastSeen e = now \<and>
       ce_Placement e = (case hb_Placement req of Some p \<Rightarrow> p | None \<Rightarrow> \<lparr>pp_Type = ''''\<rparr>) \<and>
       ce_DecidedBy e = hb_DecidedBy req \<and> ce_ChosenProvider e = hb_ChosenProvider req \<and>
       (ce_HasLocation e \<longleftrightarrow> hb_Latitude req \<noteq> None \<and> hb_Longitude req \<noteq> None))"
proof -
  note r' = handleHeartbeat_ok [OF assms(2)]
  have ok: "registry_ok r'"
    unfolding r' by (intro registry_ok_SetDecision registry_ok_Touch assms(1))
  have "\<exists>e. Lookup r' caller = (e, True) \<and>
       ce_LiqoClusterID e = hb_LiqoClusterID req \<and> ce_LastSeen e = now \<and>
       ce_Placement e = (case hb_Placement req of Some p \<Rightarrow> p | None \<Rightarrow> \<lparr>pp_Type = ''''\<rparr>) \<and>
       ce_DecidedBy e = hb_DecidedBy req \<and> ce_ChosenProvider e = hb_ChosenProvider req \<and>
       (ce_HasLocation e \<longleftrightarrow> hb_Latitude req \<noteq> None \<and> hb_Longitude req \<noteq> None)"
    unfolding r'
    by (auto simp: Lookup_def SetDecision_def Touch_def Let_def update_conv' zero_ConsumerEntry_def
        split: option.splits)
  with ok Snapshot_ok [OF ok] Lookup_in_Snapshot [OF ok] show ?thesis by blast
qed

theorem heartbeat_roundtrip_witness:
  "\<exists>e. Lookup (snd (handleHeartbeat 7 ''c1'' (Inr \<lparr>hb_ClusterID = ''c1'', hb_LiqoClusterID = ''l1'',
     hb_Placement = Some \<lparr>pp_Type = ''Price''\<rparr>, hb_Region = '''', hb_City = '''', hb_Latitude = Some 45,
     hb_Longitude = Some 7, hb_MeasuredLatencies = [], hb_ChosenProvider = '''', hb_DecidedBy = ''''\<rparr>)
     NewConsumerRegistry)) ''c1'' = (e, True) \<and> ce_HasLocation e"
proof -
  let ?b = "\<lparr>hb_ClusterID = ''c1'', hb_LiqoClusterID = ''l1'',
     hb_Placement = Some \<lparr>pp_Type = ''Price''\<rparr>, hb_Region = '''', hb_City = '''', hb_Latitude = Some 45,
     hb_Longitude = Some 7, hb_MeasuredLatencies = [], hb_ChosenProvider = '''', hb_DecidedBy = ''''\<rparr>"
  have "handleHeartbeat 7 ''c1'' (Inr ?b) NewConsumerRegistry = (writeJSON 200 \<lparr>hr_AckAt = 7\<rparr>,
      snd (handleHeartbeat 7 ''c1'' (Inr ?b) NewConsumerRegistry))"
    by (simp add: handleHeartbeat_def validateHeartbeatRequest_def Let_def)
  from heartbeat_roundtrip [OF registry_ok_new this] show ?thesis by auto
qed

end
