(* ===== verification/Placement.thy ===== *)
theory Placement
  imports Pricing Registry
begin

text \<open>
  \<^verbatim>\<open>placement.go\<close> and the masking policies of \<^verbatim>\<open>nodegroups.go\<close>: projecting advertisements
  onto node-group views and narrowing, within each chunk type, which provider the consumer's
  Cluster Autoscaler may grow. The policies differ only in how they decide what to keep
  growable in one chunk type; the locale \<open>group_policy\<close> captures the part they share.
\<close>

section \<open>Node-group views\<close>

text \<open>The Broker never fills \<^verbatim>\<open>Labels\<close> and \<^verbatim>\<open>Taints\<close>; the gRPC server reads them.\<close>

record NodeGroupView =
  ng_ID :: string
  ng_ProviderClusterID :: string
  ng_ProviderLiqoClusterID :: string
  ng_Type :: ChunkType
  ng_MinSize :: int
  ng_MaxSize :: int
  ng_CurrentReserved :: int
  ng_ChunkResources :: ResourceList
  ng_Cost :: "Quantity option"
  ng_Topology :: "Topology option"
  ng_ProbeEndpoint :: string
  ng_PlacementMetric :: real
  ng_HasMetric :: bool
  ng_CarbonIntensity :: "real option"
  ng_UnitPrices :: ResourceList
  ng_Labels :: "(string \<times> string) list"
  ng_Taints :: "Taint list"

record NodeGroupListResponse =
  nl_NodeGroups :: "NodeGroupView list"
  nl_LatencyShortlist :: bool
  nl_AppliedPlacement :: PlacementStrategy
  nl_Generation :: int
  nl_ServedAt :: Time
  nl_CacheAgeSeconds :: int

definition lower_char :: "char \<Rightarrow> char" where
  "lower_char c = (if (of_char c :: nat) \<in> {65..90} then char_of ((of_char c :: nat) + 32) else c)"

definition nodeGroupID :: "string \<Rightarrow> ChunkType \<Rightarrow> string" where
  "nodeGroupID providerClusterID chunkType =
     ''ng-'' @ providerClusterID @ ''-'' @ map lower_char chunkType"

definition nodeGroupView ::
  "quantity_api \<Rightarrow> Sizer \<Rightarrow> ClusterAdvertisement \<Rightarrow> real \<Rightarrow> bool \<Rightarrow> NodeGroupView" where
  "nodeGroupView Q sizer cadv cost priced =
    \<lparr>ng_ID = nodeGroupID (ca_ClusterID (ca_Spec cadv)) (ca_ClusterType (ca_Spec cadv)),
     ng_ProviderClusterID = ca_ClusterID (ca_Spec cadv),
     ng_ProviderLiqoClusterID = ca_LiqoClusterID (ca_Spec cadv),
     ng_Type = ca_ClusterType (ca_Spec cadv),
     ng_MinSize = 0,
     ng_MaxSize = ca_TotalChunks (ca_Status cadv),
     ng_CurrentReserved = ca_ReservedChunks (ca_Status cadv),
     ng_ChunkResources = perChunkResourcesWith sizer cadv,
     ng_Cost = costQuantity Q cost priced,
     ng_Topology = ca_Topology (ca_Spec cadv),
     ng_ProbeEndpoint = ca_ProbeEndpoint (ca_Spec cadv),
     ng_PlacementMetric = 0,
     ng_HasMetric = False,
     ng_CarbonIntensity = ca_CarbonIntensity (ca_Spec cadv),
     ng_UnitPrices = ca_UnitPrices (ca_Spec cadv),
     ng_Labels = [], ng_Taints = []\<rparr>"

text \<open>The head-room test of every policy: \<^verbatim>\<open>MaxSize - CurrentReserved > 0\<close> on 32 bits.\<close>

definition headroom :: "NodeGroupView \<Rightarrow> bool" where
  "headroom v \<longleftrightarrow> int32 (ng_MaxSize v - ng_CurrentReserved v) > 0"

definition masked :: "NodeGroupView \<Rightarrow> NodeGroupView" where
  "masked v = v\<lparr>ng_MaxSize := ng_CurrentReserved v\<rparr>"

definition maskAt :: "nat \<Rightarrow> NodeGroupView list \<Rightarrow> NodeGroupView list" where
  "maskAt i vs = vs[i := masked (vs ! i)]"

definition idxsOfType :: "NodeGroupView list \<Rightarrow> ChunkType \<Rightarrow> nat list" where
  "idxsOfType vs t = filter (\<lambda>i. ng_Type (vs ! i) = t) [0..<length vs]"

definition groupTypes :: "NodeGroupView list \<Rightarrow> ChunkType list" where
  "groupTypes vs = remdups (map ng_Type vs)"

section \<open>Masking one chunk type after the other\<close>

text \<open>
  A policy decides for a chunk type either to leave it alone (\<open>None\<close>) or which positions to
  keep; all others of the type are masked. \<open>ts\<close> is the order in which Go ranges over the
  map from types to positions.
\<close>

type_synonym decision = "NodeGroupView list \<Rightarrow> ChunkType \<Rightarrow> nat list option"

definition maskAllBut :: "nat list \<Rightarrow> nat list \<Rightarrow> NodeGroupView list \<Rightarrow> NodeGroupView list" where
  "maskAllBut keep idxs vs = fold (\<lambda>i vs. if i \<in> set keep then vs else maskAt i vs) idxs vs"

definition maskGroup :: "decision \<Rightarrow> ChunkType \<Rightarrow> NodeGroupView list \<Rightarrow> NodeGroupView list" where
  "maskGroup decide t vs = (case decide vs t of None \<Rightarrow> vs
     | Some keep \<Rightarrow> maskAllBut keep (idxsOfType vs t) vs)"

definition maskByType :: "decision \<Rightarrow> ChunkType list \<Rightarrow> NodeGroupView list \<Rightarrow> NodeGroupView list" where
  "maskByType decide ts vs = fold (maskGroup decide) ts vs"

subsection \<open>Metric policies: Price, Eco, Standard\<close>

datatype scan = Chosen nat | BlockAll | LeaveAsIs

fun scanOrder :: "NodeGroupView list \<Rightarrow> (string \<Rightarrow> bool) \<Rightarrow> nat list \<Rightarrow> scan" where
  "scanOrder vs inflight [] = LeaveAsIs"
| "scanOrder vs inflight (i # rest) =
    (if headroom (vs ! i) then Chosen i
     else if inflight (ng_ProviderClusterID (vs ! i)) then BlockAll
     else scanOrder vs inflight rest)"

definition metricOrder ::
  "NodeGroupView list \<Rightarrow> real list \<Rightarrow> bool list \<Rightarrow> ChunkType \<Rightarrow> nat list" where
  "metricOrder vs metric has t =
     sort_key (\<lambda>i. (metric ! i, ng_ProviderClusterID (vs ! i)))
       (filter (\<lambda>i. has ! i) (idxsOfType vs t))"

definition metricDecision :: "real list \<Rightarrow> bool list \<Rightarrow> (string \<Rightarrow> bool) \<Rightarrow> decision" where
  "metricDecision metric has inflight vs t =
    (case scanOrder vs inflight (metricOrder vs metric has t) of
       BlockAll \<Rightarrow> Some [] | Chosen c \<Rightarrow> Some [c] | LeaveAsIs \<Rightarrow> None)"

definition applyMetricPreference ::
  "NodeGroupView list \<Rightarrow> real list \<Rightarrow> bool list \<Rightarrow> (string \<Rightarrow> bool) \<Rightarrow> NodeGroupView list" where
  "applyMetricPreference views metric has inflight =
     maskByType (metricDecision metric has inflight) (groupTypes views) views"

definition applyPricePreference ::
  "NodeGroupView list \<Rightarrow> real list \<Rightarrow> bool list \<Rightarrow> (string \<Rightarrow> bool) \<Rightarrow> NodeGroupView list" where
  "applyPricePreference views costs priced inflight =
     applyMetricPreference views costs priced inflight"

definition applyEcoPreference ::
  "NodeGroupView list \<Rightarrow> real list \<Rightarrow> bool list \<Rightarrow> (string \<Rightarrow> bool) \<Rightarrow> NodeGroupView list" where
  "applyEcoPreference views carbons hasCarbon inflight =
     applyMetricPreference views carbons hasCarbon inflight"

definition standardMetric :: "ClusterAdvertisement \<Rightarrow> real" where
  "standardMetric cadv =
    (let tot = ca_TotalChunks (ca_Status cadv);
         free = (if tot > 0
           then real_of_int (max (int32 (tot - ca_ReservedChunks (ca_Status cadv))) 0) / real_of_int tot
           else 0);
         renewable = (if ca_Renewable (ca_Spec cadv) then 1 else 0);
         score = 0.8 * free + 0.2 * renewable
     in 1 - score)"

definition applyStandardPreference ::
  "NodeGroupView list \<Rightarrow> ClusterAdvertisement list \<Rightarrow> (string \<Rightarrow> bool) \<Rightarrow> NodeGroupView list" where
  "applyStandardPreference views avail inflight =
     applyMetricPreference views (map standardMetric avail) (map (\<lambda>_. True) avail) inflight"

subsection \<open>Random\<close>

text \<open>\<open>intn t n\<close> is the value of \<^verbatim>\<open>rand.Intn(n)\<close> drawn for chunk type \<open>t\<close>.\<close>

definition randomDecision :: "(ChunkType \<Rightarrow> nat \<Rightarrow> nat) \<Rightarrow> (string \<Rightarrow> bool) \<Rightarrow> decision" where
  "randomDecision intn inflight vs t =
    (let idxs = idxsOfType vs t;
         withCapacity = filter (\<lambda>i. headroom (vs ! i)) idxs;
         hasInflight = (\<exists>i \<in> set idxs. \<not> headroom (vs ! i) \<and> inflight (ng_ProviderClusterID (vs ! i)))
     in if length withCapacity = 0 \<and> hasInflight then Some []
        else if length withCapacity > 0 then Some [withCapacity ! intn t (length withCapacity)]
        else None)"

definition applyRandomPreference ::
  "(ChunkType \<Rightarrow> nat \<Rightarrow> nat) \<Rightarrow> NodeGroupView list \<Rightarrow> (string \<Rightarrow> bool) \<Rightarrow> NodeGroupView list" where
  "applyRandomPreference intn views inflight =
     maskByType (randomDecision intn inflight) (groupTypes views) views"

subsection \<open>Latency\<close>

definition latencyShortlistSize :: nat where
  "latencyShortlistSize = 3"

fun shortlist :: "NodeGroupView list \<Rightarrow> (string \<Rightarrow> bool) \<Rightarrow> nat \<Rightarrow> nat list \<Rightarrow> nat list \<Rightarrow> nat list \<times> bool" where
  "shortlist vs inflight n keep [] = (keep, False)"
| "shortlist vs inflight n keep (i # rest) =
    (if length keep \<ge> n then (keep, False)
     else if headroom (vs ! i) then shortlist vs inflight n (keep @ [i]) rest
     else if keep = [] \<and> inflight (ng_ProviderClusterID (vs ! i)) then (keep, True)
     else shortlist vs inflight n keep rest)"

definition latencyDecision :: "real list \<Rightarrow> bool list \<Rightarrow> (string \<Rightarrow> bool) \<Rightarrow> nat \<Rightarrow> decision" where
  "latencyDecision distances hasDist inflight n vs t =
    (case shortlist vs inflight n [] (metricOrder vs distances hasDist t) of
       (keep, True) \<Rightarrow> Some []
     | (keep, False) \<Rightarrow> if keep \<noteq> [] then Some keep else None)"

definition applyLatencyTopN :: "NodeGroupView list \<Rightarrow> real list \<Rightarrow> bool list \<Rightarrow> (string \<Rightarrow> bool) \<Rightarrow>
    nat \<Rightarrow> NodeGroupView list \<times> bool" where
  "applyLatencyTopN views distances hasDist inflight n =
    (if True \<notin> set hasDist then (views, False)
     else (maskByType (latencyDecision distances hasDist inflight n) (groupTypes views) views, True))"

definition consumerProviderDistances ::
  "ConsumerEntry \<Rightarrow> ClusterAdvertisement list \<Rightarrow> real list \<times> bool list" where
  "consumerProviderDistances entry avail =
    (let located = (\<lambda>cadv. ce_HasLocation entry \<and> (case ca_Topology (ca_Spec cadv) of
            None \<Rightarrow> False
          | Some t \<Rightarrow> \<not> (t_Latitude t = 0 \<and> t_Longitude t = 0)));
         dist = (\<lambda>cadv. case ca_Topology (ca_Spec cadv) of
            None \<Rightarrow> 0
          | Some t \<Rightarrow> HaversineKm (ce_Latitude entry) (ce_Longitude entry) (t_Latitude t) (t_Longitude t))
     in (map (\<lambda>cadv. if located cadv then dist cadv else 0) avail, map located avail))"

definition setPlacementMetric ::
  "NodeGroupView list \<Rightarrow> real list \<Rightarrow> bool list \<Rightarrow> NodeGroupView list" where
  "setPlacementMetric views vals has =
     map (\<lambda>i. if has ! i then (views ! i)\<lparr>ng_PlacementMetric := vals ! i, ng_HasMetric := True\<rparr>
              else views ! i) [0..<length views]"

section \<open>The placement decision\<close>

text \<open>
  A nil entry of the advertisement list is \<open>None\<close>; a nil or absent map entry of \<^verbatim>\<open>InFlight\<close> is
  \<open>False\<close>, of \<^verbatim>\<open>OwnReserved\<close> 0; a nil \<^verbatim>\<open>OwnReserved\<close> or \<^verbatim>\<open>Sizer\<close> is \<open>None\<close>.
\<close>

record PlacementInput =
  in_Advertisements :: "ClusterAdvertisement option list"
  in_Consumer :: ConsumerEntry
  in_InFlight :: "string \<Rightarrow> bool"
  in_OwnReserved :: "(string \<Rightarrow> int) option"
  in_Sizer :: "Sizer option"

definition ownView :: "(string \<Rightarrow> int) option \<Rightarrow> ClusterAdvertisement \<Rightarrow> NodeGroupView \<Rightarrow> NodeGroupView" where
  "ownView ownReserved cadv v =
    (case ownReserved of
       None \<Rightarrow> v
     | Some m \<Rightarrow>
        (let own = m (ca_ClusterID (ca_Spec cadv));
             free = max (int32 (ca_TotalChunks (ca_Status cadv) - ca_ReservedChunks (ca_Status cadv))) 0
         in v\<lparr>ng_CurrentReserved := own, ng_MaxSize := int32 (own + free)\<rparr>))"

definition availableAds :: "ClusterAdvertisement option list \<Rightarrow> ClusterAdvertisement list" where
  "availableAds advs = filter (\<lambda>c. ca_Available (ca_Status c)) (List.map_filter id advs)"

definition projectView :: "quantity_api \<Rightarrow> Sizer \<Rightarrow> (string \<Rightarrow> int) option \<Rightarrow> ClusterAdvertisement \<Rightarrow> NodeGroupView" where
  "projectView Q sizer ownReserved cadv =
    (case perChunkCostWith Q sizer cadv of
       (cost, ok) \<Rightarrow> ownView ownReserved cadv (nodeGroupView Q sizer cadv cost ok))"

definition applyPolicy :: "quantity_api \<Rightarrow> (ChunkType \<Rightarrow> nat \<Rightarrow> nat) \<Rightarrow> Sizer \<Rightarrow> ConsumerEntry \<Rightarrow>
    (string \<Rightarrow> bool) \<Rightarrow> ClusterAdvertisement list \<Rightarrow> NodeGroupView list \<Rightarrow> NodeGroupView list \<times> bool" where
  "applyPolicy Q intn sizer entry inflight avail views =
    (let costs = map (fst \<circ> perChunkCostWith Q sizer) avail;
         priced = map (snd \<circ> perChunkCostWith Q sizer) avail;
         carbons = map (fst \<circ> weightedCarbon) avail;
         hasCarbon = map (snd \<circ> weightedCarbon) avail;
         strategy = pp_Type (ce_Placement entry)
     in if strategy = PlacementStrategyPrice then
          (setPlacementMetric (applyPricePreference views costs priced inflight) costs priced, False)
        else if strategy = PlacementStrategyEco then
          (setPlacementMetric (applyEcoPreference views carbons hasCarbon inflight) carbons hasCarbon, False)
        else if strategy = PlacementStrategyRandom then
          (applyRandomPreference intn views inflight, False)
        else if strategy = PlacementStrategyLatency then
          (case consumerProviderDistances entry avail of (distances, hasDist) \<Rightarrow>
             (case applyLatencyTopN views distances hasDist inflight latencyShortlistSize of
                (views, latencyShortlist) \<Rightarrow> (setPlacementMetric views distances hasDist, latencyShortlist)))
        else if strategy = PlacementStrategyConsumerChoice then (views, False)
        else (applyStandardPreference views avail inflight, False))"

definition BuildNodeGroups ::
  "quantity_api \<Rightarrow> (ChunkType \<Rightarrow> nat \<Rightarrow> nat) \<Rightarrow> Time \<Rightarrow> PlacementInput \<Rightarrow> NodeGroupListResponse" where
  "BuildNodeGroups Q intn now inp =
    (let sizer = (case in_Sizer inp of Some s \<Rightarrow> s | None \<Rightarrow> DefaultSizer_Size Q);
         avail = availableAds (in_Advertisements inp);
         views = map (projectView Q sizer (in_OwnReserved inp)) avail
     in case applyPolicy Q intn sizer (in_Consumer inp) (in_InFlight inp) avail views of
          (views, latencyShortlist) \<Rightarrow>
            \<lparr>nl_NodeGroups = sort_key (\<lambda>v. (ng_ProviderClusterID v, ng_Type v)) views,
             nl_LatencyShortlist = latencyShortlist,
             nl_AppliedPlacement = pp_Type (ce_Placement (in_Consumer inp)),
             nl_Generation = 0, nl_ServedAt = now, nl_CacheAgeSeconds = 0\<rparr>)"

section \<open>Masking is pointwise\<close>

lemma masked_not_growable [simp]: "\<not> headroom (masked v)"
  by (simp add: headroom_def masked_def int32_def)

lemma masked_frame [simp]:
  "ng_Type (masked v) = ng_Type v" "ng_ProviderClusterID (masked v) = ng_ProviderClusterID v"
  "ng_CurrentReserved (masked v) = ng_CurrentReserved v"
  "ng_MaxSize (masked v) = ng_CurrentReserved v"
  by (simp_all add: masked_def)

lemma in_idxsOfType [simp]: "i \<in> set (idxsOfType vs t) \<longleftrightarrow> i < length vs \<and> ng_Type (vs ! i) = t"
  by (auto simp: idxsOfType_def)

lemma distinct_idxsOfType [simp]: "distinct (idxsOfType vs t)"
  by (simp add: idxsOfType_def)

lemma length_maskAllBut [simp]: "length (maskAllBut keep idxs vs) = length vs"
  by (induction idxs arbitrary: vs) (simp_all add: maskAllBut_def maskAt_def)

lemma nth_maskAllBut:
  "distinct idxs \<Longrightarrow> i < length vs \<Longrightarrow>
   maskAllBut keep idxs vs ! i = (if i \<in> set idxs \<and> i \<notin> set keep then masked (vs ! i) else vs ! i)"
proof (induction idxs arbitrary: vs)
  case (Cons j idxs)
  let ?vs = "if j \<in> set keep then vs else maskAt j vs"
  have "maskAllBut keep (j # idxs) vs ! i = maskAllBut keep idxs ?vs ! i"
    by (simp add: maskAllBut_def)
  also have "\<dots> = (if i \<in> set idxs \<and> i \<notin> set keep then masked (?vs ! i) else ?vs ! i)"
    using Cons by (intro Cons.IH) (simp_all add: maskAt_def)
  finally show ?case
    using Cons.prems by (cases "i = j") (simp_all add: maskAt_def)
qed (simp add: maskAllBut_def)

lemma length_maskGroup [simp]: "length (maskGroup decide t vs) = length vs"
  by (simp add: maskGroup_def split: option.splits)

lemma nth_maskGroup:
  "i < length vs \<Longrightarrow> maskGroup decide t vs ! i =
     (case decide vs t of None \<Rightarrow> vs ! i
      | Some keep \<Rightarrow> if ng_Type (vs ! i) = t \<and> i \<notin> set keep then masked (vs ! i) else vs ! i)"
  by (simp add: maskGroup_def nth_maskAllBut split: option.splits)

lemma maskGroup_type [simp]: "i < length vs \<Longrightarrow> ng_Type (maskGroup decide t vs ! i) = ng_Type (vs ! i)"
  by (simp add: nth_maskGroup split: option.splits)

text \<open>Two lists of views agree on one chunk type.\<close>

definition same_group :: "ChunkType \<Rightarrow> NodeGroupView list \<Rightarrow> NodeGroupView list \<Rightarrow> bool" where
  "same_group t vs vs' \<longleftrightarrow> length vs = length vs' \<and>
     (\<forall>i<length vs. ng_Type (vs ! i) = ng_Type (vs' ! i) \<and> (ng_Type (vs ! i) = t \<longrightarrow> vs ! i = vs' ! i))"

text \<open>What a policy does to the view at one position.\<close>

definition maskOne :: "nat list option \<Rightarrow> nat \<Rightarrow> NodeGroupView \<Rightarrow> NodeGroupView" where
  "maskOne d i v = (case d of None \<Rightarrow> v | Some keep \<Rightarrow> if i \<in> set keep then v else masked v)"

text \<open>
  The interface between the masking loop and a policy: the decision for a chunk type looks
  only at the views of that type.
\<close>

locale group_policy =
  fixes decide :: decision
  assumes local: "same_group t vs vs' \<Longrightarrow> decide vs t = decide vs' t"
begin

lemma length_maskByType [simp]: "length (maskByType decide ts vs) = length vs"
  by (induction ts arbitrary: vs) (simp_all add: maskByType_def)

lemma nth_maskByType:
  "distinct ts \<Longrightarrow> i < length vs \<Longrightarrow> maskByType decide ts vs ! i =
     (if ng_Type (vs ! i) \<in> set ts then maskOne (decide vs (ng_Type (vs ! i))) i (vs ! i) else vs ! i)"
proof (induction ts arbitrary: vs)
  case (Cons t ts)
  let ?vs = "maskGroup decide t vs"
  have "maskByType decide (t # ts) vs ! i = maskByType decide ts ?vs ! i"
    by (simp add: maskByType_def)
  also have "\<dots> = (if ng_Type (?vs ! i) \<in> set ts
      then maskOne (decide ?vs (ng_Type (?vs ! i))) i (?vs ! i) else ?vs ! i)"
    using Cons.prems by (intro Cons.IH) simp_all
  finally have step: "maskByType decide (t # ts) vs ! i = (if ng_Type (?vs ! i) \<in> set ts
      then maskOne (decide ?vs (ng_Type (?vs ! i))) i (?vs ! i) else ?vs ! i)" .
  show ?case
  proof (cases "ng_Type (vs ! i) = t")
    case True
    with Cons.prems have "ng_Type (?vs ! i) \<notin> set ts" by simp
    with step have "maskByType decide (t # ts) vs ! i = ?vs ! i" by simp
    also have "\<dots> = maskOne (decide vs t) i (vs ! i)"
      using True Cons.prems by (simp add: nth_maskGroup maskOne_def split: option.splits)
    finally show ?thesis using True by simp
  next
    case False
    then have "decide ?vs (ng_Type (vs ! i)) = decide vs (ng_Type (vs ! i))"
      by (intro local) (auto simp: same_group_def nth_maskGroup split: option.splits)
    moreover have "?vs ! i = vs ! i"
      using False Cons.prems by (simp add: nth_maskGroup split: option.splits)
    ultimately show ?thesis using Cons.prems False step by simp
  qed
qed (simp add: maskByType_def)

text \<open>Whole-list form: with every type visited, each position is masked by its type's decision.\<close>

lemma maskByType_all:
  assumes "distinct ts" and "set (map ng_Type vs) \<subseteq> set ts"
  shows "maskByType decide ts vs =
    map (\<lambda>i. maskOne (decide vs (ng_Type (vs ! i))) i (vs ! i)) [0..<length vs]"
proof (rule nth_equalityI)
  fix i assume "i < length (maskByType decide ts vs)"
  then have i: "i < length vs" by simp
  then have "ng_Type (vs ! i) \<in> set ts" using assms(2) by auto
  with i assms(1) show "maskByType decide ts vs ! i =
      map (\<lambda>i. maskOne (decide vs (ng_Type (vs ! i))) i (vs ! i)) [0..<length vs] ! i"
    by (simp add: nth_maskByType)
qed simp

lemma maskByType_groupTypes:
  "maskByType decide (groupTypes vs) vs =
    map (\<lambda>i. maskOne (decide vs (ng_Type (vs ! i))) i (vs ! i)) [0..<length vs]"
  by (rule maskByType_all) (simp_all add: groupTypes_def)

lemma order_irrelevant:
  assumes "distinct ts" and "set ts = set (groupTypes vs)"
  shows "maskByType decide ts vs = maskByType decide (groupTypes vs) vs"
  using assms by (simp add: maskByType_groupTypes maskByType_all groupTypes_def)

text \<open>Masking only removes growable options.\<close>

lemma mask_additive:
  assumes "i < length vs"
  shows "maskByType decide (groupTypes vs) vs ! i \<in> {vs ! i, masked (vs ! i)}"
  using assms by (simp add: maskByType_groupTypes maskOne_def split: option.splits)

end

section \<open>The policies are local\<close>

lemma insort_key_cong:
  "f x = g x \<Longrightarrow> (\<And>y. y \<in> set xs \<Longrightarrow> f y = g y) \<Longrightarrow> insort_key f x xs = insort_key g x xs"
  by (induction xs) auto

lemma sort_key_cong: "(\<And>x. x \<in> set xs \<Longrightarrow> f x = g x) \<Longrightarrow> sort_key f xs = sort_key g xs"
  by (induction xs) (auto intro!: insort_key_cong)

lemma idxsOfType_same: "same_group t vs vs' \<Longrightarrow> idxsOfType vs t = idxsOfType vs' t"
  unfolding idxsOfType_def same_group_def by (intro filter_cong) auto

lemma same_group_nth: "same_group t vs vs' \<Longrightarrow> i \<in> set (idxsOfType vs t) \<Longrightarrow> vs ! i = vs' ! i"
  by (simp add: same_group_def)

lemma set_metricOrder [simp]:
  "set (metricOrder vs metric has t) = {i. i < length vs \<and> ng_Type (vs ! i) = t \<and> has ! i}"
  by (auto simp: metricOrder_def)

lemma metricOrder_same:
  assumes s: "same_group t vs vs'"
  shows "metricOrder vs m h t = metricOrder vs' m h t"
proof -
  show ?thesis
    unfolding metricOrder_def idxsOfType_same [OF s, symmetric]
    using same_group_nth [OF s] by (intro sort_key_cong) auto
qed

lemma scanOrder_same: "(\<And>i. i \<in> set is \<Longrightarrow> vs ! i = vs' ! i) \<Longrightarrow>
    scanOrder vs inflight is = scanOrder vs' inflight is"
  by (induction "is") auto

lemma shortlist_same: "(\<And>i. i \<in> set is \<Longrightarrow> vs ! i = vs' ! i) \<Longrightarrow>
    shortlist vs inflight n keep is = shortlist vs' inflight n keep is"
  by (induction "is" arbitrary: keep) auto

interpretation metric: group_policy "metricDecision metric has inflight" for metric has inflight
proof
  fix t vs vs' assume s: "same_group t vs vs'"
  then have "scanOrder vs inflight (metricOrder vs metric has t) =
      scanOrder vs' inflight (metricOrder vs metric has t)"
    by (intro scanOrder_same) (auto simp: same_group_def)
  with s show "metricDecision metric has inflight vs t = metricDecision metric has inflight vs' t"
    by (simp add: metricDecision_def metricOrder_same [OF s])
qed

interpretation latency: group_policy "latencyDecision dists hasDist inflight n" for dists hasDist inflight n
proof
  fix t vs vs' assume s: "same_group t vs vs'"
  then have "shortlist vs inflight n [] (metricOrder vs dists hasDist t) =
      shortlist vs' inflight n [] (metricOrder vs dists hasDist t)"
    by (intro shortlist_same) (auto simp: same_group_def)
  with s show "latencyDecision dists hasDist inflight n vs t = latencyDecision dists hasDist inflight n vs' t"
    by (simp add: latencyDecision_def metricOrder_same [OF s])
qed

interpretation random: group_policy "randomDecision intn inflight" for intn inflight
proof
  fix t vs vs' assume s: "same_group t vs vs'"
  have f: "filter (\<lambda>i. headroom (vs ! i)) (idxsOfType vs t) = filter (\<lambda>i. headroom (vs' ! i)) (idxsOfType vs t)"
    using same_group_nth [OF s] by (intro filter_cong) auto
  have "(\<exists>i \<in> set (idxsOfType vs t). \<not> headroom (vs ! i) \<and> inflight (ng_ProviderClusterID (vs ! i))) =
    (\<exists>i \<in> set (idxsOfType vs t). \<not> headroom (vs' ! i) \<and> inflight (ng_ProviderClusterID (vs' ! i)))"
    using same_group_nth [OF s] by (intro bex_cong) auto
  with f show "randomDecision intn inflight vs t = randomDecision intn inflight vs' t"
    unfolding randomDecision_def Let_def idxsOfType_same [OF s, symmetric] by (simp only:)
qed

section \<open>What each policy leaves growable\<close>

text \<open>A provider the scan stops at: it has room now, or it is about to have some.\<close>

definition active :: "(string \<Rightarrow> bool) \<Rightarrow> NodeGroupView \<Rightarrow> bool" where
  "active inflight v \<longleftrightarrow> headroom v \<or> inflight (ng_ProviderClusterID v)"

lemma scanOrder_find:
  "scanOrder vs inflight is = (case List.find (\<lambda>i. active inflight (vs ! i)) is of
     None \<Rightarrow> LeaveAsIs | Some b \<Rightarrow> if headroom (vs ! b) then Chosen b else BlockAll)"
  by (induction "is") (simp_all add: active_def)

lemma find_sort_key:
  assumes "b \<in> set xs" "P b" and min: "\<And>j. j \<in> set xs \<Longrightarrow> P j \<Longrightarrow> j \<noteq> b \<Longrightarrow> f b < f j"
  shows "List.find P (sort_key f xs) = Some b"
proof -
  obtain ys x zs where split: "sort_key f xs = ys @ x # zs" and x: "P x" and ys: "\<forall>y\<in>set ys. \<not> P y"
    using assms(1,2) split_list_first_prop [of "sort_key f xs" P] by auto
  have inxs: "x \<in> set xs" and "b \<in> set ys \<or> b = x \<or> b \<in> set zs"
    using arg_cong [OF split, of set] assms(1) by auto
  moreover have "b \<notin> set ys" using ys assms(2) by blast
  moreover have "x = b" if "b \<in> set zs"
    using sort_key_first [OF split that] min [OF inxs x] by fastforce
  ultimately have "x = b" by blast
  moreover have "List.find P (ys @ x # zs) = Some x"
    using x ys by (induction ys) auto
  ultimately show ?thesis by (simp add: split)
qed

lemma find_none: "(\<And>j. j \<in> set xs \<Longrightarrow> \<not> P j) \<Longrightarrow> List.find P xs = None"
  by (simp add: find_None_iff)

lemma nth_applyMetricPreference:
  "i < length vs \<Longrightarrow> applyMetricPreference vs metric has inflight ! i =
     maskOne (metricDecision metric has inflight vs (ng_Type (vs ! i))) i (vs ! i)"
  by (simp add: applyMetricPreference_def metric.maskByType_groupTypes)

lemma length_applyMetricPreference [simp]:
  "length (applyMetricPreference vs metric has inflight) = length vs"
  by (simp add: applyMetricPreference_def)

lemma metric_leave:
  assumes "i < length vs"
    and "\<And>j. j < length vs \<Longrightarrow> ng_Type (vs ! j) = ng_Type (vs ! i) \<Longrightarrow> has ! j \<Longrightarrow> \<not> active inflight (vs ! j)"
  shows "applyMetricPreference vs metric has inflight ! i = vs ! i"
proof -
  have "List.find (\<lambda>i. active inflight (vs ! i)) (metricOrder vs metric has (ng_Type (vs ! i))) = None"
    using assms(2) by (intro find_none) simp
  then show ?thesis
    using assms(1) by (simp add: nth_applyMetricPreference maskOne_def metricDecision_def scanOrder_find)
qed

lemma metric_best:
  assumes "i < length vs"
    and "b < length vs" "ng_Type (vs ! b) = ng_Type (vs ! i)" "has ! b" "active inflight (vs ! b)"
    and "\<And>j. j < length vs \<Longrightarrow> ng_Type (vs ! j) = ng_Type (vs ! i) \<Longrightarrow> has ! j \<Longrightarrow>
      active inflight (vs ! j) \<Longrightarrow> j \<noteq> b \<Longrightarrow>
      (metric ! b, ng_ProviderClusterID (vs ! b)) < (metric ! j, ng_ProviderClusterID (vs ! j))"
  shows "applyMetricPreference vs metric has inflight ! i =
      (if i = b \<and> headroom (vs ! b) then vs ! i else masked (vs ! i))"
proof -
  have "List.find (\<lambda>i. active inflight (vs ! i)) (metricOrder vs metric has (ng_Type (vs ! i))) = Some b"
    unfolding metricOrder_def using assms by (intro find_sort_key) auto
  then show ?thesis
    using assms(1) by (simp add: nth_applyMetricPreference maskOne_def metricDecision_def scanOrder_find)
qed

text \<open>
  C33. The Price, Eco and Standard preference. Within a chunk type, let \<open>b\<close> be the best provider
  in (metric, cluster ID) order among those that carry the metric and either have room or have a
  reservation of this consumer in flight. Then every other view of the type is masked, and \<open>b\<close>
  itself stays as it is exactly when it has room: while the best provider is only about to have
  room, nothing of the type may grow. When there is no such provider, the type is left alone.
\<close>

theorem metric_preference_spec:
  assumes "i < length vs"
  shows "((\<forall>j<length vs. ng_Type (vs ! j) = ng_Type (vs ! i) \<and> has ! j \<longrightarrow> \<not> active inflight (vs ! j)) \<longrightarrow>
      applyMetricPreference vs metric has inflight ! i = vs ! i) \<and>
    (\<forall>b<length vs. ng_Type (vs ! b) = ng_Type (vs ! i) \<and> has ! b \<and> active inflight (vs ! b) \<and>
      (\<forall>j<length vs. ng_Type (vs ! j) = ng_Type (vs ! i) \<and> has ! j \<and> active inflight (vs ! j) \<and> j \<noteq> b \<longrightarrow>
         (metric ! b, ng_ProviderClusterID (vs ! b)) < (metric ! j, ng_ProviderClusterID (vs ! j))) \<longrightarrow>
      applyMetricPreference vs metric has inflight ! i =
        (if i = b \<and> headroom (vs ! b) then vs ! i else masked (vs ! i)))"
  using metric_leave [OF assms] metric_best [OF assms] by blast

definition demoView :: "string \<Rightarrow> int \<Rightarrow> NodeGroupView" where
  "demoView p m = \<lparr>ng_ID = p, ng_ProviderClusterID = p, ng_ProviderLiqoClusterID = p,
     ng_Type = ''standard'', ng_MinSize = 0, ng_MaxSize = m, ng_CurrentReserved = 1,
     ng_ChunkResources = [], ng_Cost = None, ng_Topology = None, ng_ProbeEndpoint = '''',
     ng_PlacementMetric = 0, ng_HasMetric = False, ng_CarbonIntensity = None, ng_UnitPrices = [],
     ng_Labels = [], ng_Taints = []\<rparr>"

theorem metric_preference_spec_witness:
  "applyMetricPreference [demoView ''a'' 1, demoView ''b'' 4, demoView ''c'' 5] [1, 2, 3] [True, True, True]
     (\<lambda>_. False) ! 2 = masked (demoView ''c'' 5)"
proof -
  let ?vs = "[demoView ''a'' 1, demoView ''b'' 4, demoView ''c'' 5]"
  have act: "active (\<lambda>_. False) (?vs ! j) \<longleftrightarrow> j = 1 \<or> j = 2" if "j < 3" for j
    using that by (auto simp: active_def headroom_def demoView_def int32_def less_Suc_eq numeral_3_eq_3
        signed_take_bit_int_eq_self)
  have "(\<forall>j<length ?vs. ng_Type (?vs ! j) = ng_Type (?vs ! 2) \<and> [True, True, True] ! j \<and>
      active (\<lambda>_. False) (?vs ! j) \<and> j \<noteq> 1 \<longrightarrow>
      ([1, 2, 3::real] ! 1, ng_ProviderClusterID (?vs ! 1)) < ([1, 2, 3] ! j, ng_ProviderClusterID (?vs ! j)))"
    using act by auto
  then show ?thesis
    using metric_preference_spec [of 2 ?vs "[True, True, True]" "\<lambda>_. False" "[1, 2, 3]", THEN conjunct2,
        rule_format, of 1] act [of 1]
    by (simp add: demoView_def)
qed

lemma growable_maskOne: "headroom (maskOne d i v) \<longleftrightarrow> headroom v \<and> (case d of None \<Rightarrow> True | Some keep \<Rightarrow> i \<in> set keep)"
  by (simp add: maskOne_def split: option.splits)

lemma standard_growers:
  assumes "length avail = length vs" and "i < length vs" and "j < length vs"
    and "ng_Type (vs ! i) = ng_Type (vs ! j)"
    and "headroom (applyStandardPreference vs avail inflight ! i)"
    and "headroom (applyStandardPreference vs avail inflight ! j)"
  shows "i = j"
proof -
  let ?o = "metricOrder vs (map standardMetric avail) (map (\<lambda>_. True) avail) (ng_Type (vs ! j))"
  have "i \<in> set ?o" "j \<in> set ?o" using assms by simp_all
  moreover have "active inflight (vs ! i)"
    using assms by (simp add: applyStandardPreference_def nth_applyMetricPreference growable_maskOne active_def)
  ultimately obtain b where "List.find (\<lambda>i. active inflight (vs ! i)) ?o = Some b"
    by (metis (no_types, lifting) find_None_iff option.exhaust)
  then show ?thesis
    using assms by (auto simp: applyStandardPreference_def nth_applyMetricPreference growable_maskOne
        metricDecision_def scanOrder_find split: if_splits)
qed

text \<open>
  The default Standard policy never leaves more than one provider of a chunk type growable.
\<close>

theorem standard_single_grower:
  assumes "length avail = length vs"
  shows "card {i. i < length vs \<and> ng_Type (vs ! i) = t \<and>
    headroom (applyStandardPreference vs avail inflight ! i)} \<le> 1"
  using standard_growers [OF assms] by (fastforce simp: card_le_Suc0_iff_eq)

theorem standard_single_grower_witness:
  "card {i. i < 2 \<and> ng_Type ([demoView ''a'' 3, demoView ''b'' 3] ! i) = ''standard'' \<and>
    headroom (applyStandardPreference [demoView ''a'' 3, demoView ''b'' 3] [exampleAdv ''a'' 3 1, exampleAdv ''b'' 3 1] (\<lambda>_. False) ! i)} \<le> 1"
  using standard_single_grower [of "[exampleAdv ''a'' 3 1, exampleAdv ''b'' 3 1]" "[demoView ''a'' 3, demoView ''b'' 3]"]
  by (simp add: eval_nat_numeral)

subsection \<open>The latency shortlist\<close>

lemma shortlist_inv:
  assumes "shortlist vs inflight n keep is = (keep', False)"
  shows "\<exists>pre post. is = pre @ post \<and> keep' = keep @ filter (\<lambda>i. headroom (vs ! i)) pre \<and>
    (post = [] \<or> length keep' \<ge> n)"
  using assms
proof (induction "is" arbitrary: keep)
  case (Cons i rest)
  show ?case
  proof (cases "length keep \<ge> n")
    case True
    with Cons.prems show ?thesis by (intro exI [of _ "[]"] exI [of _ "i # rest"]) auto
  next
    case False
    let ?k = "if headroom (vs ! i) then keep @ [i] else keep"
    have "shortlist vs inflight n ?k rest = (keep', False)"
      using Cons.prems False by (auto split: if_splits)
    from Cons.IH [OF this] obtain pre post where
      "rest = pre @ post" "keep' = ?k @ filter (\<lambda>i. headroom (vs ! i)) pre" "post = [] \<or> length keep' \<ge> n"
      by blast
    then show ?thesis by (intro exI [of _ "i # pre"] exI [of _ post]) auto
  qed
qed simp

lemma shortlist_length:
  "length keep \<le> n \<Longrightarrow> length (fst (shortlist vs inflight n keep is)) \<le> n"
  by (induction "is" arbitrary: keep) auto

lemma shortlist_empty:
  "shortlist vs inflight n [] is = ([], False) \<Longrightarrow> n > 0 \<Longrightarrow> j \<in> set is \<Longrightarrow> \<not> active inflight (vs ! j)"
proof (induction "is")
  case (Cons i rest)
  have "\<not> headroom (vs ! i)"
    using Cons.prems shortlist_inv [of vs inflight n "[i]" rest "[]"] by auto
  with Cons show ?case by (auto simp: active_def split: if_splits)
qed simp

lemma distinct_metricOrder [simp]: "distinct (metricOrder vs metric has t)"
  by (simp add: metricOrder_def)

lemma metricOrder_mono:
  assumes "metricOrder vs metric has t = pre @ post" "i \<in> set pre" "j \<in> set post"
  shows "(metric ! i, ng_ProviderClusterID (vs ! i)) \<le> (metric ! j, ng_ProviderClusterID (vs ! j))"
proof -
  have "sorted (map (\<lambda>i. (metric ! i, ng_ProviderClusterID (vs ! i))) (pre @ post))"
    by (simp flip: assms(1) add: metricOrder_def)
  with assms(2,3) show ?thesis by (auto simp: sorted_append)
qed

lemma fst_applyLatencyTopN:
  "i < length vs \<Longrightarrow> snd (applyLatencyTopN vs dists hasDist inflight n) \<Longrightarrow>
   fst (applyLatencyTopN vs dists hasDist inflight n) ! i =
     maskOne (latencyDecision dists hasDist inflight n vs (ng_Type (vs ! i))) i (vs ! i)"
  by (simp add: applyLatencyTopN_def latency.maskByType_groupTypes split: if_splits)

lemma latencyDecision_cases:
  assumes "i < length vs" "hasDist ! i" "active inflight (vs ! i)" "n > 0"
  obtains "latencyDecision dists hasDist inflight n vs (ng_Type (vs ! i)) = Some []"
  | pre post where "metricOrder vs dists hasDist (ng_Type (vs ! i)) = pre @ post"
    and "latencyDecision dists hasDist inflight n vs (ng_Type (vs ! i)) = Some (filter (\<lambda>i. headroom (vs ! i)) pre)"
    and "length (filter (\<lambda>i. headroom (vs ! i)) pre) \<le> n"
    and "post = [] \<or> length (filter (\<lambda>i. headroom (vs ! i)) pre) = n"
proof -
  let ?o = "metricOrder vs dists hasDist (ng_Type (vs ! i))"
  obtain keep blk where sl: "shortlist vs inflight n [] ?o = (keep, blk)" by fastforce
  show thesis
  proof (cases blk)
    case True
    with sl show thesis by (intro that(1)) (simp add: latencyDecision_def)
  next
    case False
    with sl have sl': "shortlist vs inflight n [] ?o = (keep, False)" by simp
    from shortlist_inv [OF this] obtain pre post where o: "?o = pre @ post"
      and k: "keep = filter (\<lambda>i. headroom (vs ! i)) pre" and p: "post = [] \<or> length keep \<ge> n"
      by auto
    have len: "length keep \<le> n"
      using shortlist_length [of "[]" n vs inflight ?o] sl by simp
    have "keep \<noteq> []"
      using shortlist_empty [of vs inflight n ?o i] sl' assms by auto
    with sl False o k p len show thesis
      by (intro that(2)) (auto simp: latencyDecision_def)
  qed
qed

text \<open>
  The Latency shortlist. In a chunk type with at least one located provider that has room or
  is about to have some, at most \<open>n\<close> providers stay growable, all of them located, and every
  located provider with room that is cut off is no nearer to the consumer than every one kept,
  unless the type is blocked altogether because a nearer provider is still in flight.
\<close>

theorem latency_shortlist_spec:
  assumes "n > 0" and "snd (applyLatencyTopN vs dists hasDist inflight n)"
    and "a < length vs" "hasDist ! a" "active inflight (vs ! a)"
  defines "out \<equiv> fst (applyLatencyTopN vs dists hasDist inflight n)"
  defines "growers \<equiv> {i. i < length vs \<and> ng_Type (vs ! i) = ng_Type (vs ! a) \<and> headroom (out ! i)}"
  shows "card growers \<le> n \<and> (\<forall>i\<in>growers. hasDist ! i) \<and>
    (\<forall>i\<in>growers. \<forall>j<length vs. ng_Type (vs ! j) = ng_Type (vs ! a) \<and> hasDist ! j \<and> headroom (vs ! j) \<and>
       j \<notin> growers \<longrightarrow> dists ! i \<le> dists ! j \<and> card growers = n)"
proof -
  let ?t = "ng_Type (vs ! a)"
  have grow: "headroom (out ! i) \<longleftrightarrow> headroom (vs ! i) \<and>
      (case latencyDecision dists hasDist inflight n vs ?t of None \<Rightarrow> True | Some keep \<Rightarrow> i \<in> set keep)"
    if "i < length vs" "ng_Type (vs ! i) = ?t" for i
    using that assms(2) by (simp add: out_def fst_applyLatencyTopN growable_maskOne)
  from assms(3-5,1) show ?thesis
  proof (cases rule: latencyDecision_cases [where dists = dists])
    case 1
    then have "growers = {}" using grow by (simp add: growers_def)
    then show ?thesis by simp
  next
    case (2 pre post)
    let ?k = "filter (\<lambda>i. headroom (vs ! i)) pre"
    have pre: "set pre \<union> set post = {i. i < length vs \<and> ng_Type (vs ! i) = ?t \<and> hasDist ! i}"
      using arg_cong [OF 2(1), of set] by simp
    then have g: "growers = set ?k" using 2(2) grow unfolding growers_def by auto
    have "distinct pre" using 2(1) distinct_metricOrder [of vs dists hasDist ?t] by simp
    then have c: "card growers = length ?k" unfolding g by (intro distinct_card) simp
    have near: "dists ! i \<le> dists ! j \<and> card growers = n"
      if i: "i \<in> growers" and j: "j < length vs" "ng_Type (vs ! j) = ?t" "hasDist ! j" "headroom (vs ! j)" "j \<notin> growers"
      for i j
    proof -
      have "j \<in> set post" using pre j g by auto
      moreover have "i \<in> set pre" using i g by auto
      ultimately show ?thesis
        using metricOrder_mono [OF 2(1), of i j] 2(4) c by (auto simp: less_eq_prod_def)
    qed
    have "\<forall>i\<in>growers. hasDist ! i" using pre g by auto
    with near c 2(3) show ?thesis by auto
  qed
qed

text \<open>
  Go ranges over the map from chunk types to positions in an unspecified order; every
  order gives the same views.
\<close>

theorem mask_order_irrelevant:
  assumes "distinct ts" and "set ts = set (map ng_Type vs)"
  shows "maskByType (metricDecision metric has inflight) ts vs = applyMetricPreference vs metric has inflight \<and>
    maskByType (latencyDecision metric has inflight n) ts vs =
      maskByType (latencyDecision metric has inflight n) (groupTypes vs) vs \<and>
    maskByType (randomDecision intn inflight) ts vs = applyRandomPreference intn vs inflight"
proof -
  have "set ts = set (groupTypes vs)" using assms(2) by (simp add: groupTypes_def)
  then show ?thesis
    unfolding applyMetricPreference_def applyRandomPreference_def
    using assms(1) by (intro conjI metric.order_irrelevant latency.order_irrelevant random.order_irrelevant)
qed

theorem mask_order_irrelevant_witness:
  "maskByType (metricDecision [1, 2] [True, True] (\<lambda>_. False)) [''standard''] [demoView ''a'' 1, demoView ''b'' 3] =
    applyMetricPreference [demoView ''a'' 1, demoView ''b'' 3] [1, 2] [True, True] (\<lambda>_. False)"
  using mask_order_irrelevant [of "[''standard'']" "[demoView ''a'' 1, demoView ''b'' 3]"]
  by (simp add: demoView_def)

theorem latency_shortlist_spec_witness:
  "card {i. i < length [demoView ''a'' 3, demoView ''b'' 3] \<and>
      ng_Type ([demoView ''a'' 3, demoView ''b'' 3] ! i) = ng_Type (demoView ''a'' 3) \<and>
      headroom (fst (applyLatencyTopN [demoView ''a'' 3, demoView ''b'' 3] [10, 5] [True, True] (\<lambda>_. False) 1) ! i)} \<le> 1"
  using latency_shortlist_spec [of 1 "[demoView ''a'' 3, demoView ''b'' 3]" "[10, 5]" "[True, True]" "\<lambda>_. False" 0]
  by (simp add: applyLatencyTopN_def active_def headroom_def demoView_def int32_def signed_take_bit_int_eq_self)

section \<open>The node-group list\<close>

text \<open>What the policies may change of a projected view: mask it, or attach the metric.\<close>

definition narrows :: "NodeGroupView \<Rightarrow> NodeGroupView \<Rightarrow> bool" where
  "narrows p v \<longleftrightarrow> (ng_MaxSize v = ng_MaxSize p \<or> ng_MaxSize v = ng_CurrentReserved p) \<and>
     v\<lparr>ng_MaxSize := ng_MaxSize p, ng_PlacementMetric := ng_PlacementMetric p, ng_HasMetric := ng_HasMetric p\<rparr> = p"

lemma narrows_maskOne: "narrows v (maskOne d i v)"
  by (simp add: narrows_def maskOne_def masked_def split: option.splits)

lemma narrows_refl [simp]: "narrows v v"
  by (simp add: narrows_def)

lemma narrows_metric [simp]: "narrows p (v\<lparr>ng_PlacementMetric := m, ng_HasMetric := h\<rparr>) \<longleftrightarrow> narrows p v"
  by (simp add: narrows_def)

definition narrows_all :: "NodeGroupView list \<Rightarrow> NodeGroupView list \<Rightarrow> bool" where
  "narrows_all ps vs \<longleftrightarrow> list_all2 narrows ps vs"

lemma length_setPlacementMetric [simp]: "length (setPlacementMetric vs vals has) = length vs"
  by (simp add: setPlacementMetric_def)

lemma narrows_nth_metric [simp]:
  "i < length vs \<Longrightarrow> narrows p (setPlacementMetric vs vals has ! i) \<longleftrightarrow> narrows p (vs ! i)"
  by (simp add: setPlacementMetric_def)

lemma narrows_all_metric [simp]: "narrows_all ps (setPlacementMetric vs vals has) \<longleftrightarrow> narrows_all ps vs"
  by (simp add: narrows_all_def list_all2_conv_all_nth cong: conj_cong)

lemma narrows_all_policies [simp]:
  "narrows_all vs vs"
  "narrows_all vs (applyMetricPreference vs metric has inflight)"
  "narrows_all vs (applyRandomPreference intn vs inflight)"
  "narrows_all vs (fst (applyLatencyTopN vs dists hasDist inflight n))"
  by (auto simp: narrows_all_def list_all2_conv_all_nth applyMetricPreference_def applyRandomPreference_def
      applyLatencyTopN_def metric.maskByType_groupTypes random.maskByType_groupTypes
      latency.maskByType_groupTypes narrows_maskOne)

lemma narrows_applyPolicy: "narrows_all vs (fst (applyPolicy Q intn sizer entry inflight avail vs))"
  by (simp add: applyPolicy_def Let_def split_def applyPricePreference_def applyEcoPreference_def
      applyStandardPreference_def)

lemma buildNodeGroups_views:
  fixes inp :: PlacementInput and Q :: quantity_api and intn :: "ChunkType \<Rightarrow> nat \<Rightarrow> nat" and now :: Time
  defines "sizer \<equiv> case in_Sizer inp of Some s \<Rightarrow> s | None \<Rightarrow> DefaultSizer_Size Q"
  obtains vs where "nl_NodeGroups (BuildNodeGroups Q intn now inp) =
      sort_key (\<lambda>v. (ng_ProviderClusterID v, ng_Type v)) vs"
    and "list_all2 (\<lambda>cadv v. narrows (projectView Q sizer (in_OwnReserved inp) cadv) v)
      (availableAds (in_Advertisements inp)) vs"
proof -
  let ?avail = "availableAds (in_Advertisements inp)"
  let ?ps = "map (projectView Q sizer (in_OwnReserved inp)) ?avail"
  let ?vs = "fst (applyPolicy Q intn sizer (in_Consumer inp) (in_InFlight inp) ?avail ?ps)"
  have "nl_NodeGroups (BuildNodeGroups Q intn now inp) = sort_key (\<lambda>v. (ng_ProviderClusterID v, ng_Type v)) ?vs"
    by (simp add: sizer_def BuildNodeGroups_def Let_def split: prod.splits)
  moreover have "list_all2 (\<lambda>cadv v. narrows (projectView Q sizer (in_OwnReserved inp) cadv) v) ?avail ?vs"
    using narrows_applyPolicy [of ?ps] by (simp add: narrows_all_def list_all2_map1)
  ultimately show thesis by (rule that)
qed


end
