(* ===== verification/Kube.thy ===== *)
theory Kube
  imports ApiTypes
begin

text \<open>
  The Kubernetes API server as the Broker sees it through \<^verbatim>\<open>client.Client\<close>. The server is
  not part of the repository: its calls are the record \<open>kube\<close>, a parameter of every handler
  and reconciler, and the documented behaviour they rely on is the locale \<open>kube_api\<close>. All
  calls concern the one namespace the Broker runs in. Theory MemStore gives a store that
  satisfies the contract, so that the theorems that assume it can be instantiated.
\<close>

section \<open>Objects, keys and errors\<close>

datatype kkind = AdvKind | ResvKind | PIKind | RIKind | SecretKind

type_synonym kkey = "kkind \<times> string"

datatype kobj =
    KAdv ClusterAdvertisement
  | KResv Reservation
  | KPI ProviderInstruction
  | KRI ReservationInstruction
  | KSec Secret

datatype kerr = KNotFound | KAlreadyExists | KConflict | KOther string

fun kobj_meta :: "kobj \<Rightarrow> ObjectMeta" where
  "kobj_meta (KAdv x) = ca_Meta x"
| "kobj_meta (KResv x) = rs_Meta x"
| "kobj_meta (KPI x) = pi_Meta x"
| "kobj_meta (KRI x) = ri_Meta x"
| "kobj_meta (KSec x) = sec_Meta x"

fun kobj_kind :: "kobj \<Rightarrow> kkind" where
  "kobj_kind (KAdv _) = AdvKind"
| "kobj_kind (KResv _) = ResvKind"
| "kobj_kind (KPI _) = PIKind"
| "kobj_kind (KRI _) = RIKind"
| "kobj_kind (KSec _) = SecretKind"

definition kobj_key :: "kobj \<Rightarrow> kkey" where
  "kobj_key x = (kobj_kind x, m_Name (kobj_meta x))"

fun with_meta :: "ObjectMeta \<Rightarrow> kobj \<Rightarrow> kobj" where
  "with_meta m (KAdv x) = KAdv (x\<lparr>ca_Meta := m\<rparr>)"
| "with_meta m (KResv x) = KResv (x\<lparr>rs_Meta := m\<rparr>)"
| "with_meta m (KPI x) = KPI (x\<lparr>pi_Meta := m\<rparr>)"
| "with_meta m (KRI x) = KRI (x\<lparr>ri_Meta := m\<rparr>)"
| "with_meta m (KSec x) = KSec (x\<lparr>sec_Meta := m\<rparr>)"

text \<open>The object \<open>x\<close> with the status subresource of \<open>y\<close> (a Secret has none).\<close>

fun with_status_of :: "kobj \<Rightarrow> kobj \<Rightarrow> kobj" where
  "with_status_of (KAdv y) (KAdv x) = KAdv (x\<lparr>ca_Status := ca_Status y\<rparr>)"
| "with_status_of (KResv y) (KResv x) = KResv (x\<lparr>rs_Status := rs_Status y\<rparr>)"
| "with_status_of (KPI y) (KPI x) = KPI (x\<lparr>pi_Status := pi_Status y\<rparr>)"
| "with_status_of (KRI y) (KRI x) = KRI (x\<lparr>ri_Status := ri_Status y\<rparr>)"
| "with_status_of _ x = x"

fun clear_status :: "kobj \<Rightarrow> kobj" where
  "clear_status (KAdv x) = KAdv (x\<lparr>ca_Status := zero_ClusterAdvertisementStatus\<rparr>)"
| "clear_status (KResv x) = KResv (x\<lparr>rs_Status := zero_ReservationStatus\<rparr>)"
| "clear_status (KPI x) = KPI (x\<lparr>pi_Status := zero_InstructionStatus\<rparr>)"
| "clear_status (KRI x) = KRI (x\<lparr>ri_Status := zero_InstructionStatus\<rparr>)"
| "clear_status (KSec x) = KSec x"

abbreviation kobj_rv :: "kobj \<Rightarrow> nat" where
  "kobj_rv x \<equiv> m_ResourceVersion (kobj_meta x)"

text \<open>
  What a successful call stores, up to what the server itself fills in (creation time,
  generation, resource version): a create drops the status and stamps the metadata, an
  update keeps the stored status and the stored creation and deletion times, a status
  update keeps everything else that is stored.
\<close>

definition created :: "kobj \<Rightarrow> kobj \<Rightarrow> bool" where
  "created x x' \<longleftrightarrow> (\<exists>t g v. x' = clear_status (with_meta ((kobj_meta x)
     \<lparr>m_CreationTimestamp := t, m_DeletionTimestamp := None, m_Generation := g,
      m_ResourceVersion := v\<rparr>) x))"

definition updated :: "kobj \<Rightarrow> kobj \<Rightarrow> kobj \<Rightarrow> bool" where
  "updated cur x x' \<longleftrightarrow> (\<exists>g v. x' = with_status_of cur (with_meta ((kobj_meta x)
     \<lparr>m_CreationTimestamp := m_CreationTimestamp (kobj_meta cur),
      m_DeletionTimestamp := m_DeletionTimestamp (kobj_meta cur),
      m_Generation := g, m_ResourceVersion := v\<rparr>) x))"

definition status_updated :: "kobj \<Rightarrow> kobj \<Rightarrow> kobj \<Rightarrow> bool" where
  "status_updated cur x x' \<longleftrightarrow> (\<exists>v. x' = with_status_of x (with_meta
     ((kobj_meta cur)\<lparr>m_ResourceVersion := v\<rparr>) cur))"

text \<open>An object whose deletion was requested disappears with its last finalizer.\<close>

definition stored :: "kobj \<Rightarrow> kobj option" where
  "stored x = (if m_DeletionTimestamp (kobj_meta x) \<noteq> None \<and> m_Finalizers (kobj_meta x) = []
     then None else Some x)"

text \<open>A delete removes the object, or only stamps it while a finalizer is present.\<close>

definition delete_result :: "kobj \<Rightarrow> kobj option \<Rightarrow> bool" where
  "delete_result cur r \<longleftrightarrow> (if m_Finalizers (kobj_meta cur) = [] then r = None
     else (\<exists>t g v. r = Some (with_meta ((kobj_meta cur)
       \<lparr>m_DeletionTimestamp := Some t, m_Generation := g, m_ResourceVersion := v\<rparr>) cur)))"

section \<open>The client interface\<close>

text \<open>The calls of \<^verbatim>\<open>client.Client\<close> and of \<^verbatim>\<open>controllerutil\<close> that the sources use.\<close>

record 'w kube =
  k_Get :: "kkey \<Rightarrow> ('w, kerr + kobj) state"
  k_List :: "kkind \<Rightarrow> ('w, kerr + kobj list) state"
  k_Create :: "kobj \<Rightarrow> ('w, kerr + kobj) state"
  k_Update :: "kobj \<Rightarrow> ('w, kerr + kobj) state"
  k_StatusUpdate :: "kobj \<Rightarrow> ('w, kerr + kobj) state"
  k_Delete :: "kkey \<Rightarrow> ('w, kerr + unit) state"
  k_CreateOrUpdate :: "kobj \<Rightarrow> (kobj \<Rightarrow> kobj) \<Rightarrow> ('w, kerr + kobj) state"
  k_AddFinalizer :: "ObjectMeta \<Rightarrow> string \<Rightarrow> ObjectMeta \<times> bool"
  k_RemoveFinalizer :: "ObjectMeta \<Rightarrow> string \<Rightarrow> ObjectMeta \<times> bool"
  k_ContainsFinalizer :: "ObjectMeta \<Rightarrow> string \<Rightarrow> bool"
  k_SetControllerReference :: "ObjectMeta \<Rightarrow> ObjectMeta \<Rightarrow> kerr + ObjectMeta"

text \<open>Typed access, as the Go client decodes into the type of its argument.\<close>

fun as_adv :: "kobj \<Rightarrow> kerr + ClusterAdvertisement" where
  "as_adv (KAdv x) = Inr x" | "as_adv _ = Inl (KOther ''kind'')"

fun as_resv :: "kobj \<Rightarrow> kerr + Reservation" where
  "as_resv (KResv x) = Inr x" | "as_resv _ = Inl (KOther ''kind'')"

fun as_pi :: "kobj \<Rightarrow> kerr + ProviderInstruction" where
  "as_pi (KPI x) = Inr x" | "as_pi _ = Inl (KOther ''kind'')"

fun as_ri :: "kobj \<Rightarrow> kerr + ReservationInstruction" where
  "as_ri (KRI x) = Inr x" | "as_ri _ = Inl (KOther ''kind'')"

fun as_sec :: "kobj \<Rightarrow> kerr + Secret" where
  "as_sec (KSec x) = Inr x" | "as_sec _ = Inl (KOther ''kind'')"

definition typed :: "(kobj \<Rightarrow> kerr + 'a) \<Rightarrow> (kerr + kobj) \<Rightarrow> kerr + 'a" where
  "typed f r = (case r of Inl e \<Rightarrow> Inl e | Inr x \<Rightarrow> f x)"

definition oks :: "(kobj \<Rightarrow> kerr + 'a) \<Rightarrow> kobj list \<Rightarrow> 'a list" where
  "oks f xs = List.map_filter (\<lambda>x. case f x of Inl _ \<Rightarrow> None | Inr y \<Rightarrow> Some y) xs"

definition get_typed ::
  "'w kube \<Rightarrow> kkind \<Rightarrow> (kobj \<Rightarrow> kerr + 'a) \<Rightarrow> string \<Rightarrow> ('w, kerr + 'a) state" where
  "get_typed K kd f n = do { r \<leftarrow> k_Get K (kd, n); State_Monad.return (typed f r) }"

definition list_typed ::
  "'w kube \<Rightarrow> kkind \<Rightarrow> (kobj \<Rightarrow> kerr + 'a) \<Rightarrow> ('w, kerr + 'a list) state" where
  "list_typed K kd f = do { r \<leftarrow> k_List K kd;
     State_Monad.return (case r of Inl e \<Rightarrow> Inl e | Inr xs \<Rightarrow> Inr (oks f xs)) }"

definition create_typed ::
  "'w kube \<Rightarrow> ('a \<Rightarrow> kobj) \<Rightarrow> (kobj \<Rightarrow> kerr + 'a) \<Rightarrow> 'a \<Rightarrow> ('w, kerr + 'a) state" where
  "create_typed K c f x = do { r \<leftarrow> k_Create K (c x); State_Monad.return (typed f r) }"

definition update_typed ::
  "'w kube \<Rightarrow> ('a \<Rightarrow> kobj) \<Rightarrow> (kobj \<Rightarrow> kerr + 'a) \<Rightarrow> 'a \<Rightarrow> ('w, kerr + 'a) state" where
  "update_typed K c f x = do { r \<leftarrow> k_Update K (c x); State_Monad.return (typed f r) }"

definition status_typed ::
  "'w kube \<Rightarrow> ('a \<Rightarrow> kobj) \<Rightarrow> (kobj \<Rightarrow> kerr + 'a) \<Rightarrow> 'a \<Rightarrow> ('w, kerr + 'a) state" where
  "status_typed K c f x = do { r \<leftarrow> k_StatusUpdate K (c x); State_Monad.return (typed f r) }"

definition cou_typed :: "'w kube \<Rightarrow> ('a \<Rightarrow> kobj) \<Rightarrow> (kobj \<Rightarrow> kerr + 'a) \<Rightarrow> 'a \<Rightarrow> ('a \<Rightarrow> 'a) \<Rightarrow>
    ('w, kerr + 'a) state" where
  "cou_typed K c f x mutate = do {
     r \<leftarrow> k_CreateOrUpdate K (c x) (\<lambda>y. case f y of Inl _ \<Rightarrow> y | Inr z \<Rightarrow> c (mutate z));
     State_Monad.return (typed f r) }"

lemmas typed_ops = get_typed_def list_typed_def create_typed_def update_typed_def status_typed_def

abbreviation GetAdv :: "'w kube \<Rightarrow> string \<Rightarrow> ('w, kerr + ClusterAdvertisement) state" where
  "GetAdv K \<equiv> get_typed K AdvKind as_adv"

abbreviation ListAdv :: "'w kube \<Rightarrow> ('w, kerr + ClusterAdvertisement list) state" where
  "ListAdv K \<equiv> list_typed K AdvKind as_adv"

abbreviation CreateAdv :: "'w kube \<Rightarrow> ClusterAdvertisement \<Rightarrow> ('w, kerr + ClusterAdvertisement) state" where
  "CreateAdv K \<equiv> create_typed K KAdv as_adv"

abbreviation UpdateAdv :: "'w kube \<Rightarrow> ClusterAdvertisement \<Rightarrow> ('w, kerr + ClusterAdvertisement) state" where
  "UpdateAdv K \<equiv> update_typed K KAdv as_adv"

abbreviation StatusUpdateAdv :: "'w kube \<Rightarrow> ClusterAdvertisement \<Rightarrow> ('w, kerr + ClusterAdvertisement) state" where
  "StatusUpdateAdv K \<equiv> status_typed K KAdv as_adv"

abbreviation CreateOrUpdateAdv :: "'w kube \<Rightarrow> ClusterAdvertisement \<Rightarrow>
    (ClusterAdvertisement \<Rightarrow> ClusterAdvertisement) \<Rightarrow> ('w, kerr + ClusterAdvertisement) state" where
  "CreateOrUpdateAdv K \<equiv> cou_typed K KAdv as_adv"

abbreviation GetResv :: "'w kube \<Rightarrow> string \<Rightarrow> ('w, kerr + Reservation) state" where
  "GetResv K \<equiv> get_typed K ResvKind as_resv"

abbreviation ListResv :: "'w kube \<Rightarrow> ('w, kerr + Reservation list) state" where
  "ListResv K \<equiv> list_typed K ResvKind as_resv"

abbreviation CreateResv :: "'w kube \<Rightarrow> Reservation \<Rightarrow> ('w, kerr + Reservation) state" where
  "CreateResv K \<equiv> create_typed K KResv as_resv"

abbreviation UpdateResv :: "'w kube \<Rightarrow> Reservation \<Rightarrow> ('w, kerr + Reservation) state" where
  "UpdateResv K \<equiv> update_typed K KResv as_resv"

abbreviation StatusUpdateResv :: "'w kube \<Rightarrow> Reservation \<Rightarrow> ('w, kerr + Reservation) state" where
  "StatusUpdateResv K \<equiv> status_typed K KResv as_resv"

abbreviation GetPI :: "'w kube \<Rightarrow> string \<Rightarrow> ('w, kerr + ProviderInstruction) state" where
  "GetPI K \<equiv> get_typed K PIKind as_pi"

abbreviation ListPI :: "'w kube \<Rightarrow> ('w, kerr + ProviderInstruction list) state" where
  "ListPI K \<equiv> list_typed K PIKind as_pi"

abbreviation CreatePI :: "'w kube \<Rightarrow> ProviderInstruction \<Rightarrow> ('w, kerr + ProviderInstruction) state" where
  "CreatePI K \<equiv> create_typed K KPI as_pi"

abbreviation UpdatePI :: "'w kube \<Rightarrow> ProviderInstruction \<Rightarrow> ('w, kerr + ProviderInstruction) state" where
  "UpdatePI K \<equiv> update_typed K KPI as_pi"

abbreviation StatusUpdatePI :: "'w kube \<Rightarrow> ProviderInstruction \<Rightarrow> ('w, kerr + ProviderInstruction) state" where
  "StatusUpdatePI K \<equiv> status_typed K KPI as_pi"

abbreviation GetRI :: "'w kube \<Rightarrow> string \<Rightarrow> ('w, kerr + ReservationInstruction) state" where
  "GetRI K \<equiv> get_typed K RIKind as_ri"

abbreviation ListRI :: "'w kube \<Rightarrow> ('w, kerr + ReservationInstruction list) state" where
  "ListRI K \<equiv> list_typed K RIKind as_ri"

abbreviation CreateRI :: "'w kube \<Rightarrow> ReservationInstruction \<Rightarrow> ('w, kerr + ReservationInstruction) state" where
  "CreateRI K \<equiv> create_typed K KRI as_ri"

abbreviation UpdateRI :: "'w kube \<Rightarrow> ReservationInstruction \<Rightarrow> ('w, kerr + ReservationInstruction) state" where
  "UpdateRI K \<equiv> update_typed K KRI as_ri"

abbreviation StatusUpdateRI :: "'w kube \<Rightarrow> ReservationInstruction \<Rightarrow> ('w, kerr + ReservationInstruction) state" where
  "StatusUpdateRI K \<equiv> status_typed K KRI as_ri"

abbreviation GetSecret :: "'w kube \<Rightarrow> string \<Rightarrow> ('w, kerr + Secret) state" where
  "GetSecret K \<equiv> get_typed K SecretKind as_sec"

abbreviation CreateSecret :: "'w kube \<Rightarrow> Secret \<Rightarrow> ('w, kerr + Secret) state" where
  "CreateSecret K \<equiv> create_typed K KSec as_sec"

abbreviation UpdateSecret :: "'w kube \<Rightarrow> Secret \<Rightarrow> ('w, kerr + Secret) state" where
  "UpdateSecret K \<equiv> update_typed K KSec as_sec"

section \<open>The conflict-retry loop\<close>

text \<open>
  The idiom \<^verbatim>\<open>for attempt := 0; attempt < 3; attempt++ { get; change; write }\<close> in which a
  conflict on the write starts the next attempt. \<open>decide\<close> is the part between the read and the
  write: it either ends the loop with a value or gives the object to write.
\<close>

datatype ('s, 'o) cas = GetFailed kerr | Stopped 's | WriteFailed kerr | Exhausted | Written 'o

primrec casLoop :: "nat \<Rightarrow> ('w, kerr + 'o) state \<Rightarrow> ('o \<Rightarrow> 's + 'o) \<Rightarrow> ('o \<Rightarrow> ('w, kerr + 'o) state) \<Rightarrow>
    ('w, ('s, 'o) cas) state" where
  "casLoop 0 get decide write = State_Monad.return Exhausted"
| "casLoop (Suc n) get decide write = do {
     r \<leftarrow> get;
     (case r of
        Inl e \<Rightarrow> State_Monad.return (GetFailed e)
      | Inr x \<Rightarrow> (case decide x of
          Inl s \<Rightarrow> State_Monad.return (Stopped s)
        | Inr y \<Rightarrow> do {
            u \<leftarrow> write y;
            (case u of
               Inl e \<Rightarrow> if e = KConflict then casLoop n get decide write
                        else State_Monad.return (WriteFailed e)
             | Inr _ \<Rightarrow> State_Monad.return (Written y)) }))
   }"

text \<open>Errors as the code returns them: an API error, one wrapped with context, or its own text.\<close>

datatype gerr = KubeErr kerr | Errorf message | Wrap string gerr

section \<open>The contract of the API server\<close>

text \<open>
  \<open>objs w\<close> is what the server has stored. Every call either fails and changes nothing, or
  has the documented effect. A call may fail at any time for a reason of its own; a conflict
  is reported instead of overwriting an object whose resource version has moved on. Reads
  return what is stored, that is, the client's cache is assumed to be in sync.
\<close>

locale kube_api =
  fixes K :: "'w kube" and objs :: "'w \<Rightarrow> kkey \<Rightarrow> kobj option"
  assumes well_keyed: "objs w k = Some x \<Longrightarrow> kobj_key x = k"
    and get_law: "run_state (k_Get K k) w = (r, w') \<Longrightarrow>
      objs w' = objs w \<and> (\<forall>x. r = Inr x \<longrightarrow> objs w k = Some x) \<and>
      (r = Inl KNotFound \<longrightarrow> objs w k = None)"
    and list_law: "run_state (k_List K kd) w = (rs, w') \<Longrightarrow>
      objs w' = objs w \<and> (\<forall>xs. rs = Inr xs \<longrightarrow> distinct (map kobj_key xs) \<and>
        (\<forall>x. x \<in> set xs \<longleftrightarrow> kobj_kind x = kd \<and> objs w (kobj_key x) = Some x))"
    and create_law: "run_state (k_Create K x) w = (r, w') \<Longrightarrow>
      (\<forall>e. r = Inl e \<longrightarrow> objs w' = objs w) \<and>
      (r = Inl KAlreadyExists \<longrightarrow> objs w (kobj_key x) \<noteq> None) \<and>
      (\<forall>x'. r = Inr x' \<longrightarrow> objs w (kobj_key x) = None \<and> created x x' \<and>
        objs w' = (objs w)(kobj_key x \<mapsto> x'))"
    and update_law: "run_state (k_Update K x) w = (r, w') \<Longrightarrow>
      (\<forall>e. r = Inl e \<longrightarrow> objs w' = objs w) \<and>
      (\<forall>x'. r = Inr x' \<longrightarrow> (\<exists>cur. objs w (kobj_key x) = Some cur \<and> kobj_rv cur = kobj_rv x \<and>
        updated cur x x' \<and> objs w' = (objs w)(kobj_key x := stored x')))"
    and status_law: "run_state (k_StatusUpdate K x) w = (r, w') \<Longrightarrow>
      (\<forall>e. r = Inl e \<longrightarrow> objs w' = objs w) \<and>
      (\<forall>x'. r = Inr x' \<longrightarrow> (\<exists>cur. objs w (kobj_key x) = Some cur \<and> kobj_rv cur = kobj_rv x \<and>
        status_updated cur x x' \<and> objs w' = (objs w)(kobj_key x \<mapsto> x')))"
    and delete_law: "run_state (k_Delete K k) w = (u, w') \<Longrightarrow>
      (\<forall>e. u = Inl e \<longrightarrow> objs w' = objs w) \<and> (u = Inl KNotFound \<longrightarrow> objs w k = None) \<and>
      (u = Inr () \<longrightarrow> (\<exists>cur r'. objs w k = Some cur \<and> delete_result cur r' \<and>
        objs w' = (objs w)(k := r')))"
    and create_or_update_law: "run_state (k_CreateOrUpdate K x f) w = (r, w') \<Longrightarrow>
      (\<And>y. kobj_key (f y) = kobj_key y) \<Longrightarrow>
      (\<forall>e. r = Inl e \<longrightarrow> objs w' = objs w) \<and>
      (\<forall>x'. r = Inr x' \<longrightarrow> (case objs w (kobj_key x) of
         None \<Rightarrow> created (f x) x' \<and> objs w' = (objs w)(kobj_key x \<mapsto> x')
       | Some cur \<Rightarrow> f cur = cur \<and> x' = cur \<and> objs w' = objs w \<or>
           updated cur (f cur) x' \<and> objs w' = (objs w)(kobj_key x := stored x')))"
    and add_finalizer: "k_AddFinalizer K m fin = (if fin \<in> set (m_Finalizers m) then (m, False)
      else (m\<lparr>m_Finalizers := m_Finalizers m @ [fin]\<rparr>, True))"
    and remove_finalizer: "k_RemoveFinalizer K m fin =
      (m\<lparr>m_Finalizers := removeAll fin (m_Finalizers m)\<rparr>, fin \<in> set (m_Finalizers m))"
    and contains_finalizer: "k_ContainsFinalizer K m fin \<longleftrightarrow> fin \<in> set (m_Finalizers m)"
    and controller_reference: "k_SetControllerReference K own m = Inr m' \<Longrightarrow>
      m' = m\<lparr>m_OwnerRef := Some (m_Name own)\<rparr>"

text \<open>A server that also answers every well-formed request.\<close>

locale kube_reliable = kube_api +
  assumes get_ok: "objs w k = Some x \<Longrightarrow> fst (run_state (k_Get K k) w) = Inr x"
    and get_none: "objs w k = None \<Longrightarrow> fst (run_state (k_Get K k) w) = Inl KNotFound"
    and list_ok: "\<exists>xs. fst (run_state (k_List K kd) w) = Inr xs"
    and create_ok: "objs w (kobj_key x) = None \<Longrightarrow> \<exists>x'. fst (run_state (k_Create K x) w) = Inr x'"
    and create_exists: "objs w (kobj_key x) = Some cur \<Longrightarrow>
      fst (run_state (k_Create K x) w) = Inl KAlreadyExists"
    and update_ok: "objs w (kobj_key x) = Some cur \<Longrightarrow> kobj_rv cur = kobj_rv x \<Longrightarrow>
      \<exists>x'. fst (run_state (k_Update K x) w) = Inr x'"
    and status_ok: "objs w (kobj_key x) = Some cur \<Longrightarrow> kobj_rv cur = kobj_rv x \<Longrightarrow>
      \<exists>x'. fst (run_state (k_StatusUpdate K x) w) = Inr x'"
    and delete_ok: "objs w k = Some cur \<Longrightarrow> fst (run_state (k_Delete K k) w) = Inr ()"

text \<open>A server whose status writes move the object to a later resource version.\<close>

locale kube_versioned = kube_api +
  assumes status_version: "run_state (k_StatusUpdate K x) w = (Inr x', w') \<Longrightarrow> kobj_rv x < kobj_rv x'"

section \<open>Typed views of the store\<close>

type_synonym store = "kkey \<Rightarrow> kobj option"

definition adv_at :: "store \<Rightarrow> string \<Rightarrow> ClusterAdvertisement option" where
  "adv_at s n = (case s (AdvKind, n) of Some (KAdv a) \<Rightarrow> Some a | _ \<Rightarrow> None)"

definition resv_at :: "store \<Rightarrow> string \<Rightarrow> Reservation option" where
  "resv_at s n = (case s (ResvKind, n) of Some (KResv a) \<Rightarrow> Some a | _ \<Rightarrow> None)"

definition pi_at :: "store \<Rightarrow> string \<Rightarrow> ProviderInstruction option" where
  "pi_at s n = (case s (PIKind, n) of Some (KPI a) \<Rightarrow> Some a | _ \<Rightarrow> None)"

definition ri_at :: "store \<Rightarrow> string \<Rightarrow> ReservationInstruction option" where
  "ri_at s n = (case s (RIKind, n) of Some (KRI a) \<Rightarrow> Some a | _ \<Rightarrow> None)"

definition secret_at :: "store \<Rightarrow> string \<Rightarrow> Secret option" where
  "secret_at s n = (case s (SecretKind, n) of Some (KSec a) \<Rightarrow> Some a | _ \<Rightarrow> None)"

lemmas at_defs = adv_at_def resv_at_def pi_at_def ri_at_def secret_at_def

lemma kobj_key_simps [simp]:
  "kobj_key (KAdv a) = (AdvKind, m_Name (ca_Meta a))"
  "kobj_key (KResv r) = (ResvKind, m_Name (rs_Meta r))"
  "kobj_key (KPI p) = (PIKind, m_Name (pi_Meta p))"
  "kobj_key (KRI q) = (RIKind, m_Name (ri_Meta q))"
  "kobj_key (KSec c) = (SecretKind, m_Name (sec_Meta c))"
  by (simp_all add: kobj_key_def)

text \<open>Writing one object leaves the views of every other object alone.\<close>

lemma at_upd_other [simp]:
  "kd \<noteq> AdvKind \<Longrightarrow> adv_at (s((kd, m) := v)) n = adv_at s n"
  "kd \<noteq> ResvKind \<Longrightarrow> resv_at (s((kd, m) := v)) n = resv_at s n"
  "kd \<noteq> PIKind \<Longrightarrow> pi_at (s((kd, m) := v)) n = pi_at s n"
  "kd \<noteq> RIKind \<Longrightarrow> ri_at (s((kd, m) := v)) n = ri_at s n"
  "kd \<noteq> SecretKind \<Longrightarrow> secret_at (s((kd, m) := v)) n = secret_at s n"
  by (auto simp: at_defs)

lemma at_upd_same [simp]:
  "adv_at (s((AdvKind, m) := v)) n = (if n = m then adv_at (\<lambda>_. v) m else adv_at s n)"
  "resv_at (s((ResvKind, m) := v)) n = (if n = m then resv_at (\<lambda>_. v) m else resv_at s n)"
  "pi_at (s((PIKind, m) := v)) n = (if n = m then pi_at (\<lambda>_. v) m else pi_at s n)"
  "ri_at (s((RIKind, m) := v)) n = (if n = m then ri_at (\<lambda>_. v) m else ri_at s n)"
  "secret_at (s((SecretKind, m) := v)) n = (if n = m then secret_at (\<lambda>_. v) m else secret_at s n)"
  by (auto simp: at_defs)

lemma at_const [simp]:
  "adv_at (\<lambda>_. Some (KAdv a)) m = Some a" "adv_at (\<lambda>_. None) m = None"
  "resv_at (\<lambda>_. Some (KResv r)) m = Some r" "resv_at (\<lambda>_. None) m = None"
  "pi_at (\<lambda>_. Some (KPI p)) m = Some p" "pi_at (\<lambda>_. None) m = None"
  "ri_at (\<lambda>_. Some (KRI q)) m = Some q" "ri_at (\<lambda>_. None) m = None"
  "secret_at (\<lambda>_. Some (KSec c)) m = Some c" "secret_at (\<lambda>_. None) m = None"
  by (simp_all add: at_defs)

section \<open>Reasoning about calls\<close>

text \<open>
  A kind of object: its injection into \<open>kobj\<close>, its view of the store and its metadata and
  status. Each typed call has one rule with the failing outcome and the successful one; the
  rules are proved here once and for all kinds.
\<close>

locale kube_kind = kube_api K objs
  for K :: "'w kube" and objs :: "'w \<Rightarrow> kkey \<Rightarrow> kobj option" +
  fixes kd :: kkind and con :: "'o \<Rightarrow> kobj" and dest :: "kobj \<Rightarrow> kerr + 'o"
    and look :: "store \<Rightarrow> string \<Rightarrow> 'o option" and meta :: "'o \<Rightarrow> ObjectMeta"
    and put_meta :: "ObjectMeta \<Rightarrow> 'o \<Rightarrow> 'o" and put_status :: "'o \<Rightarrow> 'o \<Rightarrow> 'o"
    and zero_status :: "'o \<Rightarrow> 'o"
  assumes dest_con: "dest (con x) = Inr x"
    and con_meta: "kobj_meta (con x) = meta x"
    and con_kind: "kobj_kind (con x) = kd"
    and dest_kind: "dest y = Inr x \<Longrightarrow> kobj_kind y = kd"
    and con_of_kind: "kobj_kind y = kd \<Longrightarrow> \<exists>x. y = con x"
    and look_store: "look s n = (case s (kd, n) of None \<Rightarrow> None
      | Some y \<Rightarrow> (case dest y of Inl _ \<Rightarrow> None | Inr x \<Rightarrow> Some x))"
    and con_with_meta: "with_meta m (con x) = con (put_meta m x)"
    and con_with_status: "with_status_of (con x0) (con x) = con (put_status x0 x)"
    and con_clear: "clear_status (con x) = con (zero_status x)"
begin

lemma con_key: "kobj_key (con x) = (kd, m_Name (meta x))"
  by (simp add: kobj_key_def con_meta con_kind)

lemma stored_typed:
  assumes "objs w (kd, n) = Some y"
  obtains x where "y = con x" "look (objs w) n = Some x" "m_Name (meta x) = n"
proof -
  have key: "kobj_key y = (kd, n)" by (rule well_keyed [OF assms])
  then obtain x where "y = con x" using con_of_kind [of y] by (auto simp: kobj_key_def)
  with assms key show thesis by (intro that [of x]) (simp_all add: con_key look_store dest_con)
qed

lemma look_None_iff: "look (objs w) n = None \<longleftrightarrow> objs w (kd, n) = None"
proof (cases "objs w (kd, n)")
  case None
  then show ?thesis by (simp add: look_store)
next
  case (Some y)
  then show ?thesis by (auto elim: stored_typed)
qed

lemma look_name: "look (objs w) n = Some x \<Longrightarrow> m_Name (meta x) = n"
  by (cases "objs w (kd, n)") (auto simp: look_store dest_con elim: stored_typed)

lemma wp_get [wp_rules]:
  assumes "\<And>w' e. objs w' = objs w \<Longrightarrow> (e = KNotFound \<Longrightarrow> look (objs w) n = None) \<Longrightarrow> Q (Inl e) w'"
    and "\<And>w' x. objs w' = objs w \<Longrightarrow> look (objs w) n = Some x \<Longrightarrow> m_Name (meta x) = n \<Longrightarrow>
      Q (Inr x) w'"
  shows "wp (get_typed K kd dest n) Q w"
  unfolding typed_ops wp_bind wp_return
proof (rule wpI)
  fix r w' assume run: "run_state (k_Get K (kd, n)) w = (r, w')"
  note law = get_law [OF run]
  show "Q (typed dest r) w'"
  proof (cases r)
    case (Inl e)
    with law assms(1) [of w' e] show ?thesis by (auto simp: typed_def look_None_iff)
  next
    case (Inr y)
    with law have "objs w (kd, n) = Some y" by simp
    then obtain x where "y = con x" "look (objs w) n = Some x" "m_Name (meta x) = n"
      by (rule stored_typed)
    with Inr law assms(2) [of w' x] show ?thesis by (simp add: typed_def dest_con)
  qed
qed

lemma wp_list [wp_rules]:
  assumes "\<And>w' e. objs w' = objs w \<Longrightarrow> Q (Inl e) w'"
    and "\<And>w' xs. objs w' = objs w \<Longrightarrow> distinct (map (\<lambda>x. m_Name (meta x)) xs) \<Longrightarrow>
      (\<And>x. x \<in> set xs \<longleftrightarrow> look (objs w) (m_Name (meta x)) = Some x) \<Longrightarrow> Q (Inr xs) w'"
  shows "wp (list_typed K kd dest) Q w"
  unfolding typed_ops wp_bind wp_return
proof (rule wpI)
  fix r w' assume run: "run_state (k_List K kd) w = (r, w')"
  note law = list_law [OF run]
  show "Q (case r of Inl e \<Rightarrow> Inl e | Inr ys \<Rightarrow> Inr (oks dest ys)) w'"
  proof (cases r)
    case (Inl e)
    with law assms(1) show ?thesis by simp
  next
    case (Inr ys)
    with law have d: "distinct (map kobj_key ys)"
      and mem: "\<And>y. y \<in> set ys \<longleftrightarrow> kobj_kind y = kd \<and> objs w (kobj_key y) = Some y"
      and same: "objs w' = objs w" by auto
    have "\<forall>y\<in>set ys. \<exists>x. y = con x" using mem con_of_kind by blast
    then obtain xs where xs: "ys = map con xs" by (metis ex_map_conv)
    have "oks dest ys = xs" by (simp add: xs oks_def map_filter_def comp_def dest_con)
    moreover have "distinct (map (\<lambda>x. m_Name (meta x)) xs)"
      using d by (simp add: xs comp_def con_key distinct_map inj_on_def)
    moreover have "x \<in> set xs \<longleftrightarrow> look (objs w) (m_Name (meta x)) = Some x" for x
    proof
      assume "x \<in> set xs"
      then have "con x \<in> set ys" by (simp add: xs)
      with mem show "look (objs w) (m_Name (meta x)) = Some x"
        by (simp add: look_store con_key dest_con)
    next
      assume a: "look (objs w) (m_Name (meta x)) = Some x"
      then obtain y where y: "objs w (kd, m_Name (meta x)) = Some y"
        by (auto simp: look_store split: option.splits)
      then obtain x' where "y = con x'" "look (objs w) (m_Name (meta x)) = Some x'"
        by (rule stored_typed)
      with a y mem [of "con x"] have "con x \<in> set ys" by (simp add: con_key con_kind)
      then obtain x'' where "x'' \<in> set xs" "con x'' = con x" by (auto simp: xs)
      then show "x \<in> set xs" by (metis dest_con sum.inject(2))
    qed
    ultimately show ?thesis using assms(2) [OF same] Inr by simp
  qed
qed

lemma wp_create [wp_rules]:
  assumes "\<And>w' e. objs w' = objs w \<Longrightarrow>
      (e = KAlreadyExists \<Longrightarrow> look (objs w) (m_Name (meta x)) \<noteq> None) \<Longrightarrow> Q (Inl e) w'"
    and "\<And>w' x' t g v. look (objs w) (m_Name (meta x)) = None \<Longrightarrow>
      x' = zero_status (put_meta ((meta x)\<lparr>m_CreationTimestamp := t, m_DeletionTimestamp := None,
        m_Generation := g, m_ResourceVersion := v\<rparr>) x) \<Longrightarrow>
      objs w' = (objs w)((kd, m_Name (meta x)) \<mapsto> con x') \<Longrightarrow> Q (Inr x') w'"
  shows "wp (create_typed K con dest x) Q w"
  unfolding typed_ops wp_bind wp_return
proof (rule wpI)
  fix r w' assume run: "run_state (k_Create K (con x)) w = (r, w')"
  note law = create_law [OF run, unfolded con_key con_meta created_def con_with_meta con_clear]
  show "Q (typed dest r) w'"
  proof (cases r)
    case (Inl e)
    with law assms(1) [of w' e] show ?thesis by (auto simp: typed_def look_None_iff)
  next
    case (Inr y)
    with law assms(2) show ?thesis by (auto simp: typed_def look_None_iff dest_con)
  qed
qed

lemma wp_update [wp_rules]:
  assumes "\<And>w' e. objs w' = objs w \<Longrightarrow> Q (Inl e) w'"
    and "\<And>w' x' cur g v. look (objs w) (m_Name (meta x)) = Some cur \<Longrightarrow>
      m_ResourceVersion (meta cur) = m_ResourceVersion (meta x) \<Longrightarrow>
      x' = put_status cur (put_meta ((meta x)\<lparr>m_CreationTimestamp := m_CreationTimestamp (meta cur),
        m_DeletionTimestamp := m_DeletionTimestamp (meta cur),
        m_Generation := g, m_ResourceVersion := v\<rparr>) x) \<Longrightarrow>
      objs w' = (objs w)((kd, m_Name (meta x)) := stored (con x')) \<Longrightarrow> Q (Inr x') w'"
  shows "wp (update_typed K con dest x) Q w"
  unfolding typed_ops wp_bind wp_return
proof (rule wpI)
  fix r w' assume run: "run_state (k_Update K (con x)) w = (r, w')"
  note law = update_law [OF run, unfolded con_key con_meta updated_def con_with_meta]
  show "Q (typed dest r) w'"
  proof (cases r)
    case (Inl e)
    with law assms(1) show ?thesis by (simp add: typed_def)
  next
    case (Inr y)
    with law obtain ocur where o: "objs w (kd, m_Name (meta x)) = Some ocur" by auto
    then obtain cur where "ocur = con cur" "look (objs w) (m_Name (meta x)) = Some cur"
      by (rule stored_typed)
    with o law Inr assms(2) show ?thesis
      by (auto simp: con_meta con_with_status typed_def dest_con)
  qed
qed

lemma wp_status [wp_rules]:
  assumes "\<And>w' e. objs w' = objs w \<Longrightarrow> Q (Inl e) w'"
    and "\<And>w' x' cur v. look (objs w) (m_Name (meta x)) = Some cur \<Longrightarrow>
      m_ResourceVersion (meta cur) = m_ResourceVersion (meta x) \<Longrightarrow>
      x' = put_status x (put_meta ((meta cur)\<lparr>m_ResourceVersion := v\<rparr>) cur) \<Longrightarrow>
      objs w' = (objs w)((kd, m_Name (meta x)) \<mapsto> con x') \<Longrightarrow> Q (Inr x') w'"
  shows "wp (status_typed K con dest x) Q w"
  unfolding typed_ops wp_bind wp_return
proof (rule wpI)
  fix r w' assume run: "run_state (k_StatusUpdate K (con x)) w = (r, w')"
  note law = status_law [OF run, unfolded con_key con_meta status_updated_def]
  show "Q (typed dest r) w'"
  proof (cases r)
    case (Inl e)
    with law assms(1) show ?thesis by (simp add: typed_def)
  next
    case (Inr y)
    with law obtain ocur where o: "objs w (kd, m_Name (meta x)) = Some ocur" by auto
    then obtain cur where "ocur = con cur" "look (objs w) (m_Name (meta x)) = Some cur"
      by (rule stored_typed)
    with o law Inr assms(2) show ?thesis
      by (auto simp: con_meta con_with_meta con_with_status typed_def dest_con)
  qed
qed

lemma wp_delete [wp_rules]:
  assumes "\<And>w' e. objs w' = objs w \<Longrightarrow> (e = KNotFound \<Longrightarrow> look (objs w) n = None) \<Longrightarrow> Q (Inl e) w'"
    and "\<And>w' cur r. look (objs w) n = Some cur \<Longrightarrow> delete_result (con cur) r \<Longrightarrow>
      objs w' = (objs w)((kd, n) := r) \<Longrightarrow> Q (Inr ()) w'"
  shows "wp (k_Delete K (kd, n)) Q w"
proof (rule wpI)
  fix r w' assume run: "run_state (k_Delete K (kd, n)) w = (r, w')"
  note law = delete_law [OF run]
  show "Q r w'"
  proof (cases r)
    case (Inl e)
    with law assms(1) [of w' e] show ?thesis by (auto simp: look_None_iff)
  next
    case (Inr u)
    with law obtain ocur r' where o: "objs w (kd, n) = Some ocur" "delete_result ocur r'"
        "objs w' = (objs w)((kd, n) := r')" by auto
    from o(1) obtain cur where "ocur = con cur" "look (objs w) n = Some cur" by (rule stored_typed)
    with o assms(2) [of cur r' w'] Inr show ?thesis by simp
  qed
qed

lemma wp_create_or_update:
  assumes keep: "\<And>y. meta (mutate y) = meta y"
    and "\<And>w' e. objs w' = objs w \<Longrightarrow> Q (Inl e) w'"
    and "\<And>w' x' t g v. look (objs w) (m_Name (meta x)) = None \<Longrightarrow>
      x' = zero_status (put_meta ((meta x)\<lparr>m_CreationTimestamp := t, m_DeletionTimestamp := None,
        m_Generation := g, m_ResourceVersion := v\<rparr>) (mutate x)) \<Longrightarrow>
      objs w' = (objs w)((kd, m_Name (meta x)) \<mapsto> con x') \<Longrightarrow> Q (Inr x') w'"
    and "\<And>w' cur. look (objs w) (m_Name (meta x)) = Some cur \<Longrightarrow> con (mutate cur) = con cur \<Longrightarrow>
      objs w' = objs w \<Longrightarrow> Q (Inr cur) w'"
    and "\<And>w' x' cur g v. look (objs w) (m_Name (meta x)) = Some cur \<Longrightarrow>
      x' = put_status cur (put_meta ((meta cur)\<lparr>m_Generation := g, m_ResourceVersion := v\<rparr>) (mutate cur)) \<Longrightarrow>
      objs w' = (objs w)((kd, m_Name (meta x)) := stored (con x')) \<Longrightarrow> Q (Inr x') w'"
  shows "wp (cou_typed K con dest x mutate) Q w"
  unfolding cou_typed_def wp_bind wp_return
proof (rule wpI)
  let ?f = "\<lambda>y. case dest y of Inl _ \<Rightarrow> y | Inr z \<Rightarrow> con (mutate z)"
  fix r w' assume run: "run_state (k_CreateOrUpdate K (con x) ?f) w = (r, w')"
  have "kobj_key (?f y) = kobj_key y" for y
  proof (cases "kobj_kind y = kd")
    case True
    then obtain z where "y = con z" using con_of_kind by blast
    then show ?thesis by (simp add: dest_con con_key keep)
  next
    case False
    show ?thesis
    proof (cases "dest y")
      case (Inr z)
      then show ?thesis using False dest_kind by blast
    qed simp
  qed
  note law = create_or_update_law [OF run this, unfolded con_key]
  show "Q (typed dest r) w'"
  proof (cases r)
    case (Inl e)
    with law assms(2) show ?thesis by (simp add: typed_def)
  next
    case (Inr y)
    show ?thesis
    proof (cases "objs w (kd, m_Name (meta x))")
      case None
      with law Inr show ?thesis
        using assms(3) by (auto simp: look_None_iff typed_def dest_con created_def con_with_meta con_clear con_meta keep)
    next
      case (Some ocur)
      then obtain cur where cur: "ocur = con cur" "look (objs w) (m_Name (meta x)) = Some cur"
        by (rule stored_typed)
      with law Inr Some show ?thesis
        using assms(4,5) by (auto simp: typed_def dest_con updated_def con_with_meta con_with_status con_meta keep)
    qed
  qed
qed

lemma wp_casStatus:
  assumes keep: "\<And>x y. decide x = Inr y \<Longrightarrow> m_Name (meta y) = m_Name (meta x) \<and>
      m_ResourceVersion (meta y) = m_ResourceVersion (meta x)"
    and get: "\<And>w' e. objs w' = objs w \<Longrightarrow> (e = KNotFound \<Longrightarrow> look (objs w) n = None) \<Longrightarrow> Q (GetFailed e) w'"
    and stop: "\<And>w' x s. objs w' = objs w \<Longrightarrow> look (objs w) n = Some x \<Longrightarrow> decide x = Inl s \<Longrightarrow> Q (Stopped s) w'"
    and fail: "\<And>w' e. objs w' = objs w \<Longrightarrow> Q (WriteFailed e) w'"
    and exh: "\<And>w'. objs w' = objs w \<Longrightarrow> Q Exhausted w'"
    and ok: "\<And>w' x y v. look (objs w) n = Some x \<Longrightarrow> decide x = Inr y \<Longrightarrow>
      objs w' = (objs w)((kd, n) \<mapsto> con (put_status y (put_meta ((meta x)\<lparr>m_ResourceVersion := v\<rparr>) x))) \<Longrightarrow>
      Q (Written y) w'"
  shows "wp (casLoop k (get_typed K kd dest n) decide (status_typed K con dest)) Q w"
proof -
  let ?loop = "\<lambda>k. casLoop k (get_typed K kd dest n) decide (status_typed K con dest)"
  have "wp (?loop k) Q v" if "objs v = objs w" for v
    using that
  proof (induction k arbitrary: v)
    case 0
    then show ?case by (simp add: exh)
  next
    case (Suc k)
    show ?case
      unfolding casLoop.simps wp_bind
    proof (rule wp_get, goal_cases)
      case (1 w' e)
      with Suc.prems show ?case by (simp add: get)
    next
      case x: (2 w' x)
      show ?case
      proof (cases "decide x")
        case (Inl s)
        with x Suc.prems show ?thesis by (simp add: stop)
      next
        case (Inr y)
        note nm = keep [OF Inr]
        show ?thesis
          unfolding Inr sum.case wp_bind
        proof (rule wp_status, goal_cases)
          case (1 w'' e)
          with x Suc.prems Suc.IH show ?case by (simp add: fail)
        next
          case (2 w'' x' cur v')
          with x nm Suc.prems Inr show ?case by (auto intro: ok)
        qed
      qed
    qed
  qed
  then show ?thesis by simp
qed

lemma wp_casUpdate:
  assumes keep: "\<And>x y. decide x = Inr y \<Longrightarrow> m_Name (meta y) = m_Name (meta x) \<and>
      m_ResourceVersion (meta y) = m_ResourceVersion (meta x)"
    and get: "\<And>w' e. objs w' = objs w \<Longrightarrow> (e = KNotFound \<Longrightarrow> look (objs w) n = None) \<Longrightarrow> Q (GetFailed e) w'"
    and stop: "\<And>w' x s. objs w' = objs w \<Longrightarrow> look (objs w) n = Some x \<Longrightarrow> decide x = Inl s \<Longrightarrow> Q (Stopped s) w'"
    and fail: "\<And>w' e. objs w' = objs w \<Longrightarrow> Q (WriteFailed e) w'"
    and exh: "\<And>w'. objs w' = objs w \<Longrightarrow> Q Exhausted w'"
    and ok: "\<And>w' x y g v. look (objs w) n = Some x \<Longrightarrow> decide x = Inr y \<Longrightarrow>
      objs w' = (objs w)((kd, n) := stored (con (put_status x (put_meta
        ((meta y)\<lparr>m_CreationTimestamp := m_CreationTimestamp (meta x),
          m_DeletionTimestamp := m_DeletionTimestamp (meta x), m_Generation := g, m_ResourceVersion := v\<rparr>) y)))) \<Longrightarrow>
      Q (Written y) w'"
  shows "wp (casLoop k (get_typed K kd dest n) decide (update_typed K con dest)) Q w"
proof -
  let ?loop = "\<lambda>k. casLoop k (get_typed K kd dest n) decide (update_typed K con dest)"
  have "wp (?loop k) Q v" if "objs v = objs w" for v
    using that
  proof (induction k arbitrary: v)
    case 0
    then show ?case by (simp add: exh)
  next
    case (Suc k)
    show ?case
      unfolding casLoop.simps wp_bind
    proof (rule wp_get, goal_cases)
      case (1 w' e)
      with Suc.prems show ?case by (simp add: get)
    next
      case x: (2 w' x)
      show ?case
      proof (cases "decide x")
        case (Inl s)
        with x Suc.prems show ?thesis by (simp add: stop)
      next
        case (Inr y)
        note nm = keep [OF Inr]
        show ?thesis
          unfolding Inr sum.case wp_bind
        proof (rule wp_update, goal_cases)
          case (1 w'' e)
          with x Suc.prems Suc.IH show ?case by (simp add: fail)
        next
          case (2 w'' x' cur g v')
          with x nm Suc.prems Inr show ?case by (auto intro: ok)
        qed
      qed
    qed
  qed
  then show ?thesis by simp
qed

end

sublocale kube_api \<subseteq> adv: kube_kind K objs AdvKind KAdv as_adv adv_at ca_Meta
  "\<lambda>m x. x\<lparr>ca_Meta := m\<rparr>" "\<lambda>y x. x\<lparr>ca_Status := ca_Status y\<rparr>"
  "\<lambda>x. x\<lparr>ca_Status := zero_ClusterAdvertisementStatus\<rparr>"
proof unfold_locales
  show "\<exists>x. y = KAdv x" if "kobj_kind y = AdvKind" for y using that by (cases y) auto
  show "kobj_kind y = AdvKind" if "as_adv y = Inr x" for x y using that by (cases y) auto
qed (auto simp: at_defs split: option.splits kobj.splits)

sublocale kube_api \<subseteq> resv: kube_kind K objs ResvKind KResv as_resv resv_at rs_Meta
  "\<lambda>m x. x\<lparr>rs_Meta := m\<rparr>" "\<lambda>y x. x\<lparr>rs_Status := rs_Status y\<rparr>"
  "\<lambda>x. x\<lparr>rs_Status := zero_ReservationStatus\<rparr>"
proof unfold_locales
  show "\<exists>x. y = KResv x" if "kobj_kind y = ResvKind" for y using that by (cases y) auto
  show "kobj_kind y = ResvKind" if "as_resv y = Inr x" for x y using that by (cases y) auto
qed (auto simp: at_defs split: option.splits kobj.splits)

sublocale kube_api \<subseteq> pi: kube_kind K objs PIKind KPI as_pi pi_at pi_Meta
  "\<lambda>m x. x\<lparr>pi_Meta := m\<rparr>" "\<lambda>y x. x\<lparr>pi_Status := pi_Status y\<rparr>"
  "\<lambda>x. x\<lparr>pi_Status := zero_InstructionStatus\<rparr>"
proof unfold_locales
  show "\<exists>x. y = KPI x" if "kobj_kind y = PIKind" for y using that by (cases y) auto
  show "kobj_kind y = PIKind" if "as_pi y = Inr x" for x y using that by (cases y) auto
qed (auto simp: at_defs split: option.splits kobj.splits)

sublocale kube_api \<subseteq> ri: kube_kind K objs RIKind KRI as_ri ri_at ri_Meta
  "\<lambda>m x. x\<lparr>ri_Meta := m\<rparr>" "\<lambda>y x. x\<lparr>ri_Status := ri_Status y\<rparr>"
  "\<lambda>x. x\<lparr>ri_Status := zero_InstructionStatus\<rparr>"
proof unfold_locales
  show "\<exists>x. y = KRI x" if "kobj_kind y = RIKind" for y using that by (cases y) auto
  show "kobj_kind y = RIKind" if "as_ri y = Inr x" for x y using that by (cases y) auto
qed (auto simp: at_defs split: option.splits kobj.splits)

sublocale kube_api \<subseteq> secret: kube_kind K objs SecretKind KSec as_sec secret_at sec_Meta
  "\<lambda>m x. x\<lparr>sec_Meta := m\<rparr>" "\<lambda>y x. x"
  "\<lambda>x. x"
proof unfold_locales
  show "\<exists>x. y = KSec x" if "kobj_kind y = SecretKind" for y using that by (cases y) auto
  show "kobj_kind y = SecretKind" if "as_sec y = Inr x" for x y using that by (cases y) auto
qed (auto simp: at_defs split: option.splits kobj.splits)

end
