(* ===== verification/MemStore.thy ===== *)
theory MemStore
  imports Kube
begin

text \<open>
  A store that satisfies the contract of the API server: a list of objects with optimistic
  concurrency on resource versions, finalizers and status subresources. It instantiates
  the parameter of the Broker's handlers, so that runs of them can be evaluated. A second
  client wraps any client and makes chosen calls fail.
\<close>

section \<open>The store\<close>

record memstore =
  ms_objs :: "kobj list"
  ms_rv :: nat
  ms_clock :: Time

definition mem_lookup :: "memstore \<Rightarrow> kkey \<Rightarrow> kobj option" where
  "mem_lookup w k = find (\<lambda>x. kobj_key x = k) (ms_objs w)"

definition mem_set :: "kkey \<Rightarrow> kobj option \<Rightarrow> memstore \<Rightarrow> memstore" where
  "mem_set k v w = w\<lparr>ms_objs := (case v of None \<Rightarrow> [] | Some x \<Rightarrow> [x])
     @ filter (\<lambda>x. kobj_key x \<noteq> k) (ms_objs w), ms_rv := Suc (ms_rv w)\<rparr>"

fun dedup :: "kobj list \<Rightarrow> kobj list" where
  "dedup [] = []"
| "dedup (x # xs) = x # filter (\<lambda>y. kobj_key y \<noteq> kobj_key x) (dedup xs)"

definition mem_get :: "kkey \<Rightarrow> (memstore, kerr + kobj) state" where
  "mem_get k = State (\<lambda>w. (case mem_lookup w k of None \<Rightarrow> Inl KNotFound | Some x \<Rightarrow> Inr x, w))"

definition mem_list :: "kkind \<Rightarrow> (memstore, kerr + kobj list) state" where
  "mem_list kd = State (\<lambda>w. (Inr (filter (\<lambda>x. kobj_kind x = kd) (dedup (ms_objs w))), w))"

definition mem_created :: "memstore \<Rightarrow> kobj \<Rightarrow> kobj" where
  "mem_created w x = clear_status (with_meta ((kobj_meta x)\<lparr>m_CreationTimestamp := ms_clock w,
     m_DeletionTimestamp := None, m_Generation := 1, m_ResourceVersion := ms_rv w\<rparr>) x)"

definition mem_updated :: "memstore \<Rightarrow> kobj \<Rightarrow> kobj \<Rightarrow> kobj" where
  "mem_updated w cur x = with_status_of cur (with_meta ((kobj_meta x)
     \<lparr>m_CreationTimestamp := m_CreationTimestamp (kobj_meta cur),
      m_DeletionTimestamp := m_DeletionTimestamp (kobj_meta cur),
      m_Generation := m_Generation (kobj_meta cur) + 1,
      m_ResourceVersion := max (ms_rv w) (Suc (kobj_rv cur))\<rparr>) x)"

definition mem_status_updated :: "memstore \<Rightarrow> kobj \<Rightarrow> kobj \<Rightarrow> kobj" where
  "mem_status_updated w cur x =
     with_status_of x (with_meta ((kobj_meta cur)
       \<lparr>m_ResourceVersion := max (ms_rv w) (Suc (kobj_rv cur))\<rparr>) cur)"

definition mem_create :: "kobj \<Rightarrow> (memstore, kerr + kobj) state" where
  "mem_create x = State (\<lambda>w. case mem_lookup w (kobj_key x) of
       Some _ \<Rightarrow> (Inl KAlreadyExists, w)
     | None \<Rightarrow> (Inr (mem_created w x), mem_set (kobj_key x) (Some (mem_created w x)) w))"

definition mem_write ::
  "(memstore \<Rightarrow> kobj \<Rightarrow> kobj \<Rightarrow> kobj) \<Rightarrow> (kobj \<Rightarrow> kobj option) \<Rightarrow> kobj \<Rightarrow>
     (memstore, kerr + kobj) state" where
  "mem_write f g x = State (\<lambda>w. case mem_lookup w (kobj_key x) of
       None \<Rightarrow> (Inl KNotFound, w)
     | Some cur \<Rightarrow> if kobj_rv cur \<noteq> kobj_rv x then (Inl KConflict, w)
         else (Inr (f w cur x), mem_set (kobj_key x) (g (f w cur x)) w))"

definition mem_delete :: "kkey \<Rightarrow> (memstore, kerr + unit) state" where
  "mem_delete k = State (\<lambda>w. case mem_lookup w k of
       None \<Rightarrow> (Inl KNotFound, w)
     | Some cur \<Rightarrow> (Inr (), mem_set k
         (if m_Finalizers (kobj_meta cur) = [] then None
          else Some (with_meta ((kobj_meta cur)\<lparr>m_DeletionTimestamp := Some (ms_clock w),
            m_Generation := m_Generation (kobj_meta cur) + 1,
            m_ResourceVersion := ms_rv w\<rparr>) cur)) w))"

text \<open>\<^verbatim>\<open>CreateOrUpdate\<close> over the calls of a client.\<close>

definition create_or_update :: "(kkey \<Rightarrow> ('w, kerr + kobj) state) \<Rightarrow> (kobj \<Rightarrow> ('w, kerr + kobj) state) \<Rightarrow>
    (kobj \<Rightarrow> ('w, kerr + kobj) state) \<Rightarrow> kobj \<Rightarrow> (kobj \<Rightarrow> kobj) \<Rightarrow> ('w, kerr + kobj) state" where
  "create_or_update get create update x f = do {
     r \<leftarrow> get (kobj_key x);
     (case r of
        Inl e \<Rightarrow> if e = KNotFound then create (f x) else State_Monad.return (Inl e)
      | Inr cur \<Rightarrow> if f cur = cur then State_Monad.return (Inr cur) else update (f cur))
   }"

definition add_fin :: "ObjectMeta \<Rightarrow> string \<Rightarrow> ObjectMeta \<times> bool" where
  "add_fin m fin = (if fin \<in> set (m_Finalizers m) then (m, False)
     else (m\<lparr>m_Finalizers := m_Finalizers m @ [fin]\<rparr>, True))"

definition remove_fin :: "ObjectMeta \<Rightarrow> string \<Rightarrow> ObjectMeta \<times> bool" where
  "remove_fin m fin = (m\<lparr>m_Finalizers := removeAll fin (m_Finalizers m)\<rparr>, fin \<in> set (m_Finalizers m))"

definition memK :: "memstore kube" where
  "memK = \<lparr>k_Get = mem_get, k_List = mem_list, k_Create = mem_create,
     k_Update = mem_write mem_updated stored,
     k_StatusUpdate = mem_write mem_status_updated Some, k_Delete = mem_delete,
     k_CreateOrUpdate = create_or_update mem_get mem_create (mem_write mem_updated stored),
     k_AddFinalizer = add_fin, k_RemoveFinalizer = remove_fin,
     k_ContainsFinalizer = (\<lambda>m fin. fin \<in> set (m_Finalizers m)),
     k_SetControllerReference = (\<lambda>own m. Inr (m\<lparr>m_OwnerRef := Some (m_Name own)\<rparr>))\<rparr>"

lemma create_or_update_run:
  assumes run: "run_state (create_or_update get create update x f) w = (r, w')"
    and key: "\<And>y. kobj_key (f y) = kobj_key y"
    and wk: "\<And>w k y. look w k = Some y \<Longrightarrow> kobj_key y = k"
    and get: "\<And>k w r w'. run_state (get k) w = (r, w') \<Longrightarrow>
      look w' = look w \<and> (\<forall>x. r = Inr x \<longrightarrow> look w k = Some x) \<and> (r = Inl KNotFound \<longrightarrow> look w k = None)"
    and create: "\<And>x w r w'. run_state (create x) w = (r, w') \<Longrightarrow>
      (\<forall>e. r = Inl e \<longrightarrow> look w' = look w) \<and> (r = Inl KAlreadyExists \<longrightarrow> look w (kobj_key x) \<noteq> None) \<and>
      (\<forall>x'. r = Inr x' \<longrightarrow> look w (kobj_key x) = None \<and> created x x' \<and> look w' = (look w)(kobj_key x \<mapsto> x'))"
    and update: "\<And>x w r w'. run_state (update x) w = (r, w') \<Longrightarrow>
      (\<forall>e. r = Inl e \<longrightarrow> look w' = look w) \<and>
      (\<forall>x'. r = Inr x' \<longrightarrow> (\<exists>cur. look w (kobj_key x) = Some cur \<and> kobj_rv cur = kobj_rv x \<and>
        updated cur x x' \<and> look w' = (look w)(kobj_key x := stored x')))"
  shows "(\<forall>e. r = Inl e \<longrightarrow> look w' = look w) \<and>
      (\<forall>x'. r = Inr x' \<longrightarrow> (case look w (kobj_key x) of
         None \<Rightarrow> created (f x) x' \<and> look w' = (look w)(kobj_key x \<mapsto> x')
       | Some cur \<Rightarrow> f cur = cur \<and> x' = cur \<and> look w' = look w \<or>
           updated cur (f cur) x' \<and> look w' = (look w)(kobj_key x := stored x')))"
proof -
  obtain g w1 where g: "run_state (get (kobj_key x)) w = (g, w1)" by fastforce
  note G = get [OF g]
  show ?thesis
  proof (cases g)
    case (Inl e)
    show ?thesis
    proof (cases "e = KNotFound")
      case True
      with run g Inl have "run_state (create (f x)) w1 = (r, w')" by (simp add: create_or_update_def)
      from create [OF this] G Inl True show ?thesis by (simp add: key)
    next
      case False
      with run g Inl G show ?thesis by (auto simp: create_or_update_def)
    qed
  next
    case (Inr cur)
    with G have cur: "look w (kobj_key x) = Some cur" by simp
    with wk have k: "kobj_key cur = kobj_key x" by blast
    show ?thesis
    proof (cases "f cur = cur")
      case True
      with run g Inr G cur show ?thesis by (auto simp: create_or_update_def)
    next
      case False
      with run g Inr have "run_state (update (f cur)) w1 = (r, w')" by (simp add: create_or_update_def)
      from update [OF this] G cur k show ?thesis by (auto simp: key)
    qed
  qed
qed

lemmas mem_defs = memK_def mem_get_def mem_list_def mem_create_def mem_write_def mem_delete_def
  mem_created_def mem_updated_def mem_status_updated_def mem_lookup_def mem_set_def

section \<open>It satisfies the contract\<close>

lemma mem_lookup_key: "mem_lookup w k = Some x \<Longrightarrow> kobj_key x = k"
  by (auto simp: mem_lookup_def find_Some_iff)

lemma kobj_key_with_meta [simp]: "kobj_key (with_meta m x) = (kobj_kind x, m_Name m)"
  by (cases x) auto

lemma kobj_key_status [simp]:
  "kobj_key (with_status_of y x) = kobj_key x" "kobj_key (clear_status x) = kobj_key x"
  by (cases y; cases x; simp) (cases x; simp)

lemma find_filter_key:
  "find (\<lambda>x. kobj_key x = k) (filter (\<lambda>x. kobj_key x \<noteq> k') xs) =
     (if k = k' then None else find (\<lambda>x. kobj_key x = k) xs)"
  by (induction xs) auto

lemma mem_lookup_set:
  assumes "\<And>x. v = Some x \<Longrightarrow> kobj_key x = k"
  shows "mem_lookup (mem_set k v w) = (mem_lookup w)(k := v)"
  using assms by (cases v) (auto simp: mem_lookup_def mem_set_def find_filter_key fun_eq_iff)

lemma dedup_spec:
  "distinct (map kobj_key (dedup xs)) \<and>
   (\<forall>x. x \<in> set (dedup xs) \<longleftrightarrow> find (\<lambda>y. kobj_key y = kobj_key x) xs = Some x)"
  by (induction xs) (auto simp: distinct_map_filter)

lemma stored_key: "stored x = Some y \<Longrightarrow> y = x"
  by (simp add: stored_def split: if_splits)

lemma mem_created_key: "kobj_key (mem_created w x) = kobj_key x"
  by (simp add: mem_created_def kobj_key_def [of x])

lemma mem_updated_key: "kobj_key (mem_updated w cur x) = kobj_key x"
  by (simp add: mem_updated_def kobj_key_def [of x])

lemma mem_status_updated_key: "kobj_key (mem_status_updated w cur x) = kobj_key cur"
  by (simp add: mem_status_updated_def kobj_key_def [of cur])

lemma mem_write_run:
  assumes "run_state (mem_write f g x) w = (r, w')"
    and "\<And>cur y. mem_lookup w (kobj_key x) = Some cur \<Longrightarrow> g (f w cur x) = Some y \<Longrightarrow>
      kobj_key y = kobj_key x"
  shows "(\<forall>e. r = Inl e \<longrightarrow> w' = w) \<and>
    (\<forall>x'. r = Inr x' \<longrightarrow> (\<exists>cur. mem_lookup w (kobj_key x) = Some cur \<and> kobj_rv cur = kobj_rv x \<and>
      x' = f w cur x \<and> mem_lookup w' = (mem_lookup w)(kobj_key x := g x')))"
proof (cases "mem_lookup w (kobj_key x)")
  case None
  with assms(1) show ?thesis by (auto simp: mem_write_def)
next
  case (Some cur)
  have "mem_lookup (mem_set (kobj_key x) (g (f w cur x)) w) = (mem_lookup w)(kobj_key x := g (f w cur x))"
    by (rule mem_lookup_set) (rule assms(2) [OF Some])
  with assms(1) Some show ?thesis by (auto simp: mem_write_def split: if_splits)
qed

lemma mem_write_ok:
  "mem_lookup w (kobj_key x) = Some cur \<Longrightarrow> kobj_rv cur = kobj_rv x \<Longrightarrow>
   \<exists>x'. fst (run_state (mem_write f g x) w) = Inr x'"
  by (simp add: mem_write_def)

lemma mem_get_law:
  "run_state (mem_get k) w = (r, w') \<Longrightarrow> mem_lookup w' = mem_lookup w \<and>
    (\<forall>x. r = Inr x \<longrightarrow> mem_lookup w k = Some x) \<and> (r = Inl KNotFound \<longrightarrow> mem_lookup w k = None)"
  by (auto simp: mem_get_def split: option.splits)

lemma mem_list_law:
  assumes "run_state (mem_list kd) w = (rs, w')"
  shows "mem_lookup w' = mem_lookup w \<and> (\<forall>xs. rs = Inr xs \<longrightarrow> distinct (map kobj_key xs) \<and>
        (\<forall>x. x \<in> set xs \<longleftrightarrow> kobj_kind x = kd \<and> mem_lookup w (kobj_key x) = Some x))"
proof -
  have run: "rs = Inr (filter (\<lambda>x. kobj_kind x = kd) (dedup (ms_objs w)))" "w' = w"
    using assms by (auto simp: mem_list_def)
  show ?thesis
    unfolding run using dedup_spec [of "ms_objs w"]
    by (simp add: mem_lookup_def conj_commute distinct_map_filter)
qed

lemma mem_create_law:
  assumes "run_state (mem_create x) w = (r, w')"
  shows "(\<forall>e. r = Inl e \<longrightarrow> mem_lookup w' = mem_lookup w) \<and>
      (r = Inl KAlreadyExists \<longrightarrow> mem_lookup w (kobj_key x) \<noteq> None) \<and>
      (\<forall>x'. r = Inr x' \<longrightarrow> mem_lookup w (kobj_key x) = None \<and> created x x' \<and>
        mem_lookup w' = (mem_lookup w)(kobj_key x \<mapsto> x'))"
  using assms mem_lookup_set [of "Some (mem_created w x)" "kobj_key x" w]
  by (auto simp: mem_create_def mem_created_key split: option.splits)
    (auto simp: created_def mem_created_def)

lemma mem_update_law:
  assumes "run_state (mem_write mem_updated stored x) w = (r, w')"
  shows "(\<forall>e. r = Inl e \<longrightarrow> mem_lookup w' = mem_lookup w) \<and>
      (\<forall>x'. r = Inr x' \<longrightarrow> (\<exists>cur. mem_lookup w (kobj_key x) = Some cur \<and> kobj_rv cur = kobj_rv x \<and>
        updated cur x x' \<and> mem_lookup w' = (mem_lookup w)(kobj_key x := stored x')))"
proof -
  have run: "(\<forall>e. r = Inl e \<longrightarrow> w' = w) \<and>
      (\<forall>x'. r = Inr x' \<longrightarrow> (\<exists>cur. mem_lookup w (kobj_key x) = Some cur \<and> kobj_rv cur = kobj_rv x \<and>
        x' = mem_updated w cur x \<and> mem_lookup w' = (mem_lookup w)(kobj_key x := stored x')))"
    using assms by (rule mem_write_run) (auto simp: mem_updated_key dest: stored_key)
  have "updated cur x (mem_updated w cur x)" for cur
    by (auto simp: updated_def mem_updated_def)
  with run show ?thesis by auto
qed

lemma mem_status_law:
  assumes "run_state (mem_write mem_status_updated Some x) w = (r, w')"
  shows "(\<forall>e. r = Inl e \<longrightarrow> mem_lookup w' = mem_lookup w) \<and>
      (\<forall>x'. r = Inr x' \<longrightarrow> (\<exists>cur. mem_lookup w (kobj_key x) = Some cur \<and> kobj_rv cur = kobj_rv x \<and>
        status_updated cur x x' \<and> mem_lookup w' = (mem_lookup w)(kobj_key x \<mapsto> x')))"
proof -
  have run: "(\<forall>e. r = Inl e \<longrightarrow> w' = w) \<and>
      (\<forall>x'. r = Inr x' \<longrightarrow> (\<exists>cur. mem_lookup w (kobj_key x) = Some cur \<and> kobj_rv cur = kobj_rv x \<and>
        x' = mem_status_updated w cur x \<and> mem_lookup w' = (mem_lookup w)(kobj_key x := Some x')))"
    using assms by (rule mem_write_run) (auto simp: mem_status_updated_key dest: mem_lookup_key)
  have "status_updated cur x (mem_status_updated w cur x)" for cur
    by (auto simp: status_updated_def mem_status_updated_def)
  with run show ?thesis by auto
qed

lemma mem_delete_law:
  assumes "run_state (mem_delete k) w = (u, w')"
  shows "(\<forall>e. u = Inl e \<longrightarrow> mem_lookup w' = mem_lookup w) \<and>
      (u = Inl KNotFound \<longrightarrow> mem_lookup w k = None) \<and>
      (u = Inr () \<longrightarrow> (\<exists>cur r'. mem_lookup w k = Some cur \<and> delete_result cur r' \<and>
        mem_lookup w' = (mem_lookup w)(k := r')))"
proof (cases "mem_lookup w k")
  case None
  with assms show ?thesis by (auto simp: mem_delete_def)
next
  case (Some cur)
  define r' where "r' = (if m_Finalizers (kobj_meta cur) = [] then None
    else Some (with_meta ((kobj_meta cur)\<lparr>m_DeletionTimestamp := Some (ms_clock w),
      m_Generation := m_Generation (kobj_meta cur) + 1, m_ResourceVersion := ms_rv w\<rparr>) cur))"
  have run: "(u, w') = (Inr (), mem_set k r' w)"
    using assms Some by (simp add: mem_delete_def r'_def)
  have "delete_result cur r'" by (auto simp: delete_result_def r'_def)
  moreover have "mem_lookup (mem_set k r' w) = (mem_lookup w)(k := r')"
    using mem_lookup_key [OF Some]
    by (intro mem_lookup_set) (auto simp: r'_def kobj_key_def [of cur] split: if_splits)
  ultimately show ?thesis using Some run by auto
qed

lemma mem_cou_law:
  assumes "run_state (create_or_update mem_get mem_create (mem_write mem_updated stored) x f) w = (r, w')"
    and "\<And>y. kobj_key (f y) = kobj_key y"
  shows "(\<forall>e. r = Inl e \<longrightarrow> mem_lookup w' = mem_lookup w) \<and>
      (\<forall>x'. r = Inr x' \<longrightarrow> (case mem_lookup w (kobj_key x) of
         None \<Rightarrow> created (f x) x' \<and> mem_lookup w' = (mem_lookup w)(kobj_key x \<mapsto> x')
       | Some cur \<Rightarrow> f cur = cur \<and> x' = cur \<and> mem_lookup w' = mem_lookup w \<or>
           updated cur (f cur) x' \<and> mem_lookup w' = (mem_lookup w)(kobj_key x := stored x')))"
  using assms by (rule create_or_update_run [OF _ _ mem_lookup_key mem_get_law mem_create_law mem_update_law])

interpretation mem: kube_reliable memK mem_lookup
  by unfold_locales
    (unfold memK_def kube.select_convs,
     (fact mem_lookup_key mem_get_law mem_list_law mem_create_law mem_update_law mem_status_law
       mem_delete_law mem_cou_law)+,
     auto simp: mem_get_def mem_list_def mem_create_def mem_delete_def add_fin_def remove_fin_def
       split: option.splits intro: mem_write_ok)

lemma kobj_meta_simps [simp]:
  "kobj_meta (with_meta m x) = m" "kobj_meta (with_status_of y x) = kobj_meta x"
  by (cases x; simp) (cases y; cases x; simp)

interpretation mem: kube_versioned memK mem_lookup
proof unfold_locales
  show "kobj_rv x < kobj_rv x'" if "run_state (k_StatusUpdate memK x) w = (Inr x', w')" for x w x' w'
    using that by (auto simp: memK_def mem_write_def mem_status_updated_def split: option.splits if_splits)
qed

section \<open>Injecting faults\<close>

text \<open>
  A client that answers the calls in order from a script: \<open>None\<close> passes the call on,
  \<open>Some e\<close> fails it with \<open>e\<close>; after the script every call is passed on. The injected errors
  are the transient ones, which promise nothing about the store.
\<close>

fun transient :: "kerr \<Rightarrow> bool" where
  "transient KConflict = True"
| "transient (KOther _) = True"
| "transient _ = False"

definition inject :: "('w, kerr + 'a) state \<Rightarrow> ('w \<times> kerr option list, kerr + 'a) state" where
  "inject m = State (\<lambda>(w, fs). case fs of
       Some e # fs' \<Rightarrow> if transient e then (Inl e, w, fs') else
         (case run_state m w of (r, w') \<Rightarrow> (r, w', fs'))
     | _ \<Rightarrow> (case run_state m w of (r, w') \<Rightarrow> (r, w', drop 1 fs)))"

definition faultyK :: "'w kube \<Rightarrow> ('w \<times> kerr option list) kube" where
  "faultyK K = \<lparr>k_Get = (\<lambda>k. inject (k_Get K k)), k_List = (\<lambda>kd. inject (k_List K kd)),
     k_Create = (\<lambda>x. inject (k_Create K x)), k_Update = (\<lambda>x. inject (k_Update K x)),
     k_StatusUpdate = (\<lambda>x. inject (k_StatusUpdate K x)), k_Delete = (\<lambda>k. inject (k_Delete K k)),
     k_CreateOrUpdate = create_or_update (\<lambda>k. inject (k_Get K k)) (\<lambda>x. inject (k_Create K x))
       (\<lambda>x. inject (k_Update K x)),
     k_AddFinalizer = k_AddFinalizer K, k_RemoveFinalizer = k_RemoveFinalizer K,
     k_ContainsFinalizer = k_ContainsFinalizer K, k_SetControllerReference = k_SetControllerReference K\<rparr>"

lemma inject_run:
  assumes "run_state (inject m) w = (r, w')"
  obtains (fault) e where "transient e" "r = Inl e" "fst w' = fst w"
    | (pass) v where "run_state m (fst w) = (r, v)" "fst w' = v"
  using assms
  by (cases w) (auto simp: inject_def split: list.splits option.splits if_splits prod.splits)

abbreviation faulty_lookup :: "memstore \<times> kerr option list \<Rightarrow> kkey \<Rightarrow> kobj option" where
  "faulty_lookup \<equiv> mem_lookup \<circ> fst"

lemma faulty_get_law:
  "run_state (inject (k_Get memK k)) w = (r, w') \<Longrightarrow> faulty_lookup w' = faulty_lookup w \<and>
    (\<forall>x. r = Inr x \<longrightarrow> faulty_lookup w k = Some x) \<and> (r = Inl KNotFound \<longrightarrow> faulty_lookup w k = None)"
  by (erule inject_run) (auto dest: mem.get_law)

lemma faulty_list_law:
  "run_state (inject (k_List memK kd)) w = (rs, w') \<Longrightarrow> faulty_lookup w' = faulty_lookup w \<and>
    (\<forall>xs. rs = Inr xs \<longrightarrow> distinct (map kobj_key xs) \<and>
      (\<forall>x. x \<in> set xs \<longleftrightarrow> kobj_kind x = kd \<and> faulty_lookup w (kobj_key x) = Some x))"
  by (erule inject_run) (auto dest: mem.list_law)

lemma faulty_create_law:
  "run_state (inject (k_Create memK x)) w = (r, w') \<Longrightarrow>
    (\<forall>e. r = Inl e \<longrightarrow> faulty_lookup w' = faulty_lookup w) \<and>
    (r = Inl KAlreadyExists \<longrightarrow> faulty_lookup w (kobj_key x) \<noteq> None) \<and>
    (\<forall>x'. r = Inr x' \<longrightarrow> faulty_lookup w (kobj_key x) = None \<and> created x x' \<and>
      faulty_lookup w' = (faulty_lookup w)(kobj_key x \<mapsto> x'))"
  by (erule inject_run) (auto dest: mem.create_law)

lemma faulty_update_law:
  "run_state (inject (k_Update memK x)) w = (r, w') \<Longrightarrow>
    (\<forall>e. r = Inl e \<longrightarrow> faulty_lookup w' = faulty_lookup w) \<and>
    (\<forall>x'. r = Inr x' \<longrightarrow> (\<exists>cur. faulty_lookup w (kobj_key x) = Some cur \<and> kobj_rv cur = kobj_rv x \<and>
      updated cur x x' \<and> faulty_lookup w' = (faulty_lookup w)(kobj_key x := stored x')))"
  by (erule inject_run) (auto dest: mem.update_law)

lemma faulty_status_law:
  "run_state (inject (k_StatusUpdate memK x)) w = (r, w') \<Longrightarrow>
    (\<forall>e. r = Inl e \<longrightarrow> faulty_lookup w' = faulty_lookup w) \<and>
    (\<forall>x'. r = Inr x' \<longrightarrow> (\<exists>cur. faulty_lookup w (kobj_key x) = Some cur \<and> kobj_rv cur = kobj_rv x \<and>
      status_updated cur x x' \<and> faulty_lookup w' = (faulty_lookup w)(kobj_key x \<mapsto> x')))"
  by (erule inject_run) (auto dest: mem.status_law)

lemma faulty_delete_law:
  "run_state (inject (k_Delete memK k)) w = (u, w') \<Longrightarrow>
    (\<forall>e. u = Inl e \<longrightarrow> faulty_lookup w' = faulty_lookup w) \<and> (u = Inl KNotFound \<longrightarrow> faulty_lookup w k = None) \<and>
    (u = Inr () \<longrightarrow> (\<exists>cur r'. faulty_lookup w k = Some cur \<and> delete_result cur r' \<and>
      faulty_lookup w' = (faulty_lookup w)(k := r')))"
  by (erule inject_run) (auto dest!: mem.delete_law)

lemma faulty_key: "faulty_lookup w k = Some x \<Longrightarrow> kobj_key x = k"
  by (auto dest: mem_lookup_key)

lemma faulty_cou_law:
  assumes "run_state (create_or_update (\<lambda>k. inject (k_Get memK k)) (\<lambda>x. inject (k_Create memK x))
      (\<lambda>x. inject (k_Update memK x)) x f) w = (r, w')"
    and "\<And>y. kobj_key (f y) = kobj_key y"
  shows "(\<forall>e. r = Inl e \<longrightarrow> faulty_lookup w' = faulty_lookup w) \<and>
      (\<forall>x'. r = Inr x' \<longrightarrow> (case faulty_lookup w (kobj_key x) of
         None \<Rightarrow> created (f x) x' \<and> faulty_lookup w' = (faulty_lookup w)(kobj_key x \<mapsto> x')
       | Some cur \<Rightarrow> f cur = cur \<and> x' = cur \<and> faulty_lookup w' = faulty_lookup w \<or>
           updated cur (f cur) x' \<and> faulty_lookup w' = (faulty_lookup w)(kobj_key x := stored x')))"
  using assms by (rule create_or_update_run [OF _ _ faulty_key faulty_get_law faulty_create_law faulty_update_law])

interpretation faulty: kube_api "faultyK memK" faulty_lookup
  by unfold_locales
    (unfold faultyK_def kube.select_convs,
     (fact faulty_key faulty_get_law faulty_list_law faulty_create_law faulty_update_law faulty_status_law
       faulty_delete_law faulty_cou_law)+,
     rule mem.add_finalizer, rule mem.remove_finalizer, rule mem.contains_finalizer,
     erule mem.controller_reference)

end
