(* ===== verification/Ledger.thy ===== *)
theory Ledger
  imports MemStore
begin

text \<open>
  The chunk ledger: the counters \<^verbatim>\<open>ReservedChunks\<close> and \<^verbatim>\<open>AvailableChunks\<close> of a
  ClusterAdvertisement's status, which the reservation handlers
  (\<^verbatim>\<open>internal/broker/api/reservation.go\<close>) and the Reservation reconciler
  (\<^verbatim>\<open>internal/controller/broker/reservation_controller.go\<close>) move with optimistic concurrency.
  The sequential operations come first, then the interleaving of any number of them.
\<close>

section \<open>Operations\<close>

text \<open>The two assignments every writer of the counters ends with.\<close>

definition withReserved :: "int \<Rightarrow> ClusterAdvertisement \<Rightarrow> ClusterAdvertisement" where
  "withReserved nxt cadv = cadv\<lparr>ca_Status := (ca_Status cadv)
     \<lparr>ca_ReservedChunks := nxt,
      ca_AvailableChunks := max (int32 (ca_TotalChunks (ca_Status cadv) - nxt)) 0\<rparr>\<rparr>"

text \<open>The body of the loop of \<^verbatim>\<open>reserveChunks\<close>: refuse with what is available, or take the chunks.\<close>

definition tryReserve :: "int \<Rightarrow> ClusterAdvertisement \<Rightarrow> int + ClusterAdvertisement" where
  "tryReserve cnt cadv =
    (if ca_AvailableChunks (ca_Status cadv) < cnt then Inl (ca_AvailableChunks (ca_Status cadv))
     else Inr (withReserved (int32 (ca_ReservedChunks (ca_Status cadv) + cnt)) cadv))"

definition reserveChunks :: "'w kube \<Rightarrow> string \<Rightarrow> int \<Rightarrow> ('w, gerr + bool \<times> int) state" where
  "reserveChunks K clusterID cnt = do {
     r \<leftarrow> casLoop 3 (GetAdv K clusterID) (tryReserve cnt) (StatusUpdateAdv K);
     State_Monad.return (case r of
         GetFailed e \<Rightarrow> Inl (KubeErr e)
       | Stopped available \<Rightarrow> Inr (False, available)
       | WriteFailed e \<Rightarrow> Inl (KubeErr e)
       | Exhausted \<Rightarrow> Inl (Errorf (text_msg ''exhausted conflict retries reserving chunks''))
       | Written cadv \<Rightarrow> Inr (True, ca_AvailableChunks (ca_Status cadv)))
   }"

text \<open>The body of the loop of \<^verbatim>\<open>adjustReservedChunks\<close>: the counter never goes below zero.\<close>

definition adjust :: "int \<Rightarrow> ClusterAdvertisement \<Rightarrow> ClusterAdvertisement" where
  "adjust delta cadv = withReserved (max (int32 (ca_ReservedChunks (ca_Status cadv) + delta)) 0) cadv"

definition adjustReservedChunks :: "'w kube \<Rightarrow> string \<Rightarrow> int \<Rightarrow> ('w, gerr + unit) state" where
  "adjustReservedChunks K clusterID delta = do {
     r \<leftarrow> casLoop 3 (GetAdv K clusterID) (\<lambda>cadv. Inr (adjust delta cadv) :: unit + _) (StatusUpdateAdv K);
     State_Monad.return (case r of
         GetFailed e \<Rightarrow> Inl (KubeErr e)
       | Stopped u \<Rightarrow> Inr u
       | WriteFailed e \<Rightarrow> Inl (KubeErr e)
       | Exhausted \<Rightarrow> Inl (Errorf (text_msg ''exhausted conflict retries updating ClusterAdvertisement status''))
       | Written _ \<Rightarrow> Inr ())
   }"

text \<open>Between the read and the write of the chunks-released marker.\<close>

definition markOnce :: "Reservation \<Rightarrow> unit + Reservation" where
  "markOnce fresh = (if IsChunksReleased fresh then Inl () else Inr (MarkChunksReleased fresh))"

definition markChunksReleased :: "'w kube \<Rightarrow> string \<Rightarrow> ('w, gerr + unit) state" where
  "markChunksReleased K resvName = do {
     r \<leftarrow> casLoop 3 (GetResv K resvName) markOnce (UpdateResv K);
     State_Monad.return (case r of
         GetFailed e \<Rightarrow> Inl (KubeErr e)
       | Stopped u \<Rightarrow> Inr u
       | WriteFailed e \<Rightarrow> Inl (KubeErr e)
       | Exhausted \<Rightarrow> Inl (Errorf (text_msg ''exhausted conflict retries setting chunks-released annotation''))
       | Written _ \<Rightarrow> Inr ())
   }"

definition stampChunksReleased :: "'w kube \<Rightarrow> string \<Rightarrow> ('w, gerr + unit) state" where
  "stampChunksReleased K resvName = do {
     r \<leftarrow> casLoop 3 (GetResv K resvName) markOnce (UpdateResv K);
     State_Monad.return (case r of
         GetFailed e \<Rightarrow> Inl (KubeErr e)
       | Stopped u \<Rightarrow> Inr u
       | WriteFailed e \<Rightarrow> Inl (KubeErr e)
       | Exhausted \<Rightarrow> Inl (Errorf (text_msg ''exhausted conflict retries stamping chunks-released annotation''))
       | Written _ \<Rightarrow> Inr ())
   }"

text \<open>
  \<^verbatim>\<open>releaseChunks\<close> of the reconciler: \<^verbatim>\<open>ReservedChunks - ChunkCount\<close>, clamped at zero, and
  the marker; a provider that is gone has nothing to be credited.
\<close>

definition releaseChunks :: "'w kube \<Rightarrow> Reservation \<Rightarrow> ('w, gerr + unit) state" where
  "releaseChunks K resv = do {
     r \<leftarrow> casLoop 3 (GetAdv K (rs_ProviderClusterID (rs_Spec resv)))
            (\<lambda>cadv. Inr (adjust (- rs_ChunkCount (rs_Spec resv)) cadv) :: unit + _) (StatusUpdateAdv K);
     (case r of
         GetFailed e \<Rightarrow> if e = KNotFound then stampChunksReleased K (m_Name (rs_Meta resv))
                        else State_Monad.return (Inl (Wrap ''get ClusterAdvertisement'' (KubeErr e)))
       | Stopped u \<Rightarrow> State_Monad.return (Inr u)
       | WriteFailed e \<Rightarrow> State_Monad.return (Inl (Wrap ''update ClusterAdvertisement status'' (KubeErr e)))
       | Exhausted \<Rightarrow> State_Monad.return (Inl (Errorf
           (Sprintf ''exhausted conflict retries updating ClusterAdvertisement %q''
              [AStr (rs_ProviderClusterID (rs_Spec resv))])))
       | Written _ \<Rightarrow> stampChunksReleased K (m_Name (rs_Meta resv)))
   }"

section \<open>What each operation does\<close>

lemma withReserved_frame [simp]:
  "ca_Meta (withReserved n a) = ca_Meta a" "ca_Spec (withReserved n a) = ca_Spec a"
  "ca_TotalChunks (ca_Status (withReserved n a)) = ca_TotalChunks (ca_Status a)"
  "ca_ReservedChunks (ca_Status (withReserved n a)) = n"
  "ca_Available (ca_Status (withReserved n a)) = ca_Available (ca_Status a)"
  "ca_AvailableChunks (ca_Status (withReserved n a)) = max (int32 (ca_TotalChunks (ca_Status a) - n)) 0"
  by (simp_all add: withReserved_def)

lemma adjust_frame [simp]:
  "ca_Meta (adjust d a) = ca_Meta a" "ca_Spec (adjust d a) = ca_Spec a"
  "ca_TotalChunks (ca_Status (adjust d a)) = ca_TotalChunks (ca_Status a)"
  by (simp_all add: adjust_def)

lemma tryReserve_Inr: "tryReserve c a = Inr b \<longleftrightarrow>
    c \<le> ca_AvailableChunks (ca_Status a) \<and> b = withReserved (int32 (ca_ReservedChunks (ca_Status a) + c)) a"
  by (auto simp: tryReserve_def)

text \<open>The store in which the advertisement of \<open>p\<close> carries the counters of \<open>b\<close>.\<close>

definition with_adv_status :: "store \<Rightarrow> string \<Rightarrow> ClusterAdvertisement \<Rightarrow> ClusterAdvertisement \<Rightarrow> nat \<Rightarrow> store" where
  "with_adv_status s p a b v = s((AdvKind, p) \<mapsto> KAdv (a\<lparr>ca_Meta := (ca_Meta a)\<lparr>m_ResourceVersion := v\<rparr>,
     ca_Status := ca_Status b\<rparr>))"

lemma with_adv_status_simps [simp]:
  "adv_at (with_adv_status s p a b v) q = (if q = p then Some (a\<lparr>ca_Meta := (ca_Meta a)\<lparr>m_ResourceVersion := v\<rparr>,
     ca_Status := ca_Status b\<rparr>) else adv_at s q)"
  "resv_at (with_adv_status s p a b v) n = resv_at s n"
  "pi_at (with_adv_status s p a b v) n = pi_at s n"
  "ri_at (with_adv_status s p a b v) n = ri_at s n"
  "secret_at (with_adv_status s p a b v) n = secret_at s n"
  by (simp_all add: with_adv_status_def)

text \<open>The first half of \<open>releaseChunks\<close>: the provider, if it is still there, is credited.\<close>

definition credited :: "store \<Rightarrow> Reservation \<Rightarrow> store \<Rightarrow> bool" where
  "credited s r s' \<longleftrightarrow> (case adv_at s (rs_ProviderClusterID (rs_Spec r)) of
     None \<Rightarrow> s' = s
   | Some a \<Rightarrow> (\<exists>v. s' = with_adv_status s (rs_ProviderClusterID (rs_Spec r)) a
       (adjust (- rs_ChunkCount (rs_Spec r)) a) v))"

context kube_api
begin

lemma wp_reserveChunks:
  assumes "\<And>w' e. objs w' = objs w \<Longrightarrow> Q (Inl e) w'"
    and "\<And>w' a. objs w' = objs w \<Longrightarrow> adv_at (objs w) p = Some a \<Longrightarrow>
      ca_AvailableChunks (ca_Status a) < c \<Longrightarrow> Q (Inr (False, ca_AvailableChunks (ca_Status a))) w'"
    and "\<And>w' a v. adv_at (objs w) p = Some a \<Longrightarrow> c \<le> ca_AvailableChunks (ca_Status a) \<Longrightarrow>
      objs w' = with_adv_status (objs w) p a
        (withReserved (int32 (ca_ReservedChunks (ca_Status a) + c)) a) v \<Longrightarrow>
      Q (Inr (True, max (int32 (ca_TotalChunks (ca_Status a) - int32 (ca_ReservedChunks (ca_Status a) + c))) 0)) w'"
  shows "wp (reserveChunks K p c) Q w"
  unfolding reserveChunks_def wp_bind
proof (rule adv.wp_casStatus, goal_cases)
  case (1 x y)
  then show ?case by (simp add: tryReserve_Inr)
next
  case (3 w' x s)
  then show ?case using assms(2) by (auto simp: tryReserve_def split: if_splits)
next
  case (6 w' x y v)
  then show ?case using assms(3) [of x w' v] by (simp add: tryReserve_Inr with_adv_status_def)
qed (simp_all add: assms(1))

lemma wp_adjustReservedChunks:
  assumes "\<And>w' e. objs w' = objs w \<Longrightarrow> Q (Inl e) w'"
    and "\<And>w' a v. adv_at (objs w) p = Some a \<Longrightarrow>
      objs w' = with_adv_status (objs w) p a (adjust d a) v \<Longrightarrow> Q (Inr ()) w'"
  shows "wp (adjustReservedChunks K p d) Q w"
  unfolding adjustReservedChunks_def wp_bind
proof (rule adv.wp_casStatus, goal_cases)
  case (1 x y)
  then show ?case by auto
next
  case (6 w' x y v)
  then show ?case using assms(2) [of x w' v] by (auto simp: with_adv_status_def)
qed (simp_all add: assms(1))

text \<open>The store in which the reservation \<open>n\<close> carries the chunks-released marker.\<close>

lemma wp_markOnce:
  assumes "\<And>w' e. objs w' = objs w \<Longrightarrow> (e = KNotFound \<Longrightarrow> resv_at (objs w) n = None) \<Longrightarrow> Q (GetFailed e) w'"
    and "\<And>w' e. objs w' = objs w \<Longrightarrow> Q (WriteFailed e) w'" "\<And>w'. objs w' = objs w \<Longrightarrow> Q Exhausted w'"
    and "\<And>w' r. objs w' = objs w \<Longrightarrow> resv_at (objs w) n = Some r \<Longrightarrow> IsChunksReleased r \<Longrightarrow> Q (Stopped ()) w'"
    and "\<And>w' r y r'. resv_at (objs w) n = Some r \<Longrightarrow> \<not> IsChunksReleased r \<Longrightarrow> IsChunksReleased r' \<Longrightarrow>
      rs_Spec r' = rs_Spec r \<Longrightarrow> rs_Status r' = rs_Status r \<Longrightarrow> m_Name (rs_Meta r') = n \<Longrightarrow>
      m_Finalizers (rs_Meta r') = m_Finalizers (rs_Meta r) \<Longrightarrow>
      m_DeletionTimestamp (rs_Meta r') = m_DeletionTimestamp (rs_Meta r) \<Longrightarrow>
      objs w' = (objs w)((ResvKind, n) := stored (KResv r')) \<Longrightarrow> Q (Written y) w'"
  shows "wp (casLoop k (GetResv K n) markOnce (UpdateResv K)) Q w"
proof (rule resv.wp_casUpdate, goal_cases)
  case (1 x y)
  then show ?case by (auto simp: markOnce_def split: if_splits)
next
  case (3 w' x s)
  then show ?case using assms(4) by (auto simp: markOnce_def split: if_splits)
next
  case (6 w' x y g v)
  let ?r = "y\<lparr>rs_Meta := (rs_Meta y)\<lparr>m_CreationTimestamp := m_CreationTimestamp (rs_Meta x),
     m_DeletionTimestamp := m_DeletionTimestamp (rs_Meta x), m_Generation := g, m_ResourceVersion := v\<rparr>,
     rs_Status := rs_Status x\<rparr>"
  have y: "y = MarkChunksReleased x" "\<not> IsChunksReleased x"
    using 6(2) by (auto simp: markOnce_def split: if_splits)
  have "m_Name (rs_Meta x) = n"
    using 6(1) by (auto simp: resv_at_def split: option.splits kobj.splits dest: well_keyed)
  moreover have "IsChunksReleased ?r"
    using IsChunksReleased_Mark [of x] by (simp add: IsChunksReleased_def y)
  ultimately show ?case
    using y 6 by (intro assms(5) [of x ?r]) simp_all
qed (simp_all add: assms(1-3))

lemma wp_stampChunksReleased:
  assumes "\<And>w' e. objs w' = objs w \<Longrightarrow> Q (Inl e) w'"
    and "\<And>w' r. objs w' = objs w \<Longrightarrow> resv_at (objs w) n = Some r \<Longrightarrow> IsChunksReleased r \<Longrightarrow> Q (Inr ()) w'"
    and "\<And>w' r r'. resv_at (objs w) n = Some r \<Longrightarrow> \<not> IsChunksReleased r \<Longrightarrow> IsChunksReleased r' \<Longrightarrow>
      rs_Spec r' = rs_Spec r \<Longrightarrow> rs_Status r' = rs_Status r \<Longrightarrow> m_Name (rs_Meta r') = n \<Longrightarrow>
      m_Finalizers (rs_Meta r') = m_Finalizers (rs_Meta r) \<Longrightarrow>
      m_DeletionTimestamp (rs_Meta r') = m_DeletionTimestamp (rs_Meta r) \<Longrightarrow>
      objs w' = (objs w)((ResvKind, n) := stored (KResv r')) \<Longrightarrow> Q (Inr ()) w'"
  shows "wp (stampChunksReleased K n) Q w"
  unfolding stampChunksReleased_def wp_bind by (rule wp_markOnce) (simp_all add: assms)

lemma wp_markChunksReleased:
  assumes "\<And>w' e. objs w' = objs w \<Longrightarrow> Q (Inl e) w'"
    and "\<And>w' r. objs w' = objs w \<Longrightarrow> resv_at (objs w) n = Some r \<Longrightarrow> IsChunksReleased r \<Longrightarrow> Q (Inr ()) w'"
    and "\<And>w' r r'. resv_at (objs w) n = Some r \<Longrightarrow> \<not> IsChunksReleased r \<Longrightarrow> IsChunksReleased r' \<Longrightarrow>
      rs_Spec r' = rs_Spec r \<Longrightarrow> rs_Status r' = rs_Status r \<Longrightarrow> m_Name (rs_Meta r') = n \<Longrightarrow>
      m_Finalizers (rs_Meta r') = m_Finalizers (rs_Meta r) \<Longrightarrow>
      m_DeletionTimestamp (rs_Meta r') = m_DeletionTimestamp (rs_Meta r) \<Longrightarrow>
      objs w' = (objs w)((ResvKind, n) := stored (KResv r')) \<Longrightarrow> Q (Inr ()) w'"
  shows "wp (markChunksReleased K n) Q w"
  unfolding markChunksReleased_def wp_bind by (rule wp_markOnce) (simp_all add: assms)

lemma wp_releaseChunks:
  assumes "\<And>w' e. objs w' = objs w \<or> credited (objs w) r (objs w') \<Longrightarrow> Q (Inl e) w'"
    and "\<And>w' s1 cur. credited (objs w) r s1 \<Longrightarrow> objs w' = s1 \<Longrightarrow>
      resv_at (objs w) (m_Name (rs_Meta r)) = Some cur \<Longrightarrow> IsChunksReleased cur \<Longrightarrow> Q (Inr ()) w'"
    and "\<And>w' s1 cur r'. credited (objs w) r s1 \<Longrightarrow>
      resv_at (objs w) (m_Name (rs_Meta r)) = Some cur \<Longrightarrow> \<not> IsChunksReleased cur \<Longrightarrow> IsChunksReleased r' \<Longrightarrow>
      rs_Spec r' = rs_Spec cur \<Longrightarrow> rs_Status r' = rs_Status cur \<Longrightarrow> m_Name (rs_Meta r') = m_Name (rs_Meta r) \<Longrightarrow>
      m_Finalizers (rs_Meta r') = m_Finalizers (rs_Meta cur) \<Longrightarrow>
      m_DeletionTimestamp (rs_Meta r') = m_DeletionTimestamp (rs_Meta cur) \<Longrightarrow>
      objs w' = s1((ResvKind, m_Name (rs_Meta r)) := stored (KResv r')) \<Longrightarrow> Q (Inr ()) w'"
  shows "wp (releaseChunks K r) Q w"
proof -
  have stamp: "wp (stampChunksReleased K (m_Name (rs_Meta r))) Q w1" if "credited (objs w) r (objs w1)" for w1
  proof -
    have same: "resv_at (objs w1) n = resv_at (objs w) n" for n
      using that by (auto simp: credited_def split: option.splits)
    show ?thesis
      by (rule wp_stampChunksReleased) (use that same assms in auto)
  qed
  show ?thesis
    unfolding releaseChunks_def wp_bind
  proof (rule adv.wp_casStatus, goal_cases)
    case (1 x y)
    then show ?case by auto
  next
    case (2 w' e)
    then show ?case using stamp assms(1) by (auto simp: credited_def)
  next
    case (6 w' x y v)
    then have "credited (objs w) r (objs w')" by (auto simp: credited_def with_adv_status_def)
    then show ?case by (simp add: stamp)
  qed (simp_all add: assms(1))
qed

end

section \<open>Sequential correctness\<close>

text \<open>A well-formed ledger: non-negative 32-bit counters, and what is available is what is left.\<close>

definition ledger_wf :: "ClusterAdvertisement \<Rightarrow> bool" where
  "ledger_wf a \<longleftrightarrow> (let s = ca_Status a in
     0 \<le> ca_ReservedChunks s \<and> is_int32 (ca_ReservedChunks s) \<and>
     0 \<le> ca_TotalChunks s \<and> is_int32 (ca_TotalChunks s) \<and>
     ca_AvailableChunks s = max (ca_TotalChunks s - ca_ReservedChunks s) 0)"

lemma ledger_wf_withReserved:
  "0 \<le> n \<Longrightarrow> is_int32 n \<Longrightarrow> 0 \<le> ca_TotalChunks (ca_Status a) \<Longrightarrow> is_int32 (ca_TotalChunks (ca_Status a)) \<Longrightarrow>
   ledger_wf (withReserved n a)"
  by (simp add: ledger_wf_def Let_def int32_id is_int32_def)

lemma reserved_sum:
  assumes "ledger_wf a" "0 \<le> c" "c \<le> ca_AvailableChunks (ca_Status a)"
  shows "int32 (ca_ReservedChunks (ca_Status a) + c) = ca_ReservedChunks (ca_Status a) + c"
    and "c = 0 \<or> ca_ReservedChunks (ca_Status a) + c \<le> ca_TotalChunks (ca_Status a)"
    and "is_int32 (ca_ReservedChunks (ca_Status a) + c)"
proof -
  show le: "c = 0 \<or> ca_ReservedChunks (ca_Status a) + c \<le> ca_TotalChunks (ca_Status a)"
    using assms by (auto simp: ledger_wf_def Let_def)
  show "is_int32 (ca_ReservedChunks (ca_Status a) + c)"
    using assms le by (auto simp: ledger_wf_def Let_def is_int32_def)
  then show "int32 (ca_ReservedChunks (ca_Status a) + c) = ca_ReservedChunks (ca_Status a) + c"
    by (rule int32_id)
qed

lemma ledger_wf_reserve:
  assumes "ledger_wf a" "0 \<le> c" "c \<le> ca_AvailableChunks (ca_Status a)"
  shows "ledger_wf (withReserved (int32 (ca_ReservedChunks (ca_Status a) + c)) a)"
  using assms reserved_sum [OF assms] by (intro ledger_wf_withReserved) (auto simp: ledger_wf_def Let_def)

lemma adjusted:
  assumes "ledger_wf a" "0 \<le> c" "is_int32 c"
  shows "ca_ReservedChunks (ca_Status (adjust (- c) a)) = max (ca_ReservedChunks (ca_Status a) - c) 0"
  using assms by (simp add: adjust_def ledger_wf_def Let_def int32_id is_int32_def)

lemma ledger_wf_adjust:
  assumes "ledger_wf a" "0 \<le> c" "is_int32 c"
  shows "ledger_wf (adjust (- c) a)"
proof -
  have "int32 (ca_ReservedChunks (ca_Status a) - c) = ca_ReservedChunks (ca_Status a) - c"
    using assms by (simp add: ledger_wf_def Let_def int32_id is_int32_def)
  then show ?thesis
    using assms unfolding adjust_def
    by (intro ledger_wf_withReserved) (auto simp: ledger_wf_def Let_def is_int32_def)
qed

text \<open>
  C3. The capacity gate. A reservation of \<open>c\<close> chunks is granted only against a provider that has
  them: the counter goes up by exactly \<open>c\<close>, stays within the provider's total, the ledger stays
  well-formed and nothing else in the store changes. A refusal reports what was available, which
  is less than \<open>c\<close>, and like a failure changes nothing.
\<close>

theorem reserveChunks_gate:
  assumes "kube_api K objs" and "1 \<le> c"
    and "\<And>a. adv_at (objs w) p = Some a \<Longrightarrow> ledger_wf a"
    and "run_state (reserveChunks K p c) w = (r, w')"
  shows "case r of
      Inr (True, left) \<Rightarrow> (\<exists>a v. adv_at (objs w) p = Some a \<and>
        ca_ReservedChunks (ca_Status a) + c \<le> ca_TotalChunks (ca_Status a) \<and>
        objs w' = with_adv_status (objs w) p a (withReserved (ca_ReservedChunks (ca_Status a) + c) a) v \<and>
        left = ca_TotalChunks (ca_Status a) - (ca_ReservedChunks (ca_Status a) + c) \<and>
        ledger_wf (withReserved (ca_ReservedChunks (ca_Status a) + c) a))
    | Inr (False, n) \<Rightarrow> objs w' = objs w \<and> n < c \<and>
        (\<exists>a. adv_at (objs w) p = Some a \<and> n = ca_AvailableChunks (ca_Status a))
    | Inl _ \<Rightarrow> objs w' = objs w"
proof -
  have "wp (reserveChunks K p c) (\<lambda>r w'. case r of
      Inr (True, left) \<Rightarrow> (\<exists>a v. adv_at (objs w) p = Some a \<and>
        ca_ReservedChunks (ca_Status a) + c \<le> ca_TotalChunks (ca_Status a) \<and>
        objs w' = with_adv_status (objs w) p a (withReserved (ca_ReservedChunks (ca_Status a) + c) a) v \<and>
        left = ca_TotalChunks (ca_Status a) - (ca_ReservedChunks (ca_Status a) + c) \<and>
        ledger_wf (withReserved (ca_ReservedChunks (ca_Status a) + c) a))
    | Inr (False, n) \<Rightarrow> objs w' = objs w \<and> n < c \<and>
        (\<exists>a. adv_at (objs w) p = Some a \<and> n = ca_AvailableChunks (ca_Status a))
    | Inl _ \<Rightarrow> objs w' = objs w) w"
  proof (rule kube_api.wp_reserveChunks [OF assms(1)], goal_cases)
    case (3 w' a v)
    have wf: "ledger_wf a" by (rule assms(3)) (rule 3(1))
    note sum = reserved_sum [OF wf _ 3(2)]
    have "0 \<le> ca_TotalChunks (ca_Status a) - (ca_ReservedChunks (ca_Status a) + c)"
      using sum assms(2) by simp
    then show ?case
      using 3 sum assms(2) wf ledger_wf_reserve [OF wf _ 3(2)]
      by (auto simp: int32_id is_int32_def ledger_wf_def Let_def)
  qed simp_all
  from wp_run [OF this assms(4)] show ?thesis .
qed

definition exampleWorld :: "kobj list \<Rightarrow> memstore" where
  "exampleWorld xs = \<lparr>ms_objs = xs, ms_rv = 10, ms_clock = 0\<rparr>"

lemma reserve_example:
  "fst (run_state (reserveChunks memK ''p'' 1) (exampleWorld [KAdv (exampleAdv ''p'' 3 1)])) = Inr (True, 1)"
  by code_simp

theorem reserveChunks_gate_witness:
  "\<exists>a v w'. adv_at (mem_lookup (exampleWorld [KAdv (exampleAdv ''p'' 3 1)])) ''p'' = Some a \<and>
     mem_lookup w' = with_adv_status (mem_lookup (exampleWorld [KAdv (exampleAdv ''p'' 3 1)])) ''p'' a
       (withReserved (ca_ReservedChunks (ca_Status a) + 1) a) v"
proof -
  let ?w = "exampleWorld [KAdv (exampleAdv ''p'' 3 1)]"
  have wf: "ledger_wf a" if "adv_at (mem_lookup ?w) ''p'' = Some a" for a
    using that by (auto simp: adv_at_def mem_lookup_def exampleWorld_def exampleAdv_def named_meta_def
        ledger_wf_def Let_def is_int32_def)
  have "run_state (reserveChunks memK ''p'' 1) ?w =
      (Inr (True, 1), snd (run_state (reserveChunks memK ''p'' 1) ?w))"
    using reserve_example by (simp add: prod_eq_iff)
  from reserveChunks_gate [OF mem.kube_api_axioms _ wf this] show ?thesis by auto
qed

text \<open>
  Undoing a reservation. What \<^verbatim>\<open>reserveChunks\<close> takes, the rollback and the release give
  back: after a grant of \<open>c\<close> chunks, a credit of \<open>c\<close> restores both counters.
\<close>

theorem reserve_credit_roundtrip:
  assumes "ledger_wf a" and "0 \<le> c" and "tryReserve c a = Inr b"
  shows "adjust (- c) b = a"
proof -
  have c: "c \<le> ca_AvailableChunks (ca_Status a)" and b: "b = withReserved (ca_ReservedChunks (ca_Status a) + c) a"
    using assms reserved_sum [OF assms(1,2)] by (auto simp: tryReserve_Inr)
  have "is_int32 (ca_TotalChunks (ca_Status a) - ca_ReservedChunks (ca_Status a))"
    "is_int32 (ca_ReservedChunks (ca_Status a))"
    using assms(1) by (auto simp: ledger_wf_def Let_def is_int32_def)
  then show ?thesis
    using assms(1) by (simp add: b adjust_def withReserved_def ledger_wf_def Let_def int32_id)
qed

theorem reserve_credit_roundtrip_witness:
  "adjust (- 2) (withReserved 3 (exampleAdv ''p'' 5 1)) = exampleAdv ''p'' 5 1"
  by (rule reserve_credit_roundtrip)
    (simp_all add: ledger_wf_def Let_def is_int32_def exampleAdv_def tryReserve_Inr int32_id)

text \<open>
  The reconciler's release. When \<^verbatim>\<open>releaseChunks\<close> succeeds, the provider has been credited
  with the reservation's chunks, unless it is gone, and the stored reservation carries the
  marker (or has just disappeared with its last finalizer). When it fails, either nothing has
  changed or the credit alone has been written.
\<close>

theorem releaseChunks_outcomes:
  assumes "kube_api K objs" and "run_state (releaseChunks K r) w = (res, w')"
  shows "case res of
      Inl _ \<Rightarrow> objs w' = objs w \<or> credited (objs w) r (objs w')
    | Inr _ \<Rightarrow> (\<exists>s1. credited (objs w) r s1 \<and>
        (\<forall>q. adv_at (objs w') q = adv_at s1 q) \<and>
        (case resv_at (objs w') (m_Name (rs_Meta r)) of
           None \<Rightarrow> (\<exists>cur. resv_at (objs w) (m_Name (rs_Meta r)) = Some cur \<and> m_Finalizers (rs_Meta cur) = [])
         | Some r' \<Rightarrow> IsChunksReleased r'))"
proof -
  have "wp (releaseChunks K r) (\<lambda>res w'. case res of
      Inl _ \<Rightarrow> objs w' = objs w \<or> credited (objs w) r (objs w')
    | Inr _ \<Rightarrow> (\<exists>s1. credited (objs w) r s1 \<and>
        (\<forall>q. adv_at (objs w') q = adv_at s1 q) \<and>
        (case resv_at (objs w') (m_Name (rs_Meta r)) of
           None \<Rightarrow> (\<exists>cur. resv_at (objs w) (m_Name (rs_Meta r)) = Some cur \<and> m_Finalizers (rs_Meta cur) = [])
         | Some r' \<Rightarrow> IsChunksReleased r'))) w"
  proof (rule kube_api.wp_releaseChunks [OF assms(1)], goal_cases)
    case (2 w' s1 cur)
    then have "resv_at s1 (m_Name (rs_Meta r)) = Some cur"
      by (auto simp: credited_def split: option.splits)
    with 2 show ?case by auto
  next
    case (3 w' s1 cur r')
    then show ?case by (auto simp: stored_def)
  qed simp
  from wp_run [OF this assms(2)] show ?thesis .
qed

theorem releaseChunks_outcomes_witness:
  "\<exists>s1. credited (mem_lookup (exampleWorld [KAdv (exampleAdv ''p'' 3 1), KResv (exampleResv ''r'' ''c'' ''p'' Failed)]))
      (exampleResv ''r'' ''c'' ''p'' Failed) s1"
proof -
  let ?w = "exampleWorld [KAdv (exampleAdv ''p'' 3 1), KResv (exampleResv ''r'' ''c'' ''p'' Failed)]"
  let ?r = "exampleResv ''r'' ''c'' ''p'' Failed"
  have "fst (run_state (releaseChunks memK ?r) ?w) = Inr ()" by code_simp
  then have "run_state (releaseChunks memK ?r) ?w = (Inr (), snd (run_state (releaseChunks memK ?r) ?w))"
    by (simp add: prod_eq_iff)
  from releaseChunks_outcomes [OF mem.kube_api_axioms this] show ?thesis by auto
qed

definition afterTwoReleases :: "memstore \<times> kerr option list" where
  "afterTwoReleases =
    (let r = exampleResv ''r'' ''c'' ''p'' Failed;
         w = (exampleWorld [KAdv (exampleAdv ''p'' 5 3), KResv r],
              [None, None, None, Some (KOther ''timeout'')])
     in snd (run_state (releaseChunks (faultyK memK) r) (snd (run_state (releaseChunks (faultyK memK) r) w))))"

text \<open>
  The credit is not exactly-once under failures. The marker is written after the counter; if
  that write fails, the reconcile returns an error and the next one credits the same chunk again.
  Here a reservation of one chunk is released twice, and the counter falls from 3 to 1.
\<close>

theorem releaseChunks_double_credit:
  "map_option (ca_ReservedChunks \<circ> ca_Status) (adv_at (mem_lookup (fst afterTwoReleases)) ''p'') = Some 1 \<and>
   map_option (rs_ChunkCount \<circ> rs_Spec) (resv_at (mem_lookup (fst afterTwoReleases)) ''r'') = Some 1"
  by code_simp

end
