(* ===== verification/LedgerRace.thy ===== *)
theory LedgerRace
  imports Ledger
begin

text \<open>
  The ledger under concurrency. HTTP handlers and reconciler workers run at the same time; each
  of them reads the advertisement, computes the new counters and writes them back, and any number
  of others may write in between. A thread is a job at one of its program points; a step is one
  call to the API server or the decision between the two. The loops give up after three
  conflicts, here a thread may retry for ever, so that every real interleaving is covered.
\<close>

section \<open>Threads\<close>

datatype job = ReserveJob int | CreditJob int

definition decide :: "job \<Rightarrow> ClusterAdvertisement \<Rightarrow> int + ClusterAdvertisement" where
  "decide j a = (case j of ReserveJob c \<Rightarrow> tryReserve c a | CreditJob c \<Rightarrow> Inr (adjust (- c) a))"

datatype thread =
    AtRead job
  | AtWrite job ClusterAdvertisement
  | Refused job int
  | Aborted job kerr
  | Committed job

type_synonym 'w race = "'w \<times> thread list"

inductive race_step :: "'w kube \<Rightarrow> string \<Rightarrow> 'w race \<Rightarrow> 'w race \<Rightarrow> bool" for K p where
  read_ok: "i < length ts \<Longrightarrow> ts ! i = AtRead j \<Longrightarrow> run_state (GetAdv K p) w = (Inr a, w') \<Longrightarrow>
    race_step K p (w, ts) (w', ts[i := AtWrite j a])"
| read_fail: "i < length ts \<Longrightarrow> ts ! i = AtRead j \<Longrightarrow> run_state (GetAdv K p) w = (Inl e, w') \<Longrightarrow>
    race_step K p (w, ts) (w', ts[i := Aborted j e])"
| refuse: "i < length ts \<Longrightarrow> ts ! i = AtWrite j a \<Longrightarrow> decide j a = Inl n \<Longrightarrow>
    race_step K p (w, ts) (w, ts[i := Refused j n])"
| write_ok: "i < length ts \<Longrightarrow> ts ! i = AtWrite j a \<Longrightarrow> decide j a = Inr b \<Longrightarrow>
    run_state (StatusUpdateAdv K b) w = (Inr b', w') \<Longrightarrow>
    race_step K p (w, ts) (w', ts[i := Committed j])"
| write_conflict: "i < length ts \<Longrightarrow> ts ! i = AtWrite j a \<Longrightarrow> decide j a = Inr b \<Longrightarrow>
    run_state (StatusUpdateAdv K b) w = (Inl KConflict, w') \<Longrightarrow>
    race_step K p (w, ts) (w', ts[i := AtRead j])"
| write_fail: "i < length ts \<Longrightarrow> ts ! i = AtWrite j a \<Longrightarrow> decide j a = Inr b \<Longrightarrow>
    run_state (StatusUpdateAdv K b) w = (Inl e, w') \<Longrightarrow> e \<noteq> KConflict \<Longrightarrow>
    race_step K p (w, ts) (w', ts[i := Aborted j e])"

fun chunks_of :: "job \<Rightarrow> int" where
  "chunks_of (ReserveJob c) = c"
| "chunks_of (CreditJob c) = - c"

text \<open>Chunks granted minus chunks credited back by the threads that have committed.\<close>

fun outcome :: "thread \<Rightarrow> int" where
  "outcome (Committed j) = chunks_of j"
| "outcome _ = 0"

definition net :: "thread list \<Rightarrow> int" where
  "net ts = sum_list (map outcome ts)"

fun job_ok :: "job \<Rightarrow> bool" where
  "job_ok (ReserveJob c) \<longleftrightarrow> 1 \<le> c"
| "job_ok (CreditJob c) \<longleftrightarrow> 0 \<le> c \<and> is_int32 c"

section \<open>The invariant\<close>

text \<open>
  The counters are well-formed, bounded by the total and account for every committed job; a
  thread holding a copy of the advertisement either holds the current counters or an older
  version, with which its write cannot succeed.
\<close>

definition holds_copy :: "ClusterAdvertisement \<Rightarrow> string \<Rightarrow> thread \<Rightarrow> bool" where
  "holds_copy cur p t = (case t of
     AtWrite j a \<Rightarrow> job_ok j \<and> m_Name (ca_Meta a) = p \<and>
       m_ResourceVersion (ca_Meta a) \<le> m_ResourceVersion (ca_Meta cur) \<and>
       (m_ResourceVersion (ca_Meta a) = m_ResourceVersion (ca_Meta cur) \<longrightarrow> ca_Status a = ca_Status cur)
   | AtRead j \<Rightarrow> job_ok j
   | _ \<Rightarrow> True)"

definition race_inv :: "store \<Rightarrow> string \<Rightarrow> int \<Rightarrow> int \<Rightarrow> thread list \<Rightarrow> bool" where
  "race_inv s p tot base ts \<longleftrightarrow> (\<exists>cur. adv_at s p = Some cur \<and> ledger_wf cur \<and>
     ca_TotalChunks (ca_Status cur) = tot \<and> ca_ReservedChunks (ca_Status cur) \<le> tot \<and>
     base + net ts \<le> ca_ReservedChunks (ca_Status cur) \<and> (\<forall>t\<in>set ts. holds_copy cur p t))"

lemma net_update:
  "i < length ts \<Longrightarrow> net (ts[i := t]) = net ts + outcome t - outcome (ts ! i)"
proof (induction ts arbitrary: i)
  case (Cons x ts)
  then show ?case by (cases i) (simp_all add: net_def)
qed simp

lemma race_inv_local:
  assumes "race_inv s p tot base ts" "i < length ts" "outcome t = outcome (ts ! i)"
    and "\<And>cur. adv_at s p = Some cur \<Longrightarrow> holds_copy cur p (ts ! i) \<Longrightarrow> holds_copy cur p t"
  shows "race_inv s p tot base (ts[i := t])"
proof -
  from assms(1) obtain cur where cur: "adv_at s p = Some cur" "ledger_wf cur"
    "ca_TotalChunks (ca_Status cur) = tot" "ca_ReservedChunks (ca_Status cur) \<le> tot"
    "base + net ts \<le> ca_ReservedChunks (ca_Status cur)" "\<forall>t\<in>set ts. holds_copy cur p t"
    by (auto simp: race_inv_def)
  have "holds_copy cur p t" using assms(2,4) cur(1,6) by auto
  then have "\<forall>t'\<in>set (ts[i := t]). holds_copy cur p t'"
    using cur(6) set_update_subset_insert [of ts i t] by blast
  then show ?thesis
    using cur assms(2,3) by (auto simp: race_inv_def net_update)
qed

text \<open>A write that goes through was computed from the current counters.\<close>

lemma decide_current:
  assumes "ledger_wf cur" "ca_ReservedChunks (ca_Status cur) \<le> ca_TotalChunks (ca_Status cur)" "job_ok j"
    and "decide j a = Inr b" "ca_Status a = ca_Status cur"
  shows "ledger_wf b \<and> ca_TotalChunks (ca_Status b) = ca_TotalChunks (ca_Status cur) \<and>
    ca_ReservedChunks (ca_Status b) \<le> ca_TotalChunks (ca_Status cur) \<and>
    ca_ReservedChunks (ca_Status cur) + chunks_of j \<le> ca_ReservedChunks (ca_Status b)"
proof -
  have wf: "ledger_wf a" using assms(1,5) by (simp add: ledger_wf_def)
  show ?thesis
  proof (cases j)
    case (ReserveJob c)
    then have "c \<le> ca_AvailableChunks (ca_Status a)" "1 \<le> c"
      and b: "b = withReserved (int32 (ca_ReservedChunks (ca_Status a) + c)) a"
      using assms(3,4) by (auto simp: decide_def tryReserve_Inr)
    with ledger_wf_reserve [OF wf, of c] reserved_sum [OF wf, of c] ReserveJob assms(5)
    show ?thesis by simp
  next
    case (CreditJob c)
    then have "b = adjust (- c) a" "0 \<le> c" "is_int32 c"
      using assms(3,4) by (auto simp: decide_def)
    with ledger_wf_adjust [OF wf, of c] adjusted [OF wf, of c] CreditJob assms(2,5) wf
    show ?thesis by (simp add: ledger_wf_def Let_def)
  qed
qed

lemma decide_meta: "decide j a = Inr b \<Longrightarrow> ca_Meta b = ca_Meta a"
  by (auto simp: decide_def tryReserve_Inr split: job.splits)

lemma race_inv_commit:
  assumes inv: "race_inv s p tot base ts" and i: "i < length ts" "ts ! i = AtWrite j a" "decide j a = Inr b"
    and v: "adv_at s p = Some cur" "m_ResourceVersion (ca_Meta a) = m_ResourceVersion (ca_Meta cur)"
      "m_ResourceVersion (ca_Meta cur) < v"
  shows "race_inv (with_adv_status s p cur b v) p tot base (ts[i := Committed j])"
proof -
  let ?new = "cur\<lparr>ca_Meta := (ca_Meta cur)\<lparr>m_ResourceVersion := v\<rparr>, ca_Status := ca_Status b\<rparr>"
  from inv v(1) have cur: "ledger_wf cur" "ca_TotalChunks (ca_Status cur) = tot"
    "ca_ReservedChunks (ca_Status cur) \<le> tot" "base + net ts \<le> ca_ReservedChunks (ca_Status cur)"
    and copies: "\<forall>t\<in>set ts. holds_copy cur p t"
    by (auto simp: race_inv_def)
  have "holds_copy cur p (AtWrite j a)" using copies i by (metis nth_mem)
  with v have "job_ok j" "ca_Status a = ca_Status cur" by (auto simp: holds_copy_def)
  from decide_current [OF cur(1) _ this(1) i(3) this(2)] cur(2,3)
  have b: "ledger_wf b" "ca_TotalChunks (ca_Status b) = tot" "ca_ReservedChunks (ca_Status b) \<le> tot"
    "ca_ReservedChunks (ca_Status cur) + chunks_of j \<le> ca_ReservedChunks (ca_Status b)" by auto
  have "holds_copy ?new p t" if "t \<in> set ts" for t
    using copies that v(3) by (fastforce simp: holds_copy_def split: thread.splits)
  then have "\<forall>t\<in>set (ts[i := Committed j]). holds_copy ?new p t"
    using set_update_subset_insert [of ts i "Committed j"] by (auto simp: holds_copy_def)
  moreover have "ledger_wf ?new" using b(1) by (simp add: ledger_wf_def)
  ultimately show ?thesis
    using b cur(4) i by (auto simp: race_inv_def net_update)
qed

context kube_versioned
begin

lemma race_inv_step:
  assumes "race_step K p (w, ts) (w', ts')" and "race_inv (objs w) p tot base ts"
  shows "race_inv (objs w') p tot base ts'"
  using assms(1)
proof cases
  case (read_ok i j a)
  have "wp (GetAdv K p) (\<lambda>r w'. objs w' = objs w \<and> (\<forall>a. r = Inr a \<longrightarrow>
      adv_at (objs w) p = Some a \<and> m_Name (ca_Meta a) = p)) w"
    by (rule adv.wp_get) auto
  from wp_run [OF this read_ok(4)] show ?thesis
    using assms(2) read_ok by (auto intro!: race_inv_local simp: holds_copy_def)
next
  case (read_fail i j e)
  have "wp (GetAdv K p) (\<lambda>r w'. objs w' = objs w) w" by (rule adv.wp_get) auto
  from wp_run [OF this read_fail(4)] show ?thesis
    using assms(2) read_fail by (auto intro!: race_inv_local simp: holds_copy_def)
next
  case (refuse i j a n)
  then show ?thesis using assms(2) by (auto intro!: race_inv_local simp: holds_copy_def)
next
  case (write_ok i j a b b')
  then have nm: "m_Name (ca_Meta b) = p" "ca_Meta b = ca_Meta a"
    using assms(2) decide_meta [of j a b] nth_mem [of i ts]
    by (auto simp: race_inv_def holds_copy_def dest!: bspec)
  have "run_state (k_StatusUpdate K (KAdv b)) w = (Inr (KAdv b'), w')"
  proof -
    obtain o' where "run_state (k_StatusUpdate K (KAdv b)) w = (o', w')" "typed as_adv o' = Inr b'"
      using write_ok(5) by (auto simp: status_typed_def split: prod.splits)
    then show ?thesis by (auto simp: typed_def split: sum.splits elim: as_adv.elims)
  qed
  from status_version [OF this] status_law [OF this] nm
  obtain cur v where "objs w (AdvKind, p) = Some cur" "kobj_rv cur = m_ResourceVersion (ca_Meta a)"
    and b': "status_updated cur (KAdv b) (KAdv b')" "objs w' = (objs w)((AdvKind, p) \<mapsto> KAdv b')"
    and "m_ResourceVersion (ca_Meta a) < m_ResourceVersion (ca_Meta b')"
    by auto
  moreover from this(1) obtain c where c: "cur = KAdv c" "adv_at (objs w) p = Some c"
    by (metis adv.stored_typed)
  moreover have "objs w' = with_adv_status (objs w) p c b (m_ResourceVersion (ca_Meta b'))"
    using b' c by (auto simp: status_updated_def with_adv_status_def)
  ultimately show ?thesis
    using race_inv_commit [OF assms(2) write_ok(2-4) c(2), of "m_ResourceVersion (ca_Meta b')"] write_ok(1)
    by (simp del: fun_upd_apply)
next
  case (write_conflict i j a b)
  have "wp (StatusUpdateAdv K b) (\<lambda>r w'. \<forall>e. r = Inl e \<longrightarrow> objs w' = objs w) w" by (rule adv.wp_status) auto
  from wp_run [OF this write_conflict(5)] show ?thesis
    using assms(2) write_conflict by (auto intro!: race_inv_local simp: holds_copy_def)
next
  case (write_fail i j a b e)
  have "wp (StatusUpdateAdv K b) (\<lambda>r w'. \<forall>e. r = Inl e \<longrightarrow> objs w' = objs w) w" by (rule adv.wp_status) auto
  from wp_run [OF this write_fail(5)] show ?thesis
    using assms(2) write_fail by (auto intro!: race_inv_local simp: holds_copy_def)
qed

lemma race_inv_reachable:
  assumes "(race_step K p)\<^sup>*\<^sup>* (w, ts) (w', ts')" and "race_inv (objs w) p tot base ts"
  shows "race_inv (objs w') p tot base ts'"
  using assms
proof (induction "(w', ts')" arbitrary: w' ts' rule: rtranclp_induct)
  case base
  then show ?case by simp
next
  case (step y)
  then show ?case by (cases y) (auto intro: race_inv_step)
qed

end

section \<open>No over-commitment\<close>

text \<open>
  C1. However the concurrent reservations and releases of a provider interleave, conflict and
  retry, its reserved chunks never exceed its total, the two counters stay consistent, and the
  chunks granted and not yet credited back fit into what was free at the start.
\<close>

theorem no_overcommit:
  assumes "kube_versioned K objs"
    and "adv_at (objs w) p = Some a" and "ledger_wf a"
    and "ca_ReservedChunks (ca_Status a) \<le> ca_TotalChunks (ca_Status a)"
    and "list_all job_ok js"
    and "(race_step K p)\<^sup>*\<^sup>* (w, map AtRead js) (w', ts)"
  shows "\<exists>cur. adv_at (objs w') p = Some cur \<and> ledger_wf cur \<and>
    ca_TotalChunks (ca_Status cur) = ca_TotalChunks (ca_Status a) \<and>
    ca_ReservedChunks (ca_Status cur) \<le> ca_TotalChunks (ca_Status cur) \<and>
    net ts \<le> ca_TotalChunks (ca_Status a) - ca_ReservedChunks (ca_Status a)"
proof -
  have "net (map AtRead js) = 0" by (induction js) (simp_all add: net_def)
  then have "race_inv (objs w) p (ca_TotalChunks (ca_Status a)) (ca_ReservedChunks (ca_Status a)) (map AtRead js)"
    using assms(2-5) by (auto simp: race_inv_def holds_copy_def list_all_iff)
  from kube_versioned.race_inv_reachable [OF assms(1,6) this] show ?thesis
    by (auto simp: race_inv_def)
qed

text \<open>Two requests for the last chunk: both read it as free, only one of them gets it.\<close>

abbreviation lastChunk :: memstore where
  "lastChunk \<equiv> exampleWorld [KAdv (exampleAdv ''p'' 2 1)]"

theorem no_overcommit_witness:
  "\<exists>w' ts. (race_step memK ''p'')\<^sup>*\<^sup>* (lastChunk, map AtRead [ReserveJob 1, ReserveJob 1]) (w', ts) \<and>
     ts ! 0 = Committed (ReserveJob 1) \<and> ts ! 1 = AtRead (ReserveJob 1) \<and> net ts \<le> 1"
proof -
  let ?j = "ReserveJob 1" and ?a = "exampleAdv ''p'' 2 1"
  let ?b = "withReserved 2 ?a"
  let ?w1 = "snd (run_state (StatusUpdateAdv memK ?b) lastChunk)"
  let ?s0 = "(lastChunk, [AtRead ?j, AtRead ?j])"
  let ?s1 = "(lastChunk, [AtWrite ?j ?a, AtRead ?j])" and ?s2 = "(lastChunk, [AtWrite ?j ?a, AtWrite ?j ?a])"
  let ?s3 = "(?w1, [Committed ?j, AtWrite ?j ?a])" and ?s4 = "(?w1, [Committed ?j, AtRead ?j])"
  have get: "run_state (GetAdv memK ''p'') lastChunk = (Inr ?a, lastChunk)"
    by (simp add: get_typed_def mem_defs exampleWorld_def exampleAdv_def named_meta_def typed_def)
  have dec: "decide ?j ?a = Inr ?b"
    by (simp add: decide_def tryReserve_def exampleAdv_def int32_id is_int32_def)
  have ok: "isl (fst (run_state (StatusUpdateAdv memK ?b) lastChunk)) = False" by code_simp
  have conf: "run_state (StatusUpdateAdv memK ?b) ?w1 = (Inl KConflict, ?w1)"
    by (simp add: status_typed_def mem_defs exampleWorld_def exampleAdv_def named_meta_def typed_def)
  have "race_step memK ''p'' ?s0 ?s1" using read_ok [of 0 "[AtRead ?j, AtRead ?j]" ?j memK] get by simp
  moreover have "race_step memK ''p'' ?s1 ?s2" using read_ok [of 1 "[AtWrite ?j ?a, AtRead ?j]" ?j memK] get by simp
  moreover have "race_step memK ''p'' ?s2 ?s3"
    using write_ok [of 0 "[AtWrite ?j ?a, AtWrite ?j ?a]" ?j ?a ?b memK lastChunk] dec ok
    by (cases "run_state (StatusUpdateAdv memK ?b) lastChunk"; cases "fst (run_state (StatusUpdateAdv memK ?b) lastChunk)") auto
  moreover have "race_step memK ''p'' ?s3 ?s4"
    using write_conflict [of 1 "[Committed ?j, AtWrite ?j ?a]" ?j ?a ?b memK ?w1] dec conf by simp
  ultimately have run: "(race_step memK ''p'')\<^sup>*\<^sup>* ?s0 ?s4"
    by (meson converse_rtranclp_into_rtranclp rtranclp.rtrancl_refl)
  have "adv_at (mem_lookup lastChunk) ''p'' = Some ?a" "ledger_wf ?a"
    by (simp_all add: adv_at_def mem_lookup_def exampleWorld_def exampleAdv_def named_meta_def ledger_wf_def is_int32_def)
  from no_overcommit [OF mem.kube_versioned_axioms this, of "[?j, ?j]"] run
  have "net [Committed ?j, AtRead ?j] \<le> ca_TotalChunks (ca_Status ?a) - ca_ReservedChunks (ca_Status ?a)"
    by (simp add: exampleAdv_def) blast
  with run show ?thesis
    by (intro exI [of _ ?w1] exI [of _ "[Committed ?j, AtRead ?j]"]) (simp add: exampleAdv_def)
qed

end
