(* ===== verification/Instructions.thy ===== *)
theory Instructions
  imports MemStore Ledger
begin

text \<open>
  \<^verbatim>\<open>internal/broker/api/instructions.go\<close>: the work queue between the Broker and the agents. Agents
  poll the instructions addressed to them and post the result of each; the result handlers mark
  the instruction enforced, stage the peering-user kubeconfig and move the reservation to its
  next phase. Best-effort writes whose error is only logged return their error here, and the
  caller drops it as the code does.
\<close>

section \<open>Wire types\<close>

record InstructionView =
  iv_ID :: string
  iv_Kind :: string
  iv_ReservationID :: string
  iv_ChunkCount :: int
  iv_LastChunk :: bool
  iv_ConsumerClusterID :: string
  iv_ConsumerLiqoClusterID :: string
  iv_ProviderClusterID :: string
  iv_ProviderLiqoClusterID :: string
  iv_Kubeconfig :: string
  iv_ResourceSliceResources :: ResourceList
  iv_ResourceSliceNames :: "string list"
  iv_Namespaces :: "string list"
  iv_IssuedAt :: Time
  iv_ExpiresAt :: Time

record InstructionsResponse =
  ir_Instructions :: "InstructionView list"

abbreviation ResultStatusSucceeded :: string where "ResultStatusSucceeded \<equiv> ''Succeeded''"
abbreviation ResultStatusFailed :: string where "ResultStatusFailed \<equiv> ''Failed''"
abbreviation PayloadKindKubeconfig :: string where "PayloadKindKubeconfig \<equiv> ''KubeconfigPayload''"
abbreviation PayloadKindPeer :: string where "PayloadKindPeer \<equiv> ''PeerPayload''"
abbreviation PayloadKindUnpeer :: string where "PayloadKindUnpeer \<equiv> ''UnpeerPayload''"
abbreviation PayloadKindReconcile :: string where "PayloadKindReconcile \<equiv> ''ReconcilePayload''"

text \<open>\<^verbatim>\<open>LiqoLabels\<close> and \<^verbatim>\<open>LiqoTaints\<close> are accepted and never read; they are left out.\<close>

record AdvertisementRequest =
  ar_ClusterID :: string
  ar_LiqoClusterID :: string
  ar_Resources :: ResourceList
  ar_Topology :: "Topology option"
  ar_UnitPrices :: ResourceList
  ar_CarbonIntensity :: "real option"
  ar_CarbonForecast :: "real list"
  ar_CapacityScalePercent :: "(string \<times> int) list"
  ar_CapacityFixed :: ResourceList
  ar_Renewable :: bool
  ar_ProbeEndpoint :: string

text \<open>The consumer's part of a Reconcile payload.\<close>

record ReconcileVirtualNodeStateView =
  rv_ReservationID :: string
  rv_ChunkIndex :: int
  rv_NodeGroupID :: string
  rv_VirtualNodeName :: string
  rv_ResourceSlice :: string
  rv_Phase :: string
  rv_LastTransition :: "Time option"

text \<open>Of a payload the Broker reads the kind, the kubeconfig and the node names only.\<close>

record ResultPayload =
  rp_Kind :: string
  rp_Kubeconfig :: string
  rp_ExpiresAt :: "Time option"
  rp_VirtualNodeNames :: "string list"
  rp_ResourceSliceNames :: "string list"
  rp_ReleasedChunks :: int
  rp_TunnelDropped :: bool
  rp_Advertisement :: "AdvertisementRequest option"
  rp_VirtualNodeStates :: "ReconcileVirtualNodeStateView list"

record ErrorEnvelope =
  ee_Code :: string
  ee_Message :: string

record InstructionResultRequest =
  rr_Status :: string
  rr_Payload :: "ResultPayload option"
  rr_Error :: "ErrorEnvelope option"

record InstructionResultResponse =
  irr_Accepted :: bool

section \<open>Listing\<close>

abbreviation kubeconfigSecretKey :: string where "kubeconfigSecretKey \<equiv> ''kubeconfig''"

definition kubeconfigSecretName :: "string \<Rightarrow> string \<Rightarrow> string" where
  "kubeconfigSecretName consumerClusterID providerClusterID =
     ''kubeconfig-'' @ consumerClusterID @ ''-'' @ providerClusterID"

definition deliveryTouchInterval :: Duration where
  "deliveryTouchInterval = 30 * 10 ^ 9"

definition deliveryTouchDue :: "Time option \<Rightarrow> Time \<Rightarrow> bool" where
  "deliveryTouchDue lastDelivered now = (case lastDelivered of None \<Rightarrow> True | Some l \<Rightarrow> now - l \<ge> deliveryTouchInterval)"

text \<open>\<^verbatim>\<open>touchInstructionDelivered\<close>, one definition per case of its type switch.\<close>

definition touchProviderDelivered :: "Time \<Rightarrow> 'w kube \<Rightarrow> ProviderInstruction \<Rightarrow> ('w, unit) state" where
  "touchProviderDelivered now K obj =
    (if \<not> deliveryTouchDue (is_LastDeliveredAt (pi_Status obj)) now then State_Monad.return ()
     else do {
       _ \<leftarrow> StatusUpdatePI K (obj\<lparr>pi_Status := (pi_Status obj)\<lparr>is_LastDeliveredAt := Some now\<rparr>\<rparr>);
       State_Monad.return () })"

definition touchReservationDelivered :: "Time \<Rightarrow> 'w kube \<Rightarrow> ReservationInstruction \<Rightarrow> ('w, unit) state" where
  "touchReservationDelivered now K obj =
    (if \<not> deliveryTouchDue (is_LastDeliveredAt (ri_Status obj)) now then State_Monad.return ()
     else do {
       _ \<leftarrow> StatusUpdateRI K (obj\<lparr>ri_Status := (ri_Status obj)\<lparr>is_LastDeliveredAt := Some now\<rparr>\<rparr>);
       State_Monad.return () })"

fun pi_kind_string :: "ProviderInstructionKind \<Rightarrow> string" where
  "pi_kind_string PIGenerateKubeconfig = ''GenerateKubeconfig''"
| "pi_kind_string PICleanup = ''Cleanup''"
| "pi_kind_string PIReconcile = ''Reconcile''"

fun ri_kind_string :: "ReservationInstructionKind \<Rightarrow> string" where
  "ri_kind_string RIPeer = ''Peer''"
| "ri_kind_string RIUnpeer = ''Unpeer''"
| "ri_kind_string RICleanup = ''Cleanup''"
| "ri_kind_string RIReconcile = ''Reconcile''"

definition viewFromProviderInstruction :: "ProviderInstruction \<Rightarrow> InstructionView" where
  "viewFromProviderInstruction p =
    \<lparr>iv_ID = m_Name (pi_Meta p), iv_Kind = pi_kind_string (pi_Kind (pi_Spec p)),
     iv_ReservationID = pi_ReservationID (pi_Spec p), iv_ChunkCount = pi_ChunkCount (pi_Spec p),
     iv_LastChunk = pi_LastChunk (pi_Spec p), iv_ConsumerClusterID = pi_ConsumerClusterID (pi_Spec p),
     iv_ConsumerLiqoClusterID = pi_ConsumerLiqoClusterID (pi_Spec p),
     iv_ProviderClusterID = '''', iv_ProviderLiqoClusterID = '''', iv_Kubeconfig = '''',
     iv_ResourceSliceResources = [], iv_ResourceSliceNames = [], iv_Namespaces = [],
     iv_IssuedAt = (case is_IssuedAt (pi_Status p) of Some t \<Rightarrow> t
                    | None \<Rightarrow> m_CreationTimestamp (pi_Meta p)),
     iv_ExpiresAt = (case pi_ExpiresAt (pi_Spec p) of Some t \<Rightarrow> t | None \<Rightarrow> 0)\<rparr>"

definition viewFromReservationInstruction :: "ReservationInstruction \<Rightarrow> InstructionView" where
  "viewFromReservationInstruction q =
    \<lparr>iv_ID = m_Name (ri_Meta q), iv_Kind = ri_kind_string (ri_Kind (ri_Spec q)),
     iv_ReservationID = ri_ReservationID (ri_Spec q), iv_ChunkCount = ri_ChunkCount (ri_Spec q),
     iv_LastChunk = ri_LastChunk (ri_Spec q), iv_ConsumerClusterID = '''',
     iv_ConsumerLiqoClusterID = '''',
     iv_ProviderClusterID = ri_ProviderClusterID (ri_Spec q),
     iv_ProviderLiqoClusterID = ri_ProviderLiqoClusterID (ri_Spec q), iv_Kubeconfig = '''',
     iv_ResourceSliceResources = [], iv_ResourceSliceNames = ri_ResourceSliceNames (ri_Spec q),
     iv_Namespaces = [],
     iv_IssuedAt = (case is_IssuedAt (ri_Status q) of Some t \<Rightarrow> t
                    | None \<Rightarrow> m_CreationTimestamp (ri_Meta q)),
     iv_ExpiresAt = (case ri_ExpiresAt (ri_Spec q) of Some t \<Rightarrow> t | None \<Rightarrow> 0)\<rparr>"

definition loadKubeconfig :: "'w kube \<Rightarrow> string \<Rightarrow> ('w, gerr + string) state" where
  "loadKubeconfig K secretName = do {
     r \<leftarrow> GetSecret K secretName;
     State_Monad.return (case r of
       Inl e \<Rightarrow> Inl (Wrap ''get secret'' (KubeErr e))
     | Inr sec \<Rightarrow> (case map_of (sec_Data sec) kubeconfigSecretKey of
         None \<Rightarrow> Inl (Errorf (Sprintf ''secret %s has no %q key'' [AStr secretName, AStr kubeconfigSecretKey]))
       | Some b \<Rightarrow> if b = '''' then
           Inl (Errorf (Sprintf ''secret %s has no %q key'' [AStr secretName, AStr kubeconfigSecretKey]))
         else Inr b))
   }"

definition getReservation :: "'w kube \<Rightarrow> string \<Rightarrow> ('w, kerr + Reservation) state" where
  "getReservation K name = GetResv K name"

text \<open>The two loops of \<^verbatim>\<open>collectInstructionsForCaller\<close>.\<close>

fun collectProvider :: "Time \<Rightarrow> 'w kube \<Rightarrow> string \<Rightarrow> ProviderInstruction list \<Rightarrow>
    ('w, InstructionView list) state" where
  "collectProvider now K callerID [] = State_Monad.return []"
| "collectProvider now K callerID (p # ps) =
    (if pi_TargetClusterID (pi_Spec p) \<noteq> callerID \<or> is_Enforced (pi_Status p)
     then collectProvider now K callerID ps
     else do {
       _ \<leftarrow> touchProviderDelivered now K p;
       vs \<leftarrow> collectProvider now K callerID ps;
       State_Monad.return (viewFromProviderInstruction p # vs) })"

definition inlineKubeconfig :: "'w kube \<Rightarrow> ReservationInstruction \<Rightarrow> InstructionView \<Rightarrow>
    ('w, InstructionView option) state" where
  "inlineKubeconfig K q view =
    (if ri_Kind (ri_Spec q) = RIPeer \<and> ri_KubeconfigRef (ri_Spec q) \<noteq> '''' then do {
       kc \<leftarrow> loadKubeconfig K (ri_KubeconfigRef (ri_Spec q));
       State_Monad.return (case kc of Inl _ \<Rightarrow> None | Inr b \<Rightarrow> Some (view\<lparr>iv_Kubeconfig := b\<rparr>)) }
     else State_Monad.return (Some view))"

definition decorate :: "'w kube \<Rightarrow> ReservationInstruction \<Rightarrow> InstructionView \<Rightarrow> ('w, InstructionView) state" where
  "decorate K q view =
    (if ri_Kind (ri_Spec q) = RIPeer \<or> ri_Kind (ri_Spec q) = RIUnpeer then do {
       r \<leftarrow> getReservation K (ri_ReservationID (ri_Spec q));
       State_Monad.return (case r of
         Inl _ \<Rightarrow> view
       | Inr resv \<Rightarrow> view\<lparr>iv_ResourceSliceResources := rs_Resources (rs_Spec resv),
                          iv_Namespaces := rs_Namespaces (rs_Spec resv)\<rparr>) }
     else State_Monad.return view)"

fun collectReservation :: "Time \<Rightarrow> 'w kube \<Rightarrow> string \<Rightarrow> ReservationInstruction list \<Rightarrow>
    ('w, InstructionView list) state" where
  "collectReservation now K callerID [] = State_Monad.return []"
| "collectReservation now K callerID (q # qs) =
    (if ri_TargetClusterID (ri_Spec q) \<noteq> callerID \<or> is_Enforced (ri_Status q)
     then collectReservation now K callerID qs
     else do {
       inlined \<leftarrow> inlineKubeconfig K q (viewFromReservationInstruction q);
       (case inlined of
          None \<Rightarrow> collectReservation now K callerID qs
        | Some view \<Rightarrow> do {
            view \<leftarrow> decorate K q view;
            _ \<leftarrow> touchReservationDelivered now K q;
            vs \<leftarrow> collectReservation now K callerID qs;
            State_Monad.return (view # vs) }) })"

definition collectInstructionsForCaller :: "Time \<Rightarrow> 'w kube \<Rightarrow> string \<Rightarrow>
    ('w, gerr + InstructionView list) state" where
  "collectInstructionsForCaller now K callerID = do {
     ps \<leftarrow> ListPI K;
     (case ps of
        Inl e \<Rightarrow> State_Monad.return (Inl (Wrap ''list ProviderInstruction'' (KubeErr e)))
      | Inr ps \<Rightarrow> do {
          pviews \<leftarrow> collectProvider now K callerID ps;
          qs \<leftarrow> ListRI K;
          (case qs of
             Inl e \<Rightarrow> State_Monad.return (Inl (Wrap ''list ReservationInstruction'' (KubeErr e)))
           | Inr qs \<Rightarrow> do {
               rviews \<leftarrow> collectReservation now K callerID qs;
               State_Monad.return (Inr (pviews @ rviews)) }) })
   }"

definition handleInstructionsList :: "Time \<Rightarrow> 'w kube \<Rightarrow> string \<Rightarrow>
    ('w, InstructionsResponse response) state" where
  "handleInstructionsList now K callerID = do {
     r \<leftarrow> collectInstructionsForCaller now K callerID;
     State_Monad.return (case r of
       Inl _ \<Rightarrow> writeError 500 InternalError (text_msg ''instruction read failed'')
     | Inr views \<Rightarrow> writeJSON 200 \<lparr>ir_Instructions = views\<rparr>) }"

section \<open>Results\<close>

definition validateInstructionResult :: "InstructionResultRequest \<Rightarrow> message option" where
  "validateInstructionResult req =
    (if rr_Status req = ResultStatusFailed \<and>
        (case rr_Error req of None \<Rightarrow> True | Some e \<Rightarrow> ee_Message e = '''') then
       Some (text_msg ''status=Failed requires a non-empty error.message'')
     else if rr_Status req \<noteq> ResultStatusSucceeded \<and> rr_Status req \<noteq> ResultStatusFailed then
       Some (Sprintf ''invalid status %q (want %q | %q)''
         [AStr (rr_Status req), AStr ResultStatusSucceeded, AStr ResultStatusFailed])
     else if rr_Status req = ResultStatusSucceeded then
       (case rr_Payload req of
          None \<Rightarrow> None
        | Some p \<Rightarrow> if rp_Kind p \<in> {PayloadKindKubeconfig, PayloadKindPeer, PayloadKindUnpeer,
                                    PayloadKindReconcile, ''''} then None
                     else Some (Sprintf ''invalid payload.kind %q'' [AStr (rp_Kind p)]))
     else None)"

definition resultMessage :: "InstructionResultRequest \<Rightarrow> message" where
  "resultMessage req =
    (case rr_Error req of
       Some e \<Rightarrow> if rr_Status req = ResultStatusFailed then Sprintf ''Failed: %s'' [AStr (ee_Message e)]
                  else text_msg ''Succeeded''
     | None \<Rightarrow> text_msg ''Succeeded'')"

text \<open>The loops of \<^verbatim>\<open>mergeStrings\<close>: a value already seen is skipped.\<close>

definition appendNew :: "string list \<Rightarrow> string list \<Rightarrow> string list" where
  "appendNew out xs = fold (\<lambda>s out. if s \<in> set out then out else out @ [s]) xs out"

definition mergeStrings :: "string list \<Rightarrow> string list \<Rightarrow> string list" where
  "mergeStrings existing fresh =
    (if fresh = [] then existing else appendNew (appendNew [] existing) fresh)"

definition enforcedStatus :: "Time \<Rightarrow> InstructionResultRequest \<Rightarrow> InstructionStatus \<Rightarrow> InstructionStatus" where
  "enforcedStatus now req st = st\<lparr>is_Enforced := True, is_Attempts := int32 (is_Attempts st + 1),
     is_LastUpdateTime := Some now, is_Message := resultMessage req\<rparr>"

definition markProviderInstructionEnforced :: "Time \<Rightarrow> 'w kube \<Rightarrow> ProviderInstruction \<Rightarrow>
    InstructionResultRequest \<Rightarrow> ('w, kerr + ProviderInstruction) state" where
  "markProviderInstructionEnforced now K p req =
     StatusUpdatePI K (p\<lparr>pi_Status := enforcedStatus now req (pi_Status p)\<rparr>)"

definition markReservationInstructionEnforced :: "Time \<Rightarrow> 'w kube \<Rightarrow> ReservationInstruction \<Rightarrow>
    InstructionResultRequest \<Rightarrow> ('w, kerr + ReservationInstruction) state" where
  "markReservationInstructionEnforced now K q req =
     StatusUpdateRI K (q\<lparr>ri_Status := enforcedStatus now req (ri_Status q)\<rparr>)"

text \<open>\<open>PhaseEmpty\<close> as \<open>from\<close> is the empty string: advance whatever the phase is.\<close>

definition advanceReservationPhase :: "'w kube \<Rightarrow> string \<Rightarrow> ReservationPhase \<Rightarrow> ReservationPhase \<Rightarrow>
    message \<Rightarrow> ('w, gerr + unit) state" where
  "advanceReservationPhase K reservationID from to msg = do {
     r \<leftarrow> getReservation K reservationID;
     (case r of
        Inl e \<Rightarrow> State_Monad.return (Inl (KubeErr e))
      | Inr resv \<Rightarrow>
          if from \<noteq> PhaseEmpty \<and> rs_Phase (rs_Status resv) \<noteq> from then
            State_Monad.return (Inl (Errorf (Sprintf ''phase is %q, want %q''
              [AStr (phase_string (rs_Phase (rs_Status resv))), AStr (phase_string from)])))
          else do {
            u \<leftarrow> StatusUpdateResv K (resv\<lparr>rs_Status := (rs_Status resv)\<lparr>rs_Phase := to, rs_Message := msg\<rparr>\<rparr>);
            State_Monad.return (case u of Inl e \<Rightarrow> Inl (KubeErr e) | Inr _ \<Rightarrow> Inr ()) })
   }"

definition createOrUpdateSecret :: "'w kube \<Rightarrow> Secret \<Rightarrow> (Secret \<Rightarrow> Secret) \<Rightarrow> ('w, gerr + string) state" where
  "createOrUpdateSecret K sec mutate = do {
     r \<leftarrow> GetSecret K (m_Name (sec_Meta sec));
     (case r of
        Inl e \<Rightarrow> if e = KNotFound then do {
            c \<leftarrow> CreateSecret K (mutate sec);
            State_Monad.return (case c of Inl e \<Rightarrow> Inl (KubeErr e) | Inr _ \<Rightarrow> Inr ''created'') }
          else State_Monad.return (Inl (KubeErr e))
      | Inr existing \<Rightarrow> do {
          u \<leftarrow> UpdateSecret K (mutate (sec\<lparr>sec_Meta := (sec_Meta sec)
                 \<lparr>m_ResourceVersion := m_ResourceVersion (sec_Meta existing)\<rparr>\<rparr>));
          State_Monad.return (case u of Inl e \<Rightarrow> Inl (KubeErr e) | Inr _ \<Rightarrow> Inr ''updated'') })
   }"

fun attachLoop :: "'w kube \<Rightarrow> string \<Rightarrow> string \<Rightarrow> ReservationInstruction list \<Rightarrow> ('w, kerr + unit) state" where
  "attachLoop K reservationID secretName [] = State_Monad.return (Inr ())"
| "attachLoop K reservationID secretName (q # qs) =
    (if ri_ReservationID (ri_Spec q) \<noteq> reservationID \<or> ri_Kind (ri_Spec q) \<noteq> RIPeer
     then attachLoop K reservationID secretName qs
     else if ri_KubeconfigRef (ri_Spec q) = secretName then State_Monad.return (Inr ())
     else do {
       u \<leftarrow> UpdateRI K (q\<lparr>ri_Spec := (ri_Spec q)\<lparr>ri_KubeconfigRef := secretName\<rparr>\<rparr>);
       State_Monad.return (case u of Inl e \<Rightarrow> Inl e | Inr _ \<Rightarrow> Inr ()) })"

definition attachKubeconfigToPeer :: "'w kube \<Rightarrow> string \<Rightarrow> string \<Rightarrow> ('w, kerr + unit) state" where
  "attachKubeconfigToPeer K reservationID secretName = do {
     r \<leftarrow> ListRI K;
     (case r of Inl e \<Rightarrow> State_Monad.return (Inl e) | Inr qs \<Rightarrow> attachLoop K reservationID secretName qs) }"

definition kubeconfigSecret :: "ProviderInstruction \<Rightarrow> Secret" where
  "kubeconfigSecret p =
    \<lparr>sec_Meta = named_meta (kubeconfigSecretName (pi_ConsumerClusterID (pi_Spec p)) (pi_TargetClusterID (pi_Spec p))),
     sec_Labels = [(''federation-autoscaler.io/consumer'', pi_ConsumerClusterID (pi_Spec p)),
                   (''federation-autoscaler.io/provider'', pi_TargetClusterID (pi_Spec p))],
     sec_Data = []\<rparr>"

definition persistKubeconfigPayload :: "'w kube \<Rightarrow> ProviderInstruction \<Rightarrow> ResultPayload option \<Rightarrow>
    ('w, gerr + unit) state" where
  "persistKubeconfigPayload K p payload =
    (case payload of
       None \<Rightarrow> State_Monad.return (Inl (Errorf (text_msg ''KubeconfigPayload requires a non-empty kubeconfig'')))
     | Some pl \<Rightarrow>
        if rp_Kubeconfig pl = '''' then
          State_Monad.return (Inl (Errorf (text_msg ''KubeconfigPayload requires a non-empty kubeconfig'')))
        else do {
          op \<leftarrow> createOrUpdateSecret K (kubeconfigSecret p)
                  (\<lambda>sec. sec\<lparr>sec_Data := AList.update kubeconfigSecretKey (rp_Kubeconfig pl) (sec_Data sec)\<rparr>);
          (case op of
             Inl e \<Rightarrow> State_Monad.return (Inl (Wrap ''upsert kubeconfig secret'' e))
           | Inr _ \<Rightarrow> do {
               _ \<leftarrow> attachKubeconfigToPeer K (pi_ReservationID (pi_Spec p))
                      (kubeconfigSecretName (pi_ConsumerClusterID (pi_Spec p)) (pi_TargetClusterID (pi_Spec p)));
               _ \<leftarrow> advanceReservationPhase K (pi_ReservationID (pi_Spec p)) GeneratingKubeconfig KubeconfigReady
                      (text_msg ''kubeconfig delivered'');
               State_Monad.return (Inr ()) }) })"

text \<open>The second half of \<^verbatim>\<open>applyProviderResult\<close>: enforce, then fail the waiting reservation if need be.\<close>

definition enforceProviderResult :: "Time \<Rightarrow> 'w kube \<Rightarrow> ProviderInstruction \<Rightarrow> InstructionResultRequest \<Rightarrow>
    ('w, InstructionResultResponse response) state" where
  "enforceProviderResult now K p req = do {
     u \<leftarrow> markProviderInstructionEnforced now K p req;
     (case u of
        Inl _ \<Rightarrow> State_Monad.return (writeError 500 InternalError (text_msg ''instruction status update failed''))
      | Inr _ \<Rightarrow> do {
          _ \<leftarrow> (if rr_Status req = ResultStatusFailed \<and> pi_Kind (pi_Spec p) = PIGenerateKubeconfig
             then advanceReservationPhase K (pi_ReservationID (pi_Spec p)) PhaseEmpty Failed
               (text_msg (case rr_Error req of
                  Some e \<Rightarrow> if ee_Message e \<noteq> '''' then ee_Message e
                            else ''GenerateKubeconfig failed on the provider''
                | None \<Rightarrow> ''GenerateKubeconfig failed on the provider''))
             else State_Monad.return (Inr ()));
          State_Monad.return (writeJSON 200 \<lparr>irr_Accepted = True\<rparr>) }) }"

definition applyProviderResult :: "Time \<Rightarrow> 'w kube \<Rightarrow> ProviderInstruction \<Rightarrow> InstructionResultRequest \<Rightarrow>
    string \<Rightarrow> ('w, InstructionResultResponse response) state" where
  "applyProviderResult now K p req callerID =
    (if pi_TargetClusterID (pi_Spec p) \<noteq> callerID then
       State_Monad.return (writeError 403 Forbidden (text_msg ''instruction is not targeted at this cluster''))
     else if is_Enforced (pi_Status p) then State_Monad.return (writeJSON 200 \<lparr>irr_Accepted = True\<rparr>)
     else do {
       persisted \<leftarrow> (if rr_Status req = ResultStatusSucceeded \<and> pi_Kind (pi_Spec p) = PIGenerateKubeconfig
          then persistKubeconfigPayload K p (rr_Payload req) else State_Monad.return (Inr ()));
       (case persisted of
          Inl _ \<Rightarrow> State_Monad.return (writeError 500 InternalError (text_msg ''kubeconfig persistence failed''))
        | Inr _ \<Rightarrow> enforceProviderResult now K p req) })"

definition applyPeerPayload :: "'w kube \<Rightarrow> ReservationInstruction \<Rightarrow> ResultPayload option \<Rightarrow>
    ('w, kerr + unit) state" where
  "applyPeerPayload K q payload = do {
     r \<leftarrow> getReservation K (ri_ReservationID (ri_Spec q));
     (case r of
        Inl e \<Rightarrow> State_Monad.return (Inl e)
      | Inr resv \<Rightarrow> do {
          u \<leftarrow> StatusUpdateResv K (resv\<lparr>rs_Status := (rs_Status resv)
            \<lparr>rs_VirtualNodeNames := (case payload of None \<Rightarrow> rs_VirtualNodeNames (rs_Status resv)
                | Some pl \<Rightarrow> mergeStrings (rs_VirtualNodeNames (rs_Status resv)) (rp_VirtualNodeNames pl)),
             rs_Phase := Peered, rs_Message := text_msg ''peering completed''\<rparr>\<rparr>);
          State_Monad.return (case u of Inl e \<Rightarrow> Inl e | Inr _ \<Rightarrow> Inr ()) })
   }"

definition applyUnpeerPayload :: "'w kube \<Rightarrow> ReservationInstruction \<Rightarrow> ('w, gerr + unit) state" where
  "applyUnpeerPayload K q =
     advanceReservationPhase K (ri_ReservationID (ri_Spec q)) Unpeering Released (text_msg ''chunk released'')"

text \<open>
  The switch of \<^verbatim>\<open>applyReservationResult\<close> on the outcome. A nil \<^verbatim>\<open>req.Error\<close> of a failed result cannot get here: \<open>validateInstructionResult\<close> rejects it
  (lemma \<open>validated_error\<close>).
\<close>

definition applyReservationOutcome :: "'w kube \<Rightarrow> ReservationInstruction \<Rightarrow> InstructionResultRequest \<Rightarrow>
    ('w, kerr + unit) state" where
  "applyReservationOutcome K q req =
    (if rr_Status req = ResultStatusSucceeded then
       (if ri_Kind (ri_Spec q) = RIPeer then applyPeerPayload K q (rr_Payload req)
        else if ri_Kind (ri_Spec q) = RIUnpeer then do {
          _ \<leftarrow> applyUnpeerPayload K q; State_Monad.return (Inr ()) }
        else State_Monad.return (Inr ()))
     else if rr_Status req = ResultStatusFailed then do {
       _ \<leftarrow> advanceReservationPhase K (ri_ReservationID (ri_Spec q)) PhaseEmpty Failed
              (text_msg (case rr_Error req of Some e \<Rightarrow> ee_Message e | None \<Rightarrow> ''''));
       State_Monad.return (Inr ()) }
     else State_Monad.return (Inr ()))"

definition applyReservationResult :: "Time \<Rightarrow> 'w kube \<Rightarrow> ReservationInstruction \<Rightarrow> InstructionResultRequest \<Rightarrow>
    string \<Rightarrow> ('w, InstructionResultResponse response) state" where
  "applyReservationResult now K q req callerID =
    (if ri_TargetClusterID (ri_Spec q) \<noteq> callerID then
       State_Monad.return (writeError 403 Forbidden (text_msg ''instruction is not targeted at this cluster''))
     else if is_Enforced (ri_Status q) then State_Monad.return (writeJSON 200 \<lparr>irr_Accepted = True\<rparr>)
     else do {
       applied \<leftarrow> applyReservationOutcome K q req;
       (case applied of
          Inl _ \<Rightarrow> State_Monad.return (writeError 500 InternalError (text_msg ''peer result persistence failed''))
        | Inr _ \<Rightarrow> do {
            u \<leftarrow> markReservationInstructionEnforced now K q req;
            State_Monad.return (case u of
              Inl _ \<Rightarrow> writeError 500 InternalError (text_msg ''instruction status update failed'')
            | Inr _ \<Rightarrow> writeJSON 200 \<lparr>irr_Accepted = True\<rparr>) }) })"

definition handleInstructionResult :: "Time \<Rightarrow> 'w kube \<Rightarrow> string \<Rightarrow> string \<Rightarrow>
    message + InstructionResultRequest \<Rightarrow> ('w, InstructionResultResponse response) state" where
  "handleInstructionResult now K callerID iid body =
    (if iid = '''' then State_Monad.return (writeError 400 InvalidRequest (text_msg ''id is required''))
     else case body of
       Inl err \<Rightarrow> State_Monad.return (writeError 400 InvalidRequest err)
     | Inr req \<Rightarrow>
        (case validateInstructionResult req of
           Some err \<Rightarrow> State_Monad.return (writeError 400 InvalidRequest err)
         | None \<Rightarrow> do {
             p \<leftarrow> GetPI K iid;
             (case p of
                Inr p \<Rightarrow> applyProviderResult now K p req callerID
              | Inl e \<Rightarrow>
                  if e \<noteq> KNotFound then
                    State_Monad.return (writeError 500 InternalError (text_msg ''instruction read failed''))
                  else do {
                    q \<leftarrow> GetRI K iid;
                    (case q of
                       Inr q \<Rightarrow> applyReservationResult now K q req callerID
                     | Inl e \<Rightarrow> State_Monad.return
                         (if e = KNotFound
                          then writeError 404 NotFoundCode (Sprintf ''instruction %q not found'' [AStr iid])
                          else writeError 500 InternalError (text_msg ''instruction read failed''))) }) }))"

section \<open>What the helpers do\<close>

text \<open>The store in which the reservation \<open>n\<close> carries the status \<open>st\<close>.\<close>

definition with_resv_status :: "store \<Rightarrow> string \<Rightarrow> Reservation \<Rightarrow> ReservationStatus \<Rightarrow> nat \<Rightarrow> store" where
  "with_resv_status s n r st v = s((ResvKind, n) \<mapsto>
     KResv (r\<lparr>rs_Meta := (rs_Meta r)\<lparr>m_ResourceVersion := v\<rparr>, rs_Status := st\<rparr>))"

lemma with_resv_status_simps [simp]:
  "resv_at (with_resv_status s n r st v) m = (if m = n then
     Some (r\<lparr>rs_Meta := (rs_Meta r)\<lparr>m_ResourceVersion := v\<rparr>, rs_Status := st\<rparr>) else resv_at s m)"
  "adv_at (with_resv_status s n r st v) m = adv_at s m"
  "pi_at (with_resv_status s n r st v) m = pi_at s m"
  "ri_at (with_resv_status s n r st v) m = ri_at s m"
  "secret_at (with_resv_status s n r st v) m = secret_at s m"
  by (simp_all add: with_resv_status_def)

text \<open>
  A change of the store that leaves every advertisement alone and moves the phase of a stored
  reservation only along \<open>P\<close>.
\<close>

definition phase_change :: "(string \<Rightarrow> ReservationPhase \<Rightarrow> ReservationPhase \<Rightarrow> bool) \<Rightarrow> store \<Rightarrow> store \<Rightarrow> bool" where
  "phase_change P s s' \<longleftrightarrow> (\<forall>n. adv_at s' n = adv_at s n) \<and>
     (\<forall>n. rel_option (\<lambda>r r'. rs_Spec r' = rs_Spec r \<and>
        (rs_Phase (rs_Status r') = rs_Phase (rs_Status r) \<or> P n (rs_Phase (rs_Status r)) (rs_Phase (rs_Status r'))))
        (resv_at s n) (resv_at s' n))"

lemma phase_change_refl [simp]: "phase_change P s s"
  by (simp add: phase_change_def option.rel_refl)

lemma phase_change_other [simp]:
  "kd \<notin> {AdvKind, ResvKind} \<Longrightarrow> phase_change P s (s'((kd, n) := v)) \<longleftrightarrow> phase_change P s s'"
  by (simp add: phase_change_def)

lemma phase_change_resv:
  "resv_at s n = Some r \<Longrightarrow> rs_Phase st = rs_Phase (rs_Status r) \<or> P n (rs_Phase (rs_Status r)) (rs_Phase st) \<Longrightarrow>
   phase_change P s (with_resv_status s n r st v)"
  by (auto simp: phase_change_def option.rel_refl)

lemma phase_change_move:
  assumes "\<And>n. adv_at s1 n = adv_at s n" "\<And>n. resv_at s1 n = resv_at s n" "resv_at s1 m = Some r"
    and "P m (rs_Phase (rs_Status r)) (rs_Phase st)"
  shows "phase_change P s (with_resv_status s1 m r st v)"
  using assms by (auto simp: phase_change_def option.rel_refl)

text \<open>Two stores with the same advertisements and reservations.\<close>

lemma phase_change_same:
  "phase_change P s s' \<Longrightarrow> (\<And>n. adv_at s'' n = adv_at s' n) \<Longrightarrow> (\<And>n. resv_at s'' n = resv_at s' n) \<Longrightarrow>
   phase_change P s s''"
  by (simp add: phase_change_def)

text \<open>The phase moves a result may cause.\<close>

definition pi_effect :: "ProviderInstruction \<Rightarrow> InstructionResultRequest \<Rightarrow> string \<Rightarrow>
    ReservationPhase \<Rightarrow> ReservationPhase \<Rightarrow> bool" where
  "pi_effect p req n a b \<longleftrightarrow> n = pi_ReservationID (pi_Spec p) \<and> pi_Kind (pi_Spec p) = PIGenerateKubeconfig \<and>
     (rr_Status req = ResultStatusSucceeded \<and> a = GeneratingKubeconfig \<and> b = KubeconfigReady \<or>
      rr_Status req = ResultStatusFailed \<and> b = Failed)"

definition ri_effect :: "ReservationInstruction \<Rightarrow> InstructionResultRequest \<Rightarrow> string \<Rightarrow>
    ReservationPhase \<Rightarrow> ReservationPhase \<Rightarrow> bool" where
  "ri_effect q req n a b \<longleftrightarrow> n = ri_ReservationID (ri_Spec q) \<and>
     (rr_Status req = ResultStatusSucceeded \<and> ri_Kind (ri_Spec q) = RIPeer \<and> b = Peered \<or>
      rr_Status req = ResultStatusSucceeded \<and> ri_Kind (ri_Spec q) = RIUnpeer \<and> a = Unpeering \<and> b = Released \<or>
      rr_Status req = ResultStatusFailed \<and> b = Failed)"

context kube_api
begin

lemma wp_advanceReservationPhase:
  assumes "\<And>w' e. objs w' = objs w \<Longrightarrow> Q (Inl e) w'"
    and "\<And>w' r v. resv_at (objs w) n = Some r \<Longrightarrow> from = PhaseEmpty \<or> rs_Phase (rs_Status r) = from \<Longrightarrow>
      objs w' = with_resv_status (objs w) n r ((rs_Status r)\<lparr>rs_Phase := to, rs_Message := msg\<rparr>) v \<Longrightarrow>
      Q (Inr ()) w'"
  shows "wp (advanceReservationPhase K n from to msg) Q w"
  unfolding advanceReservationPhase_def getReservation_def wp_bind
proof (rule resv.wp_get, goal_cases)
  case (1 w1 e)
  then show ?case by (simp add: assms(1))
next
  case r: (2 w1 r)
  show ?case
  proof (cases "from \<noteq> PhaseEmpty \<and> rs_Phase (rs_Status r) \<noteq> from")
    case True
    with r show ?thesis by (simp add: assms(1))
  next
    case False
    then have skip: "(from \<noteq> PhaseEmpty \<and> rs_Phase (rs_Status r) \<noteq> from) = False" by simp
    show ?thesis
      unfolding sum.case skip if_False wp_bind
    proof (rule resv.wp_status, goal_cases)
      case (1 w2 e)
      then show ?case using r by (simp add: assms(1))
    next
      case (2 w2 x' cur v)
      then show ?case using r False assms(2) [of r w2 v] by (auto simp: with_resv_status_def)
    qed
  qed
qed

lemma wp_createOrUpdateSecret:
  assumes "\<And>s. sec_Meta (mutate s) = sec_Meta s"
    and "\<And>w' e. objs w' = objs w \<Longrightarrow> Q (Inl e) w'"
    and "\<And>w' v op. objs w' = (objs w)((SecretKind, m_Name (sec_Meta sec)) := v) \<Longrightarrow> Q (Inr op) w'"
  shows "wp (createOrUpdateSecret K sec mutate) Q w"
  unfolding createOrUpdateSecret_def wp_bind
proof (rule secret.wp_get, goal_cases)
  case (1 w1 e)
  show ?case
  proof (cases "e = KNotFound")
    case True
    show ?thesis
      unfolding True sum.case simp_thms if_True wp_bind wp_return
      by (rule secret.wp_create) (use 1 assms in auto)
  next
    case False
    with 1 show ?thesis by (simp add: assms(2))
  qed
next
  case (2 w1 existing)
  show ?case
    unfolding sum.case wp_bind wp_return
    by (rule secret.wp_update) (use 2 assms in auto)
qed

lemma wp_attachLoop:
  assumes "\<And>w' e. objs w' = objs w \<Longrightarrow> Q (Inl e) w'" "\<And>w'. objs w' = objs w \<Longrightarrow> Q (Inr ()) w'"
    and "\<And>w' n v. objs w' = (objs w)((RIKind, n) := v) \<Longrightarrow> Q (Inr ()) w'"
  shows "wp (attachLoop K n sn qs) Q w"
proof (induction qs)
  case Nil
  then show ?case by (simp add: assms(2))
next
  case (Cons q qs)
  have "wp (do { u \<leftarrow> UpdateRI K (q\<lparr>ri_Spec := (ri_Spec q)\<lparr>ri_KubeconfigRef := sn\<rparr>\<rparr>);
       State_Monad.return (case u of Inl e \<Rightarrow> Inl e | Inr _ \<Rightarrow> Inr ()) }) Q w"
    unfolding wp_bind wp_return by (rule ri.wp_update) (auto intro: assms)
  with Cons.IH show ?case by (simp add: assms(2))
qed

lemma wp_attachKubeconfigToPeer:
  assumes "\<And>r w'. objs w' = objs w \<Longrightarrow> Q r w'" and "\<And>r w' n v. objs w' = (objs w)((RIKind, n) := v) \<Longrightarrow> Q r w'"
  shows "wp (attachKubeconfigToPeer K n sn) Q w"
  unfolding attachKubeconfigToPeer_def wp_bind
proof (rule ri.wp_list, goal_cases)
  case (1 w1 e)
  then show ?case by (simp add: assms(1))
next
  case (2 w1 qs)
  then show ?case using assms by (auto intro: wp_attachLoop)
qed

text \<open>Staging the kubeconfig moves at most the reservation of the instruction, one phase on.\<close>

lemma persist_frame:
  "wp (persistKubeconfigPayload K p payload) (\<lambda>r w'. (\<forall>n. pi_at (objs w') n = pi_at (objs w) n) \<and>
     phase_change (\<lambda>n a b. n = pi_ReservationID (pi_Spec p) \<and> a = GeneratingKubeconfig \<and> b = KubeconfigReady)
       (objs w) (objs w')) w"
proof -
  let ?P = "\<lambda>n a b. n = pi_ReservationID (pi_Spec p) \<and> a = GeneratingKubeconfig \<and> b = KubeconfigReady"
  let ?Q = "\<lambda>r w'. (\<forall>n. pi_at (objs w') n = pi_at (objs w) n) \<and> phase_change ?P (objs w) (objs w')"
  have adv: "wp (do { _ \<leftarrow> advanceReservationPhase K (pi_ReservationID (pi_Spec p)) GeneratingKubeconfig
       KubeconfigReady (text_msg ''kubeconfig delivered''); State_Monad.return (Inr ()) }) ?Q w2"
    if "\<And>n. adv_at (objs w2) n = adv_at (objs w) n" "\<And>n. resv_at (objs w2) n = resv_at (objs w) n"
      "\<And>n. pi_at (objs w2) n = pi_at (objs w) n" for w2
    unfolding wp_bind wp_return
  proof (rule wp_advanceReservationPhase, goal_cases)
    case (1 w' e)
    then show ?case using that by (auto intro: phase_change_same [OF phase_change_refl])
  next
    case (2 w' r v)
    then have "phase_change ?P (objs w) (with_resv_status (objs w) (pi_ReservationID (pi_Spec p)) r
      ((rs_Status r)\<lparr>rs_Phase := KubeconfigReady, rs_Message := text_msg ''kubeconfig delivered''\<rparr>) v)"
      using that by (intro phase_change_resv) auto
    then show ?case using 2 that by (auto intro: phase_change_same)
  qed
  have "wp (do { op \<leftarrow> createOrUpdateSecret K (kubeconfigSecret p)
        (\<lambda>sec. sec\<lparr>sec_Data := AList.update kubeconfigSecretKey kc (sec_Data sec)\<rparr>);
      (case op of Inl e \<Rightarrow> State_Monad.return (Inl (Wrap ''upsert kubeconfig secret'' e))
       | Inr _ \<Rightarrow> do { _ \<leftarrow> attachKubeconfigToPeer K (pi_ReservationID (pi_Spec p)) sn;
          _ \<leftarrow> advanceReservationPhase K (pi_ReservationID (pi_Spec p)) GeneratingKubeconfig
             KubeconfigReady (text_msg ''kubeconfig delivered''); State_Monad.return (Inr ()) }) }) ?Q w" for kc sn
    unfolding wp_bind
  proof (rule wp_createOrUpdateSecret, goal_cases)
    case (3 w1 v op)
    show ?case
      unfolding sum.case wp_bind
      by (rule wp_attachKubeconfigToPeer; rule adv [unfolded wp_bind]) (simp_all add: 3)
  qed simp_all
  then show ?thesis
    unfolding persistKubeconfigPayload_def by (auto split: option.splits)
qed

lemma phase_change_mono:
  "phase_change P s s' \<Longrightarrow> (\<And>n a b. P n a b \<Longrightarrow> P' n a b) \<Longrightarrow> phase_change P' s s'"
  unfolding phase_change_def by (auto intro: option.rel_mono_strong)

lemma wp_enforceProviderResult:
  assumes change: "phase_change (pi_effect p req) s0 (objs w)"
    and clean: "rr_Status req = ResultStatusFailed \<Longrightarrow> objs w = s0"
  shows "wp (enforceProviderResult now K p req) (\<lambda>resp w'. phase_change (pi_effect p req) s0 (objs w') \<and>
    (\<forall>b. resp = writeJSON 200 b \<longrightarrow>
       (\<exists>p'. pi_at (objs w') (m_Name (pi_Meta p)) = Some p' \<and> is_Enforced (pi_Status p')))) w"
  unfolding enforceProviderResult_def markProviderInstructionEnforced_def wp_bind
proof (rule pi.wp_status, goal_cases)
  case (1 w2 e)
  then show ?case using change by simp
next
  case (2 w2 x' cur v)
  have enf: "\<exists>p'. pi_at (objs w2) (m_Name (pi_Meta p)) = Some p' \<and> is_Enforced (pi_Status p')"
    using 2 by (simp add: enforcedStatus_def)
  show ?case
  proof (cases "rr_Status req = ResultStatusFailed \<and> pi_Kind (pi_Spec p) = PIGenerateKubeconfig")
    case False
    then show ?thesis using 2 change enf by auto
  next
    case True
    have same: "\<And>n. resv_at (objs w2) n = resv_at s0 n" "\<And>n. adv_at (objs w2) n = adv_at s0 n"
      using 2 clean True by simp_all
    show ?thesis
      unfolding sum.case wp_bind wp_return if_P [OF True]
    proof (rule wp_advanceReservationPhase, goal_cases)
      case (1 w3 e)
      then show ?case using enf same by (auto intro: phase_change_same [OF phase_change_refl])
    next
      case (2 w3 r v')
      have "phase_change (pi_effect p req) s0 (objs w3)"
        unfolding 2(3) using 2 same True by (intro phase_change_move) (auto simp: pi_effect_def)
      then show ?case using 2 enf by simp
    qed
  qed
qed

lemma wp_applyProviderResult:
  assumes p: "pi_at (objs w) (m_Name (pi_Meta p)) = Some p"
  shows "wp (applyProviderResult now K p req callerID) (\<lambda>resp w'.
    (pi_TargetClusterID (pi_Spec p) \<noteq> callerID \<or> is_Enforced (pi_Status p) \<longrightarrow> objs w' = objs w) \<and>
    phase_change (pi_effect p req) (objs w) (objs w') \<and>
    (\<forall>b. resp = writeJSON 200 b \<longrightarrow> pi_TargetClusterID (pi_Spec p) = callerID \<and>
       (\<exists>p'. pi_at (objs w') (m_Name (pi_Meta p)) = Some p' \<and> is_Enforced (pi_Status p')))) w"
proof (cases "pi_TargetClusterID (pi_Spec p) = callerID \<and> \<not> is_Enforced (pi_Status p)")
  case False
  with p show ?thesis by (auto simp: applyProviderResult_def)
next
  case go: True
  show ?thesis
  proof (cases "rr_Status req = ResultStatusSucceeded \<and> pi_Kind (pi_Spec p) = PIGenerateKubeconfig")
    case False
    have "wp (enforceProviderResult now K p req) (\<lambda>resp w'. phase_change (pi_effect p req) (objs w) (objs w') \<and>
      (\<forall>b. resp = writeJSON 200 b \<longrightarrow>
        (\<exists>p'. pi_at (objs w') (m_Name (pi_Meta p)) = Some p' \<and> is_Enforced (pi_Status p')))) w"
      by (rule wp_enforceProviderResult) simp_all
    with go False show ?thesis by (auto simp: applyProviderResult_def elim: wp_mono)
  next
    case True
    have pers: "wp (persistKubeconfigPayload K p (rr_Payload req)) (\<lambda>r w1.
        phase_change (pi_effect p req) (objs w) (objs w1)) w"
      by (rule wp_mono [OF persist_frame], elim conjE phase_change_mono)
        (use True in \<open>auto simp: pi_effect_def\<close>)
    show ?thesis
      unfolding applyProviderResult_def using go True
      by (auto intro!: wp_mono [OF pers] wp_mono [OF wp_enforceProviderResult] split: sum.splits)
  qed
qed

lemma wp_applyPeerPayload:
  assumes "rr_Status req = ResultStatusSucceeded" "ri_Kind (ri_Spec q) = RIPeer"
  shows "wp (applyPeerPayload K q payload) (\<lambda>r w'. phase_change (ri_effect q req) (objs w) (objs w')) w"
  unfolding applyPeerPayload_def getReservation_def wp_bind
proof (rule resv.wp_get, goal_cases)
  case r: (2 w1 r)
  show ?case
    unfolding sum.case wp_bind
  proof (rule resv.wp_status, goal_cases)
    case (2 w2 x' cur v)
    define st where "st = (rs_Status cur)\<lparr>rs_VirtualNodeNames := (case payload of
        None \<Rightarrow> rs_VirtualNodeNames (rs_Status cur)
      | Some pl \<Rightarrow> mergeStrings (rs_VirtualNodeNames (rs_Status cur)) (rp_VirtualNodeNames pl)),
      rs_Phase := Peered, rs_Message := text_msg ''peering completed''\<rparr>"
    have "objs w2 = with_resv_status (objs w) (ri_ReservationID (ri_Spec q)) cur st v"
      using 2 r by (auto simp: with_resv_status_def st_def)
    moreover have "phase_change (ri_effect q req) (objs w) \<dots>"
      using 2 r assms by (intro phase_change_move) (auto simp: ri_effect_def st_def)
    ultimately show ?case by simp
  qed (simp add: r)
qed simp

lemma wp_applyReservationOutcome:
  "wp (applyReservationOutcome K q req) (\<lambda>r w'. phase_change (ri_effect q req) (objs w) (objs w')) w"
proof -
  have move: "wp (advanceReservationPhase K (ri_ReservationID (ri_Spec q)) old new m)
      (\<lambda>r w'. phase_change (ri_effect q req) (objs w) (objs w')) w"
    if "\<And>a. old = PhaseEmpty \<or> a = old \<Longrightarrow> ri_effect q req (ri_ReservationID (ri_Spec q)) a new" for old new m
    by (rule wp_advanceReservationPhase) (auto intro!: phase_change_resv that)
  show ?thesis
    unfolding applyReservationOutcome_def applyUnpeerPayload_def
    by (auto intro!: wp_applyPeerPayload wp_mono [OF move] simp: ri_effect_def)
qed

lemma wp_applyReservationResult:
  assumes q: "ri_at (objs w) (m_Name (ri_Meta q)) = Some q"
  shows "wp (applyReservationResult now K q req callerID) (\<lambda>resp w'.
    (ri_TargetClusterID (ri_Spec q) \<noteq> callerID \<or> is_Enforced (ri_Status q) \<longrightarrow> objs w' = objs w) \<and>
    phase_change (ri_effect q req) (objs w) (objs w') \<and>
    (\<forall>b. resp = writeJSON 200 b \<longrightarrow> ri_TargetClusterID (ri_Spec q) = callerID \<and>
       (\<exists>q'. ri_at (objs w') (m_Name (ri_Meta q)) = Some q' \<and> is_Enforced (ri_Status q')))) w"
proof (cases "ri_TargetClusterID (ri_Spec q) = callerID \<and> \<not> is_Enforced (ri_Status q)")
  case False
  with q show ?thesis by (auto simp: applyReservationResult_def)
next
  case go: True
  have mark: "wp (markReservationInstructionEnforced now K q req) (\<lambda>u w'.
      phase_change (ri_effect q req) (objs w) (objs w') \<and> (\<forall>x. u = Inr x \<longrightarrow>
        (\<exists>q'. ri_at (objs w') (m_Name (ri_Meta q)) = Some q' \<and> is_Enforced (ri_Status q')))) w1"
    if "phase_change (ri_effect q req) (objs w) (objs w1)" for w1
    unfolding markReservationInstructionEnforced_def
    by (rule ri.wp_status) (use that in \<open>auto simp: enforcedStatus_def\<close>)
  show ?thesis
    unfolding applyReservationResult_def using go
    by (auto intro!: wp_mono [OF wp_applyReservationOutcome] wp_mono [OF mark] split: sum.splits)
qed

end

section \<open>Results: authorisation, enforcement and phases\<close>

lemma validated_error:
  "validateInstructionResult req = None \<Longrightarrow> rr_Status req = ResultStatusFailed \<Longrightarrow>
   \<exists>e. rr_Error req = Some e \<and> ee_Message e \<noteq> ''''"
  by (auto simp: validateInstructionResult_def split: if_splits option.splits)

text \<open>The instruction that a result for \<open>i\<close> is about: a ProviderInstruction first.\<close>

definition addressed :: "store \<Rightarrow> string \<Rightarrow> string \<Rightarrow> bool" where
  "addressed s i caller = (case pi_at s i of
     Some p \<Rightarrow> pi_TargetClusterID (pi_Spec p) = caller \<and> \<not> is_Enforced (pi_Status p)
   | None \<Rightarrow> (case ri_at s i of
       Some q \<Rightarrow> ri_TargetClusterID (ri_Spec q) = caller \<and> \<not> is_Enforced (ri_Status q)
     | None \<Rightarrow> False))"

definition enforced :: "store \<Rightarrow> string \<Rightarrow> bool" where
  "enforced s i \<longleftrightarrow> (\<exists>p. pi_at s i = Some p \<and> is_Enforced (pi_Status p)) \<or>
     (\<exists>q. ri_at s i = Some q \<and> is_Enforced (ri_Status q))"

definition result_effect :: "store \<Rightarrow> string \<Rightarrow> InstructionResultRequest \<Rightarrow> string \<Rightarrow>
    ReservationPhase \<Rightarrow> ReservationPhase \<Rightarrow> bool" where
  "result_effect s i req n a b = (case pi_at s i of
     Some p \<Rightarrow> pi_effect p req n a b
   | None \<Rightarrow> (case ri_at s i of Some q \<Rightarrow> ri_effect q req n a b | None \<Rightarrow> False))"

context kube_api
begin

lemma wp_handleInstructionResult:
  "wp (handleInstructionResult now K caller i (Inr req)) (\<lambda>resp w'.
     (\<not> addressed (objs w) i caller \<longrightarrow> objs w' = objs w) \<and>
     phase_change (result_effect (objs w) i req) (objs w) (objs w') \<and>
     (\<forall>b. resp = writeJSON 200 b \<longrightarrow> enforced (objs w') i)) w" (is "wp _ ?Q w")
proof (cases "i = '''' \<or> validateInstructionResult req \<noteq> None")
  case True
  then show ?thesis by (auto simp: handleInstructionResult_def)
next
  case False
  have "wp (GetPI K i) (\<lambda>r. wp (case r of
      Inr p \<Rightarrow> applyProviderResult now K p req caller
    | Inl e \<Rightarrow> if e \<noteq> KNotFound then State_Monad.return (writeError 500 InternalError (text_msg ''instruction read failed''))
        else do { q \<leftarrow> GetRI K i; (case q of
            Inr q \<Rightarrow> applyReservationResult now K q req caller
          | Inl e \<Rightarrow> State_Monad.return (if e = KNotFound
               then writeError 404 NotFoundCode (Sprintf ''instruction %q not found'' [AStr i])
               else writeError 500 InternalError (text_msg ''instruction read failed''))) }) ?Q) w"
  proof (rule pi.wp_get, goal_cases)
    case (1 w1 e)
    have "wp (GetRI K i) (\<lambda>r. wp (case r of
            Inr q \<Rightarrow> applyReservationResult now K q req caller
          | Inl e \<Rightarrow> State_Monad.return (if e = KNotFound
               then writeError 404 NotFoundCode (Sprintf ''instruction %q not found'' [AStr i])
               else writeError 500 InternalError (text_msg ''instruction read failed''))) ?Q) w1"
      if "pi_at (objs w) i = None"
    proof (rule ri.wp_get, goal_cases)
      case (2 w2 q)
      then show ?case using 1 that
        by (auto intro!: wp_mono [OF wp_applyReservationResult]
            simp: addressed_def result_effect_def [abs_def] enforced_def)
    qed (use 1 in auto)
    then show ?case using 1 by auto
  next
    case (2 w1 p)
    then show ?case
      by (auto intro!: wp_mono [OF wp_applyProviderResult]
          simp: addressed_def result_effect_def [abs_def] enforced_def)
  qed
  with False show ?thesis by (simp add: handleInstructionResult_def)
qed

end

text \<open>
  C32. Instruction results. Only the cluster an open instruction is addressed to can change
  anything by posting its result: for any other caller, an unknown instruction or one already
  enforced, the store stays as it is. An accepted result leaves the instruction enforced.
\<close>

theorem instruction_result_authorised:
  assumes "kube_api K objs"
    and "run_state (handleInstructionResult now K caller i body) w = (resp, w')"
  shows "(\<not> addressed (objs w) i caller \<longrightarrow> objs w' = objs w) \<and>
    (\<forall>b. resp = writeJSON 200 b \<longrightarrow> enforced (objs w') i)"
proof (cases body)
  case (Inl err)
  with assms(2) show ?thesis by (auto simp: handleInstructionResult_def split: if_splits)
next
  case (Inr req)
  from wp_run [OF kube_api.wp_handleInstructionResult [OF assms(1)] assms(2) [unfolded Inr]]
  show ?thesis by simp
qed


abbreviation succeeded :: InstructionResultRequest where
  "succeeded \<equiv> \<lparr>rr_Status = ResultStatusSucceeded, rr_Payload = None, rr_Error = None\<rparr>"

abbreviation releasedWorld :: memstore where
  "releasedWorld \<equiv> exampleWorld [KResv (exampleResv ''r'' ''c'' ''p'' Released),
     KRI (exampleRI ''peer-r'' RIPeer ''c'' ''p'' ''r'')]"

theorem instruction_result_authorised_witness:
  "mem_lookup (snd (run_state (handleInstructionResult 0 memK ''x'' ''peer-r'' (Inr succeeded)) releasedWorld)) =
     mem_lookup releasedWorld"
proof -
  have "\<not> addressed (mem_lookup releasedWorld) ''peer-r'' ''x''" by code_simp
  then show ?thesis
    using instruction_result_authorised [OF mem.kube_api_axioms surjective_pairing] by blast
qed


text \<open>
  A late peering result revives a finished reservation. \<^verbatim>\<open>applyPeerPayload\<close> does not look at the
  phase it overwrites: when the consumer reports a completed peering for a reservation that is
  already Released, the reservation is Peered again.
\<close>

theorem late_peer_result_revives:
  "map_option (rs_Phase \<circ> rs_Status) (resv_at (mem_lookup
     (snd (run_state (handleInstructionResult 0 memK ''c'' ''peer-r'' (Inr succeeded)) releasedWorld))) ''r'') =
   Some Peered"
  by code_simp

section \<open>Polling\<close>

definition open_pi :: "string \<Rightarrow> ProviderInstruction \<Rightarrow> bool" where
  "open_pi caller p \<longleftrightarrow> pi_TargetClusterID (pi_Spec p) = caller \<and> \<not> is_Enforced (pi_Status p)"

definition open_ri :: "string \<Rightarrow> ReservationInstruction \<Rightarrow> bool" where
  "open_ri caller q \<longleftrightarrow> ri_TargetClusterID (ri_Spec q) = caller \<and> \<not> is_Enforced (ri_Status q)"

text \<open>Polling may only refresh the delivery time of instructions.\<close>

definition polled :: "store \<Rightarrow> store \<Rightarrow> bool" where
  "polled s s' \<longleftrightarrow> (\<forall>n. adv_at s' n = adv_at s n) \<and> (\<forall>n. resv_at s' n = resv_at s n) \<and>
     (\<forall>n. secret_at s' n = secret_at s n)"

lemma polled_refl [simp]: "polled s s"
  by (simp add: polled_def)

lemma polled_upd [simp]: "kd \<in> {PIKind, RIKind} \<Longrightarrow> polled s (s'((kd, n) := v)) \<longleftrightarrow> polled s s'"
  by (auto simp: polled_def)

definition needs_kubeconfig :: "ReservationInstruction \<Rightarrow> bool" where
  "needs_kubeconfig q \<longleftrightarrow> ri_Kind (ri_Spec q) = RIPeer \<and> ri_KubeconfigRef (ri_Spec q) \<noteq> ''''"

text \<open>What the caller is told about a ReservationInstruction.\<close>

definition ri_view_ok :: "store \<Rightarrow> ReservationInstruction \<Rightarrow> InstructionView \<Rightarrow> bool" where
  "ri_view_ok s q v \<longleftrightarrow> iv_ID v = m_Name (ri_Meta q) \<and> iv_Kind v = ri_kind_string (ri_Kind (ri_Spec q)) \<and>
     iv_ReservationID v = ri_ReservationID (ri_Spec q) \<and> iv_LastChunk v = ri_LastChunk (ri_Spec q) \<and>
     iv_ProviderClusterID v = ri_ProviderClusterID (ri_Spec q) \<and>
     (if needs_kubeconfig q then iv_Kubeconfig v \<noteq> '''' \<and> (\<exists>sec. secret_at s (ri_KubeconfigRef (ri_Spec q)) = Some sec \<and>
        map_of (sec_Data sec) kubeconfigSecretKey = Some (iv_Kubeconfig v))
      else iv_Kubeconfig v = '''')"

context kube_api
begin

lemma wp_collectProvider:
  assumes "polled s (objs w)" "\<And>n. ri_at (objs w) n = ri_at s n"
  shows "wp (collectProvider now K caller ps) (\<lambda>vs w'. vs = map viewFromProviderInstruction (filter (open_pi caller) ps) \<and>
    polled s (objs w') \<and> (\<forall>n. ri_at (objs w') n = ri_at s n)) w"
  using assms
proof (induction ps arbitrary: w)
  case (Cons p ps)
  have touch: "wp (touchProviderDelivered now K p) (\<lambda>_ w1. polled s (objs w1) \<and> (\<forall>n. ri_at (objs w1) n = ri_at s n)) w"
    unfolding touchProviderDelivered_def
    by (auto intro!: pi.wp_status simp: Cons.prems)
  show ?case
  proof (cases "open_pi caller p")
    case False
    then show ?thesis using Cons by (auto simp: open_pi_def)
  next
    case True
    then have skip: "(pi_TargetClusterID (pi_Spec p) \<noteq> caller \<or> is_Enforced (pi_Status p)) = False"
      by (simp add: open_pi_def)
    show ?thesis
      unfolding collectProvider.simps skip if_False wp_bind wp_return
      by (rule wp_mono [OF touch], rule wp_mono [OF Cons.IH]) (auto simp: True)
  qed
qed simp

lemma wp_inlineKubeconfig:
  assumes "polled s (objs w)"
  shows "wp (inlineKubeconfig K q (viewFromReservationInstruction q)) (\<lambda>r w'. objs w' = objs w \<and>
    (r = None \<longrightarrow> needs_kubeconfig q) \<and> (\<forall>v. r = Some v \<longrightarrow> ri_view_ok s q v)) w"
proof (cases "needs_kubeconfig q")
  case True
  have "wp (loadKubeconfig K (ri_KubeconfigRef (ri_Spec q))) (\<lambda>r w'. objs w' = objs w \<and> (\<forall>b. r = Inr b \<longrightarrow> b \<noteq> '''' \<and>
      (\<exists>sec. secret_at s (ri_KubeconfigRef (ri_Spec q)) = Some sec \<and> map_of (sec_Data sec) kubeconfigSecretKey = Some b))) w"
    unfolding loadKubeconfig_def wp_bind wp_return
    by (rule secret.wp_get) (use assms in \<open>auto simp: polled_def split: option.splits if_splits\<close>)
  with True show ?thesis
    by (auto simp: inlineKubeconfig_def needs_kubeconfig_def ri_view_ok_def viewFromReservationInstruction_def
        elim!: wp_mono split: sum.splits)
qed (auto simp: inlineKubeconfig_def needs_kubeconfig_def ri_view_ok_def viewFromReservationInstruction_def)

lemma wp_decorate:
  "ri_view_ok s q view \<Longrightarrow> wp (decorate K q view) (\<lambda>v w'. objs w' = objs w \<and> ri_view_ok s q v) w"
  unfolding decorate_def getReservation_def by (auto intro!: resv.wp_get simp: ri_view_ok_def)

lemma wp_collectReservation:
  assumes "polled s (objs w)"
  shows "wp (collectReservation now K caller qs) (\<lambda>vs w'. polled s (objs w') \<and>
    (\<forall>v\<in>set vs. \<exists>q\<in>set qs. open_ri caller q \<and> ri_view_ok s q v) \<and>
    (\<forall>q\<in>set qs. open_ri caller q \<and> \<not> needs_kubeconfig q \<longrightarrow> (\<exists>v\<in>set vs. ri_view_ok s q v))) w"
  using assms
proof (induction qs arbitrary: w)
  case (Cons q qs)
  have touch: "wp (touchReservationDelivered now K q) (\<lambda>_ w1. polled s (objs w1)) w0" if "polled s (objs w0)" for w0
    unfolding touchReservationDelivered_def by (auto intro!: ri.wp_status simp: that)
  show ?case
  proof (cases "open_ri caller q")
    case False
    with Cons show ?thesis by (auto simp: open_ri_def elim!: wp_mono)
  next
    case True
    then have skip: "(ri_TargetClusterID (ri_Spec q) \<noteq> caller \<or> is_Enforced (ri_Status q)) = False"
      by (simp add: open_ri_def)
    show ?thesis
      unfolding collectReservation.simps skip if_False wp_bind
    proof (rule wp_mono [OF wp_inlineKubeconfig [OF Cons.prems]], goal_cases)
      case (1 r w1)
      show ?case
      proof (cases r)
        case None
        show ?thesis
          unfolding None option.case by (rule wp_mono [OF Cons.IH]) (use 1 None Cons.prems in auto)
      next
        case (Some view)
        with 1 have "ri_view_ok s q view" by simp
        from wp_decorate [OF this] show ?thesis
          unfolding Some option.case wp_bind
        proof (rule wp_mono, goal_cases)
          case (1 v w2)
          have "polled s (objs w2)" using 1 \<open>objs w1 = objs w \<and> _\<close> Cons.prems by simp
          from touch [OF this] show ?case
            by (rule wp_mono) (use 1 True in \<open>auto intro!: wp_mono [OF Cons.IH]\<close>)
        qed
      qed
    qed
  qed
qed simp

lemma wp_collectInstructions:
  "wp (collectInstructionsForCaller now K caller) (\<lambda>r w'. polled (objs w) (objs w') \<and>
     (\<forall>vs. r = Inr vs \<longrightarrow>
       (\<forall>v\<in>set vs. (\<exists>p. pi_at (objs w) (iv_ID v) = Some p \<and> open_pi caller p \<and> v = viewFromProviderInstruction p) \<or>
          (\<exists>q. ri_at (objs w) (iv_ID v) = Some q \<and> open_ri caller q \<and> ri_view_ok (objs w) q v)) \<and>
       (\<forall>n p. pi_at (objs w) n = Some p \<and> open_pi caller p \<longrightarrow> viewFromProviderInstruction p \<in> set vs) \<and>
       (\<forall>n q. ri_at (objs w) n = Some q \<and> open_ri caller q \<and> \<not> needs_kubeconfig q \<longrightarrow>
          (\<exists>v\<in>set vs. ri_view_ok (objs w) q v)))) w"
  unfolding collectInstructionsForCaller_def wp_bind
proof (rule pi.wp_list, goal_cases)
  case (2 w1 ps)
  have ps: "p \<in> set ps" if "pi_at (objs w) n = Some p" for n p
    using 2(3) that by (metis pi.look_name)
  show ?case
    unfolding sum.case wp_bind
  proof (rule wp_mono [OF wp_collectProvider [of "objs w"]], goal_cases)
    case (3 pvs w2)
    show ?case
    proof (rule ri.wp_list, goal_cases)
      case (1 w3 e)
      then show ?case using 3 by simp
    next
      case qs: (2 w3 qs)
      have mem: "q \<in> set qs" if "ri_at (objs w) n = Some q" for n q
        using qs(3) 3 that by (metis ri.look_name)
      have "wp (collectReservation now K caller qs) (\<lambda>vs w'. polled (objs w) (objs w') \<and>
        (\<forall>v\<in>set vs. \<exists>q\<in>set qs. open_ri caller q \<and> ri_view_ok (objs w) q v) \<and>
        (\<forall>q\<in>set qs. open_ri caller q \<and> \<not> needs_kubeconfig q \<longrightarrow> (\<exists>v\<in>set vs. ri_view_ok (objs w) q v))) w3"
        by (rule wp_collectReservation) (use qs 3 in simp)
      then show ?case
        unfolding sum.case wp_bind wp_return
      proof (rule wp_mono, goal_cases)
        case (1 rvs w4)
        have "(\<exists>q. ri_at (objs w) (iv_ID v) = Some q \<and> open_ri caller q \<and> ri_view_ok (objs w) q v)"
          if "v \<in> set rvs" for v
        proof -
          from 1 that obtain q where "q \<in> set qs" "open_ri caller q" "ri_view_ok (objs w) q v" by blast
          moreover from this have "ri_at (objs w) (iv_ID v) = Some q"
            using qs(3) [of q] 3 by (simp add: ri_view_ok_def)
          ultimately show ?thesis by blast
        qed
        moreover have "pi_at (objs w) (iv_ID v) = Some p \<and> open_pi caller p"
          if "v = viewFromProviderInstruction p" "p \<in> set ps" "open_pi caller p" for v p
          using that 2(3) [of p] by (simp add: viewFromProviderInstruction_def)
        ultimately show ?case using 1 3 ps mem by fastforce
      qed
    qed
  qed (use 2 in simp_all)
qed simp

end

text \<open>
  Polling. The list an agent is served holds only instructions that are stored, addressed to
  it and not yet enforced, and a Peer instruction carries the kubeconfig staged for it. It holds
  every open ProviderInstruction addressed to the caller and every open ReservationInstruction
  that needs no kubeconfig. Polling writes nothing but instruction statuses.
\<close>

theorem poll_delivers_own_open_instructions:
  assumes "kube_api K objs"
    and "run_state (handleInstructionsList now K caller) w = (resp, w')"
  shows "polled (objs w) (objs w') \<and> (\<forall>b. resp = writeJSON 200 b \<longrightarrow>
     (\<forall>v\<in>set (ir_Instructions b).
        (\<exists>p. pi_at (objs w) (iv_ID v) = Some p \<and> open_pi caller p \<and> v = viewFromProviderInstruction p) \<or>
        (\<exists>q. ri_at (objs w) (iv_ID v) = Some q \<and> open_ri caller q \<and> ri_view_ok (objs w) q v)) \<and>
     (\<forall>n p. pi_at (objs w) n = Some p \<and> open_pi caller p \<longrightarrow> viewFromProviderInstruction p \<in> set (ir_Instructions b)) \<and>
     (\<forall>n q. ri_at (objs w) n = Some q \<and> open_ri caller q \<and> \<not> needs_kubeconfig q \<longrightarrow>
        (\<exists>v\<in>set (ir_Instructions b). ri_view_ok (objs w) q v)))"
proof -
  obtain r where r: "run_state (collectInstructionsForCaller now K caller) w = (r, w')"
    and resp: "resp = (case r of Inl _ \<Rightarrow> writeError 500 InternalError (text_msg ''instruction read failed'')
      | Inr views \<Rightarrow> writeJSON 200 \<lparr>ir_Instructions = views\<rparr>)"
    using assms(2) by (auto simp: handleInstructionsList_def split: prod.splits)
  from wp_run [OF kube_api.wp_collectInstructions [OF assms(1)] r] show ?thesis
    unfolding resp by (cases r) auto
qed

theorem poll_delivers_own_open_instructions_witness:
  "polled (mem_lookup releasedWorld) (mem_lookup (snd (run_state (handleInstructionsList 0 memK ''c'') releasedWorld)))"
  using poll_delivers_own_open_instructions [OF mem.kube_api_axioms surjective_pairing] by blast

section \<open>Merging virtual-node names\<close>

lemma appendNew_spec:
  "set (appendNew out xs) = set out \<union> set xs" "distinct out \<Longrightarrow> distinct (appendNew out xs)"
  "\<exists>ys. appendNew out xs = out @ ys"
proof -
  show "set (appendNew out xs) = set out \<union> set xs"
    unfolding appendNew_def by (induction xs arbitrary: out) auto
  show "distinct out \<Longrightarrow> distinct (appendNew out xs)"
    unfolding appendNew_def by (induction xs arbitrary: out) auto
  show "\<exists>ys. appendNew out xs = out @ ys"
    unfolding appendNew_def by (induction xs arbitrary: out) (auto, metis append.assoc)
qed

lemma appendNew_id: "set xs \<subseteq> set out \<Longrightarrow> appendNew out xs = out"
  unfolding appendNew_def by (induction xs arbitrary: out) auto

lemma appendNew_distinct: "distinct (out @ xs) \<Longrightarrow> appendNew out xs = out @ xs"
  unfolding appendNew_def by (induction xs arbitrary: out) auto

text \<open>
  Merging the reported virtual-node names into the reservation loses none, keeps the known
  ones first in their order and adds no duplicate, and applying the same report again changes
  nothing.
\<close>

theorem mergeStrings_spec:
  assumes "distinct existing"
  shows "set (mergeStrings existing fresh) = set existing \<union> set fresh \<and>
    distinct (mergeStrings existing fresh) \<and>
    take (length existing) (mergeStrings existing fresh) = existing \<and>
    mergeStrings (mergeStrings existing fresh) fresh = mergeStrings existing fresh"
proof (cases "fresh = []")
  case False
  have e: "appendNew [] existing = existing" using assms by (simp add: appendNew_distinct)
  obtain ys where ys: "appendNew existing fresh = existing @ ys" using appendNew_spec(3) by blast
  have d: "distinct (appendNew existing fresh)" using assms by (rule appendNew_spec(2))
  then have "appendNew [] (appendNew existing fresh) = appendNew existing fresh"
    by (simp add: appendNew_distinct)
  moreover have "appendNew (appendNew existing fresh) fresh = appendNew existing fresh"
    by (rule appendNew_id) (simp add: appendNew_spec)
  moreover have "set (appendNew existing fresh) = set existing \<union> set fresh" by (rule appendNew_spec(1))
  ultimately show ?thesis using False e d ys by (simp add: mergeStrings_def)
qed (use assms in \<open>simp add: mergeStrings_def\<close>)

theorem mergeStrings_spec_witness:
  "mergeStrings (mergeStrings [''a'', ''b''] [''b'', ''c'']) [''b'', ''c''] = mergeStrings [''a'', ''b''] [''b'', ''c'']"
  using mergeStrings_spec [of "[''a'', ''b'']" "[''b'', ''c'']"] by simp

end
