(* ===== verification/Advertisement.thy ===== *)
theory Advertisement
  imports Pricing Instructions
begin

text \<open>
  \<^verbatim>\<open>internal/broker/api/advertisement.go\<close>, the intake of provider advertisements, and
  \<^verbatim>\<open>internal/controller/broker/clusteradvertisement_controller.go\<close>, which withdraws providers that
  stopped advertising. Both write the status that carries the chunk ledger; the theorems say
  that neither moves the reserved counter.
\<close>

section \<open>Wire types\<close>

record AdvertisementResponse =
  av_Accepted :: bool
  av_ChunkCount :: int
  av_ChunkResources :: ResourceList
  av_NextReportIn :: string
  av_Instructions :: "InstructionView list"

record AdvertisementSnapshot =
  as_ClusterID :: string
  as_LiqoClusterID :: string
  as_Resources :: ResourceList
  as_Topology :: "Topology option"
  as_UnitPrices :: ResourceList
  as_CostPerChunk :: "real option"
  as_CarbonIntensity :: "real option"
  as_CarbonForecast :: "real list"
  as_CarbonWeighted :: "real option"
  as_CapacityScalePercent :: "(string \<times> int) list"
  as_CapacityFixed :: ResourceList
  as_Renewable :: bool
  as_ProbeEndpoint :: string
  as_ChunkCount :: int
  as_ReservedChunks :: int
  as_AvailableChunks :: int
  as_LastSeen :: Time
  as_Available :: bool

section \<open>Intake\<close>

abbreviation advertisementReportInterval :: string where "advertisementReportInterval \<equiv> ''30s''"

definition validateAdvertisementRequest :: "AdvertisementRequest \<Rightarrow> message option" where
  "validateAdvertisementRequest req =
    (if ar_ClusterID req = '''' then Some (text_msg ''clusterId is required'')
     else if ar_LiqoClusterID req = '''' then Some (text_msg ''liqoClusterId is required'')
     else if ar_Resources req = [] then Some (text_msg ''resources must not be empty'')
     else (case ar_CarbonIntensity req of
         Some c \<Rightarrow> if c < 0 then Some (text_msg ''carbonIntensity must be non-negative'') else None
       | None \<Rightarrow> None))"

definition specFromRequest :: "AdvertisementRequest \<Rightarrow> Result \<Rightarrow> ClusterAdvertisementSpec" where
  "specFromRequest req chunkResult =
    \<lparr>ca_ClusterID = ar_ClusterID req, ca_LiqoClusterID = ar_LiqoClusterID req,
     ca_ClusterType = r_Type chunkResult, ca_Allocatable = ar_Resources req,
     ca_Topology = ar_Topology req, ca_UnitPrices = ar_UnitPrices req,
     ca_CarbonIntensity = ar_CarbonIntensity req, ca_CarbonForecast = ar_CarbonForecast req,
     ca_CapacityScalePercent = ar_CapacityScalePercent req, ca_CapacityFixed = ar_CapacityFixed req,
     ca_Renewable = ar_Renewable req, ca_ProbeEndpoint = ar_ProbeEndpoint req\<rparr>"

text \<open>The object passed to \<^verbatim>\<open>CreateOrUpdate\<close>: a name and zero values.\<close>

definition blankAdvertisement :: "string \<Rightarrow> ClusterAdvertisement" where
  "blankAdvertisement n = \<lparr>ca_Meta = named_meta n,
     ca_Spec = \<lparr>ca_ClusterID = '''', ca_LiqoClusterID = '''', ca_ClusterType = '''', ca_Allocatable = [],
       ca_Topology = None, ca_UnitPrices = [], ca_CarbonIntensity = None, ca_CarbonForecast = [],
       ca_CapacityScalePercent = [], ca_CapacityFixed = [], ca_Renewable = False, ca_ProbeEndpoint = ''''\<rparr>,
     ca_Status = zero_ClusterAdvertisementStatus\<rparr>"

definition upsertClusterAdvertisement :: "'w kube \<Rightarrow> AdvertisementRequest \<Rightarrow> Result \<Rightarrow>
    ('w, gerr + ClusterAdvertisement) state" where
  "upsertClusterAdvertisement K req chunkResult = do {
     r \<leftarrow> CreateOrUpdateAdv K (blankAdvertisement (ar_ClusterID req))
            (\<lambda>cadv. cadv\<lparr>ca_Spec := specFromRequest req chunkResult\<rparr>);
     State_Monad.return (case r of
       Inl e \<Rightarrow> Inl (Wrap ''createOrUpdate'' (KubeErr e)) | Inr cadv \<Rightarrow> Inr cadv) }"

definition touchedStatus :: "Time \<Rightarrow> ClusterAdvertisement \<Rightarrow> Result \<Rightarrow> ClusterAdvertisementStatus" where
  "touchedStatus now cadv chunkResult = (ca_Status cadv)
    \<lparr>ca_ObservedGeneration := m_Generation (ca_Meta cadv), ca_LastSeen := Some now, ca_Available := True,
     ca_TotalChunks := r_Count chunkResult,
     ca_AvailableChunks := max (int32 (r_Count chunkResult - ca_ReservedChunks (ca_Status cadv))) 0\<rparr>"

definition touchClusterAdvertisementStatus :: "Time \<Rightarrow> 'w kube \<Rightarrow> ClusterAdvertisement \<Rightarrow> Result \<Rightarrow>
    ('w, kerr + ClusterAdvertisement) state" where
  "touchClusterAdvertisementStatus now K cadv chunkResult =
     StatusUpdateAdv K (cadv\<lparr>ca_Status := touchedStatus now cadv chunkResult\<rparr>)"

text \<open>The handler once the request has passed every check; the first sizer result is used.\<close>

definition acceptAdvertisement :: "Time \<Rightarrow> 'w kube \<Rightarrow> string \<Rightarrow> AdvertisementRequest \<Rightarrow> Result \<Rightarrow>
    ('w, AdvertisementResponse response) state" where
  "acceptAdvertisement now K clusterID req chunkResult = do {
     r \<leftarrow> upsertClusterAdvertisement K req chunkResult;
     (case r of
        Inl _ \<Rightarrow> State_Monad.return (writeError 500 InternalError (text_msg ''advertisement persistence failed''))
      | Inr cadv \<Rightarrow> do {
          _ \<leftarrow> touchClusterAdvertisementStatus now K cadv chunkResult;
          instr \<leftarrow> collectInstructionsForCaller now K clusterID;
          State_Monad.return (writeJSON 200
            \<lparr>av_Accepted = True, av_ChunkCount = r_Count chunkResult,
             av_ChunkResources = r_PerChunk chunkResult, av_NextReportIn = advertisementReportInterval,
             av_Instructions = (case instr of Inl _ \<Rightarrow> [] | Inr vs \<Rightarrow> vs)\<rparr>) }) }"

definition handleAdvertisementUpsert :: "Time \<Rightarrow> 'w kube \<Rightarrow> Sizer \<Rightarrow> string \<Rightarrow>
    message + AdvertisementRequest \<Rightarrow> ('w, AdvertisementResponse response) state" where
  "handleAdvertisementUpsert now K sizer clusterID body =
    (case body of
       Inl err \<Rightarrow> State_Monad.return (writeError 400 InvalidRequest err)
     | Inr req \<Rightarrow>
        (case validateAdvertisementRequest req of
           Some err \<Rightarrow> State_Monad.return (writeError 400 InvalidRequest err)
         | None \<Rightarrow>
            if ar_ClusterID req \<noteq> clusterID then
              State_Monad.return (writeError 403 Forbidden
                (Sprintf ''body.clusterId %q does not match certificate CN %q''
                  [AStr (ar_ClusterID req), AStr clusterID]))
            else (case sizer (ar_Resources req) of
                [] \<Rightarrow> State_Monad.return (writeError 400 InsufficientCapacity
                       (text_msg ''advertised resources do not yield even one full chunk''))
              | chunkResult # _ \<Rightarrow> acceptAdvertisement now K clusterID req chunkResult)))"

definition advertisementSnapshotFromCR :: "ClusterAdvertisement \<Rightarrow> AdvertisementSnapshot" where
  "advertisementSnapshotFromCR cadv =
    \<lparr>as_ClusterID = ca_ClusterID (ca_Spec cadv), as_LiqoClusterID = ca_LiqoClusterID (ca_Spec cadv),
     as_Resources = ca_Allocatable (ca_Spec cadv), as_Topology = ca_Topology (ca_Spec cadv),
     as_UnitPrices = ca_UnitPrices (ca_Spec cadv), as_CostPerChunk = None,
     as_CarbonIntensity = ca_CarbonIntensity (ca_Spec cadv),
     as_CarbonForecast = ca_CarbonForecast (ca_Spec cadv),
     as_CarbonWeighted = (case weightedCarbon cadv of (v, ok) \<Rightarrow> if ok then Some v else None),
     as_CapacityScalePercent = ca_CapacityScalePercent (ca_Spec cadv),
     as_CapacityFixed = ca_CapacityFixed (ca_Spec cadv), as_Renewable = ca_Renewable (ca_Spec cadv),
     as_ProbeEndpoint = ca_ProbeEndpoint (ca_Spec cadv),
     as_ChunkCount = ca_TotalChunks (ca_Status cadv),
     as_ReservedChunks = ca_ReservedChunks (ca_Status cadv),
     as_AvailableChunks = ca_AvailableChunks (ca_Status cadv),
     as_LastSeen = (case ca_LastSeen (ca_Status cadv) of Some t \<Rightarrow> t | None \<Rightarrow> 0),
     as_Available = ca_Available (ca_Status cadv)\<rparr>"

definition handleAdvertisementGet :: "'w kube \<Rightarrow> string \<Rightarrow> string \<Rightarrow>
    ('w, AdvertisementSnapshot response) state" where
  "handleAdvertisementGet K authClusterID pathClusterID =
    (if pathClusterID = '''' then
       State_Monad.return (writeError 400 InvalidRequest (text_msg ''clusterId is required''))
     else if pathClusterID \<noteq> authClusterID then
       State_Monad.return (writeError 403 Forbidden
         (Sprintf ''path clusterId %q does not match certificate CN %q'' [AStr pathClusterID, AStr authClusterID]))
     else do {
       r \<leftarrow> GetAdv K pathClusterID;
       State_Monad.return (case r of
         Inl e \<Rightarrow> if e = KNotFound
           then writeError 404 NotFoundCode (Sprintf ''no advertisement for cluster %q'' [AStr pathClusterID])
           else writeError 500 InternalError (text_msg ''advertisement read failed'')
       | Inr cadv \<Rightarrow> writeJSON 200 (advertisementSnapshotFromCR cadv)) })"

section \<open>Freshness\<close>

definition DefaultAdvertisementStaleAfter :: Duration where
  "DefaultAdvertisementStaleAfter = 90 * 10 ^ 9"

definition staleAfter :: "Duration \<Rightarrow> Duration" where
  "staleAfter d = (if d > 0 then d else DefaultAdvertisementStaleAfter)"

definition isAdvertisementStale :: "Time \<Rightarrow> Time option \<Rightarrow> Duration \<Rightarrow> bool" where
  "isAdvertisementStale now lastSeen ttl = (case lastSeen of None \<Rightarrow> True | Some t \<Rightarrow> now - t > ttl)"

text \<open>
  \<^verbatim>\<open>ClusterAdvertisementReconciler.Reconcile\<close>; the result is the error or the time after which to
  reconcile again (0 for none).
\<close>

definition reconcileAdvertisement :: "Time \<Rightarrow> 'w kube \<Rightarrow> Duration \<Rightarrow> string \<Rightarrow> ('w, kerr + Duration) state" where
  "reconcileAdvertisement now K staleDur name = do {
     r \<leftarrow> GetAdv K name;
     (case r of
        Inl e \<Rightarrow> State_Monad.return (if e = KNotFound then Inr 0 else Inl e)
      | Inr cadv \<Rightarrow>
         (let stale = isAdvertisementStale now (ca_LastSeen (ca_Status cadv)) (staleAfter staleDur);
              st = (ca_Status cadv)\<lparr>ca_ObservedGeneration := m_Generation (ca_Meta cadv),
                     ca_Available := \<not> stale,
                     ca_AvailableChunks := (if stale then 0 else ca_AvailableChunks (ca_Status cadv))\<rparr>;
              needUpdate = (ca_Available st \<noteq> ca_Available (ca_Status cadv) \<or>
                ca_ObservedGeneration st \<noteq> ca_ObservedGeneration (ca_Status cadv) \<or>
                (stale \<and> ca_AvailableChunks (ca_Status cadv) \<noteq> 0))
          in if needUpdate then do {
               u \<leftarrow> StatusUpdateAdv K (cadv\<lparr>ca_Status := st\<rparr>);
               State_Monad.return (case u of Inl e \<Rightarrow> Inl e | Inr _ \<Rightarrow> Inr (staleAfter staleDur sdiv 3)) }
             else State_Monad.return (Inr (staleAfter staleDur sdiv 3))))
   }"

section \<open>The intake keeps the ledger\<close>

text \<open>The counters before an advertisement: those stored, or zeros for a new provider.\<close>

definition status_before :: "store \<Rightarrow> string \<Rightarrow> ClusterAdvertisementStatus" where
  "status_before s n = (case adv_at s n of None \<Rightarrow> zero_ClusterAdvertisementStatus | Some a \<Rightarrow> ca_Status a)"

definition refreshed :: "Time \<Rightarrow> int \<Rightarrow> ClusterAdvertisementStatus \<Rightarrow> ClusterAdvertisementStatus \<Rightarrow> bool" where
  "refreshed now cnt st st' \<longleftrightarrow> ca_LastSeen st' = Some now \<and> ca_Available st' \<and> ca_TotalChunks st' = cnt \<and>
     ca_ReservedChunks st' = ca_ReservedChunks st \<and>
     ca_AvailableChunks st' = max (int32 (cnt - ca_ReservedChunks st)) 0"

text \<open>What an accepted advertisement of the cluster \<open>n\<close> does to the store.\<close>

definition advertised :: "Time \<Rightarrow> string \<Rightarrow> Result \<Rightarrow> store \<Rightarrow> store \<Rightarrow> bool" where
  "advertised now n cr s s' \<longleftrightarrow> (\<forall>m. m \<noteq> n \<longrightarrow> adv_at s' m = adv_at s m) \<and> (\<forall>m. resv_at s' m = resv_at s m) \<and>
     (\<forall>a'. adv_at s' n = Some a' \<longrightarrow> ca_ClusterType (ca_Spec a') = r_Type cr \<and>
        (ca_Status a' = status_before s n \<or> refreshed now (r_Count cr) (status_before s n) (ca_Status a')))"

lemma advertised_polled: "advertised now n cr s s' \<Longrightarrow> polled s' s'' \<Longrightarrow> advertised now n cr s s''"
  by (simp add: advertised_def polled_def)

lemma refreshed_touched: "refreshed now (r_Count cr) (ca_Status a) (touchedStatus now a cr)"
  by (simp add: refreshed_def touchedStatus_def)

context kube_api
begin

lemma wp_upsert:
  "wp (upsertClusterAdvertisement K req cr) (\<lambda>r w'. (\<forall>e. r = Inl e \<longrightarrow> objs w' = objs w) \<and>
     (\<forall>a. r = Inr a \<longrightarrow> advertised now (ar_ClusterID req) cr (objs w) (objs w') \<and>
        m_Name (ca_Meta a) = ar_ClusterID req \<and> ca_Status a = status_before (objs w) (ar_ClusterID req) \<and>
        (adv_at (objs w') (ar_ClusterID req) = Some a \<or> adv_at (objs w') (ar_ClusterID req) = None))) w"
  unfolding upsertClusterAdvertisement_def wp_bind wp_return
proof (rule adv.wp_create_or_update, goal_cases)
  case (3 w' x' t g v)
  then show ?case
    by (auto simp: advertised_def status_before_def blankAdvertisement_def named_meta_def specFromRequest_def)
next
  case (4 w' cur)
  then have "ca_Spec cur = specFromRequest req cr" by (metis ClusterAdvertisement.select_convs(2)
        ClusterAdvertisement.surjective ClusterAdvertisement.update_convs(2) kobj.inject(1))
  with 4 show ?case
    using adv.look_name [of w' "ar_ClusterID req" cur]
    by (auto simp: advertised_def status_before_def blankAdvertisement_def named_meta_def specFromRequest_def)
next
  case (5 w' x' cur g v)
  then show ?case
    using adv.look_name [of w "ar_ClusterID req" cur]
    by (auto simp: advertised_def status_before_def blankAdvertisement_def named_meta_def specFromRequest_def stored_def)
qed simp_all

lemma wp_touch:
  assumes "advertised now n cr s (objs w)" "m_Name (ca_Meta a) = n" "ca_Status a = status_before s n"
    and "adv_at (objs w) n = Some a \<or> adv_at (objs w) n = None"
  shows "wp (touchClusterAdvertisementStatus now K a cr) (\<lambda>_ w'. advertised now n cr s (objs w')) w"
  unfolding touchClusterAdvertisementStatus_def
proof (rule adv.wp_status, goal_cases)
  case (2 w' x' cur v)
  then have "cur = a" using assms by auto
  then show ?case
    using 2 assms refreshed_touched [of now cr a] by (auto simp: advertised_def)
qed (use assms in simp)

lemma wp_reconcileAdvertisement:
  assumes "adv_at (objs w) n = Some a"
    and "stale = isAdvertisementStale now (ca_LastSeen (ca_Status a)) (staleAfter d)"
  shows "wp (reconcileAdvertisement now K d n) (\<lambda>r w'. \<forall>requeue. r = Inr requeue \<longrightarrow>
    (\<exists>a'. adv_at (objs w') n = Some a' \<and> ca_Available (ca_Status a') = (\<not> stale) \<and>
    ca_ReservedChunks (ca_Status a') = ca_ReservedChunks (ca_Status a) \<and>
    ca_TotalChunks (ca_Status a') = ca_TotalChunks (ca_Status a) \<and>
    ca_LastSeen (ca_Status a') = ca_LastSeen (ca_Status a) \<and>
    ca_AvailableChunks (ca_Status a') = (if stale then 0 else ca_AvailableChunks (ca_Status a)) \<and>
    requeue = staleAfter d sdiv 3)) w"
  unfolding reconcileAdvertisement_def wp_bind
proof (rule adv.wp_get, goal_cases)
  case (2 w1 x)
  then have x: "x = a" "m_Name (ca_Meta a) = n" "adv_at (objs w1) n = Some a" using assms by auto
  show ?case
    unfolding sum.case x(1) Let_def
    using x by (auto simp: assms(2) intro!: adv.wp_status)
qed (use assms(1) in auto)

lemma wp_acceptAdvertisement:
  "wp (acceptAdvertisement now K cid req cr) (\<lambda>resp w'.
      (\<forall>st c m. resp = writeError st c m \<longrightarrow> objs w' = objs w) \<and>
      (\<forall>b. resp = writeJSON 200 b \<longrightarrow> av_ChunkCount b = r_Count cr \<and>
        advertised now (ar_ClusterID req) cr (objs w) (objs w'))) w"
  unfolding acceptAdvertisement_def wp_bind
proof (rule wp_mono [OF wp_upsert [where now = now]], goal_cases)
  case (1 r w1)
  show ?case
  proof (cases r)
    case (Inl e)
    with 1 show ?thesis by simp
  next
    case (Inr a)
    with 1 have "wp (touchClusterAdvertisementStatus now K a cr)
        (\<lambda>_ w2. advertised now (ar_ClusterID req) cr (objs w) (objs w2)) w1"
      by (intro wp_touch) auto
    then show ?thesis
      unfolding Inr sum.case wp_bind wp_return
    proof (rule wp_mono, goal_cases)
      case (1 u w2)
      show ?case
        by (rule wp_mono [OF wp_collectInstructions]) (use 1 in \<open>auto intro: advertised_polled\<close>)
    qed
  qed
qed

lemma wp_handleAdvertisementUpsert:
  "wp (handleAdvertisementUpsert now K sizer cid body) (\<lambda>resp w'.
     (\<forall>st c m. resp = writeError st c m \<longrightarrow> objs w' = objs w) \<and>
     (\<forall>b. resp = writeJSON 200 b \<longrightarrow> (\<exists>req cr. body = Inr req \<and> ar_ClusterID req = cid \<and>
        cr \<in> set (sizer (ar_Resources req)) \<and> av_ChunkCount b = r_Count cr \<and>
        advertised now cid cr (objs w) (objs w')))) w"
proof (cases "\<exists>req cr rest. body = Inr req \<and> validateAdvertisementRequest req = None \<and>
    ar_ClusterID req = cid \<and> sizer (ar_Resources req) = cr # rest")
  case True
  then obtain req cr rest where req: "body = Inr req" "validateAdvertisementRequest req = None"
    "ar_ClusterID req = cid" "sizer (ar_Resources req) = cr # rest" by blast
  then have "handleAdvertisementUpsert now K sizer cid body = acceptAdvertisement now K cid req cr"
    by (simp add: handleAdvertisementUpsert_def)
  then show ?thesis
    by (simp only:) (rule wp_mono [OF wp_acceptAdvertisement], use req in auto)
next
  case False
  then show ?thesis
    by (auto simp: handleAdvertisementUpsert_def split: sum.splits option.splits list.splits)
qed

end


definition exampleAdReq :: "string \<Rightarrow> AdvertisementRequest" where
  "exampleAdReq n = \<lparr>ar_ClusterID = n, ar_LiqoClusterID = n, ar_Resources = [(ResourceCPU, 4), (ResourceMemory, 8)],
     ar_Topology = None, ar_UnitPrices = [], ar_CarbonIntensity = None, ar_CarbonForecast = [],
     ar_CapacityScalePercent = [], ar_CapacityFixed = [], ar_Renewable = False, ar_ProbeEndpoint = ''''\<rparr>"


text \<open>
  Freshness. A successful reconcile leaves an advertisement available exactly when the
  provider was seen within the freshness window, withdraws its available chunks when it was not,
  changes none of the other counters, and asks to be run again after a third of the window.
\<close>

theorem advertisement_freshness:
  assumes "kube_api K objs" and "adv_at (objs w) n = Some a"
    and "run_state (reconcileAdvertisement now K d n) w = (Inr requeue, w')"
  defines "stale \<equiv> isAdvertisementStale now (ca_LastSeen (ca_Status a)) (staleAfter d)"
  shows "\<exists>a'. adv_at (objs w') n = Some a' \<and> ca_Available (ca_Status a') = (\<not> stale) \<and>
    ca_ReservedChunks (ca_Status a') = ca_ReservedChunks (ca_Status a) \<and>
    ca_TotalChunks (ca_Status a') = ca_TotalChunks (ca_Status a) \<and>
    ca_LastSeen (ca_Status a') = ca_LastSeen (ca_Status a) \<and>
    ca_AvailableChunks (ca_Status a') = (if stale then 0 else ca_AvailableChunks (ca_Status a)) \<and>
    requeue = staleAfter d sdiv 3"
  using wp_run [OF kube_api.wp_reconcileAdvertisement [OF assms(1,2)] assms(3)] by (simp add: stale_def)

theorem advertisement_freshness_witness:
  "\<exists>a'. adv_at (mem_lookup (snd (run_state (reconcileAdvertisement 0 memK 0 ''p'')
      (exampleWorld [KAdv (exampleAdv ''p'' 3 1)])))) ''p'' = Some a' \<and> \<not> ca_Available (ca_Status a')"
proof -
  let ?w = "exampleWorld [KAdv (exampleAdv ''p'' 3 1)]"
  have "fst (run_state (reconcileAdvertisement 0 memK 0 ''p'') ?w) = Inr 30000000000" by code_simp
  then have run: "run_state (reconcileAdvertisement 0 memK 0 ''p'') ?w =
      (Inr 30000000000, snd (run_state (reconcileAdvertisement 0 memK 0 ''p'') ?w))" by (simp add: prod_eq_iff)
  have "adv_at (mem_lookup ?w) ''p'' = Some (exampleAdv ''p'' 3 1)"
    by (simp add: adv_at_def mem_lookup_def exampleWorld_def exampleAdv_def named_meta_def)
  from advertisement_freshness [OF mem.kube_api_axioms this run] show ?thesis
    by (auto simp: exampleAdv_def zero_ClusterAdvertisementStatus_def isAdvertisementStale_def)
qed

end
