(* ===== verification/ReservationApi.thy ===== *)
theory ReservationApi
  imports Placement Advertisement LedgerRace
begin

text \<open>
  \<^verbatim>\<open>internal/broker/api/reservation.go\<close> and the node-group handler of \<^verbatim>\<open>nodegroups.go\<close>: creating,
  reading, listing and releasing reservations. \<^verbatim>\<open>validation.IsDNS1123Subdomain\<close> (the list of
  reasons a name is rejected) and the UUID drawn for a request without an idempotency key are
  arguments.
\<close>

section \<open>Server and wire types\<close>

record Server =
  s_sizer :: Sizer
  s_reservationTimeout :: Duration
  s_consumers :: ConsumerRegistry

definition defaultReservationTimeout :: Duration where
  "defaultReservationTimeout = 24 * 3600 * 10 ^ 9"

record ReservationRequest =
  rq_ProviderClusterID :: string
  rq_NodeGroupID :: string
  rq_ChunkCount :: int
  rq_ChunkType :: ChunkType
  rq_Namespaces :: "string list"

text \<open>\<^verbatim>\<open>ActivatedAt\<close> is never filled.\<close>

record ReservationResponse =
  ro_ReservationID :: string
  ro_Status :: ReservationPhase
  ro_ProviderClusterID :: string
  ro_ProviderLiqoClusterID :: string
  ro_ConsumerClusterID :: string
  ro_ConsumerLiqoClusterID :: string
  ro_ChunkCount :: int
  ro_ChunkType :: ChunkType
  ro_Resources :: ResourceList
  ro_VirtualNodeNames :: "string list"
  ro_CreatedAt :: Time
  ro_ExpiresAt :: "Time option"
  ro_Message :: message

record ReservationListResponse =
  rl_Reservations :: "ReservationResponse list"

record ReleaseResponse =
  re_ReservationID :: string
  re_Status :: ReservationPhase
  re_RemainingChunkCount :: int

definition reservationResponseFromCR :: "Reservation \<Rightarrow> ReservationResponse" where
  "reservationResponseFromCR r =
    \<lparr>ro_ReservationID = m_Name (rs_Meta r), ro_Status = rs_Phase (rs_Status r),
     ro_ProviderClusterID = rs_ProviderClusterID (rs_Spec r),
     ro_ProviderLiqoClusterID = rs_ProviderLiqoClusterID (rs_Spec r),
     ro_ConsumerClusterID = rs_ConsumerClusterID (rs_Spec r),
     ro_ConsumerLiqoClusterID = rs_ConsumerLiqoClusterID (rs_Spec r),
     ro_ChunkCount = rs_ChunkCount (rs_Spec r), ro_ChunkType = rs_ChunkType (rs_Spec r),
     ro_Resources = rs_Resources (rs_Spec r), ro_VirtualNodeNames = rs_VirtualNodeNames (rs_Status r),
     ro_CreatedAt = (case rs_CreatedAt (rs_Status r) of Some t \<Rightarrow> t | None \<Rightarrow> m_CreationTimestamp (rs_Meta r)),
     ro_ExpiresAt = rs_ExpiresAt (rs_Status r), ro_Message = rs_Message (rs_Status r)\<rparr>"

section \<open>Creating\<close>

definition validateReservationRequest :: "ReservationRequest \<Rightarrow> message option" where
  "validateReservationRequest req =
    (if rq_ProviderClusterID req = '''' then Some (text_msg ''providerClusterId is required'')
     else if rq_ChunkCount req < 1 then Some (text_msg ''chunkCount must be >= 1'')
     else if rq_ChunkCount req > 1 then Some (Sprintf
       ''chunkCount must be 1 (one reservation = one chunk = one node); request %d separate reservations instead, got %d''
       [AInt (rq_ChunkCount req), AInt (rq_ChunkCount req)])
     else if rq_ChunkType req = '''' then Some (text_msg ''chunkType is required'')
     else if rq_ChunkType req \<noteq> ChunkTypeStandard \<and> rq_ChunkType req \<noteq> ChunkTypeGPU then
       Some (Sprintf ''unknown chunkType %q'' [AStr (rq_ChunkType req)])
     else if rq_NodeGroupID req \<noteq> '''' \<and>
             rq_NodeGroupID req \<noteq> nodeGroupID (rq_ProviderClusterID req) (rq_ChunkType req) then
       Some (Sprintf ''nodeGroupId %q does not match (provider, chunkType), want %q''
         [AStr (rq_NodeGroupID req), AStr (nodeGroupID (rq_ProviderClusterID req) (rq_ChunkType req))])
     else None)"

definition reservationName :: "(string \<Rightarrow> string list) \<Rightarrow> string \<Rightarrow> string \<Rightarrow> message + string" where
  "reservationName dns1123 uuid header =
    (if header = '''' then Inr (''res-'' @ uuid)
     else if dns1123 header \<noteq> [] then
       Inl (Sprintf ''X-Reservation-Id %q is not a valid DNS-1123 subdomain: %s''
         (AStr header # map AStr (dns1123 header)))
     else Inr header)"

definition findAdvertisement :: "'w kube \<Rightarrow> string \<Rightarrow> ChunkType \<Rightarrow>
    ('w, (nat \<times> ErrorCode \<times> message) + ClusterAdvertisement) state" where
  "findAdvertisement K providerClusterID chunkType = do {
     r \<leftarrow> GetAdv K providerClusterID;
     State_Monad.return (case r of
       Inl e \<Rightarrow> if e = KNotFound
         then Inl (404, NotFoundCode, Sprintf ''no advertisement for provider %q'' [AStr providerClusterID])
         else Inl (500, InternalError, text_msg ''advertisement read failed'')
     | Inr cadv \<Rightarrow>
         if ca_ClusterType (ca_Spec cadv) \<noteq> chunkType then
           Inl (404, NotFoundCode, Sprintf ''provider %q advertises chunkType %q, requested %q''
             [AStr providerClusterID, AStr (ca_ClusterType (ca_Spec cadv)), AStr chunkType])
         else if \<not> ca_Available (ca_Status cadv) then
           Inl (503, ServiceUnavailable, Sprintf ''provider %q is not currently Available'' [AStr providerClusterID])
         else Inr cadv)
   }"

definition buildReservation :: "string \<Rightarrow> ReservationRequest \<Rightarrow> string \<Rightarrow> string \<Rightarrow> string \<Rightarrow> ResourceList \<Rightarrow>
    Reservation" where
  "buildReservation name req consumerID consumerLiqoID providerLiqoID perChunk =
    \<lparr>rs_Meta = named_meta name,
     rs_Spec = \<lparr>rs_ConsumerClusterID = consumerID, rs_ConsumerLiqoClusterID = consumerLiqoID,
       rs_ProviderClusterID = rq_ProviderClusterID req, rs_ProviderLiqoClusterID = providerLiqoID,
       rs_ChunkCount = rq_ChunkCount req, rs_ChunkType = rq_ChunkType req,
       rs_Resources = perChunk, rs_Namespaces = rq_Namespaces req\<rparr>,
     rs_Status = zero_ReservationStatus\<rparr>"

definition perChunkResources :: "Server \<Rightarrow> ClusterAdvertisement \<Rightarrow> ResourceList" where
  "perChunkResources srv cadv = perChunkResourcesWith (s_sizer srv) cadv"

text \<open>
  \<^verbatim>\<open>initReservationStatus\<close> returns the reservation as the handler goes on to use it: with the new
  status, whether or not the write succeeded.
\<close>

definition initialStatus :: "Time \<Rightarrow> Duration \<Rightarrow> Reservation \<Rightarrow> ReservationStatus" where
  "initialStatus now timeout resv = zero_ReservationStatus\<lparr>rs_ObservedGeneration := m_Generation (rs_Meta resv),
     rs_Phase := Pending, rs_CreatedAt := Some now, rs_ExpiresAt := Some (now + timeout)\<rparr>"

definition initReservationStatus :: "Time \<Rightarrow> 'w kube \<Rightarrow> Duration \<Rightarrow> Reservation \<Rightarrow> ('w, Reservation) state" where
  "initReservationStatus now K timeout resv = do {
     let resv' = resv\<lparr>rs_Status := initialStatus now timeout resv\<rparr>;
     u \<leftarrow> StatusUpdateResv K resv';
     State_Monad.return (case u of Inl _ \<Rightarrow> resv' | Inr r \<Rightarrow> r) }"

definition sameReservationRequest :: "ReservationSpec \<Rightarrow> ReservationRequest \<Rightarrow> string \<Rightarrow> string \<Rightarrow> string \<Rightarrow> bool" where
  "sameReservationRequest spec req consumerID consumerLiqoID providerLiqoID \<longleftrightarrow>
     rs_ConsumerClusterID spec = consumerID \<and> rs_ConsumerLiqoClusterID spec = consumerLiqoID \<and>
     rs_ProviderClusterID spec = rq_ProviderClusterID req \<and> rs_ProviderLiqoClusterID spec = providerLiqoID \<and>
     rs_ChunkCount spec = rq_ChunkCount req \<and> rs_ChunkType spec = rq_ChunkType req \<and>
     rs_Namespaces spec = rq_Namespaces req"

text \<open>The last part of the handler: the chunk is reserved, create the object or roll back.\<close>

definition persistReservation :: "Time \<Rightarrow> 'w kube \<Rightarrow> Server \<Rightarrow> string \<Rightarrow> ConsumerEntry \<Rightarrow> ReservationRequest \<Rightarrow>
    string \<Rightarrow> ClusterAdvertisement \<Rightarrow> ('w, ReservationResponse response) state" where
  "persistReservation now K srv consumerID entry req resName cadv = do {
     c \<leftarrow> CreateResv K (buildReservation resName req consumerID (ce_LiqoClusterID entry)
            (ca_LiqoClusterID (ca_Spec cadv)) (perChunkResources srv cadv));
     (case c of
        Inl _ \<Rightarrow> do {
          _ \<leftarrow> adjustReservedChunks K (m_Name (ca_Meta cadv)) (- rq_ChunkCount req);
          State_Monad.return (writeError 500 InternalError (text_msg ''reservation persistence failed'')) }
      | Inr resv \<Rightarrow> do {
          resv \<leftarrow> initReservationStatus now K (s_reservationTimeout srv) resv;
          State_Monad.return (writeJSON 201 (reservationResponseFromCR resv)) }) }"

text \<open>Idempotency lookup, capacity gate, persistence.\<close>

definition admitReservation :: "Time \<Rightarrow> 'w kube \<Rightarrow> Server \<Rightarrow> string \<Rightarrow> ConsumerEntry \<Rightarrow> ReservationRequest \<Rightarrow>
    string \<Rightarrow> ClusterAdvertisement \<Rightarrow> ('w, ReservationResponse response) state" where
  "admitReservation now K srv consumerID entry req resName cadv = do {
     g \<leftarrow> GetResv K resName;
     (case g of
        Inr existing \<Rightarrow> State_Monad.return
          (if \<not> sameReservationRequest (rs_Spec existing) req consumerID (ce_LiqoClusterID entry)
                (ca_LiqoClusterID (ca_Spec cadv))
           then writeError 409 ConflictCode
             (Sprintf ''reservation %q already exists with a different spec'' [AStr resName])
           else writeJSON 200 (reservationResponseFromCR existing))
      | Inl e \<Rightarrow>
          if e \<noteq> KNotFound then
            State_Monad.return (writeError 500 InternalError (text_msg ''reservation read failed''))
          else do {
            res \<leftarrow> reserveChunks K (m_Name (ca_Meta cadv)) (rq_ChunkCount req);
            (case res of
               Inl _ \<Rightarrow> State_Monad.return (writeError 500 InternalError
                          (text_msg ''reservation capacity update failed''))
             | Inr (False, available) \<Rightarrow> State_Monad.return (writeError 409 InsufficientCapacity
                 (Sprintf ''provider %q has %d chunks available; %d requested''
                   [AStr (rq_ProviderClusterID req), AInt available, AInt (rq_ChunkCount req)]))
             | Inr (True, _) \<Rightarrow> persistReservation now K srv consumerID entry req resName cadv) }) }"

definition handleReservationCreate :: "Time \<Rightarrow> 'w kube \<Rightarrow> (string \<Rightarrow> string list) \<Rightarrow> string \<Rightarrow> Server \<Rightarrow> string \<Rightarrow>
    string \<Rightarrow> message + ReservationRequest \<Rightarrow> ('w, ReservationResponse response) state" where
  "handleReservationCreate now K dns1123 uuid srv consumerID header body =
    (case body of
       Inl err \<Rightarrow> State_Monad.return (writeError 400 InvalidRequest err)
     | Inr req \<Rightarrow>
        (case validateReservationRequest req of
           Some err \<Rightarrow> State_Monad.return (writeError 400 InvalidRequest err)
         | None \<Rightarrow>
            (case Lookup (s_consumers srv) consumerID of
               (_, False) \<Rightarrow> State_Monad.return (writeError 412 ServiceUnavailable
                 (text_msg ''no heartbeat received for this consumer; send POST /api/v1/heartbeat first''))
             | (entry, True) \<Rightarrow> do {
                 f \<leftarrow> findAdvertisement K (rq_ProviderClusterID req) (rq_ChunkType req);
                 (case f of
                    Inl (status, code, msg) \<Rightarrow> State_Monad.return (writeError status code msg)
                  | Inr cadv \<Rightarrow>
                     (case reservationName dns1123 uuid header of
                        Inl err \<Rightarrow> State_Monad.return (writeError 400 InvalidRequest err)
                      | Inr resName \<Rightarrow> admitReservation now K srv consumerID entry req resName cadv)) })))"

section \<open>Reading\<close>

definition isReservationParticipant :: "string \<Rightarrow> Reservation \<Rightarrow> bool" where
  "isReservationParticipant clusterID resv \<longleftrightarrow>
     clusterID = rs_ConsumerClusterID (rs_Spec resv) \<or> clusterID = rs_ProviderClusterID (rs_Spec resv)"

definition handleReservationGet :: "'w kube \<Rightarrow> string \<Rightarrow> string \<Rightarrow> ('w, ReservationResponse response) state" where
  "handleReservationGet K callerID resName =
    (if resName = '''' then State_Monad.return (writeError 400 InvalidRequest (text_msg ''id is required''))
     else do {
       r \<leftarrow> GetResv K resName;
       State_Monad.return (case r of
         Inl e \<Rightarrow> if e = KNotFound
           then writeError 404 NotFoundCode (Sprintf ''reservation %q not found'' [AStr resName])
           else writeError 500 InternalError (text_msg ''reservation read failed'')
       | Inr resv \<Rightarrow>
           if \<not> isReservationParticipant callerID resv then writeError 403 Forbidden
             (text_msg ''caller is neither the consumer nor the provider of this reservation'')
           else writeJSON 200 (reservationResponseFromCR resv)) })"

definition handleReservationList :: "'w kube \<Rightarrow> string \<Rightarrow> ('w, ReservationListResponse response) state" where
  "handleReservationList K callerID = do {
     r \<leftarrow> ListResv K;
     State_Monad.return (case r of
       Inl _ \<Rightarrow> writeError 500 InternalError (text_msg ''reservation list failed'')
     | Inr items \<Rightarrow> writeJSON 200 \<lparr>rl_Reservations = sort_key ro_ReservationID
         (map reservationResponseFromCR (filter (\<lambda>x. rs_ConsumerClusterID (rs_Spec x) = callerID) items))\<rparr>) }"

section \<open>Releasing\<close>

text \<open>\<^verbatim>\<open>strconv.Atoi\<close>: an optional sign and decimal digits, within 64 bits.\<close>

definition digit :: "char \<Rightarrow> int option" where
  "digit c = (let n = (of_char c :: int) in if 48 \<le> n \<and> n \<le> 57 then Some (n - 48) else None)"

fun digits :: "int \<Rightarrow> string \<Rightarrow> int option" where
  "digits acc [] = Some acc"
| "digits acc (c # cs) = (case digit c of None \<Rightarrow> None | Some d \<Rightarrow> digits (10 * acc + d) cs)"

definition atoi :: "string \<Rightarrow> int option" where
  "atoi s =
    (let (neg, ds) = (case s of
           c # cs \<Rightarrow> if c = CHR ''-'' then (True, cs) else if c = CHR ''+'' then (False, cs) else (False, s)
         | [] \<Rightarrow> (False, []))
     in if ds = [] then None
        else case digits 0 ds of
          None \<Rightarrow> None
        | Some n \<Rightarrow> (let v = (if neg then - n else n) in if int64 v = v then Some v else None))"

definition parseChunksQuery :: "string \<Rightarrow> message + int" where
  "parseChunksQuery raw =
    (if raw = '''' then Inr 0
     else case atoi raw of
       None \<Rightarrow> Inl (Sprintf ''chunks: %w'' [AStr raw])
     | Some n \<Rightarrow> if n < 0 then Inl (text_msg ''chunks must be >= 0'') else Inr (int32 n))"

fun alreadyReleased :: "ReservationPhase \<Rightarrow> bool" where
  "alreadyReleased Unpeering = True"
| "alreadyReleased Released = True"
| "alreadyReleased Expired = True"
| "alreadyReleased Failed = True"
| "alreadyReleased _ = False"

text \<open>The part of the handler after the release has been decided.\<close>

definition releaseReservation :: "'w kube \<Rightarrow> Reservation \<Rightarrow> ('w, ReleaseResponse response) state" where
  "releaseReservation K resv = do {
     u \<leftarrow> StatusUpdateResv K (resv\<lparr>rs_Status := (rs_Status resv)
            \<lparr>rs_Phase := Unpeering, rs_Message := text_msg ''release requested by consumer''\<rparr>\<rparr>);
     (case u of
        Inl _ \<Rightarrow> State_Monad.return (writeError 500 InternalError (text_msg ''reservation release failed''))
      | Inr patched \<Rightarrow> do {
          a \<leftarrow> adjustReservedChunks K (rs_ProviderClusterID (rs_Spec resv)) (- rs_ChunkCount (rs_Spec resv));
          _ \<leftarrow> (case a of
                 Inl e \<Rightarrow> State_Monad.return (Inl e)
               | Inr _ \<Rightarrow> markChunksReleased K (m_Name (rs_Meta patched)));
          State_Monad.return (writeJSON 202 \<lparr>re_ReservationID = m_Name (rs_Meta resv), re_Status = Unpeering,
            re_RemainingChunkCount = 0\<rparr>) }) }"

definition handleReservationRelease :: "'w kube \<Rightarrow> string \<Rightarrow> string \<Rightarrow> string \<Rightarrow>
    ('w, ReleaseResponse response) state" where
  "handleReservationRelease K callerID resName query = do {
     r \<leftarrow> GetResv K resName;
     (case r of
        Inl e \<Rightarrow> State_Monad.return (if e = KNotFound
          then writeError 404 NotFoundCode (Sprintf ''reservation %q not found'' [AStr resName])
          else writeError 500 InternalError (text_msg ''reservation read failed''))
      | Inr resv \<Rightarrow>
          if callerID \<noteq> rs_ConsumerClusterID (rs_Spec resv) then
            State_Monad.return (writeError 403 Forbidden (text_msg ''only the consumer of a reservation may release it''))
          else (case parseChunksQuery query of
              Inl err \<Rightarrow> State_Monad.return (writeError 400 InvalidRequest err)
            | Inr chunks \<Rightarrow>
                if chunks \<noteq> 0 \<and> chunks \<noteq> rs_ChunkCount (rs_Spec resv) then
                  State_Monad.return (writeError 501 InternalError
                    (Sprintf ''partial release is not implemented yet; pass chunks=%d or omit the query parameter''
                      [AInt (rs_ChunkCount (rs_Spec resv))]))
                else if alreadyReleased (rs_Phase (rs_Status resv)) then
                  State_Monad.return (writeJSON 202 \<lparr>re_ReservationID = m_Name (rs_Meta resv),
                    re_Status = rs_Phase (rs_Status resv), re_RemainingChunkCount = 0\<rparr>)
                else releaseReservation K resv)) }"

section \<open>Node groups\<close>

fun ReservationHoldsChunk :: "ReservationPhase \<Rightarrow> bool" where
  "ReservationHoldsChunk PhaseEmpty = True"
| "ReservationHoldsChunk Pending = True"
| "ReservationHoldsChunk GeneratingKubeconfig = True"
| "ReservationHoldsChunk KubeconfigReady = True"
| "ReservationHoldsChunk Peering = True"
| "ReservationHoldsChunk Peered = True"
| "ReservationHoldsChunk _ = False"

fun ReservationInFlight :: "ReservationPhase \<Rightarrow> bool" where
  "ReservationInFlight PhaseEmpty = True"
| "ReservationInFlight Pending = True"
| "ReservationInFlight GeneratingKubeconfig = True"
| "ReservationInFlight KubeconfigReady = True"
| "ReservationInFlight Peering = True"
| "ReservationInFlight _ = False"

text \<open>The loop of \<^verbatim>\<open>ownByProvider\<close>; the two Go maps are functions with the zero value as default.\<close>

fun ownLoop :: "string \<Rightarrow> Reservation list \<Rightarrow> (string \<Rightarrow> int) \<times> (string \<Rightarrow> bool) \<Rightarrow>
    (string \<Rightarrow> int) \<times> (string \<Rightarrow> bool)" where
  "ownLoop consumerID [] acc = acc"
| "ownLoop consumerID (r # rs) (own, inFlight) =
    (if rs_ConsumerClusterID (rs_Spec r) \<noteq> consumerID then ownLoop consumerID rs (own, inFlight)
     else
       (let p = rs_ProviderClusterID (rs_Spec r);
            n = (if rs_ChunkCount (rs_Spec r) \<le> 0 then 1 else rs_ChunkCount (rs_Spec r));
            own = (if ReservationHoldsChunk (rs_Phase (rs_Status r)) then own(p := int32 (own p + n)) else own);
            inFlight = (if ReservationInFlight (rs_Phase (rs_Status r)) then inFlight(p := True) else inFlight)
        in ownLoop consumerID rs (own, inFlight)))"

definition ownByProvider :: "'w kube \<Rightarrow> string \<Rightarrow> ('w, kerr + (string \<Rightarrow> int) \<times> (string \<Rightarrow> bool)) state" where
  "ownByProvider K consumerID = do {
     r \<leftarrow> ListResv K;
     State_Monad.return (case r of Inl e \<Rightarrow> Inl e
       | Inr items \<Rightarrow> Inr (ownLoop consumerID items (\<lambda>_. 0, \<lambda>_. False))) }"

definition handleNodeGroupsList :: "quantity_api \<Rightarrow> (ChunkType \<Rightarrow> nat \<Rightarrow> nat) \<Rightarrow> Time \<Rightarrow> 'w kube \<Rightarrow> Server \<Rightarrow> string \<Rightarrow>
    ('w, NodeGroupListResponse response) state" where
  "handleNodeGroupsList Q intn now K srv consumerID = do {
     l \<leftarrow> ListAdv K;
     (case l of
        Inl _ \<Rightarrow> State_Monad.return (writeError 500 InternalError (text_msg ''advertisement list failed''))
      | Inr advs \<Rightarrow> do {
          o' \<leftarrow> ownByProvider K consumerID;
          State_Monad.return (case o' of
            Inl _ \<Rightarrow> writeError 500 InternalError (text_msg ''reservation list failed'')
          | Inr (own, inflight) \<Rightarrow> writeJSON 200 (BuildNodeGroups Q intn now
              \<lparr>in_Advertisements = map Some advs, in_Consumer = fst (Lookup (s_consumers srv) consumerID),
               in_InFlight = inflight, in_OwnReserved = Some own, in_Sizer = Some (s_sizer srv)\<rparr>)) }) }"

section \<open>Creating: the accounting\<close>

text \<open>The store moves only the reserved counter of the provider \<open>p\<close>, by \<open>d\<close>.\<close>

definition ledger_shift :: "string \<Rightarrow> int \<Rightarrow> store \<Rightarrow> store \<Rightarrow> bool" where
  "ledger_shift p d s s' \<longleftrightarrow> (\<forall>q. q \<noteq> p \<longrightarrow> adv_at s' q = adv_at s q) \<and>
     (\<exists>a a'. adv_at s p = Some a \<and> adv_at s' p = Some a' \<and> ca_Spec a' = ca_Spec a \<and> ledger_wf a' \<and>
        ca_ReservedChunks (ca_Status a') = ca_ReservedChunks (ca_Status a) + d \<and>
        ca_TotalChunks (ca_Status a') = ca_TotalChunks (ca_Status a) \<and>
        ca_ReservedChunks (ca_Status a') \<le> ca_TotalChunks (ca_Status a'))"

lemma ledger_shift_frame:
  "ledger_shift p d s s' \<Longrightarrow> (\<And>q. adv_at s'' q = adv_at s' q) \<Longrightarrow> ledger_shift p d s s''"
  by (simp add: ledger_shift_def)

definition reservation_for :: "string \<Rightarrow> ReservationRequest \<Rightarrow> Reservation \<Rightarrow> bool" where
  "reservation_for consumer req r \<longleftrightarrow> rs_ConsumerClusterID (rs_Spec r) = consumer \<and>
     rs_ProviderClusterID (rs_Spec r) = rq_ProviderClusterID req \<and> rs_ChunkCount (rs_Spec r) = rq_ChunkCount req \<and>
     rs_ChunkType (rs_Spec r) = rq_ChunkType req \<and> rs_Namespaces (rs_Spec r) = rq_Namespaces req"

text \<open>The outcomes of a reservation request.\<close>

definition create_post :: "string \<Rightarrow> string \<Rightarrow> ReservationRequest \<Rightarrow> store \<Rightarrow> ReservationResponse response \<Rightarrow> store \<Rightarrow> bool" where
  "create_post n0 consumer req s resp s' = (case resp of
     writeJSON st b \<Rightarrow>
       (if st = 201 then ro_ReservationID b = n0 \<and> ledger_shift (rq_ProviderClusterID req) 1 s s' \<and>
          resv_at s (ro_ReservationID b) = None \<and>
          (\<exists>r. resv_at s' (ro_ReservationID b) = Some r \<and> reservation_for consumer req r) \<and>
          (\<forall>n. n \<noteq> ro_ReservationID b \<longrightarrow> resv_at s' n = resv_at s n)
        else s' = s)
   | writeError st _ _ \<Rightarrow>
       (if st = 500 then (\<forall>n. resv_at s' n = resv_at s n) \<and>
          (s' = s \<or> ledger_shift (rq_ProviderClusterID req) 0 s s' \<or> ledger_shift (rq_ProviderClusterID req) 1 s s')
        else s' = s))"

lemma validated_one_chunk: "validateReservationRequest req = None \<Longrightarrow> rq_ChunkCount req = 1"
  by (auto simp: validateReservationRequest_def split: if_splits)

lemma ledger_shift_reserve:
  assumes "adv_at s p = Some a" "ledger_wf a" "1 \<le> ca_AvailableChunks (ca_Status a)"
  shows "ledger_shift p 1 s (with_adv_status s p a (withReserved (int32 (ca_ReservedChunks (ca_Status a) + 1)) a) v)"
  using assms reserved_sum [OF assms(2) _ assms(3)] ledger_wf_reserve [OF assms(2) _ assms(3)]
  by (auto simp: ledger_shift_def ledger_wf_def)

lemma ledger_shift_rollback:
  assumes "adv_at s p = Some a" "ledger_wf a" "1 \<le> ca_AvailableChunks (ca_Status a)"
    and "s1 = with_adv_status s p a (withReserved (int32 (ca_ReservedChunks (ca_Status a) + 1)) a) v"
    and "adv_at s1 p = Some a1"
  shows "ledger_shift p 0 s (with_adv_status s1 p a1 (adjust (- 1) a1) v')"
proof -
  have r: "ca_ReservedChunks (ca_Status a) + 1 \<le> ca_TotalChunks (ca_Status a)"
    "int32 (ca_ReservedChunks (ca_Status a) + 1) = ca_ReservedChunks (ca_Status a) + 1"
    using reserved_sum [OF assms(2) _ assms(3)] by auto
  have a1: "ca_Spec a1 = ca_Spec a" "ca_Status a1 = ca_Status (withReserved (ca_ReservedChunks (ca_Status a) + 1) a)"
    using assms(4,5) r by auto
  have wf1: "ledger_wf a1"
    using ledger_wf_reserve [OF assms(2) _ assms(3)] r a1 by (simp add: ledger_wf_def)
  have "ledger_wf (adjust (- 1) a1)" by (rule ledger_wf_adjust) (simp_all add: wf1 is_int32_def)
  moreover have "ca_ReservedChunks (ca_Status (adjust (- 1) a1)) = ca_ReservedChunks (ca_Status a)"
    using adjusted [OF wf1, of 1] a1 assms(2) by (simp add: is_int32_def ledger_wf_def Let_def)
  ultimately show ?thesis
    using assms(1,4) a1 r by (auto simp: ledger_shift_def ledger_wf_def)
qed

context kube_api
begin

lemma wp_findAdvertisement:
  "wp (findAdvertisement K p t) (\<lambda>r w'. objs w' = objs w \<and> (\<forall>st c m. r = Inl (st, c, m) \<longrightarrow> st \<in> {404, 500, 503}) \<and>
     (\<forall>a. r = Inr a \<longrightarrow> adv_at (objs w) p = Some a \<and> m_Name (ca_Meta a) = p \<and>
        ca_ClusterType (ca_Spec a) = t \<and> ca_Available (ca_Status a))) w"
  unfolding findAdvertisement_def wp_bind wp_return by (rule adv.wp_get) auto

lemma wp_initReservationStatus:
  assumes "resv_at (objs w) (m_Name (rs_Meta r)) = Some r"
  shows "wp (initReservationStatus now K d r) (\<lambda>r' w'. m_Name (rs_Meta r') = m_Name (rs_Meta r) \<and>
    (\<exists>r2. resv_at (objs w') (m_Name (rs_Meta r)) = Some r2 \<and> rs_Spec r2 = rs_Spec r) \<and>
    (\<forall>n. n \<noteq> m_Name (rs_Meta r) \<longrightarrow> resv_at (objs w') n = resv_at (objs w) n) \<and>
    (\<forall>n. adv_at (objs w') n = adv_at (objs w) n)) w"
  unfolding initReservationStatus_def Let_def wp_bind wp_return
  by (rule resv.wp_status) (use assms in auto)

lemma wp_persistReservation:
  assumes a: "adv_at s p = Some a" "ledger_wf a" "1 \<le> ca_AvailableChunks (ca_Status a)" "m_Name (ca_Meta a) = p"
    and w: "objs w = with_adv_status s p a (withReserved (int32 (ca_ReservedChunks (ca_Status a) + 1)) a) v"
    and req: "rq_ProviderClusterID req = p" "rq_ChunkCount req = 1"
  shows "wp (persistReservation now K srv consumer entry req n a) (\<lambda>resp w'. create_post n consumer req s resp (objs w')) w"
  unfolding persistReservation_def wp_bind
proof (rule resv.wp_create, goal_cases)
  case (1 w1 e)
  have "wp (adjustReservedChunks K p (- 1)) (\<lambda>_ w'. (\<forall>n. resv_at (objs w') n = resv_at s n) \<and>
      (ledger_shift p 0 s (objs w') \<or> ledger_shift p 1 s (objs w'))) w1"
  proof (rule wp_adjustReservedChunks, goal_cases)
    case (1 w' e)
    then show ?case using \<open>objs w1 = objs w\<close> w ledger_shift_reserve [OF a(1-3)] by simp
  next
    case (2 w' a1 v')
    then show ?case using \<open>objs w1 = objs w\<close> w ledger_shift_rollback [OF a(1-3), of _ v a1 v'] by auto
  qed
  then show ?case
    unfolding sum.case wp_bind wp_return a(4) req(2)
    by (rule wp_mono) (simp add: create_post_def req)
next
  case (2 w1 x' t g v1)
  have x': "m_Name (rs_Meta x') = n" "reservation_for consumer req x'"
    using 2(2) by (simp_all add: buildReservation_def named_meta_def reservation_for_def)
  have none: "resv_at s n = None"
    using 2(1) w by (simp add: buildReservation_def named_meta_def)
  have "resv_at (objs w1) (m_Name (rs_Meta x')) = Some x'"
    using 2(2,3) by (simp add: buildReservation_def named_meta_def)
  from wp_initReservationStatus [OF this] show ?case
    unfolding sum.case wp_bind wp_return
  proof (rule wp_mono, goal_cases)
    case (1 r' w2)
    have "ledger_shift p 1 s (objs w2)"
      by (rule ledger_shift_frame [OF ledger_shift_reserve [OF a(1-3), of v]]) (use 1 2(3) w in simp)
    then show ?case
      using 1 x' none 2(3) w
      by (auto simp: create_post_def reservationResponseFromCR_def req reservation_for_def buildReservation_def named_meta_def)
  qed
qed

lemma wp_admitReservation:
  assumes "adv_at (objs w) p = Some a" "ledger_wf a" "m_Name (ca_Meta a) = p"
    and "rq_ProviderClusterID req = p" "rq_ChunkCount req = 1"
  shows "wp (admitReservation now K srv consumer entry req n a) (\<lambda>resp w'. create_post n consumer req (objs w) resp (objs w')) w"
  unfolding admitReservation_def wp_bind
proof (rule resv.wp_get, goal_cases)
  case (1 w1 e)
  show ?case
  proof (cases "e = KNotFound")
    case False
    with 1 show ?thesis by (simp add: create_post_def)
  next
    case True
    show ?thesis
      unfolding True sum.case simp_thms if_False wp_bind assms(3,5)
    proof (rule wp_reserveChunks, goal_cases)
      case (3 w2 a2 v)
      then show ?case
        using assms 1 by (auto intro!: wp_persistReservation)
    qed (use 1 in \<open>auto simp: create_post_def\<close>)
  qed
next
  case (2 w1 r)
  then show ?case by (simp add: create_post_def)
qed

lemma wp_handleReservationCreate:
  assumes "\<And>a. adv_at (objs w) (rq_ProviderClusterID req) = Some a \<Longrightarrow> ledger_wf a"
  shows "wp (handleReservationCreate now K dns uuid srv consumer header (Inr req)) (\<lambda>resp w'.
    create_post (case reservationName dns uuid header of Inl _ \<Rightarrow> '''' | Inr n \<Rightarrow> n) consumer req (objs w) resp (objs w')) w"
proof (cases "validateReservationRequest req = None \<and> snd (Lookup (s_consumers srv) consumer)")
  case False
  then show ?thesis
    by (auto simp: handleReservationCreate_def create_post_def split: option.splits prod.splits bool.splits)
next
  case True
  then obtain entry where e: "Lookup (s_consumers srv) consumer = (entry, True)"
    by (metis prod.collapse)
  let ?Q = "\<lambda>resp w'. create_post (case reservationName dns uuid header of Inl _ \<Rightarrow> '''' | Inr n \<Rightarrow> n)
    consumer req (objs w) resp (objs w')"
  have "wp (findAdvertisement K (rq_ProviderClusterID req) (rq_ChunkType req)) (\<lambda>f. wp (case f of
      Inl (status, code, msg) \<Rightarrow> State_Monad.return (writeError status code msg)
    | Inr cadv \<Rightarrow> (case reservationName dns uuid header of
        Inl err \<Rightarrow> State_Monad.return (writeError 400 InvalidRequest err)
      | Inr resName \<Rightarrow> admitReservation now K srv consumer entry req resName cadv)) ?Q) w"
  proof (rule wp_mono [OF wp_findAdvertisement], goal_cases)
    case (1 f w1)
    show ?case
    proof (cases f)
      case (Inl x)
      with 1 show ?thesis by (cases x) (auto simp: create_post_def)
    next
      case (Inr a)
      with 1 have a: "adv_at (objs w1) (rq_ProviderClusterID req) = Some a" "m_Name (ca_Meta a) = rq_ProviderClusterID req"
        "objs w1 = objs w" by auto
      with assms have "ledger_wf a" by simp
      with a True validated_one_chunk
      have admit: "wp (admitReservation now K srv consumer entry req n a)
          (\<lambda>resp w'. create_post n consumer req (objs w1) resp (objs w')) w1" for n
        by (intro wp_admitReservation) auto
      show ?thesis
      proof (cases "reservationName dns uuid header")
        case (Inl err)
        then show ?thesis by (simp add: \<open>f = Inr a\<close> create_post_def a)
      next
        case (Inr n)
        then show ?thesis using admit [of n] by (simp add: \<open>f = Inr a\<close> a)
      qed
    qed
  qed
  with True e show ?thesis by (simp add: handleReservationCreate_def)
qed

end


definition exampleServer :: Server where
  "exampleServer = \<lparr>s_sizer = (\<lambda>_. []), s_reservationTimeout = defaultReservationTimeout,
     s_consumers = [(''c'', zero_ConsumerEntry\<lparr>ce_ClusterID := ''c'', ce_LiqoClusterID := ''c''\<rparr>)]\<rparr>"

definition exampleResvReq :: ReservationRequest where
  "exampleResvReq = \<lparr>rq_ProviderClusterID = ''p'', rq_NodeGroupID = '''', rq_ChunkCount = 1,
     rq_ChunkType = ''standard'', rq_Namespaces = []\<rparr>"

abbreviation oneProvider :: memstore where
  "oneProvider \<equiv> exampleWorld [KAdv (exampleAdv ''p'' 3 1)]"

abbreviation exampleCreate :: "memstore \<Rightarrow> ReservationResponse response \<times> memstore" where
  "exampleCreate w \<equiv> run_state (handleReservationCreate 0 memK (\<lambda>_. []) '''' exampleServer ''c'' ''res-1''
     (Inr exampleResvReq)) w"

lemma oneProvider_wf: "adv_at (mem_lookup oneProvider) p = Some a \<Longrightarrow> ledger_wf a"
  by (auto simp: adv_at_def mem_lookup_def exampleWorld_def exampleAdv_def named_meta_def ledger_wf_def is_int32_def
      split: if_splits)


section \<open>Creating: idempotency\<close>

context kube_api
begin

lemma wp_create_existing:
  assumes r: "resv_at (objs w) header = Some r" and h: "header \<noteq> ''''"
  shows "wp (handleReservationCreate now K dns uuid srv consumer header (Inr req)) (\<lambda>resp w'. objs w' = objs w \<and>
    (\<forall>st b. resp = writeJSON st b \<longrightarrow> st = 200 \<and> b = reservationResponseFromCR r)) w"
proof -
  have admit: "wp (admitReservation now K srv consumer entry req header a) (\<lambda>resp w'. objs w' = objs w \<and>
      (\<forall>st b. resp = writeJSON st b \<longrightarrow> st = 200 \<and> b = reservationResponseFromCR r)) w1" if "objs w1 = objs w" for entry a w1
    unfolding admitReservation_def wp_bind by (rule resv.wp_get) (use that r in auto)
  show ?thesis
    unfolding handleReservationCreate_def
    using h by (auto simp: reservationName_def intro!: wp_mono [OF wp_findAdvertisement] admit
        split: option.splits prod.splits bool.splits sum.splits)
qed

end



section \<open>Releasing\<close>

text \<open>
  What a release request for the reservation \<open>n\<close> may do: nothing, or move it to Unpeering and
  credit its provider at most once, marking the reservation only if the credit was written.
\<close>

definition release_post :: "string \<Rightarrow> string \<Rightarrow> store \<Rightarrow> store \<Rightarrow> bool" where
  "release_post caller n s s' \<longleftrightarrow> s' = s \<or> (\<exists>r. resv_at s n = Some r \<and> caller = rs_ConsumerClusterID (rs_Spec r) \<and>
     \<not> alreadyReleased (rs_Phase (rs_Status r)) \<and> (\<forall>m. m \<noteq> n \<longrightarrow> resv_at s' m = resv_at s m) \<and>
     (\<exists>s1. (s1 = s \<or> credited s r s1) \<and> (\<forall>q. adv_at s' q = adv_at s1 q) \<and>
        (\<forall>r'. resv_at s' n = Some r' \<longrightarrow> rs_Spec r' = rs_Spec r \<and> rs_Phase (rs_Status r') = Unpeering \<and>
           (IsChunksReleased r' \<longrightarrow> IsChunksReleased r \<or> credited s r s1))))"

context kube_api
begin

lemma wp_releaseReservation:
  assumes r: "resv_at (objs w) n = Some r" "m_Name (rs_Meta r) = n" "caller = rs_ConsumerClusterID (rs_Spec r)"
    "\<not> alreadyReleased (rs_Phase (rs_Status r))"
  shows "wp (releaseReservation K r) (\<lambda>resp w'. release_post caller n (objs w) (objs w')) w"
  unfolding releaseReservation_def wp_bind
proof (rule resv.wp_status, goal_cases)
  case (1 w1 e)
  then show ?case by (simp add: release_post_def)
next
  case (2 w1 x' cur v)
  have cur: "cur = r" using 2(1) r(1,2) by simp
  define st where "st = (rs_Status r)\<lparr>rs_Phase := Unpeering, rs_Message := text_msg ''release requested by consumer''\<rparr>"
  have w1: "objs w1 = with_resv_status (objs w) n r st v" and x': "m_Name (rs_Meta x') = n"
    using 2 r(2) by (auto simp: with_resv_status_def st_def cur)
  let ?p = "rs_ProviderClusterID (rs_Spec r)" and ?c = "rs_ChunkCount (rs_Spec r)"
  let ?r1 = "r\<lparr>rs_Meta := (rs_Meta r)\<lparr>m_ResourceVersion := v\<rparr>, rs_Status := st\<rparr>"
  have phase: "rs_Phase st = Unpeering" by (simp add: st_def)
  have kept: "IsChunksReleased ?r1 \<longleftrightarrow> IsChunksReleased r" by (simp add: IsChunksReleased_def)
  have "wp (adjustReservedChunks K ?p (- ?c)) (\<lambda>a. wp (case a of
        Inl e \<Rightarrow> State_Monad.return (Inl e) | Inr _ \<Rightarrow> markChunksReleased K (m_Name (rs_Meta x')))
      (\<lambda>_ w'. release_post caller n (objs w) (objs w'))) w1"
  proof (rule wp_adjustReservedChunks, goal_cases)
    case (1 w2 e)
    then show ?case
      using r w1 phase kept by (auto simp: release_post_def intro!: exI [of _ "objs w"])
  next
    case (2 w2 a v2)
    have a: "adv_at (objs w) ?p = Some a" using 2(1) w1 by simp
    define s1 where "s1 = with_adv_status (objs w) ?p a (adjust (- ?c) a) v2"
    have cr: "credited (objs w) r s1" using a by (auto simp: credited_def s1_def)
    have advs: "adv_at (objs w2) q = adv_at s1 q" for q using 2(2) w1 by (simp add: s1_def)
    have rs: "resv_at (objs w2) m = (if m = n then Some ?r1 else resv_at (objs w) m)" for m
      using 2(2) w1 by simp
    show ?case
      unfolding sum.case x'
    proof (rule wp_markChunksReleased, goal_cases)
      case (3 w3 r3 r')
      then show ?case
        using r advs rs cr phase by (auto simp: release_post_def stored_def intro!: exI [of _ s1] split: if_splits)
    qed (use r advs rs cr phase kept in \<open>auto simp: release_post_def intro!: exI [of _ s1]\<close>)
  qed
  then show ?case
    unfolding sum.case wp_bind wp_return .
qed

lemma wp_handleReservationRelease:
  "wp (handleReservationRelease K caller n query) (\<lambda>resp w'. release_post caller n (objs w) (objs w')) w"
  unfolding handleReservationRelease_def wp_bind
proof (rule resv.wp_get, goal_cases)
  case (1 w1 e)
  then show ?case by (simp add: release_post_def)
next
  case (2 w1 r)
  then show ?case
    using wp_releaseReservation [of w1 n r caller]
    by (auto simp: release_post_def [of _ _ _ "objs w"] split: sum.splits)
qed

end

text \<open>
  Releasing. Only the consumer of a reservation can release it, and only while it is not
  already being released or finished. Then the reservation moves to Unpeering, the provider is
  credited with its chunks at most once, and the chunks-released marker is set only if the credit
  was written. In every other case, a second DELETE included, the store stays as it is.
\<close>

theorem reservation_release_effects:
  assumes "kube_api K objs"
    and "run_state (handleReservationRelease K caller n query) w = (resp, w')"
  shows "release_post caller n (objs w) (objs w')"
  using wp_run [OF kube_api.wp_handleReservationRelease [OF assms(1)] assms(2)] .

theorem reservation_release_effects_witness:
  "release_post ''c'' ''r'' (mem_lookup (exampleWorld [KAdv (exampleAdv ''p'' 3 1), KResv (exampleResv ''r'' ''c'' ''p'' Peered)]))
     (mem_lookup (snd (run_state (handleReservationRelease memK ''c'' ''r'' '''')
       (exampleWorld [KAdv (exampleAdv ''p'' 3 1), KResv (exampleResv ''r'' ''c'' ''p'' Peered)]))))"
  by (rule reservation_release_effects [OF mem.kube_api_axioms surjective_pairing])

text \<open>
  The \<^verbatim>\<open>?chunks=\<close> parameter is narrowed to 32 bits after it was range-checked: a request to
  release 4294967296 chunks is read as 0, which means a full release.
\<close>

theorem parseChunksQuery_wraps: "parseChunksQuery ''4294967296'' = Inr 0"
  by code_simp

section \<open>Node groups\<close>

lemma int32_int32_add [simp]: "int32 (int32 a + b) = int32 (a + b)"
  unfolding int32_def by (metis signed_take_bit_add signed_take_bit_signed_take_bit min.idem)

lemma int32_0 [simp]: "int32 0 = 0"
  by (simp add: int32_def)

definition bookedAt :: "string \<Rightarrow> string \<Rightarrow> Reservation \<Rightarrow> bool" where
  "bookedAt consumer p r \<longleftrightarrow> rs_ConsumerClusterID (rs_Spec r) = consumer \<and> rs_ProviderClusterID (rs_Spec r) = p"

definition held :: "Reservation \<Rightarrow> int" where
  "held r = (if ReservationHoldsChunk (rs_Phase (rs_Status r))
     then (if rs_ChunkCount (rs_Spec r) \<le> 0 then 1 else rs_ChunkCount (rs_Spec r)) else 0)"

lemma ownLoop_own:
  "(\<And>q. is_int32 (own q)) \<Longrightarrow>
   fst (ownLoop consumer rs (own, fl)) p = int32 (own p + (\<Sum>r\<leftarrow>filter (bookedAt consumer p) rs. held r))"
proof (induction rs arbitrary: own fl)
  case Nil
  then show ?case by (simp add: int32_id)
next
  case (Cons r rs)
  show ?case
    using Cons.prems by (auto simp: Cons.IH Let_def bookedAt_def held_def add.assoc)
qed

lemma ownLoop_own0:
  "fst (ownLoop consumer rs (\<lambda>_. 0, fl)) p = int32 (\<Sum>r\<leftarrow>filter (bookedAt consumer p) rs. held r)"
  by (simp add: ownLoop_own is_int32_def)

lemma ownLoop_inFlight:
  "snd (ownLoop consumer rs (own, fl)) p \<longleftrightarrow> fl p \<or>
     (\<exists>r\<in>set rs. bookedAt consumer p r \<and> ReservationInFlight (rs_Phase (rs_Status r)))"
  by (induction rs arbitrary: own fl) (auto simp: bookedAt_def Let_def)

lemma projectView_own:
  "ng_CurrentReserved (projectView Q sizer (Some own) a) = own (ca_ClusterID (ca_Spec a)) \<and>
   ng_ProviderClusterID (projectView Q sizer (Some own) a) = ca_ClusterID (ca_Spec a) \<and>
   ng_MaxSize (projectView Q sizer (Some own) a) = int32 (own (ca_ClusterID (ca_Spec a)) +
     max (int32 (ca_TotalChunks (ca_Status a) - ca_ReservedChunks (ca_Status a))) 0)"
  by (simp add: projectView_def ownView_def nodeGroupView_def Let_def split: prod.splits)

lemma narrows_frame:
  "narrows p v \<Longrightarrow> ng_CurrentReserved v = ng_CurrentReserved p \<and> ng_ProviderClusterID v = ng_ProviderClusterID p \<and>
     (ng_MaxSize v = ng_MaxSize p \<or> ng_MaxSize v = ng_CurrentReserved p)"
  by (cases p; cases v) (auto simp: narrows_def)

context kube_api
begin

lemma wp_handleNodeGroupsList:
  "wp (handleNodeGroupsList Q intn now K srv consumer) (\<lambda>resp w'. objs w' = objs w \<and> (\<forall>st b. resp = writeJSON st b \<longrightarrow>
    (\<exists>rs. distinct (map (\<lambda>r. m_Name (rs_Meta r)) rs) \<and>
    (\<forall>r. r \<in> set rs \<longleftrightarrow> resv_at (objs w) (m_Name (rs_Meta r)) = Some r) \<and>
    (\<forall>v\<in>set (nl_NodeGroups b). \<exists>a. adv_at (objs w) (m_Name (ca_Meta a)) = Some a \<and> ca_Available (ca_Status a) \<and>
       ng_ProviderClusterID v = ca_ClusterID (ca_Spec a) \<and>
       ng_CurrentReserved v = int32 (\<Sum>r\<leftarrow>filter (bookedAt consumer (ca_ClusterID (ca_Spec a))) rs. held r) \<and>
       (ng_MaxSize v = ng_CurrentReserved v \<or> ng_MaxSize v = int32 (ng_CurrentReserved v +
          max (int32 (ca_TotalChunks (ca_Status a) - ca_ReservedChunks (ca_Status a))) 0)))))) w"
  unfolding handleNodeGroupsList_def wp_bind
proof (rule adv.wp_list, goal_cases)
  case advs: (2 w1 advs)
  show ?case
    unfolding sum.case ownByProvider_def wp_bind wp_return
  proof (rule resv.wp_list, goal_cases)
    case (2 w2 rs)
    obtain own fl where o: "ownLoop consumer rs (\<lambda>_. 0, \<lambda>_. False) = (own, fl)" by fastforce
    then have own: "own p = int32 (\<Sum>r\<leftarrow>filter (bookedAt consumer p) rs. held r)" for p
      using ownLoop_own0 [of consumer rs "\<lambda>_. False" p] by simp
    define inp where "inp = \<lparr>in_Advertisements = map Some advs, in_Consumer = fst (Lookup (s_consumers srv) consumer),
       in_InFlight = fl, in_OwnReserved = Some own, in_Sizer = Some (s_sizer srv)\<rparr>"
    obtain vs where vs: "nl_NodeGroups (BuildNodeGroups Q intn now inp) = sort_key (\<lambda>v. (ng_ProviderClusterID v, ng_Type v)) vs"
      "list_all2 (\<lambda>a v. narrows (projectView Q (s_sizer srv) (Some own) a) v) (availableAds (map Some advs)) vs"
      using buildNodeGroups_views [of Q intn now inp] unfolding inp_def by auto
    have "\<exists>a. adv_at (objs w) (m_Name (ca_Meta a)) = Some a \<and> ca_Available (ca_Status a) \<and>
       ng_ProviderClusterID v = ca_ClusterID (ca_Spec a) \<and>
       ng_CurrentReserved v = int32 (\<Sum>r\<leftarrow>filter (bookedAt consumer (ca_ClusterID (ca_Spec a))) rs. held r) \<and>
       (ng_MaxSize v = ng_CurrentReserved v \<or> ng_MaxSize v = int32 (ng_CurrentReserved v +
          max (int32 (ca_TotalChunks (ca_Status a) - ca_ReservedChunks (ca_Status a))) 0))" if "v \<in> set vs" for v
    proof -
      from vs(2) that obtain a where "a \<in> set (availableAds (map Some advs))"
        and n: "narrows (projectView Q (s_sizer srv) (Some own) a) v"
        by (metis in_set_conv_nth list_all2_conv_all_nth)
      then have "a \<in> set advs" "ca_Available (ca_Status a)"
        by (auto simp: availableAds_def map_filter_def)
      with advs narrows_frame [OF n] projectView_own [of Q "s_sizer srv" own a] own show ?thesis by auto
    qed
    then show ?case
      using 2 advs(1) vs(1) o by (auto simp: inp_def)
  qed (use advs in simp)
qed simp

end

text \<open>
  What a consumer sees. Every node group served to a consumer belongs to an available
  provider; its current size is the number of chunks this consumer, and no other, holds there
  according to the stored reservations, and its maximum is that size, or that size plus the
  chunks the provider has free. Serving the list changes nothing.
\<close>

theorem nodegroups_show_own_chunks:
  assumes "kube_api K objs"
    and "run_state (handleNodeGroupsList Q intn now K srv consumer) w = (writeJSON st b, w')"
  shows "objs w' = objs w \<and> (\<exists>rs. distinct (map (\<lambda>r. m_Name (rs_Meta r)) rs) \<and>
    (\<forall>r. r \<in> set rs \<longleftrightarrow> resv_at (objs w) (m_Name (rs_Meta r)) = Some r) \<and>
    (\<forall>v\<in>set (nl_NodeGroups b). \<exists>a. adv_at (objs w) (m_Name (ca_Meta a)) = Some a \<and> ca_Available (ca_Status a) \<and>
       ng_ProviderClusterID v = ca_ClusterID (ca_Spec a) \<and>
       ng_CurrentReserved v = int32 (\<Sum>r\<leftarrow>filter (bookedAt consumer (ca_ClusterID (ca_Spec a))) rs. held r) \<and>
       (ng_MaxSize v = ng_CurrentReserved v \<or> ng_MaxSize v = int32 (ng_CurrentReserved v +
          max (int32 (ca_TotalChunks (ca_Status a) - ca_ReservedChunks (ca_Status a))) 0))))"
  using wp_run [OF kube_api.wp_handleNodeGroupsList [OF assms(1)] assms(2)] by simp

theorem nodegroups_show_own_chunks_witness:
  "\<exists>b w'. run_state (handleNodeGroupsList exactQ (\<lambda>_ _. 0) 0 memK exampleServer ''c'') oneProvider = (writeJSON 200 b, w') \<and>
     mem_lookup w' = mem_lookup oneProvider"
proof -
  obtain b w' where run: "run_state (handleNodeGroupsList exactQ (\<lambda>_ _. 0) 0 memK exampleServer ''c'') oneProvider =
      (writeJSON 200 b, w')"
    by (simp add: handleNodeGroupsList_def ownByProvider_def typed_ops mem_defs exampleWorld_def oks_def map_filter_def
        exampleAdv_def named_meta_def)
  from nodegroups_show_own_chunks [OF mem.kube_api_axioms run] run show ?thesis by blast
qed

lemma distinct_sort_key_map:
  "distinct (map f xs) \<Longrightarrow> distinct (map f (sort_key f xs))"
  by (metis distinct_map distinct_sort set_sort)

context kube_api
begin

lemma wp_handleReservationList:
  "wp (handleReservationList K caller) (\<lambda>resp w'. objs w' = objs w \<and> (\<forall>st b. resp = writeJSON st b \<longrightarrow>
    sorted (map ro_ReservationID (rl_Reservations b)) \<and> distinct (map ro_ReservationID (rl_Reservations b)) \<and>
    set (rl_Reservations b) = {reservationResponseFromCR r | r. rs_ConsumerClusterID (rs_Spec r) = caller \<and>
      resv_at (objs w) (m_Name (rs_Meta r)) = Some r})) w"
  unfolding handleReservationList_def wp_bind wp_return
proof (rule resv.wp_list, goal_cases)
  case (2 w1 rs)
  have id: "ro_ReservationID \<circ> reservationResponseFromCR = (\<lambda>r. m_Name (rs_Meta r))"
    by (simp add: reservationResponseFromCR_def fun_eq_iff)
  have "distinct (map ro_ReservationID (map reservationResponseFromCR
      (filter (\<lambda>x. rs_ConsumerClusterID (rs_Spec x) = caller) rs)))"
    using 2(2) by (simp add: id distinct_map_filter)
  from distinct_sort_key_map [OF this] show ?case using 2(1,3) by auto
qed simp

end

text \<open>
  Listing. A consumer is served exactly its own reservations, in every phase, sorted by
  name and each once; nothing changes.
\<close>

theorem reservation_list_own:
  assumes "kube_api K objs"
    and "run_state (handleReservationList K caller) w = (writeJSON st b, w')"
  shows "objs w' = objs w \<and> sorted (map ro_ReservationID (rl_Reservations b)) \<and>
    distinct (map ro_ReservationID (rl_Reservations b)) \<and>
    set (rl_Reservations b) = {reservationResponseFromCR r | r. rs_ConsumerClusterID (rs_Spec r) = caller \<and>
      resv_at (objs w) (m_Name (rs_Meta r)) = Some r}"
  using wp_run [OF kube_api.wp_handleReservationList [OF assms(1)] assms(2)] by simp

theorem reservation_list_own_witness:
  "\<exists>b w'. run_state (handleReservationList memK ''c'') oneProvider = (writeJSON 200 b, w') \<and>
     mem_lookup w' = mem_lookup oneProvider"
proof -
  obtain b w' where run: "run_state (handleReservationList memK ''c'') oneProvider = (writeJSON 200 b, w')"
    by (simp add: handleReservationList_def typed_ops mem_defs exampleWorld_def oks_def map_filter_def)
  from reservation_list_own [OF mem.kube_api_axioms run] run show ?thesis by blast
qed

end
