(* ===== verification/InstructionController.thy ===== *)
theory InstructionController
  imports Instructions
begin

text \<open>
  \<^verbatim>\<open>internal/controller/autoscaling/instruction.go\<close> and the reconcilers of the two instruction
  kinds: housekeeping of the work queue. An instruction is stamped when first seen, deleted some
  time after it was enforced, and when its deadline passes first, its reservation is failed and
  the instruction deleted.
\<close>

section \<open>Shared bookkeeping\<close>

text \<open>\<^verbatim>\<open>ctrl.Result\<close>: nothing more to do, reconcile again at once, or after a time.\<close>

datatype ctrlResult = NoRequeue | Requeue | RequeueAfter Duration

definition DefaultEnforcedTTL :: Duration where
  "DefaultEnforcedTTL = 5 * 60 * 10 ^ 9"

definition enforcedTTL :: "Duration \<Rightarrow> Duration" where
  "enforcedTTL d = (if d > 0 then d else DefaultEnforcedTTL)"

definition enforcedExpired :: "Time \<Rightarrow> Duration \<Rightarrow> InstructionStatus \<Rightarrow> bool" where
  "enforcedExpired now ttl st =
    (case is_LastUpdateTime st of None \<Rightarrow> False | Some t \<Rightarrow> now - t \<ge> ttl)"

fun isTerminalPhase :: "ReservationPhase \<Rightarrow> bool" where
  "isTerminalPhase Released = True"
| "isTerminalPhase Expired = True"
| "isTerminalPhase Failed = True"
| "isTerminalPhase _ = False"

definition failParentReservationOnExpiry :: "'w kube \<Rightarrow> string \<Rightarrow> string \<Rightarrow> ('w, kerr + unit) state" where
  "failParentReservationOnExpiry K reservationID instructionName =
    (if reservationID = '''' then State_Monad.return (Inr ())
     else do {
       r \<leftarrow> GetResv K reservationID;
       (case r of
          Inl e \<Rightarrow> State_Monad.return (if e = KNotFound then Inr () else Inl e)
        | Inr resv \<Rightarrow>
            if isTerminalPhase (rs_Phase (rs_Status resv)) then State_Monad.return (Inr ())
            else do {
              u \<leftarrow> StatusUpdateResv K (resv\<lparr>rs_Status := (rs_Status resv)
                \<lparr>rs_Phase := Failed,
                 rs_Message := Sprintf ''instruction %q expired before enforcement'' [AStr instructionName],
                 rs_ObservedGeneration := m_Generation (rs_Meta resv)\<rparr>\<rparr>);
              State_Monad.return (case u of Inl e \<Rightarrow> Inl e | Inr _ \<Rightarrow> Inr ()) }) })"

text \<open>The zero time, which the code uses for \<open>no deadline\<close>, is \<open>None\<close>.\<close>

definition instructionWakeup :: "Time \<Rightarrow> Time option \<Rightarrow> InstructionStatus \<Rightarrow> Duration \<Rightarrow> Duration" where
  "instructionWakeup now expiresAt st ttl =
    (let wake = (if is_Enforced st then map_option (\<lambda>t. t + ttl) (is_LastUpdateTime st) else None);
         wake = (case expiresAt of
             Some e \<Rightarrow> if \<not> is_Enforced st \<and> (case wake of None \<Rightarrow> True | Some t \<Rightarrow> e < t) then Some e else wake
           | None \<Rightarrow> wake)
     in case wake of None \<Rightarrow> 0 | Some t \<Rightarrow> if t \<le> now then 0 else t - now)"

definition wakeResult :: "Duration \<Rightarrow> ctrlResult" where
  "wakeResult d = (if d = 0 then NoRequeue else RequeueAfter d)"

definition ignoreNotFound :: "kerr + unit \<Rightarrow> kerr + ctrlResult" where
  "ignoreNotFound r = (case r of Inl e \<Rightarrow> if e = KNotFound then Inr NoRequeue else Inl e | Inr _ \<Rightarrow> Inr NoRequeue)"

definition expiredAt :: "Time \<Rightarrow> Time option \<Rightarrow> bool" where
  "expiredAt now expiresAt = (case expiresAt of None \<Rightarrow> False | Some e \<Rightarrow> e \<le> now)"

section \<open>The reconcilers\<close>

definition reconcileProviderInstruction :: "Time \<Rightarrow> Duration \<Rightarrow> 'w kube \<Rightarrow> string \<Rightarrow> ('w, kerr + ctrlResult) state" where
  "reconcileProviderInstruction now enforcedDur K name = do {
     g \<leftarrow> GetPI K name;
     (case g of
        Inl e \<Rightarrow> State_Monad.return (ignoreNotFound (Inl e))
      | Inr p \<Rightarrow>
         if is_IssuedAt (pi_Status p) = None then do {
           u \<leftarrow> StatusUpdatePI K (p\<lparr>pi_Status := (pi_Status p)
                  \<lparr>is_IssuedAt := Some now, is_ObservedGeneration := m_Generation (pi_Meta p)\<rparr>\<rparr>);
           State_Monad.return (case u of Inl e \<Rightarrow> Inl e | Inr _ \<Rightarrow> Inr Requeue) }
         else if is_Enforced (pi_Status p) \<and> enforcedExpired now (enforcedTTL enforcedDur) (pi_Status p) then do {
           d \<leftarrow> k_Delete K (PIKind, m_Name (pi_Meta p));
           State_Monad.return (ignoreNotFound d) }
         else if \<not> is_Enforced (pi_Status p) \<and> expiredAt now (pi_ExpiresAt (pi_Spec p)) then do {
           f \<leftarrow> failParentReservationOnExpiry K (pi_ReservationID (pi_Spec p)) (m_Name (pi_Meta p));
           (case f of
              Inl e \<Rightarrow> State_Monad.return (Inl e)
            | Inr _ \<Rightarrow> do { d \<leftarrow> k_Delete K (PIKind, m_Name (pi_Meta p)); State_Monad.return (ignoreNotFound d) }) }
         else State_Monad.return (Inr (wakeResult
           (instructionWakeup now (pi_ExpiresAt (pi_Spec p)) (pi_Status p) (enforcedTTL enforcedDur)))))
   }"

definition reconcileReservationInstruction :: "Time \<Rightarrow> Duration \<Rightarrow> 'w kube \<Rightarrow> string \<Rightarrow> ('w, kerr + ctrlResult) state" where
  "reconcileReservationInstruction now enforcedDur K name = do {
     g \<leftarrow> GetRI K name;
     (case g of
        Inl e \<Rightarrow> State_Monad.return (ignoreNotFound (Inl e))
      | Inr q \<Rightarrow>
         if is_IssuedAt (ri_Status q) = None then do {
           u \<leftarrow> StatusUpdateRI K (q\<lparr>ri_Status := (ri_Status q)
                  \<lparr>is_IssuedAt := Some now, is_ObservedGeneration := m_Generation (ri_Meta q)\<rparr>\<rparr>);
           State_Monad.return (case u of Inl e \<Rightarrow> Inl e | Inr _ \<Rightarrow> Inr Requeue) }
         else if is_Enforced (ri_Status q) \<and> enforcedExpired now (enforcedTTL enforcedDur) (ri_Status q) then do {
           d \<leftarrow> k_Delete K (RIKind, m_Name (ri_Meta q));
           State_Monad.return (ignoreNotFound d) }
         else if \<not> is_Enforced (ri_Status q) \<and> expiredAt now (ri_ExpiresAt (ri_Spec q)) then do {
           f \<leftarrow> failParentReservationOnExpiry K (ri_ReservationID (ri_Spec q)) (m_Name (ri_Meta q));
           (case f of
              Inl e \<Rightarrow> State_Monad.return (Inl e)
            | Inr _ \<Rightarrow> do { d \<leftarrow> k_Delete K (RIKind, m_Name (ri_Meta q)); State_Monad.return (ignoreNotFound d) }) }
         else State_Monad.return (Inr (wakeResult
           (instructionWakeup now (ri_ExpiresAt (ri_Spec q)) (ri_Status q) (enforcedTTL enforcedDur)))))
   }"

section \<open>Properties\<close>

text \<open>The phase move of an expired instruction.\<close>

definition expiry_effect :: "string \<Rightarrow> string \<Rightarrow> ReservationPhase \<Rightarrow> ReservationPhase \<Rightarrow> bool" where
  "expiry_effect resv n a b \<longleftrightarrow> n = resv \<and> \<not> isTerminalPhase a \<and> b = Failed"

context kube_api
begin

lemma wp_failParent:
  "wp (failParentReservationOnExpiry K n i) (\<lambda>r w'. phase_change (expiry_effect n) (objs w) (objs w') \<and>
     (\<forall>m. pi_at (objs w') m = pi_at (objs w) m) \<and> (\<forall>m. ri_at (objs w') m = ri_at (objs w) m) \<and>
     (r = Inr () \<and> n \<noteq> '''' \<longrightarrow> (\<forall>x. resv_at (objs w') n = Some x \<longrightarrow> isTerminalPhase (rs_Phase (rs_Status x))))) w"
proof (cases "n = ''''")
  case False
  then show ?thesis
    unfolding failParentReservationOnExpiry_def wp_bind if_not_P [OF False]
  proof (intro resv.wp_get, goal_cases)
    case (2 w1 r)
    show ?case
    proof (cases "isTerminalPhase (rs_Phase (rs_Status r))")
      case True
      with 2 show ?thesis by simp
    next
      case nt: False
      show ?thesis
        unfolding sum.case if_not_P [OF nt] wp_bind wp_return
      proof (rule resv.wp_status, goal_cases)
        case (2 w2 x' cur v)
        then have "objs w2 = with_resv_status (objs w) n r ((rs_Status r)\<lparr>rs_Phase := Failed,
            rs_Message := Sprintf ''instruction %q expired before enforcement'' [AStr i],
            rs_ObservedGeneration := m_Generation (rs_Meta r)\<rparr>) v"
          using \<open>objs w1 = objs w\<close> \<open>resv_at (objs w) n = Some r\<close> \<open>m_Name (rs_Meta r) = n\<close>
          by (auto simp: with_resv_status_def)
        moreover have "phase_change (expiry_effect n) (objs w) \<dots>"
          by (rule phase_change_resv [OF \<open>resv_at (objs w) n = Some r\<close>]) (simp add: expiry_effect_def nt)
        ultimately show ?case by simp
      qed (use 2 in simp)
    qed
  qed auto
qed (simp add: failParentReservationOnExpiry_def)

lemma wp_reconcilePI:
  assumes p: "pi_at (objs w) n = Some p"
  shows "wp (reconcileProviderInstruction now d K n) (\<lambda>r w'.
    phase_change (expiry_effect (pi_ReservationID (pi_Spec p))) (objs w) (objs w') \<and>
    (\<not> (is_Enforced (pi_Status p) \<and> enforcedExpired now (enforcedTTL d) (pi_Status p)) \<and>
     \<not> (\<not> is_Enforced (pi_Status p) \<and> expiredAt now (pi_ExpiresAt (pi_Spec p))) \<longrightarrow>
       (\<forall>m. resv_at (objs w') m = resv_at (objs w) m) \<and>
       (\<exists>p'. pi_at (objs w') n = Some p' \<and> pi_Spec p' = pi_Spec p \<and>
          is_Enforced (pi_Status p') = is_Enforced (pi_Status p)))) w"
  unfolding reconcileProviderInstruction_def wp_bind
proof (rule pi.wp_get, goal_cases)
  case (1 w1 e)
  then show ?case using p by (auto simp: ignoreNotFound_def)
next
  case (2 w1 x)
  then have x: "x = p" "m_Name (pi_Meta p) = n" "objs w1 = objs w" using p by auto
  show ?case
    unfolding sum.case x(1)
    using x p by (auto intro!: pi.wp_status pi.wp_delete wp_mono [OF wp_failParent] split: sum.splits)
qed

lemma wp_reconcileRI:
  assumes q: "ri_at (objs w) n = Some q"
  shows "wp (reconcileReservationInstruction now d K n) (\<lambda>r w'.
    phase_change (expiry_effect (ri_ReservationID (ri_Spec q))) (objs w) (objs w') \<and>
    (\<not> (is_Enforced (ri_Status q) \<and> enforcedExpired now (enforcedTTL d) (ri_Status q)) \<and>
     \<not> (\<not> is_Enforced (ri_Status q) \<and> expiredAt now (ri_ExpiresAt (ri_Spec q))) \<longrightarrow>
       (\<forall>m. resv_at (objs w') m = resv_at (objs w) m) \<and>
       (\<exists>q'. ri_at (objs w') n = Some q' \<and> ri_Spec q' = ri_Spec q \<and>
          is_Enforced (ri_Status q') = is_Enforced (ri_Status q)))) w"
  unfolding reconcileReservationInstruction_def wp_bind
proof (rule ri.wp_get, goal_cases)
  case (1 w1 e)
  then show ?case using q by (auto simp: ignoreNotFound_def)
next
  case (2 w1 x)
  then have x: "x = q" "m_Name (ri_Meta q) = n" "objs w1 = objs w" using q by auto
  show ?case
    unfolding sum.case x(1)
    using x q by (auto intro!: ri.wp_status ri.wp_delete wp_mono [OF wp_failParent] split: sum.splits)
qed

end

text \<open>
  Housekeeping loses no open work. Reconciling an instruction that is neither past its
  deadline unenforced nor enforced for longer than the grace period keeps it stored, with the
  same content and enforcement, and touches no reservation. In every case the only reservation
  it may move is the one the instruction names, from a live phase to Failed.
\<close>

theorem instruction_housekeeping:
  assumes "kube_api K objs"
    and "pi_at (objs w) n = Some p" and "run_state (reconcileProviderInstruction now d K n) w = (r, w1)"
    and "ri_at (objs w) n' = Some q" and "run_state (reconcileReservationInstruction now d K n') w = (r', w2)"
  shows "phase_change (expiry_effect (pi_ReservationID (pi_Spec p))) (objs w) (objs w1) \<and>
    phase_change (expiry_effect (ri_ReservationID (ri_Spec q))) (objs w) (objs w2) \<and>
    (\<not> is_Enforced (pi_Status p) \<and> \<not> expiredAt now (pi_ExpiresAt (pi_Spec p)) \<longrightarrow>
       (\<exists>p'. pi_at (objs w1) n = Some p' \<and> pi_Spec p' = pi_Spec p \<and> \<not> is_Enforced (pi_Status p'))) \<and>
    (\<not> is_Enforced (ri_Status q) \<and> \<not> expiredAt now (ri_ExpiresAt (ri_Spec q)) \<longrightarrow>
       (\<exists>q'. ri_at (objs w2) n' = Some q' \<and> ri_Spec q' = ri_Spec q \<and> \<not> is_Enforced (ri_Status q'))) \<and>
    (is_Enforced (pi_Status p) \<and> \<not> enforcedExpired now (enforcedTTL d) (pi_Status p) \<longrightarrow>
       (\<exists>p'. pi_at (objs w1) n = Some p' \<and> is_Enforced (pi_Status p'))) \<and>
    (is_Enforced (ri_Status q) \<and> \<not> enforcedExpired now (enforcedTTL d) (ri_Status q) \<longrightarrow>
       (\<exists>q'. ri_at (objs w2) n' = Some q' \<and> is_Enforced (ri_Status q')))"
  using wp_run [OF kube_api.wp_reconcilePI [OF assms(1,2)] assms(3)]
    wp_run [OF kube_api.wp_reconcileRI [OF assms(1,4)] assms(5)] by blast

definition openWork :: memstore where
  "openWork = exampleWorld [KPI (examplePI ''gk-c-p'' PIGenerateKubeconfig ''p'' ''c'' ''r''),
     KRI (exampleRI ''peer-r'' RIPeer ''c'' ''p'' ''r'')]"

lemma openWork_at:
  "pi_at (mem_lookup openWork) ''gk-c-p'' = Some (examplePI ''gk-c-p'' PIGenerateKubeconfig ''p'' ''c'' ''r'')"
  "ri_at (mem_lookup openWork) ''peer-r'' = Some (exampleRI ''peer-r'' RIPeer ''c'' ''p'' ''r'')"
  by (simp_all add: openWork_def exampleWorld_def mem_lookup_def at_defs examplePI_def exampleRI_def named_meta_def
      kobj_key_def)

theorem instruction_housekeeping_witness:
  "\<exists>p q. pi_at (mem_lookup (snd (run_state (reconcileProviderInstruction 0 0 memK ''gk-c-p'') openWork))) ''gk-c-p'' = Some p \<and>
     ri_at (mem_lookup (snd (run_state (reconcileReservationInstruction 0 0 memK ''peer-r'') openWork))) ''peer-r'' = Some q"
  using instruction_housekeeping [OF mem.kube_api_axioms openWork_at(1) surjective_pairing openWork_at(2) surjective_pairing,
      of 0 0] by (auto simp: examplePI_def exampleRI_def zero_InstructionStatus_def expiredAt_def)

text \<open>
  Waking up. The reconciler asks to be woken exactly at the instruction's next deadline: its
  expiry while it is not enforced, the end of its grace period once it is; with no deadline, or
  one that has passed, it asks for nothing.
\<close>

theorem instructionWakeup_deadline:
  "instructionWakeup now expiresAt st ttl =
    (case (if is_Enforced st then map_option (\<lambda>t. t + ttl) (is_LastUpdateTime st) else expiresAt) of
       None \<Rightarrow> 0
     | Some deadline \<Rightarrow> max (deadline - now) 0)"
  by (auto simp: instructionWakeup_def Let_def split: option.splits)

end
