(* ===== verification/ReservationController.thy ===== *)
theory ReservationController
  imports InstructionController Advertisement
begin

text \<open>
  \<^verbatim>\<open>internal/controller/broker/reservation_controller.go\<close>: the reconciler that drives a Reservation
  through its phases, emits the instructions for the agents, reference-counts the peering
  credential that the reservations of a (consumer, provider) pair share, and credits chunks back.
  One call of \<open>reconcileReservation\<close> is one run of \<^verbatim>\<open>Reconcile\<close>; \<open>now\<close> is the wall clock of the
  run. Owner references, finalizers and the API server are those of theory Kube.
\<close>

section \<open>Configuration and names\<close>

definition ReservationFinalizer :: string where
  "ReservationFinalizer = ''broker.federation-autoscaler.io/release-chunks''"

record ReservationReconciler =
  rc_TerminalTTL :: Duration
  rc_GKResyncInterval :: Duration
  rc_ReservationTimeout :: Duration

definition DefaultTerminalReservationTTL :: Duration where
  "DefaultTerminalReservationTTL = 15 * 60 * 10 ^ 9"

definition terminalTTL :: "ReservationReconciler \<Rightarrow> Duration" where
  "terminalTTL c = (if rc_TerminalTTL c > 0 then rc_TerminalTTL c else DefaultTerminalReservationTTL)"

definition DefaultReservationTimeout :: Duration where
  "DefaultReservationTimeout = 24 * 3600 * 10 ^ 9"

definition reservationTimeout :: "ReservationReconciler \<Rightarrow> Duration" where
  "reservationTimeout c = (if rc_ReservationTimeout c > 0 then rc_ReservationTimeout c else DefaultReservationTimeout)"

definition DefaultGKResyncInterval :: Duration where
  "DefaultGKResyncInterval = 5 * 10 ^ 9"

definition gkResync :: "ReservationReconciler \<Rightarrow> Duration" where
  "gkResync c = (if rc_GKResyncInterval c > 0 then rc_GKResyncInterval c else DefaultGKResyncInterval)"

definition peeringCredentialKey :: "string \<Rightarrow> string \<Rightarrow> string" where
  "peeringCredentialKey consumerClusterID providerClusterID = consumerClusterID @ ''-'' @ providerClusterID"

definition providerInstructionGKName :: "string \<Rightarrow> string \<Rightarrow> string" where
  "providerInstructionGKName c p = ''gk-'' @ peeringCredentialKey c p"

definition reservationInstructionPeerName :: "string \<Rightarrow> string" where
  "reservationInstructionPeerName n = ''peer-'' @ n"

definition reservationInstructionUnpeerName :: "string \<Rightarrow> string" where
  "reservationInstructionUnpeerName n = ''unpeer-'' @ n"

definition reservationInstructionCleanupName :: "string \<Rightarrow> string" where
  "reservationInstructionCleanupName n = ''cleanup-'' @ n"

definition providerInstructionCleanupName :: "string \<Rightarrow> string \<Rightarrow> string" where
  "providerInstructionCleanupName c p = ''pcleanup-'' @ peeringCredentialKey c p"

text \<open>The controller's own copy of \<^verbatim>\<open>kubeconfigSecretName\<close>.\<close>

definition controllerSecretName :: "string \<Rightarrow> string \<Rightarrow> string" where
  "controllerSecretName c p = ''kubeconfig-'' @ peeringCredentialKey c p"

abbreviation secretFor :: "Reservation \<Rightarrow> string" where
  "secretFor r \<equiv> controllerSecretName (rs_ConsumerClusterID (rs_Spec r)) (rs_ProviderClusterID (rs_Spec r))"

section \<open>Helpers\<close>

fun isReservationTerminal :: "ReservationPhase \<Rightarrow> bool" where
  "isReservationTerminal Released = True"
| "isReservationTerminal Expired = True"
| "isReservationTerminal Failed = True"
| "isReservationTerminal _ = False"

fun needsConsumerCleanup :: "ReservationPhase \<Rightarrow> bool" where
  "needsConsumerCleanup Peering = True"
| "needsConsumerCleanup Peered = True"
| "needsConsumerCleanup _ = False"

definition advancePhase :: "'w kube \<Rightarrow> Reservation \<Rightarrow> ReservationPhase \<Rightarrow> message \<Rightarrow> ('w, kerr + unit) state" where
  "advancePhase K resv nxt msg =
    (if rs_Phase (rs_Status resv) = nxt then State_Monad.return (Inr ())
     else do {
       u \<leftarrow> StatusUpdateResv K (resv\<lparr>rs_Status := (rs_Status resv)
         \<lparr>rs_Phase := nxt, rs_Message := msg, rs_ObservedGeneration := m_Generation (rs_Meta resv)\<rparr>\<rparr>);
       State_Monad.return (case u of Inl e \<Rightarrow> Inl e | Inr _ \<Rightarrow> Inr ()) })"

text \<open>\<^verbatim>\<open>ensureInstruction\<close> is only ever called with ReservationInstructions.\<close>

definition ensureInstruction :: "'w kube \<Rightarrow> Reservation \<Rightarrow> ReservationInstruction \<Rightarrow> ('w, gerr + unit) state" where
  "ensureInstruction K resv q =
    (case k_SetControllerReference K (rs_Meta resv) (ri_Meta q) of
       Inl e \<Rightarrow> State_Monad.return (Inl (Wrap ''set controller reference'' (KubeErr e)))
     | Inr m \<Rightarrow> do {
         c \<leftarrow> CreateRI K (q\<lparr>ri_Meta := m\<rparr>);
         State_Monad.return (case c of
           Inl e \<Rightarrow> if e = KAlreadyExists then Inr () else Inl (KubeErr e)
         | Inr _ \<Rightarrow> Inr ()) })"

text \<open>\<^verbatim>\<open>ensureSharedInstruction\<close>, one definition per case of its type test.\<close>

definition ensureSharedReservationInstruction :: "'w kube \<Rightarrow> ReservationInstruction \<Rightarrow> ('w, gerr + unit) state" where
  "ensureSharedReservationInstruction K q = do {
     c \<leftarrow> CreateRI K q;
     State_Monad.return (case c of
       Inl e \<Rightarrow> if e = KAlreadyExists then Inr () else Inl (KubeErr e)
     | Inr _ \<Rightarrow> Inr ()) }"

definition rearmedStatus :: "Time \<Rightarrow> InstructionStatus \<Rightarrow> InstructionStatus" where
  "rearmedStatus now st = st\<lparr>is_Enforced := False, is_Attempts := 0, is_IssuedAt := Some now,
     is_LastUpdateTime := Some now, is_LastDeliveredAt := None,
     is_Message := text_msg ''re-armed for a new (consumer, provider) cycle''\<rparr>"

definition ensureSharedProviderInstruction :: "Time \<Rightarrow> 'w kube \<Rightarrow> ProviderInstruction \<Rightarrow> ('w, gerr + unit) state" where
  "ensureSharedProviderInstruction now K p = do {
     c \<leftarrow> CreatePI K p;
     (case c of
        Inr _ \<Rightarrow> State_Monad.return (Inr ())
      | Inl e \<Rightarrow>
          if e \<noteq> KAlreadyExists then State_Monad.return (Inl (KubeErr e))
          else do {
            g \<leftarrow> GetPI K (m_Name (pi_Meta p));
            (case g of
               Inl e \<Rightarrow> State_Monad.return (Inl (KubeErr e))
             | Inr existing \<Rightarrow>
                 if \<not> is_Enforced (pi_Status existing) then State_Monad.return (Inr ())
                 else do {
                   u \<leftarrow> UpdatePI K (existing\<lparr>pi_Spec := pi_Spec p\<rparr>);
                   (case u of
                      Inl e \<Rightarrow> State_Monad.return (Inl (KubeErr e))
                    | Inr existing \<Rightarrow> do {
                        s \<leftarrow> StatusUpdatePI K (existing\<lparr>pi_Status := rearmedStatus now (pi_Status existing)\<rparr>);
                        State_Monad.return (case s of Inl e \<Rightarrow> Inl (KubeErr e) | Inr _ \<Rightarrow> Inr ()) }) }) }) }"

definition kubeconfigSecretExists :: "'w kube \<Rightarrow> Reservation \<Rightarrow> ('w, kerr + bool) state" where
  "kubeconfigSecretExists K resv = do {
     g \<leftarrow> GetSecret K (secretFor resv);
     State_Monad.return (case g of
       Inl e \<Rightarrow> if e = KNotFound then Inr False else Inl e
     | Inr _ \<Rightarrow> Inr True) }"

definition deleteKubeconfigSecret :: "'w kube \<Rightarrow> Reservation \<Rightarrow> ('w, kerr + unit) state" where
  "deleteKubeconfigSecret K resv = do {
     d \<leftarrow> k_Delete K (SecretKind, secretFor resv);
     State_Monad.return (case d of
       Inl e \<Rightarrow> if e = KNotFound then Inr () else Inl e
     | Inr _ \<Rightarrow> Inr ()) }"

definition isSibling :: "Reservation \<Rightarrow> (ReservationPhase \<Rightarrow> bool) \<Rightarrow> Reservation \<Rightarrow> bool" where
  "isSibling resv counts other \<longleftrightarrow> m_Name (rs_Meta other) \<noteq> m_Name (rs_Meta resv) \<and>
     rs_ConsumerClusterID (rs_Spec other) = rs_ConsumerClusterID (rs_Spec resv) \<and>
     rs_ProviderClusterID (rs_Spec other) = rs_ProviderClusterID (rs_Spec resv) \<and>
     m_DeletionTimestamp (rs_Meta other) = None \<and> counts (rs_Phase (rs_Status other))"

definition anyOtherSibling :: "'w kube \<Rightarrow> Reservation \<Rightarrow> (ReservationPhase \<Rightarrow> bool) \<Rightarrow> ('w, kerr + bool) state" where
  "anyOtherSibling K resv counts = do {
     l \<leftarrow> ListResv K;
     State_Monad.return (case l of Inl e \<Rightarrow> Inl e | Inr items \<Rightarrow> Inr (list_ex (isSibling resv counts) items)) }"

definition activePhase :: "ReservationPhase \<Rightarrow> bool" where
  "activePhase p \<longleftrightarrow> \<not> isReservationTerminal p"

definition holdingPhase :: "ReservationPhase \<Rightarrow> bool" where
  "holdingPhase p \<longleftrightarrow> \<not> isReservationTerminal p \<and> p \<noteq> Unpeering"

definition hasOtherActiveReservation :: "'w kube \<Rightarrow> Reservation \<Rightarrow> ('w, kerr + bool) state" where
  "hasOtherActiveReservation K resv = anyOtherSibling K resv activePhase"

definition hasOtherHoldingReservation :: "'w kube \<Rightarrow> Reservation \<Rightarrow> ('w, kerr + bool) state" where
  "hasOtherHoldingReservation K resv = anyOtherSibling K resv holdingPhase"

text \<open>The ReservationInstructions the reconciler builds.\<close>

definition newRI :: "Reservation \<Rightarrow> string \<Rightarrow> ReservationInstructionKind \<Rightarrow> bool \<Rightarrow> string \<Rightarrow> Time option \<Rightarrow>
    ReservationInstruction" where
  "newRI resv name kind lastChunk kubeconfigRef expiresAt =
    \<lparr>ri_Meta = named_meta name,
     ri_Spec = \<lparr>ri_ReservationID = m_Name (rs_Meta resv), ri_Kind = kind,
       ri_TargetClusterID = rs_ConsumerClusterID (rs_Spec resv),
       ri_ProviderClusterID = rs_ProviderClusterID (rs_Spec resv),
       ri_ProviderLiqoClusterID = rs_ProviderLiqoClusterID (rs_Spec resv), ri_ResourceSliceNames = [],
       ri_ChunkCount = rs_ChunkCount (rs_Spec resv), ri_LastChunk = lastChunk,
       ri_KubeconfigRef = kubeconfigRef, ri_ExpiresAt = expiresAt\<rparr>,
     ri_Status = zero_InstructionStatus\<rparr>"

definition newPI :: "Reservation \<Rightarrow> string \<Rightarrow> ProviderInstructionKind \<Rightarrow> Time option \<Rightarrow> ProviderInstruction" where
  "newPI resv name kind expiresAt =
    \<lparr>pi_Meta = named_meta name,
     pi_Spec = \<lparr>pi_ReservationID = m_Name (rs_Meta resv), pi_Kind = kind,
       pi_TargetClusterID = rs_ProviderClusterID (rs_Spec resv),
       pi_ConsumerClusterID = rs_ConsumerClusterID (rs_Spec resv),
       pi_ConsumerLiqoClusterID = rs_ConsumerLiqoClusterID (rs_Spec resv),
       pi_ChunkCount = rs_ChunkCount (rs_Spec resv), pi_LastChunk = False, pi_ExpiresAt = expiresAt\<rparr>,
     pi_Status = zero_InstructionStatus\<rparr>"

definition emitConsumerCleanup :: "'w kube \<Rightarrow> Reservation \<Rightarrow> bool \<Rightarrow> ('w, gerr + unit) state" where
  "emitConsumerCleanup K resv owned = do {
     h \<leftarrow> hasOtherHoldingReservation K resv;
     (case h of
        Inl e \<Rightarrow> State_Monad.return (Inl (Wrap ''check sibling reservations'' (KubeErr e)))
      | Inr other \<Rightarrow>
         (let q = newRI resv (reservationInstructionCleanupName (m_Name (rs_Meta resv))) RICleanup (\<not> other) '''' None
          in if owned then ensureInstruction K resv q else ensureSharedReservationInstruction K q)) }"

definition ensureCleanupInstruction :: "'w kube \<Rightarrow> Reservation \<Rightarrow> ('w, gerr + unit) state" where
  "ensureCleanupInstruction K resv = emitConsumerCleanup K resv True"

definition ensureConsumerCleanupShared :: "'w kube \<Rightarrow> Reservation \<Rightarrow> ('w, gerr + unit) state" where
  "ensureConsumerCleanupShared K resv = emitConsumerCleanup K resv False"

definition ensureProviderCleanupInstruction :: "Time \<Rightarrow> 'w kube \<Rightarrow> Reservation \<Rightarrow> ('w, gerr + unit) state" where
  "ensureProviderCleanupInstruction now K resv = ensureSharedProviderInstruction now K
     (newPI resv (providerInstructionCleanupName (rs_ConsumerClusterID (rs_Spec resv)) (rs_ProviderClusterID (rs_Spec resv)))
        PICleanup None)"

section \<open>Guards\<close>

text \<open>\<^verbatim>\<open>ensureExpiry\<close> updates the reservation in place; the new value is returned.\<close>

definition expiryStatus :: "ReservationReconciler \<Rightarrow> Reservation \<Rightarrow> ReservationStatus" where
  "expiryStatus c resv =
    (let createdAt = (case rs_CreatedAt (rs_Status resv) of Some t \<Rightarrow> t | None \<Rightarrow> m_CreationTimestamp (rs_Meta resv))
     in (rs_Status resv)\<lparr>rs_CreatedAt := Some createdAt, rs_ExpiresAt := Some (createdAt + reservationTimeout c),
          rs_ObservedGeneration := (if rs_ObservedGeneration (rs_Status resv) = 0 then m_Generation (rs_Meta resv)
                                    else rs_ObservedGeneration (rs_Status resv))\<rparr>)"

definition ensureExpiry :: "ReservationReconciler \<Rightarrow> 'w kube \<Rightarrow> Reservation \<Rightarrow> ('w, kerr + Reservation) state" where
  "ensureExpiry c K resv =
    (if rs_ExpiresAt (rs_Status resv) \<noteq> None then State_Monad.return (Inr resv)
     else StatusUpdateResv K (resv\<lparr>rs_Status := expiryStatus c resv\<rparr>))"

definition checkExpired :: "Time \<Rightarrow> 'w kube \<Rightarrow> Reservation \<Rightarrow> ('w, bool \<times> Duration) state" where
  "checkExpired now K resv =
    (case rs_ExpiresAt (rs_Status resv) of
       None \<Rightarrow> State_Monad.return (False, 0)
     | Some expiresAt \<Rightarrow>
        if isReservationTerminal (rs_Phase (rs_Status resv)) then State_Monad.return (False, 0)
        else if expiresAt > now then State_Monad.return (False, expiresAt - now)
        else do {
          _ \<leftarrow> advancePhase K resv Expired (Sprintf ''reservation timeout elapsed at %s'' [ATime expiresAt]);
          State_Monad.return (True, 0) })"

text \<open>The provider is gone: queue the consumer's cleanup if it had begun peering, then fail.\<close>

definition abandonReservation :: "'w kube \<Rightarrow> Reservation \<Rightarrow> message \<Rightarrow> ('w, gerr + bool) state" where
  "abandonReservation K resv msg = do {
     c \<leftarrow> (if needsConsumerCleanup (rs_Phase (rs_Status resv)) then ensureCleanupInstruction K resv
           else State_Monad.return (Inr ()));
     (case c of
        Inl e \<Rightarrow> State_Monad.return (Inl (Wrap ''ensure Cleanup instruction'' e))
      | Inr _ \<Rightarrow> do {
          a \<leftarrow> advancePhase K resv Failed msg;
          State_Monad.return (case a of Inl e \<Rightarrow> Inl (KubeErr e) | Inr _ \<Rightarrow> Inr True) }) }"

definition checkProviderAvailable :: "'w kube \<Rightarrow> Reservation \<Rightarrow> ('w, gerr + bool) state" where
  "checkProviderAvailable K resv =
    (if isReservationTerminal (rs_Phase (rs_Status resv)) \<or> rs_Phase (rs_Status resv) = Unpeering then
       State_Monad.return (Inr False)
     else do {
       g \<leftarrow> GetAdv K (rs_ProviderClusterID (rs_Spec resv));
       (case g of
          Inr cadv \<Rightarrow>
            if ca_Available (ca_Status cadv) then State_Monad.return (Inr False)
            else abandonReservation K resv (Sprintf ''provider %q advertisement no longer available''
                   [AStr (rs_ProviderClusterID (rs_Spec resv))])
        | Inl e \<Rightarrow>
            if e \<noteq> KNotFound then State_Monad.return (Inl (Wrap ''get ClusterAdvertisement'' (KubeErr e)))
            else abandonReservation K resv (Sprintf ''provider %q advertisement no longer exists''
                   [AStr (rs_ProviderClusterID (rs_Spec resv))])) })"

section \<open>Phase handlers\<close>

definition handlePending :: "Time \<Rightarrow> 'w kube \<Rightarrow> Reservation \<Rightarrow> ('w, gerr + ctrlResult) state" where
  "handlePending now K resv = do {
     x \<leftarrow> kubeconfigSecretExists K resv;
     (case x of
        Inl e \<Rightarrow> State_Monad.return (Inl (Wrap ''check kubeconfig secret'' (KubeErr e)))
      | Inr exists \<Rightarrow>
         if exists then do {
           a \<leftarrow> advancePhase K resv KubeconfigReady (text_msg ''reusing cached peering-user kubeconfig'');
           State_Monad.return (case a of Inl e \<Rightarrow> Inl (KubeErr e) | Inr _ \<Rightarrow> Inr NoRequeue) }
         else do {
           i \<leftarrow> ensureSharedProviderInstruction now K (newPI resv
                  (providerInstructionGKName (rs_ConsumerClusterID (rs_Spec resv)) (rs_ProviderClusterID (rs_Spec resv)))
                  PIGenerateKubeconfig (rs_ExpiresAt (rs_Status resv)));
           (case i of
              Inl e \<Rightarrow> State_Monad.return (Inl (Wrap ''ensure GenerateKubeconfig instruction'' e))
            | Inr _ \<Rightarrow> do {
                a \<leftarrow> advancePhase K resv GeneratingKubeconfig
                       (text_msg ''queued GenerateKubeconfig instruction for provider'');
                State_Monad.return (case a of Inl e \<Rightarrow> Inl (KubeErr e) | Inr _ \<Rightarrow> Inr NoRequeue) }) }) }"

definition handleGeneratingKubeconfig :: "ReservationReconciler \<Rightarrow> 'w kube \<Rightarrow> Reservation \<Rightarrow>
    ('w, gerr + ctrlResult) state" where
  "handleGeneratingKubeconfig c K resv = do {
     x \<leftarrow> kubeconfigSecretExists K resv;
     (case x of
        Inl e \<Rightarrow> State_Monad.return (Inl (Wrap ''check kubeconfig secret'' (KubeErr e)))
      | Inr exists \<Rightarrow>
         if \<not> exists then State_Monad.return (Inr (RequeueAfter (gkResync c)))
         else do {
           a \<leftarrow> advancePhase K resv KubeconfigReady (text_msg ''peering-user kubeconfig delivered'');
           State_Monad.return (case a of Inl e \<Rightarrow> Inl (KubeErr e) | Inr _ \<Rightarrow> Inr NoRequeue) }) }"

definition handleKubeconfigReady :: "'w kube \<Rightarrow> Reservation \<Rightarrow> ('w, gerr + ctrlResult) state" where
  "handleKubeconfigReady K resv = do {
     i \<leftarrow> ensureInstruction K resv (newRI resv (reservationInstructionPeerName (m_Name (rs_Meta resv))) RIPeer False
            (secretFor resv) (rs_ExpiresAt (rs_Status resv)));
     (case i of
        Inl e \<Rightarrow> State_Monad.return (Inl (Wrap ''ensure Peer instruction'' e))
      | Inr _ \<Rightarrow> do {
          a \<leftarrow> advancePhase K resv Peering (text_msg ''queued Peer instruction for consumer'');
          State_Monad.return (case a of Inl e \<Rightarrow> Inl (KubeErr e) | Inr _ \<Rightarrow> Inr NoRequeue) }) }"

definition handleUnpeering :: "'w kube \<Rightarrow> Reservation \<Rightarrow> ('w, gerr + ctrlResult) state" where
  "handleUnpeering K resv = do {
     h \<leftarrow> hasOtherHoldingReservation K resv;
     (case h of
        Inl e \<Rightarrow> State_Monad.return (Inl (Wrap ''check sibling reservations'' (KubeErr e)))
      | Inr other \<Rightarrow> do {
          i \<leftarrow> ensureInstruction K resv (newRI resv (reservationInstructionUnpeerName (m_Name (rs_Meta resv)))
                 RIUnpeer (\<not> other) '''' None);
          State_Monad.return (case i of Inl e \<Rightarrow> Inl (Wrap ''ensure Unpeer instruction'' e) | Inr _ \<Rightarrow> Inr NoRequeue) }) }"

text \<open>
  The last part of \<^verbatim>\<open>handleTerminal\<close>: consumer cleanup, and the teardown of the shared credential
  once no sibling needs it.
\<close>

definition teardownCredential :: "Time \<Rightarrow> ReservationReconciler \<Rightarrow> 'w kube \<Rightarrow> Reservation \<Rightarrow> Duration \<Rightarrow>
    ('w, gerr + ctrlResult) state" where
  "teardownCredential now c K resv gcRequeue = do {
     cl \<leftarrow> ensureConsumerCleanupShared K resv;
     (case cl of
        Inl e \<Rightarrow> State_Monad.return (Inl (Wrap ''ensure consumer Cleanup'' e))
      | Inr _ \<Rightarrow> do {
          h \<leftarrow> hasOtherActiveReservation K resv;
          (case h of
             Inl e \<Rightarrow> State_Monad.return (Inl (Wrap ''check sibling reservations'' (KubeErr e)))
           | Inr others \<Rightarrow>
              if others then State_Monad.return (Inr (RequeueAfter (gkResync c)))
              else do {
                i \<leftarrow> ensureProviderCleanupInstruction now K resv;
                (case i of
                   Inl e \<Rightarrow> State_Monad.return (Inl (Wrap ''ensure ProviderInstruction Cleanup'' e))
                 | Inr _ \<Rightarrow> do {
                     d \<leftarrow> deleteKubeconfigSecret K resv;
                     State_Monad.return (case d of
                       Inl e \<Rightarrow> Inl (Wrap ''delete staging kubeconfig secret'' (KubeErr e))
                     | Inr _ \<Rightarrow> Inr (RequeueAfter gcRequeue)) }) }) }) }"

text \<open>The middle part: credit the chunks unless that is done, then see whether a credential exists.\<close>

definition settleTerminal :: "Time \<Rightarrow> ReservationReconciler \<Rightarrow> 'w kube \<Rightarrow> Reservation \<Rightarrow> Duration \<Rightarrow>
    ('w, gerr + ctrlResult) state" where
  "settleTerminal now c K resv gcRequeue = do {
     rel \<leftarrow> (if IsChunksReleased resv then State_Monad.return (Inr ()) else releaseChunks K resv);
     (case rel of
        Inl e \<Rightarrow> State_Monad.return (Inl (Wrap ''release chunks'' e))
      | Inr _ \<Rightarrow> do {
          x \<leftarrow> kubeconfigSecretExists K resv;
          (case x of
             Inl e \<Rightarrow> State_Monad.return (Inl (Wrap ''check kubeconfig secret'' (KubeErr e)))
           | Inr exists \<Rightarrow>
              if \<not> exists then State_Monad.return (Inr (RequeueAfter gcRequeue))
              else teardownCredential now c K resv gcRequeue) }) }"

definition gcRequeueAfter :: "Time \<Rightarrow> ReservationReconciler \<Rightarrow> Time \<Rightarrow> Duration" where
  "gcRequeueAfter now c terminatedAt = max (terminalTTL c - (now - terminatedAt)) (gkResync c)"

definition handleTerminal :: "Time \<Rightarrow> ReservationReconciler \<Rightarrow> 'w kube \<Rightarrow> Reservation \<Rightarrow>
    ('w, gerr + ctrlResult) state" where
  "handleTerminal now c K resv =
    (case rs_TerminatedAt (rs_Status resv) of
       None \<Rightarrow> do {
         u \<leftarrow> StatusUpdateResv K (resv\<lparr>rs_Status := (rs_Status resv)\<lparr>rs_TerminatedAt := Some now\<rparr>\<rparr>);
         (case u of
            Inl e \<Rightarrow> State_Monad.return (Inl (Wrap ''stamp terminatedAt'' (KubeErr e)))
          | Inr resv \<Rightarrow> settleTerminal now c K resv (gcRequeueAfter now c now)) }
     | Some terminatedAt \<Rightarrow>
         if now - terminatedAt \<ge> terminalTTL c then do {
           d \<leftarrow> k_Delete K (ResvKind, m_Name (rs_Meta resv));
           State_Monad.return (case d of
             Inl e \<Rightarrow> if e = KNotFound then Inr NoRequeue else Inl (KubeErr e)
           | Inr _ \<Rightarrow> Inr NoRequeue) }
         else settleTerminal now c K resv (gcRequeueAfter now c terminatedAt))"

definition dropFinalizer :: "'w kube \<Rightarrow> Reservation \<Rightarrow> unit + Reservation" where
  "dropFinalizer K fresh = (case k_RemoveFinalizer K (rs_Meta fresh) ReservationFinalizer of
     (m, removed) \<Rightarrow> if \<not> removed then Inl () else Inr (fresh\<lparr>rs_Meta := m\<rparr>))"

text \<open>The end of \<^verbatim>\<open>handleDeletion\<close>: remove the finalizer, retrying on conflicts.\<close>

definition finalizeReservation :: "'w kube \<Rightarrow> Reservation \<Rightarrow> ('w, gerr + ctrlResult) state" where
  "finalizeReservation K resv = do {
     r \<leftarrow> casLoop 3 (GetResv K (m_Name (rs_Meta resv))) (dropFinalizer K) (UpdateResv K);
     State_Monad.return (case r of
         GetFailed e \<Rightarrow> if e = KNotFound then Inr NoRequeue else Inl (KubeErr e)
       | Stopped _ \<Rightarrow> Inr NoRequeue
       | WriteFailed e \<Rightarrow> Inl (Wrap ''remove finalizer'' (KubeErr e))
       | Exhausted \<Rightarrow> Inl (Errorf (text_msg ''exhausted conflict retries removing finalizer''))
       | Written _ \<Rightarrow> Inr NoRequeue) }"

definition handleDeletion :: "'w kube \<Rightarrow> Reservation \<Rightarrow> ('w, gerr + ctrlResult) state" where
  "handleDeletion K resv =
    (if \<not> k_ContainsFinalizer K (rs_Meta resv) ReservationFinalizer then State_Monad.return (Inr NoRequeue)
     else do {
       rel \<leftarrow> (if IsChunksReleased resv then State_Monad.return (Inr ()) else releaseChunks K resv);
       (case rel of
          Inl e \<Rightarrow> State_Monad.return (Inl (Wrap ''release chunks on delete'' e))
        | Inr _ \<Rightarrow> do {
            cl \<leftarrow> ensureConsumerCleanupShared K resv;
            (case cl of
               Inl e \<Rightarrow> State_Monad.return (Inl (Wrap ''ensure consumer cleanup on delete'' e))
             | Inr _ \<Rightarrow> finalizeReservation K resv) }) })"

section \<open>Reconcile\<close>

definition dispatch :: "Time \<Rightarrow> ReservationReconciler \<Rightarrow> 'w kube \<Rightarrow> Reservation \<Rightarrow> ('w, gerr + ctrlResult) state" where
  "dispatch now c K resv =
    (case rs_Phase (rs_Status resv) of
       PhaseEmpty \<Rightarrow> handlePending now K resv
     | Pending \<Rightarrow> handlePending now K resv
     | GeneratingKubeconfig \<Rightarrow> handleGeneratingKubeconfig c K resv
     | KubeconfigReady \<Rightarrow> handleKubeconfigReady K resv
     | Unpeering \<Rightarrow> handleUnpeering K resv
     | Released \<Rightarrow> handleTerminal now c K resv
     | Failed \<Rightarrow> handleTerminal now c K resv
     | Expired \<Rightarrow> handleTerminal now c K resv
     | _ \<Rightarrow> State_Monad.return (Inr NoRequeue))"

text \<open>The guards in their order, then the dispatch on the phase.\<close>

definition reconcileLive :: "Time \<Rightarrow> ReservationReconciler \<Rightarrow> 'w kube \<Rightarrow> Reservation \<Rightarrow> ('w, gerr + ctrlResult) state" where
  "reconcileLive now c K resv = do {
     x \<leftarrow> ensureExpiry c K resv;
     (case x of
        Inl e \<Rightarrow> State_Monad.return (Inl (Wrap ''backfill reservation expiry'' (KubeErr e)))
      | Inr resv \<Rightarrow> do {
          ex \<leftarrow> checkExpired now K resv;
          (case ex of
             (True, requeue) \<Rightarrow> State_Monad.return (Inr (wakeResult requeue))
           | (False, _) \<Rightarrow> do {
               av \<leftarrow> checkProviderAvailable K resv;
               (case av of
                  Inl e \<Rightarrow> State_Monad.return (Inl e)
                | Inr True \<Rightarrow> State_Monad.return (Inr NoRequeue)
                | Inr False \<Rightarrow> dispatch now c K resv) }) }) }"

definition reconcileReservation :: "Time \<Rightarrow> ReservationReconciler \<Rightarrow> 'w kube \<Rightarrow> string \<Rightarrow>
    ('w, gerr + ctrlResult) state" where
  "reconcileReservation now c K name = do {
     g \<leftarrow> GetResv K name;
     (case g of
        Inl e \<Rightarrow> State_Monad.return (if e = KNotFound then Inr NoRequeue else Inl (KubeErr e))
      | Inr resv \<Rightarrow>
         if m_DeletionTimestamp (rs_Meta resv) \<noteq> None then handleDeletion K resv
         else (case k_AddFinalizer K (rs_Meta resv) ReservationFinalizer of
             (m, True) \<Rightarrow> do {
               u \<leftarrow> UpdateResv K (resv\<lparr>rs_Meta := m\<rparr>);
               (case u of
                  Inl e \<Rightarrow> State_Monad.return (Inl (Wrap ''add finalizer'' (KubeErr e)))
                | Inr resv \<Rightarrow> reconcileLive now c K resv) }
           | (_, False) \<Rightarrow> reconcileLive now c K resv)) }"

definition requestsForAdvertisement :: "'w kube \<Rightarrow> ClusterAdvertisement \<Rightarrow> ('w, string list) state" where
  "requestsForAdvertisement K cadv = do {
     l \<leftarrow> ListResv K;
     State_Monad.return (case l of
       Inl _ \<Rightarrow> []
     | Inr items \<Rightarrow> map (\<lambda>r. m_Name (rs_Meta r)) (filter (\<lambda>r. rs_ProviderClusterID (rs_Spec r) = m_Name (ca_Meta cadv) \<and>
         \<not> isReservationTerminal (rs_Phase (rs_Status r))) items)) }"

end
