(* ===== verification/ReservationMachine.thy ===== *)
theory ReservationMachine
  imports ReservationController
begin

text \<open>
  What one run of the Reservation reconciler may do. The store it starts from and the
  reservation it reads are fixed; \<open>prepared\<close> describes every store the run goes through before
  it moves the phase, and \<open>handled\<close> the stores it can end in. The call rules of theory Kube carry
  each handler from \<open>prepared\<close> to \<open>handled\<close>.
\<close>

section \<open>The promises of a run\<close>

text \<open>The phases the reconciler moves a reservation to.\<close>

fun controllerMoves :: "ReservationPhase \<Rightarrow> ReservationPhase list" where
  "controllerMoves PhaseEmpty = [GeneratingKubeconfig, KubeconfigReady, Failed, Expired]"
| "controllerMoves Pending = [GeneratingKubeconfig, KubeconfigReady, Failed, Expired]"
| "controllerMoves GeneratingKubeconfig = [KubeconfigReady, Failed, Expired]"
| "controllerMoves KubeconfigReady = [Peering, Failed, Expired]"
| "controllerMoves Peering = [Failed, Expired]"
| "controllerMoves Peered = [Failed, Expired]"
| "controllerMoves Unpeering = [Expired]"
| "controllerMoves _ = []"

abbreviation phaseOf :: "Reservation \<Rightarrow> ReservationPhase" where
  "phaseOf r \<equiv> rs_Phase (rs_Status r)"

abbreviation nameOf :: "Reservation \<Rightarrow> string" where
  "nameOf r \<equiv> m_Name (rs_Meta r)"

abbreviation deleting :: "Reservation \<Rightarrow> bool" where
  "deleting r \<equiv> m_DeletionTimestamp (rs_Meta r) \<noteq> None"

abbreviation gkNameFor :: "Reservation \<Rightarrow> string" where
  "gkNameFor r \<equiv> providerInstructionGKName (rs_ConsumerClusterID (rs_Spec r)) (rs_ProviderClusterID (rs_Spec r))"

abbreviation pcleanupNameFor :: "Reservation \<Rightarrow> string" where
  "pcleanupNameFor r \<equiv> providerInstructionCleanupName (rs_ConsumerClusterID (rs_Spec r)) (rs_ProviderClusterID (rs_Spec r))"

text \<open>Another reservation of the same consumer and provider that counts.\<close>

definition hasSibling :: "(ReservationPhase \<Rightarrow> bool) \<Rightarrow> store \<Rightarrow> Reservation \<Rightarrow> bool" where
  "hasSibling counts s r \<longleftrightarrow> (\<exists>m other. resv_at s m = Some other \<and> isSibling r counts other)"

text \<open>When a reservation object may be removed.\<close>

definition removable :: "Time \<Rightarrow> ReservationReconciler \<Rightarrow> Reservation \<Rightarrow> bool" where
  "removable now c r \<longleftrightarrow> deleting r \<or> isReservationTerminal (phaseOf r) \<and>
     (\<exists>t. rs_TerminatedAt (rs_Status r) = Some t \<and> terminalTTL c \<le> now - t)"

text \<open>The instructions a run may emit.\<close>

definition emittedRI :: "store \<Rightarrow> Reservation \<Rightarrow> string \<Rightarrow> ReservationInstruction \<Rightarrow> bool" where
  "emittedRI s r m q \<longleftrightarrow> \<not> is_Enforced (ri_Status q) \<and>
    (m = reservationInstructionPeerName (nameOf r) \<and> phaseOf r = KubeconfigReady \<and>
       (\<exists>e. ri_Spec q = ri_Spec (newRI r m RIPeer False (secretFor r) e)) \<or>
     m = reservationInstructionUnpeerName (nameOf r) \<and> phaseOf r = Unpeering \<and>
       ri_Spec q = ri_Spec (newRI r m RIUnpeer (\<not> hasSibling holdingPhase s r) '''' None) \<or>
     m = reservationInstructionCleanupName (nameOf r) \<and>
       (needsConsumerCleanup (phaseOf r) \<or> isReservationTerminal (phaseOf r) \<or> deleting r) \<and>
       ri_Spec q = ri_Spec (newRI r m RICleanup (\<not> hasSibling holdingPhase s r) '''' None))"

definition emittedPI :: "store \<Rightarrow> Reservation \<Rightarrow> string \<Rightarrow> ProviderInstruction \<Rightarrow> bool" where
  "emittedPI s r m p \<longleftrightarrow>
     m = gkNameFor r \<and> phaseOf r \<in> {PhaseEmpty, Pending} \<and>
        (\<exists>e. pi_Spec p = pi_Spec (newPI r m PIGenerateKubeconfig e)) \<or>
      m = pcleanupNameFor r \<and> isReservationTerminal (phaseOf r) \<and> \<not> hasSibling activePhase s r \<and>
        pi_Spec p = pi_Spec (newPI r m PICleanup None)"

text \<open>Each part of the store against the start of the run.\<close>

definition own_ok :: "Time \<Rightarrow> ReservationReconciler \<Rightarrow> store \<Rightarrow> Reservation \<Rightarrow> store \<Rightarrow> bool" where
  "own_ok now c s0 r s \<longleftrightarrow> (\<forall>m. m \<noteq> nameOf r \<longrightarrow> resv_at s m = resv_at s0 m) \<and>
     (case resv_at s (nameOf r) of
        None \<Rightarrow> removable now c r
      | Some r' \<Rightarrow> rs_Spec r' = rs_Spec r \<and> phaseOf r' = phaseOf r \<and> nameOf r' = nameOf r \<and>
          (IsChunksReleased r \<longrightarrow> IsChunksReleased r') \<and> (deleting r' \<longrightarrow> removable now c r))"

definition ledger_ok :: "store \<Rightarrow> Reservation \<Rightarrow> store \<Rightarrow> bool" where
  "ledger_ok s0 r s \<longleftrightarrow> (\<forall>m. adv_at s m = adv_at s0 m) \<or>
     \<not> IsChunksReleased r \<and> (isReservationTerminal (phaseOf r) \<or> deleting r) \<and>
       (\<exists>s1. credited s0 r s1 \<and> (\<forall>m. adv_at s m = adv_at s1 m))"

definition secrets_ok :: "store \<Rightarrow> Reservation \<Rightarrow> store \<Rightarrow> bool" where
  "secrets_ok s0 r s \<longleftrightarrow> (\<forall>m. secret_at s m = secret_at s0 m \<or>
     m = secretFor r \<and> isReservationTerminal (phaseOf r) \<and> \<not> hasSibling activePhase s0 r)"

definition queue_ok :: "store \<Rightarrow> Reservation \<Rightarrow> store \<Rightarrow> bool" where
  "queue_ok s0 r s \<longleftrightarrow>
     (\<forall>m. ri_at s m = ri_at s0 m \<or> ri_at s0 m = None \<and> (\<exists>q. ri_at s m = Some q \<and> emittedRI s0 r m q)) \<and>
     (\<forall>m. pi_at s m = pi_at s0 m \<or> (\<forall>p. pi_at s0 m = Some p \<longrightarrow> is_Enforced (pi_Status p)) \<and>
        (\<forall>p. pi_at s m = Some p \<longrightarrow> emittedPI s0 r m p))"

definition prepared :: "Time \<Rightarrow> ReservationReconciler \<Rightarrow> store \<Rightarrow> Reservation \<Rightarrow> store \<Rightarrow> bool" where
  "prepared now c s0 r s \<longleftrightarrow> own_ok now c s0 r s \<and> ledger_ok s0 r s \<and> secrets_ok s0 r s \<and> queue_ok s0 r s"

text \<open>Why a run may move the reservation to a phase: what has been done or seen before.\<close>

definition justified :: "Time \<Rightarrow> store \<Rightarrow> Reservation \<Rightarrow> store \<Rightarrow> ReservationStatus \<Rightarrow> bool" where
  "justified now s0 r s st \<longleftrightarrow> rs_Phase st \<in> set (controllerMoves (phaseOf r)) \<and>
     (rs_Phase st = GeneratingKubeconfig \<longrightarrow>
        (\<exists>p. pi_at s (gkNameFor r) = Some p \<and> \<not> is_Enforced (pi_Status p))) \<and>
     (rs_Phase st = KubeconfigReady \<longrightarrow> secret_at s0 (secretFor r) \<noteq> None) \<and>
     (rs_Phase st = Peering \<longrightarrow> ri_at s (reservationInstructionPeerName (nameOf r)) \<noteq> None) \<and>
     (rs_Phase st = Failed \<longrightarrow>
        (\<forall>a. adv_at s0 (rs_ProviderClusterID (rs_Spec r)) = Some a \<longrightarrow> \<not> ca_Available (ca_Status a)) \<and>
        (needsConsumerCleanup (phaseOf r) \<longrightarrow> ri_at s (reservationInstructionCleanupName (nameOf r)) \<noteq> None)) \<and>
     (rs_Phase st = Expired \<longrightarrow> (\<exists>t. rs_ExpiresAt st = Some t \<and> t \<le> now))"

definition handled :: "Time \<Rightarrow> ReservationReconciler \<Rightarrow> store \<Rightarrow> Reservation \<Rightarrow> store \<Rightarrow> bool" where
  "handled now c s0 r s \<longleftrightarrow> prepared now c s0 r s \<or>
     (\<exists>s1 r1 st v. prepared now c s0 r s1 \<and> resv_at s1 (nameOf r) = Some r1 \<and>
        justified now s0 r s1 st \<and> s = with_resv_status s1 (nameOf r) r1 st v)"

lemma handled_prepared: "prepared now c s0 r s \<Longrightarrow> handled now c s0 r s"
  by (simp add: handled_def)

section \<open>Writes that keep the promises\<close>

lemma prepared_refl:
  "resv_at s (nameOf r) = Some r \<Longrightarrow> prepared now c s r s"
  by (simp add: prepared_def own_ok_def ledger_ok_def secrets_ok_def queue_ok_def removable_def)

text \<open>Writing the reservation itself, without moving its phase.\<close>

lemma prepared_own:
  assumes "prepared now c s0 r s"
    and "v = None \<Longrightarrow> removable now c r"
    and "\<And>y. v = Some y \<Longrightarrow> \<exists>r'. y = KResv r' \<and> rs_Spec r' = rs_Spec r \<and> phaseOf r' = phaseOf r \<and>
      nameOf r' = nameOf r \<and> (IsChunksReleased r \<longrightarrow> IsChunksReleased r') \<and> (deleting r' \<longrightarrow> removable now c r)"
  shows "prepared now c s0 r (s((ResvKind, nameOf r) := v))"
proof (cases v)
  case None
  with assms show ?thesis
    by (simp add: prepared_def own_ok_def ledger_ok_def secrets_ok_def queue_ok_def)
next
  case (Some y)
  with assms(1) assms(3) [OF Some] show ?thesis
    by (auto simp: prepared_def own_ok_def ledger_ok_def secrets_ok_def queue_ok_def)
qed

lemma prepared_ri:
  "prepared now c s0 r s \<Longrightarrow> ri_at s m = None \<Longrightarrow> emittedRI s0 r m q \<Longrightarrow>
   prepared now c s0 r (s((RIKind, m) \<mapsto> KRI q))"
  unfolding prepared_def own_ok_def ledger_ok_def secrets_ok_def queue_ok_def
  by (simp, metis option.distinct(1))

lemma prepared_pi:
  assumes "prepared now c s0 r s" and "\<And>p. pi_at s m = Some p \<Longrightarrow> is_Enforced (pi_Status p)"
    and "\<And>p. v = Some (KPI p) \<Longrightarrow> emittedPI s0 r m p"
  shows "prepared now c s0 r (s((PIKind, m) := v))"
proof -
  have "is_Enforced (pi_Status p)" if "pi_at s0 m = Some p" for p
    using assms(1,2) that by (auto simp: prepared_def queue_ok_def) metis
  with assms show ?thesis
    unfolding prepared_def own_ok_def ledger_ok_def secrets_ok_def queue_ok_def
    by (simp add: pi_at_def split: option.splits kobj.splits)
qed

lemma prepared_secret:
  "prepared now c s0 r s \<Longrightarrow> isReservationTerminal (phaseOf r) \<Longrightarrow> \<not> hasSibling activePhase s0 r \<Longrightarrow>
   prepared now c s0 r (s((SecretKind, secretFor r) := v))"
  unfolding prepared_def own_ok_def ledger_ok_def secrets_ok_def queue_ok_def by (simp, blast)

lemma prepared_credit:
  assumes "prepared now c s0 r s" and "\<forall>m. adv_at s m = adv_at s0 m" and "credited s r' s'"
    and "rs_Spec r' = rs_Spec r" and "\<not> IsChunksReleased r"
    and "isReservationTerminal (phaseOf r) \<or> deleting r"
  shows "prepared now c s0 r s'"
proof (cases "adv_at s (rs_ProviderClusterID (rs_Spec r))")
  case None
  with assms show ?thesis by (simp add: credited_def)
next
  case (Some a)
  with assms(3,4) obtain v where s': "s' = with_adv_status s (rs_ProviderClusterID (rs_Spec r)) a
      (adjust (- rs_ChunkCount (rs_Spec r)) a) v"
    by (auto simp: credited_def)
  let ?s1 = "with_adv_status s0 (rs_ProviderClusterID (rs_Spec r)) a (adjust (- rs_ChunkCount (rs_Spec r)) a) v"
  have "credited s0 r ?s1" "\<forall>m. adv_at s' m = adv_at ?s1 m"
    using Some assms(2) by (auto simp: credited_def s')
  with assms have "ledger_ok s0 r s'" by (auto simp: ledger_ok_def)
  with assms(1) show ?thesis
    by (simp add: prepared_def own_ok_def secrets_ok_def queue_ok_def s')
qed

text \<open>The value of the reservation that the handlers pass on.\<close>

definition agrees :: "Reservation \<Rightarrow> Reservation \<Rightarrow> bool" where
  "agrees r x \<longleftrightarrow> nameOf x = nameOf r \<and> rs_Spec x = rs_Spec r \<and> phaseOf x = phaseOf r \<and>
     (IsChunksReleased r \<longrightarrow> IsChunksReleased x)"

lemma agrees_new:
  assumes "agrees r x"
  shows "newRI x = newRI r" "newPI x = newPI r" "isSibling x = isSibling r"
  using assms by (simp_all add: agrees_def newRI_def newPI_def isSibling_def fun_eq_iff)

text \<open>A change of the work queue alone.\<close>

definition queue_only :: "store \<Rightarrow> store \<Rightarrow> bool" where
  "queue_only s s' \<longleftrightarrow> (\<forall>m. adv_at s' m = adv_at s m \<and> secret_at s' m = secret_at s m \<and>
     resv_at s' m = resv_at s m)"

lemma queue_only_refl [simp]: "queue_only s s"
  by (simp add: queue_only_def)

lemma queue_only_trans: "queue_only s s' \<Longrightarrow> queue_only s' s'' \<Longrightarrow> queue_only s s''"
  by (simp add: queue_only_def)

lemma queue_only_upd [simp]:
  "kd \<in> {PIKind, RIKind} \<Longrightarrow> queue_only s (s'((kd, m) := v)) \<longleftrightarrow> queue_only s s'"
  by (auto simp: queue_only_def)

section \<open>The helpers of the reconciler\<close>

context kube_api
begin

lemma wp_advancePhase:
  assumes "prepared now c s0 r (objs w)" and "agrees r x"
    and "justified now s0 r (objs w) ((rs_Status x)\<lparr>rs_Phase := nxt\<rparr>)"
  shows "wp (advancePhase K x nxt msg) (\<lambda>_ w'. handled now c s0 r (objs w')) w"
proof (cases "phaseOf x = nxt")
  case True
  with assms show ?thesis by (simp add: advancePhase_def handled_prepared)
next
  case False
  show ?thesis
    unfolding advancePhase_def if_not_P [OF False] wp_bind wp_return
  proof (rule resv.wp_status, goal_cases)
    case (1 w' e)
    with assms show ?case by (simp add: handled_prepared)
  next
    case (2 w' x' cur v)
    let ?st = "(rs_Status x)\<lparr>rs_Phase := nxt, rs_Message := msg, rs_ObservedGeneration := m_Generation (rs_Meta x)\<rparr>"
    have "objs w' = with_resv_status (objs w) (nameOf r) cur ?st v"
      using 2 assms(2) by (simp add: with_resv_status_def agrees_def)
    moreover have "justified now s0 r (objs w) ?st"
      using assms(3) by (simp add: justified_def)
    moreover have "resv_at (objs w) (nameOf r) = Some cur"
      using 2 assms(2) by (simp add: agrees_def)
    ultimately show ?case using assms(1) by (auto simp: handled_def)
  qed
qed

lemma wp_anyOtherSibling:
  assumes "prepared now c (objs w0) r (objs w)" and "agrees r x"
  shows "wp (anyOtherSibling K x counts) (\<lambda>res w'. objs w' = objs w \<and>
    (\<forall>b. res = Inr b \<longrightarrow> b = hasSibling counts (objs w0) r)) w"
  unfolding anyOtherSibling_def wp_bind wp_return
proof (rule resv.wp_list, goal_cases)
  case (2 w' xs)
  have other: "resv_at (objs w0) m = Some y \<longleftrightarrow> resv_at (objs w) m = Some y" if "m \<noteq> nameOf r" for m y
    using assms(1) that by (simp add: prepared_def own_ok_def)
  have "list_ex (isSibling r counts) xs \<longleftrightarrow> hasSibling counts (objs w0) r"
  proof
    assume "list_ex (isSibling r counts) xs"
    then obtain y where "y \<in> set xs" "isSibling r counts y" by (auto simp: list_ex_iff)
    then show "hasSibling counts (objs w0) r"
      using 2(3) [of y] other [of "nameOf y" y] by (auto simp: hasSibling_def isSibling_def)
  next
    assume "hasSibling counts (objs w0) r"
    then obtain m y where y: "resv_at (objs w0) m = Some y" "isSibling r counts y" by (auto simp: hasSibling_def)
    have "m = nameOf y" using resv.look_name [OF y(1)] by simp
    with y have "y \<in> set xs" using 2(3) [of y] other [of m y] by (simp add: isSibling_def)
    with y show "list_ex (isSibling r counts) xs" by (auto simp: list_ex_iff)
  qed
  then show ?case using 2(1) agrees_new(3) [OF assms(2)] by simp
qed simp

lemma wp_createRI:
  assumes "prepared now c s0 r (objs w)"
    and "\<And>q'. \<not> is_Enforced (ri_Status q') \<Longrightarrow> ri_Spec q' = ri_Spec q \<Longrightarrow> emittedRI s0 r (m_Name (ri_Meta q)) q'"
  shows "wp (CreateRI K q) (\<lambda>res w'. prepared now c s0 r (objs w') \<and>
    queue_only (objs w) (objs w') \<and>
    ((\<exists>x. res = Inr x) \<or> res = Inl KAlreadyExists \<longrightarrow> ri_at (objs w') (m_Name (ri_Meta q)) \<noteq> None)) w"
proof (rule ri.wp_create, goal_cases)
  case (2 w' x' t g v)
  then have "emittedRI s0 r (m_Name (ri_Meta q)) x'"
    by (intro assms(2)) (simp_all add: zero_InstructionStatus_def)
  with 2 prepared_ri [OF assms(1) 2(1)] show ?case by simp
qed (use assms(1) in auto)

lemma wp_ensureInstruction:
  assumes "prepared now c s0 r (objs w)"
    and "\<And>q'. \<not> is_Enforced (ri_Status q') \<Longrightarrow> ri_Spec q' = ri_Spec q \<Longrightarrow> emittedRI s0 r (m_Name (ri_Meta q)) q'"
  shows "wp (ensureInstruction K x q) (\<lambda>res w'. prepared now c s0 r (objs w') \<and>
    queue_only (objs w) (objs w') \<and>
    (res = Inr () \<longrightarrow> ri_at (objs w') (m_Name (ri_Meta q)) \<noteq> None)) w"
proof (cases "k_SetControllerReference K (rs_Meta x) (ri_Meta q)")
  case (Inl e)
  then show ?thesis using assms(1) by (simp add: ensureInstruction_def)
next
  case (Inr m)
  then have m: "m_Name m = m_Name (ri_Meta q)" by (simp add: controller_reference [OF Inr])
  have em: "emittedRI s0 r (m_Name (ri_Meta (q\<lparr>ri_Meta := m\<rparr>))) q'"
    if "\<not> is_Enforced (ri_Status q')" "ri_Spec q' = ri_Spec (q\<lparr>ri_Meta := m\<rparr>)" for q'
    using assms(2) that by (simp add: m)
  show ?thesis
    unfolding ensureInstruction_def Inr sum.case wp_bind wp_return
    by (rule wp_mono [OF wp_createRI [OF assms(1) em]]) (auto simp: m split: sum.splits if_splits)
qed

lemma wp_ensureShared:
  assumes "prepared now c s0 r (objs w)"
    and "\<And>q'. \<not> is_Enforced (ri_Status q') \<Longrightarrow> ri_Spec q' = ri_Spec q \<Longrightarrow> emittedRI s0 r (m_Name (ri_Meta q)) q'"
  shows "wp (ensureSharedReservationInstruction K q) (\<lambda>res w'. prepared now c s0 r (objs w') \<and>
    queue_only (objs w) (objs w') \<and>
    (res = Inr () \<longrightarrow> ri_at (objs w') (m_Name (ri_Meta q)) \<noteq> None)) w"
  unfolding ensureSharedReservationInstruction_def wp_bind wp_return
  by (rule wp_mono [OF wp_createRI [OF assms]]) (auto split: sum.splits if_splits)

lemma wp_emitConsumerCleanup:
  assumes "prepared now c (objs w0) r (objs w)" and "agrees r x"
    and "needsConsumerCleanup (phaseOf r) \<or> isReservationTerminal (phaseOf r) \<or> deleting r"
  shows "wp (emitConsumerCleanup K x owned) (\<lambda>res w'. prepared now c (objs w0) r (objs w') \<and>
    queue_only (objs w) (objs w') \<and>
    (res = Inr () \<longrightarrow> ri_at (objs w') (reservationInstructionCleanupName (nameOf r)) \<noteq> None)) w"
  unfolding emitConsumerCleanup_def hasOtherHoldingReservation_def wp_bind
proof (rule wp_mono [OF wp_anyOtherSibling [OF assms(1,2)]], goal_cases)
  case (1 res w1)
  show ?case
  proof (cases res)
    case (Inl e)
    with 1 assms(1) show ?thesis by simp
  next
    case (Inr other)
    let ?q = "newRI x (reservationInstructionCleanupName (nameOf x)) RICleanup (\<not> other) '''' None"
    have prep: "prepared now c (objs w0) r (objs w1)" using 1 assms(1) by simp
    have nm: "m_Name (ri_Meta ?q) = reservationInstructionCleanupName (nameOf r)"
      using assms(2) by (simp add: newRI_def agrees_def named_meta_def)
    have em: "emittedRI (objs w0) r (m_Name (ri_Meta ?q)) q'"
      if "\<not> is_Enforced (ri_Status q')" "ri_Spec q' = ri_Spec ?q" for q'
      unfolding nm using 1 Inr assms(2,3) that agrees_new(1) [OF assms(2)]
      by (simp add: emittedRI_def agrees_def newRI_def)
    show ?thesis
      unfolding Inr sum.case Let_def
      using wp_ensureInstruction [OF prep em, where x = x] wp_ensureShared [OF prep em] 1 nm
      by (cases owned) simp_all
  qed
qed

lemma wp_rearm:
  assumes prep: "prepared now c s0 r (objs w)" and old: "pi_at (objs w) n = Some old"
    and enf: "is_Enforced (pi_Status old)" and em: "\<And>p'. pi_Spec p' = sp \<Longrightarrow> emittedPI s0 r n p'"
  shows "wp (UpdatePI K (old\<lparr>pi_Spec := sp\<rparr>)) (\<lambda>u w'. prepared now c s0 r (objs w') \<and>
    queue_only (objs w) (objs w') \<and> (\<forall>x. u = Inr x \<longrightarrow> m_Name (pi_Meta x) = n \<and> pi_Spec x = sp \<and>
      (\<forall>y. pi_at (objs w') n = Some y \<longrightarrow> y = x \<and> is_Enforced (pi_Status x)))) w"
proof (rule pi.wp_update, goal_cases)
  case (2 w' x' cur g v)
  have n: "m_Name (pi_Meta old) = n" by (rule pi.look_name [OF old])
  with 2 old have x': "x' = old\<lparr>pi_Spec := sp, pi_Meta := pi_Meta x'\<rparr>" "m_Name (pi_Meta x') = n"
    and w': "objs w' = (objs w)((PIKind, n) := stored (KPI x'))" by simp_all
  have sp: "pi_Spec x' = sp" "is_Enforced (pi_Status x')" using enf by (subst x'(1), simp)+
  have "prepared now c s0 r (objs w')"
    unfolding w' using old enf sp by (intro prepared_pi [OF prep] em) (auto dest: stored_key)
  then show ?case using w' sp x'(2) by (auto simp: stored_def split: if_splits)
qed (use prep in simp)

lemma wp_rearmStatus:
  assumes prep: "prepared now c s0 r (objs w)" and n: "m_Name (pi_Meta x) = n" and sp: "pi_Spec x = sp"
    and cur: "\<And>y. pi_at (objs w) n = Some y \<Longrightarrow> y = x \<and> is_Enforced (pi_Status x)"
    and em: "\<And>p'. pi_Spec p' = sp \<Longrightarrow> emittedPI s0 r n p'"
  shows "wp (StatusUpdatePI K (x\<lparr>pi_Status := rearmedStatus t (pi_Status x)\<rparr>)) (\<lambda>u w'.
    prepared now c s0 r (objs w') \<and> queue_only (objs w) (objs w') \<and>
    (\<forall>y. u = Inr y \<longrightarrow> (\<exists>p'. pi_at (objs w') n = Some p' \<and> \<not> is_Enforced (pi_Status p')))) w"
proof (rule pi.wp_status, goal_cases)
  case (2 w' x' cur' v)
  with n cur [of cur'] have c: "cur' = x" by simp
  with 2 n have w': "objs w' = (objs w)((PIKind, n) \<mapsto> KPI x')" "pi_Spec x' = sp" "\<not> is_Enforced (pi_Status x')"
    using sp by (simp_all add: rearmedStatus_def)
  have "prepared now c s0 r (objs w')"
    unfolding w'(1) using cur w'(2) by (intro prepared_pi [OF prep] em) auto
  then show ?case using w' by simp
qed (use prep in simp)

lemma wp_ensureSharedProvider:
  assumes prep: "prepared now c s0 r (objs w)"
    and em: "\<And>p'. pi_Spec p' = pi_Spec p \<Longrightarrow> emittedPI s0 r (m_Name (pi_Meta p)) p'"
  shows "wp (ensureSharedProviderInstruction t K p) (\<lambda>res w'. prepared now c s0 r (objs w') \<and>
    queue_only (objs w) (objs w') \<and>
    (res = Inr () \<longrightarrow> (\<exists>p'. pi_at (objs w') (m_Name (pi_Meta p)) = Some p' \<and> \<not> is_Enforced (pi_Status p')))) w"
  unfolding ensureSharedProviderInstruction_def wp_bind
proof (rule pi.wp_create, goal_cases)
  case (2 w' x' t' g v)
  have "prepared now c s0 r ((objs w)((PIKind, m_Name (pi_Meta p)) \<mapsto> KPI x'))"
    using 2 by (intro prepared_pi [OF prep] em) auto
  with 2 show ?case by (simp add: zero_InstructionStatus_def)
next
  case (1 w1 e)
  show ?case
  proof (cases "e = KAlreadyExists")
    case False
    with 1 prep show ?thesis by simp
  next
    case True
    show ?thesis
      unfolding sum.case True not_not simp_thms if_False wp_bind
    proof (rule pi.wp_get, goal_cases)
      case (2 w2 old)
      then have w2: "prepared now c s0 r (objs w2)" "pi_at (objs w2) (m_Name (pi_Meta p)) = Some old"
        "objs w2 = objs w" using 1 prep by simp_all
      show ?case
      proof (cases "is_Enforced (pi_Status old)")
        case False
        with w2 show ?thesis by auto
      next
        case enf: True
        then have skip: "(\<not> is_Enforced (pi_Status old)) = False" by simp
        show ?thesis
          unfolding sum.case skip if_False wp_bind
        proof (rule wp_mono [OF wp_rearm [OF w2(1,2) enf em]], goal_cases)
          case (2 u w3)
          show ?case
          proof (cases u)
            case (Inl e)
            with 2 w2(3) show ?thesis by (simp del: split_paired_All)
          next
            case (Inr x)
            with 2 have x: "prepared now c s0 r (objs w3)" "m_Name (pi_Meta x) = m_Name (pi_Meta p)" "pi_Spec x = pi_Spec p"
              "\<And>y. pi_at (objs w3) (m_Name (pi_Meta p)) = Some y \<Longrightarrow> y = x \<and> is_Enforced (pi_Status x)"
              by blast+
            from 2 have q: "queue_only (objs w) (objs w3)" unfolding w2(3) by blast
            show ?thesis
              unfolding Inr sum.case wp_bind wp_return
            proof (rule wp_mono [OF wp_rearmStatus [OF x em]], goal_cases)
              case (3 u' w4)
              then show ?case using queue_only_trans [OF q] by (cases u') simp_all
            qed assumption+
          qed
        qed simp
      qed
    qed (use 1 prep in simp)
  qed
qed

text \<open>Crediting the chunks, in a run that has not yet touched the ledger.\<close>

lemma wp_release:
  assumes prep: "prepared now c s0 r (objs w)" and ag: "agrees r x" "\<not> IsChunksReleased x"
    and led: "\<forall>m. adv_at (objs w) m = adv_at s0 m"
    and dead: "isReservationTerminal (phaseOf r) \<or> deleting r"
  shows "wp (releaseChunks K x) (\<lambda>res w'. prepared now c s0 r (objs w')) w"
proof -
  have credit: "prepared now c s0 r s1" if "credited (objs w) x s1" for s1
    by (rule prepared_credit [OF prep led that]) (use ag dead in \<open>auto simp: agrees_def\<close>)
  show ?thesis
  proof (rule wp_releaseChunks, goal_cases)
    case (1 w' e)
    then show ?case using prep credit by auto
  next
    case (2 w' s1 cur)
    then show ?case using credit by auto
  next
    case (3 w' s1 cur r')
    have cur: "resv_at (objs w) (nameOf r) = Some cur" using 3 ag by (simp add: agrees_def)
    have "prepared now c s0 r (s1((ResvKind, nameOf r) := stored (KResv r')))"
      using credit [OF 3(1)] 3 cur prep ag
      by (intro prepared_own) (auto simp: stored_def prepared_def own_ok_def agrees_def split: if_splits)
    then show ?case using 3 ag by (simp add: agrees_def)
  qed
qed

lemma wp_releaseOnce:
  assumes "prepared now c s0 r (objs w)" "agrees r x" "\<forall>m. adv_at (objs w) m = adv_at s0 m"
    and "isReservationTerminal (phaseOf r) \<or> deleting r"
  shows "wp (if IsChunksReleased x then State_Monad.return (Inr ()) else releaseChunks K x)
    (\<lambda>res w'. prepared now c s0 r (objs w')) w"
  using assms by (simp add: wp_release)

lemma wp_secretExists:
  "wp (kubeconfigSecretExists K x) (\<lambda>res w'. objs w' = objs w \<and>
     (\<forall>b. res = Inr b \<longrightarrow> b = (secret_at (objs w) (secretFor x) \<noteq> None))) w"
  unfolding kubeconfigSecretExists_def wp_bind wp_return
  by (rule secret.wp_get) auto

lemma wp_deleteSecret:
  assumes "prepared now c s0 r (objs w)" "agrees r x" "isReservationTerminal (phaseOf r)"
    "\<not> hasSibling activePhase s0 r"
  shows "wp (deleteKubeconfigSecret K x) (\<lambda>res w'. prepared now c s0 r (objs w')) w"
  unfolding deleteKubeconfigSecret_def wp_bind wp_return
  by (rule secret.wp_delete) (use assms in \<open>auto simp: prepared_secret agrees_def\<close>)

lemma wp_teardownCredential:
  assumes prep: "prepared now c (objs w0) r (objs w)" and ag: "agrees r x"
    and dead: "isReservationTerminal (phaseOf r)"
  shows "wp (teardownCredential t c' K x d) (\<lambda>res w'. prepared now c (objs w0) r (objs w')) w"
  unfolding teardownCredential_def ensureConsumerCleanupShared_def hasOtherActiveReservation_def wp_bind
proof (rule wp_mono [OF wp_emitConsumerCleanup [OF prep ag]], goal_cases)
  case 1
  show ?case using dead by simp
next
  case (2 res w1)
  then have p1: "prepared now c (objs w0) r (objs w1)" by simp
  show ?case
  proof (cases res)
    case (Inr u)
    show ?thesis
      unfolding Inr sum.case wp_bind
    proof (rule wp_mono [OF wp_anyOtherSibling [OF p1 ag]], goal_cases)
      case (1 res2 w2)
      then have p2: "prepared now c (objs w0) r (objs w2)" using p1 by simp
      show ?case
      proof (cases "res2 = Inr False")
        case True
        then have alone: "\<not> hasSibling activePhase (objs w0) r" using 1 by blast
        let ?p = "newPI x (pcleanupNameFor x) PICleanup None"
        have em: "emittedPI (objs w0) r (m_Name (pi_Meta ?p)) p'" if "pi_Spec p' = pi_Spec ?p" for p'
          using that alone dead ag by (simp add: emittedPI_def agrees_def newPI_def named_meta_def)
        show ?thesis
          unfolding True sum.case if_False ensureProviderCleanupInstruction_def wp_bind
        proof (rule wp_mono [OF wp_ensureSharedProvider [OF p2 em]], goal_cases)
          case (2 res3 w3)
          then have p3: "prepared now c (objs w0) r (objs w3)" by simp
          show ?case
            using p3 by (cases res3) (simp_all add: wp_deleteSecret [OF p3 ag dead alone, THEN wp_mono])
        qed simp
      qed (use p2 in \<open>auto split: sum.splits\<close>)
    qed
  qed (use p1 in simp)
qed

lemma wp_settleTerminal:
  assumes "prepared now c (objs w0) r (objs w)" and ag: "agrees r x"
    and "\<forall>m. adv_at (objs w) m = adv_at (objs w0) m" and dead: "isReservationTerminal (phaseOf r)"
  shows "wp (settleTerminal t c' K x d) (\<lambda>res w'. prepared now c (objs w0) r (objs w')) w"
  unfolding settleTerminal_def wp_bind
proof (rule wp_mono [OF wp_releaseOnce [OF assms(1-3)]], goal_cases)
  case (2 rel w1)
  show ?case
  proof (cases rel)
    case (Inr u)
    show ?thesis
      unfolding Inr sum.case wp_bind
    proof (rule wp_mono [OF wp_secretExists], goal_cases)
      case (1 ex w2)
      then have p2: "prepared now c (objs w0) r (objs w2)" using 2 by simp
      show ?case
        using p2 wp_teardownCredential [OF p2 ag dead] by (auto split: sum.splits)
    qed
  qed (use 2 in simp)
qed (use dead in simp)

lemma wp_ownStatus:
  assumes prep: "prepared now c s0 r (objs w)" and ag: "agrees r x"
    and ph: "rs_Phase st = phaseOf r"
  shows "wp (StatusUpdateResv K (x\<lparr>rs_Status := st\<rparr>)) (\<lambda>u w'. prepared now c s0 r (objs w') \<and>
    (\<forall>m. adv_at (objs w') m = adv_at (objs w) m \<and> secret_at (objs w') m = secret_at (objs w) m) \<and>
    (\<forall>y. u = Inr y \<longrightarrow> agrees r y \<and> rs_Status y = st)) w"
proof (rule resv.wp_status, goal_cases)
  case (2 w' x' cur v)
  then have cur: "resv_at (objs w) (nameOf r) = Some cur" using ag by (simp add: agrees_def)
  then have old: "rs_Spec cur = rs_Spec r" "nameOf cur = nameOf r" "IsChunksReleased r \<longrightarrow> IsChunksReleased cur"
      "deleting cur \<longrightarrow> removable now c r"
    using prep by (auto simp: prepared_def own_ok_def)
  with 2 ph have new: "agrees r x'" "deleting x' \<longrightarrow> removable now c r" "rs_Status x' = st"
    by (simp_all add: agrees_def IsChunksReleased_def)
  have "prepared now c s0 r ((objs w)((ResvKind, nameOf r) \<mapsto> KResv x'))"
    using new by (intro prepared_own [OF prep]) (auto simp: agrees_def)
  then show ?case using 2 new ag by (simp add: agrees_def)
qed (use prep in simp)

lemma wp_handleTerminal:
  assumes prep: "prepared now c (objs w0) r (objs w)" and ag: "agrees r x"
    and led: "\<forall>m. adv_at (objs w) m = adv_at (objs w0) m" and dead: "isReservationTerminal (phaseOf r)"
    and stamp: "rs_TerminatedAt (rs_Status x) = rs_TerminatedAt (rs_Status r)"
  shows "wp (handleTerminal now c K x) (\<lambda>res w'. prepared now c (objs w0) r (objs w')) w"
proof (cases "rs_TerminatedAt (rs_Status x)")
  case None
  show ?thesis
    unfolding handleTerminal_def None option.case wp_bind
  proof (rule wp_mono [OF wp_ownStatus [OF prep ag]], goal_cases)
    case (2 u w1)
    show ?case
    proof (cases u)
      case (Inr y)
      with 2 led have y: "prepared now c (objs w0) r (objs w1)" "agrees r y"
        "\<forall>m. adv_at (objs w1) m = adv_at (objs w0) m" by simp_all
      show ?thesis unfolding Inr sum.case by (rule wp_settleTerminal [OF y dead])
    qed (use 2 in simp)
  qed (use ag in \<open>simp add: agrees_def\<close>)
next
  case (Some t)
  show ?thesis
  proof (cases "now - t \<ge> terminalTTL c")
    case False
    then show ?thesis
      using wp_settleTerminal [OF prep ag led dead] by (simp add: handleTerminal_def Some)
  next
    case True
    have rem: "removable now c r" using Some stamp dead True by (simp add: removable_def)
    show ?thesis
      unfolding handleTerminal_def Some option.case if_P [OF True] wp_bind wp_return
    proof (rule resv.wp_delete, goal_cases)
      case (2 w' cur v)
      then have "resv_at (objs w) (nameOf r) = Some cur" using ag by (simp add: agrees_def)
      then have old: "rs_Spec cur = rs_Spec r" "nameOf cur = nameOf r" "phaseOf cur = phaseOf r"
          "IsChunksReleased r \<longrightarrow> IsChunksReleased cur"
        using prep by (auto simp: prepared_def own_ok_def)
      have "prepared now c (objs w0) r ((objs w)((ResvKind, nameOf r) := v))"
        using 2(2) rem old
        by (intro prepared_own [OF prep]) (auto simp: delete_result_def IsChunksReleased_def split: if_splits)
      then show ?case using 2 ag by (simp add: agrees_def)
    qed (use prep in simp)
  qed
qed

lemma wp_finalizeReservation:
  assumes prep: "prepared now c s0 r (objs w)" and ag: "agrees r x" and del: "deleting r"
  shows "wp (finalizeReservation K x) (\<lambda>res w'. prepared now c s0 r (objs w')) w"
  unfolding finalizeReservation_def wp_bind wp_return
proof (rule resv.wp_casUpdate, goal_cases)
  case (1 y z)
  then show ?case by (auto simp: dropFinalizer_def remove_finalizer split: if_splits prod.splits)
next
  case (6 w' cur y g v)
  have n: "nameOf x = nameOf r" using ag by (simp add: agrees_def)
  have old: "rs_Spec cur = rs_Spec r" "nameOf cur = nameOf r" "phaseOf cur = phaseOf r"
      "IsChunksReleased r \<longrightarrow> IsChunksReleased cur"
    using prep 6(1) n by (auto simp: prepared_def own_ok_def)
  have y: "y = cur\<lparr>rs_Meta := (rs_Meta cur)\<lparr>m_Finalizers := removeAll ReservationFinalizer (m_Finalizers (rs_Meta cur))\<rparr>\<rparr>"
    using 6(2) by (auto simp: dropFinalizer_def remove_finalizer split: if_splits prod.splits)
  show ?case
    unfolding 6(3) n
    using old del by (intro prepared_own [OF prep])
      (auto simp: removable_def y IsChunksReleased_def dest!: stored_key)
qed (use prep in simp_all)

lemma wp_handleDeletion:
  assumes "prepared now c (objs w0) r (objs w)" and ag: "agrees r x"
    and "\<forall>m. adv_at (objs w) m = adv_at (objs w0) m" and del: "deleting r"
  shows "wp (handleDeletion K x) (\<lambda>res w'. prepared now c (objs w0) r (objs w')) w"
proof (cases "k_ContainsFinalizer K (rs_Meta x) ReservationFinalizer")
  case True
  then have skip: "(\<not> k_ContainsFinalizer K (rs_Meta x) ReservationFinalizer) = False" by simp
  show ?thesis
    unfolding handleDeletion_def skip if_False wp_bind
  proof (rule wp_mono [OF wp_releaseOnce [OF assms(1-3)]], goal_cases)
    case (2 rel w1)
    then have p1: "prepared now c (objs w0) r (objs w1)" .
    show ?case
    proof (cases rel)
      case (Inr u)
      show ?thesis
        unfolding Inr sum.case ensureConsumerCleanupShared_def wp_bind
      proof (rule wp_mono [OF wp_emitConsumerCleanup [OF p1 ag]], goal_cases)
        case (2 cl w2)
        then show ?case using wp_finalizeReservation [OF _ ag del] by (auto split: sum.splits)
      qed (use del in simp)
    qed (use p1 in simp)
  qed (use del in simp)
qed (use assms in \<open>simp add: handleDeletion_def\<close>)

text \<open>The live handlers, in a run that has so far only written the reservation and the queue.\<close>

lemma wp_checkExpired:
  assumes prep: "prepared now c s0 r (objs w)" and ag: "agrees r x"
  shows "wp (checkExpired now K x) (\<lambda>(stop, d) w'. handled now c s0 r (objs w') \<and> (\<not> stop \<longrightarrow> objs w' = objs w)) w"
proof (cases "rs_ExpiresAt (rs_Status x)")
  case None
  then show ?thesis using prep by (simp add: checkExpired_def handled_prepared)
next
  case (Some t)
  show ?thesis
  proof (cases "isReservationTerminal (phaseOf x) \<or> t > now")
    case True
    then show ?thesis using prep by (auto simp: checkExpired_def Some handled_prepared)
  next
    case False
    then have "Expired \<in> set (controllerMoves (phaseOf r))"
      using ag by (cases "phaseOf r") (auto simp: agrees_def)
    then have just: "justified now s0 r (objs w) ((rs_Status x)\<lparr>rs_Phase := Expired\<rparr>)"
      using False Some by (simp add: justified_def)
    show ?thesis
      using False wp_mono [OF wp_advancePhase [OF prep ag just]] by (simp add: checkExpired_def Some)
  qed
qed

lemma wp_abandon:
  assumes prep: "prepared now c (objs w0) r (objs w)" and ag: "agrees r x"
    and live: "Failed \<in> set (controllerMoves (phaseOf r))"
    and gone: "\<And>a. adv_at (objs w0) (rs_ProviderClusterID (rs_Spec r)) = Some a \<Longrightarrow> \<not> ca_Available (ca_Status a)"
  shows "wp (abandonReservation K x msg) (\<lambda>res w'. handled now c (objs w0) r (objs w') \<and> res \<noteq> Inr False) w"
    (is "wp _ ?Q w")
proof -
  have move: "wp (advancePhase K x Failed msg) (\<lambda>a w'. handled now c (objs w0) r (objs w')) w1"
    if "prepared now c (objs w0) r (objs w1)"
      "needsConsumerCleanup (phaseOf r) \<longrightarrow> ri_at (objs w1) (reservationInstructionCleanupName (nameOf r)) \<noteq> None" for w1
    by (rule wp_advancePhase [OF that(1) ag]) (use that live gone in \<open>auto simp: justified_def\<close>)
  have fin: "wp (case cl of Inl e \<Rightarrow> State_Monad.return (Inl (Wrap ''ensure Cleanup instruction'' e))
      | Inr _ \<Rightarrow> do { a \<leftarrow> advancePhase K x Failed msg;
          State_Monad.return (case a of Inl e \<Rightarrow> Inl (KubeErr e) | Inr _ \<Rightarrow> Inr True) })
      (\<lambda>res w'. handled now c (objs w0) r (objs w') \<and> res \<noteq> Inr False) w1"
    if "prepared now c (objs w0) r (objs w1)"
      "needsConsumerCleanup (phaseOf r) \<longrightarrow> cl = Inr () \<longrightarrow>
         ri_at (objs w1) (reservationInstructionCleanupName (nameOf r)) \<noteq> None" for w1 cl
  proof (cases cl)
    case (Inr u)
    have "needsConsumerCleanup (phaseOf r) \<longrightarrow> ri_at (objs w1) (reservationInstructionCleanupName (nameOf r)) \<noteq> None"
      using that(2) Inr by simp
    from wp_mono [OF move [OF that(1) this]] show ?thesis
      unfolding Inr sum.case wp_bind wp_return by (auto split: sum.splits)
  qed (use that in \<open>simp add: handled_prepared\<close>)
  show ?thesis
  proof (cases "needsConsumerCleanup (phaseOf x)")
    case False
    then have "\<not> needsConsumerCleanup (phaseOf r)" using ag by (simp add: agrees_def)
    then have "wp (abandonReservation K x msg) ?Q w = wp (do { a \<leftarrow> advancePhase K x Failed msg;
        State_Monad.return (case a of Inl e \<Rightarrow> Inl (KubeErr e) | Inr _ \<Rightarrow> Inr True) }) ?Q w"
      using False by (simp add: abandonReservation_def)
    with fin [OF prep, of "Inr ()"] \<open>\<not> needsConsumerCleanup (phaseOf r)\<close> show ?thesis by (simp del: wp_bind)
  next
    case True
    then have need: "needsConsumerCleanup (phaseOf r)" using ag by (simp add: agrees_def)
    show ?thesis
      unfolding abandonReservation_def if_P [OF True] ensureCleanupInstruction_def wp_bind
      by (rule wp_mono [OF wp_emitConsumerCleanup [OF prep ag]]) (use need fin in \<open>simp_all del: wp_bind\<close>)
  qed
qed

lemma wp_checkProviderAvailable:
  assumes prep: "prepared now c (objs w0) r (objs w)" and ag: "agrees r x"
    and same: "\<forall>m. adv_at (objs w) m = adv_at (objs w0) m"
  shows "wp (checkProviderAvailable K x) (\<lambda>res w'. handled now c (objs w0) r (objs w') \<and>
    (res = Inr False \<longrightarrow> objs w' = objs w)) w"
proof (cases "isReservationTerminal (phaseOf x) \<or> phaseOf x = Unpeering")
  case True
  then show ?thesis using prep by (simp add: checkProviderAvailable_def handled_prepared)
next
  case False
  then have live: "Failed \<in> set (controllerMoves (phaseOf r))"
    using ag by (cases "phaseOf r") (auto simp: agrees_def)
  have p: "rs_ProviderClusterID (rs_Spec x) = rs_ProviderClusterID (rs_Spec r)" using ag by (simp add: agrees_def)
  have ab: "wp (abandonReservation K x msg) (\<lambda>res w'. handled now c (objs w0) r (objs w') \<and>
      (res = Inr False \<longrightarrow> objs w' = objs w)) w1"
    if "objs w1 = objs w"
      "\<And>a. adv_at (objs w) (rs_ProviderClusterID (rs_Spec r)) = Some a \<Longrightarrow> \<not> ca_Available (ca_Status a)" for w1 msg
    by (rule wp_mono [OF wp_abandon [OF _ ag live]]) (use that prep same in auto)
  show ?thesis
    unfolding checkProviderAvailable_def if_not_P [OF False] wp_bind p
  proof (rule adv.wp_get, goal_cases)
    case (1 w1 e)
    then show ?case using prep ab [of w1] by (auto simp: handled_prepared)
  next
    case (2 w1 a)
    then show ?case using prep ab [of w1] by (auto simp: handled_prepared)
  qed
qed

text \<open>Moving the phase is the last thing a handler does; its answer is not inspected further.\<close>

lemma wp_lastMove:
  assumes "prepared now c s0 r (objs w)" "agrees r x" "justified now s0 r (objs w) ((rs_Status x)\<lparr>rs_Phase := nxt\<rparr>)"
  shows "wp (do { a \<leftarrow> advancePhase K x nxt msg;
      State_Monad.return (case a of Inl e \<Rightarrow> Inl (KubeErr e) | Inr _ \<Rightarrow> Inr NoRequeue) })
    (\<lambda>res w'. handled now c s0 r (objs w')) w"
  using wp_mono [OF wp_advancePhase [OF assms]] by simp

lemma wp_handlePending:
  assumes prep: "prepared now c s0 r (objs w)" and ag: "agrees r x"
    and ph: "phaseOf r \<in> {PhaseEmpty, Pending}" and same: "\<forall>m. secret_at (objs w) m = secret_at s0 m"
  shows "wp (handlePending t K x) (\<lambda>res w'. handled now c s0 r (objs w')) w"
  unfolding handlePending_def wp_bind [of "kubeconfigSecretExists K x"]
proof (rule wp_mono [OF wp_secretExists], goal_cases)
  case (1 ex w1)
  then have p1: "prepared now c s0 r (objs w1)" using prep by simp
  have nm: "secretFor x = secretFor r" "gkNameFor x = gkNameFor r" using ag by (simp_all add: agrees_def)
  consider (err) e where "ex = Inl e" | (yes) "ex = Inr True" | (no) "ex = Inr False" by (cases ex) auto
  then show ?case
  proof cases
    case err
    then show ?thesis using p1 by (simp add: handled_prepared)
  next
    case yes
    then have "secret_at s0 (secretFor r) \<noteq> None" using 1 same nm by auto
    then have just: "justified now s0 r (objs w1) ((rs_Status x)\<lparr>rs_Phase := KubeconfigReady\<rparr>)"
      using ph by (auto simp: justified_def)
    show ?thesis unfolding yes sum.case if_True by (rule wp_lastMove [OF p1 ag just])
  next
    case no
    let ?p = "newPI x (gkNameFor x) PIGenerateKubeconfig (rs_ExpiresAt (rs_Status x))"
    have pn: "m_Name (pi_Meta ?p) = gkNameFor r" by (simp add: newPI_def named_meta_def nm)
    have em: "emittedPI s0 r (m_Name (pi_Meta ?p)) p'" if "pi_Spec p' = pi_Spec ?p" for p'
      unfolding pn using that ph agrees_new(2) [OF ag] by (auto simp: emittedPI_def newPI_def)
    show ?thesis
      unfolding no sum.case if_False wp_bind [of "ensureSharedProviderInstruction t K ?p"]
    proof (rule wp_mono [OF wp_ensureSharedProvider [OF p1 em]], goal_cases)
      case (2 res w2)
      show ?case
      proof (cases res)
        case (Inr u)
        with 2 pn ph have "justified now s0 r (objs w2) ((rs_Status x)\<lparr>rs_Phase := GeneratingKubeconfig\<rparr>)"
          by (auto simp: justified_def)
        with 2 show ?thesis unfolding Inr sum.case by (intro wp_lastMove [OF _ ag]) simp_all
      qed (use 2 in \<open>simp add: handled_prepared\<close>)
    qed simp
  qed
qed

lemma wp_handleGK:
  assumes prep: "prepared now c s0 r (objs w)" and ag: "agrees r x"
    and ph: "phaseOf r = GeneratingKubeconfig" and same: "\<forall>m. secret_at (objs w) m = secret_at s0 m"
  shows "wp (handleGeneratingKubeconfig c' K x) (\<lambda>res w'. handled now c s0 r (objs w')) w"
  unfolding handleGeneratingKubeconfig_def wp_bind [of "kubeconfigSecretExists K x"]
proof (rule wp_mono [OF wp_secretExists], goal_cases)
  case (1 ex w1)
  then have p1: "prepared now c s0 r (objs w1)" using prep by simp
  have nm: "secretFor x = secretFor r" using ag by (simp add: agrees_def)
  show ?case
  proof (cases "ex = Inr True")
    case True
    then have "secret_at s0 (secretFor r) \<noteq> None" using 1 same nm by auto
    then have just: "justified now s0 r (objs w1) ((rs_Status x)\<lparr>rs_Phase := KubeconfigReady\<rparr>)"
      using ph by (auto simp: justified_def)
    have skip: "(\<not> True) = False" by simp
    show ?thesis unfolding True sum.case skip if_False by (rule wp_lastMove [OF p1 ag just])
  next
    case False
    then show ?thesis using p1 by (auto simp: handled_prepared split: sum.splits)
  qed
qed

lemma wp_handleKR:
  assumes prep: "prepared now c s0 r (objs w)" and ag: "agrees r x" and ph: "phaseOf r = KubeconfigReady"
  shows "wp (handleKubeconfigReady K x) (\<lambda>res w'. handled now c s0 r (objs w')) w"
proof -
  let ?q = "newRI x (reservationInstructionPeerName (nameOf x)) RIPeer False (secretFor x) (rs_ExpiresAt (rs_Status x))"
  have qn: "m_Name (ri_Meta ?q) = reservationInstructionPeerName (nameOf r)"
    using ag by (simp add: newRI_def named_meta_def agrees_def)
  have em: "emittedRI s0 r (m_Name (ri_Meta ?q)) q'" if "\<not> is_Enforced (ri_Status q')" "ri_Spec q' = ri_Spec ?q" for q'
    unfolding qn using that ph ag by (auto simp: emittedRI_def newRI_def agrees_def)
  show ?thesis
    unfolding handleKubeconfigReady_def wp_bind [of "ensureInstruction K x ?q"]
  proof (rule wp_mono [OF wp_ensureInstruction [OF prep em]], goal_cases)
    case (3 res w1)
    show ?case
    proof (cases res)
      case (Inr u)
      with 3 qn ph have "justified now s0 r (objs w1) ((rs_Status x)\<lparr>rs_Phase := Peering\<rparr>)"
        by (auto simp: justified_def)
      with 3 show ?thesis unfolding Inr sum.case by (intro wp_lastMove [OF _ ag]) simp_all
    qed (use 3 in \<open>simp add: handled_prepared\<close>)
  qed simp_all
qed

lemma wp_handleUnpeering:
  assumes prep: "prepared now c (objs w0) r (objs w)" and ag: "agrees r x" and ph: "phaseOf r = Unpeering"
  shows "wp (handleUnpeering K x) (\<lambda>res w'. handled now c (objs w0) r (objs w')) w"
  unfolding handleUnpeering_def hasOtherHoldingReservation_def wp_bind
proof (rule wp_mono [OF wp_anyOtherSibling [OF prep ag]], goal_cases)
  case (1 res w1)
  then have p1: "prepared now c (objs w0) r (objs w1)" using prep by simp
  show ?case
  proof (cases res)
    case (Inr other)
    let ?q = "newRI x (reservationInstructionUnpeerName (nameOf x)) RIUnpeer (\<not> other) '''' None"
    have "other = hasSibling holdingPhase (objs w0) r" using 1 Inr by blast
    then have em: "emittedRI (objs w0) r (m_Name (ri_Meta ?q)) q'"
      if "\<not> is_Enforced (ri_Status q')" "ri_Spec q' = ri_Spec ?q" for q'
      using that ph ag by (simp add: emittedRI_def newRI_def agrees_def named_meta_def)
    show ?thesis
      unfolding Inr sum.case wp_bind wp_return
      by (rule wp_mono [OF wp_ensureInstruction [OF p1 em]]) (simp_all add: handled_prepared)
  qed (use p1 in \<open>simp add: handled_prepared\<close>)
qed

lemma wp_dispatch:
  assumes prep: "prepared now c (objs w0) r (objs w)" and ag: "agrees r x"
    and same: "\<forall>m. adv_at (objs w) m = adv_at (objs w0) m" "\<forall>m. secret_at (objs w) m = secret_at (objs w0) m"
    and stamp: "rs_TerminatedAt (rs_Status x) = rs_TerminatedAt (rs_Status r)"
  shows "wp (dispatch now c K x) (\<lambda>res w'. handled now c (objs w0) r (objs w')) w"
proof -
  have ph: "phaseOf x = phaseOf r" using ag by (simp add: agrees_def)
  have dead: "wp (handleTerminal now c K x) (\<lambda>res w'. handled now c (objs w0) r (objs w')) w"
    if "isReservationTerminal (phaseOf r)"
    by (rule wp_mono [OF wp_handleTerminal [OF prep ag same(1) that stamp]]) (rule handled_prepared)
  show ?thesis
    unfolding dispatch_def ph
    using dead wp_handlePending [OF prep ag _ same(2)] wp_handleGK [OF prep ag _ same(2)] wp_handleKR [OF prep ag]
      wp_handleUnpeering [OF prep ag] handled_prepared [OF prep]
    by (cases "phaseOf r") simp_all
qed

lemma wp_reconcileLive:
  assumes prep: "prepared now c (objs w0) r (objs w)" and ag: "agrees r x"
    and same: "\<forall>m. adv_at (objs w) m = adv_at (objs w0) m" "\<forall>m. secret_at (objs w) m = secret_at (objs w0) m"
    and stamp: "rs_TerminatedAt (rs_Status x) = rs_TerminatedAt (rs_Status r)"
  shows "wp (reconcileLive now c K x) (\<lambda>res w'. handled now c (objs w0) r (objs w')) w"
proof -
  have rest: "wp (do { ex \<leftarrow> checkExpired now K y;
      (case ex of (True, requeue) \<Rightarrow> State_Monad.return (Inr (wakeResult requeue))
       | (False, _) \<Rightarrow> do {
           av \<leftarrow> checkProviderAvailable K y;
           (case av of Inl e \<Rightarrow> State_Monad.return (Inl e) | Inr True \<Rightarrow> State_Monad.return (Inr NoRequeue)
            | Inr False \<Rightarrow> dispatch now c K y) }) }) (\<lambda>res w'. handled now c (objs w0) r (objs w')) w1"
    if p1: "prepared now c (objs w0) r (objs w1)" and ay: "agrees r y"
      and s1: "\<forall>m. adv_at (objs w1) m = adv_at (objs w0) m" "\<forall>m. secret_at (objs w1) m = secret_at (objs w0) m"
      and t1: "rs_TerminatedAt (rs_Status y) = rs_TerminatedAt (rs_Status r)" for w1 y
    unfolding wp_bind [of "checkExpired now K y"]
  proof (rule wp_mono [OF wp_checkExpired [OF p1 ay]], goal_cases)
    case (1 ex w2)
    show ?case
    proof (cases "fst ex")
      case True
      then show ?thesis using 1 by (cases ex) simp
    next
      case False
      then obtain d where ex: "ex = (False, d)" by (cases ex) simp
      with 1 have w2: "objs w2 = objs w1" by simp
      note facts = p1 [folded w2] ay s1 [folded w2]
      show ?thesis
        unfolding ex prod.case bool.case wp_bind
      proof (rule wp_mono [OF wp_checkProviderAvailable [OF facts(1-3)]], goal_cases)
        case (1 av w3)
        consider (err) e where "av = Inl e" | (yes) "av = Inr True" | (no) "av = Inr False" by (cases av) auto
        then show ?case
        proof cases
          case no
          with 1 have "objs w3 = objs w2" by simp
          from wp_dispatch [OF facts [folded this] t1] show ?thesis by (simp add: no)
        qed (use 1 in simp_all)
      qed
    qed
  qed
  show ?thesis
  proof (cases "rs_ExpiresAt (rs_Status x) = None")
    case False
    then show ?thesis
      unfolding reconcileLive_def ensureExpiry_def using rest [OF assms] by simp
  next
    case True
    then have skip: "(rs_ExpiresAt (rs_Status x) \<noteq> None) = False" by simp
    have ph: "rs_Phase (expiryStatus c x) = phaseOf r"
      "rs_TerminatedAt (expiryStatus c x) = rs_TerminatedAt (rs_Status r)"
      using ag stamp by (simp_all add: expiryStatus_def agrees_def Let_def)
    show ?thesis
      unfolding reconcileLive_def ensureExpiry_def skip if_False wp_bind [of "StatusUpdateResv K _"]
    proof (rule wp_mono [OF wp_ownStatus [OF prep ag ph(1)]], goal_cases)
      case (1 u w1)
      show ?case
      proof (cases u)
        case (Inr y)
        with 1 have y: "agrees r y" "rs_Status y = expiryStatus c x" by blast+
        show ?thesis
          unfolding Inr sum.case by (rule rest) (use 1 same y ph in simp_all)
      qed (use 1 in \<open>simp add: handled_prepared\<close>)
    qed
  qed
qed

lemma resv_name: "resv_at (objs w) n = Some r \<Longrightarrow> nameOf r = n"
  by (rule resv.look_name)

lemma wp_addFinalizer:
  assumes r: "resv_at (objs w) (nameOf r) = Some r" and live: "\<not> deleting r"
  shows "wp (UpdateResv K (r\<lparr>rs_Meta := (rs_Meta r)\<lparr>m_Finalizers := fs\<rparr>\<rparr>)) (\<lambda>u w'.
    prepared now c (objs w) r (objs w') \<and>
    (\<forall>m. adv_at (objs w') m = adv_at (objs w) m) \<and> (\<forall>m. secret_at (objs w') m = secret_at (objs w) m) \<and>
    (\<forall>y. u = Inr y \<longrightarrow> agrees r y \<and> rs_Status y = rs_Status r)) w"
proof (rule resv.wp_update, goal_cases)
  case (2 w' x' cur g v)
  then have x': "rs_Spec x' = rs_Spec r" "rs_Status x' = rs_Status r" "nameOf x' = nameOf r"
      "IsChunksReleased x' = IsChunksReleased r" "\<not> deleting x'"
    using r live by (simp_all add: IsChunksReleased_def)
  then have "prepared now c (objs w) r ((objs w)((ResvKind, nameOf r) \<mapsto> KResv x'))"
    by (intro prepared_own [OF prepared_refl [OF r]]) auto
  with 2 x' show ?case by (simp add: stored_def agrees_def)
qed (use prepared_refl [OF r] in simp)

lemma wp_reconcileReservation:
  assumes "resv_at (objs w) n = Some r"
  shows "wp (reconcileReservation now c K n) (\<lambda>res w'. handled now c (objs w) r (objs w')) w"
proof -
  have nr: "nameOf r = n" by (rule resv.look_name [OF assms])
  have p0: "prepared now c (objs w) r (objs w)" using assms nr by (simp add: prepared_refl)
  have ag: "agrees r r" by (simp add: agrees_def)
  show ?thesis
    unfolding reconcileReservation_def wp_bind [of "GetResv K n"]
  proof (rule resv.wp_get, goal_cases)
    case (2 w1 x)
    then have x: "x = r" and w1: "objs w1 = objs w" using assms by simp_all
    show ?case
    proof (cases "deleting r")
      case True
      have "wp (handleDeletion K r) (\<lambda>res w'. handled now c (objs w) r (objs w')) w1"
        by (rule wp_mono [OF wp_handleDeletion [OF _ ag]]) (use p0 w1 True in \<open>auto simp: handled_prepared\<close>)
      with True x show ?thesis by simp
    next
      case live: False
      show ?thesis
      proof (cases "ReservationFinalizer \<in> set (m_Finalizers (rs_Meta r))")
        case True
        have "wp (reconcileLive now c K r) (\<lambda>res w'. handled now c (objs w) r (objs w')) w1"
          by (rule wp_reconcileLive [OF _ ag]) (use p0 w1 in simp_all)
        with True live x show ?thesis by (simp add: add_finalizer)
      next
        case False
        let ?m = "(rs_Meta r)\<lparr>m_Finalizers := m_Finalizers (rs_Meta r) @ [ReservationFinalizer]\<rparr>"
        have add: "k_AddFinalizer K (rs_Meta r) ReservationFinalizer = (?m, True)"
          using False by (simp add: add_finalizer)
        have r1: "resv_at (objs w1) (nameOf r) = Some r" using assms nr w1 by simp
        show ?thesis
          unfolding x sum.case if_not_P [OF live] add prod.case bool.case wp_bind [of "UpdateResv K _"]
        proof (rule wp_mono [OF wp_addFinalizer [OF r1 live, where now = now and c = c]], goal_cases)
          case (1 u w2)
          show ?case
          proof (cases u)
            case (Inr y)
            with 1 have y: "agrees r y" "rs_Status y = rs_Status r" by blast+
            show ?thesis
              unfolding Inr sum.case by (rule wp_reconcileLive [OF _ y(1)]) (use 1 w1 y in simp_all)
          qed (use 1 w1 in \<open>simp add: handled_prepared\<close>)
        qed
      qed
    qed
  qed (use p0 assms in \<open>auto simp: handled_prepared\<close>)
qed

end

section \<open>What a run of the reconciler does\<close>

lemma handled_views:
  assumes "handled now c s0 r s"
  obtains s1 where "prepared now c s0 r s1" "\<And>m. adv_at s m = adv_at s1 m" "\<And>m. secret_at s m = secret_at s1 m"
    "\<And>m. pi_at s m = pi_at s1 m" "\<And>m. ri_at s m = ri_at s1 m"
  using assms by (fastforce simp: handled_def)

lemma handled_own:
  assumes "handled now c s0 r s"
  shows "(\<forall>m. m \<noteq> nameOf r \<longrightarrow> resv_at s m = resv_at s0 m) \<and>
    (case resv_at s (nameOf r) of
       None \<Rightarrow> removable now c r
     | Some r' \<Rightarrow> rs_Spec r' = rs_Spec r \<and> (IsChunksReleased r \<longrightarrow> IsChunksReleased r') \<and>
         (phaseOf r' = phaseOf r \<or> justified now s0 r s (rs_Status r')))"
  using assms unfolding handled_def
proof
  assume "prepared now c s0 r s"
  then show ?thesis by (auto simp: prepared_def own_ok_def split: option.splits)
next
  assume "\<exists>s1 r1 st v. prepared now c s0 r s1 \<and> resv_at s1 (nameOf r) = Some r1 \<and>
    justified now s0 r s1 st \<and> s = with_resv_status s1 (nameOf r) r1 st v"
  then obtain s1 r1 st v where h: "prepared now c s0 r s1" "resv_at s1 (nameOf r) = Some r1"
    "justified now s0 r s1 st" "s = with_resv_status s1 (nameOf r) r1 st v" by blast
  have "justified now s0 r s st" using h(3) by (simp add: justified_def h(4))
  with h show ?thesis by (auto simp: prepared_def own_ok_def IsChunksReleased_def)
qed

text \<open>
  C2. The phase machine. One run of the Reservation reconciler changes no reservation but its
  own, never its spec, and never takes its chunks-released marker away. Its phase stays or moves
  along the edges of \<open>controllerMoves\<close>: in particular Released, Expired and Failed are never left.
  The object itself disappears only when its deletion was requested or it has been terminal for
  the configured time.
\<close>

theorem reservation_phase_machine:
  assumes "kube_api K objs" and "resv_at (objs w) n = Some r"
    and "run_state (reconcileReservation now c K n) w = (res, w')"
  shows "(\<forall>m. m \<noteq> n \<longrightarrow> resv_at (objs w') m = resv_at (objs w) m) \<and>
    (case resv_at (objs w') n of
       None \<Rightarrow> removable now c r
     | Some r' \<Rightarrow> rs_Spec r' = rs_Spec r \<and> (IsChunksReleased r \<longrightarrow> IsChunksReleased r') \<and>
         (phaseOf r' = phaseOf r \<or> phaseOf r' \<in> set (controllerMoves (phaseOf r))))"
  using handled_own [OF wp_run [OF kube_api.wp_reconcileReservation [OF assms(1,2)] assms(3)]]
    kube_api.resv_name [OF assms(1,2)]
  by (auto simp: justified_def split: option.splits)

text \<open>
  C4. No phase is entered without its reason. When a run moves the phase, then: to
  GeneratingKubeconfig only once an open GenerateKubeconfig instruction for the pair is queued; to
  KubeconfigReady only when the pair's kubeconfig Secret exists; to Peering only once the Peer
  instruction is queued; to Failed only when the provider's advertisement is missing or no longer
  available, and then with the consumer's Cleanup instruction queued if peering had begun; to
  Expired only when the stored deadline has passed.
\<close>

theorem reservation_moves_justified:
  assumes "kube_api K objs" and "resv_at (objs w) n = Some r"
    and "run_state (reconcileReservation now c K n) w = (res, w')"
    and "resv_at (objs w') n = Some r'" and "phaseOf r' \<noteq> phaseOf r"
  shows "(phaseOf r' = GeneratingKubeconfig \<longrightarrow>
        (\<exists>p. pi_at (objs w') (gkNameFor r) = Some p \<and> \<not> is_Enforced (pi_Status p))) \<and>
    (phaseOf r' = KubeconfigReady \<longrightarrow> secret_at (objs w) (secretFor r) \<noteq> None) \<and>
    (phaseOf r' = Peering \<longrightarrow> ri_at (objs w') (reservationInstructionPeerName n) \<noteq> None) \<and>
    (phaseOf r' = Failed \<longrightarrow>
        (\<forall>a. adv_at (objs w) (rs_ProviderClusterID (rs_Spec r)) = Some a \<longrightarrow> \<not> ca_Available (ca_Status a)) \<and>
        (needsConsumerCleanup (phaseOf r) \<longrightarrow> ri_at (objs w') (reservationInstructionCleanupName n) \<noteq> None)) \<and>
    (phaseOf r' = Expired \<longrightarrow> (\<exists>t. rs_ExpiresAt (rs_Status r') = Some t \<and> t \<le> now))"
  using handled_own [OF wp_run [OF kube_api.wp_reconcileReservation [OF assms(1,2)] assms(3)]]
    kube_api.resv_name [OF assms(1,2)] assms(4,5)
  by (simp add: justified_def)

text \<open>
  C6. The ledger. A run leaves every advertisement as it is, or credits the reservation's chunks
  to its provider exactly once, and that only when the reservation is terminal or being deleted and
  does not carry the chunks-released marker.
\<close>

theorem reservation_run_ledger:
  assumes "kube_api K objs" and "resv_at (objs w) n = Some r"
    and "run_state (reconcileReservation now c K n) w = (res, w')"
  shows "(\<forall>m. adv_at (objs w') m = adv_at (objs w) m) \<or>
    \<not> IsChunksReleased r \<and> (isReservationTerminal (phaseOf r) \<or> deleting r) \<and>
      (\<exists>s1. credited (objs w) r s1 \<and> (\<forall>m. adv_at (objs w') m = adv_at s1 m))"
  using wp_run [OF kube_api.wp_reconcileReservation [OF assms(1,2)] assms(3)]
  by (elim handled_views) (simp add: prepared_def ledger_ok_def)

text \<open>
  C5. The shared credential. A run touches no Secret but the kubeconfig of its own (consumer,
  provider) pair, and that one only when the reservation is terminal and no other reservation of
  the pair is still active.
\<close>

theorem reservation_run_secrets:
  assumes "kube_api K objs" and "resv_at (objs w) n = Some r"
    and "run_state (reconcileReservation now c K n) w = (res, w')"
    and "secret_at (objs w') m \<noteq> secret_at (objs w) m"
  shows "m = secretFor r \<and> isReservationTerminal (phaseOf r) \<and> \<not> hasSibling activePhase (objs w) r"
  using wp_run [OF kube_api.wp_reconcileReservation [OF assms(1,2)] assms(3)] assms(4)
  by (elim handled_views) (auto simp: prepared_def secrets_ok_def)


section \<open>Concrete runs\<close>

definition defaultReconciler :: ReservationReconciler where
  "defaultReconciler = \<lparr>rc_TerminalTTL = 0, rc_GKResyncInterval = 0, rc_ReservationTimeout = 0\<rparr>"

definition credentialSecret :: Secret where
  "credentialSecret = \<lparr>sec_Meta = named_meta (controllerSecretName ''c'' ''p''), sec_Labels = [],
     sec_Data = [(''kubeconfig'', ''kc'')]\<rparr>"

definition runIn :: "ReservationPhase \<Rightarrow> memstore" where
  "runIn ph = exampleWorld [KAdv (exampleAdv ''p'' 3 1), KResv (exampleResv ''r'' ''c'' ''p'' ph), KSec credentialSecret]"

definition freshPair :: memstore where
  "freshPair = exampleWorld [KAdv (exampleAdv ''p'' 3 1), KResv (exampleResv ''r'' ''c'' ''p'' Pending)]"

definition reconcileIn :: "memstore \<Rightarrow> memstore" where
  "reconcileIn w = snd (run_state (reconcileReservation 0 defaultReconciler memK ''r'') w)"

lemma runIn_resv: "resv_at (mem_lookup (runIn ph)) ''r'' = Some (exampleResv ''r'' ''c'' ''p'' ph)"
  by (simp add: runIn_def exampleWorld_def mem_lookup_def at_defs exampleAdv_def exampleResv_def named_meta_def
      kobj_key_def)

lemma freshPair_resv: "resv_at (mem_lookup freshPair) ''r'' = Some (exampleResv ''r'' ''c'' ''p'' Pending)"
  by (simp add: freshPair_def exampleWorld_def mem_lookup_def at_defs exampleAdv_def exampleResv_def named_meta_def
      kobj_key_def)

theorem reservation_phase_machine_witness:
  "case resv_at (mem_lookup (reconcileIn (runIn Released))) ''r'' of None \<Rightarrow> False | Some r' \<Rightarrow> phaseOf r' = Released"
proof -
  have "resv_at (mem_lookup (reconcileIn (runIn Released))) ''r'' \<noteq> None" by code_simp
  then show ?thesis
    using reservation_phase_machine [OF mem.kube_api_axioms runIn_resv [of Released] surjective_pairing, of 0 defaultReconciler]
    by (auto simp: reconcileIn_def exampleResv_def)
qed

theorem reservation_moves_justified_witness:
  "\<exists>p. pi_at (mem_lookup (reconcileIn freshPair)) ''gk-c-p'' = Some p \<and> \<not> is_Enforced (pi_Status p)"
proof -
  have "map_option phaseOf (resv_at (mem_lookup (reconcileIn freshPair)) ''r'') = Some GeneratingKubeconfig" by code_simp
  then obtain r' where r': "resv_at (mem_lookup (reconcileIn freshPair)) ''r'' = Some r'"
    "phaseOf r' = GeneratingKubeconfig" by auto
  have "gkNameFor (exampleResv ''r'' ''c'' ''p'' Pending) = ''gk-c-p''" by code_simp
  with reservation_moves_justified [OF mem.kube_api_axioms freshPair_resv surjective_pairing,
      of 0 defaultReconciler r'] r' show ?thesis
    by (simp add: reconcileIn_def exampleResv_def)
qed

theorem reservation_run_ledger_witness:
  "adv_at (mem_lookup (reconcileIn freshPair)) ''p'' = adv_at (mem_lookup freshPair) ''p''"
  using reservation_run_ledger [OF mem.kube_api_axioms freshPair_resv surjective_pairing, of 0 defaultReconciler]
  by (simp add: reconcileIn_def exampleResv_def named_meta_def)

theorem reservation_run_secrets_witness:
  "isReservationTerminal (phaseOf (exampleResv ''r'' ''c'' ''p'' Failed)) \<and>
   \<not> hasSibling activePhase (mem_lookup (runIn Failed)) (exampleResv ''r'' ''c'' ''p'' Failed)"
proof -
  have "secret_at (mem_lookup (reconcileIn (runIn Failed))) ''kubeconfig-c-p'' \<noteq>
      secret_at (mem_lookup (runIn Failed)) ''kubeconfig-c-p''"
    by code_simp
  then show ?thesis
    using reservation_run_secrets [OF mem.kube_api_axioms runIn_resv [of Failed] surjective_pairing,
        of 0 defaultReconciler "''kubeconfig-c-p''"] unfolding reconcileIn_def by blast
qed


section \<open>Names\<close>

text \<open>
  Both sides name the credential alike. The reconciler and the result handler derive the name
  of the staging Secret separately; they agree on every pair.
\<close>

theorem secret_names_agree:
  "controllerSecretName consumer provider = kubeconfigSecretName consumer provider"
  by (simp add: controllerSecretName_def kubeconfigSecretName_def peeringCredentialKey_def)

text \<open>
  The pair's key is unique only without dashes. Two pairs whose consumer names contain no
  dash share a credential key only when they are the same pair; in general they may collide:
  consumer \<open>a-b\<close> with provider \<open>c\<close> and consumer \<open>a\<close> with provider \<open>b-c\<close> have the same key.
\<close>

theorem peeringCredentialKey_collides:
  "(peeringCredentialKey c p = peeringCredentialKey c' p' \<and> CHR ''-'' \<notin> set c \<and> CHR ''-'' \<notin> set c' \<longrightarrow>
      c = c' \<and> p = p') \<and>
   peeringCredentialKey ''a-b'' ''c'' = peeringCredentialKey ''a'' ''b-c''"
  using first_separator [of c "CHR ''-''" p c' p'] by (auto simp: peeringCredentialKey_def)

theorem peeringCredentialKey_collides_witness:
  "peeringCredentialKey ''a'' ''b'' = peeringCredentialKey ''a'' ''b'' \<and> ''b'' = (''b'' :: string)"
  using peeringCredentialKey_collides [of "''a''" "''b''" "''a''" "''b''"] by simp

end
