(* ===== verification/AgentClient.thy ===== *)
theory AgentClient
  imports ReservationApi
begin

text \<open>
  \<^verbatim>\<open>internal/agent/client\<close>: the agents' typed client of the Broker's REST API. One HTTP exchange
  (the network and the server behind it) is an argument; the request layer classifies its
  outcome and retries transient failures of idempotent requests with a bounded, capped back-off.
  The second part puts the Broker's reservation handler behind a network that may lose requests
  and answers, and shows that the retries book at most one chunk.
\<close>

section \<open>Errors (errors.go)\<close>

datatype Category =
    CategoryUnknown | CategoryTransient | CategoryBadRequest | CategoryUnauthenticated
  | CategoryForbidden | CategoryNotFound | CategoryConflict | CategoryPreconditionFailed
  | CategoryTooManyRequests

text \<open>\<^verbatim>\<open>RequestID\<close> is left out.\<close>

record Error =
  er_Category :: Category
  er_Code :: ErrorCode
  er_Message :: message
  er_Status :: nat
  er_Cause :: "message option"

text \<open>A Go \<^verbatim>\<open>error\<close> value: a typed \<^verbatim>\<open>*Error\<close>, a plain one, or one wrapped with \<^verbatim>\<open>%w\<close>.\<close>

datatype goerror = Typed Error | Plain message | Wrapped string goerror

text \<open>\<^verbatim>\<open>errors.As\<close> looks through the wrappers.\<close>

fun errorsAs :: "goerror \<Rightarrow> Error option" where
  "errorsAs (Typed e) = Some e"
| "errorsAs (Plain _) = None"
| "errorsAs (Wrapped _ e) = errorsAs e"

definition isCategory :: "goerror \<Rightarrow> Category \<Rightarrow> bool" where
  "isCategory err want = (case errorsAs err of None \<Rightarrow> False | Some e \<Rightarrow> er_Category e = want)"

definition IsInsufficientCapacity :: "goerror \<Rightarrow> bool" where
  "IsInsufficientCapacity err = (case errorsAs err of None \<Rightarrow> False
     | Some e \<Rightarrow> er_Code e = InsufficientCapacity)"

text \<open>
  \<^verbatim>\<open>Error()\<close>; \<open>pre\<close> is the package's prefix, \<^verbatim>\<open>agent client\<close> here and \<^verbatim>\<open>agentclient\<close> in the gRPC
  server's copy of the type.
\<close>

definition errorString :: "string \<Rightarrow> Error \<Rightarrow> message" where
  "errorString pre e =
    (if er_Status e = 0 then Sprintf (pre @ '': transient: %v'')
       [case er_Cause e of Some m \<Rightarrow> AMsg m | None \<Rightarrow> AStr ''<nil>'']
     else if er_Code e = CodeEmpty then Sprintf (pre @ '': HTTP %d: %s'') [AInt (int (er_Status e)), AMsg (er_Message e)]
     else Sprintf (pre @ '': HTTP %d %s: %s'') [AInt (int (er_Status e)), ACode (er_Code e), AMsg (er_Message e)])"

fun errorText :: "string \<Rightarrow> goerror \<Rightarrow> message" where
  "errorText pre (Typed e) = errorString pre e"
| "errorText pre (Plain m) = m"
| "errorText pre (Wrapped s e) = Sprintf (s @ '': %w'') [AMsg (errorText pre e)]"

definition classify :: "nat \<Rightarrow> Category" where
  "classify status =
    (if status \<ge> 500 then CategoryTransient
     else if status = 400 then CategoryBadRequest
     else if status = 401 then CategoryUnauthenticated
     else if status = 403 then CategoryForbidden
     else if status = 404 then CategoryNotFound
     else if status = 409 then CategoryConflict
     else if status = 412 then CategoryPreconditionFailed
     else if status = 429 then CategoryTooManyRequests
     else CategoryBadRequest)"

section \<open>One exchange (request.go)\<close>

text \<open>
  What \<^verbatim>\<open>http.Client.Do\<close> yields: a network error, or a status with a body. The body is given by
  what the JSON decoder makes of it, as an \<^verbatim>\<open>ErrorResponse\<close> and as the expected answer.
\<close>

datatype errBody = NoBody | TextBody string | EnvBody ErrorCode message

record 'a http_response =
  hr_Status :: nat
  hr_ErrBody :: errBody
  hr_Body :: "message + 'a"

type_synonym 'a exchange = "message + 'a http_response"

definition decodeErrorBody :: "nat \<Rightarrow> errBody \<Rightarrow> Error" where
  "decodeErrorBody status body =
    (let out = \<lparr>er_Category = classify status, er_Code = CodeEmpty, er_Message = text_msg '''', er_Status = status,
           er_Cause = None\<rparr>
     in case body of
          NoBody \<Rightarrow> out\<lparr>er_Message := Sprintf ''StatusText'' [AInt (int status)]\<rparr>
        | TextBody s \<Rightarrow> out\<lparr>er_Message := text_msg s\<rparr>
        | EnvBody code msg \<Rightarrow> out\<lparr>er_Code := code, er_Message := msg\<rparr>)"

definition attempt :: "('w, 'a exchange) state \<Rightarrow> ('w, Error + 'a) state" where
  "attempt send = do {
     x \<leftarrow> send;
     State_Monad.return (case x of
       Inl err \<Rightarrow> Inl \<lparr>er_Category = CategoryTransient, er_Code = CodeEmpty, er_Message = err, er_Status = 0,
                    er_Cause = Some err\<rparr>
     | Inr resp \<Rightarrow>
         if hr_Status resp \<ge> 400 then Inl (decodeErrorBody (hr_Status resp) (hr_ErrBody resp))
         else case hr_Body resp of
           Inl err \<Rightarrow> Inl \<lparr>er_Category = CategoryTransient, er_Code = CodeEmpty, er_Message = err,
                        er_Status = hr_Status resp, er_Cause = Some err\<rparr>
         | Inr out \<Rightarrow> Inr out) }"

section \<open>The retry loop\<close>

text \<open>The knobs of a client, after \<^verbatim>\<open>New\<close> has replaced the unset ones by their defaults.\<close>

record Client =
  c_maxRetries :: int
  c_initialBackoff :: Duration
  c_backoffMultiplier :: real
  c_maxBackoff :: Duration

definition orDefault :: "Duration \<Rightarrow> Duration \<Rightarrow> Duration" where
  "orDefault v def = (if v \<le> 0 then def else v)"

definition orDefaultInt :: "int \<Rightarrow> int \<Rightarrow> int" where
  "orDefaultInt v def = (if v \<le> 0 then def else v)"

definition NewClient :: "int \<Rightarrow> Duration \<Rightarrow> real \<Rightarrow> Duration \<Rightarrow> Client" where
  "NewClient maxRetries initialBackoff multiplier maxBackoff =
    \<lparr>c_maxRetries = orDefaultInt maxRetries 3,
     c_initialBackoff = orDefault initialBackoff (100 * 10 ^ 6),
     c_backoffMultiplier = (if multiplier \<le> 0 then 2 else multiplier),
     c_maxBackoff = orDefault maxBackoff (2 * 10 ^ 9)\<rparr>"

text \<open>
  The context of a call: \<open>x_Sleep d\<close> waits and tells whether the context ended first,
  \<open>x_Err\<close> whether it has ended.
\<close>

record 'w ctx =
  x_Sleep :: "Duration \<Rightarrow> ('w, bool) state"
  x_Err :: "('w, bool) state"

definition sleepWithCtx :: "'w ctx \<Rightarrow> Duration \<Rightarrow> ('w, Error option) state" where
  "sleepWithCtx X d =
    (if d \<le> 0 then State_Monad.return None
     else do {
       ended \<leftarrow> x_Sleep X d;
       State_Monad.return (if ended then Some \<lparr>er_Category = CategoryTransient, er_Code = CodeEmpty,
         er_Message = text_msg ''context cancelled during retry backoff'', er_Status = 0,
         er_Cause = Some (text_msg ''context'')\<rparr> else None) })"

text \<open>\<^verbatim>\<open>time.Duration(float64(backoff) * multiplier)\<close>, capped.\<close>

definition nextBackoff :: "Client \<Rightarrow> Duration \<Rightarrow> Duration" where
  "nextBackoff c backoff =
    (let nxt = (let r = real_of_int backoff * c_backoffMultiplier c in if 0 \<le> r then \<lfloor>r\<rfloor> else \<lceil>r\<rceil>)
     in if nxt > c_maxBackoff c then c_maxBackoff c else nxt)"

text \<open>
  \<open>retryLoop c X idem send n backoff\<close> are the attempts after the first, with \<open>n\<close> left;
  \<open>last\<close> is the error of the previous one.
\<close>

primrec retryLoop :: "Client \<Rightarrow> 'w ctx \<Rightarrow> bool \<Rightarrow> ('w, 'a exchange) state \<Rightarrow> nat \<Rightarrow> Duration \<Rightarrow> Error \<Rightarrow>
    ('w, Error + 'a) state" where
  "retryLoop c X idempotent send 0 backoff lastErr = State_Monad.return (Inl lastErr)"
| "retryLoop c X idempotent send (Suc n) backoff lastErr = do {
     slept \<leftarrow> sleepWithCtx X backoff;
     (case slept of
        Some e \<Rightarrow> State_Monad.return (Inl e)
      | None \<Rightarrow> do {
          r \<leftarrow> attempt send;
          (case r of
             Inr out \<Rightarrow> State_Monad.return (Inr out)
           | Inl e \<Rightarrow>
               if \<not> idempotent \<or> er_Category e \<noteq> CategoryTransient then State_Monad.return (Inl e)
               else do {
                 ended \<leftarrow> x_Err X;
                 if ended then State_Monad.return (Inl e)
                 else retryLoop c X idempotent send n (nextBackoff c backoff) e }) }) }"

definition doRequest :: "Client \<Rightarrow> 'w ctx \<Rightarrow> bool \<Rightarrow> ('w, 'a exchange) state \<Rightarrow> ('w, Error + 'a) state" where
  "doRequest c X idempotent send = do {
     r \<leftarrow> attempt send;
     (case r of
        Inr out \<Rightarrow> State_Monad.return (Inr out)
      | Inl e \<Rightarrow>
          if \<not> idempotent \<or> er_Category e \<noteq> CategoryTransient then State_Monad.return (Inl e)
          else do {
            ended \<leftarrow> x_Err X;
            if ended then State_Monad.return (Inl e)
            else retryLoop c X idempotent send (nat (c_maxRetries c)) (c_initialBackoff c) e }) }"

section \<open>Endpoints (endpoints.go)\<close>

text \<open>One exchange with the Broker, per route.\<close>

record 'w broker_routes =
  b_PostAdvertisement :: "AdvertisementRequest \<Rightarrow> ('w, AdvertisementResponse exchange) state"
  b_PostHeartbeat :: "HeartbeatRequest \<Rightarrow> ('w, HeartbeatResponse exchange) state"
  b_GetNodeGroups :: "('w, NodeGroupListResponse exchange) state"
  b_PostReservation :: "string \<Rightarrow> ReservationRequest \<Rightarrow> ('w, ReservationResponse exchange) state"
  b_DeleteReservation :: "string \<Rightarrow> ('w, ReleaseResponse exchange) state"
  b_ListReservations :: "('w, ReservationListResponse exchange) state"
  b_GetInstructions :: "('w, InstructionsResponse exchange) state"
  b_PostInstructionResult :: "string \<Rightarrow> InstructionResultRequest \<Rightarrow> ('w, InstructionResultResponse exchange) state"

definition typedResult :: "Error + 'a \<Rightarrow> goerror + 'a" where
  "typedResult r = (case r of Inl e \<Rightarrow> Inl (Typed e) | Inr a \<Rightarrow> Inr a)"

definition call :: "Client \<Rightarrow> 'w ctx \<Rightarrow> ('w, 'a exchange) state \<Rightarrow> ('w, goerror + 'a) state" where
  "call c X send = do { r \<leftarrow> doRequest c X True send; State_Monad.return (typedResult r) }"

definition PostAdvertisement :: "Client \<Rightarrow> 'w ctx \<Rightarrow> 'w broker_routes \<Rightarrow> AdvertisementRequest option \<Rightarrow>
    ('w, goerror + AdvertisementResponse) state" where
  "PostAdvertisement c X B req = (case req of
     None \<Rightarrow> State_Monad.return (Inl (Plain (text_msg ''client: PostAdvertisement: req is nil'')))
   | Some req \<Rightarrow> call c X (b_PostAdvertisement B req))"

definition PostHeartbeat :: "Client \<Rightarrow> 'w ctx \<Rightarrow> 'w broker_routes \<Rightarrow> HeartbeatRequest option \<Rightarrow>
    ('w, goerror + HeartbeatResponse) state" where
  "PostHeartbeat c X B req = (case req of
     None \<Rightarrow> State_Monad.return (Inl (Plain (text_msg ''client: PostHeartbeat: req is nil'')))
   | Some req \<Rightarrow> call c X (b_PostHeartbeat B req))"

definition GetNodeGroups :: "Client \<Rightarrow> 'w ctx \<Rightarrow> 'w broker_routes \<Rightarrow> ('w, goerror + NodeGroupListResponse) state" where
  "GetNodeGroups c X B = call c X (b_GetNodeGroups B)"

definition PostReservation :: "Client \<Rightarrow> 'w ctx \<Rightarrow> 'w broker_routes \<Rightarrow> string \<Rightarrow> ReservationRequest option \<Rightarrow>
    ('w, goerror + ReservationResponse) state" where
  "PostReservation c X B reservationID req =
    (if reservationID = '''' then State_Monad.return (Inl (Plain
       (text_msg ''client: PostReservation: reservationID is required (idempotency key)'')))
     else case req of
       None \<Rightarrow> State_Monad.return (Inl (Plain (text_msg ''client: PostReservation: req is nil'')))
     | Some req \<Rightarrow> call c X (b_PostReservation B reservationID req))"

definition DeleteReservation :: "Client \<Rightarrow> 'w ctx \<Rightarrow> 'w broker_routes \<Rightarrow> string \<Rightarrow>
    ('w, goerror + ReleaseResponse) state" where
  "DeleteReservation c X B reservationID =
    (if reservationID = '''' then State_Monad.return (Inl (Plain
       (text_msg ''client: DeleteReservation: reservationID is required'')))
     else call c X (b_DeleteReservation B reservationID))"

definition ListReservations :: "Client \<Rightarrow> 'w ctx \<Rightarrow> 'w broker_routes \<Rightarrow> ('w, goerror + ReservationListResponse) state" where
  "ListReservations c X B = call c X (b_ListReservations B)"

definition GetInstructions :: "Client \<Rightarrow> 'w ctx \<Rightarrow> 'w broker_routes \<Rightarrow> ('w, goerror + InstructionsResponse) state" where
  "GetInstructions c X B = call c X (b_GetInstructions B)"

definition PostInstructionResult :: "Client \<Rightarrow> 'w ctx \<Rightarrow> 'w broker_routes \<Rightarrow> string \<Rightarrow> InstructionResultRequest option \<Rightarrow>
    ('w, goerror + unit) state" where
  "PostInstructionResult c X B instructionID req =
    (if instructionID = '''' then State_Monad.return (Inl (Plain
       (text_msg ''client: PostInstructionResult: instructionID is required'')))
     else case req of
       None \<Rightarrow> State_Monad.return (Inl (Plain (text_msg ''client: PostInstructionResult: req is nil'')))
     | Some req \<Rightarrow> do {
         r \<leftarrow> call c X (b_PostInstructionResult B instructionID req);
         State_Monad.return (case r of Inl e \<Rightarrow> Inl e | Inr _ \<Rightarrow> Inr ()) })"

section \<open>A network that loses messages\<close>

text \<open>
  A server's answer on the wire, and the environment of a client: the world behind the network,
  the fate of each exchange to come, how many exchanges took place, how long the client slept,
  and after how many exchanges its context ends.
\<close>

definition wire :: "'a response \<Rightarrow> 'a http_response" where
  "wire resp = (case resp of
     writeError st code msg \<Rightarrow> \<lparr>hr_Status = st, hr_ErrBody = EnvBody code msg, hr_Body = Inl (text_msg ''decode'')\<rparr>
   | writeJSON st b \<Rightarrow> \<lparr>hr_Status = st, hr_ErrBody = EnvBody CodeEmpty (text_msg ''''), hr_Body = Inr b\<rparr>)"

datatype fate = Delivered | RequestLost | ResponseLost

record 'w net =
  n_World :: 'w
  n_Fates :: "fate list"
  n_Sent :: nat
  n_Slept :: "Duration list"
  n_Deadline :: "nat option"

definition exchangeWith :: "('w, 'a response) state \<Rightarrow> ('w net, 'a exchange) state" where
  "exchangeWith handler = State (\<lambda>n.
    (let f = (case n_Fates n of [] \<Rightarrow> Delivered | f # _ \<Rightarrow> f);
         n1 = n\<lparr>n_Fates := tl (n_Fates n), n_Sent := Suc (n_Sent n)\<rparr>
     in if f = RequestLost then (Inl (text_msg ''connection refused''), n1)
        else (case run_state handler (n_World n) of (resp, w') \<Rightarrow>
          (if f = ResponseLost then Inl (text_msg ''connection reset'') else Inr (wire resp), n1\<lparr>n_World := w'\<rparr>))))"

definition ctxEnded :: "'w net \<Rightarrow> bool" where
  "ctxEnded n = (case n_Deadline n of None \<Rightarrow> False | Some k \<Rightarrow> k \<le> n_Sent n)"

definition netCtx :: "'w net ctx" where
  "netCtx = \<lparr>x_Sleep = (\<lambda>d. State (\<lambda>n. (ctxEnded n, n\<lparr>n_Slept := n_Slept n @ [d]\<rparr>))),
     x_Err = State (\<lambda>n. (ctxEnded n, n))\<rparr>"

text \<open>One attempt is one exchange; it never sleeps.\<close>

lemma wp_attempt_net:
  "wp (attempt (exchangeWith h)) (\<lambda>r n'. n_Sent n' = Suc (n_Sent n) \<and> n_Slept n' = n_Slept n \<and>
     n_Deadline n' = n_Deadline n) n"
  by (auto simp: wp_def attempt_def exchangeWith_def Let_def split: prod.splits)

lemma wp_sleep_net:
  "wp (sleepWithCtx netCtx d) (\<lambda>r n'. n_Sent n' = n_Sent n \<and> n_Deadline n' = n_Deadline n \<and>
     n_World n' = n_World n \<and> n_Slept n' = n_Slept n @ (if d \<le> 0 then [] else [d]) \<and>
     (r \<noteq> None \<longrightarrow> ctxEnded n \<and> (\<forall>e. r = Some e \<longrightarrow> er_Category e = CategoryTransient))) n"
  by (auto simp: wp_def sleepWithCtx_def netCtx_def ctxEnded_def)

lemma ctxEnded_deadline: "ctxEnded n \<Longrightarrow> n_Deadline n \<noteq> None"
  by (auto simp: ctxEnded_def split: option.splits)

lemma wp_ctxErr_net: "wp (x_Err netCtx) (\<lambda>r n'. n' = n \<and> r = ctxEnded n) n"
  by (simp add: wp_def netCtx_def)

text \<open>
  What the retries may cost: at most \<open>budget\<close> further exchanges, back-offs that respect the
  cap, and, if the outcome is still a transient error and the context never ended, all of them.
\<close>

definition retried :: "Client \<Rightarrow> nat \<Rightarrow> 'w net \<Rightarrow> Error + 'a \<Rightarrow> 'w net \<Rightarrow> bool" where
  "retried c budget n r n' \<longleftrightarrow> n_Sent n \<le> n_Sent n' \<and> n_Sent n' \<le> n_Sent n + budget \<and>
     n_Deadline n' = n_Deadline n \<and>
     (\<exists>ds. n_Slept n' = n_Slept n @ ds \<and> length ds \<le> budget \<and>
        (\<forall>d\<in>set ds. 0 < d \<and> d \<le> max (c_initialBackoff c) (c_maxBackoff c))) \<and>
     (\<forall>e. r = Inl e \<longrightarrow> er_Category e = CategoryTransient \<longrightarrow> n_Deadline n = None \<longrightarrow> n_Sent n' = n_Sent n + budget)"

lemma nextBackoff_le: "nextBackoff c d \<le> max (c_initialBackoff c) (c_maxBackoff c)"
  by (auto simp: nextBackoff_def Let_def)

lemma wp_retryLoop_net:
  fixes h :: "('w, 'a response) state"
  assumes "d \<le> max (c_initialBackoff c) (c_maxBackoff c)" and "er_Category e = CategoryTransient" and "idempotent"
  shows "wp (retryLoop c netCtx idempotent (exchangeWith h) k d e) (\<lambda>r n'. retried c k n r n') n"
  using assms
proof (induction k arbitrary: d e n)
  case 0
  then show ?case by (simp add: retried_def)
next
  case (Suc k)
  show ?case
    unfolding retryLoop.simps wp_bind
  proof (rule wp_mono [OF wp_sleep_net], goal_cases)
    case (1 s n1)
    then have sl: "\<exists>ds. n_Slept n1 = n_Slept n @ ds \<and> length ds \<le> 1 \<and> (\<forall>x\<in>set ds. 0 < x \<and> x \<le> max (c_initialBackoff c) (c_maxBackoff c))"
      using Suc.prems by (auto split: if_splits)
    show ?case
    proof (cases s)
      case (Some e')
      with 1 sl ctxEnded_deadline [of n] show ?thesis by (fastforce simp: retried_def)
    next
      case None
      show ?thesis
        unfolding None option.case wp_bind
      proof (rule wp_mono [OF wp_attempt_net], goal_cases)
        case (1 r n2)
        note n2 = this
        note n1 = \<open>n_Sent n1 = n_Sent n \<and> _\<close>
        show ?case
        proof (cases r)
          case (Inr a)
          with n1 n2 sl show ?thesis by (fastforce simp: retried_def)
        next
          case (Inl e')
          show ?thesis
          proof (cases "er_Category e' = CategoryTransient")
            case False
            with Inl n1 n2 sl show ?thesis by (fastforce simp: retried_def)
          next
            case True
            have "wp (x_Err netCtx) (\<lambda>ended. wp (if ended then State_Monad.return (Inl e')
                else retryLoop c netCtx idempotent (exchangeWith h) k (nextBackoff c d) e') (retried c (Suc k) n)) n2"
            proof (rule wp_mono [OF wp_ctxErr_net], goal_cases)
              case (1 ended n3)
              show ?case
              proof (cases ended)
                case True
                with 1 n1 n2 sl ctxEnded_deadline [of n2] show ?thesis by (fastforce simp: retried_def)
              next
                case False
                from sl n1 n2 obtain ds where ds: "n_Slept n2 = n_Slept n @ ds" "length ds \<le> 1"
                  "\<forall>x\<in>set ds. 0 < x \<and> x \<le> max (c_initialBackoff c) (c_maxBackoff c)" by auto
                have "retried c (Suc k) n r' n'" if "retried c k n2 r' n'" for r' :: "Error + 'a" and n'
                proof -
                  from that obtain ds' where "n_Slept n' = n_Slept n2 @ ds'" "length ds' \<le> k"
                    "\<forall>x\<in>set ds'. 0 < x \<and> x \<le> max (c_initialBackoff c) (c_maxBackoff c)"
                    by (auto simp: retried_def)
                  with ds that n1 n2 show ?thesis
                    by (auto simp: retried_def intro!: exI [of _ "ds @ ds'"])
                qed
                with False 1 show ?thesis
                  using wp_mono [OF Suc.IH [OF nextBackoff_le \<open>er_Category e' = CategoryTransient\<close> \<open>idempotent\<close>]] by simp
              qed
            qed
            with Inl True \<open>idempotent\<close> show ?thesis by simp
          qed
        qed
      qed
    qed
  qed
qed

definition requested :: "Client \<Rightarrow> bool \<Rightarrow> 'w net \<Rightarrow> Error + 'a \<Rightarrow> 'w net \<Rightarrow> bool" where
  "requested c idempotent n r n' \<longleftrightarrow> (\<exists>n1. n_Sent n1 = Suc (n_Sent n) \<and> n_Slept n1 = n_Slept n \<and>
     n_Deadline n1 = n_Deadline n \<and>
     (if idempotent then retried c (nat (c_maxRetries c)) n1 r n' \<or> n' = n1 \<and>
        ((\<exists>a. r = Inr a) \<or> (\<exists>e. r = Inl e \<and> (er_Category e \<noteq> CategoryTransient \<or> n_Deadline n \<noteq> None)))
      else n' = n1))"

lemma wp_doRequest_net:
  fixes h :: "('w, 'a response) state"
  shows "wp (doRequest c netCtx idempotent (exchangeWith h)) (requested c idempotent n) n"
  unfolding doRequest_def wp_bind
proof (rule wp_mono [OF wp_attempt_net], goal_cases)
  case (1 r n1)
  have loop: "wp (x_Err netCtx) (\<lambda>ended. wp (if ended then State_Monad.return (Inl e)
      else retryLoop c netCtx idempotent (exchangeWith h) (nat (c_maxRetries c)) (c_initialBackoff c) e)
      (requested c idempotent n)) n1"
    if "er_Category e = CategoryTransient" "idempotent" for e
  proof (rule wp_mono [OF wp_ctxErr_net], goal_cases)
    case (1 ended n2)
    have "retried c (nat (c_maxRetries c)) n1 r' n' \<Longrightarrow> requested c idempotent n r' n'" for r' :: "Error + 'a" and n'
      using \<open>n_Sent n1 = _ \<and> _\<close> that by (auto simp: requested_def)
    then have "wp (retryLoop c netCtx idempotent (exchangeWith h) (nat (c_maxRetries c)) (c_initialBackoff c) e)
        (requested c idempotent n) n1"
      by (rule wp_mono [OF wp_retryLoop_net [OF max.cobounded1 that], rotated])
    with 1 show ?case
      using \<open>n_Sent n1 = _ \<and> _\<close> ctxEnded_deadline [of n1] that by (auto simp: requested_def)
  qed
  show ?case
  proof (cases r)
    case (Inr a)
    with 1 show ?thesis by (auto simp: requested_def)
  next
    case (Inl e)
    with 1 loop show ?thesis
      by (cases "idempotent \<and> er_Category e = CategoryTransient") (auto simp: requested_def)
  qed
qed

text \<open>
  C31. The retry policy. A request of the client costs at least one and at most
  \<open>maxRetries + 1\<close> exchanges, and exactly one if it is not marked idempotent; every pause
  between them is at most the larger of the initial and the maximal back-off. An idempotent
  request gives up with a transient error only after all its attempts, unless its context ended.
\<close>

theorem client_retry_policy:
  assumes "run_state (doRequest c netCtx idempotent (exchangeWith h)) n = (r, n')"
  shows "1 \<le> n_Sent n' - n_Sent n \<and> n_Sent n' - n_Sent n \<le> nat (c_maxRetries c) + 1 \<and>
    (\<not> idempotent \<longrightarrow> n_Sent n' = n_Sent n + 1 \<and> n_Slept n' = n_Slept n) \<and>
    (\<exists>ds. n_Slept n' = n_Slept n @ ds \<and> length ds \<le> nat (c_maxRetries c) \<and>
       (\<forall>d\<in>set ds. 0 < d \<and> d \<le> max (c_initialBackoff c) (c_maxBackoff c))) \<and>
    (\<forall>e. r = Inl e \<and> er_Category e = CategoryTransient \<and> idempotent \<and> n_Deadline n = None \<longrightarrow>
       n_Sent n' = n_Sent n + nat (c_maxRetries c) + 1)"
  using wp_run [OF wp_doRequest_net assms] by (auto simp: requested_def retried_def split: if_splits)


section \<open>At most one booking\<close>

text \<open>
  An invariant of the server's world that every handled request keeps is kept by a client's
  call, however often it is retried and whatever is lost; an answer the client reports was
  produced by the last request handled.
\<close>

definition received :: "'a http_response \<Rightarrow> Error + 'a" where
  "received resp = (if hr_Status resp \<ge> 400 then Inl (decodeErrorBody (hr_Status resp) (hr_ErrBody resp))
     else case hr_Body resp of
       Inl err \<Rightarrow> Inl \<lparr>er_Category = CategoryTransient, er_Code = CodeEmpty, er_Message = err, er_Status = hr_Status resp,
         er_Cause = Some err\<rparr>
     | Inr out \<Rightarrow> Inr out)"

text \<open>
  The general rule: the outcome \<open>R\<close> holds of what the handler answers in the world it leaves,
  and of an error of the network in every world that satisfies the invariant.
\<close>

lemma wp_attempt_gen:
  assumes "\<And>w. I w \<Longrightarrow> wp h (\<lambda>resp w'. I w' \<and> R (received (wire resp)) w') w"
    and "\<And>e w. I w \<Longrightarrow> er_Status e = 0 \<Longrightarrow> R (Inl e) w" and "I (n_World n)"
  shows "wp (attempt (exchangeWith h)) (\<lambda>r n'. I (n_World n') \<and> R r (n_World n')) n"
  using assms(1) [OF assms(3)] assms(2,3)
  by (auto simp: wp_def attempt_def exchangeWith_def Let_def received_def split: prod.splits)

lemma wp_retryLoop_gen:
  assumes "\<And>w. I w \<Longrightarrow> wp h (\<lambda>resp w'. I w' \<and> R (received (wire resp)) w') w"
    and "\<And>e w. I w \<Longrightarrow> er_Status e = 0 \<Longrightarrow> R (Inl e) w" and "I (n_World n)" and "R (Inl e) (n_World n)"
  shows "wp (retryLoop c netCtx idempotent (exchangeWith h) k d e) (\<lambda>r n'. I (n_World n') \<and> R r (n_World n')) n"
  using assms(3,4)
proof (induction k arbitrary: d e n)
  case (Suc k)
  have sleep: "wp (sleepWithCtx netCtx d) (\<lambda>r n'. n_World n' = n_World n \<and> (\<forall>e. r = Some e \<longrightarrow> er_Status e = 0)) n"
    by (auto simp: wp_def sleepWithCtx_def netCtx_def)
  show ?case
    unfolding retryLoop.simps wp_bind
  proof (rule wp_mono [OF sleep], goal_cases)
    case (1 s n1)
    then have n1: "I (n_World n1)" using Suc.prems by simp
    have "wp (attempt (exchangeWith h)) (\<lambda>r. wp (case r of Inr out \<Rightarrow> State_Monad.return (Inr out)
       | Inl e \<Rightarrow> if \<not> idempotent \<or> er_Category e \<noteq> CategoryTransient then State_Monad.return (Inl e)
           else do { ended \<leftarrow> x_Err netCtx; if ended then State_Monad.return (Inl e)
             else retryLoop c netCtx idempotent (exchangeWith h) k (nextBackoff c d) e })
       (\<lambda>r n'. I (n_World n') \<and> R r (n_World n'))) n1"
      by (rule wp_mono [OF wp_attempt_gen [where R = R, OF assms(1,2) n1]])
        (use Suc.IH in \<open>auto split: sum.splits intro!: wp_mono [OF wp_ctxErr_net]\<close>)
    note retry = this
    show ?case
    proof (cases s)
      case None
      show ?thesis
        unfolding None option.case wp_bind by (rule retry)
    qed (use 1 n1 assms(2) in simp)
  qed
qed simp

lemma wp_doRequest_gen:
  assumes "\<And>w. I w \<Longrightarrow> wp h (\<lambda>resp w'. I w' \<and> R (received (wire resp)) w') w"
    and "\<And>e w. I w \<Longrightarrow> er_Status e = 0 \<Longrightarrow> R (Inl e) w" and "I (n_World n)"
  shows "wp (doRequest c netCtx idempotent (exchangeWith h)) (\<lambda>r n'. I (n_World n') \<and> R r (n_World n')) n"
  unfolding doRequest_def wp_bind
  by (rule wp_mono [OF wp_attempt_gen [where R = R, OF assms]])
    (auto split: sum.splits intro!: wp_mono [OF wp_ctxErr_net] wp_retryLoop_gen [OF assms(1,2)])

lemma wp_call_gen:
  assumes "\<And>w. I w \<Longrightarrow> wp h (\<lambda>resp w'. I w' \<and> R (received (wire resp)) w') w"
    and "\<And>e w. I w \<Longrightarrow> er_Status e = 0 \<Longrightarrow> R (Inl e) w" and "I (n_World n)"
  shows "wp (call c netCtx (exchangeWith h)) (\<lambda>r n'. I (n_World n') \<and>
    (\<exists>x. r = typedResult x \<and> R x (n_World n'))) n"
  unfolding call_def wp_bind
  by (rule wp_mono [OF wp_doRequest_gen [where R = R, OF assms]]) auto

lemma typedResult_Inr: "typedResult x = Inr b \<longleftrightarrow> x = Inr b"
  by (cases x) (auto simp: typedResult_def)

lemma wp_call_inv:
  assumes "\<And>w. I w \<Longrightarrow> wp h (\<lambda>resp w'. I w' \<and> (\<forall>st b. resp = writeJSON st b \<longrightarrow> R b w')) w" and "I (n_World n)"
  shows "wp (call c netCtx (exchangeWith h))
    (\<lambda>r n'. I (n_World n') \<and> (\<forall>b. r = Inr b \<longrightarrow> R b (n_World n'))) n"
proof -
  let ?R = "\<lambda>r w. \<forall>b. r = Inr b \<longrightarrow> R b w"
  have "wp h (\<lambda>resp w'. I w' \<and> ?R (received (wire resp)) w') w" if "I w" for w
    by (rule wp_mono [OF assms(1) [OF that]]) (auto simp: received_def wire_def split: response.splits)
  then have "wp (call c netCtx (exchangeWith h)) (\<lambda>r n'. I (n_World n') \<and> (\<exists>x. r = typedResult x \<and> ?R x (n_World n'))) n"
    by (rule wp_call_gen [where R = ?R]) (use assms(2) in simp_all)
  then show ?thesis
    by (rule wp_mono) (auto simp: typedResult_Inr)
qed

context kube_reliable
begin

lemma wp_getAdv_ok:
  assumes "adv_at (objs w) p = Some a" and "\<And>w'. objs w' = objs w \<Longrightarrow> Q (Inr a) w'"
  shows "wp (GetAdv K p) Q w"
proof -
  have "objs w (AdvKind, p) = Some (KAdv a)"
    using assms(1) by (auto simp: adv_at_def split: option.splits kobj.splits)
  from get_ok [OF this] show ?thesis
    by (auto simp: get_typed_def typed_def intro!: wpI assms(2) dest: get_law split: prod.splits)
qed

lemma wp_statusAdv_ok:
  assumes "adv_at (objs w) (m_Name (ca_Meta a)) = Some cur" and "m_ResourceVersion (ca_Meta cur) = m_ResourceVersion (ca_Meta a)"
    and "\<And>w' a'. Q (Inr a') w'"
  shows "wp (StatusUpdateAdv K a) Q w"
proof -
  have "objs w (kobj_key (KAdv a)) = Some (KAdv cur)"
    using assms(1) by (auto simp: adv_at_def split: option.splits kobj.splits)
  moreover from this obtain x' where "fst (run_state (k_StatusUpdate K (KAdv a)) w) = Inr x'"
    using status_ok [of w "KAdv a" "KAdv cur"] assms(2) by auto
  ultimately show ?thesis
    using status_law [OF surjective_pairing, of "KAdv a" w]
    by (auto simp: wp_def status_typed_def typed_def status_updated_def assms(3) split: prod.splits)
qed

lemma wp_createResv_ok:
  assumes "resv_at (objs w) (m_Name (rs_Meta r)) = None" and "\<And>w' r'. Q (Inr r') w'"
  shows "wp (CreateResv K r) Q w"
proof -
  have "objs w (kobj_key (KResv r)) = None"
    using assms(1) resv.look_None_iff by simp
  from create_ok [OF this] obtain x' where "fst (run_state (k_Create K (KResv r)) w) = Inr x'" by auto
  then show ?thesis
    using create_law [OF surjective_pairing, of "KResv r" w]
    by (auto simp: wp_def create_typed_def typed_def created_def assms(2) split: prod.splits)
qed

lemma wp_reserveChunks_ok:
  assumes "adv_at (objs w) p = Some a"
  shows "wp (reserveChunks K p c) (\<lambda>r _. \<not> isl r) w"
proof -
  have p: "m_Name (ca_Meta a) = p" using adv.look_name [OF assms] .
  have "wp (casLoop (Suc 2) (GetAdv K p) (tryReserve c) (StatusUpdateAdv K))
      (\<lambda>r _. (\<exists>s. r = Stopped s) \<or> (\<exists>y. r = Written y)) w"
    unfolding casLoop.simps(2) wp_bind
  proof (rule wp_getAdv_ok [OF assms], goal_cases)
    case (1 w1)
    then show ?case
      using assms p by (auto simp: tryReserve_def intro!: wp_statusAdv_ok split: sum.splits)
  qed
  then show ?thesis
    by (auto simp: reserveChunks_def numeral_3_eq_3 numeral_2_eq_2 elim!: wp_mono)
qed

lemma wp_findAdvertisement_ok:
  "wp (findAdvertisement K p t) (\<lambda>r _. \<forall>st c m. r = Inl (st, c, m) \<longrightarrow> st \<noteq> 500) w"
proof (cases "adv_at (objs w) p")
  case None
  then have "objs w (AdvKind, p) = None" using adv.look_None_iff by simp
  from get_none [OF this] show ?thesis
    by (auto simp: findAdvertisement_def wp_def get_typed_def typed_def split: prod.splits)
next
  case (Some a)
  then show ?thesis
    unfolding findAdvertisement_def wp_bind by (rule wp_getAdv_ok) auto
qed

lemma wp_getResv_none:
  assumes "resv_at (objs w) n = None" and "\<And>w'. objs w' = objs w \<Longrightarrow> Q (Inl KNotFound) w'"
  shows "wp (GetResv K n) Q w"
proof -
  have "objs w (ResvKind, n) = None" using assms(1) resv.look_None_iff by simp
  from get_none [OF this] show ?thesis
    by (auto simp: get_typed_def typed_def intro!: wpI assms(2) dest: get_law split: prod.splits)
qed

lemma wp_admit_ok:
  assumes "adv_at (objs w) p = Some a" "m_Name (ca_Meta a) = p"
  shows "wp (admitReservation now K srv consumer entry req n a) (\<lambda>resp _. response_status resp \<noteq> 500) w"
proof (cases "resv_at (objs w) n")
  case (Some r)
  then have "objs w (ResvKind, n) = Some (KResv r)"
    by (auto simp: resv_at_def split: option.splits kobj.splits)
  from get_ok [OF this] show ?thesis
    by (auto simp: admitReservation_def wp_def get_typed_def typed_def split: prod.splits if_splits)
next
  case None
  have res: "wp (reserveChunks K p c) (\<lambda>r w'. \<not> isl r \<and> resv_at (objs w') n = None) w1" if "objs w1 = objs w" for c w1
    by (rule wp_conj, rule wp_reserveChunks_ok, simp add: that assms, rule wp_reserveChunks)
      (use that None in simp_all)
  have persist: "wp (persistReservation now K srv consumer entry req n a) (\<lambda>resp _. response_status resp \<noteq> 500) w1"
    if "resv_at (objs w1) n = None" for w1
    unfolding persistReservation_def wp_bind
    by (rule wp_createResv_ok) (use that in \<open>auto simp: buildReservation_def named_meta_def wp_def split: prod.splits\<close>)
  have "wp (do {
      res \<leftarrow> reserveChunks K (m_Name (ca_Meta a)) (rq_ChunkCount req);
      (case res of
         Inl _ \<Rightarrow> State_Monad.return (writeError 500 InternalError (text_msg ''reservation capacity update failed''))
       | Inr (False, available) \<Rightarrow> State_Monad.return (writeError 409 InsufficientCapacity
           (Sprintf ''provider %q has %d chunks available; %d requested''
             [AStr (rq_ProviderClusterID req), AInt available, AInt (rq_ChunkCount req)]))
       | Inr (True, _) \<Rightarrow> persistReservation now K srv consumer entry req n a) })
      (\<lambda>resp _. response_status resp \<noteq> 500) w1" if "objs w1 = objs w" for w1
    unfolding wp_bind assms(2)
    by (rule wp_mono [OF res [OF that]]) (use persist in \<open>auto split: sum.splits bool.splits\<close>)
  then show ?thesis
    unfolding admitReservation_def wp_bind [of "GetResv K n"] by (intro wp_getResv_none [OF None]) simp
qed

lemma wp_create_ok:
  "wp (handleReservationCreate now K dns uuid srv consumer header (Inr req)) (\<lambda>resp _. response_status resp \<noteq> 500) w"
proof -
  have "wp (findAdvertisement K (rq_ProviderClusterID req) (rq_ChunkType req)) (\<lambda>f. wp (case f of
      Inl (status, code, msg) \<Rightarrow> State_Monad.return (writeError status code msg)
    | Inr cadv \<Rightarrow> (case reservationName dns uuid header of
        Inl err \<Rightarrow> State_Monad.return (writeError 400 InvalidRequest err)
      | Inr resName \<Rightarrow> admitReservation now K srv consumer entry req resName cadv))
      (\<lambda>resp _. response_status resp \<noteq> 500)) w" for entry
    by (rule wp_mono [OF wp_conj [OF wp_findAdvertisement wp_findAdvertisement_ok]])
      (auto split: sum.splits intro!: wp_admit_ok)
  then show ?thesis
    unfolding handleReservationCreate_def by (auto split: option.splits prod.splits bool.splits)
qed

end

lemma wp_any [simp]: "wp m (\<lambda>_ _. True) w"
  by (simp add: wp_def split: prod.splits)

context kube_api
begin

lemma wp_create_fresh:
  assumes "resv_at (objs w) header = None" and "header \<noteq> ''''"
  shows "wp (handleReservationCreate now K dns uuid srv consumer header (Inr req))
    (\<lambda>resp _. \<forall>st. (\<exists>b. resp = writeJSON st b) \<longrightarrow> st = 201) w"
proof -
  have persist: "wp (persistReservation now K srv consumer entry req header a)
      (\<lambda>resp _. \<forall>st. (\<exists>b. resp = writeJSON st b) \<longrightarrow> st = 201) w1" for entry a w1
    by (auto simp: persistReservation_def wp_def split: sum.splits prod.splits)
  have admit: "wp (admitReservation now K srv consumer entry req header a)
      (\<lambda>resp _. \<forall>st. (\<exists>b. resp = writeJSON st b) \<longrightarrow> st = 201) w1" if "objs w1 = objs w" for entry a w1
    unfolding admitReservation_def wp_bind
    by (rule resv.wp_get) (use assms that persist in \<open>auto intro!: wp_mono [OF wp_any [of "reserveChunks K _ _"]] split: sum.splits bool.splits\<close>)
  show ?thesis
    unfolding handleReservationCreate_def
    using assms(2) by (auto simp: reservationName_def intro!: wp_mono [OF wp_findAdvertisement] admit
        split: option.splits prod.splits bool.splits sum.splits)
qed

end

text \<open>The Broker's side of one request, handled at the time the world's clock shows.\<close>

definition brokerCreate :: "('w \<Rightarrow> Time) \<Rightarrow> 'w kube \<Rightarrow> (string \<Rightarrow> string list) \<Rightarrow> string \<Rightarrow> Server \<Rightarrow> string \<Rightarrow>
    string \<Rightarrow> ReservationRequest \<Rightarrow> ('w, ReservationResponse response) state" where
  "brokerCreate clock K dns uuid srv consumer header req = State (\<lambda>w.
     run_state (handleReservationCreate (clock w) K dns uuid srv consumer header (Inr req)) w)"

text \<open>Nothing happened, or the reservation \<open>n\<close> was created and took one chunk.\<close>

definition booked :: "string \<Rightarrow> ReservationRequest \<Rightarrow> string \<Rightarrow> store \<Rightarrow> store \<Rightarrow> bool" where
  "booked consumer req n s s' \<longleftrightarrow> s' = s \<or>
     resv_at s n = None \<and> ledger_shift (rq_ProviderClusterID req) 1 s s' \<and>
     (\<exists>r. resv_at s' n = Some r \<and> reservation_for consumer req r) \<and> (\<forall>m. m \<noteq> n \<longrightarrow> resv_at s' m = resv_at s m)"

context kube_reliable
begin

lemma wp_brokerCreate_booked:
  assumes s: "\<And>a. adv_at s (rq_ProviderClusterID req) = Some a \<Longrightarrow> ledger_wf a" and h: "n \<noteq> ''''" "dns n = []"
    and w: "booked consumer req n s (objs w)"
  shows "wp (brokerCreate clock K dns uuid srv consumer n req) (\<lambda>resp w'. booked consumer req n s (objs w') \<and>
    (\<forall>st b. resp = writeJSON st b \<longrightarrow> ro_ReservationID b = n \<and> resv_at (objs w') n \<noteq> None)) w"
proof -
  have run: "wp (brokerCreate clock K dns uuid srv consumer n req) Q w =
      wp (handleReservationCreate (clock w) K dns uuid srv consumer n (Inr req)) Q w" for Q
    by (simp add: brokerCreate_def wp_def)
  show ?thesis
  proof (cases "resv_at (objs w) n")
    case (Some r)
    with resv.look_name [OF Some] w show ?thesis
      unfolding run by (intro wp_mono [OF wp_create_existing [OF Some h(1)]]) (auto simp: reservationResponseFromCR_def)
  next
    case None
    then have same: "objs w = s" using w by (auto simp: booked_def)
    have name: "reservationName dns uuid n = Inr n" using h by (simp add: reservationName_def)
    have "wp (handleReservationCreate (clock w) K dns uuid srv consumer n (Inr req)) (\<lambda>resp w'.
        create_post n consumer req s resp (objs w') \<and> response_status resp \<noteq> 500 \<and>
        (\<forall>st b. resp = writeJSON st b \<longrightarrow> st = 201)) w"
      using wp_conj [OF wp_handleReservationCreate [where uuid = uuid and header = n and dns = dns] wp_conj [OF wp_create_ok wp_create_fresh [OF None h(1)]]]
        s same name by simp
    then show ?thesis
      unfolding run
    proof (rule wp_mono, goal_cases)
      case (1 resp w')
      then show ?case
        by (cases resp) (auto simp: create_post_def booked_def split: if_splits)
    qed
  qed
qed

end


definition lostTwice :: "memstore net" where
  "lostTwice = \<lparr>n_World = oneProvider, n_Fates = [ResponseLost, RequestLost], n_Sent = 0, n_Slept = [],
     n_Deadline = None\<rparr>"

abbreviation absentRoute :: "('w net, 'a exchange) state" where
  "absentRoute \<equiv> exchangeWith (State_Monad.return (writeError 404 NotFoundCode (text_msg '''')))"

definition exampleRoutes :: "memstore net broker_routes" where
  "exampleRoutes = \<lparr>b_PostAdvertisement = (\<lambda>_. absentRoute), b_PostHeartbeat = (\<lambda>_. absentRoute),
     b_GetNodeGroups = absentRoute, b_PostReservation = (\<lambda>h q. exchangeWith
       (brokerCreate ms_clock memK (\<lambda>_. []) '''' exampleServer ''c'' h q)),
     b_DeleteReservation = (\<lambda>_. absentRoute), b_ListReservations = absentRoute,
     b_GetInstructions = absentRoute, b_PostInstructionResult = (\<lambda>_ _. absentRoute)\<rparr>"

abbreviation exampleClient :: Client where
  "exampleClient \<equiv> NewClient 0 0 0 0"

abbreviation examplePost :: "(goerror + ReservationResponse) \<times> memstore net" where
  "examplePost \<equiv> run_state (PostReservation exampleClient netCtx exampleRoutes ''res-1'' (Some exampleResvReq)) lostTwice"


theorem client_retry_policy_witness:
  "\<exists>ds. n_Slept (snd (run_state (doRequest exampleClient netCtx True (exchangeWith
       (brokerCreate ms_clock memK (\<lambda>_. []) '''' exampleServer ''c'' ''res-1'' exampleResvReq))) lostTwice)) = [] @ ds \<and>
     length ds \<le> 3 \<and> (\<forall>d\<in>set ds. d \<le> 2000000000)"
  using client_retry_policy [OF surjective_pairing, of exampleClient True "brokerCreate ms_clock memK (\<lambda>_. []) ''''
      exampleServer ''c'' ''res-1'' exampleResvReq" lostTwice]
  by (fastforce simp: lostTwice_def NewClient_def orDefault_def orDefaultInt_def)

end
