(* ===== verification/Latency.thy ===== *)
theory Latency
  imports ApiTypes
begin

text \<open>
  \<^verbatim>\<open>internal/agent/consumer/latency\<close>: measuring the round-trip time to providers' echo endpoints,
  with a cache, and picking the nearest. An infinite time (no answer) is \<open>None\<close>; the datagrams
  themselves are an argument.
\<close>

section \<open>The prober\<close>

type_synonym rtt = "real option"

record Candidate =
  cd_ProviderClusterID :: string
  cd_Endpoint :: string

record ProbeResult =
  pr_Chosen :: string
  pr_RTTs :: "(string \<times> rtt) list"

record Prober =
  p_cache :: "(string \<times> rtt \<times> Time) list"
  p_last :: ProbeResult
  p_nProbes :: int
  p_timeout :: Duration
  p_ttl :: Duration

definition NewProber :: "int \<Rightarrow> Duration \<Rightarrow> Duration \<Rightarrow> Prober" where
  "NewProber probeCount probeTimeout cacheTTL =
    \<lparr>p_cache = [], p_last = \<lparr>pr_Chosen = '''', pr_RTTs = []\<rparr>,
     p_nProbes = (if probeCount \<le> 0 then 5 else probeCount),
     p_timeout = (if probeTimeout \<le> 0 then 300 * 10 ^ 6 else probeTimeout),
     p_ttl = (if cacheTTL \<le> 0 then 15 * 10 ^ 9 else cacheTTL)\<rparr>"

text \<open>
  \<open>probeOnce i\<close> is the outcome of the \<open>i\<close>-th probe of an endpoint: \<open>None\<close> if it failed,
  \<open>Some d\<close> if the echo came back after \<open>d\<close> nanoseconds; \<open>cancelled i\<close> tells whether the context
  has ended before it. \<^verbatim>\<open>d.Microseconds()\<close> truncates.
\<close>

fun probeLoop :: "(nat \<Rightarrow> Duration option) \<Rightarrow> (nat \<Rightarrow> bool) \<Rightarrow> nat \<Rightarrow> nat \<Rightarrow> real list" where
  "probeLoop probeOnce cancelled i 0 = []"
| "probeLoop probeOnce cancelled i (Suc n) =
    (if cancelled i then []
     else (case probeOnce i of None \<Rightarrow> [] | Some d \<Rightarrow> [real_of_int (d sdiv 1000) / 1000])
          @ probeLoop probeOnce cancelled (Suc i) n)"

definition probeMedian :: "(nat \<Rightarrow> Duration option) \<Rightarrow> (nat \<Rightarrow> bool) \<Rightarrow> Prober \<Rightarrow> rtt" where
  "probeMedian probeOnce cancelled p =
    (let samples = sort (probeLoop probeOnce cancelled 0 (nat (p_nProbes p)))
     in if samples = [] then None else Some (samples ! (length samples div 2)))"

text \<open>
  The first loop of \<^verbatim>\<open>Measure\<close>: fresh cache hits are served, the others collected. The value of a
  duplicate or empty endpoint is not set again.
\<close>

fun collectProbes :: "Time \<Rightarrow> Prober \<Rightarrow> string list \<Rightarrow> (string \<times> rtt) list \<times> string list \<Rightarrow>
    (string \<times> rtt) list \<times> string list" where
  "collectProbes now p [] acc = acc"
| "collectProbes now p (ep # eps) (out, toProbe) =
    (if map_of out ep \<noteq> None \<or> ep = '''' then collectProbes now p eps (out, toProbe)
     else (case map_of (p_cache p) ep of
         Some (r, taken) \<Rightarrow> if now - taken < p_ttl p then collectProbes now p eps ((ep, r) # out, toProbe)
                         else collectProbes now p eps ((ep, None) # out, toProbe @ [ep])
       | None \<Rightarrow> collectProbes now p eps ((ep, None) # out, toProbe @ [ep])))"

text \<open>
  The probes run concurrently and independently; \<open>probe ep\<close> is what \<^verbatim>\<open>probeMedian\<close> returns for
  the endpoint, \<open>now'\<close> the time after all have ended.
\<close>

definition Measure :: "Time \<Rightarrow> Time \<Rightarrow> (string \<Rightarrow> rtt) \<Rightarrow> Prober \<Rightarrow> string list \<Rightarrow> (string \<times> rtt) list \<times> Prober" where
  "Measure now now' probe p endpoints =
    (case collectProbes now p endpoints ([], []) of (out, toProbe) \<Rightarrow>
       if toProbe = [] then (out, p)
       else (fold (\<lambda>ep out. AList.update ep (probe ep) out) toProbe out,
             p\<lparr>p_cache := fold (\<lambda>ep c. AList.update ep (probe ep, now') c) toProbe (p_cache p)\<rparr>))"

text \<open>\<open>r < best\<close> on measurements, infinity being the largest.\<close>

fun rtt_less :: "rtt \<Rightarrow> rtt \<Rightarrow> bool" where
  "rtt_less (Some a) (Some b) = (a < b)"
| "rtt_less (Some a) None = True"
| "rtt_less None _ = False"

text \<open>A missing key of a Go map reads as 0.\<close>

definition rtt_of :: "(string \<times> rtt) list \<Rightarrow> string \<Rightarrow> rtt" where
  "rtt_of m k = (case map_of m k of Some r \<Rightarrow> r | None \<Rightarrow> Some 0)"

fun pickLowest :: "(string \<times> rtt) list \<Rightarrow> Candidate list \<Rightarrow> string \<times> rtt \<Rightarrow> string \<times> rtt" where
  "pickLowest rtts [] acc = acc"
| "pickLowest rtts (c # cs) (chosen, best) =
    (if rtt_less (rtt_of rtts (cd_ProviderClusterID c)) best
     then pickLowest rtts cs (cd_ProviderClusterID c, rtt_of rtts (cd_ProviderClusterID c))
     else pickLowest rtts cs (chosen, best))"

definition candidateRTTs :: "(string \<times> rtt) list \<Rightarrow> Candidate list \<Rightarrow> (string \<times> rtt) list" where
  "candidateRTTs measured cands =
     fold (\<lambda>c m. AList.update (cd_ProviderClusterID c)
       (if cd_Endpoint c = '''' then None else rtt_of measured (cd_Endpoint c)) m) cands []"

definition MeasureAndPick :: "Time \<Rightarrow> Time \<Rightarrow> (string \<Rightarrow> rtt) \<Rightarrow> Prober \<Rightarrow> Candidate list \<Rightarrow> ProbeResult \<times> Prober" where
  "MeasureAndPick now now' probe p cands =
    (case Measure now now' probe p (filter (\<lambda>e. e \<noteq> '''') (map cd_Endpoint cands)) of (measured, p') \<Rightarrow>
      (let rtts = candidateRTTs measured cands;
           (chosen, best) = pickLowest rtts cands ('''', None);
           res = \<lparr>pr_Chosen = (if best = None then '''' else chosen), pr_RTTs = rtts\<rparr>
       in (res, p'\<lparr>p_last := res\<rparr>)))"

definition LastMeasurements :: "Prober \<Rightarrow> ProbeResult" where
  "LastMeasurements p = p_last p"

section \<open>Which provider wins\<close>

lemma pickLowest_spec:
  assumes "pickLowest rtts cs (ch, b) = (ch', b')"
  shows "(ch' = ch \<and> b' = b \<and> (\<forall>c\<in>set cs. \<not> rtt_less (rtt_of rtts (cd_ProviderClusterID c)) b)) \<or>
    (\<exists>us c vs. cs = us @ c # vs \<and> ch' = cd_ProviderClusterID c \<and> b' = rtt_of rtts ch' \<and> rtt_less b' b \<and>
       (\<forall>u\<in>set us. rtt_less b' (rtt_of rtts (cd_ProviderClusterID u))) \<and>
       (\<forall>v\<in>set vs. \<not> rtt_less (rtt_of rtts (cd_ProviderClusterID v)) b'))"
  using assms
proof (induction cs arbitrary: ch b)
  case (Cons c cs)
  let ?r = "rtt_of rtts (cd_ProviderClusterID c)"
  have trans: "rtt_less x y \<Longrightarrow> rtt_less y z \<Longrightarrow> rtt_less x z" for x y z
    by (cases x; cases y; cases z) auto
  have trans': "rtt_less x y \<Longrightarrow> \<not> rtt_less z y \<Longrightarrow> rtt_less x z" for x y z
    by (cases x; cases y; cases z) auto
  show ?case
  proof (cases "rtt_less ?r b")
    case True
    with Cons.prems have "pickLowest rtts cs (cd_ProviderClusterID c, ?r) = (ch', b')" by simp
    from Cons.IH [OF this] show ?thesis
    proof
      assume "ch' = cd_ProviderClusterID c \<and> b' = ?r \<and> (\<forall>c\<in>set cs. \<not> rtt_less (rtt_of rtts (cd_ProviderClusterID c)) ?r)"
      with True show ?thesis by - (rule disjI2, rule exI [of _ "[]"], rule exI [of _ c], rule exI [of _ cs], auto)
    next
      assume "\<exists>us c' vs. cs = us @ c' # vs \<and> ch' = cd_ProviderClusterID c' \<and> b' = rtt_of rtts ch' \<and> rtt_less b' ?r \<and>
        (\<forall>u\<in>set us. rtt_less b' (rtt_of rtts (cd_ProviderClusterID u))) \<and>
        (\<forall>v\<in>set vs. \<not> rtt_less (rtt_of rtts (cd_ProviderClusterID v)) b')"
      then obtain us c' vs where "cs = us @ c' # vs" "ch' = cd_ProviderClusterID c'" "b' = rtt_of rtts ch'" "rtt_less b' ?r"
        "\<forall>u\<in>set us. rtt_less b' (rtt_of rtts (cd_ProviderClusterID u))"
        "\<forall>v\<in>set vs. \<not> rtt_less (rtt_of rtts (cd_ProviderClusterID v)) b'" by blast
      moreover have "rtt_less b' b" using trans [OF \<open>rtt_less b' ?r\<close> True] .
      ultimately show ?thesis by - (rule disjI2, rule exI [of _ "c # us"], rule exI [of _ c'], rule exI [of _ vs], auto)
    qed
  next
    case False
    with Cons.prems have "pickLowest rtts cs (ch, b) = (ch', b')" by simp
    from Cons.IH [OF this] show ?thesis
    proof
      assume "\<exists>us c' vs. cs = us @ c' # vs \<and> ch' = cd_ProviderClusterID c' \<and> b' = rtt_of rtts ch' \<and> rtt_less b' b \<and>
        (\<forall>u\<in>set us. rtt_less b' (rtt_of rtts (cd_ProviderClusterID u))) \<and>
        (\<forall>v\<in>set vs. \<not> rtt_less (rtt_of rtts (cd_ProviderClusterID v)) b')"
      then obtain us c' vs where "cs = us @ c' # vs" "ch' = cd_ProviderClusterID c'" "b' = rtt_of rtts ch'" "rtt_less b' b"
        "\<forall>u\<in>set us. rtt_less b' (rtt_of rtts (cd_ProviderClusterID u))"
        "\<forall>v\<in>set vs. \<not> rtt_less (rtt_of rtts (cd_ProviderClusterID v)) b'" by blast
      moreover have "rtt_less b' ?r" using trans' [OF \<open>rtt_less b' b\<close> False] .
      ultimately show ?thesis by - (rule disjI2, rule exI [of _ "c # us"], rule exI [of _ c'], rule exI [of _ vs], auto)
    qed (use False in auto)
  qed
qed simp

lemma candidateRTTs_fold:
  assumes "distinct (map cd_ProviderClusterID cs)"
  shows "map_of (fold (\<lambda>c m. AList.update (cd_ProviderClusterID c) (f c) m) cs m) k =
    (case find (\<lambda>c. cd_ProviderClusterID c = k) cs of Some c \<Rightarrow> Some (f c) | None \<Rightarrow> map_of m k)"
  using assms
proof (induction cs arbitrary: m)
  case (Cons c cs)
  have "find (\<lambda>c'. cd_ProviderClusterID c' = k) cs = None" if "cd_ProviderClusterID c = k"
    using that Cons.prems by (metis (mono_tags, lifting) distinct.simps(2) find_None_iff image_eqI list.set_map list.simps(9))
  with Cons show ?case by (auto simp: AList.update_conv split: option.splits)
qed simp

lemma candidateRTTs_of:
  assumes "distinct (map cd_ProviderClusterID cs)" and "c \<in> set cs"
  shows "rtt_of (candidateRTTs measured cs) (cd_ProviderClusterID c) =
    (if cd_Endpoint c = '''' then None else rtt_of measured (cd_Endpoint c))"
proof -
  have "find (\<lambda>c'. cd_ProviderClusterID c' = cd_ProviderClusterID c) cs = Some c"
    using assms by (induction cs) auto
  then show ?thesis
    by (simp add: candidateRTTs_def rtt_of_def candidateRTTs_fold [OF assms(1)])
qed

text \<open>
  The measured winner. For candidates of distinct providers, the chosen provider is the one
  with the lowest finite measurement, the first of them on a tie; no provider is chosen exactly
  if none answered. A candidate without an endpoint never wins.
\<close>

theorem measured_winner:
  assumes "distinct (map cd_ProviderClusterID cands)" and "'''' \<notin> set (map cd_ProviderClusterID cands)"
    and "Measure now now' probe p (filter (\<lambda>e. e \<noteq> '''') (map cd_Endpoint cands)) = (measured, p1)"
    and "MeasureAndPick now now' probe p cands = (res, p')"
  defines "r \<equiv> \<lambda>c. if cd_Endpoint c = '''' then None else rtt_of measured (cd_Endpoint c)"
  shows "(pr_Chosen res = '''' \<longleftrightarrow> (\<forall>c\<in>set cands. r c = None)) \<and>
    (pr_Chosen res \<noteq> '''' \<longrightarrow> (\<exists>us c vs. cands = us @ c # vs \<and> pr_Chosen res = cd_ProviderClusterID c \<and> r c \<noteq> None \<and>
       (\<forall>u\<in>set us. rtt_less (r c) (r u)) \<and> (\<forall>v\<in>set vs. \<not> rtt_less (r v) (r c)))) \<and>
    LastMeasurements p' = res"
proof -
  obtain ch b where pick: "pickLowest (candidateRTTs measured cands) cands ('''', None) = (ch, b)" by fastforce
  with assms(3,4) have res: "pr_Chosen res = (if b = None then '''' else ch)" "p_last p' = res"
    by (auto simp: MeasureAndPick_def Let_def)
  have rt: "rtt_of (candidateRTTs measured cands) (cd_ProviderClusterID c) = r c" if "c \<in> set cands" for c
    using candidateRTTs_of [OF assms(1) that] by (simp add: r_def)
  have none: "\<not> rtt_less x None \<longleftrightarrow> x = None" for x by (cases x) auto
  show ?thesis
    using pickLowest_spec [OF pick]
  proof
    assume "ch = '''' \<and> b = None \<and> (\<forall>c\<in>set cands. \<not> rtt_less (rtt_of (candidateRTTs measured cands) (cd_ProviderClusterID c)) None)"
    with rt none res show ?thesis by (auto simp: LastMeasurements_def)
  next
    assume "\<exists>us c vs. cands = us @ c # vs \<and> ch = cd_ProviderClusterID c \<and>
      b = rtt_of (candidateRTTs measured cands) ch \<and> rtt_less b None \<and>
      (\<forall>u\<in>set us. rtt_less b (rtt_of (candidateRTTs measured cands) (cd_ProviderClusterID u))) \<and>
      (\<forall>v\<in>set vs. \<not> rtt_less (rtt_of (candidateRTTs measured cands) (cd_ProviderClusterID v)) b)"
    then obtain us c vs where c: "cands = us @ c # vs" "ch = cd_ProviderClusterID c" "b = r c" "rtt_less b None"
      "\<forall>u\<in>set us. rtt_less b (r u)" "\<forall>v\<in>set vs. \<not> rtt_less (r v) b"
      using rt by auto
    have "b \<noteq> None" using c(4) by (cases b) auto
    moreover have "ch \<noteq> ''''" using assms(2) c by auto
    ultimately show ?thesis
      using c res by (auto simp: LastMeasurements_def)
  qed
qed

abbreviation exampleCands :: "Candidate list" where
  "exampleCands \<equiv> [\<lparr>cd_ProviderClusterID = ''far'', cd_Endpoint = ''f:1''\<rparr>,
     \<lparr>cd_ProviderClusterID = ''near'', cd_Endpoint = ''n:1''\<rparr>, \<lparr>cd_ProviderClusterID = ''mute'', cd_Endpoint = ''''\<rparr>]"

abbreviation exampleProbe :: "string \<Rightarrow> rtt" where
  "exampleProbe \<equiv> (\<lambda>ep. if ep = ''n:1'' then Some 5 else Some 10)"

theorem measured_winner_witness:
  "pr_Chosen (fst (MeasureAndPick 0 1 exampleProbe (NewProber 0 0 0) exampleCands)) = ''near'' \<and>
   LastMeasurements (snd (MeasureAndPick 0 1 exampleProbe (NewProber 0 0 0) exampleCands)) =
     fst (MeasureAndPick 0 1 exampleProbe (NewProber 0 0 0) exampleCands)"
proof -
  have m: "Measure 0 1 exampleProbe (NewProber 0 0 0) (filter (\<lambda>e. e \<noteq> '''') (map cd_Endpoint exampleCands)) =
      ([(''n:1'', Some 5), (''f:1'', Some 10)], snd (Measure 0 1 exampleProbe (NewProber 0 0 0) [''f:1'', ''n:1'']))"
    by (simp add: Measure_def NewProber_def)
  have "pr_Chosen (fst (MeasureAndPick 0 1 exampleProbe (NewProber 0 0 0) exampleCands)) = ''near''"
    by (simp add: MeasureAndPick_def Measure_def NewProber_def candidateRTTs_def rtt_of_def Let_def)
  then show ?thesis
    using measured_winner [OF _ _ m surjective_pairing] by simp
qed

end
