(* ===== verification/Brain.thy ===== *)
theory Brain
  imports AgentClient Latency
begin

text \<open>
  \<^verbatim>\<open>internal/agent/consumer/brain\<close>: the placement decision in local mode. The consumer reads the
  providers' offers from a catalog, filters them by a latency bound, pools the sites of a provider
  into one advertisement and runs the Broker's own placement core on them. The theory also holds
  the in-memory catalog and the memory of providers the Broker refused for lack of capacity.
\<close>

section \<open>The catalog (catalog\_tmp.go)\<close>

record Location =
  lo_Region :: string
  lo_City :: string
  lo_Latitude :: "real option"
  lo_Longitude :: "real option"

text \<open>The unstructured \<^verbatim>\<open>Extra\<close> field is left out.\<close>

record Offer =
  of_SchemaVersion :: int
  of_ProviderID :: string
  of_LiqoClusterID :: string
  of_SiteID :: string
  of_Location :: Location
  of_Available :: ResourceList
  of_UnitPrices :: ResourceList
  of_SLA :: string
  of_ExpectedLatencyMs :: "real option"
  of_CarbonIntensity :: "real option"
  of_CarbonForecast :: "real list"
  of_Renewable :: bool
  of_ProbeEndpoint :: string
  of_NodeLabels :: "(string \<times> string) list"
  of_NodeTaints :: "Taint list"
  of_UpdatedAt :: Time

definition OfferTTL :: Duration where
  "OfferTTL = 90 * 10 ^ 9"

record memEntry =
  me_offer :: Offer
  me_expiresAt :: Time

type_synonym MemoryCatalog = "((string \<times> string) \<times> memEntry) list"

definition UpsertOffer :: "Time \<Rightarrow> Offer \<Rightarrow> MemoryCatalog \<Rightarrow> (message + unit) \<times> MemoryCatalog" where
  "UpsertOffer now ofr m =
    (if of_ProviderID ofr = '''' \<or> of_SiteID ofr = '''' then
       (Inl (text_msg ''catalog: providerId and siteId are required''), m)
     else (Inr (), AList.update (of_ProviderID ofr, of_SiteID ofr)
             \<lparr>me_offer = ofr, me_expiresAt = now + OfferTTL\<rparr> m))"

definition DeleteOffer :: "string \<Rightarrow> string \<Rightarrow> MemoryCatalog \<Rightarrow> MemoryCatalog" where
  "DeleteOffer providerID siteID m = AList.delete (providerID, siteID) m"

text \<open>\<open>None\<close> is \<^verbatim>\<open>ErrNotFound\<close>.\<close>

definition GetOffer :: "Time \<Rightarrow> string \<Rightarrow> string \<Rightarrow> MemoryCatalog \<Rightarrow> Offer option" where
  "GetOffer now providerID siteID m =
    (case map_of m (providerID, siteID) of
       None \<Rightarrow> None
     | Some e \<Rightarrow> if \<not> now < me_expiresAt e then None else Some (me_offer e))"

definition ListOffers :: "Time \<Rightarrow> MemoryCatalog \<Rightarrow> Offer list" where
  "ListOffers now m = map me_offer (filter (\<lambda>e. now < me_expiresAt e) (map snd m))"

section \<open>Providers recently refused (full.go)\<close>

definition FullCooldown :: Duration where
  "FullCooldown = 30 * 10 ^ 9"

type_synonym FullProviders = "(string \<times> Time) list"

definition Mark :: "Time \<Rightarrow> string \<Rightarrow> FullProviders \<Rightarrow> FullProviders" where
  "Mark now provider f = AList.update provider (now + FullCooldown) f"

definition MarkIfNoCapacity :: "Time \<Rightarrow> string \<Rightarrow> goerror \<Rightarrow> FullProviders \<Rightarrow> bool \<times> FullProviders" where
  "MarkIfNoCapacity now provider err f =
    (if \<not> IsInsufficientCapacity err then (False, f) else (True, Mark now provider f))"

definition FullSnapshot :: "Time \<Rightarrow> FullProviders \<Rightarrow> (string \<Rightarrow> bool) \<times> FullProviders" where
  "FullSnapshot now f = (\<lambda>p. (case map_of f p of None \<Rightarrow> False | Some until \<Rightarrow> now < until),
     filter (\<lambda>(p, until). now < until) f)"

section \<open>The consumer's own bookings (reservations.go)\<close>

fun fromLoop :: "ReservationResponse list \<Rightarrow> (string \<Rightarrow> int) \<times> (string \<Rightarrow> bool) \<Rightarrow>
    (string \<Rightarrow> int) \<times> (string \<Rightarrow> bool)" where
  "fromLoop [] acc = acc"
| "fromLoop (r # rs) (own, inFlight) =
    (if ro_ProviderClusterID r = '''' then fromLoop rs (own, inFlight)
     else
       (let p = ro_ProviderClusterID r;
            n = (if ro_ChunkCount r \<le> 0 then 1 else ro_ChunkCount r);
            own = (if ReservationHoldsChunk (ro_Status r) then own(p := int32 (own p + n)) else own);
            inFlight = (if ReservationInFlight (ro_Status r) then inFlight(p := True) else inFlight)
        in fromLoop rs (own, inFlight)))"

definition FromReservations :: "ReservationResponse list \<Rightarrow> (string \<Rightarrow> int) \<times> (string \<Rightarrow> bool)" where
  "FromReservations rs = fromLoop rs (\<lambda>_. 0, \<lambda>_. False)"

section \<open>The latency bound (latency.go)\<close>

record LatencyBound =
  lb_MaxLatencyMs :: int

definition EstimateLatencyMs :: "real \<Rightarrow> real" where
  "EstimateLatencyMs distanceKm = distanceKm / 100"

definition EffectiveBound :: "LatencyBound option \<Rightarrow> LatencyBound option \<Rightarrow> LatencyBound option" where
  "EffectiveBound policy request = (case request of Some b \<Rightarrow> Some b | None \<Rightarrow> policy)"

text \<open>
  One offer against the bound: \<open>Inl kept\<close> on a measurement, \<open>Inr (Some kept)\<close> on the distance
  estimate, \<open>Inr None\<close> if it cannot be evaluated. A measurement of \<open>None\<close> is infinite.
\<close>

definition checkBound :: "LatencyBound \<Rightarrow> ConsumerEntry \<Rightarrow> (string \<Rightarrow> rtt option) \<Rightarrow> Offer \<Rightarrow> bool + bool option" where
  "checkBound bound consumer measuredMs ofr =
    (let limit = real_of_int (lb_MaxLatencyMs bound)
     in case (measuredMs (of_ProbeEndpoint ofr), of_ProbeEndpoint ofr \<noteq> '''') of
          (Some (Some r), True) \<Rightarrow> Inl (r \<le> limit)
        | _ \<Rightarrow> (case (ce_HasLocation consumer, lo_Latitude (of_Location ofr), lo_Longitude (of_Location ofr)) of
              (True, Some lat, Some lon) \<Rightarrow> Inr (Some (EstimateLatencyMs
                 (HaversineKm (ce_Latitude consumer) (ce_Longitude consumer) lat lon) \<le> limit))
            | _ \<Rightarrow> Inr None))"

fun withinLoop :: "LatencyBound \<Rightarrow> ConsumerEntry \<Rightarrow> (string \<Rightarrow> rtt option) \<Rightarrow> Offer list \<Rightarrow> Offer list \<times> string list" where
  "withinLoop bound consumer measuredMs [] = ([], [])"
| "withinLoop bound consumer measuredMs (ofr # rest) =
    (case withinLoop bound consumer measuredMs rest of (kept, estimated) \<Rightarrow>
      (case checkBound bound consumer measuredMs ofr of
         Inl ok \<Rightarrow> (if ok then ofr # kept else kept, estimated)
       | Inr None \<Rightarrow> (kept, estimated)
       | Inr (Some ok) \<Rightarrow> (if ok then ofr # kept else kept,
           (of_ProviderID ofr @ ''/'' @ of_SiteID ofr) # estimated)))"

definition withinBound :: "Offer list \<Rightarrow> LatencyBound option \<Rightarrow> ConsumerEntry \<Rightarrow> (string \<Rightarrow> rtt option) \<Rightarrow>
    Offer list \<times> string list" where
  "withinBound offers bound consumer measuredMs =
    (case bound of None \<Rightarrow> (offers, []) | Some b \<Rightarrow> withinLoop b consumer measuredMs offers)"

definition probeEndpoints :: "Offer list \<Rightarrow> string list" where
  "probeEndpoints offers =
     fold (\<lambda>ofr out. if of_ProbeEndpoint ofr \<noteq> '''' \<and> of_ProbeEndpoint ofr \<notin> set out
        then out @ [of_ProbeEndpoint ofr] else out) offers []"

definition heldOutsideBound :: "Offer list \<Rightarrow> Offer list \<Rightarrow> (string \<Rightarrow> int) \<Rightarrow> string \<Rightarrow> bool" where
  "heldOutsideBound allOffers kept ownReserved p \<longleftrightarrow>
     p \<in> set (map of_ProviderID allOffers) \<and> p \<notin> set (map of_ProviderID kept) \<and> ownReserved p > 0"

section \<open>Pooling the sites of a provider (nodegroups.go)\<close>

definition sizedChunks :: "Sizer \<Rightarrow> ResourceList \<Rightarrow> ChunkType \<times> int" where
  "sizedChunks sizer capacity = (case sizer capacity of
     [] \<Rightarrow> (ChunkTypeStandard, 0) | r # _ \<Rightarrow> (r_Type r, r_Count r))"

definition addResources :: "quantity_api \<Rightarrow> ResourceList \<Rightarrow> ResourceList \<Rightarrow> ResourceList" where
  "addResources Q acc add = fold (\<lambda>(name, qty) acc. AList.update name (q_Add Q (rl_get acc name) qty) acc) add acc"

definition topologyFrom :: "Location \<Rightarrow> Topology" where
  "topologyFrom l = \<lparr>t_Zone = '''', t_Region = lo_Region l, t_City = lo_City l,
     t_Latitude = (case lo_Latitude l of Some x \<Rightarrow> x | None \<Rightarrow> 0),
     t_Longitude = (case lo_Longitude l of Some x \<Rightarrow> x | None \<Rightarrow> 0)\<rparr>"

text \<open>The loop over the sites: the free chunks of the pooled type, and the lead site.\<close>

fun leadLoop :: "Sizer \<Rightarrow> ChunkType \<Rightarrow> Offer list \<Rightarrow> int \<times> Offer \<times> int \<Rightarrow> int \<times> Offer \<times> int" where
  "leadLoop sizer chunkType [] acc = acc"
| "leadLoop sizer chunkType (s # ss) (free, lead, leadChunks) =
    (let (t, n) = sizedChunks sizer (of_Available s);
         n = (if t \<noteq> chunkType then 0 else n)
     in leadLoop sizer chunkType ss (int32 (free + n),
          (if n > leadChunks then s else lead), (if n > leadChunks then n else leadChunks)))"

text \<open>
  Site IDs are unique within a provider (they are the catalog's key), so that \<^verbatim>\<open>sort.Slice\<close>
  has one result. The list of sites is never empty.
\<close>

definition providerAdvertisement :: "quantity_api \<Rightarrow> string \<Rightarrow> Offer list \<Rightarrow> int \<Rightarrow> Sizer \<Rightarrow> ClusterAdvertisement" where
  "providerAdvertisement Q provider sites own sizer =
    (let sites = sort_key of_SiteID sites;
         pooled = fold (\<lambda>s acc. addResources Q acc (of_Available s)) sites [];
         (chunkType, _) = sizedChunks sizer pooled;
         (free, ref, _) = leadLoop sizer chunkType sites (0, hd sites, - 1)
     in \<lparr>ca_Meta = named_meta provider,
         ca_Spec = \<lparr>ca_ClusterID = provider, ca_LiqoClusterID = of_LiqoClusterID ref, ca_ClusterType = chunkType,
           ca_Allocatable = pooled, ca_Topology = Some (topologyFrom (of_Location ref)),
           ca_UnitPrices = of_UnitPrices ref, ca_CarbonIntensity = of_CarbonIntensity ref,
           ca_CarbonForecast = of_CarbonForecast ref, ca_CapacityScalePercent = [], ca_CapacityFixed = [],
           ca_Renewable = of_Renewable ref, ca_ProbeEndpoint = of_ProbeEndpoint ref\<rparr>,
         ca_Status = zero_ClusterAdvertisementStatus\<lparr>ca_Available := True, ca_TotalChunks := int32 (own + free),
           ca_ReservedChunks := own, ca_AvailableChunks := free\<rparr>\<rparr>)"

definition Advertisements :: "quantity_api \<Rightarrow> Offer list \<Rightarrow> (string \<Rightarrow> int) \<Rightarrow> Sizer \<Rightarrow> ClusterAdvertisement list" where
  "Advertisements Q offers ownReserved sizer =
    (let providers = sort (remdups (filter (\<lambda>p. p \<noteq> '''') (map of_ProviderID offers)))
     in map (\<lambda>p. providerAdvertisement Q p (filter (\<lambda>ofr. of_ProviderID ofr = p) offers) (ownReserved p) sizer) providers)"

section \<open>One decision\<close>

record Input =
  bi_Offers :: "Offer list"
  bi_OwnReserved :: "string \<Rightarrow> int"
  bi_InFlight :: "string \<Rightarrow> bool"
  bi_Consumer :: ConsumerEntry
  bi_LatencyBound :: "LatencyBound option"
  bi_MeasuredLatencyMs :: "string \<Rightarrow> rtt option"
  bi_Full :: "string \<Rightarrow> bool"
  bi_Sizer :: "Sizer option"

definition notGrowable :: "ClusterAdvertisement \<Rightarrow> ClusterAdvertisement" where
  "notGrowable a = a\<lparr>ca_Status := (ca_Status a)\<lparr>ca_TotalChunks := ca_ReservedChunks (ca_Status a), ca_AvailableChunks := 0\<rparr>\<rparr>"

definition nodeGroups :: "quantity_api \<Rightarrow> (ChunkType \<Rightarrow> nat \<Rightarrow> nat) \<Rightarrow> Time \<Rightarrow> Input \<Rightarrow>
    NodeGroupListResponse \<times> string list" where
  "nodeGroups Q intn now inp =
    (let sizer = (case bi_Sizer inp of Some s \<Rightarrow> s | None \<Rightarrow> DefaultSizer_Size Q);
         (kept, estimated) = withinBound (bi_Offers inp) (bi_LatencyBound inp) (bi_Consumer inp) (bi_MeasuredLatencyMs inp);
         held = (case bi_LatencyBound inp of None \<Rightarrow> (\<lambda>_. False)
                 | Some _ \<Rightarrow> heldOutsideBound (bi_Offers inp) kept (bi_OwnReserved inp));
         offers = (case bi_LatencyBound inp of None \<Rightarrow> bi_Offers inp
                 | Some _ \<Rightarrow> kept @ filter (\<lambda>ofr. held (of_ProviderID ofr)) (bi_Offers inp));
         advs = map (\<lambda>a. if held (ca_ClusterID (ca_Spec a)) \<or> bi_Full inp (ca_ClusterID (ca_Spec a))
                         then notGrowable a else a) (Advertisements Q offers (bi_OwnReserved inp) sizer)
     in (BuildNodeGroups Q intn now \<lparr>in_Advertisements = map Some advs, in_Consumer = bi_Consumer inp,
           in_InFlight = bi_InFlight inp, in_OwnReserved = None, in_Sizer = Some sizer\<rparr>,
         if bi_LatencyBound inp = None then [] else estimated))"

definition NodeGroups :: "quantity_api \<Rightarrow> (ChunkType \<Rightarrow> nat \<Rightarrow> nat) \<Rightarrow> Time \<Rightarrow> Input \<Rightarrow> NodeGroupListResponse" where
  "NodeGroups Q intn now inp = fst (nodeGroups Q intn now inp)"

section \<open>The brain (brain.go)\<close>

record ConsumerPolicySpec =
  cp_Placement :: PlacementPolicy
  cp_UserPrompt :: string
  cp_LatencyBound :: "LatencyBound option"

record ConsumerPolicy =
  cp_Name :: string
  cp_Spec :: ConsumerPolicySpec

definition zero_ConsumerPolicySpec :: ConsumerPolicySpec where
  "zero_ConsumerPolicySpec = \<lparr>cp_Placement = \<lparr>pp_Type = ''''\<rparr>, cp_UserPrompt = '''', cp_LatencyBound = None\<rparr>"

text \<open>The lowest-named policy wins; the loop starts from the first.\<close>

definition lowestPolicy :: "ConsumerPolicy \<Rightarrow> ConsumerPolicy list \<Rightarrow> ConsumerPolicy" where
  "lowestPolicy first items = fold (\<lambda>x chosen. if cp_Name x < cp_Name chosen then x else chosen) items first"

text \<open>
  What a brain reads: the catalog, the consumer's reservations at the Broker, the policies on its
  own cluster, its location and the prober. A nil location function or prober is \<open>None\<close>.
\<close>

record 'w brain_options =
  bo_ListOffers :: "('w, goerror + Offer list) state"
  bo_ListReservations :: "('w, goerror + ReservationListResponse) state"
  bo_ListPolicies :: "('w, kerr + ConsumerPolicy list) state"
  bo_Location :: "('w, real \<times> real \<times> bool) state option"
  bo_Measure :: "(string list \<Rightarrow> ('w, (string \<times> rtt) list) state) option"
  bo_Sizer :: Sizer

record Brain =
  br_full :: FullProviders
  br_lastChoice :: string

definition kubeMessage :: "kerr \<Rightarrow> message" where
  "kubeMessage e = text_msg (case e of KNotFound \<Rightarrow> ''not found'' | KAlreadyExists \<Rightarrow> ''already exists''
     | KConflict \<Rightarrow> ''conflict'' | KOther s \<Rightarrow> s)"

definition currentPolicy :: "'w brain_options \<Rightarrow> ('w, goerror + ConsumerPolicySpec) state" where
  "currentPolicy opts = do {
     l \<leftarrow> bo_ListPolicies opts;
     State_Monad.return (case l of
       Inl e \<Rightarrow> Inl (Wrapped ''brain: read ConsumerPolicy'' (Plain (kubeMessage e)))
     | Inr [] \<Rightarrow> Inr zero_ConsumerPolicySpec
     | Inr (x # xs) \<Rightarrow> Inr (cp_Spec (lowestPolicy x (x # xs)))) }"

definition locate :: "'w brain_options \<Rightarrow> PlacementPolicy \<Rightarrow> ('w, ConsumerEntry) state" where
  "locate opts placement = (case bo_Location opts of
     None \<Rightarrow> State_Monad.return (zero_ConsumerEntry\<lparr>ce_Placement := placement\<rparr>)
   | Some get \<Rightarrow> do {
       l \<leftarrow> get;
       State_Monad.return (case l of (lat, lon, ok) \<Rightarrow> zero_ConsumerEntry\<lparr>ce_Placement := placement,
         ce_Latitude := lat, ce_Longitude := lon, ce_HasLocation := ok\<rparr>) })"

definition measureFor :: "'w brain_options \<Rightarrow> LatencyBound option \<Rightarrow> Offer list \<Rightarrow> ('w, string \<Rightarrow> rtt option) state" where
  "measureFor opts bound offers = (case (bound, bo_Measure opts) of
     (Some _, Some m) \<Rightarrow> do { r \<leftarrow> m (probeEndpoints offers); State_Monad.return (map_of r) }
   | _ \<Rightarrow> State_Monad.return (\<lambda>_. None))"

definition NodeGroupsWithin :: "quantity_api \<Rightarrow> (ChunkType \<Rightarrow> nat \<Rightarrow> nat) \<Rightarrow> Time \<Rightarrow> 'w brain_options \<Rightarrow>
    LatencyBound option \<Rightarrow> Brain \<Rightarrow> ('w, (goerror + NodeGroupListResponse) \<times> Brain) state" where
  "NodeGroupsWithin Q intn now opts requestBound b = do {
     offers \<leftarrow> bo_ListOffers opts;
     (case offers of
        Inl e \<Rightarrow> State_Monad.return (Inl (Wrapped ''brain: list offers'' e), b)
      | Inr offers \<Rightarrow> do {
          resvs \<leftarrow> bo_ListReservations opts;
          (case resvs of
             Inl e \<Rightarrow> State_Monad.return (Inl (Wrapped ''brain: list own reservations'' e), b)
           | Inr resvs \<Rightarrow> do {
               spec \<leftarrow> currentPolicy opts;
               (case spec of
                  Inl e \<Rightarrow> State_Monad.return (Inl e, b)
                | Inr spec \<Rightarrow> do {
                    consumer \<leftarrow> locate opts (cp_Placement spec);
                    let bound = EffectiveBound (cp_LatencyBound spec) requestBound;
                    measured \<leftarrow> measureFor opts bound offers;
                    State_Monad.return (case (FromReservations (rl_Reservations resvs), FullSnapshot now (br_full b)) of
                      ((own, inFlight), (full, f')) \<Rightarrow>
                        (Inr (NodeGroups Q intn now \<lparr>bi_Offers = offers, bi_OwnReserved = own, bi_InFlight = inFlight,
                           bi_Consumer = consumer, bi_LatencyBound = bound, bi_MeasuredLatencyMs = measured,
                           bi_Full = full, bi_Sizer = Some (bo_Sizer opts)\<rparr>), b\<lparr>br_full := f'\<rparr>)) }) }) }) }"

definition ObserveReservation :: "Time \<Rightarrow> string \<Rightarrow> goerror \<Rightarrow> Brain \<Rightarrow> Brain" where
  "ObserveReservation now provider err b = b\<lparr>br_full := snd (MarkIfNoCapacity now provider err (br_full b))\<rparr>"

definition RecordChoice :: "NodeGroupListResponse \<Rightarrow> Brain \<Rightarrow> Brain" where
  "RecordChoice resp b = b\<lparr>br_lastChoice :=
     (case find (\<lambda>v. ng_MaxSize v > ng_CurrentReserved v) (nl_NodeGroups resp) of
        Some v \<Rightarrow> ng_ProviderClusterID v | None \<Rightarrow> '''')\<rparr>"

definition LastChoice :: "Brain \<Rightarrow> string" where
  "LastChoice b = br_lastChoice b"

section \<open>Bookings as the Broker counts them\<close>

definition heldChunks :: "ReservationResponse \<Rightarrow> int" where
  "heldChunks r = (if ReservationHoldsChunk (ro_Status r)
     then (if ro_ChunkCount r \<le> 0 then 1 else ro_ChunkCount r) else 0)"

lemma fromLoop_own:
  "(\<And>q. is_int32 (own q)) \<Longrightarrow> p \<noteq> '''' \<Longrightarrow>
   fst (fromLoop rs (own, fl)) p = int32 (own p + (\<Sum>r\<leftarrow>filter (\<lambda>r. ro_ProviderClusterID r = p) rs. heldChunks r))"
proof (induction rs arbitrary: own fl)
  case Nil
  then show ?case by (simp add: int32_id)
next
  case (Cons r rs)
  show ?case
    using Cons.prems by (auto simp: Cons.IH Let_def heldChunks_def add.assoc)
qed

lemma fromLoop_inFlight:
  "p \<noteq> '''' \<Longrightarrow> snd (fromLoop rs (own, fl)) p \<longleftrightarrow> fl p \<or>
     (\<exists>r\<in>set rs. ro_ProviderClusterID r = p \<and> ReservationInFlight (ro_Status r))"
  by (induction rs arbitrary: own fl) (auto simp: Let_def)

lemma sum_filter_mset: "mset xs = mset ys \<Longrightarrow> (\<Sum>x\<leftarrow>filter P xs. f x) = (\<Sum>x\<leftarrow>filter P ys. (f x :: int))"
  by (metis mset_filter mset_map sum_mset_sum_list)

text \<open>All stored reservations, each once.\<close>

definition stored_resvs :: "store \<Rightarrow> Reservation list \<Rightarrow> bool" where
  "stored_resvs s rs \<longleftrightarrow> distinct (map (\<lambda>r. m_Name (rs_Meta r)) rs) \<and>
     (\<forall>r. r \<in> set rs \<longleftrightarrow> resv_at s (m_Name (rs_Meta r)) = Some r)"

lemma stored_resvs_mset: "stored_resvs s rs \<Longrightarrow> stored_resvs s rs' \<Longrightarrow> mset rs = mset rs'"
  by (subst set_eq_iff_mset_eq_distinct [symmetric]) (auto simp: stored_resvs_def distinct_map)

context kube_api
begin

lemma wp_reservationList_all:
  "wp (handleReservationList K caller) (\<lambda>resp w'. objs w' = objs w \<and> (\<forall>st b. resp = writeJSON st b \<longrightarrow>
     (\<exists>rs. stored_resvs (objs w) rs \<and> mset (rl_Reservations b) =
        mset (map reservationResponseFromCR (filter (\<lambda>x. rs_ConsumerClusterID (rs_Spec x) = caller) rs))))) w"
  unfolding handleReservationList_def wp_bind wp_return
  by (rule resv.wp_list) (auto simp: stored_resvs_def)

lemma wp_ownByProvider_all:
  "wp (ownByProvider K caller) (\<lambda>r w'. \<forall>x. r = Inr x \<longrightarrow>
     (\<exists>rs. stored_resvs (objs w) rs \<and> x = ownLoop caller rs (\<lambda>_. 0, \<lambda>_. False))) w"
  unfolding ownByProvider_def wp_bind wp_return
  by (rule resv.wp_list) (auto simp: stored_resvs_def)

end

lemma response_heldChunks [simp]: "heldChunks (reservationResponseFromCR r) = held r"
  by (simp add: heldChunks_def held_def reservationResponseFromCR_def)

text \<open>
  Local and central bookkeeping agree. What a consumer's brain derives from its list of
  reservations is what the Broker computes for it from the stored objects: on every provider the
  same number of chunks held, and the same answer to whether a reservation is still being set up.
\<close>

theorem local_own_agrees:
  assumes "kube_api K objs"
    and "run_state (handleReservationList K consumer) w = (writeJSON st b, w1)"
    and "run_state (ownByProvider K consumer) w1 = (Inr (own, inFlight), w2)"
    and "p \<noteq> ''''"
  shows "fst (FromReservations (rl_Reservations b)) p = own p \<and> snd (FromReservations (rl_Reservations b)) p = inFlight p"
proof -
  let ?own = "\<lambda>x. rs_ConsumerClusterID (rs_Spec x) = consumer"
  from wp_run [OF kube_api.wp_reservationList_all [OF assms(1)] assms(2)] obtain rs where
    rs: "stored_resvs (objs w) rs" "mset (rl_Reservations b) = mset (map reservationResponseFromCR (filter ?own rs))"
    and w1: "objs w1 = objs w" by auto
  from wp_run [OF kube_api.wp_ownByProvider_all [OF assms(1)] assms(3)] w1 obtain rs' where
    rs': "stored_resvs (objs w) rs'" "(own, inFlight) = ownLoop consumer rs' (\<lambda>_. 0, \<lambda>_. False)" by auto
  have perm: "mset rs = mset rs'" by (rule stored_resvs_mset [OF rs(1) rs'(1)])
  have sel: "filter (\<lambda>r. ro_ProviderClusterID r = p) (map reservationResponseFromCR (filter ?own rs)) =
      map reservationResponseFromCR (filter (bookedAt consumer p) rs)"
    by (simp add: filter_map o_def bookedAt_def [abs_def] reservationResponseFromCR_def conj_commute)
  have "fst (FromReservations (rl_Reservations b)) p = int32 (\<Sum>r\<leftarrow>filter (bookedAt consumer p) rs. held r)"
    using assms(4) sum_filter_mset [OF rs(2), of heldChunks "\<lambda>r. ro_ProviderClusterID r = p"]
    by (simp add: FromReservations_def fromLoop_own is_int32_def sel o_def)
  also have "\<dots> = own p"
    using sum_filter_mset [OF perm, of held "bookedAt consumer p"] ownLoop_own0 [of consumer rs' "\<lambda>_. False" p]
    by (simp flip: rs'(2))
  finally have "fst (FromReservations (rl_Reservations b)) p = own p" .
  moreover have "snd (FromReservations (rl_Reservations b)) p = inFlight p"
  proof -
    have "set (rl_Reservations b) = reservationResponseFromCR ` {r \<in> set rs'. ?own r}"
      using mset_eq_setD [OF rs(2)] mset_eq_setD [OF perm] by simp
    then show ?thesis
      using assms(4) ownLoop_inFlight [of consumer rs' "\<lambda>_. 0" "\<lambda>_. False" p]
      by (auto simp: FromReservations_def fromLoop_inFlight bookedAt_def reservationResponseFromCR_def simp flip: rs'(2))
  qed
  ultimately show ?thesis ..
qed

theorem local_own_agrees_witness:
  "\<exists>b w1 own fl w2. run_state (handleReservationList memK ''c'')
       (exampleWorld [KResv (exampleResv ''r'' ''c'' ''p'' Peered)]) = (writeJSON 200 b, w1) \<and>
     run_state (ownByProvider memK ''c'') w1 = (Inr (own, fl), w2) \<and>
     fst (FromReservations (rl_Reservations b)) ''p'' = own ''p''"
proof -
  let ?w = "exampleWorld [KResv (exampleResv ''r'' ''c'' ''p'' Peered)]"
  obtain b w1 where run: "run_state (handleReservationList memK ''c'') ?w = (writeJSON 200 b, w1)"
    by (simp add: handleReservationList_def typed_ops mem_defs exampleWorld_def oks_def map_filter_def
        exampleResv_def named_meta_def)
  obtain own fl w2 where run2: "run_state (ownByProvider memK ''c'') w1 = (Inr (own, fl), w2)"
    by (cases "ownLoop ''c'' (oks as_resv (filter (\<lambda>x. kobj_kind x = ResvKind) (dedup (ms_objs w1)))) (\<lambda>_. 0, \<lambda>_. False)")
      (simp add: ownByProvider_def typed_ops mem_defs)
  from local_own_agrees [OF mem.kube_api_axioms run run2, of "''p''"] run run2 show ?thesis by auto
qed

section \<open>What a decision serves\<close>

text \<open>A site is within the bound on its measurement, or, without one, on its distance.\<close>

definition site_within :: "LatencyBound \<Rightarrow> ConsumerEntry \<Rightarrow> (string \<Rightarrow> rtt option) \<Rightarrow> Offer \<Rightarrow> bool" where
  "site_within b c m ofr \<longleftrightarrow>
     (\<exists>r. of_ProbeEndpoint ofr \<noteq> '''' \<and> m (of_ProbeEndpoint ofr) = Some (Some r) \<and> r \<le> real_of_int (lb_MaxLatencyMs b)) \<or>
     (\<nexists>r. of_ProbeEndpoint ofr \<noteq> '''' \<and> m (of_ProbeEndpoint ofr) = Some (Some r)) \<and> ce_HasLocation c \<and>
     (\<exists>lat lon. lo_Latitude (of_Location ofr) = Some lat \<and> lo_Longitude (of_Location ofr) = Some lon \<and>
        HaversineKm (ce_Latitude c) (ce_Longitude c) lat lon / 100 \<le> real_of_int (lb_MaxLatencyMs b))"

lemma checkBound_within:
  "site_within b c m ofr \<longleftrightarrow> checkBound b c m ofr = Inl True \<or> checkBound b c m ofr = Inr (Some True)"
  by (auto simp: site_within_def checkBound_def Let_def EstimateLatencyMs_def split: option.splits bool.splits)

lemma withinLoop_kept: "fst (withinLoop b c m offers) = filter (site_within b c m) offers"
proof (induction offers)
  case (Cons ofr offers)
  then show ?case
    by (auto simp: checkBound_within split: prod.splits sum.splits option.splits)
qed simp

lemma projectView_none:
  "ng_CurrentReserved (projectView Q sizer None a) = ca_ReservedChunks (ca_Status a) \<and>
   ng_ProviderClusterID (projectView Q sizer None a) = ca_ClusterID (ca_Spec a) \<and>
   ng_MaxSize (projectView Q sizer None a) = ca_TotalChunks (ca_Status a)"
  by (simp add: projectView_def ownView_def nodeGroupView_def split: prod.splits)

lemma providerAdvertisement_simps [simp]:
  "ca_ClusterID (ca_Spec (providerAdvertisement Q p sites own sizer)) = p"
  "ca_Available (ca_Status (providerAdvertisement Q p sites own sizer))"
  "ca_ReservedChunks (ca_Status (providerAdvertisement Q p sites own sizer)) = own"
  by (simp_all add: providerAdvertisement_def Let_def split: prod.splits)

lemma notGrowable_simps [simp]:
  "ca_Spec (notGrowable a) = ca_Spec a" "ca_Available (ca_Status (notGrowable a)) = ca_Available (ca_Status a)"
  "ca_ReservedChunks (ca_Status (notGrowable a)) = ca_ReservedChunks (ca_Status a)"
  "ca_TotalChunks (ca_Status (notGrowable a)) = ca_ReservedChunks (ca_Status a)"
  by (simp_all add: notGrowable_def)

lemma in_Advertisements:
  "a \<in> set (Advertisements Q offers own sizer) \<longleftrightarrow> (\<exists>ofr\<in>set offers. of_ProviderID ofr \<noteq> '''' \<and>
     a = providerAdvertisement Q (of_ProviderID ofr) (filter (\<lambda>x. of_ProviderID x = of_ProviderID ofr) offers)
       (own (of_ProviderID ofr)) sizer)"
  by (auto simp: Advertisements_def Let_def)

text \<open>The providers kept in the list although no site of theirs is within the bound.\<close>

definition heldOnly :: "Input \<Rightarrow> string \<Rightarrow> bool" where
  "heldOnly inp p \<longleftrightarrow> (\<exists>b. bi_LatencyBound inp = Some b \<and> bi_OwnReserved inp p > 0 \<and>
     (\<forall>ofr\<in>set (bi_Offers inp). of_ProviderID ofr = p \<longrightarrow> \<not> site_within b (bi_Consumer inp) (bi_MeasuredLatencyMs inp) ofr))"

text \<open>The offers a decision is made on.\<close>

definition usedOffers :: "Input \<Rightarrow> Offer list" where
  "usedOffers inp = (case bi_LatencyBound inp of None \<Rightarrow> bi_Offers inp
     | Some b \<Rightarrow> filter (site_within b (bi_Consumer inp) (bi_MeasuredLatencyMs inp)) (bi_Offers inp)
         @ filter (\<lambda>ofr. heldOnly inp (of_ProviderID ofr)) (bi_Offers inp))"

definition usedAdvs :: "quantity_api \<Rightarrow> Input \<Rightarrow> ClusterAdvertisement list" where
  "usedAdvs Q inp = map (\<lambda>a. if heldOnly inp (ca_ClusterID (ca_Spec a)) \<or> bi_Full inp (ca_ClusterID (ca_Spec a))
      then notGrowable a else a)
     (Advertisements Q (usedOffers inp) (bi_OwnReserved inp) (case bi_Sizer inp of Some s \<Rightarrow> s | None \<Rightarrow> DefaultSizer_Size Q))"

lemma NodeGroups_eq:
  "NodeGroups Q intn now inp = BuildNodeGroups Q intn now \<lparr>in_Advertisements = map Some (usedAdvs Q inp),
     in_Consumer = bi_Consumer inp, in_InFlight = bi_InFlight inp, in_OwnReserved = None,
     in_Sizer = Some (case bi_Sizer inp of Some s \<Rightarrow> s | None \<Rightarrow> DefaultSizer_Size Q)\<rparr>"
proof (cases "bi_LatencyBound inp")
  case None
  then have "heldOnly inp = (\<lambda>_. False)" by (simp add: heldOnly_def fun_eq_iff)
  with None show ?thesis
    by (simp add: NodeGroups_def nodeGroups_def usedAdvs_def usedOffers_def Let_def split: prod.splits)
next
  case (Some b)
  let ?kept = "filter (site_within b (bi_Consumer inp) (bi_MeasuredLatencyMs inp)) (bi_Offers inp)"
  obtain est where kept: "withinBound (bi_Offers inp) (bi_LatencyBound inp) (bi_Consumer inp) (bi_MeasuredLatencyMs inp) = (?kept, est)"
    using withinLoop_kept [of b "bi_Consumer inp" "bi_MeasuredLatencyMs inp" "bi_Offers inp"] Some
    by (cases "withinLoop b (bi_Consumer inp) (bi_MeasuredLatencyMs inp) (bi_Offers inp)") (simp add: withinBound_def)
  have held: "p \<in> of_ProviderID ` set (bi_Offers inp) \<Longrightarrow>
      heldOutsideBound (bi_Offers inp) ?kept (bi_OwnReserved inp) p = heldOnly inp p" for p
    using Some by (fastforce simp: heldOutsideBound_def heldOnly_def image_iff)
  then have used: "?kept @ filter (\<lambda>ofr. heldOutsideBound (bi_Offers inp) ?kept (bi_OwnReserved inp) (of_ProviderID ofr)) (bi_Offers inp)
      = usedOffers inp"
    using Some by (auto simp: usedOffers_def intro!: filter_cong)
  have "map (\<lambda>a. if heldOutsideBound (bi_Offers inp) ?kept (bi_OwnReserved inp) (ca_ClusterID (ca_Spec a)) \<or>
        bi_Full inp (ca_ClusterID (ca_Spec a)) then notGrowable a else a)
      (Advertisements Q (usedOffers inp) (bi_OwnReserved inp) (case bi_Sizer inp of Some s \<Rightarrow> s | None \<Rightarrow> DefaultSizer_Size Q))
      = usedAdvs Q inp"
    unfolding usedAdvs_def
  proof (rule map_cong [OF refl], goal_cases)
    case (1 a)
    then have "ca_ClusterID (ca_Spec a) \<in> of_ProviderID ` set (bi_Offers inp)"
      by (auto simp: in_Advertisements usedOffers_def Some)
    then show ?case by (simp only: held)
  qed
  with kept used Some show ?thesis by (simp add: NodeGroups_def nodeGroups_def Let_def del: map_map)
qed

lemma list_all2_right: "list_all2 P xs ys \<Longrightarrow> y \<in> set ys \<Longrightarrow> \<exists>x\<in>set xs. P x y"
  by (induction xs ys rule: list_all2_induct) auto

lemma list_all2_left: "list_all2 P xs ys \<Longrightarrow> x \<in> set xs \<Longrightarrow> \<exists>y\<in>set ys. P x y"
  by (induction xs ys rule: list_all2_induct) auto

lemma NodeGroups_views:
  obtains vs where "nl_NodeGroups (NodeGroups Q intn now inp) = sort_key (\<lambda>v. (ng_ProviderClusterID v, ng_Type v)) vs"
    and "list_all2 (\<lambda>a v. narrows (projectView Q (case bi_Sizer inp of Some s \<Rightarrow> s | None \<Rightarrow> DefaultSizer_Size Q) None a) v)
      (usedAdvs Q inp) vs"
proof -
  have "availableAds (map Some (usedAdvs Q inp)) = usedAdvs Q inp"
    by (auto simp: availableAds_def map_filter_def usedAdvs_def in_Advertisements o_def intro!: filter_True)
  moreover define pin where "pin = \<lparr>in_Advertisements = map Some (usedAdvs Q inp),
     in_Consumer = bi_Consumer inp, in_InFlight = bi_InFlight inp, in_OwnReserved = None,
     in_Sizer = Some (case bi_Sizer inp of Some s \<Rightarrow> s | None \<Rightarrow> DefaultSizer_Size Q)\<rparr>"
  ultimately show thesis
    using that buildNodeGroups_views [of Q intn now pin] unfolding NodeGroups_eq by (auto simp: pin_def)
qed


lemma brain_growable:
  assumes "v \<in> set (nl_NodeGroups (NodeGroups Q intn now inp))" and "headroom v"
  shows "\<not> bi_Full inp (ng_ProviderClusterID v) \<and> (\<exists>ofr\<in>set (bi_Offers inp).
     of_ProviderID ofr = ng_ProviderClusterID v \<and>
     (\<forall>b. bi_LatencyBound inp = Some b \<longrightarrow> site_within b (bi_Consumer inp) (bi_MeasuredLatencyMs inp) ofr))"
proof -
  obtain vs where vs: "nl_NodeGroups (NodeGroups Q intn now inp) = sort_key (\<lambda>v. (ng_ProviderClusterID v, ng_Type v)) vs"
    "list_all2 (\<lambda>a v. narrows (projectView Q (case bi_Sizer inp of Some s \<Rightarrow> s | None \<Rightarrow> DefaultSizer_Size Q) None a) v)
      (usedAdvs Q inp) vs"
    by (rule NodeGroups_views)
  with assms(1) obtain a where a: "a \<in> set (usedAdvs Q inp)"
    "narrows (projectView Q (case bi_Sizer inp of Some s \<Rightarrow> s | None \<Rightarrow> DefaultSizer_Size Q) None a) v"
    using list_all2_right [OF vs(2), of v] by auto
  note fr = narrows_frame [OF a(2)] projectView_none [of Q _ a]
  have grow: "ca_TotalChunks (ca_Status a) \<noteq> ca_ReservedChunks (ca_Status a)"
    using assms(2) fr by (auto simp: headroom_def int32_def)
  from a(1) obtain a0 where a0: "a0 \<in> set (Advertisements Q (usedOffers inp) (bi_OwnReserved inp)
      (case bi_Sizer inp of Some s \<Rightarrow> s | None \<Rightarrow> DefaultSizer_Size Q))"
    "a = (if heldOnly inp (ca_ClusterID (ca_Spec a0)) \<or> bi_Full inp (ca_ClusterID (ca_Spec a0)) then notGrowable a0 else a0)"
    by (auto simp: usedAdvs_def)
  with grow have "\<not> heldOnly inp (ca_ClusterID (ca_Spec a0))" "\<not> bi_Full inp (ca_ClusterID (ca_Spec a0))" "a = a0"
    by (auto split: if_splits)
  moreover from a0(1) obtain ofr where "ofr \<in> set (usedOffers inp)" "ca_ClusterID (ca_Spec a0) = of_ProviderID ofr"
    by (auto simp: in_Advertisements)
  ultimately show ?thesis
    using fr by (auto simp: usedOffers_def split: option.splits)
qed

text \<open>
  C22. Where a decision lets the consumer grow. Every node group with head-room belongs to a
  provider that was not recently refused for lack of capacity and that has an offer; with a
  latency bound, the offer is of a site whose measured round-trip time, or whose estimated one if
  there is no measurement, is within the bound. A site that can be neither measured nor located
  does not qualify.
\<close>

theorem brain_growable_sound:
  assumes "v \<in> set (nl_NodeGroups (NodeGroups Q intn now inp))" and "headroom v"
  shows "\<not> bi_Full inp (ng_ProviderClusterID v) \<and> (\<exists>ofr\<in>set (bi_Offers inp).
     of_ProviderID ofr = ng_ProviderClusterID v \<and>
     (\<forall>b. bi_LatencyBound inp = Some b \<longrightarrow> site_within b (bi_Consumer inp) (bi_MeasuredLatencyMs inp) ofr))"
  using brain_growable [OF assms] .

text \<open>
  What a decision reports. Every provider on which the consumer holds chunks and which has a
  live offer stays listed, even outside the latency bound or when it is full, so that the Cluster
  Autoscaler can still map the nodes it has there; and the size of every listed group is the
  number of chunks the consumer holds on its provider.
\<close>

theorem brain_lists_held:
  assumes "ofr \<in> set (bi_Offers inp)" and "of_ProviderID ofr \<noteq> ''''" and "bi_OwnReserved inp (of_ProviderID ofr) > 0"
  shows "(\<exists>v\<in>set (nl_NodeGroups (NodeGroups Q intn now inp)). ng_ProviderClusterID v = of_ProviderID ofr) \<and>
    (\<forall>v\<in>set (nl_NodeGroups (NodeGroups Q intn now inp)).
       ng_CurrentReserved v = bi_OwnReserved inp (ng_ProviderClusterID v))"
proof -
  let ?sizer = "case bi_Sizer inp of Some s \<Rightarrow> s | None \<Rightarrow> DefaultSizer_Size Q"
  obtain vs where vs: "set (nl_NodeGroups (NodeGroups Q intn now inp)) = set vs"
    "list_all2 (\<lambda>a v. narrows (projectView Q ?sizer None a) v) (usedAdvs Q inp) vs"
    by (rule NodeGroups_views [of Q intn now inp]) simp
  have "\<exists>ofr'\<in>set (usedOffers inp). of_ProviderID ofr' = of_ProviderID ofr"
  proof (cases "bi_LatencyBound inp")
    case None
    with assms(1) show ?thesis by (auto simp: usedOffers_def)
  next
    case (Some b)
    show ?thesis
    proof (cases "heldOnly inp (of_ProviderID ofr)")
      case True
      with assms(1) Some show ?thesis by (auto simp: usedOffers_def)
    next
      case False
      with Some assms(3) obtain ofr' where "ofr' \<in> set (bi_Offers inp)" "of_ProviderID ofr' = of_ProviderID ofr"
        "site_within b (bi_Consumer inp) (bi_MeasuredLatencyMs inp) ofr'" by (auto simp: heldOnly_def)
      with Some show ?thesis by (auto simp: usedOffers_def)
    qed
  qed
  then obtain ofr' where used: "ofr' \<in> set (usedOffers inp)" "of_ProviderID ofr' = of_ProviderID ofr" by blast
  define a0 where "a0 = providerAdvertisement Q (of_ProviderID ofr)
    (filter (\<lambda>x. of_ProviderID x = of_ProviderID ofr) (usedOffers inp)) (bi_OwnReserved inp (of_ProviderID ofr)) ?sizer"
  define a where "a = (if heldOnly inp (of_ProviderID ofr) \<or> bi_Full inp (of_ProviderID ofr) then notGrowable a0 else a0)"
  have "a0 \<in> set (Advertisements Q (usedOffers inp) (bi_OwnReserved inp) ?sizer)"
    unfolding in_Advertisements using used assms(2) by (intro bexI [of _ ofr']) (simp_all add: a0_def)
  then have a: "a \<in> set (usedAdvs Q inp)" "ca_ClusterID (ca_Spec a) = of_ProviderID ofr"
    unfolding usedAdvs_def set_map by (auto simp: a_def a0_def intro!: image_eqI [of _ _ a0])
  then obtain v where "v \<in> set vs" "narrows (projectView Q ?sizer None a) v"
    using list_all2_left [OF vs(2)] by blast
  then have "\<exists>v\<in>set vs. ng_ProviderClusterID v = of_ProviderID ofr"
    using narrows_frame projectView_none a(2) by metis
  moreover have "ng_CurrentReserved v = bi_OwnReserved inp (ng_ProviderClusterID v)" if "v \<in> set vs" for v
  proof -
    from that obtain a where a: "a \<in> set (usedAdvs Q inp)" "narrows (projectView Q ?sizer None a) v"
      using list_all2_right [OF vs(2)] by blast
    then have "ca_ReservedChunks (ca_Status a) = bi_OwnReserved inp (ca_ClusterID (ca_Spec a))"
      by (auto simp: usedAdvs_def in_Advertisements)
    then show ?thesis using narrows_frame [OF a(2)] projectView_none [of Q ?sizer a] by simp
  qed
  ultimately show ?thesis by (simp add: vs(1))
qed

definition exampleOffer :: "string \<Rightarrow> string \<Rightarrow> Offer" where
  "exampleOffer p site = \<lparr>of_SchemaVersion = 1, of_ProviderID = p, of_LiqoClusterID = p, of_SiteID = site,
     of_Location = \<lparr>lo_Region = '''', lo_City = '''', lo_Latitude = None, lo_Longitude = None\<rparr>,
     of_Available = [], of_UnitPrices = [], of_SLA = '''',
     of_ExpectedLatencyMs = None, of_CarbonIntensity = None, of_CarbonForecast = [], of_Renewable = False,
     of_ProbeEndpoint = p @ '':1'', of_NodeLabels = [], of_NodeTaints = [], of_UpdatedAt = 0\<rparr>"

text \<open>A provider that answers within 3 ms, under a bound of 5 ms; and one outside it on which a chunk is held.\<close>

definition exampleInput :: "string \<Rightarrow> Input" where
  "exampleInput p = \<lparr>bi_Offers = [exampleOffer p ''s''],
     bi_OwnReserved = (\<lambda>p. if p = ''far'' then 1 else 0), bi_InFlight = (\<lambda>_. False),
     bi_Consumer = zero_ConsumerEntry\<lparr>ce_Placement := \<lparr>pp_Type = ''ConsumerChoice''\<rparr>\<rparr>,
     bi_LatencyBound = Some \<lparr>lb_MaxLatencyMs = 5\<rparr>,
     bi_MeasuredLatencyMs = (\<lambda>ep. if ep = ''near:1'' then Some (Some 3) else Some (Some 9)),
     bi_Full = (\<lambda>_. False), bi_Sizer = Some (\<lambda>_. [\<lparr>r_Type = ''standard'', r_Count = 2, r_PerChunk = []\<rparr>])\<rparr>"

lemma near_used: "usedOffers (exampleInput ''near'') = [exampleOffer ''near'' ''s'']"
  by (simp add: usedOffers_def exampleInput_def site_within_def heldOnly_def exampleOffer_def)

lemma near_advs: "usedAdvs exactQ (exampleInput ''near'') =
    [providerAdvertisement exactQ ''near'' [exampleOffer ''near'' ''s''] 0
       (\<lambda>_. [\<lparr>r_Type = ''standard'', r_Count = 2, r_PerChunk = []\<rparr>])]"
  by (simp add: usedAdvs_def near_used Advertisements_def Let_def)
    (simp add: exampleInput_def heldOnly_def exampleOffer_def)

lemma near_grows:
  "\<exists>v. nl_NodeGroups (NodeGroups exactQ (\<lambda>_ _. 0) 0 (exampleInput ''near'')) = [v] \<and> headroom v \<and> ng_ProviderClusterID v = ''near''"
  unfolding NodeGroups_eq near_advs BuildNodeGroups_def applyPolicy_def
  by (simp add: Let_def availableAds_def map_filter_def projectView_none headroom_def)
    (simp add: exampleInput_def providerAdvertisement_def sizedChunks_def int32_id is_int32_def Let_def)

theorem brain_growable_sound_witness:
  "\<exists>v\<in>set (nl_NodeGroups (NodeGroups exactQ (\<lambda>_ _. 0) 0 (exampleInput ''near''))).
     headroom v \<and> ng_ProviderClusterID v = ''near'' \<and> \<not> bi_Full (exampleInput ''near'') ''near''"
  using near_grows brain_growable_sound by (metis list.set_intros(1))

theorem brain_lists_held_witness:
  "\<exists>v\<in>set (nl_NodeGroups (NodeGroups exactQ (\<lambda>_ _. 0) 0 (exampleInput ''far''))).
     ng_ProviderClusterID v = ''far'' \<and> ng_CurrentReserved v = 1"
  using brain_lists_held [of "exampleOffer ''far'' ''s''" "exampleInput ''far''" exactQ "\<lambda>_ _. 0" 0]
  by (force simp: exampleInput_def exampleOffer_def)

section \<open>Refused providers\<close>

lemma FullSnapshot_Mark:
  "fst (FullSnapshot t (Mark now p f)) q = (if q = p then t < now + FullCooldown else fst (FullSnapshot t f) q)"
  by (simp add: FullSnapshot_def Mark_def AList.update_conv)

lemma wp_NodeGroupsWithin:
  "wp (NodeGroupsWithin Q intn now opts rb b) (\<lambda>(r, b') _. \<forall>resp. r = Inr resp \<longrightarrow>
     (\<exists>inp. resp = NodeGroups Q intn now inp \<and> bi_Full inp = fst (FullSnapshot now (br_full b)))) w"
  unfolding NodeGroupsWithin_def
  by (auto simp: wp_def Let_def split: prod.splits sum.splits)

text \<open>
  Moving on after a refusal. Once the Broker has refused a reservation on a provider for lack
  of capacity, no decision taken within the cool-down of 30 seconds lets the consumer grow on
  that provider; the next-best one is exposed instead.
\<close>

theorem brain_skips_refused:
  assumes "IsInsufficientCapacity err" and "now < t0 + FullCooldown"
    and "run_state (NodeGroupsWithin Q intn now opts rb (ObserveReservation t0 p err b)) w = ((Inr resp, b'), w')"
    and "v \<in> set (nl_NodeGroups resp)" and "ng_ProviderClusterID v = p"
  shows "\<not> headroom v"
proof
  assume h: "headroom v"
  from wp_run [OF wp_NodeGroupsWithin assms(3)] obtain inp where
    resp: "resp = NodeGroups Q intn now inp" and
    full: "bi_Full inp = fst (FullSnapshot now (br_full (ObserveReservation t0 p err b)))" by auto
  have "bi_Full inp p"
    using assms(1,2) by (simp add: full ObserveReservation_def MarkIfNoCapacity_def FullSnapshot_Mark)
  moreover have "v \<in> set (nl_NodeGroups (NodeGroups Q intn now inp))" using assms(4) resp by simp
  ultimately show False
    using brain_growable [OF _ h] assms(5) by auto
qed

definition refusal :: goerror where
  "refusal = Typed (decodeErrorBody 409 (EnvBody InsufficientCapacity (text_msg ''no chunk'')))"

definition exampleOptions :: "unit brain_options" where
  "exampleOptions = \<lparr>bo_ListOffers = State_Monad.return (Inr [exampleOffer ''near'' ''s'', exampleOffer ''far'' ''s'']),
     bo_ListReservations = State_Monad.return (Inr \<lparr>rl_Reservations = []\<rparr>),
     bo_ListPolicies = State_Monad.return (Inr []), bo_Location = None, bo_Measure = None,
     bo_Sizer = (\<lambda>_. [\<lparr>r_Type = ''standard'', r_Count = 2, r_PerChunk = []\<rparr>])\<rparr>"

theorem brain_skips_refused_witness:
  "\<exists>resp b'. run_state (NodeGroupsWithin exactQ (\<lambda>_ _. 0) 5 exampleOptions None
       (ObserveReservation 0 ''near'' refusal \<lparr>br_full = [], br_lastChoice = ''''\<rparr>)) () = ((Inr resp, b'), ()) \<and>
     (\<forall>v\<in>set (nl_NodeGroups resp). ng_ProviderClusterID v = ''near'' \<longrightarrow> \<not> headroom v)"
proof -
  obtain resp b' where r: "run_state (NodeGroupsWithin exactQ (\<lambda>_ _. 0) 5 exampleOptions None
      (ObserveReservation 0 ''near'' refusal \<lparr>br_full = [], br_lastChoice = ''''\<rparr>)) () = ((Inr resp, b'), ())"
    by (simp add: NodeGroupsWithin_def exampleOptions_def currentPolicy_def locate_def measureFor_def Let_def
        EffectiveBound_def zero_ConsumerPolicySpec_def FromReservations_def FullSnapshot_def)
  from brain_skips_refused [OF _ _ r] r show ?thesis
    by (auto simp: refusal_def IsInsufficientCapacity_def decodeErrorBody_def FullCooldown_def)
qed

section \<open>The catalog\<close>

definition catalog_ok :: "MemoryCatalog \<Rightarrow> bool" where
  "catalog_ok m \<longleftrightarrow> distinct (map fst m) \<and>
     (\<forall>(k, e)\<in>set m. k = (of_ProviderID (me_offer e), of_SiteID (me_offer e)) \<and> fst k \<noteq> '''' \<and> snd k \<noteq> '''')"

lemma catalog_ok_UpsertOffer: "catalog_ok m \<Longrightarrow> catalog_ok (snd (UpsertOffer now ofr m))"
  using set_update_subset [of "(of_ProviderID ofr, of_SiteID ofr)"]
  by (fastforce simp: catalog_ok_def UpsertOffer_def distinct_update)

lemma catalog_ok_DeleteOffer: "catalog_ok m \<Longrightarrow> catalog_ok (DeleteOffer p site m)"
  unfolding catalog_ok_def DeleteOffer_def
  by (intro conjI distinct_delete) (auto simp: AList.delete_eq)

lemma ListOffers_Get:
  assumes "catalog_ok m"
  shows "x \<in> set (ListOffers t m) \<longleftrightarrow> GetOffer t (of_ProviderID x) (of_SiteID x) m = Some x"
proof
  assume "x \<in> set (ListOffers t m)"
  then obtain k e where e: "(k, e) \<in> set m" "t < me_expiresAt e" "x = me_offer e" by (auto simp: ListOffers_def)
  with assms have "map_of m (of_ProviderID x, of_SiteID x) = Some e"
    by (auto simp: catalog_ok_def intro!: map_of_is_SomeI)
  with e show "GetOffer t (of_ProviderID x) (of_SiteID x) m = Some x" by (simp add: GetOffer_def)
next
  assume "GetOffer t (of_ProviderID x) (of_SiteID x) m = Some x"
  then obtain e where e: "map_of m (of_ProviderID x, of_SiteID x) = Some e" "t < me_expiresAt e" "x = me_offer e"
    by (auto simp: GetOffer_def split: option.splits if_splits)
  from map_of_SomeD [OF e(1)] e(2,3) show "x \<in> set (ListOffers t m)"
    by (force simp: ListOffers_def)
qed

text \<open>
  The catalog keeps what providers publish. An offer that names a provider and a site is
  found, exactly as written, for 90 seconds after it was last published and not later, until it
  is deleted; publishing or deleting one touches no other; and listing gives exactly the offers
  that can be found.
\<close>

theorem catalog_roundtrip:
  fixes now :: Time
  assumes "catalog_ok m" and "of_ProviderID ofr \<noteq> ''''" and "of_SiteID ofr \<noteq> ''''"
  defines "m' \<equiv> snd (UpsertOffer now ofr m)"
  shows "catalog_ok m' \<and> catalog_ok (DeleteOffer (of_ProviderID ofr) (of_SiteID ofr) m') \<and>
    (\<forall>t p site. GetOffer t p site m' = (if (p, site) = (of_ProviderID ofr, of_SiteID ofr)
        then (if t < now + 90 * 10 ^ 9 then Some ofr else None) else GetOffer t p site m)) \<and>
    (\<forall>t p site. GetOffer t p site (DeleteOffer (of_ProviderID ofr) (of_SiteID ofr) m') =
        (if (p, site) = (of_ProviderID ofr, of_SiteID ofr) then None else GetOffer t p site m)) \<and>
    (\<forall>t. set (ListOffers t m') = {x. GetOffer t (of_ProviderID x) (of_SiteID x) m' = Some x})"
proof (intro conjI)
  show ok: "catalog_ok m'" unfolding m'_def by (rule catalog_ok_UpsertOffer [OF assms(1)])
  then show "catalog_ok (DeleteOffer (of_ProviderID ofr) (of_SiteID ofr) m')" by (rule catalog_ok_DeleteOffer)
  show "\<forall>t p site. GetOffer t p site m' = (if (p, site) = (of_ProviderID ofr, of_SiteID ofr)
        then (if t < now + 90 * 10 ^ 9 then Some ofr else None) else GetOffer t p site m)"
    using assms(2,3) by (auto simp: m'_def GetOffer_def UpsertOffer_def AList.update_conv OfferTTL_def)
  show "\<forall>t p site. GetOffer t p site (DeleteOffer (of_ProviderID ofr) (of_SiteID ofr) m') =
        (if (p, site) = (of_ProviderID ofr, of_SiteID ofr) then None else GetOffer t p site m)"
    using assms(2,3) by (auto simp: m'_def GetOffer_def UpsertOffer_def DeleteOffer_def AList.update_conv AList.delete_conv)
  show "\<forall>t. set (ListOffers t m') = {x. GetOffer t (of_ProviderID x) (of_SiteID x) m' = Some x}"
    using ListOffers_Get [OF ok] by blast
qed

theorem catalog_roundtrip_witness:
  "GetOffer 5 ''p'' ''s'' (snd (UpsertOffer 0 (exampleOffer ''p'' ''s'') [])) = Some (exampleOffer ''p'' ''s'') \<and>
   set (ListOffers 5 (snd (UpsertOffer 0 (exampleOffer ''p'' ''s'') []))) =
     {x. GetOffer 5 (of_ProviderID x) (of_SiteID x) (snd (UpsertOffer 0 (exampleOffer ''p'' ''s'') [])) = Some x}"
  using catalog_roundtrip [of "[]" "exampleOffer ''p'' ''s''" 0]
  by (simp add: catalog_ok_def exampleOffer_def)

end
