(* ===== verification/LocalApi.thy ===== *)
theory LocalApi
  imports Brain
begin

text \<open>
  \<^verbatim>\<open>internal/agent/consumer/localapi\<close>, the consumer agent's loopback REST server, and the
  deterministic ranking of \<^verbatim>\<open>internal/agent/ollama\<close>: serving node groups (fetched from the Broker
  or decided by the local brain), narrowing them to the measured or chosen provider, proxying
  reservations and listing virtual nodes. The answer of the language model is an argument; the
  state machine around it is modelled as a step relation.
\<close>

section \<open>Latency bounds as query parameters (bound.go)\<close>

fun natDigits :: "nat \<Rightarrow> string" where
  "natDigits n = (if n < 10 then [char_of (48 + n)] else natDigits (n div 10) @ [char_of (48 + n mod 10)])"

declare natDigits.simps [simp del]

definition itoa :: "int \<Rightarrow> string" where
  "itoa n = (if n < 0 then CHR ''-'' # natDigits (nat (- n)) else natDigits (nat n))"

text \<open>\<^verbatim>\<open>url.Values\<close> with the one key \<^verbatim>\<open>maxLatencyMs\<close>; absent and empty read alike.\<close>

definition EncodeLatencyBound :: "LatencyBound option \<Rightarrow> string" where
  "EncodeLatencyBound bound = (case bound of None \<Rightarrow> '''' | Some b \<Rightarrow> itoa (lb_MaxLatencyMs b))"

definition DecodeLatencyBound :: "string \<Rightarrow> message + LatencyBound option" where
  "DecodeLatencyBound rawMax =
    (if rawMax = '''' then Inr None
     else case atoi rawMax of
       None \<Rightarrow> Inl (Sprintf ''%s must be an integer >= 1, got %q'' [AStr ''maxLatencyMs'', AStr rawMax])
     | Some ms \<Rightarrow>
         if int32 ms \<noteq> ms \<or> ms < 1 then Inl (Sprintf ''%s must be an integer >= 1, got %q'' [AStr ''maxLatencyMs'', AStr rawMax])
         else Inr (Some \<lparr>lb_MaxLatencyMs = ms\<rparr>))"

section \<open>The deterministic ranking (ollama/client.go)\<close>

record candidate =
  cn_id :: string
  cn_cost :: real
  cn_hasCost :: bool
  cn_carbon :: real
  cn_hasCarbon :: bool
  cn_available :: int

definition candidateOf :: "quantity_api \<Rightarrow> NodeGroupView \<Rightarrow> candidate" where
  "candidateOf Q ng = \<lparr>cn_id = ng_ProviderClusterID ng,
     cn_cost = (case ng_Cost ng of Some c \<Rightarrow> q_Float Q c | None \<Rightarrow> 0), cn_hasCost = (ng_Cost ng \<noteq> None),
     cn_carbon = (case ng_CarbonIntensity ng of Some c \<Rightarrow> c | None \<Rightarrow> 0), cn_hasCarbon = (ng_CarbonIntensity ng \<noteq> None),
     cn_available = int32 (ng_MaxSize ng - ng_CurrentReserved ng)\<rparr>"

text \<open>The comparison of the stable sort.\<close>

definition candidateLess :: "candidate \<Rightarrow> candidate \<Rightarrow> bool" where
  "candidateLess ci cj =
    (if cn_hasCost ci \<noteq> cn_hasCost cj then cn_hasCost ci
     else if cn_hasCost ci \<and> cn_hasCost cj \<and> cn_cost ci \<noteq> cn_cost cj then cn_cost ci < cn_cost cj
     else if cn_hasCarbon ci \<noteq> cn_hasCarbon cj then cn_hasCarbon ci
     else if cn_hasCarbon ci \<and> cn_hasCarbon cj \<and> cn_carbon ci \<noteq> cn_carbon cj then cn_carbon ci < cn_carbon cj
     else cn_available ci > cn_available cj)"

text \<open>
  \<^verbatim>\<open>sort.SliceStable\<close> with that comparison, as an insertion that goes behind every element the
  new one is not less than; the elements are inserted from the last to the first.
\<close>

fun insertStable :: "candidate \<Rightarrow> candidate list \<Rightarrow> candidate list" where
  "insertStable c [] = [c]"
| "insertStable c (d # ds) = (if candidateLess d c then d # insertStable c ds else c # d # ds)"

definition sortStable :: "candidate list \<Rightarrow> candidate list" where
  "sortStable cs = foldr insertStable cs []"

definition DeterministicFallback :: "quantity_api \<Rightarrow> NodeGroupView list \<Rightarrow> string list \<times> bool" where
  "DeterministicFallback Q groups =
    (let candidates = map (candidateOf Q) (filter headroom groups)
     in if candidates = [] then ([], False) else (map cn_id (sortStable candidates), True))"

section \<open>Narrowing the list (server.go)\<close>

definition completeRanking :: "quantity_api \<Rightarrow> string list \<Rightarrow> NodeGroupView list \<Rightarrow> string list" where
  "completeRanking Q ranked groups =
     fold (\<lambda>p out. if p \<in> set out then out else out @ [p]) (fst (DeterministicFallback Q groups)) ranked"

definition maskToFirstAvailable :: "NodeGroupListResponse \<Rightarrow> string list \<Rightarrow> NodeGroupListResponse" where
  "maskToFirstAvailable resp ranked =
    (let capacity = (\<lambda>p. \<exists>ng\<in>set (nl_NodeGroups resp). headroom ng \<and> ng_ProviderClusterID ng = p);
         chosen = (case find capacity ranked of Some p \<Rightarrow> p | None \<Rightarrow> '''')
     in resp\<lparr>nl_NodeGroups := map (\<lambda>ng. if ng_ProviderClusterID ng \<noteq> chosen then masked ng else ng) (nl_NodeGroups resp)\<rparr>)"

definition probeCandidates :: "NodeGroupView list \<Rightarrow> Candidate list" where
  "probeCandidates groups =
     fold (\<lambda>ng cands. if headroom ng \<and> ng_ProbeEndpoint ng \<noteq> '''' \<and> ng_ProviderClusterID ng \<notin> set (map cd_ProviderClusterID cands)
        then cands @ [\<lparr>cd_ProviderClusterID = ng_ProviderClusterID ng, cd_Endpoint = ng_ProbeEndpoint ng\<rparr>] else cands) groups []"

definition maskToMeasuredWinner :: "(Candidate list \<Rightarrow> ('w, ProbeResult) state) \<Rightarrow> NodeGroupListResponse \<Rightarrow>
    ('w, NodeGroupListResponse) state" where
  "maskToMeasuredWinner measureAndPick resp =
    (let cands = probeCandidates (nl_NodeGroups resp)
     in if cands = [] then State_Monad.return resp
        else do {
          res \<leftarrow> measureAndPick cands;
          State_Monad.return (if pr_Chosen res = '''' then resp
            else resp\<lparr>nl_NodeGroups := map (\<lambda>ng. if headroom ng \<and> ng_ProviderClusterID ng \<noteq> pr_Chosen res
                 then masked ng else ng) (nl_NodeGroups resp)\<rparr>) })"

section \<open>The choice of the language model\<close>

record aiState =
  ai_Running :: bool
  ai_Result :: "string list"
  ai_Timestamp :: Time
  ai_Prompt :: string

datatype aiAnswer = ServeRanking "string list" | WaitForModel

text \<open>The part of \<^verbatim>\<open>handleNodeGroups\<close> under the mutex; the last component is the selection started.\<close>

definition pollChoice :: "Time \<Rightarrow> string \<Rightarrow> NodeGroupView list \<Rightarrow> aiState \<Rightarrow>
    aiAnswer \<times> aiState \<times> (string \<times> NodeGroupView list) option" where
  "pollChoice now prompt groups s =
    (let s = (if ai_Prompt s \<noteq> prompt then s\<lparr>ai_Result := [], ai_Prompt := prompt, ai_Timestamp := 0\<rparr> else s)
     in if ai_Result s \<noteq> [] \<and> now - ai_Timestamp s < 60 * 10 ^ 9 then (ServeRanking (ai_Result s), s, None)
        else if \<not> ai_Running s then (WaitForModel, s\<lparr>ai_Running := True\<rparr>, Some (prompt, groups))
        else (WaitForModel, s, None))"

text \<open>The end of the background task; \<open>selected\<close> is what the model returned.\<close>

definition finishSelection :: "quantity_api \<Rightarrow> Time \<Rightarrow> string \<Rightarrow> NodeGroupView list \<Rightarrow> goerror + string list \<Rightarrow>
    aiState \<Rightarrow> aiState" where
  "finishSelection Q now prompt groups selected s =
    (let s = s\<lparr>ai_Running := False\<rparr>
     in if ai_Prompt s \<noteq> prompt then s
        else (let ranked = (case selected of
                   Inl _ \<Rightarrow> fst (DeterministicFallback Q groups)
                 | Inr r \<Rightarrow> if r = [] then fst (DeterministicFallback Q groups) else r)
              in s\<lparr>ai_Result := completeRanking Q ranked groups, ai_Timestamp := now\<rparr>))"

section \<open>Handlers\<close>

definition currentConsumerChoice :: "('w, kerr + ConsumerPolicy list) state \<Rightarrow> ('w, string option) state" where
  "currentConsumerChoice listPolicies = do {
     l \<leftarrow> listPolicies;
     State_Monad.return (case l of
       Inl _ \<Rightarrow> None
     | Inr [] \<Rightarrow> None
     | Inr (x # xs) \<Rightarrow> (let chosen = lowestPolicy x (x # xs)
         in if pp_Type (cp_Placement (cp_Spec chosen)) \<noteq> PlacementStrategyConsumerChoice then None
            else Some (cp_UserPrompt (cp_Spec chosen)))) }"

text \<open>What the server calls: the Broker client, the brain of local mode, the local API server, the prober.\<close>

record 'w local_deps =
  ld_GetNodeGroups :: "('w, goerror + NodeGroupListResponse) state"
  ld_NodeGroupsWithin :: "LatencyBound option \<Rightarrow> Brain \<Rightarrow> ('w, (goerror + NodeGroupListResponse) \<times> Brain) state"
  ld_PostReservation :: "string \<Rightarrow> ReservationRequest \<Rightarrow> ('w, goerror + ReservationResponse) state"
  ld_DeleteReservation :: "string \<Rightarrow> ('w, goerror + ReleaseResponse) state"
  ld_ListPolicies :: "('w, kerr + ConsumerPolicy list) state"
  ld_MeasureAndPick :: "(Candidate list \<Rightarrow> ('w, ProbeResult) state) option"
  ld_Ollama :: bool

text \<open>The mutable state of the server; a nil brain (central mode) is \<open>None\<close>.\<close>

record LocalServer =
  ls_ai :: aiState
  ls_brain :: "Brain option"

definition writeLocalError :: "goerror \<Rightarrow> 'a response" where
  "writeLocalError err = (case errorsAs err of
     Some ce \<Rightarrow> if er_Status ce > 0 then writeError (er_Status ce) (er_Code ce) (er_Message ce)
                else writeError 500 InternalError (errorText ''agent client'' err)
   | None \<Rightarrow> writeError 500 InternalError (errorText ''agent client'' err))"

definition localNodeGroups :: "'w local_deps \<Rightarrow> LatencyBound option \<Rightarrow> LocalServer \<Rightarrow>
    ('w, (goerror + NodeGroupListResponse) \<times> LocalServer) state" where
  "localNodeGroups D bound s = (case ls_brain s of
     Some b \<Rightarrow> do { (r, b') \<leftarrow> ld_NodeGroupsWithin D bound b; State_Monad.return (r, s\<lparr>ls_brain := Some b'\<rparr>) }
   | None \<Rightarrow> do { r \<leftarrow> ld_GetNodeGroups D; State_Monad.return (r, s) })"

definition serveNodeGroups :: "NodeGroupListResponse \<Rightarrow> LocalServer \<Rightarrow> NodeGroupListResponse response \<times> LocalServer" where
  "serveNodeGroups resp s = (writeJSON 200 resp, s\<lparr>ls_brain := map_option (RecordChoice resp) (ls_brain s)\<rparr>)"

text \<open>After the latency re-mask: the choice of the consumer, if its policy asks for it.\<close>

definition serveChoice :: "quantity_api \<Rightarrow> Time \<Rightarrow> NodeGroupListResponse \<Rightarrow> string option \<Rightarrow> LocalServer \<Rightarrow>
    NodeGroupListResponse response \<times> LocalServer \<times> (string \<times> NodeGroupView list) option" where
  "serveChoice Q now resp choice s = (case choice of
     Some prompt \<Rightarrow>
       (case pollChoice now prompt (nl_NodeGroups resp) (ls_ai s) of
          (ServeRanking ranked, ai, started) \<Rightarrow>
            (case serveNodeGroups (maskToFirstAvailable resp ranked) (s\<lparr>ls_ai := ai\<rparr>) of (r, s') \<Rightarrow> (r, s', started))
        | (WaitForModel, ai, started) \<Rightarrow>
            (writeJSON 200 (resp\<lparr>nl_NodeGroups := map masked (nl_NodeGroups resp)\<rparr>), s\<lparr>ls_ai := ai\<rparr>, started))
   | None \<Rightarrow>
       (let resp = (if nl_AppliedPlacement resp = PlacementStrategyConsumerChoice
              then maskToFirstAvailable resp (fst (DeterministicFallback Q (nl_NodeGroups resp))) else resp)
        in case serveNodeGroups resp s of (r, s') \<Rightarrow> (r, s', None)))"

definition handleNodeGroups :: "quantity_api \<Rightarrow> Time \<Rightarrow> 'w local_deps \<Rightarrow> string \<Rightarrow> LocalServer \<Rightarrow>
    ('w, NodeGroupListResponse response \<times> LocalServer \<times> (string \<times> NodeGroupView list) option) state" where
  "handleNodeGroups Q now D rawBound s =
    (case DecodeLatencyBound rawBound of
       Inl err \<Rightarrow> State_Monad.return (writeError 400 InvalidRequest err, s, None)
     | Inr bound \<Rightarrow> do {
         (r, s) \<leftarrow> localNodeGroups D bound s;
         (case r of
            Inl err \<Rightarrow> State_Monad.return (writeLocalError err, s, None)
          | Inr resp \<Rightarrow> do {
              resp \<leftarrow> (case ld_MeasureAndPick D of
                 Some mp \<Rightarrow> if nl_LatencyShortlist resp then maskToMeasuredWinner mp resp else State_Monad.return resp
               | None \<Rightarrow> State_Monad.return resp);
              choice \<leftarrow> (if ld_Ollama D then currentConsumerChoice (ld_ListPolicies D) else State_Monad.return None);
              State_Monad.return (serveChoice Q now resp choice s) }) })"

text \<open>\<open>uuid\<close> is drawn if the caller gave no idempotency key; the header of the answer is its second component.\<close>

definition handleLocalReservationCreate :: "Time \<Rightarrow> 'w local_deps \<Rightarrow> string \<Rightarrow> string \<Rightarrow> message + ReservationRequest \<Rightarrow> LocalServer \<Rightarrow>
    ('w, ReservationResponse response \<times> string \<times> LocalServer) state" where
  "handleLocalReservationCreate now D uuid header body s =
    (case body of
       Inl err \<Rightarrow> State_Monad.return (writeError 400 InvalidRequest (Sprintf ''decode body: %v'' [AMsg err]), '''', s)
     | Inr req \<Rightarrow>
        (let reservationID = (if header = '''' then ''res-'' @ uuid else header)
         in do {
           r \<leftarrow> ld_PostReservation D reservationID req;
           State_Monad.return (case r of
             Inl err \<Rightarrow> (writeLocalError err, '''',
               s\<lparr>ls_brain := map_option (ObserveReservation now (rq_ProviderClusterID req) err) (ls_brain s)\<rparr>)
           | Inr resp \<Rightarrow> (writeJSON 201 resp, reservationID, s)) }))"

definition handleLocalReservationDelete :: "'w local_deps \<Rightarrow> string \<Rightarrow> ('w, ReleaseResponse response) state" where
  "handleLocalReservationDelete D resID =
    (if resID = '''' then State_Monad.return (writeError 400 InvalidRequest (text_msg ''reservation id is required''))
     else do {
       r \<leftarrow> ld_DeleteReservation D resID;
       State_Monad.return (case r of Inl err \<Rightarrow> writeLocalError err | Inr resp \<Rightarrow> writeJSON 200 resp) })"

section \<open>Virtual nodes\<close>

type_synonym VirtualNodeStatePhase = string

record VirtualNodeStateSpec =
  vn_ProviderClusterID :: string
  vn_ProviderLiqoClusterID :: string
  vn_SpecResourceSliceName :: string
  vn_NodeGroupID :: string
  vn_ChunkIndex :: int
  vn_ReservationID :: string
  vn_Resources :: ResourceList

text \<open>\<^verbatim>\<open>metav1.Condition\<close>.\<close>

record Condition =
  cd_Type :: string
  cd_Status :: string
  cd_Reason :: string
  cd_Message :: message
  cd_LastTransitionTime :: Time

record VirtualNodeStateStatus =
  vn_ObservedGeneration :: int
  vn_Phase :: VirtualNodeStatePhase
  vn_VirtualNodeName :: string
  vn_ProviderID :: string
  vn_ResourceSliceName :: string
  vn_Allocatable :: ResourceList
  vn_LastTransitionTime :: "Time option"
  vn_Message :: message
  vn_Conditions :: "Condition list"

record VirtualNodeState =
  vn_Name :: string
  vn_Generation :: int
  vn_DeletionTimestamp :: "Time option"
  vn_Spec :: VirtualNodeStateSpec
  vn_Status :: VirtualNodeStateStatus

record VirtualNodeView =
  vv_Name :: string
  vv_VirtualNodeName :: string
  vv_ProviderID :: string
  vv_ReservationID :: string
  vv_NodeGroupID :: string
  vv_ProviderClusterID :: string
  vv_ProviderLiqoClusterID :: string
  vv_Phase :: VirtualNodeStatePhase
  vv_Allocatable :: ResourceList
  vv_LastTransitionTime :: "Time option"

record VirtualNodeListResponse =
  vl_VirtualNodes :: "VirtualNodeView list"

definition virtualNodeStateToView :: "VirtualNodeState \<Rightarrow> VirtualNodeView" where
  "virtualNodeStateToView vns =
    (let name = (if vn_VirtualNodeName (vn_Status vns) = '''' then vn_Name vns else vn_VirtualNodeName (vn_Status vns))
     in \<lparr>vv_Name = name, vv_VirtualNodeName = vn_VirtualNodeName (vn_Status vns), vv_ProviderID = vn_ProviderID (vn_Status vns),
         vv_ReservationID = vn_ReservationID (vn_Spec vns), vv_NodeGroupID = vn_NodeGroupID (vn_Spec vns),
         vv_ProviderClusterID = vn_ProviderClusterID (vn_Spec vns),
         vv_ProviderLiqoClusterID = vn_ProviderLiqoClusterID (vn_Spec vns), vv_Phase = vn_Phase (vn_Status vns),
         vv_Allocatable = vn_Allocatable (vn_Status vns), vv_LastTransitionTime = vn_LastTransitionTime (vn_Status vns)\<rparr>)"

definition handleVirtualNodes :: "('w, kerr + VirtualNodeState list) state \<Rightarrow> ('w, VirtualNodeListResponse response) state" where
  "handleVirtualNodes listStates = do {
     l \<leftarrow> listStates;
     State_Monad.return (case l of
       Inl err \<Rightarrow> writeError 500 InternalError (Sprintf ''list VirtualNodeState: %v'' [AMsg (kubeMessage err)])
     | Inr items \<Rightarrow> writeJSON 200 \<lparr>vl_VirtualNodes = map virtualNodeStateToView items\<rparr>) }"

section \<open>Properties of the ranking\<close>

lemma insertStable_mset [simp]: "mset (insertStable c ds) = add_mset c (mset ds)"
  by (induction ds) auto

lemma sortStable_Nil [simp]: "sortStable [] = []"
  by (simp add: sortStable_def)

lemma sortStable_mset: "mset (sortStable cs) = mset cs"
  by (induction cs) (simp_all add: sortStable_def)

text \<open>The comparison is the lexicographic order of a key, hence a strict weak order.\<close>

definition candidateKey :: "candidate \<Rightarrow> bool \<times> real \<times> bool \<times> real \<times> int" where
  "candidateKey c = (\<not> cn_hasCost c, if cn_hasCost c then cn_cost c else 0,
     \<not> cn_hasCarbon c, if cn_hasCarbon c then cn_carbon c else 0, - cn_available c)"

lemma lex_choice:
  fixes c d :: real and m :: int
  shows "(if p \<noteq> p' then p else if p \<and> p' \<and> c \<noteq> c' then c < c' else if q \<noteq> q' then q
      else if q \<and> q' \<and> d \<noteq> d' then d < d' else m > m') =
    ((\<not> p, if p then c else 0, \<not> q, if q then d else 0, - m) <
     (\<not> p', if p' then c' else 0, \<not> q', if q' then d' else 0, - m'))"
  by (cases p; cases p'; cases q; cases q') (simp_all, auto)

lemma candidateLess_key: "candidateLess a b \<longleftrightarrow> candidateKey a < candidateKey b"
  unfolding candidateLess_def candidateKey_def by (rule lex_choice)

lemma insertStable_sorted:
  "sorted_wrt (\<lambda>x y. \<not> candidateLess y x) ds \<Longrightarrow> sorted_wrt (\<lambda>x y. \<not> candidateLess y x) (insertStable c ds)"
proof (induction ds)
  case (Cons d ds)
  have "set (insertStable c ds) = insert c (set ds)"
    by (induction ds) auto
  with Cons show ?case
    by (auto simp: candidateLess_key)
qed simp

lemma sortStable_sorted: "sorted_wrt (\<lambda>x y. \<not> candidateLess y x) (sortStable cs)"
  by (induction cs) (simp_all add: sortStable_def insertStable_sorted)

lemma set_sortStable: "set (sortStable cs) = set cs"
  by (rule mset_eq_setD [OF sortStable_mset])

lemma set_DeterministicFallback:
  "set (fst (DeterministicFallback Q groups)) = ng_ProviderClusterID ` {ng \<in> set groups. headroom ng}"
proof (cases "filter headroom groups = []")
  case True
  then have "{ng \<in> set groups. headroom ng} = {}" by (simp add: filter_empty_conv)
  with True show ?thesis by (simp add: DeterministicFallback_def)
next
  case False
  then have "set (fst (DeterministicFallback Q groups)) = cn_id ` candidateOf Q ` {ng \<in> set groups. headroom ng}"
    by (simp add: DeterministicFallback_def set_sortStable)
  then show ?thesis by (simp add: image_image candidateOf_def)
qed

lemma completeRanking_prefix: "\<exists>rest. completeRanking Q ranked groups = ranked @ rest"
proof -
  have "\<exists>rest. fold (\<lambda>p out. if p \<in> set out then out else out @ [p]) ps ranked = ranked @ rest" for ps
  proof (induction ps arbitrary: ranked)
    case (Cons p ps)
    show ?case using Cons.IH [of ranked] Cons.IH [of "ranked @ [p]"] by auto
  qed simp
  then show ?thesis by (simp add: completeRanking_def)
qed

lemma set_completeRanking:
  "set (completeRanking Q ranked groups) = set ranked \<union> ng_ProviderClusterID ` {ng \<in> set groups. headroom ng}"
proof -
  have "set (fold (\<lambda>p out. if p \<in> set out then out else out @ [p]) ps ranked) = set ranked \<union> set ps" for ps
    by (induction ps arbitrary: ranked) auto
  then show ?thesis by (simp add: completeRanking_def set_DeterministicFallback)
qed

text \<open>
  The deterministic ranking. It lists exactly the providers that have a group with head-room,
  in an order in which no later candidate is better than an earlier one: priced before unpriced,
  cheaper first, then with carbon data before without, greener first, then more free chunks.
\<close>

theorem deterministic_ranking:
  "\<exists>cs. mset cs = mset (map (candidateOf Q) (filter headroom groups)) \<and>
    sorted_wrt (\<lambda>x y. \<not> candidateLess y x) cs \<and> fst (DeterministicFallback Q groups) = map cn_id cs \<and>
    snd (DeterministicFallback Q groups) = (\<exists>ng\<in>set groups. headroom ng)"
  by (rule exI [of _ "sortStable (map (candidateOf Q) (filter headroom groups))"])
    (auto simp: sortStable_mset sortStable_sorted DeterministicFallback_def Let_def filter_empty_conv)

section \<open>Properties of the narrowing\<close>

lemma headroom_masked_if: "headroom (if b then masked v else v) \<longleftrightarrow> \<not> b \<and> headroom v"
  by simp

text \<open>
  Growing on one provider at a time. After the choice of the consumer has been applied with a
  ranking, every group with head-room belongs to the first provider of the ranking that has one,
  and its group is as it was; every other group is masked to its current size. If no provider of
  the ranking has head-room, nothing can grow.
\<close>

lemma choice_single_provider:
  assumes "\<forall>ng\<in>set (nl_NodeGroups resp). ng_ProviderClusterID ng \<noteq> ''''"
  defines "capacity \<equiv> \<lambda>p. \<exists>ng\<in>set (nl_NodeGroups resp). headroom ng \<and> ng_ProviderClusterID ng = p"
  shows "list_all2 (\<lambda>ng ng'. ng' = ng \<and> find capacity ranked = Some (ng_ProviderClusterID ng) \<or>
       ng' = masked ng \<and> find capacity ranked \<noteq> Some (ng_ProviderClusterID ng))
     (nl_NodeGroups resp) (nl_NodeGroups (maskToFirstAvailable resp ranked)) \<and>
   {ng_ProviderClusterID ng' |ng'. ng' \<in> set (nl_NodeGroups (maskToFirstAvailable resp ranked)) \<and> headroom ng'} =
     (case find capacity ranked of None \<Rightarrow> {} | Some p \<Rightarrow> {p})"
proof -
  let ?chosen = "case find capacity ranked of Some p \<Rightarrow> p | None \<Rightarrow> ''''"
  have views: "nl_NodeGroups (maskToFirstAvailable resp ranked) =
      map (\<lambda>ng. if ng_ProviderClusterID ng \<noteq> ?chosen then masked ng else ng) (nl_NodeGroups resp)"
    by (simp add: maskToFirstAvailable_def Let_def capacity_def)
  have keep: "ng_ProviderClusterID ng = ?chosen \<longleftrightarrow> find capacity ranked = Some (ng_ProviderClusterID ng)"
    if "ng \<in> set (nl_NodeGroups resp)" for ng
    using assms(1) that by (auto split: option.splits)
  show ?thesis
  proof (intro conjI)
    show "list_all2 (\<lambda>ng ng'. ng' = ng \<and> find capacity ranked = Some (ng_ProviderClusterID ng) \<or>
         ng' = masked ng \<and> find capacity ranked \<noteq> Some (ng_ProviderClusterID ng))
       (nl_NodeGroups resp) (nl_NodeGroups (maskToFirstAvailable resp ranked))"
      unfolding views list.rel_map by (rule list.rel_refl_strong) (use keep in auto)
    show "{ng_ProviderClusterID ng' |ng'. ng' \<in> set (nl_NodeGroups (maskToFirstAvailable resp ranked)) \<and> headroom ng'} =
       (case find capacity ranked of None \<Rightarrow> {} | Some p \<Rightarrow> {p})"
    proof (cases "find capacity ranked")
      case None
      with keep show ?thesis by (auto simp: views headroom_masked_if)
    next
      case (Some p)
      then have "capacity p" by (auto simp: find_Some_iff)
      with Some show ?thesis by (auto simp: views headroom_masked_if capacity_def)
    qed
  qed
qed

abbreviation exampleGroups :: NodeGroupListResponse where
  "exampleGroups \<equiv> \<lparr>nl_NodeGroups = [demoView ''a'' 0, demoView ''b'' 2, demoView ''c'' 3], nl_LatencyShortlist = False,
     nl_AppliedPlacement = ''ConsumerChoice'', nl_Generation = 0, nl_ServedAt = 0, nl_CacheAgeSeconds = 0\<rparr>"

lemma choice_single_provider_example:
  "{ng_ProviderClusterID ng' |ng'. ng' \<in> set (nl_NodeGroups (maskToFirstAvailable exampleGroups [''a'', ''c'', ''b''])) \<and>
     headroom ng'} = {''c''}"
proof -
  have "find (\<lambda>p. \<exists>ng\<in>set (nl_NodeGroups exampleGroups). headroom ng \<and> ng_ProviderClusterID ng = p) [''a'', ''c'', ''b''] = Some ''c''"
    by (simp add: demoView_def headroom_def int32_id is_int32_def)
  then show ?thesis
    using choice_single_provider [of exampleGroups "[''a'', ''c'', ''b'']"] by (simp add: demoView_def)
qed

section \<open>The selection in the background\<close>

text \<open>
  The server and its background task: at most one selection is in flight; \<open>cs_finished\<close> records
  the selections whose result was kept, with prompt, ranking and time.
\<close>

record choice_system =
  cs_ai :: aiState
  cs_task :: "(string \<times> NodeGroupView list) option"
  cs_finished :: "(string \<times> string list \<times> Time) set"

definition choice_init :: choice_system where
  "choice_init = \<lparr>cs_ai = \<lparr>ai_Running = False, ai_Result = [], ai_Timestamp = 0, ai_Prompt = ''''\<rparr>,
     cs_task = None, cs_finished = {}\<rparr>"

text \<open>
  A poll of the Cluster Autoscaler under the prompt then in force, or the end of the selection
  in flight with whatever the model answered.
\<close>

inductive choice_step :: "quantity_api \<Rightarrow> choice_system \<Rightarrow> choice_system \<Rightarrow> bool" for Q where
  poll: "pollChoice now prompt groups (cs_ai c) = (answer, ai, started) \<Longrightarrow>
    choice_step Q c (c\<lparr>cs_ai := ai, cs_task := (case started of None \<Rightarrow> cs_task c | Some t \<Rightarrow> Some t)\<rparr>)"
| finish: "cs_task c = Some (prompt, groups) \<Longrightarrow> ai = finishSelection Q now prompt groups selected (cs_ai c) \<Longrightarrow>
    choice_step Q c (c\<lparr>cs_ai := ai, cs_task := None,
      cs_finished := (if ai_Prompt ai = prompt then {(prompt, ai_Result ai, ai_Timestamp ai)} else {}) \<union> cs_finished c\<rparr>)"

inductive_cases choice_stepE: "choice_step Q c c'"

inductive choice_reachable :: "quantity_api \<Rightarrow> choice_system \<Rightarrow> bool" for Q where
  init: "choice_reachable Q choice_init"
| step: "choice_reachable Q c \<Longrightarrow> choice_step Q c c' \<Longrightarrow> choice_reachable Q c'"

definition choice_inv :: "choice_system \<Rightarrow> bool" where
  "choice_inv c \<longleftrightarrow> (ai_Running (cs_ai c) \<longleftrightarrow> cs_task c \<noteq> None) \<and>
     (ai_Result (cs_ai c) \<noteq> [] \<longrightarrow> (ai_Prompt (cs_ai c), ai_Result (cs_ai c), ai_Timestamp (cs_ai c)) \<in> cs_finished c)"

lemma choice_inv_step: "choice_step Q c c' \<Longrightarrow> choice_inv c \<Longrightarrow> choice_inv c'"
  by (erule choice_stepE)
    (auto simp: choice_inv_def pollChoice_def finishSelection_def Let_def split: if_splits option.splits)

lemma choice_inv_reachable: "choice_reachable Q c \<Longrightarrow> choice_inv c"
  by (induction rule: choice_reachable.induct) (simp add: choice_inv_def choice_init_def, blast intro: choice_inv_step)

text \<open>
  Which ranking is served. Whatever the interleaving of polls, prompt changes and model
  answers, a ranking served for a prompt was computed by a selection for that very prompt that
  finished less than 60 seconds ago; and a new selection is started only when none is running.
\<close>

theorem choice_answers_prompt:
  assumes "choice_reachable Q c" and "pollChoice now prompt groups (cs_ai c) = (answer, ai, started)"
  shows "(\<forall>ranked. answer = ServeRanking ranked \<longrightarrow> (\<exists>t. (prompt, ranked, t) \<in> cs_finished c \<and> now - t < 60 * 10 ^ 9)) \<and>
    (started \<noteq> None \<longrightarrow> cs_task c = None \<and> started = Some (prompt, groups))"
  using choice_inv_reachable [OF assms(1)] assms(2)
  by (cases "cs_task c") (auto simp: choice_inv_def pollChoice_def Let_def split: if_splits)

definition exampleChoice :: choice_system where
  "exampleChoice = \<lparr>cs_ai = finishSelection exactQ 7 ''cheap'' [] (Inr [''a''])
       (fst (snd (pollChoice 0 ''cheap'' [] (cs_ai choice_init)))), cs_task = None,
     cs_finished = {(''cheap'', [''a''], 7)}\<rparr>"

lemma exampleChoice_reachable: "choice_reachable exactQ exampleChoice"
proof -
  let ?ai = "fst (snd (pollChoice 0 ''cheap'' [] (cs_ai choice_init)))"
  let ?c = "choice_init\<lparr>cs_ai := ?ai, cs_task := Some (''cheap'', [])\<rparr>"
  have "pollChoice 0 ''cheap'' [] (cs_ai choice_init) = (WaitForModel, ?ai, Some (''cheap'', []))"
    by (simp add: pollChoice_def choice_init_def)
  from choice_step.poll [OF this, of exactQ] have "choice_step exactQ choice_init ?c" by simp
  moreover have "choice_step exactQ ?c exampleChoice"
  proof -
    have fin: "ai_Prompt (cs_ai exampleChoice) = ''cheap''" "ai_Result (cs_ai exampleChoice) = [''a'']"
      "ai_Timestamp (cs_ai exampleChoice) = 7"
      by (simp_all add: exampleChoice_def finishSelection_def pollChoice_def choice_init_def Let_def completeRanking_def
          DeterministicFallback_def)
    have "choice_step exactQ ?c (?c\<lparr>cs_ai := cs_ai exampleChoice, cs_task := None,
        cs_finished := (if ai_Prompt (cs_ai exampleChoice) = ''cheap'' then
          {(''cheap'', ai_Result (cs_ai exampleChoice), ai_Timestamp (cs_ai exampleChoice))} else {}) \<union> cs_finished ?c\<rparr>)"
      by (rule choice_step.finish [where groups = "[]" and now = 7 and selected = "Inr [''a'']"])
        (simp_all add: exampleChoice_def)
    then show ?thesis by (simp add: fin) (simp add: exampleChoice_def choice_init_def)
  qed
  ultimately show ?thesis by (blast intro: choice_reachable.intros)
qed

theorem choice_answers_prompt_witness:
  "fst (pollChoice 8 ''cheap'' [] (cs_ai exampleChoice)) = ServeRanking [''a''] \<and>
   (\<exists>t. (''cheap'', [''a''], t) \<in> cs_finished exampleChoice \<and> 8 - t < 60 * 10 ^ 9)"
proof -
  have "fst (pollChoice 8 ''cheap'' [] (cs_ai exampleChoice)) = ServeRanking [''a'']"
    by (simp add: exampleChoice_def finishSelection_def pollChoice_def choice_init_def Let_def completeRanking_def
        DeterministicFallback_def)
  with choice_answers_prompt [OF exampleChoice_reachable, of 8 "''cheap''" "[]"] show ?thesis
    by (metis prod.collapse)
qed

text \<open>
  C40. No stall. The ranking kept for a prompt covers every provider that had head-room when the
  selection was started, whether or not the model named it; so as long as one of those providers
  still has a group with head-room, serving the ranking leaves something to grow.
\<close>

theorem choice_no_stall:
  assumes "ai_Prompt s = prompt"
    and "g \<in> set groups" "headroom g"
    and "ng \<in> set (nl_NodeGroups resp)" "headroom ng" "ng_ProviderClusterID ng = ng_ProviderClusterID g"
  shows "\<exists>v\<in>set (nl_NodeGroups (maskToFirstAvailable resp
     (ai_Result (finishSelection Q now prompt groups selected s)))). headroom v"
proof -
  let ?ranked = "ai_Result (finishSelection Q now prompt groups selected s)"
  let ?capacity = "\<lambda>p. \<exists>ng\<in>set (nl_NodeGroups resp). headroom ng \<and> ng_ProviderClusterID ng = p"
  have "ng_ProviderClusterID g \<in> set ?ranked"
    using assms(1-3) by (auto simp: finishSelection_def Let_def set_completeRanking)
  then have "find ?capacity ?ranked \<noteq> None"
    using assms(4-6) unfolding find_None_iff by blast
  then obtain p where p: "find ?capacity ?ranked = Some p" by blast
  then obtain v where "v \<in> set (nl_NodeGroups resp)" "headroom v" "ng_ProviderClusterID v = p"
    by (auto simp: find_Some_iff)
  with p show ?thesis
    by (intro bexI [of _ v]) (auto simp: maskToFirstAvailable_def Let_def intro!: rev_image_eqI [of v])
qed

theorem choice_no_stall_witness:
  "\<exists>v\<in>set (nl_NodeGroups (maskToFirstAvailable exampleGroups (ai_Result (finishSelection exactQ 7 ''cheap''
     (nl_NodeGroups exampleGroups) (Inr [''a'']) (cs_ai exampleChoice))))). headroom v"
  by (rule choice_no_stall [where g = "demoView ''c'' 3" and ng = "demoView ''c'' 3"])
    (simp_all add: exampleChoice_def finishSelection_def pollChoice_def choice_init_def Let_def demoView_def headroom_def
      int32_id is_int32_def)

section \<open>The latency bound on the wire\<close>

lemma digits_snoc: "digits acc (xs @ [c]) = (case digits acc xs of None \<Rightarrow> None
    | Some n \<Rightarrow> (case digit c of None \<Rightarrow> None | Some d \<Rightarrow> Some (10 * n + d)))"
  by (induction xs arbitrary: acc) (auto split: option.splits)

lemma digit_char: "d < 10 \<Longrightarrow> digit (char_of (48 + d :: nat)) = Some (int d)"
proof -
  have "\<forall>d\<in>set [0..<10]. digit (char_of (48 + d :: nat)) = Some (int d)" by code_simp
  then show "d < 10 \<Longrightarrow> digit (char_of (48 + d :: nat)) = Some (int d)" by simp
qed

lemma digits_natDigits: "digits 0 (natDigits n) = Some (int n)"
proof (induction n rule: natDigits.induct)
  case (1 n)
  show ?case
  proof (cases "n < 10")
    case True
    then show ?thesis by (subst natDigits.simps) (simp add: digit_char)
  next
    case False
    moreover have "10 * int (n div 10) + int (n mod 10) = int n"
      by (metis div_mult_mod_eq mult.commute of_nat_add of_nat_mult of_nat_numeral)
    ultimately show ?thesis
      using 1 by (subst natDigits.simps) (simp add: digits_snoc digit_char)
  qed
qed

lemma natDigits_first: "\<exists>c cs. natDigits n = c # cs \<and> c \<noteq> CHR ''-'' \<and> c \<noteq> CHR ''+''"
proof (induction n rule: natDigits.induct)
  case (1 n)
  have "char_of (48 + d :: nat) \<noteq> CHR ''-''" "char_of (48 + d :: nat) \<noteq> CHR ''+''" if "d < 10" for d
    using digit_char [OF that] by (auto simp: digit_def Let_def)
  with 1 show ?case by (cases "n < 10"; subst natDigits.simps) auto
qed

lemma atoi_itoa:
  assumes "0 \<le> n" "n < 2 ^ 63"
  shows "atoi (itoa n) = Some n"
proof -
  obtain c cs where c: "natDigits (nat n) = c # cs" "c \<noteq> CHR ''-''" "c \<noteq> CHR ''+''"
    using natDigits_first by blast
  moreover have "digits 0 (c # cs) = Some n" using digits_natDigits [of "nat n"] assms(1) c(1) by simp
  ultimately show ?thesis
    using assms int64_id [of n] by (simp add: atoi_def itoa_def Let_def del: digits.simps)
qed

text \<open>
  A latency bound survives the wire. What the gRPC server's client encodes for a request's
  bound, or for no bound, is what the loopback server decodes.
\<close>

theorem latency_bound_roundtrip:
  assumes "\<forall>b. bound = Some b \<longrightarrow> 1 \<le> lb_MaxLatencyMs b \<and> is_int32 (lb_MaxLatencyMs b)"
  shows "DecodeLatencyBound (EncodeLatencyBound bound) = Inr bound"
proof (cases bound)
  case (Some b)
  with assms have r: "1 \<le> lb_MaxLatencyMs b" "is_int32 (lb_MaxLatencyMs b)" by auto
  then have "atoi (itoa (lb_MaxLatencyMs b)) = Some (lb_MaxLatencyMs b)"
    by (intro atoi_itoa) (auto simp: is_int32_def)
  moreover have "itoa (lb_MaxLatencyMs b) \<noteq> ''''"
    using natDigits_first [of "nat (lb_MaxLatencyMs b)"] by (auto simp: itoa_def)
  ultimately show ?thesis
    using Some r by (simp add: DecodeLatencyBound_def EncodeLatencyBound_def int32_id)
qed (simp add: DecodeLatencyBound_def EncodeLatencyBound_def)

theorem latency_bound_roundtrip_witness:
  "DecodeLatencyBound (EncodeLatencyBound (Some \<lparr>lb_MaxLatencyMs = 25\<rparr>)) = Inr (Some \<lparr>lb_MaxLatencyMs = 25\<rparr>)"
  using latency_bound_roundtrip [of "Some \<lparr>lb_MaxLatencyMs = 25\<rparr>"] by (simp add: is_int32_def)

end
