(* ===== verification/GrpcServer.thy ===== *)
theory GrpcServer
  imports LocalApi
begin

text \<open>
  \<^verbatim>\<open>internal/grpcserver\<close>: the external gRPC cloud provider the Cluster Autoscaler talks to, and
  \<^verbatim>\<open>internal/grpcserver/agentclient\<close>, its client of the consumer agent's loopback API. Every RPC is
  a function of the agent (nil is \<open>None\<close>); the read RPCs also thread the short-lived cache of node
  groups. Protobuf encoding and the gRPC transport are not modelled.
\<close>

section \<open>The agent client (agentclient)\<close>

definition acClassify :: "nat \<Rightarrow> Category" where
  "acClassify status =
    (if status \<ge> 500 then CategoryTransient
     else if status = 400 then CategoryBadRequest
     else if status = 401 then CategoryUnauthenticated
     else if status = 403 then CategoryForbidden
     else if status = 404 then CategoryNotFound
     else if status = 409 then CategoryConflict
     else if status = 412 then CategoryPreconditionFailed
     else if status = 429 then CategoryTooManyRequests
     else CategoryBadRequest)"

text \<open>\<^verbatim>\<open>strings.TrimSpace\<close> on ASCII white space.\<close>

definition isSpace :: "char \<Rightarrow> bool" where
  "isSpace c = (let n = (of_char c :: nat) in n = 32 \<or> 9 \<le> n \<and> n \<le> 13)"

definition trimSpace :: "string \<Rightarrow> string" where
  "trimSpace s = rev (dropWhile isSpace (rev (dropWhile isSpace s)))"

definition acDecodeErrorBody :: "nat \<Rightarrow> errBody \<Rightarrow> Error" where
  "acDecodeErrorBody status body =
    (let out = \<lparr>er_Category = acClassify status, er_Code = CodeEmpty, er_Message = text_msg '''', er_Status = status,
           er_Cause = None\<rparr>
     in case body of
          NoBody \<Rightarrow> out\<lparr>er_Message := Sprintf ''StatusText'' [AInt (int status)]\<rparr>
        | TextBody s \<Rightarrow> out\<lparr>er_Message := text_msg (trimSpace s)\<rparr>
        | EnvBody code msg \<Rightarrow> out\<lparr>er_Code := code, er_Message := msg\<rparr>)"

definition acDo :: "('w, 'a exchange) state \<Rightarrow> ('w, goerror + 'a) state" where
  "acDo send = do {
     x \<leftarrow> send;
     State_Monad.return (case x of
       Inl err \<Rightarrow> Inl (Typed \<lparr>er_Category = CategoryTransient, er_Code = CodeEmpty, er_Message = err, er_Status = 0,
                    er_Cause = Some err\<rparr>)
     | Inr resp \<Rightarrow>
         if hr_Status resp \<ge> 400 then Inl (Typed (acDecodeErrorBody (hr_Status resp) (hr_ErrBody resp)))
         else case hr_Body resp of
           Inl err \<Rightarrow> Inl (Typed \<lparr>er_Category = CategoryTransient, er_Code = CodeEmpty, er_Message = err,
                        er_Status = hr_Status resp, er_Cause = Some err\<rparr>)
         | Inr out \<Rightarrow> Inr out) }"

text \<open>One exchange with the loopback server, per route; reservation names need no escaping.\<close>

record 'w loopback_routes =
  lr_NodeGroups :: "string \<Rightarrow> ('w, NodeGroupListResponse exchange) state"
  lr_PostReservation :: "string \<Rightarrow> ReservationRequest \<Rightarrow> ('w, ReservationResponse exchange) state"
  lr_DeleteReservation :: "string \<Rightarrow> ('w, ReleaseResponse exchange) state"
  lr_VirtualNodes :: "('w, VirtualNodeListResponse exchange) state"

definition acGetNodeGroupsWithin :: "'w loopback_routes \<Rightarrow> LatencyBound option \<Rightarrow> ('w, goerror + NodeGroupListResponse) state" where
  "acGetNodeGroupsWithin L bound = acDo (lr_NodeGroups L (EncodeLatencyBound bound))"

definition acGetNodeGroups :: "'w loopback_routes \<Rightarrow> ('w, goerror + NodeGroupListResponse) state" where
  "acGetNodeGroups L = acGetNodeGroupsWithin L None"

definition acPostReservation :: "'w loopback_routes \<Rightarrow> string \<Rightarrow> ReservationRequest option \<Rightarrow>
    ('w, goerror + ReservationResponse) state" where
  "acPostReservation L reservationID req =
    (if reservationID = '''' then State_Monad.return (Inl (Plain
       (text_msg ''agentclient: PostReservation: reservationID is required'')))
     else case req of
       None \<Rightarrow> State_Monad.return (Inl (Plain (text_msg ''agentclient: PostReservation: req is nil'')))
     | Some req \<Rightarrow> acDo (lr_PostReservation L reservationID req))"

definition acDeleteReservation :: "'w loopback_routes \<Rightarrow> string \<Rightarrow> ('w, goerror + ReleaseResponse) state" where
  "acDeleteReservation L reservationID =
    (if reservationID = '''' then State_Monad.return (Inl (Plain
       (text_msg ''agentclient: DeleteReservation: reservationID is required'')))
     else acDo (lr_DeleteReservation L reservationID))"

definition acGetVirtualNodes :: "'w loopback_routes \<Rightarrow> ('w, goerror + VirtualNodeListResponse) state" where
  "acGetVirtualNodes L = acDo (lr_VirtualNodes L)"

text \<open>What the server uses of its client.\<close>

record 'w agent =
  a_GetNodeGroups :: "('w, goerror + NodeGroupListResponse) state"
  a_PostReservation :: "string \<Rightarrow> ReservationRequest option \<Rightarrow> ('w, goerror + ReservationResponse) state"
  a_DeleteReservation :: "string \<Rightarrow> ('w, goerror + ReleaseResponse) state"
  a_GetVirtualNodes :: "('w, goerror + VirtualNodeListResponse) state"

definition agentOf :: "'w loopback_routes \<Rightarrow> 'w agent" where
  "agentOf L = \<lparr>a_GetNodeGroups = acGetNodeGroups L, a_PostReservation = acPostReservation L,
     a_DeleteReservation = acDeleteReservation L, a_GetVirtualNodes = acGetVirtualNodes L\<rparr>"

section \<open>Status codes (rpc\_readonly.go)\<close>

datatype grpc_code =
    InvalidArgument | UnauthenticatedCode | PermissionDenied | NotFoundStatus | AlreadyExists
  | FailedPrecondition | ResourceExhausted | Unavailable | Internal

type_synonym grpc_status = "grpc_code \<times> message"

definition mapAgentError :: "goerror \<Rightarrow> string \<Rightarrow> grpc_status" where
  "mapAgentError err rpc =
    ((if isCategory err CategoryBadRequest then InvalidArgument
      else if isCategory err CategoryUnauthenticated then UnauthenticatedCode
      else if isCategory err CategoryForbidden then PermissionDenied
      else if isCategory err CategoryNotFound then NotFoundStatus
      else if isCategory err CategoryConflict then AlreadyExists
      else if isCategory err CategoryPreconditionFailed then FailedPrecondition
      else if isCategory err CategoryTooManyRequests then ResourceExhausted
      else if isCategory err CategoryTransient then Unavailable
      else Internal), Sprintf ''%s: %v'' [AStr rpc, AMsg (errorText ''agentclient'' err)])"

abbreviation notConfigured :: grpc_status where
  "notConfigured \<equiv> (FailedPrecondition, text_msg ''agent client not configured'')"

section \<open>Mutating RPCs (rpc\_mutating.go)\<close>

definition findNodeGroup :: "'w agent \<Rightarrow> string \<Rightarrow> ('w, grpc_status + NodeGroupView) state" where
  "findNodeGroup A gid = do {
     r \<leftarrow> a_GetNodeGroups A;
     State_Monad.return (case r of
       Inl err \<Rightarrow> Inl (mapAgentError err ''GetNodeGroups'')
     | Inr resp \<Rightarrow> (case find (\<lambda>ng. ng_ID ng = gid) (nl_NodeGroups resp) of
         Some ng \<Rightarrow> Inr ng
       | None \<Rightarrow> Inl (NotFoundStatus, Sprintf ''node group %q not found'' [AStr gid]))) }"

definition oneChunk :: "NodeGroupView \<Rightarrow> ReservationRequest" where
  "oneChunk grp = \<lparr>rq_ProviderClusterID = ng_ProviderClusterID grp, rq_NodeGroupID = ng_ID grp,
     rq_ChunkCount = 1, rq_ChunkType = ng_Type grp, rq_Namespaces = []\<rparr>"

text \<open>The loop over the delta; the list holds the UUIDs drawn, one per round.\<close>

fun placeLoop :: "'w agent \<Rightarrow> NodeGroupView \<Rightarrow> string list \<Rightarrow> ('w, grpc_status + unit) state" where
  "placeLoop A grp [] = State_Monad.return (Inr ())"
| "placeLoop A grp (uuid # uuids) = do {
     r \<leftarrow> a_PostReservation A (''res-'' @ uuid) (Some (oneChunk grp));
     (case r of
        Inl err \<Rightarrow> State_Monad.return (Inl (mapAgentError err ''PostReservation''))
      | Inr _ \<Rightarrow> placeLoop A grp uuids) }"

text \<open>A request is nil or carries an ID and a delta; \<open>uuids\<close> supplies the UUIDs.\<close>

definition NodeGroupIncreaseSize :: "'w agent option \<Rightarrow> (nat \<Rightarrow> string) \<Rightarrow> (string \<times> int) option \<Rightarrow>
    ('w, grpc_status + unit) state" where
  "NodeGroupIncreaseSize agent uuids req = (case req of
     None \<Rightarrow> State_Monad.return (Inl (InvalidArgument, text_msg ''id is required''))
   | Some (gid, delta) \<Rightarrow>
       if gid = '''' then State_Monad.return (Inl (InvalidArgument, text_msg ''id is required''))
       else if delta \<le> 0 then State_Monad.return (Inl (InvalidArgument, Sprintf ''delta must be > 0, got %d'' [AInt delta]))
       else (case agent of
           None \<Rightarrow> State_Monad.return (Inl notConfigured)
         | Some A \<Rightarrow> do {
             g \<leftarrow> findNodeGroup A gid;
             (case g of
                Inl st \<Rightarrow> State_Monad.return (Inl st)
              | Inr grp \<Rightarrow> placeLoop A grp (map uuids [0..<nat delta])) }))"

text \<open>The reservations behind the requested nodes; a nil node is \<open>None\<close>.\<close>

fun collectReleases :: "(string \<Rightarrow> string option) \<Rightarrow> string option list \<Rightarrow> string list \<Rightarrow> grpc_status + string list" where
  "collectReleases byName [] releasing = Inr releasing"
| "collectReleases byName (n # ns) releasing = (case n of
     None \<Rightarrow> Inl (InvalidArgument, text_msg ''node name is required'')
   | Some name \<Rightarrow>
       if name = '''' then Inl (InvalidArgument, text_msg ''node name is required'')
       else (case byName name of
           None \<Rightarrow> Inl (NotFoundStatus, Sprintf ''node %q is not known to this provider'' [AStr name])
         | Some resID \<Rightarrow>
             if resID = '''' then Inl (FailedPrecondition, Sprintf ''node %q has no reservation id'' [AStr name])
             else collectReleases byName ns (List.insert resID releasing)))"

fun releaseLoop :: "'w agent \<Rightarrow> string list \<Rightarrow> ('w, grpc_status + unit) state" where
  "releaseLoop A [] = State_Monad.return (Inr ())"
| "releaseLoop A (resID # ids) = do {
     r \<leftarrow> a_DeleteReservation A resID;
     (case r of
        Inl err \<Rightarrow> State_Monad.return (Inl (mapAgentError err ''DeleteReservation''))
      | Inr _ \<Rightarrow> releaseLoop A ids) }"

text \<open>\<open>order\<close> is the order in which Go ranges over the set of reservations.\<close>

definition NodeGroupDeleteNodes :: "'w agent option \<Rightarrow> (string list \<Rightarrow> string list) \<Rightarrow>
    (string \<times> string option list) option \<Rightarrow> ('w, grpc_status + unit) state" where
  "NodeGroupDeleteNodes agent order req = (case req of
     None \<Rightarrow> State_Monad.return (Inl (InvalidArgument, text_msg ''id is required''))
   | Some (gid, nodes) \<Rightarrow>
       if gid = '''' then State_Monad.return (Inl (InvalidArgument, text_msg ''id is required''))
       else if nodes = [] then State_Monad.return (Inl (InvalidArgument, text_msg ''nodes is required''))
       else (case agent of
           None \<Rightarrow> State_Monad.return (Inl notConfigured)
         | Some A \<Rightarrow> do {
             l \<leftarrow> a_GetVirtualNodes A;
             (case l of
                Inl err \<Rightarrow> State_Monad.return (Inl (mapAgentError err ''GetVirtualNodes''))
              | Inr vl \<Rightarrow>
                  (case collectReleases (map_of (rev (map (\<lambda>vn. (vv_Name vn, vv_ReservationID vn)) (vl_VirtualNodes vl)))) nodes [] of
                     Inl st \<Rightarrow> State_Monad.return (Inl st)
                   | Inr releasing \<Rightarrow> releaseLoop A (order releasing))) }))"

definition NodeGroupDecreaseTargetSize :: "(string \<times> int) option \<Rightarrow> grpc_status + unit" where
  "NodeGroupDecreaseTargetSize req = (case req of
     None \<Rightarrow> Inl (InvalidArgument, text_msg ''id is required'')
   | Some (gid, delta) \<Rightarrow>
       if gid = '''' then Inl (InvalidArgument, text_msg ''id is required'')
       else if delta \<ge> 0 then Inl (InvalidArgument, Sprintf ''delta must be < 0 for DecreaseTargetSize, got %d'' [AInt delta])
       else Inr ())"

section \<open>Read RPCs (rpc\_readonly.go, server.go)\<close>

definition nodeGroupsCacheTTL :: Duration where
  "nodeGroupsCacheTTL = 2 * 10 ^ 9"

type_synonym ngCache = "(NodeGroupListResponse \<times> Time) option"

text \<open>\<open>now\<close> and \<open>now'\<close> are the times before and after a fetch.\<close>

definition cachedNodeGroups :: "Time \<Rightarrow> Time \<Rightarrow> 'w agent \<Rightarrow> ngCache \<Rightarrow>
    ('w, (goerror + NodeGroupListResponse) \<times> ngCache) state" where
  "cachedNodeGroups now now' A cache = (case cache of
     Some (resp, t) \<Rightarrow> if now - t < nodeGroupsCacheTTL then State_Monad.return (Inr resp, cache)
       else do { r \<leftarrow> a_GetNodeGroups A; State_Monad.return (case r of Inl e \<Rightarrow> (Inl e, cache) | Inr resp \<Rightarrow> (Inr resp, Some (resp, now'))) }
   | None \<Rightarrow> do { r \<leftarrow> a_GetNodeGroups A; State_Monad.return (case r of Inl e \<Rightarrow> (Inl e, cache) | Inr resp \<Rightarrow> (Inr resp, Some (resp, now'))) })"

record ProtoNodeGroup =
  pg_Id :: string
  pg_MinSize :: int
  pg_MaxSize :: int
  pg_Debug :: message

definition rpcNodeGroups :: "Time \<Rightarrow> Time \<Rightarrow> 'w agent option \<Rightarrow> ngCache \<Rightarrow>
    ('w, (grpc_status + ProtoNodeGroup list) \<times> ngCache) state" where
  "rpcNodeGroups now now' agent cache = (case agent of
     None \<Rightarrow> State_Monad.return (Inl notConfigured, cache)
   | Some A \<Rightarrow> do {
       (r, cache) \<leftarrow> cachedNodeGroups now now' A cache;
       State_Monad.return (case r of
         Inl err \<Rightarrow> (Inl (mapAgentError err ''GetNodeGroups''), cache)
       | Inr resp \<Rightarrow> (Inr (map (\<lambda>ng. \<lparr>pg_Id = ng_ID ng, pg_MinSize = ng_MinSize ng, pg_MaxSize = ng_MaxSize ng,
             pg_Debug = Sprintf ''provider=%s type=%s current=%d max=%d'' [AStr (ng_ProviderClusterID ng), AStr (ng_Type ng),
               AInt (ng_CurrentReserved ng), AInt (ng_MaxSize ng)]\<rparr>) (nl_NodeGroups resp)), cache)) })"

text \<open>An ID of \<^verbatim>\<open>''''\<close> means that the node is not managed by this provider.\<close>

definition NodeGroupForNode :: "'w agent option \<Rightarrow> string option \<Rightarrow> ('w, grpc_status + string) state" where
  "NodeGroupForNode agent node =
    (if node = None \<or> node = Some '''' then State_Monad.return (Inl (InvalidArgument, text_msg ''node is required''))
     else (case agent of
         None \<Rightarrow> State_Monad.return (Inl notConfigured)
       | Some A \<Rightarrow> do {
           l \<leftarrow> a_GetVirtualNodes A;
           State_Monad.return (case l of
             Inl err \<Rightarrow> Inl (mapAgentError err ''GetVirtualNodes'')
           | Inr vl \<Rightarrow> (case find (\<lambda>vn. Some (vv_Name vn) = node) (vl_VirtualNodes vl) of
               Some vn \<Rightarrow> Inr (vv_NodeGroupID vn) | None \<Rightarrow> Inr '''')) }))"

definition NodeGroupTargetSize :: "Time \<Rightarrow> Time \<Rightarrow> 'w agent option \<Rightarrow> string option \<Rightarrow> ngCache \<Rightarrow>
    ('w, (grpc_status + int) \<times> ngCache) state" where
  "NodeGroupTargetSize now now' agent gid cache =
    (if gid = None \<or> gid = Some '''' then State_Monad.return (Inl (InvalidArgument, text_msg ''id is required''), cache)
     else (case agent of
         None \<Rightarrow> State_Monad.return (Inl notConfigured, cache)
       | Some A \<Rightarrow> do {
           (r, cache) \<leftarrow> cachedNodeGroups now now' A cache;
           State_Monad.return (case r of
             Inl err \<Rightarrow> (Inl (mapAgentError err ''GetNodeGroups''), cache)
           | Inr resp \<Rightarrow> (case find (\<lambda>ng. Some (ng_ID ng) = gid) (nl_NodeGroups resp) of
               Some ng \<Rightarrow> (Inr (ng_CurrentReserved ng), cache) | None \<Rightarrow> (Inr 0, cache))) }))"

section \<open>Node templates (nodetemplate.go)\<close>

abbreviation LiqoNodeTypeLabel :: string where "LiqoNodeTypeLabel \<equiv> ''liqo.io/type''"
abbreviation LiqoNodeTypeValue :: string where "LiqoNodeTypeValue \<equiv> ''virtual-node''"
abbreviation LiqoNotAllowedTaintKey :: string where "LiqoNotAllowedTaintKey \<equiv> ''virtual-node.liqo.io/not-allowed''"
abbreviation LiqoNotAllowedTaintEffect :: string where "LiqoNotAllowedTaintEffect \<equiv> ''NoExecute''"

text \<open>The fields of \<^verbatim>\<open>corev1.Node\<close> the template fills; its one condition is Ready, stamped with the current time.\<close>

record Node =
  nd_Name :: string
  nd_Labels :: "(string \<times> string) list"
  nd_Taints :: "Taint list"
  nd_ProviderID :: string
  nd_Capacity :: ResourceList
  nd_Allocatable :: ResourceList
  nd_ReadySince :: Time
  nd_OperatingSystem :: string
  nd_Architecture :: string

text \<open>A Go map is an association list; a nil map and an empty one read alike.\<close>

definition mergeLabels :: "(string \<times> string) list \<Rightarrow> (string \<times> string) list \<Rightarrow> (string \<times> string) list" where
  "mergeLabels a b = fold (\<lambda>(k, v) acc. AList.update k v acc) b a"

definition topologyLabels :: "NodeGroupView \<Rightarrow> (string \<times> string) list" where
  "topologyLabels grp = (case ng_Topology grp of
     None \<Rightarrow> []
   | Some t \<Rightarrow> (if t_Region t \<noteq> '''' then [(''topology.kubernetes.io/region'', t_Region t)] else [])
       @ (if t_Zone t \<noteq> '''' then [(''topology.kubernetes.io/zone'', t_Zone t)] else []))"

definition ensureLiqoTaint :: "Taint list \<Rightarrow> Taint list" where
  "ensureLiqoTaint taints =
    (if \<exists>t\<in>set taints. tn_Key t = LiqoNotAllowedTaintKey \<and> tn_Effect t = LiqoNotAllowedTaintEffect then taints
     else taints @ [\<lparr>tn_Key = LiqoNotAllowedTaintKey, tn_Value = '''', tn_Effect = LiqoNotAllowedTaintEffect\<rparr>])"

definition addMissing :: "string \<Rightarrow> Quantity \<Rightarrow> ResourceList \<Rightarrow> ResourceList" where
  "addMissing name q rl = (if map_of rl name \<noteq> None then rl else AList.update name q rl)"

definition nonEmptyResources :: "quantity_api \<Rightarrow> ResourceList \<Rightarrow> ResourceList" where
  "nonEmptyResources Q rl = addMissing ''pods'' (q_MustParse Q ''110'')
     (addMissing ''memory'' (q_MustParse Q ''4Gi'') (addMissing ''cpu'' (q_MustParse Q ''2'') rl))"

definition providerIDForTemplate :: "NodeGroupView \<Rightarrow> string" where
  "providerIDForTemplate grp = (if ng_ProviderClusterID grp = '''' then ''liqo://'' @ ng_ID grp
     else ''liqo://'' @ ng_ProviderClusterID grp @ ''/'' @ ng_ID grp)"

definition buildNodeTemplate :: "quantity_api \<Rightarrow> Time \<Rightarrow> NodeGroupView \<Rightarrow> Node" where
  "buildNodeTemplate Q now grp =
    (let defaults = [(''kubernetes.io/hostname'', ''template-'' @ ng_ID grp), (''kubernetes.io/os'', ''linux''),
           (''kubernetes.io/arch'', ''amd64''), (''beta.kubernetes.io/instance-type'', ''liqo-virtual''),
           (''node.kubernetes.io/instance-type'', ''liqo-virtual''), (LiqoNodeTypeLabel, LiqoNodeTypeValue)];
         labels = mergeLabels (mergeLabels defaults (ng_Labels grp)) (topologyLabels grp);
         resources = nonEmptyResources Q (ng_ChunkResources grp)
     in \<lparr>nd_Name = ''template-'' @ ng_ID grp, nd_Labels = labels, nd_Taints = ensureLiqoTaint (ng_Taints grp),
         nd_ProviderID = providerIDForTemplate grp, nd_Capacity = resources, nd_Allocatable = resources,
         nd_ReadySince = now, nd_OperatingSystem = ''linux'', nd_Architecture = ''amd64''\<rparr>)"

definition NodeGroupTemplateNodeInfo :: "quantity_api \<Rightarrow> Time \<Rightarrow> Time \<Rightarrow> 'w agent option \<Rightarrow> string option \<Rightarrow> ngCache \<Rightarrow>
    ('w, (grpc_status + Node) \<times> ngCache) state" where
  "NodeGroupTemplateNodeInfo Q now now' agent gid cache =
    (if gid = None \<or> gid = Some '''' then State_Monad.return (Inl (InvalidArgument, text_msg ''id is required''), cache)
     else (case agent of
         None \<Rightarrow> State_Monad.return (Inl notConfigured, cache)
       | Some A \<Rightarrow> do {
           (r, cache) \<leftarrow> cachedNodeGroups now now' A cache;
           State_Monad.return (case r of
             Inl err \<Rightarrow> (Inl (mapAgentError err ''GetNodeGroups''), cache)
           | Inr resp \<Rightarrow> (case find (\<lambda>ng. Some (ng_ID ng) = gid) (nl_NodeGroups resp) of
               Some ng \<Rightarrow> (Inr (buildNodeTemplate Q now' ng), cache)
             | None \<Rightarrow> (Inl (NotFoundStatus, Sprintf ''node group %q not found'' [AStr (the gid)]), cache))) }))"

section \<open>Pricing and lifecycle RPCs (rpc\_lifecycle.go)\<close>

abbreviation GPULabelKey :: string where "GPULabelKey \<equiv> ''nvidia.com/gpu''"

text \<open>The zero \<^verbatim>\<open>time.Time\<close>, for an absent bound of a window, is year 1.\<close>

definition zeroTime :: Time where
  "zeroTime = - 62135596800 * 10 ^ 9"

definition timeFromMetaV1 :: "Time option \<Rightarrow> Time" where
  "timeFromMetaV1 t = (case t of None \<Rightarrow> zeroTime | Some t \<Rightarrow> t)"

text \<open>\<^verbatim>\<open>end.Sub(start)\<close> saturates at the largest and smallest duration of 64 bits.\<close>

definition timeSub :: "Time \<Rightarrow> Time \<Rightarrow> Duration" where
  "timeSub t u = max (- (2 ^ 63)) (min (2 ^ 63 - 1) (t - u))"

definition windowHours :: "Time \<Rightarrow> Time \<Rightarrow> real" where
  "windowHours start stop =
    (let dur = timeSub stop start in if dur \<le> 0 then 1 else real_of_int dur / (3600 * 10 ^ 9))"

definition chunkCostFloat :: "quantity_api \<Rightarrow> NodeGroupView \<Rightarrow> real" where
  "chunkCostFloat Q grp = (case ng_Cost grp of None \<Rightarrow> 0 | Some c \<Rightarrow> q_Float Q c)"

definition PricingNodePrice :: "quantity_api \<Rightarrow> 'w agent option \<Rightarrow> string option \<Rightarrow> Time option \<Rightarrow> Time option \<Rightarrow>
    ('w, grpc_status + real) state" where
  "PricingNodePrice Q agent node start stop =
    (if node = None \<or> node = Some '''' then State_Monad.return (Inl (InvalidArgument, text_msg ''node is required''))
     else (case agent of
         None \<Rightarrow> State_Monad.return (Inl notConfigured)
       | Some A \<Rightarrow> do {
           l \<leftarrow> a_GetVirtualNodes A;
           (case l of
              Inl err \<Rightarrow> State_Monad.return (Inl (mapAgentError err ''GetVirtualNodes''))
            | Inr vl \<Rightarrow>
               (let groupID = (case find (\<lambda>vn. Some (vv_Name vn) = node) (vl_VirtualNodes vl) of
                      Some vn \<Rightarrow> vv_NodeGroupID vn | None \<Rightarrow> '''')
                in if groupID = '''' then State_Monad.return (Inr 0)
                   else do {
                     g \<leftarrow> findNodeGroup A groupID;
                     State_Monad.return (case g of
                       Inl st \<Rightarrow> Inl st
                     | Inr grp \<Rightarrow> Inr (chunkCostFloat Q grp * windowHours (timeFromMetaV1 start) (timeFromMetaV1 stop))) })) }))"

definition PricingPodPrice :: "bool \<Rightarrow> grpc_status + real" where
  "PricingPodPrice hasPod = (if \<not> hasPod then Inl (InvalidArgument, text_msg ''pod is required'') else Inr 0)"

definition GPULabel :: string where
  "GPULabel = GPULabelKey"

text \<open>Only the keys of the answer matter.\<close>

definition GetAvailableGPUTypes :: "'w agent option \<Rightarrow> ('w, grpc_status + string list) state" where
  "GetAvailableGPUTypes agent = (case agent of
     None \<Rightarrow> State_Monad.return (Inl notConfigured)
   | Some A \<Rightarrow> do {
       r \<leftarrow> a_GetNodeGroups A;
       State_Monad.return (case r of
         Inl err \<Rightarrow> Inl (mapAgentError err ''GetNodeGroups'')
       | Inr resp \<Rightarrow> Inr (remdups (map ng_ProviderClusterID (filter (\<lambda>ng. ng_Type ng = ChunkTypeGPU) (nl_NodeGroups resp))))) })"

datatype InstanceState = instanceUnspecified | instanceRunning | instanceCreating | instanceDeleting

record Instance =
  in_Id :: string
  in_State :: InstanceState
  in_ErrorCode :: "string option"

definition instanceStatusFromVNS :: "VirtualNodeStatePhase \<Rightarrow> InstanceState \<times> string option" where
  "instanceStatusFromVNS phase =
    (if phase = ''Running'' then (instanceRunning, None)
     else if phase = ''Creating'' then (instanceCreating, None)
     else if phase = ''Deleting'' then (instanceDeleting, None)
     else if phase = ''Failed'' then (instanceUnspecified, Some ''FederationAutoscalerFailed'')
     else (instanceUnspecified, None))"

definition NodeGroupNodes :: "'w agent option \<Rightarrow> string option \<Rightarrow> ('w, grpc_status + Instance list) state" where
  "NodeGroupNodes agent gid =
    (if gid = None \<or> gid = Some '''' then State_Monad.return (Inl (InvalidArgument, text_msg ''id is required''))
     else (case agent of
         None \<Rightarrow> State_Monad.return (Inl notConfigured)
       | Some A \<Rightarrow> do {
           l \<leftarrow> a_GetVirtualNodes A;
           State_Monad.return (case l of
             Inl err \<Rightarrow> Inl (mapAgentError err ''GetVirtualNodes'')
           | Inr vl \<Rightarrow> Inr (map (\<lambda>vn. case instanceStatusFromVNS (vv_Phase vn) of (st, ec) \<Rightarrow>
                 \<lparr>in_Id = vv_ProviderID vn, in_State = st, in_ErrorCode = ec\<rparr>)
               (filter (\<lambda>vn. Some (vv_NodeGroupID vn) = gid \<and> vv_VirtualNodeName vn \<noteq> '''' \<and> vv_ProviderID vn \<noteq> '''')
                 (vl_VirtualNodes vl)))) }))"

section \<open>Templates\<close>

lemma mergeLabels_get:
  "map_of (mergeLabels a b) k = (case map_of (rev b) k of Some v \<Rightarrow> Some v | None \<Rightarrow> map_of a k)"
proof (induction b arbitrary: a)
  case (Cons x b)
  obtain k' v where "x = (k', v)" by (cases x)
  with Cons show ?case
    by (auto simp: mergeLabels_def AList.update_conv map_add_def split: option.splits)
qed (simp add: mergeLabels_def)

lemma addMissing_get: "map_of (addMissing n q rl) k = (if k = n \<and> map_of rl n = None then Some q else map_of rl k)"
  by (auto simp: addMissing_def AList.update_conv)

text \<open>
  Templates the scheduler simulation can use. Whatever the Broker advertised, a node template
  carries the operating system, architecture and Liqo type labels unless the group itself
  overrides them, a Liqo not-allowed taint with effect NoExecute, and amounts of cpu, memory and
  pods, in which the advertised shape of a chunk is kept; the group's labels override the
  defaults, and region and zone override both.
\<close>

theorem template_complete:
  fixes grp :: NodeGroupView and Q :: quantity_api and now :: Time
  defines "node \<equiv> buildNodeTemplate Q now grp"
  assumes "distinct (map fst (ng_Labels grp))"
  shows "(\<exists>t\<in>set (nd_Taints node). tn_Key t = LiqoNotAllowedTaintKey \<and> tn_Effect t = LiqoNotAllowedTaintEffect) \<and>
    set (ng_Taints grp) \<subseteq> set (nd_Taints node) \<and>
    (\<forall>r\<in>{''cpu'', ''memory'', ''pods''}. map_of (nd_Capacity node) r \<noteq> None) \<and>
    (\<forall>r q. map_of (ng_ChunkResources grp) r = Some q \<longrightarrow> map_of (nd_Capacity node) r = Some q) \<and>
    nd_Allocatable node = nd_Capacity node \<and>
    (\<forall>k. map_of (nd_Labels node) k = (case map_of (topologyLabels grp) k of Some v \<Rightarrow> Some v
       | None \<Rightarrow> (case map_of (ng_Labels grp) k of Some v \<Rightarrow> Some v
         | None \<Rightarrow> map_of [(''kubernetes.io/hostname'', ''template-'' @ ng_ID grp), (''kubernetes.io/os'', ''linux''),
             (''kubernetes.io/arch'', ''amd64''), (''beta.kubernetes.io/instance-type'', ''liqo-virtual''),
             (''node.kubernetes.io/instance-type'', ''liqo-virtual''), (LiqoNodeTypeLabel, LiqoNodeTypeValue)] k)))"
proof -
  have rev: "map_of (rev xs) = map_of xs" if "distinct (map fst xs)" for xs :: "(string \<times> string) list"
    using that by (subst map_of_inject_set) (simp_all add: rev_map [symmetric])
  have topo: "distinct (map fst (topologyLabels grp))"
    by (auto simp: topologyLabels_def split: option.splits)
  have "map_of (nd_Labels node) k = (case map_of (topologyLabels grp) k of Some v \<Rightarrow> Some v
       | None \<Rightarrow> (case map_of (ng_Labels grp) k of Some v \<Rightarrow> Some v
         | None \<Rightarrow> map_of [(''kubernetes.io/hostname'', ''template-'' @ ng_ID grp), (''kubernetes.io/os'', ''linux''),
             (''kubernetes.io/arch'', ''amd64''), (''beta.kubernetes.io/instance-type'', ''liqo-virtual''),
             (''node.kubernetes.io/instance-type'', ''liqo-virtual''), (LiqoNodeTypeLabel, LiqoNodeTypeValue)] k))" for k
    unfolding node_def buildNodeTemplate_def Let_def Node.select_convs mergeLabels_get rev [OF topo] rev [OF assms(2)] ..
  then show ?thesis
    unfolding node_def
    by (intro conjI) (auto simp: buildNodeTemplate_def Let_def ensureLiqoTaint_def nonEmptyResources_def addMissing_get)
qed

theorem template_complete_witness:
  "map_of (nd_Capacity (buildNodeTemplate exactQ 0 (demoView ''p'' 1))) ''pods'' \<noteq> None"
  using template_complete [of "demoView ''p'' 1" exactQ 0] by (simp add: demoView_def)

section \<open>Status codes end to end\<close>

text \<open>
  Refusals keep their meaning. When the Broker refuses a request with a 4xx status, the agent's
  client turns the answer into a typed error, the loopback server forwards it, the gRPC server's
  client decodes it again, and the Cluster Autoscaler receives the gRPC code of that status; every
  5xx answer, and every failure to reach the Broker, becomes Unavailable, which it may retry.
\<close>

theorem refusal_code_end_to_end:
  fixes status :: nat and code :: ErrorCode and msg :: message and cause :: message
  defines "brokerErr \<equiv> Typed (decodeErrorBody status (EnvBody code msg))"
    and "netErr \<equiv> Typed \<lparr>er_Category = CategoryTransient, er_Code = CodeEmpty, er_Message = cause, er_Status = 0, er_Cause = Some cause\<rparr>"
    and "relay \<equiv> \<lambda>err. case hr_ErrBody (wire (writeLocalError err :: unit response)) of
        b \<Rightarrow> Typed (acDecodeErrorBody (hr_Status (wire (writeLocalError err :: unit response))) b)"
  assumes "400 \<le> status"
  shows "fst (mapAgentError (relay brokerErr) rpc) =
      (if 500 \<le> status then Unavailable
       else if status = 401 then UnauthenticatedCode else if status = 403 then PermissionDenied
       else if status = 404 then NotFoundStatus else if status = 409 then AlreadyExists
       else if status = 412 then FailedPrecondition else if status = 429 then ResourceExhausted
       else InvalidArgument) \<and>
    (\<forall>e. errorsAs (relay brokerErr) = Some e \<longrightarrow> er_Code e = code \<and> er_Status e = status \<and> er_Message e = msg) \<and>
    fst (mapAgentError (relay netErr) rpc) = Unavailable"
  using assms(4)
  by (simp add: brokerErr_def netErr_def relay_def mapAgentError_def isCategory_def writeLocalError_def wire_def
      decodeErrorBody_def acDecodeErrorBody_def acClassify_def)

theorem refusal_code_end_to_end_witness:
  "fst (mapAgentError (Typed (acDecodeErrorBody (hr_Status (wire (writeLocalError (Typed (decodeErrorBody 409
       (EnvBody InsufficientCapacity (text_msg ''full'')))) :: unit response)))
     (hr_ErrBody (wire (writeLocalError (Typed (decodeErrorBody 409 (EnvBody InsufficientCapacity (text_msg ''full''))))
       :: unit response))))) ''PostReservation'') = AlreadyExists"
  using refusal_code_end_to_end [where status = 409 and code = InsufficientCapacity and msg = "text_msg ''full''" and
      rpc = "''PostReservation''"] by simp

section \<open>Reads and their cache\<close>

lemma cachedNodeGroups_run:
  assumes "run_state (cachedNodeGroups now now' A cache) w = ((Inr resp, cache'), w')"
  shows "\<exists>t. cache' = Some (resp, t) \<and>
    (cache = Some (resp, t) \<and> now - t < 2 * 10 ^ 9 \<and> w' = w \<or> t = now' \<and> run_state (a_GetNodeGroups A) w = (Inr resp, w'))"
  using assms
  by (auto simp: cachedNodeGroups_def nodeGroupsCacheTTL_def split: if_splits option.splits prod.splits sum.splits)

text \<open>
  How old a target size may be. The size reported for a node group is the number of chunks
  reserved for the consumer in an answer of the agent that was fetched during the call or less
  than two seconds before it, and 0 if that answer does not list the group; a call served from the
  cache asks the agent nothing.
\<close>

theorem target_size_recent:
  assumes "run_state (NodeGroupTargetSize now now' (Some A) (Some gid) cache) w = ((Inr n, cache'), w')"
  shows "\<exists>resp t. cache' = Some (resp, t) \<and>
    (cache = Some (resp, t) \<and> now - t < 2 * 10 ^ 9 \<and> w' = w \<or> t = now' \<and> run_state (a_GetNodeGroups A) w = (Inr resp, w')) \<and>
    n = (case find (\<lambda>ng. ng_ID ng = gid) (nl_NodeGroups resp) of Some ng \<Rightarrow> ng_CurrentReserved ng | None \<Rightarrow> 0)"
proof -
  obtain r c1 w1 where c: "run_state (cachedNodeGroups now now' A cache) w = ((r, c1), w1)"
    by (metis prod.collapse)
  with assms obtain resp where resp: "r = Inr resp" "c1 = cache'" "w1 = w'"
    "n = (case find (\<lambda>ng. ng_ID ng = gid) (nl_NodeGroups resp) of Some ng \<Rightarrow> ng_CurrentReserved ng | None \<Rightarrow> 0)"
    by (cases r) (auto simp: NodeGroupTargetSize_def split: if_splits option.splits)
  from cachedNodeGroups_run [OF c [unfolded resp(1-3)]] resp(4) show ?thesis by blast
qed

definition exampleAgent :: "unit agent" where
  "exampleAgent = \<lparr>a_GetNodeGroups = State_Monad.return (Inr exampleGroups),
     a_PostReservation = (\<lambda>_ _. State_Monad.return (Inl (Plain (text_msg '''')))),
     a_DeleteReservation = (\<lambda>_. State_Monad.return (Inl (Plain (text_msg '''')))),
     a_GetVirtualNodes = State_Monad.return (Inr \<lparr>vl_VirtualNodes = []\<rparr>)\<rparr>"

theorem target_size_recent_witness:
  "\<exists>t. snd (fst (run_state (NodeGroupTargetSize 3 4 (Some exampleAgent) (Some ''b'') None) ())) = Some (exampleGroups, t) \<and> t = 4"
proof -
  have "run_state (NodeGroupTargetSize 3 4 (Some exampleAgent) (Some ''b'') None) () = ((Inr 1, Some (exampleGroups, 4)), ())"
    by (simp add: NodeGroupTargetSize_def cachedNodeGroups_def exampleAgent_def demoView_def)
  from target_size_recent [OF this] this show ?thesis by auto
qed

end
