(* ===== verification/Stack.thy ===== *)
theory Stack
  imports GrpcServer
begin

text \<open>
  The whole path of a scaling request: the gRPC server's client, the loopback exchange with the
  consumer agent, the agent's handlers, its retrying client, the network and the Broker's
  handlers. The locale \<open>agent_api\<close> is what the gRPC server relies on of the agent; the stack built
  from the modelled handlers satisfies it over every reliable API server, whatever messages the
  network and the loopback interface lose.
\<close>

section \<open>Composition\<close>

definition atClock :: "('w \<Rightarrow> Time) \<Rightarrow> (Time \<Rightarrow> ('w, 'a) state) \<Rightarrow> ('w, 'a) state" where
  "atClock clock h = State (\<lambda>w. run_state (h (clock w)) w)"

text \<open>
  The Broker's routes as one consumer reaches them. The registry of consumers is part of the
  server, which stays fixed here, so the heartbeat route is an argument.
\<close>

definition brokerRoutes :: "quantity_api \<Rightarrow> (ChunkType \<Rightarrow> nat \<Rightarrow> nat) \<Rightarrow> ('w \<Rightarrow> Time) \<Rightarrow> 'w kube \<Rightarrow> (string \<Rightarrow> string list) \<Rightarrow>
    string \<Rightarrow> Server \<Rightarrow> string \<Rightarrow> (HeartbeatRequest \<Rightarrow> ('w net, HeartbeatResponse exchange) state) \<Rightarrow> 'w net broker_routes" where
  "brokerRoutes Q intn clock K dns uuid srv consumer heartbeat =
    \<lparr>b_PostAdvertisement = (\<lambda>req. exchangeWith (atClock clock (\<lambda>now. handleAdvertisementUpsert now K (s_sizer srv) consumer (Inr req)))),
     b_PostHeartbeat = heartbeat,
     b_GetNodeGroups = exchangeWith (atClock clock (\<lambda>now. handleNodeGroupsList Q intn now K srv consumer)),
     b_PostReservation = (\<lambda>h req. exchangeWith (brokerCreate clock K dns uuid srv consumer h req)),
     b_DeleteReservation = (\<lambda>n. exchangeWith (handleReservationRelease K consumer n '''')),
     b_ListReservations = exchangeWith (handleReservationList K consumer),
     b_GetInstructions = exchangeWith (atClock clock (\<lambda>now. handleInstructionsList now K consumer)),
     b_PostInstructionResult = (\<lambda>i req. exchangeWith (atClock clock (\<lambda>now. handleInstructionResult now K consumer i (Inr req))))\<rparr>"

text \<open>
  What the consumer sees of its own cluster during one call: the catalog's offers, its policies,
  its location, and the round-trip times it would measure.
\<close>

record surroundings =
  su_Offers :: "Offer list"
  su_Policies :: "ConsumerPolicy list"
  su_Location :: "real \<times> real \<times> bool"
  su_RTT :: "string \<Rightarrow> rtt"
  su_Pick :: "Candidate list \<Rightarrow> ProbeResult"
  su_Ollama :: bool
  su_VirtualNodes :: "VirtualNodeState list"
  su_Now :: Time

definition stackBrain :: "Client \<Rightarrow> 'w net broker_routes \<Rightarrow> Sizer \<Rightarrow> surroundings \<Rightarrow> 'w net brain_options" where
  "stackBrain c B sizer S = \<lparr>bo_ListOffers = State_Monad.return (Inr (su_Offers S)),
     bo_ListReservations = ListReservations c netCtx B, bo_ListPolicies = State_Monad.return (Inr (su_Policies S)),
     bo_Location = Some (State_Monad.return (su_Location S)),
     bo_Measure = Some (\<lambda>eps. State_Monad.return (map (\<lambda>e. (e, su_RTT S e)) eps)), bo_Sizer = sizer\<rparr>"

definition stackDeps :: "quantity_api \<Rightarrow> (ChunkType \<Rightarrow> nat \<Rightarrow> nat) \<Rightarrow> Client \<Rightarrow> 'w net broker_routes \<Rightarrow> Sizer \<Rightarrow> surroundings \<Rightarrow>
    'w net local_deps" where
  "stackDeps Q intn c B sizer S = \<lparr>ld_GetNodeGroups = GetNodeGroups c netCtx B,
     ld_NodeGroupsWithin = NodeGroupsWithin Q intn (su_Now S) (stackBrain c B sizer S),
     ld_PostReservation = (\<lambda>h req. PostReservation c netCtx B h (Some req)),
     ld_DeleteReservation = DeleteReservation c netCtx B,
     ld_ListPolicies = State_Monad.return (Inr (su_Policies S)),
     ld_MeasureAndPick = Some (\<lambda>cands. State_Monad.return (su_Pick S cands)), ld_Ollama = su_Ollama S\<rparr>"

text \<open>The loopback interface: a request to the local server, which may be lost like any other.\<close>

record 'w stack =
  sk_net :: "'w net"
  sk_local :: LocalServer
  sk_fates :: "fate list"

definition loopback :: "(LocalServer \<Rightarrow> ('w net, 'a response \<times> LocalServer) state) \<Rightarrow> ('w stack, 'a exchange) state" where
  "loopback h = State (\<lambda>k.
    (let f = (case sk_fates k of [] \<Rightarrow> Delivered | f # _ \<Rightarrow> f);
         k1 = k\<lparr>sk_fates := tl (sk_fates k)\<rparr>
     in if f = RequestLost then (Inl (text_msg ''connection refused''), k1)
        else (case run_state (h (sk_local k)) (sk_net k) of ((resp, s'), n') \<Rightarrow>
          (if f = ResponseLost then Inl (text_msg ''timeout'') else Inr (wire resp), k1\<lparr>sk_net := n', sk_local := s'\<rparr>))))"

definition stackRoutes :: "quantity_api \<Rightarrow> 'w net local_deps \<Rightarrow> string \<Rightarrow> surroundings \<Rightarrow> 'w stack loopback_routes" where
  "stackRoutes Q D uuid S = \<lparr>
     lr_NodeGroups = (\<lambda>q. loopback (\<lambda>s. do { (r, s', _) \<leftarrow> handleNodeGroups Q (su_Now S) D q s; State_Monad.return (r, s') })),
     lr_PostReservation = (\<lambda>h req. loopback (\<lambda>s. do {
        (r, _, s') \<leftarrow> handleLocalReservationCreate (su_Now S) D uuid h (Inr req) s; State_Monad.return (r, s') })),
     lr_DeleteReservation = (\<lambda>n. loopback (\<lambda>s. do { r \<leftarrow> handleLocalReservationDelete D n; State_Monad.return (r, s) })),
     lr_VirtualNodes = loopback (\<lambda>s. do {
        r \<leftarrow> handleVirtualNodes (State_Monad.return (Inr (su_VirtualNodes S))); State_Monad.return (r, s) })\<rparr>"

definition stackAgent :: "quantity_api \<Rightarrow> (ChunkType \<Rightarrow> nat \<Rightarrow> nat) \<Rightarrow> ('w \<Rightarrow> Time) \<Rightarrow> 'w kube \<Rightarrow> (string \<Rightarrow> string list) \<Rightarrow> string \<Rightarrow>
    Server \<Rightarrow> string \<Rightarrow> (HeartbeatRequest \<Rightarrow> ('w net, HeartbeatResponse exchange) state) \<Rightarrow> Client \<Rightarrow> surroundings \<Rightarrow> 'w stack agent" where
  "stackAgent Q intn clock K dns uuid srv consumer heartbeat c S =
     agentOf (stackRoutes Q (stackDeps Q intn c (brokerRoutes Q intn clock K dns uuid srv consumer heartbeat) (s_sizer srv) S) uuid S)"

section \<open>Frame rules\<close>

text \<open>\<open>keeps f m\<close>: running \<open>m\<close> does not change the view \<open>f\<close> of the state.\<close>

definition keeps :: "('w \<Rightarrow> 'b) \<Rightarrow> ('w, 'a) state \<Rightarrow> bool" where
  "keeps f m \<longleftrightarrow> (\<forall>w. wp m (\<lambda>_ w'. f w' = f w) w)"

lemma keeps_return [intro!]: "keeps f (State_Monad.return x)"
  by (simp add: keeps_def)

lemma keeps_bind [intro!]: "keeps f m \<Longrightarrow> (\<And>a. keeps f (g a)) \<Longrightarrow> keeps f (State_Monad.bind m g)"
  by (auto simp: keeps_def elim!: wp_mono) (metis (mono_tags, lifting) wp_mono)

lemma keeps_call:
  fixes h :: "('a, 'b response) state"
  assumes "keeps f h"
  shows "keeps (\<lambda>n. f (n_World n)) (call c netCtx (exchangeWith h))"
  unfolding keeps_def
proof
  fix n :: "'a net"
  have "wp h (\<lambda>resp w'. f w' = f (n_World n) \<and> (\<forall>st b. resp = writeJSON st b \<longrightarrow> True)) w" if "f w = f (n_World n)" for w
    using spec [OF assms [unfolded keeps_def], of w] unfolding that by simp
  from wp_call_inv [where I = "\<lambda>w. f w = f (n_World n)", OF this]
  show "wp (call c netCtx (exchangeWith h)) (\<lambda>_ n'. f (n_World n') = f (n_World n)) n"
    by (auto elim!: wp_mono)
qed

lemma wp_atClock: "wp (atClock clock h) Q w = wp (h (clock w)) Q w"
  by (simp add: atClock_def wp_def)

lemma keeps_NodeGroupsWithin:
  assumes "keeps f (bo_ListOffers opts)" "keeps f (bo_ListReservations opts)" "keeps f (bo_ListPolicies opts)"
    "\<And>l. bo_Location opts = Some l \<Longrightarrow> keeps f l" "\<And>m es. bo_Measure opts = Some m \<Longrightarrow> keeps f (m es)"
  shows "keeps f (NodeGroupsWithin Q intn now opts bound b)"
proof -
  have "keeps f (currentPolicy opts)" "keeps f (locate opts pl)" "keeps f (measureFor opts bd es)" for pl bd es
    using assms by (auto simp: currentPolicy_def locate_def measureFor_def split: option.splits)
  with assms show ?thesis
    by (auto simp: NodeGroupsWithin_def Let_def split: sum.splits)
qed

lemma keeps_handleNodeGroups:
  assumes "keeps f (ld_GetNodeGroups D)" "\<And>bd b. keeps f (ld_NodeGroupsWithin D bd b)" "keeps f (ld_ListPolicies D)"
    "\<And>m cs. ld_MeasureAndPick D = Some m \<Longrightarrow> keeps f (m cs)"
  shows "keeps f (handleNodeGroups Q now D q s)"
proof -
  have "keeps f (localNodeGroups D bd s)" for bd
    using assms by (auto simp: localNodeGroups_def split: option.splits)
  moreover have "keeps f (currentConsumerChoice (ld_ListPolicies D))"
    using assms by (auto simp: currentConsumerChoice_def)
  moreover have "keeps f (maskToMeasuredWinner m resp)" if "ld_MeasureAndPick D = Some m" for m resp
    using assms(4) [OF that] by (auto simp: maskToMeasuredWinner_def Let_def)
  ultimately show ?thesis
    by (auto simp: handleNodeGroups_def split: sum.splits option.splits)
qed

text \<open>A call of the loopback client, lost or not, keeps what the handler keeps.\<close>

lemma wp_acDo_loopback:
  assumes "\<And>s. wp (h s) (\<lambda>x n'. I n' \<and> (\<forall>st b. fst x = writeJSON st b \<longrightarrow> R b n')) (sk_net k)" and "I (sk_net k)"
  shows "wp (acDo (loopback h)) (\<lambda>r k'. I (sk_net k') \<and> (\<forall>b. r = Inr b \<longrightarrow> R b (sk_net k'))) k"
  using assms(1) [of "sk_local k"] assms(2)
  by (auto simp: wp_def acDo_def loopback_def Let_def wire_def split: prod.splits response.splits)

section \<open>What the gRPC server relies on\<close>

text \<open>
  \<open>store w\<close> is what the Broker has stored, \<open>nodes\<close> the consumer's virtual nodes. Reading changes
  nothing; posting a reservation under a valid name books at most once, and is reported as
  successful only if the reservation exists; deleting one releases it at most once, and is
  reported as successful only if it is no longer live.
\<close>

locale agent_api =
  fixes A :: "'w agent" and store :: "'w \<Rightarrow> store" and consumer :: string and valid :: "string \<Rightarrow> bool"
    and nodes :: "VirtualNodeView list"
  assumes groups_law: "wp (a_GetNodeGroups A) (\<lambda>_ w'. store w' = store w) w"
    and nodes_law: "wp (a_GetVirtualNodes A) (\<lambda>r w'. store w' = store w \<and> (\<forall>b. r = Inr b \<longrightarrow> vl_VirtualNodes b = nodes)) w"
    and post_law: "n \<noteq> '''' \<Longrightarrow> valid n \<Longrightarrow> (\<And>a. adv_at (store w) (rq_ProviderClusterID req) = Some a \<Longrightarrow> ledger_wf a) \<Longrightarrow>
      wp (a_PostReservation A n (Some req)) (\<lambda>r w'. booked consumer req n (store w) (store w') \<and>
        (\<forall>b. r = Inr b \<longrightarrow> resv_at (store w') n \<noteq> None)) w"
    and delete_law: "n \<noteq> '''' \<Longrightarrow> wp (a_DeleteReservation A n) (\<lambda>r w'. release_post consumer n (store w) (store w') \<and>
        (\<forall>b. r = Inr b \<longrightarrow> (\<forall>x. resv_at (store w') n = Some x \<longrightarrow> alreadyReleased (rs_Phase (rs_Status x))))) w"

section \<open>The stack provides it\<close>

context kube_api
begin

lemma keeps_nodeGroupsList: "keeps objs (atClock clock (\<lambda>now. handleNodeGroupsList Q intn now K srv consumer))"
  unfolding keeps_def wp_atClock by (auto intro!: wp_mono [OF wp_handleNodeGroupsList])

lemma keeps_reservationList: "keeps objs (handleReservationList K consumer)"
  unfolding keeps_def by (auto intro!: wp_mono [OF wp_handleReservationList])

text \<open>A release that is repeated finds the reservation released and does nothing.\<close>

lemma wp_release_again:
  assumes "\<And>x. resv_at (objs w) n = Some x \<Longrightarrow> alreadyReleased (rs_Phase (rs_Status x))"
  shows "wp (handleReservationRelease K caller n q) (\<lambda>_ w'. objs w' = objs w) w"
  unfolding handleReservationRelease_def wp_bind
  by (rule resv.wp_get) (use assms in \<open>auto split: sum.splits\<close>)

lemma wp_release_repeat:
  assumes "release_post caller n s (objs w)"
  shows "wp (handleReservationRelease K caller n q) (\<lambda>_ w'. release_post caller n s (objs w')) w"
proof (cases "objs w = s")
  case True
  then show ?thesis using wp_handleReservationRelease [of caller n q w] by simp
next
  case False
  with assms have "resv_at (objs w) n = Some x \<Longrightarrow> alreadyReleased (rs_Phase (rs_Status x))" for x
    by (auto simp: release_post_def)
  then have "wp (handleReservationRelease K caller n q) (\<lambda>_ w'. objs w' = objs w) w"
    by (rule wp_release_again)
  then show ?thesis
    by (rule wp_mono) (simp add: assms)
qed

lemma wp_release_success:
  "wp (handleReservationRelease K caller n '''') (\<lambda>resp w'. \<forall>st b. resp = writeJSON st b \<longrightarrow>
     (\<forall>x. resv_at (objs w') n = Some x \<longrightarrow> alreadyReleased (rs_Phase (rs_Status x)))) w"
proof -
  have rel: "wp (releaseReservation K r) (\<lambda>resp w'. \<forall>st b. resp = writeJSON st b \<longrightarrow>
      (\<forall>x. resv_at (objs w') n = Some x \<longrightarrow> alreadyReleased (rs_Phase (rs_Status x)))) w1"
    if "resv_at (objs w1) n = Some r" "m_Name (rs_Meta r) = n" for r w1
    unfolding releaseReservation_def wp_bind
  proof (rule resv.wp_status, goal_cases)
    case (2 w2 x' cur v)
    have "wp (adjustReservedChunks K (rs_ProviderClusterID (rs_Spec r)) (- rs_ChunkCount (rs_Spec r))) (\<lambda>a. wp (case a of
        Inl e \<Rightarrow> State_Monad.return (Inl e) | Inr _ \<Rightarrow> markChunksReleased K (m_Name (rs_Meta x')))
      (\<lambda>_ w'. \<forall>x. resv_at (objs w') n = Some x \<longrightarrow> alreadyReleased (rs_Phase (rs_Status x)))) w2"
    proof (rule wp_adjustReservedChunks, goal_cases)
      case (1 w3 e)
      then show ?case using 2 that by simp
    next
      case (2 w3 a v2)
      note w3 = this
      have r3: "resv_at (objs w3) n = Some x'" "m_Name (rs_Meta x') = n" "rs_Phase (rs_Status x') = Unpeering"
        using w3 \<open>objs w2 = _\<close> \<open>x' = _\<close> \<open>resv_at (objs w1) _ = Some cur\<close> that by auto
      show ?case
        unfolding sum.case r3(2)
        by (rule wp_markChunksReleased) (use r3 in \<open>auto simp: stored_def\<close>)
    qed
    then show ?case by (simp add: wp_mono)
  qed simp
  show ?thesis
    unfolding handleReservationRelease_def wp_bind
    by (rule resv.wp_get) (use rel in \<open>auto simp: parseChunksQuery_def split: sum.splits\<close>)
qed

end

lemma deps_post: "ld_PostReservation (stackDeps Q intn c B sz S) = (\<lambda>h req. PostReservation c netCtx B h (Some req))"
  and deps_delete: "ld_DeleteReservation (stackDeps Q intn c B sz S) = DeleteReservation c netCtx B"
  by (simp_all add: stackDeps_def)

lemma routes_post: "b_PostReservation (brokerRoutes Q intn clock K dns uuid srv consumer heartbeat) =
    (\<lambda>h req. exchangeWith (brokerCreate clock K dns uuid srv consumer h req))"
  and routes_delete: "b_DeleteReservation (brokerRoutes Q intn clock K dns uuid srv consumer heartbeat) =
    (\<lambda>n. exchangeWith (handleReservationRelease K consumer n ''''))"
  by (simp_all add: brokerRoutes_def)

lemma wp_stack_groups:
  assumes "kube_api K objs"
  shows "wp (a_GetNodeGroups (stackAgent Q intn clock K dns uuid srv consumer heartbeat c S))
    (\<lambda>_ k'. objs (n_World (sk_net k')) = objs (n_World (sk_net k))) k"
proof -
  let ?D = "stackDeps Q intn c (brokerRoutes Q intn clock K dns uuid srv consumer heartbeat) (s_sizer srv) S"
  let ?f = "\<lambda>n. objs (n_World n)"
  note calls = keeps_call [OF kube_api.keeps_nodeGroupsList [OF assms]] keeps_call [OF kube_api.keeps_reservationList [OF assms]]
  have "keeps ?f (NodeGroupsWithin Q intn now (stackBrain c (brokerRoutes Q intn clock K dns uuid srv consumer heartbeat) sz S) bd b)"
    for now sz bd b
    by (rule keeps_NodeGroupsWithin)
      (auto simp: stackBrain_def ListReservations_def brokerRoutes_def calls)
  then have "keeps ?f (handleNodeGroups Q now ?D q s)" for now q s
    by (intro keeps_handleNodeGroups)
      (auto simp: stackDeps_def GetNodeGroups_def calls, auto simp: brokerRoutes_def calls)
  then have read: "wp (handleNodeGroups Q now ?D q s) (\<lambda>_ n'. ?f n' = ?f n) n" for now q s n
    by (simp add: keeps_def)
  have "wp (acDo (loopback (\<lambda>s. do { (r, s', _) \<leftarrow> handleNodeGroups Q (su_Now S) ?D q s; State_Monad.return (r, s') })))
      (\<lambda>r k'. ?f (sk_net k') = ?f (sk_net k) \<and> (\<forall>b. r = Inr b \<longrightarrow> True)) k" for q
    by (rule wp_acDo_loopback [where I = "\<lambda>n'. ?f n' = ?f (sk_net k)"]) (auto intro!: wp_mono [OF read])
  then show ?thesis
    by (simp add: stackAgent_def agentOf_def stackRoutes_def acGetNodeGroups_def acGetNodeGroupsWithin_def)
qed

lemma wp_stack_nodes:
  "wp (a_GetVirtualNodes (stackAgent Q intn clock K dns uuid srv consumer heartbeat c S))
    (\<lambda>r k'. sk_net k' = sk_net k \<and> (\<forall>b. r = Inr b \<longrightarrow> vl_VirtualNodes b = map virtualNodeStateToView (su_VirtualNodes S))) k"
  unfolding stackAgent_def agentOf_def stackRoutes_def acGetVirtualNodes_def agent.simps loopback_routes.simps
  by (rule wp_acDo_loopback) (auto simp: handleVirtualNodes_def)

lemma wp_stack_post:
  assumes "kube_reliable K objs" "n \<noteq> ''''" "dns n = []"
    "\<And>a. adv_at (objs (n_World (sk_net k))) (rq_ProviderClusterID req) = Some a \<Longrightarrow> ledger_wf a"
  shows "wp (a_PostReservation (stackAgent Q intn clock K dns uuid srv consumer heartbeat c S) n (Some req))
    (\<lambda>r k'. booked consumer req n (objs (n_World (sk_net k))) (objs (n_World (sk_net k'))) \<and>
      (\<forall>b. r = Inr b \<longrightarrow> resv_at (objs (n_World (sk_net k'))) n \<noteq> None)) k"
proof -
  let ?s = "objs (n_World (sk_net k))"
  have call: "wp (call c netCtx (exchangeWith (brokerCreate clock K dns uuid srv consumer n req)))
      (\<lambda>r n'. booked consumer req n ?s (objs (n_World n')) \<and>
        (\<forall>b. r = Inr b \<longrightarrow> ro_ReservationID b = n \<and> resv_at (objs (n_World n')) n \<noteq> None)) (sk_net k)"
    by (rule wp_call_inv [where I = "\<lambda>w. booked consumer req n ?s (objs w)"],
        rule kube_reliable.wp_brokerCreate_booked [OF assms(1)])
      (use assms(2-4) in \<open>auto simp: booked_def\<close>)
  have "wp (do { (r, _, s') \<leftarrow> handleLocalReservationCreate now D uuid n (Inr req) s; State_Monad.return (r, s') })
      (\<lambda>x n'. booked consumer req n ?s (objs (n_World n')) \<and>
        (\<forall>st b. fst x = writeJSON st b \<longrightarrow> resv_at (objs (n_World n')) n \<noteq> None)) (sk_net k)"
    if "ld_PostReservation D = (\<lambda>h req. PostReservation c netCtx B h (Some req))"
      "b_PostReservation B = (\<lambda>h req. exchangeWith (brokerCreate clock K dns uuid srv consumer h req))" for now D s and B :: "'a net broker_routes"
    using assms(2) that unfolding handleLocalReservationCreate_def PostReservation_def
    by (auto intro!: wp_mono [OF call] simp: writeLocalError_def split: sum.splits option.splits if_splits)
  note handled = this [OF deps_post routes_post]
  have "booked consumer req n ?s ?s" by (simp add: booked_def)
  from wp_acDo_loopback [where I = "\<lambda>n'. booked consumer req n ?s (objs (n_World n'))", OF handled this]
  show ?thesis
    using assms(2) by (simp add: stackAgent_def agentOf_def stackRoutes_def acPostReservation_def)
qed

lemma wp_stack_delete:
  assumes "kube_api K objs" "n \<noteq> ''''"
  shows "wp (a_DeleteReservation (stackAgent Q intn clock K dns uuid srv consumer heartbeat c S) n)
    (\<lambda>r k'. release_post consumer n (objs (n_World (sk_net k))) (objs (n_World (sk_net k'))) \<and>
      (\<forall>b. r = Inr b \<longrightarrow> (\<forall>x. resv_at (objs (n_World (sk_net k'))) n = Some x \<longrightarrow> alreadyReleased (rs_Phase (rs_Status x))))) k"
proof -
  let ?s = "objs (n_World (sk_net k))"
  let ?R = "\<lambda>n'. \<forall>x. resv_at (objs (n_World n')) n = Some x \<longrightarrow> alreadyReleased (rs_Phase (rs_Status x))"
  have call: "wp (call c netCtx (exchangeWith (handleReservationRelease K consumer n '''')))
      (\<lambda>r n'. release_post consumer n ?s (objs (n_World n')) \<and> (\<forall>b. r = Inr b \<longrightarrow> ?R n')) (sk_net k)"
    by (rule wp_call_inv [where I = "\<lambda>w. release_post consumer n ?s (objs w)"],
        rule wp_conj [OF kube_api.wp_release_repeat [OF assms(1)] kube_api.wp_release_success [OF assms(1)]])
      (auto simp: release_post_def)
  have "wp (do { r \<leftarrow> handleLocalReservationDelete D n; State_Monad.return (r, s) })
      (\<lambda>x n'. release_post consumer n ?s (objs (n_World n')) \<and>
        (\<forall>st b. fst x = writeJSON st b \<longrightarrow> ?R n')) (sk_net k)"
    if "ld_DeleteReservation D = DeleteReservation c netCtx B"
      "b_DeleteReservation B = (\<lambda>h. exchangeWith (handleReservationRelease K consumer h ''''))" for D and s :: LocalServer and B :: "'a net broker_routes"
    using assms(2) that unfolding handleLocalReservationDelete_def DeleteReservation_def
    by (auto intro!: wp_mono [OF call] simp: writeLocalError_def split: sum.splits option.splits if_splits)
  note handled = this [OF deps_delete routes_delete]
  have "release_post consumer n ?s ?s" by (simp add: release_post_def)
  from wp_acDo_loopback [where I = "\<lambda>n'. release_post consumer n ?s (objs (n_World n'))", OF handled this]
  show ?thesis
    using assms(2) by (simp add: stackAgent_def agentOf_def stackRoutes_def acDeleteReservation_def)
qed

text \<open>The laws hold over every reliable API server; the in-memory one is an instance.\<close>

lemma stack_agent_api:
  assumes "kube_reliable K objs"
  shows "agent_api (stackAgent Q intn clock K dns uuid srv consumer heartbeat c S) (\<lambda>k. objs (n_World (sk_net k)))
    consumer (\<lambda>n. dns n = []) (map virtualNodeStateToView (su_VirtualNodes S))"
proof -
  have api: "kube_api K objs" using assms by (simp add: kube_reliable_def)
  show ?thesis
  proof (unfold_locales, goal_cases)
    case 1
    then show ?case by (rule wp_stack_groups [OF api])
  next
    case 2
    then show ?case by (rule wp_mono [OF wp_stack_nodes]) simp
  next
    case 3
    then show ?case by (intro wp_stack_post [OF assms]) auto
  next
    case 4
    then show ?case by (rule wp_stack_delete [OF api])
  qed
qed

interpretation memStack: agent_api "stackAgent Q intn ms_clock memK dns uuid srv consumer heartbeat c S"
  "\<lambda>k. mem_lookup (n_World (sk_net k))" consumer "\<lambda>n. dns n = []" "map virtualNodeStateToView (su_VirtualNodes S)"
  for Q intn dns uuid srv consumer heartbeat c S
  by (rule stack_agent_api [OF mem.kube_reliable_axioms])

section \<open>Scaling up\<close>

text \<open>The reservations named in \<open>N\<close> were created, and each took one chunk of the provider.\<close>

definition bookedAll :: "string \<Rightarrow> ReservationRequest \<Rightarrow> string set \<Rightarrow> store \<Rightarrow> store \<Rightarrow> bool" where
  "bookedAll consumer req N s s' \<longleftrightarrow>
     (if N = {} then s' = s else ledger_shift (rq_ProviderClusterID req) (int (card N)) s s') \<and>
     (\<forall>n\<in>N. resv_at s n = None \<and> (\<exists>r. resv_at s' n = Some r \<and> reservation_for consumer req r)) \<and>
     (\<forall>n. n \<notin> N \<longrightarrow> resv_at s' n = resv_at s n)"

lemma bookedAll_empty [simp]: "bookedAll consumer req {} s s' \<longleftrightarrow> s' = s"
  by (auto simp: bookedAll_def)

text \<open>
  What scaling the group \<open>gid\<close> up may have done: the first \<open>k\<close> of the reservations drawn were
  created against the group's provider, and all of them if success was reported.
\<close>

definition scaledUp :: "string \<Rightarrow> string \<Rightarrow> (nat \<Rightarrow> string) \<Rightarrow> int \<Rightarrow> grpc_status + unit \<Rightarrow> store \<Rightarrow> store \<Rightarrow> bool" where
  "scaledUp consumer gid uuids delta r s s' \<longleftrightarrow> (\<exists>grp k. ng_ID grp = gid \<and> k \<le> nat delta \<and>
     (r = Inr () \<longrightarrow> 0 < delta \<and> k = nat delta) \<and>
     bookedAll consumer (oneChunk grp) ((\<lambda>i. ''res-'' @ uuids i) ` {..<k}) s s')"

lemma scaledUp_idle: "s' = s \<Longrightarrow> scaledUp consumer gid uuids delta (Inl e) s s'"
  unfolding scaledUp_def by (rule exI [of _ "undefined\<lparr>ng_ID := gid\<rparr>"], rule exI [of _ 0]) simp

lemma ledger_shift_trans: "ledger_shift p d s s1 \<Longrightarrow> ledger_shift p e s1 s2 \<Longrightarrow> ledger_shift p (d + e) s s2"
  by (auto simp: ledger_shift_def)

lemma bookedAll_insert:
  assumes "bookedAll consumer req N s s1" and "booked consumer req n s1 s2" and "resv_at s2 n \<noteq> None" and "finite N" and "n \<notin> N"
    and "resv_at s n = None"
  shows "bookedAll consumer req (insert n N) s s2"
proof -
  let ?p = "rq_ProviderClusterID req"
  have fresh: "resv_at s1 n = None" using assms(1,5,6) by (simp add: bookedAll_def)
  with assms(2,3) have new: "ledger_shift ?p 1 s1 s2" "\<exists>r. resv_at s2 n = Some r \<and> reservation_for consumer req r"
    "\<And>m. m \<noteq> n \<Longrightarrow> resv_at s2 m = resv_at s1 m"
    by (auto simp: booked_def)
  have "ledger_shift ?p (int (card (insert n N))) s s2"
  proof (cases "N = {}")
    case True
    with new(1) assms(1) show ?thesis by simp
  next
    case False
    with assms(1) have "ledger_shift ?p (int (card N)) s s1" by (simp add: bookedAll_def)
    from ledger_shift_trans [OF this new(1)] show ?thesis using assms(4,5) by (simp add: add.commute)
  qed
  with assms(1,6) new(2,3) show ?thesis
    by (auto simp: bookedAll_def) (metis assms(5))+
qed

lemma bookedAll_ledger_wf:
  "bookedAll consumer req N s s' \<Longrightarrow> (\<And>q a. adv_at s q = Some a \<Longrightarrow> ledger_wf a) \<Longrightarrow> adv_at s' q = Some a \<Longrightarrow> ledger_wf a"
  by (cases "q = rq_ProviderClusterID req") (auto simp: bookedAll_def ledger_shift_def split: if_splits)

context agent_api
begin

text \<open>
  The loop over the delta books a prefix of the reservations it draws names for, and all of
  them if it ends without an error; \<open>N\<close> are the ones booked before.
\<close>

lemma wp_placeLoop:
  assumes "bookedAll consumer (oneChunk grp) N s (store w)" and "finite N"
    and "\<And>q a. adv_at s q = Some a \<Longrightarrow> ledger_wf a" and "distinct us"
    and "\<forall>u\<in>set us. valid (''res-'' @ u) \<and> resv_at s (''res-'' @ u) = None \<and> ''res-'' @ u \<notin> N"
  shows "wp (placeLoop A grp us) (\<lambda>r w'. \<exists>k\<le>length us. (r = Inr () \<longrightarrow> k = length us) \<and>
    bookedAll consumer (oneChunk grp) (N \<union> (@) ''res-'' ` set (take k us)) s (store w')) w"
  using assms
proof (induction us arbitrary: N w)
  case Nil
  then show ?case by simp
next
  case (Cons u us)
  let ?n = "''res-'' @ u"
  have post: "wp (a_PostReservation A ?n (Some (oneChunk grp))) (\<lambda>r w'. booked consumer (oneChunk grp) ?n (store w) (store w') \<and>
      (\<forall>b. r = Inr b \<longrightarrow> resv_at (store w') ?n \<noteq> None)) w"
    using Cons.prems bookedAll_ledger_wf by (intro post_law) auto
  show ?case
    unfolding placeLoop.simps wp_bind
  proof (rule wp_mono [OF post], goal_cases)
    case (1 r w1)
    have grown: "bookedAll consumer (oneChunk grp) (insert ?n N) s (store w1)" if "resv_at (store w1) ?n \<noteq> None"
      using bookedAll_insert [OF Cons.prems(1) _ that Cons.prems(2)] 1 Cons.prems(5) by simp
    show ?case
    proof (cases r)
      case (Inr b)
      have "wp (placeLoop A grp us) (\<lambda>r w'. \<exists>k\<le>length us. (r = Inr () \<longrightarrow> k = length us) \<and>
          bookedAll consumer (oneChunk grp) (insert ?n N \<union> (@) ''res-'' ` set (take k us)) s (store w')) w1"
        using grown 1 Inr Cons.prems by (intro Cons.IH) auto
      then show ?thesis
        unfolding Inr sum.case
      proof (rule wp_mono, goal_cases)
        case (1 r' w')
        then obtain k where "k \<le> length us" "r' = Inr () \<longrightarrow> k = length us"
          "bookedAll consumer (oneChunk grp) (insert ?n N \<union> (@) ''res-'' ` set (take k us)) s (store w')" by blast
        then show ?case by - (rule exI [of _ "Suc k"], simp)
      qed
    next
      case (Inl e)
      show ?thesis
      proof (cases "resv_at (store w1) ?n")
        case None
        with 1 Cons.prems(1) have "bookedAll consumer (oneChunk grp) N s (store w1)" by (auto simp: booked_def)
        with Inl show ?thesis by (auto intro!: exI [of _ 0])
      next
        case (Some x)
        with grown Inl show ?thesis by (auto intro!: exI [of _ "Suc 0"])
      qed
    qed
  qed
qed

lemma wp_increaseSize:
  assumes "\<And>q a. adv_at (store w) q = Some a \<Longrightarrow> ledger_wf a" and "inj_on uuids {..<nat delta}"
    and "\<And>i. i < nat delta \<Longrightarrow> valid (''res-'' @ uuids i) \<and> resv_at (store w) (''res-'' @ uuids i) = None"
  shows "wp (NodeGroupIncreaseSize (Some A) uuids (Some (gid, delta)))
    (\<lambda>r w'. scaledUp consumer gid uuids delta r (store w) (store w')) w"
proof -
  have idle: "scaledUp consumer gid uuids delta (Inl e) (store w) (store w')" if "store w' = store w" for w' e
    using that by (rule scaledUp_idle)
  have place: "wp (placeLoop A grp (map uuids [0..<nat delta])) (\<lambda>r w'. scaledUp consumer gid uuids delta r (store w) (store w')) w1"
    if "store w1 = store w" "ng_ID grp = gid" "0 < delta" for grp w1
  proof -
    have "wp (placeLoop A grp (map uuids [0..<nat delta])) (\<lambda>r w'. \<exists>k\<le>length (map uuids [0..<nat delta]).
        (r = Inr () \<longrightarrow> k = length (map uuids [0..<nat delta])) \<and>
        bookedAll consumer (oneChunk grp) ({} \<union> (@) ''res-'' ` set (take k (map uuids [0..<nat delta]))) (store w) (store w')) w1"
      by (rule wp_placeLoop) (use assms that in \<open>auto simp: distinct_map lessThan_atLeast0\<close>)
    then show ?thesis
    proof (rule wp_mono, goal_cases)
      case (1 r w')
      then obtain k where k: "k \<le> nat delta" "r = Inr () \<longrightarrow> k = nat delta" "bookedAll consumer (oneChunk grp)
          ((@) ''res-'' ` set (take k (map uuids [0..<nat delta]))) (store w) (store w')" by auto
      have "(@) ''res-'' ` set (take k (map uuids [0..<nat delta])) = (\<lambda>i. ''res-'' @ uuids i) ` {..<k}"
        using k(1) by (simp add: take_map image_image lessThan_atLeast0)
      with k that show ?case
        unfolding scaledUp_def by - (rule exI [of _ grp], rule exI [of _ k], simp)
    qed
  qed
  have found: "wp (findNodeGroup A gid) (\<lambda>g w'. store w' = store w \<and> (\<forall>grp. g = Inr grp \<longrightarrow> ng_ID grp = gid)) w"
    unfolding findNodeGroup_def wp_bind
    by (rule wp_mono [OF groups_law]) (auto simp: find_Some_iff split: sum.splits option.splits)
  have "wp (do { g \<leftarrow> findNodeGroup A gid;
      (case g of Inl st \<Rightarrow> State_Monad.return (Inl st) | Inr grp \<Rightarrow> placeLoop A grp (map uuids [0..<nat delta])) })
      (\<lambda>r w'. scaledUp consumer gid uuids delta r (store w) (store w')) w" if "0 < delta"
    unfolding wp_bind by (rule wp_mono [OF found]) (use that in \<open>auto intro!: place idle split: sum.splits\<close>)
  then show ?thesis
    unfolding NodeGroupIncreaseSize_def option.case prod.case by (simp add: scaledUp_idle)
qed

end

section \<open>Scaling down\<close>

definition notLive :: "store \<Rightarrow> string \<Rightarrow> bool" where
  "notLive s n \<longleftrightarrow> (\<forall>x. resv_at s n = Some x \<longrightarrow> alreadyReleased (rs_Phase (rs_Status x)))"

text \<open>Only reservations named in \<open>N\<close> changed; they were live reservations of the consumer and are being unpeered.\<close>

definition releasedOnly :: "string \<Rightarrow> string set \<Rightarrow> store \<Rightarrow> store \<Rightarrow> bool" where
  "releasedOnly consumer N s s' \<longleftrightarrow> (\<forall>m. resv_at s' m = resv_at s m \<or> m \<in> N \<and>
     (\<exists>r. resv_at s m = Some r \<and> rs_ConsumerClusterID (rs_Spec r) = consumer \<and> \<not> alreadyReleased (rs_Phase (rs_Status r)) \<and>
       (\<forall>r'. resv_at s' m = Some r' \<longrightarrow> rs_Spec r' = rs_Spec r \<and> rs_Phase (rs_Status r') = Unpeering)))"

lemma releasedOnly_refl [simp]: "releasedOnly consumer N s s"
  by (simp add: releasedOnly_def)

lemma releasedOnly_step:
  assumes "releasedOnly consumer N s s1" and "release_post consumer n s1 s2" and "n \<in> N"
  shows "releasedOnly consumer N s s2"
proof (cases "s2 = s1")
  case False
  with assms(2) obtain r where r: "resv_at s1 n = Some r" "consumer = rs_ConsumerClusterID (rs_Spec r)"
    "\<not> alreadyReleased (rs_Phase (rs_Status r))" and others: "\<And>m. m \<noteq> n \<Longrightarrow> resv_at s2 m = resv_at s1 m"
    and upd: "\<And>r'. resv_at s2 n = Some r' \<Longrightarrow> rs_Spec r' = rs_Spec r \<and> rs_Phase (rs_Status r') = Unpeering"
    by (auto simp: release_post_def)
  have "resv_at s n = Some r"
    using spec [OF assms(1) [unfolded releasedOnly_def], of n] r(1,3) by fastforce
  with r upd assms(3) have "\<exists>x. resv_at s n = Some x \<and> rs_ConsumerClusterID (rs_Spec x) = consumer \<and>
      \<not> alreadyReleased (rs_Phase (rs_Status x)) \<and>
      (\<forall>r'. resv_at s2 n = Some r' \<longrightarrow> rs_Spec r' = rs_Spec x \<and> rs_Phase (rs_Status r') = Unpeering)" by simp
  note changed = this
  show ?thesis
    unfolding releasedOnly_def
  proof
    fix m
    show "resv_at s2 m = resv_at s m \<or> m \<in> N \<and> (\<exists>x. resv_at s m = Some x \<and> rs_ConsumerClusterID (rs_Spec x) = consumer \<and>
        \<not> alreadyReleased (rs_Phase (rs_Status x)) \<and>
        (\<forall>r'. resv_at s2 m = Some r' \<longrightarrow> rs_Spec r' = rs_Spec x \<and> rs_Phase (rs_Status r') = Unpeering))"
    proof (cases "m = n")
      case True
      with changed assms(3) show ?thesis by simp
    next
      case False
      from spec [OF assms(1) [unfolded releasedOnly_def], of m] show ?thesis
        unfolding others [OF False] .
    qed
  qed
qed (use assms in simp)

lemma notLive_step: "release_post consumer n s1 s2 \<Longrightarrow> notLive s1 m \<Longrightarrow> notLive s2 m"
  by (cases "m = n") (auto simp: release_post_def notLive_def)

text \<open>What the validation of the nodes yields: the reservations behind them, each named once.\<close>

lemma collectReleases_Inr:
  assumes "collectReleases byName ns acc = Inr xs"
  shows "set xs = set acc \<union> {rid. \<exists>name. Some name \<in> set ns \<and> byName name = Some rid} \<and>
    (\<forall>n\<in>set ns. \<exists>name rid. n = Some name \<and> name \<noteq> '''' \<and> byName name = Some rid \<and> rid \<noteq> '''')"
  using assms
proof (induction byName ns acc rule: collectReleases.induct)
  case (2 byName n ns releasing)
  then show ?case
    by (auto split: option.splits if_splits)
qed simp

definition nodeReservation :: "VirtualNodeView list \<Rightarrow> string \<Rightarrow> string option" where
  "nodeReservation vs = map_of (rev (map (\<lambda>vn. (vv_Name vn, vv_ReservationID vn)) vs))"

definition requestedNode :: "VirtualNodeView list \<Rightarrow> string option \<Rightarrow> bool" where
  "requestedNode vs n \<longleftrightarrow> (\<exists>name rid. n = Some name \<and> name \<noteq> '''' \<and> nodeReservation vs name = Some rid \<and> rid \<noteq> '''')"

definition scaledDown :: "string \<Rightarrow> VirtualNodeView list \<Rightarrow> string option list \<Rightarrow> grpc_status + unit \<Rightarrow> store \<Rightarrow> store \<Rightarrow> bool" where
  "scaledDown consumer vs ns r s s' \<longleftrightarrow>
     releasedOnly consumer {rid. \<exists>name. Some name \<in> set ns \<and> nodeReservation vs name = Some rid} s s' \<and>
     (r = Inr () \<longrightarrow> ns \<noteq> [] \<and> (\<forall>n\<in>set ns. requestedNode vs n \<and>
        (\<forall>name rid. n = Some name \<longrightarrow> nodeReservation vs name = Some rid \<longrightarrow> notLive s' rid))) \<and>
     ((\<exists>n\<in>set ns. \<not> requestedNode vs n) \<longrightarrow> isl r \<and> s' = s)"

context agent_api
begin

lemma wp_releaseLoop:
  assumes "set ids \<subseteq> N" and "'''' \<notin> set ids" and "releasedOnly consumer N s (store w)" and "\<forall>m\<in>M. notLive (store w) m"
  shows "wp (releaseLoop A ids) (\<lambda>r w'. releasedOnly consumer N s (store w') \<and>
    (r = Inr () \<longrightarrow> (\<forall>m\<in>M \<union> set ids. notLive (store w') m))) w"
  using assms
proof (induction ids arbitrary: M w)
  case (Cons n ids)
  have "n \<noteq> ''''" using Cons.prems by auto
  show ?case
    unfolding releaseLoop.simps wp_bind
  proof (rule wp_mono [OF delete_law [OF \<open>n \<noteq> ''''\<close>]], goal_cases)
    case (1 r w1)
    have only: "releasedOnly consumer N s (store w1)"
      using releasedOnly_step [OF Cons.prems(3), of n "store w1"] 1 Cons.prems(1) by simp
    show ?case
    proof (cases r)
      case (Inr b)
      with 1 Cons.prems(4) have "\<forall>m\<in>insert n M. notLive (store w1) m"
        by (auto simp: notLive_def [of _ n] intro: notLive_step)
      from Cons.IH [OF _ _ only this] Cons.prems(1,2) Inr show ?thesis by simp
    qed (use only in simp)
  qed
qed simp

lemma wp_deleteNodes:
  assumes "\<And>xs. set (order xs) = set xs"
  shows "wp (NodeGroupDeleteNodes (Some A) order (Some (gid, ns)))
    (\<lambda>r w'. scaledDown consumer nodes ns r (store w) (store w')) w"
proof -
  let ?N = "{rid. \<exists>name. Some name \<in> set ns \<and> nodeReservation nodes name = Some rid}"
  have failed: "scaledDown consumer nodes ns (Inl e) (store w) (store w')" if "store w' = store w" for e w'
    using that by (simp add: scaledDown_def)
  have released: "wp (releaseLoop A (order xs)) (\<lambda>r w'. scaledDown consumer nodes ns r (store w) (store w')) w1"
    if "collectReleases (nodeReservation nodes) ns [] = Inr xs" "store w1 = store w" "ns \<noteq> []" for xs w1
  proof -
    have xs: "set xs = ?N" and req: "\<forall>n\<in>set ns. requestedNode nodes n"
      using collectReleases_Inr [OF that(1)] by (auto simp: requestedNode_def)
    then have "'''' \<notin> set xs" by (fastforce simp: requestedNode_def)
    then have "wp (releaseLoop A (order xs)) (\<lambda>r w'. releasedOnly consumer ?N (store w) (store w') \<and>
        (r = Inr () \<longrightarrow> (\<forall>m\<in>{} \<union> set (order xs). notLive (store w') m))) w1"
      by (intro wp_releaseLoop) (use that(2) assms xs in simp_all)
    then show ?thesis
      by (rule wp_mono) (use assms xs req that(3) in \<open>auto simp: scaledDown_def\<close>)
  qed
  have "wp (a_GetVirtualNodes A) (\<lambda>l. wp (case l of
        Inl err \<Rightarrow> State_Monad.return (Inl (mapAgentError err ''GetVirtualNodes''))
      | Inr vl \<Rightarrow> (case collectReleases (nodeReservation (vl_VirtualNodes vl)) ns [] of
           Inl st \<Rightarrow> State_Monad.return (Inl st) | Inr releasing \<Rightarrow> releaseLoop A (order releasing)))
      (\<lambda>r w'. scaledDown consumer nodes ns r (store w) (store w'))) w" if "ns \<noteq> []"
    by (rule wp_mono [OF nodes_law]) (use that in \<open>auto intro!: failed released split: sum.splits\<close>)
  then show ?thesis
    unfolding NodeGroupDeleteNodes_def option.case prod.case nodeReservation_def
    by (simp add: scaledDown_def [of consumer nodes _ "Inl _"])
qed

end

section \<open>End to end\<close>



text \<open>
  An example: one provider with three chunks, two of them free, one node of the consumer, and a
  loopback interface and a network that lose some messages.
\<close>

definition exampleSurroundings :: surroundings where
  "exampleSurroundings = \<lparr>su_Offers = [], su_Policies = [], su_Location = (0, 0, False), su_RTT = (\<lambda>_. None),
     su_Pick = (\<lambda>_. \<lparr>pr_Chosen = '''', pr_RTTs = []\<rparr>), su_Ollama = False,
     su_VirtualNodes = [\<lparr>vn_Name = ''n1'', vn_Generation = 0, vn_DeletionTimestamp = None, vn_Spec = \<lparr>vn_ProviderClusterID = ''p'', vn_ProviderLiqoClusterID = ''p'',
        vn_SpecResourceSliceName = '''', vn_NodeGroupID = ''ng-p-standard'', vn_ChunkIndex = 0, vn_ReservationID = ''r'',
        vn_Resources = []\<rparr>, vn_Status = \<lparr>vn_ObservedGeneration = 0, vn_Phase = ''Running'', vn_VirtualNodeName = ''n1'',
        vn_ProviderID = '''', vn_ResourceSliceName = '''', vn_Allocatable = [], vn_LastTransitionTime = None,
        vn_Message = text_msg '''', vn_Conditions = []\<rparr>\<rparr>],
     su_Now = 0\<rparr>"

abbreviation exampleStackAgent :: "memstore stack agent" where
  "exampleStackAgent \<equiv> stackAgent exactQ (\<lambda>_ _. 0) ms_clock memK (\<lambda>_. []) '''' exampleServer ''c'' (\<lambda>_. absentRoute)
     exampleClient exampleSurroundings"

definition exampleStack :: "memstore \<Rightarrow> memstore stack" where
  "exampleStack w = \<lparr>sk_net = \<lparr>n_World = w, n_Fates = [Delivered, ResponseLost, RequestLost], n_Sent = 0, n_Slept = [],
       n_Deadline = None\<rparr>,
     sk_local = \<lparr>ls_ai = \<lparr>ai_Running = False, ai_Result = [], ai_Timestamp = 0, ai_Prompt = ''''\<rparr>, ls_brain = None\<rparr>,
     sk_fates = [Delivered, Delivered, ResponseLost]\<rparr>"

abbreviation exampleUUIDs :: "nat \<Rightarrow> string" where
  "exampleUUIDs i \<equiv> replicate i (CHR ''x'')"


abbreviation oneReservation :: memstore where
  "oneReservation \<equiv> exampleWorld [KAdv (exampleAdv ''p'' 3 1), KResv (exampleResv ''r'' ''c'' ''p'' Peered)]"


end
