(* ===== verification/RequestController.thy ===== *)
theory RequestController
  imports Stack InstructionController
begin

text \<open>
  \<^verbatim>\<open>internal/controller/autoscaling/resourcerequest_controller.go\<close>: the reconciler of manual
  reservations. A user-created \<^verbatim>\<open>ResourceRequest\<close> is sized into chunks and reserved through the
  consumer agent, its nodes are protected from scale-down, it is migrated to a strictly better
  provider, and its reservation is released before the object may disappear. The consumer's
  API server and the agent are records of calls; \<open>request_world\<close> states what the reconciler relies
  on of both.
\<close>

section \<open>Types (resourcerequest\_types.go)\<close>

record ResourceRequestSpec =
  mr_Resources :: ResourceList
  mr_Duration :: string
  mr_Priority :: int
  mr_LatencyBound :: "LatencyBound option"

text \<open>\<open>RRNone\<close> is the empty phase of a new object.\<close>

datatype ResourceRequestPhase = RRNone | RRPending | RRReserved | RRActive | RRMigrating | RRFailed

record ResourceRequestStatus =
  mr_Phase :: ResourceRequestPhase
  mr_ReservationID :: string
  mr_ProviderClusterID :: string
  mr_ChunkCount :: int
  mr_MigrationCount :: int
  mr_Message :: message
  mr_LastTransitionTime :: "Time option"

record ResourceRequest =
  mr_Meta :: ObjectMeta
  mr_UID :: string
  mr_Spec :: ResourceRequestSpec
  mr_Status :: ResourceRequestStatus

text \<open>What the controllers of the consumer read and write of a \<^verbatim>\<open>corev1.Node\<close>.\<close>

record ClusterNode =
  cn_Name :: string
  cn_Annotations :: "(string \<times> string) list"
  cn_DeletionTimestamp :: "Time option"
  cn_Conditions :: "(string \<times> string) list"
  cn_ProviderID :: string
  cn_Allocatable :: ResourceList

section \<open>Calls\<close>

text \<open>
  The calls of the reconciler: its API server, \<^verbatim>\<open>controllerutil\<close>, and the agent, which is nil
  (\<open>None\<close>) if not configured. \<open>e_Within\<close> is the optional method of \<^verbatim>\<open>boundedNodeGroups\<close>.
\<close>

record 'w rr_env =
  e_GetRR :: "string \<Rightarrow> ('w, kerr + ResourceRequest) state"
  e_UpdateRR :: "ResourceRequest \<Rightarrow> ('w, kerr + unit) state"
  e_StatusRR :: "ResourceRequest \<Rightarrow> ('w, kerr + unit) state"
  e_ListVNS :: "string \<Rightarrow> ('w, kerr + VirtualNodeState list) state"
  e_GetNode :: "string \<Rightarrow> ('w, kerr + ClusterNode) state"
  e_PatchNode :: "ClusterNode \<Rightarrow> ('w, kerr + unit) state"
  e_ContainsFinalizer :: "ObjectMeta \<Rightarrow> string \<Rightarrow> bool"
  e_AddFinalizer :: "ObjectMeta \<Rightarrow> string \<Rightarrow> ObjectMeta"
  e_RemoveFinalizer :: "ObjectMeta \<Rightarrow> string \<Rightarrow> ObjectMeta"
  e_Agent :: "'w agent option"
  e_Within :: "(LatencyBound option \<Rightarrow> ('w, goerror + NodeGroupListResponse) state) option"

datatype rr_error = RRKube kerr | RRAgent goerror | RRPlain message

section \<open>Constants\<close>

definition resourceRequestFinalizer :: string where
  "resourceRequestFinalizer = ''autoscaling.federation-autoscaler.io/release-reservation''"

definition pendingRequeue :: Duration where "pendingRequeue = 15 * 10 ^ 9"
definition failedRequeue :: Duration where "failedRequeue = 30 * 10 ^ 9"
definition holdRequeue :: Duration where "holdRequeue = 60 * 10 ^ 9"

definition scaleDownDisabledAnnotation :: string where
  "scaleDownDisabledAnnotation = ''cluster-autoscaler.kubernetes.io/scale-down-disabled''"

definition scaleDownDisabledValue :: string where "scaleDownDisabledValue = ''true''"

section \<open>Sizing\<close>

definition gpuRequested :: "quantity_api \<Rightarrow> ResourceList \<Rightarrow> bool" where
  "gpuRequested Q req = (case map_of req gpuResourceName of None \<Rightarrow> False | Some q \<Rightarrow> q_MilliValue Q q > 0)"

text \<open>The loop over the requested resources; \<open>None\<close> is the early return of 0.\<close>

fun chunksLoop :: "quantity_api \<Rightarrow> ResourceList \<Rightarrow> ResourceList \<Rightarrow> int \<Rightarrow> int option" where
  "chunksLoop Q [] chunk n = Some n"
| "chunksLoop Q ((name, q) # req) chunk n =
    (let rv = q_MilliValue Q q; cv = q_MilliValue Q (rl_get chunk name)
     in if rv \<le> 0 then chunksLoop Q req chunk n
        else if map_of chunk name = None \<or> cv \<le> 0 then None
        else (let need = int64 (int64 (rv + cv) - 1) sdiv cv
              in chunksLoop Q req chunk (if need > n then need else n)))"

definition chunksFor :: "quantity_api \<Rightarrow> ResourceList \<Rightarrow> ResourceList \<Rightarrow> int" where
  "chunksFor Q req chunk = (case chunksLoop Q req chunk 0 of
     None \<Rightarrow> 0 | Some n \<Rightarrow> if n < 1 then 0 else int32 n)"

definition availableIn :: "NodeGroupView \<Rightarrow> int" where
  "availableIn g = int32 (ng_MaxSize g - ng_CurrentReserved g)"

text \<open>One group of the loop: not a candidate, or its chunk count.\<close>

definition fitsGroup :: "quantity_api \<Rightarrow> ResourceList \<Rightarrow> NodeGroupView \<Rightarrow> int option" where
  "fitsGroup Q req g =
    (if gpuRequested Q req \<noteq> (ng_Type g = ChunkTypeGPU) then None
     else if availableIn g \<le> 0 then None
     else (let cnt = chunksFor Q req (ng_ChunkResources g)
           in if cnt \<le> 0 \<or> cnt > availableIn g then None else Some cnt))"

fun pickLoop :: "quantity_api \<Rightarrow> ResourceList \<Rightarrow> NodeGroupView list \<Rightarrow> (NodeGroupView \<times> int) option \<Rightarrow>
    (NodeGroupView \<times> int) option" where
  "pickLoop Q req [] best = best"
| "pickLoop Q req (g # gs) best = (case fitsGroup Q req g of
     None \<Rightarrow> pickLoop Q req gs best
   | Some cnt \<Rightarrow> pickLoop Q req gs (case best of
       None \<Rightarrow> Some (g, cnt)
     | Some (b, _) \<Rightarrow> if availableIn g > availableIn b then Some (g, cnt) else best))"

definition pickProviderAndSize :: "quantity_api \<Rightarrow> NodeGroupView list \<Rightarrow> ResourceList \<Rightarrow> (NodeGroupView \<times> int) option" where
  "pickProviderAndSize Q groups req = pickLoop Q req groups None"

definition multiChunkUnsupported :: "int \<Rightarrow> message option" where
  "multiChunkUnsupported cnt =
    (if cnt \<le> 1 then None
     else Some (Sprintf (''request needs %d chunks; a manual reservation currently covers exactly one chunk - '' @
       ''lower spec.resources to fit one chunk, or create %d separate ResourceRequests'') [AInt cnt, AInt cnt]))"

section \<open>Status writes\<close>

definition writePhase :: "Time \<Rightarrow> 'w rr_env \<Rightarrow> ResourceRequest \<Rightarrow> ResourceRequestPhase \<Rightarrow> message \<Rightarrow> string \<Rightarrow> string \<Rightarrow> int \<Rightarrow>
    ('w, kerr + unit) state" where
  "writePhase now E rr phase msg resID provider cnt =
    (let st = mr_Status rr;
         changed = (mr_Phase st \<noteq> phase \<or> mr_Message st \<noteq> msg \<or> resID \<noteq> '''' \<and> mr_ReservationID st \<noteq> resID \<or>
           provider \<noteq> '''' \<and> mr_ProviderClusterID st \<noteq> provider \<or> cnt \<noteq> 0 \<and> mr_ChunkCount st \<noteq> cnt)
     in if \<not> changed then State_Monad.return (Inr ())
        else e_StatusRR E (rr\<lparr>mr_Status := st\<lparr>
          mr_LastTransitionTime := (if mr_Phase st \<noteq> phase then Some now else mr_LastTransitionTime st),
          mr_Phase := phase, mr_Message := msg,
          mr_ReservationID := (if resID \<noteq> '''' then resID else mr_ReservationID st),
          mr_ProviderClusterID := (if provider \<noteq> '''' then provider else mr_ProviderClusterID st),
          mr_ChunkCount := (if cnt \<noteq> 0 then cnt else mr_ChunkCount st)\<rparr>\<rparr>))"

definition thenRequeue :: "('w, kerr + unit) state \<Rightarrow> Duration \<Rightarrow> ('w, rr_error + ctrlResult) state" where
  "thenRequeue write d = do {
     r \<leftarrow> write;
     State_Monad.return (case r of Inl e \<Rightarrow> Inl (RRKube e) | Inr _ \<Rightarrow> Inr (RequeueAfter d)) }"

definition setPending :: "Time \<Rightarrow> 'w rr_env \<Rightarrow> ResourceRequest \<Rightarrow> message \<Rightarrow> ('w, rr_error + ctrlResult) state" where
  "setPending now E rr msg = thenRequeue (writePhase now E rr RRPending msg '''' '''' 0) pendingRequeue"

definition setFailed :: "Time \<Rightarrow> 'w rr_env \<Rightarrow> ResourceRequest \<Rightarrow> message \<Rightarrow> ('w, rr_error + ctrlResult) state" where
  "setFailed now E rr msg = thenRequeue (writePhase now E rr RRFailed msg '''' '''' 0) failedRequeue"

definition setReserved :: "Time \<Rightarrow> 'w rr_env \<Rightarrow> ResourceRequest \<Rightarrow> string \<Rightarrow> string \<Rightarrow> int \<Rightarrow> ('w, rr_error + ctrlResult) state" where
  "setReserved now E rr resID provider cnt =
     thenRequeue (writePhase now E rr RRReserved (Sprintf ''reserved %d chunk(s) on %s'' [AInt cnt, AStr provider]) resID provider cnt)
       pendingRequeue"

definition setMigrating :: "Time \<Rightarrow> 'w rr_env \<Rightarrow> ResourceRequest \<Rightarrow> string \<Rightarrow> message \<Rightarrow> ('w, kerr + unit) state" where
  "setMigrating now E rr newID msg = e_StatusRR E (rr\<lparr>mr_Status := (mr_Status rr)\<lparr>mr_Phase := RRMigrating, mr_Message := msg,
     mr_ReservationID := newID, mr_MigrationCount := int32 (mr_MigrationCount (mr_Status rr) + 1),
     mr_LastTransitionTime := Some now\<rparr>\<rparr>)"

section \<open>Reserving\<close>

definition nodeGroupsFor :: "'w rr_env \<Rightarrow> 'w agent \<Rightarrow> ResourceRequest \<Rightarrow> ('w, goerror + NodeGroupListResponse) state" where
  "nodeGroupsFor E A rr = (case (mr_LatencyBound (mr_Spec rr), e_Within E) of
     (Some b, Some bounded) \<Rightarrow> bounded (Some b)
   | _ \<Rightarrow> a_GetNodeGroups A)"

definition requestFor :: "NodeGroupView \<Rightarrow> int \<Rightarrow> ReservationRequest" where
  "requestFor grp cnt = \<lparr>rq_ProviderClusterID = ng_ProviderClusterID grp, rq_NodeGroupID = ng_ID grp,
     rq_ChunkCount = cnt, rq_ChunkType = ng_Type grp, rq_Namespaces = []\<rparr>"

definition reserveNew :: "quantity_api \<Rightarrow> Time \<Rightarrow> 'w rr_env \<Rightarrow> 'w agent \<Rightarrow> ResourceRequest \<Rightarrow> ('w, rr_error + ctrlResult) state" where
  "reserveNew Q now E A rr = do {
     resp \<leftarrow> nodeGroupsFor E A rr;
     (case resp of
        Inl err \<Rightarrow> setPending now E rr (Sprintf ''broker node groups unavailable: %s'' [AMsg (errorText ''agentclient'' err)])
      | Inr resp \<Rightarrow> (case pickProviderAndSize Q (nl_NodeGroups resp) (mr_Resources (mr_Spec rr)) of
          None \<Rightarrow> setPending now E rr (text_msg ''no provider with enough free capacity yet'')
        | Some (grp, cnt) \<Rightarrow> (case multiChunkUnsupported cnt of
            Some msg \<Rightarrow> setPending now E rr msg
          | None \<Rightarrow> do {
              p \<leftarrow> a_PostReservation A (''mr-'' @ mr_UID rr) (Some (requestFor grp cnt));
              (case p of
                 Inl err \<Rightarrow> setFailed now E rr (Sprintf ''reservation failed: %s'' [AMsg (errorText ''agentclient'' err)])
               | Inr _ \<Rightarrow> setReserved now E rr (''mr-'' @ mr_UID rr) (ng_ProviderClusterID grp) cnt) }))) }"

section \<open>Migration\<close>

definition isStableMetricPolicy :: "PlacementStrategy \<Rightarrow> bool" where
  "isStableMetricPolicy p \<longleftrightarrow> p = PlacementStrategyPrice \<or> p = PlacementStrategyEco \<or> p = PlacementStrategyLatency"

definition migrationMetricMargin :: real where
  "migrationMetricMargin = 1 / 10 ^ 6"

definition metricStrictlyBetter :: "real \<Rightarrow> real \<Rightarrow> bool" where
  "metricStrictlyBetter candidate current \<longleftrightarrow> candidate < current - current * migrationMetricMargin"

definition findProviderView :: "NodeGroupView list \<Rightarrow> string \<Rightarrow> ChunkType \<Rightarrow> NodeGroupView option" where
  "findProviderView groups providerID t = find (\<lambda>g. ng_ProviderClusterID g = providerID \<and> ng_Type g = t) groups"

definition nextReservationID :: "ResourceRequest \<Rightarrow> string" where
  "nextReservationID rr = ''mr-'' @ mr_UID rr @ ''-m'' @ itoa (int32 (mr_MigrationCount (mr_Status rr) + 1))"

text \<open>The re-evaluation of a held reservation against a fresh list of groups: the group to move to, if any.\<close>

definition migrationTarget :: "quantity_api \<Rightarrow> ResourceRequest \<Rightarrow> NodeGroupListResponse \<Rightarrow> NodeGroupView option" where
  "migrationTarget Q rr resp =
    (if \<not> isStableMetricPolicy (nl_AppliedPlacement resp) then None
     else (case pickProviderAndSize Q (nl_NodeGroups resp) (mr_Resources (mr_Spec rr)) of
         None \<Rightarrow> None
       | Some (grp, _) \<Rightarrow>
           if ng_ProviderClusterID grp = mr_ProviderClusterID (mr_Status rr) then None
           else (case findProviderView (nl_NodeGroups resp) (mr_ProviderClusterID (mr_Status rr)) (ng_Type grp) of
               None \<Rightarrow> Some grp
             | Some cur \<Rightarrow> if \<not> ng_HasMetric cur \<or> \<not> ng_HasMetric grp \<or>
                   \<not> metricStrictlyBetter (ng_PlacementMetric grp) (ng_PlacementMetric cur) then None
                 else Some grp)))"

definition reEvalDue :: "Time \<Rightarrow> Duration \<Rightarrow> ResourceRequest \<Rightarrow> bool" where
  "reEvalDue now interval rr \<longleftrightarrow> interval > 0 \<and> (case mr_LastTransitionTime (mr_Status rr) of
     None \<Rightarrow> True | Some t \<Rightarrow> now - t \<ge> interval)"

text \<open>An agent's delete that counts as released: it succeeded, or the reservation is unknown.\<close>

definition releaseVia :: "'w agent \<Rightarrow> string \<Rightarrow> ('w, goerror + unit) state" where
  "releaseVia A n = do {
     r \<leftarrow> a_DeleteReservation A n;
     State_Monad.return (case r of Inl err \<Rightarrow> if isCategory err CategoryNotFound then Inr () else Inl err | Inr _ \<Rightarrow> Inr ()) }"

definition maybeStartMigration :: "quantity_api \<Rightarrow> Time \<Rightarrow> Duration \<Rightarrow> 'w rr_env \<Rightarrow> 'w agent \<Rightarrow> ResourceRequest \<Rightarrow>
    ('w, rr_error + ctrlResult option) state" where
  "maybeStartMigration Q now interval E A rr =
    (if \<not> reEvalDue now interval rr then State_Monad.return (Inr None)
     else do {
       resp \<leftarrow> nodeGroupsFor E A rr;
       (case resp of
          Inl _ \<Rightarrow> State_Monad.return (Inr None)
        | Inr resp \<Rightarrow> (case migrationTarget Q rr resp of
            None \<Rightarrow> State_Monad.return (Inr None)
          | Some grp \<Rightarrow> do {
              d \<leftarrow> releaseVia A (mr_ReservationID (mr_Status rr));
              (case d of
                 Inl err \<Rightarrow> State_Monad.return (Inl (RRAgent err))
               | Inr _ \<Rightarrow> do {
                   s \<leftarrow> setMigrating now E rr (nextReservationID rr) (Sprintf ''migrating from %s to %s''
                     [AStr (mr_ProviderClusterID (mr_Status rr)), AStr (ng_ProviderClusterID grp)]);
                   State_Monad.return (case s of Inl e \<Rightarrow> Inl (RRKube e)
                     | Inr _ \<Rightarrow> Inr (Some (RequeueAfter pendingRequeue))) }) })) })"

definition completeMigration :: "quantity_api \<Rightarrow> Time \<Rightarrow> 'w rr_env \<Rightarrow> 'w agent \<Rightarrow> ResourceRequest \<Rightarrow>
    ('w, rr_error + ctrlResult) state" where
  "completeMigration Q now E A rr = do {
     resp \<leftarrow> nodeGroupsFor E A rr;
     (case resp of
        Inl _ \<Rightarrow> State_Monad.return (Inr (RequeueAfter pendingRequeue))
      | Inr resp \<Rightarrow> (case pickProviderAndSize Q (nl_NodeGroups resp) (mr_Resources (mr_Spec rr)) of
          None \<Rightarrow> thenRequeue (writePhase now E rr RRMigrating
            (text_msg ''migrating - waiting for a provider with capacity'') '''' '''' 0) pendingRequeue
        | Some (grp, cnt) \<Rightarrow> (case multiChunkUnsupported cnt of
            Some msg \<Rightarrow> thenRequeue (writePhase now E rr RRMigrating (Sprintf ''migrating - %s'' [AMsg msg]) '''' '''' 0) pendingRequeue
          | None \<Rightarrow> do {
              p \<leftarrow> a_PostReservation A (mr_ReservationID (mr_Status rr)) (Some (requestFor grp cnt));
              (case p of
                 Inl err \<Rightarrow> setFailed now E rr (Sprintf ''migration reservation failed: %s'' [AMsg (errorText ''agentclient'' err)])
               | Inr _ \<Rightarrow> setReserved now E rr (mr_ReservationID (mr_Status rr)) (ng_ProviderClusterID grp) cnt) }))) }"

section \<open>Holding\<close>

definition disableScaleDown :: "'w rr_env \<Rightarrow> string \<Rightarrow> ('w, kerr + bool) state" where
  "disableScaleDown E name = do {
     n \<leftarrow> e_GetNode E name;
     (case n of
        Inl e \<Rightarrow> State_Monad.return (if e = KNotFound then Inr False else Inl e)
      | Inr node \<Rightarrow>
          if map_of (cn_Annotations node) scaleDownDisabledAnnotation = Some scaleDownDisabledValue then State_Monad.return (Inr True)
          else do {
            p \<leftarrow> e_PatchNode E (node\<lparr>cn_Annotations := AList.update scaleDownDisabledAnnotation scaleDownDisabledValue
                (cn_Annotations node)\<rparr>);
            State_Monad.return (case p of Inl e \<Rightarrow> Inl e | Inr _ \<Rightarrow> Inr True) }) }"

fun protectLoop :: "'w rr_env \<Rightarrow> VirtualNodeState list \<Rightarrow> nat \<Rightarrow> ('w, kerr + nat) state" where
  "protectLoop E [] protected = State_Monad.return (Inr protected)"
| "protectLoop E (v # vs) protected =
    (if vn_VirtualNodeName (vn_Status v) = '''' then protectLoop E vs protected
     else do {
       r \<leftarrow> disableScaleDown E (vn_VirtualNodeName (vn_Status v));
       (case r of
          Inl e \<Rightarrow> State_Monad.return (Inl e)
        | Inr ok \<Rightarrow> protectLoop E vs (if ok then Suc protected else protected)) })"

definition protectReservationNodes :: "'w rr_env \<Rightarrow> string \<Rightarrow> ('w, kerr + nat) state" where
  "protectReservationNodes E reservationID = do {
     l \<leftarrow> e_ListVNS E reservationID;
     (case l of Inl e \<Rightarrow> State_Monad.return (Inl e) | Inr items \<Rightarrow> protectLoop E items 0) }"

definition holdReservation :: "Time \<Rightarrow> 'w rr_env \<Rightarrow> ResourceRequest \<Rightarrow> ('w, rr_error + ctrlResult) state" where
  "holdReservation now E rr = do {
     p \<leftarrow> protectReservationNodes E (mr_ReservationID (mr_Status rr));
     (case p of
        Inl e \<Rightarrow> State_Monad.return (Inl (RRKube e))
      | Inr protected \<Rightarrow>
          if protected = 0 then thenRequeue (writePhase now E rr RRReserved
            (Sprintf ''reserved on %s; waiting for the virtual node'' [AStr (mr_ProviderClusterID (mr_Status rr))]) '''' '''' 0) pendingRequeue
          else thenRequeue (writePhase now E rr RRActive
            (Sprintf ''held on %s - %d node(s) protected from autoscaler scale-down''
              [AStr (mr_ProviderClusterID (mr_Status rr)), AInt (int protected)]) '''' '''' 0) holdRequeue) }"

section \<open>Reconcile\<close>

definition finalizeRequest :: "'w rr_env \<Rightarrow> 'w agent \<Rightarrow> ResourceRequest \<Rightarrow> ('w, rr_error + ctrlResult) state" where
  "finalizeRequest E A rr =
    (if \<not> e_ContainsFinalizer E (mr_Meta rr) resourceRequestFinalizer then State_Monad.return (Inr NoRequeue)
     else do {
       d \<leftarrow> (if mr_ReservationID (mr_Status rr) \<noteq> '''' then releaseVia A (mr_ReservationID (mr_Status rr))
             else State_Monad.return (Inr ()));
       (case d of
          Inl err \<Rightarrow> State_Monad.return (Inl (RRAgent err))
        | Inr _ \<Rightarrow> do {
            u \<leftarrow> e_UpdateRR E (rr\<lparr>mr_Meta := e_RemoveFinalizer E (mr_Meta rr) resourceRequestFinalizer\<rparr>);
            State_Monad.return (case u of Inl e \<Rightarrow> Inl (RRKube e) | Inr _ \<Rightarrow> Inr NoRequeue) }) })"

definition keepRequest :: "quantity_api \<Rightarrow> Time \<Rightarrow> Duration \<Rightarrow> 'w rr_env \<Rightarrow> 'w agent \<Rightarrow> ResourceRequest \<Rightarrow>
    ('w, rr_error + ctrlResult) state" where
  "keepRequest Q now interval E A rr =
    (if mr_Phase (mr_Status rr) = RRMigrating then completeMigration Q now E A rr
     else do {
       m \<leftarrow> maybeStartMigration Q now interval E A rr;
       (case m of
          Inl e \<Rightarrow> State_Monad.return (Inl e)
        | Inr (Some res) \<Rightarrow> State_Monad.return (Inr res)
        | Inr None \<Rightarrow> holdReservation now E rr) })"

definition reconcileResourceRequest :: "quantity_api \<Rightarrow> Time \<Rightarrow> Duration \<Rightarrow> 'w rr_env \<Rightarrow> string \<Rightarrow> ('w, rr_error + ctrlResult) state" where
  "reconcileResourceRequest Q now interval E name = do {
     g \<leftarrow> e_GetRR E name;
     (case g of
        Inl e \<Rightarrow> State_Monad.return (if e = KNotFound then Inr NoRequeue else Inl (RRKube e))
      | Inr rr \<Rightarrow> (case e_Agent E of
          None \<Rightarrow> State_Monad.return (Inl (RRPlain (text_msg ''resourcerequest: agent client not configured'')))
        | Some A \<Rightarrow>
            if m_DeletionTimestamp (mr_Meta rr) \<noteq> None then finalizeRequest E A rr
            else if \<not> e_ContainsFinalizer E (mr_Meta rr) resourceRequestFinalizer then do {
              u \<leftarrow> e_UpdateRR E (rr\<lparr>mr_Meta := e_AddFinalizer E (mr_Meta rr) resourceRequestFinalizer\<rparr>);
              State_Monad.return (case u of Inl e \<Rightarrow> Inl (RRKube e) | Inr _ \<Rightarrow> Inr Requeue) }
            else if mr_ReservationID (mr_Status rr) \<noteq> '''' then keepRequest Q now interval E A rr
            else reserveNew Q now E A rr)) }"

section \<open>The choice of a group\<close>

text \<open>The loop keeps the first of the fitting groups with the most free capacity.\<close>

lemma pickLoop_Some:
  "pickLoop Q req gs best = Some (g, c) \<Longrightarrow>
     (best = Some (g, c) \<or> g \<in> set gs \<and> fitsGroup Q req g = Some c) \<and>
     (\<forall>h\<in>set gs. fitsGroup Q req h \<noteq> None \<longrightarrow> availableIn h \<le> availableIn g) \<and>
     (\<forall>b k. best = Some (b, k) \<longrightarrow> availableIn b \<le> availableIn g)"
proof (induction gs arbitrary: best)
  case (Cons h gs)
  show ?case
  proof (cases "fitsGroup Q req h")
    case None
    with Cons show ?thesis by auto
  next
    case (Some k)
    show ?thesis
    proof (cases "best = None \<or> (\<exists>b n. best = Some (b, n) \<and> availableIn h > availableIn b)")
      case True
      then have "pickLoop Q req gs (Some (h, k)) = Some (g, c)" using Cons.prems Some by auto
      from Cons.IH [OF this] True Some show ?thesis by fastforce
    next
      case False
      then obtain b n where b: "best = Some (b, n)" "\<not> availableIn h > availableIn b" by auto
      with Cons.prems Some have "pickLoop Q req gs best = Some (g, c)" by simp
      from Cons.IH [OF this] b Some show ?thesis by fastforce
    qed
  qed
qed simp

lemma pickLoop_None: "pickLoop Q req gs best = None \<longleftrightarrow> best = None \<and> (\<forall>h\<in>set gs. fitsGroup Q req h = None)"
  by (induction gs arbitrary: best) (auto split: option.splits)

lemma fitsGroup_Some:
  "fitsGroup Q req g = Some c \<longleftrightarrow> (gpuRequested Q req \<longleftrightarrow> ng_Type g = ChunkTypeGPU) \<and> c = chunksFor Q req (ng_ChunkResources g) \<and>
     0 < c \<and> c \<le> availableIn g"
  by (auto simp: fitsGroup_def Let_def)

lemma fits_positive: "pickProviderAndSize Q gs req = Some (grp, cnt) \<Longrightarrow> multiChunkUnsupported cnt = None \<Longrightarrow> cnt = 1"
  by (auto simp: pickProviderAndSize_def multiChunkUnsupported_def fitsGroup_Some dest!: pickLoop_Some split: if_splits)

section \<open>What the reconciler relies on\<close>

text \<open>
  \<open>reqs w\<close> are the stored requests. A read returns what is stored; a write that fails changes
  nothing; an update stores the metadata, or removes the object when it is being deleted and has no
  finalizer left; a status update stores the status. The calls of the agent do not touch the
  requests, and the API server of the consumer does not touch the Broker's store. A reservation
  the agent reports as unknown does not exist.
\<close>

definition rr_stored :: "ResourceRequest \<Rightarrow> ResourceRequest option" where
  "rr_stored x = (if m_DeletionTimestamp (mr_Meta x) \<noteq> None \<and> m_Finalizers (mr_Meta x) = [] then None else Some x)"

locale request_world = agent_api A store consumer valid nodes
  for A :: "'w agent" and store :: "'w \<Rightarrow> store" and consumer :: string and valid :: "string \<Rightarrow> bool"
    and nodes :: "VirtualNodeView list" +
  fixes E :: "'w rr_env" and reqs :: "'w \<Rightarrow> string \<Rightarrow> ResourceRequest option"
  assumes env_agent: "e_Agent E = Some A"
    and named: "reqs w n = Some x \<Longrightarrow> m_Name (mr_Meta x) = n"
    and get_law: "wp (e_GetRR E n) (\<lambda>r w'. store w' = store w \<and> reqs w' = reqs w \<and> (\<forall>x. r = Inr x \<longrightarrow> reqs w n = Some x)) w"
    and update_law: "wp (e_UpdateRR E x) (\<lambda>r w'. store w' = store w \<and> (\<forall>e. r = Inl e \<longrightarrow> reqs w' = reqs w) \<and>
      (r = Inr () \<longrightarrow> (\<exists>cur v. reqs w (m_Name (mr_Meta x)) = Some cur \<and> reqs w' = (reqs w)(m_Name (mr_Meta x) :=
         rr_stored (cur\<lparr>mr_Meta := (mr_Meta x)\<lparr>m_ResourceVersion := v\<rparr>, mr_Spec := mr_Spec x\<rparr>))))) w"
    and status_law: "wp (e_StatusRR E x) (\<lambda>r w'. store w' = store w \<and> (\<forall>e. r = Inl e \<longrightarrow> reqs w' = reqs w) \<and>
      (r = Inr () \<longrightarrow> (\<exists>cur v. reqs w (m_Name (mr_Meta x)) = Some cur \<and> reqs w' = (reqs w)(m_Name (mr_Meta x) \<mapsto>
         cur\<lparr>mr_Meta := (mr_Meta cur)\<lparr>m_ResourceVersion := v\<rparr>, mr_Status := mr_Status x\<rparr>)))) w"
    and vns_law: "wp (e_ListVNS E n) (\<lambda>_ w'. store w' = store w \<and> reqs w' = reqs w) w"
    and node_law: "wp (e_GetNode E n) (\<lambda>_ w'. store w' = store w \<and> reqs w' = reqs w) w"
    and patch_law: "wp (e_PatchNode E x') (\<lambda>_ w'. store w' = store w \<and> reqs w' = reqs w) w"
    and within_law: "e_Within E = Some f \<Longrightarrow> wp (f b) (\<lambda>_ w'. store w' = store w \<and> reqs w' = reqs w) w"
    and groups_reqs: "wp (a_GetNodeGroups A) (\<lambda>_ w'. reqs w' = reqs w) w"
    and post_reqs: "wp (a_PostReservation A n q) (\<lambda>_ w'. reqs w' = reqs w) w"
    and delete_reqs: "wp (a_DeleteReservation A n) (\<lambda>_ w'. reqs w' = reqs w) w"
    and delete_unknown: "n \<noteq> '''' \<Longrightarrow> wp (a_DeleteReservation A n) (\<lambda>r w'. \<forall>e. r = Inl e \<longrightarrow> isCategory e CategoryNotFound \<longrightarrow>
      resv_at (store w') n = None) w"
    and contains_law: "e_ContainsFinalizer E m fin \<longleftrightarrow> fin \<in> set (m_Finalizers m)"
    and add_law: "fin \<notin> set (m_Finalizers m) \<Longrightarrow> e_AddFinalizer E m fin = m\<lparr>m_Finalizers := m_Finalizers m @ [fin]\<rparr>"
    and remove_law: "e_RemoveFinalizer E m fin = m\<lparr>m_Finalizers := removeAll fin (m_Finalizers m)\<rparr>"

section \<open>One run\<close>

definition guarded :: "ResourceRequest \<Rightarrow> bool" where
  "guarded rr \<longleftrightarrow> resourceRequestFinalizer \<in> set (m_Finalizers (mr_Meta rr))"

text \<open>What a run on the request \<open>rr\<close> may do to the Broker's store and to the request.\<close>

definition rr_booking :: "string \<Rightarrow> ResourceRequest \<Rightarrow> store \<Rightarrow> store \<Rightarrow> bool" where
  "rr_booking consumer rr s s' \<longleftrightarrow> s' = s \<or> guarded rr \<and>
     (mr_ReservationID (mr_Status rr) \<noteq> '''' \<and> release_post consumer (mr_ReservationID (mr_Status rr)) s s' \<or>
      m_DeletionTimestamp (mr_Meta rr) = None \<and> (mr_ReservationID (mr_Status rr) = '''' \<or> mr_Phase (mr_Status rr) = RRMigrating) \<and>
      (\<exists>grp. booked consumer (requestFor grp 1) (if mr_ReservationID (mr_Status rr) = '''' then ''mr-'' @ mr_UID rr
         else mr_ReservationID (mr_Status rr)) s s'))"

definition rr_forgets :: "ResourceRequest \<Rightarrow> ResourceRequest option \<Rightarrow> bool" where
  "rr_forgets rr x' \<longleftrightarrow> guarded rr \<and> (case x' of None \<Rightarrow> True | Some y \<Rightarrow> \<not> guarded y)"

definition rr_moves :: "ResourceRequest \<Rightarrow> ResourceRequest option \<Rightarrow> store \<Rightarrow> bool" where
  "rr_moves rr x' s' \<longleftrightarrow> (\<forall>y. x' = Some y \<longrightarrow> mr_ReservationID (mr_Status y) \<noteq> mr_ReservationID (mr_Status rr) \<longrightarrow>
     (if mr_ReservationID (mr_Status rr) = '''' then mr_ReservationID (mr_Status y) = ''mr-'' @ mr_UID rr \<and>
        resv_at s' (mr_ReservationID (mr_Status y)) \<noteq> None
      else mr_Phase (mr_Status y) = RRMigrating \<and> mr_ReservationID (mr_Status y) = nextReservationID rr \<and>
        notLive s' (mr_ReservationID (mr_Status rr))))"

definition rr_run :: "string \<Rightarrow> ResourceRequest \<Rightarrow> store \<Rightarrow> store \<Rightarrow> ResourceRequest option \<Rightarrow> bool" where
  "rr_run consumer rr s s' x' \<longleftrightarrow> rr_booking consumer rr s s' \<and>
     (rr_forgets rr x' \<longrightarrow> m_DeletionTimestamp (mr_Meta rr) \<noteq> None \<and>
        (mr_ReservationID (mr_Status rr) = '''' \<or> notLive s' (mr_ReservationID (mr_Status rr)))) \<and>
     rr_moves rr x' s'"

lemma rr_run_same: "rr_booking consumer rr s s' \<Longrightarrow> rr_run consumer rr s s' (Some rr)"
  by (auto simp: rr_run_def rr_forgets_def rr_moves_def)

lemma rr_run_status:
  assumes "rr_booking consumer rr s s'" and "rr_moves rr (Some (rr\<lparr>mr_Meta := m, mr_Status := st\<rparr>)) s'" and "m_Finalizers m = m_Finalizers (mr_Meta rr)"
  shows "rr_run consumer rr s s' (Some (rr\<lparr>mr_Meta := m, mr_Status := st\<rparr>))"
  using assms by (auto simp: rr_run_def rr_forgets_def guarded_def)

lemma rr_run_released:
  assumes "rr_booking consumer rr s s'" and "m_DeletionTimestamp (mr_Meta rr) \<noteq> None"
    and "mr_ReservationID (mr_Status rr) = '''' \<or> notLive s' (mr_ReservationID (mr_Status rr))"
  shows "rr_run consumer rr s s' (rr_stored (rr\<lparr>mr_Meta := m\<rparr>))"
  using assms by (auto simp: rr_run_def rr_moves_def rr_stored_def)

lemma rr_run_unguarded: "\<not> guarded rr \<Longrightarrow> rr_run consumer rr s s (rr_stored (rr\<lparr>mr_Meta := m\<rparr>))"
  by (auto simp: rr_run_def rr_booking_def rr_forgets_def rr_moves_def rr_stored_def)

context request_world
begin

lemma wp_status_run:
  assumes "reqs w n = Some rr" and "rr_booking consumer rr s (store w)"
    and "\<And>m. rr_moves rr (Some (rr\<lparr>mr_Meta := m, mr_Status := mr_Status x\<rparr>)) (store w)" and "mr_Meta x = mr_Meta rr"
  shows "wp (e_StatusRR E x) (\<lambda>_ w'. rr_run consumer rr s (store w') (reqs w' n)) w"
proof (rule wp_mono [OF status_law], goal_cases)
  case (1 r w')
  have n: "m_Name (mr_Meta rr) = n" using named [OF assms(1)] .
  show ?case
  proof (cases r)
    case (Inl e)
    with 1 assms(1,2) show ?thesis by (simp add: rr_run_same)
  next
    case (Inr u)
    with 1 assms(1,4) n obtain v where "store w' = store w"
      "reqs w' n = Some (rr\<lparr>mr_Meta := (mr_Meta rr)\<lparr>m_ResourceVersion := v\<rparr>, mr_Status := mr_Status x\<rparr>)" by auto
    with rr_run_status [OF assms(2,3)] show ?thesis by simp
  qed
qed

text \<open>A status write of the phase moves nothing, except from no reservation to an existing one.\<close>

lemma wp_writePhase_run:
  assumes "reqs w n = Some rr" and "rr_booking consumer rr s (store w)"
    and "resID = '''' \<or> resID = mr_ReservationID (mr_Status rr) \<or>
      mr_ReservationID (mr_Status rr) = '''' \<and> resID = ''mr-'' @ mr_UID rr \<and> resv_at (store w) resID \<noteq> None"
  shows "wp (writePhase now E rr phase msg resID provider cnt) (\<lambda>_ w'. rr_run consumer rr s (store w') (reqs w' n)) w"
proof -
  have "rr_run consumer rr s (store w) (reqs w n)" using assms(1,2) by (simp add: rr_run_same)
  then show ?thesis
    unfolding writePhase_def Let_def
    using assms by (auto simp: rr_moves_def intro!: wp_status_run)
qed

lemma wp_thenRequeue_run:
  assumes "wp m (\<lambda>_ w'. rr_run consumer rr s (store w') (reqs w' n)) w"
  shows "wp (thenRequeue m d) (\<lambda>_ w'. rr_run consumer rr s (store w') (reqs w' n)) w"
  unfolding thenRequeue_def wp_bind using assms by (rule wp_mono) simp

lemma wp_nodeGroupsFor: "wp (nodeGroupsFor E A rr) (\<lambda>_ w'. store w' = store w \<and> reqs w' = reqs w) w"
  using within_law wp_conj [OF groups_law groups_reqs]
  by (auto simp: nodeGroupsFor_def split: option.splits)

lemma wp_protectLoop: "wp (protectLoop E vs k) (\<lambda>_ w'. store w' = store w \<and> reqs w' = reqs w) w"
proof (induction vs arbitrary: k w)
  case (Cons v vs)
  have dis: "wp (disableScaleDown E nm) (\<lambda>_ w'. store w' = store w \<and> reqs w' = reqs w) w" for nm w
    unfolding disableScaleDown_def wp_bind
    by (rule wp_mono [OF node_law]) (auto intro!: wp_mono [OF patch_law] split: sum.splits)
  show ?case
  proof (cases "vn_VirtualNodeName (vn_Status v) = ''''")
    case False
    have "wp (disableScaleDown E (vn_VirtualNodeName (vn_Status v))) (\<lambda>r. wp (case r of Inl e \<Rightarrow> State_Monad.return (Inl e)
        | Inr ok \<Rightarrow> protectLoop E vs (if ok then Suc k else k)) (\<lambda>_ w'. store w' = store w \<and> reqs w' = reqs w)) w"
      by (rule wp_mono [OF dis]) (auto intro!: wp_mono [OF Cons.IH] split: sum.splits)
    with False show ?thesis by simp
  qed (simp add: Cons.IH)
qed simp

lemma wp_hold_run:
  assumes "reqs w n = Some rr" and "rr_booking consumer rr s (store w)"
  shows "wp (holdReservation now E rr) (\<lambda>_ w'. rr_run consumer rr s (store w') (reqs w' n)) w"
proof -
  have protect: "wp (protectReservationNodes E i) (\<lambda>_ w'. store w' = store w \<and> reqs w' = reqs w) w" for i
    unfolding protectReservationNodes_def wp_bind
    by (rule wp_mono [OF vns_law]) (auto intro!: wp_mono [OF wp_protectLoop] split: sum.splits)
  show ?thesis
    unfolding holdReservation_def wp_bind
    by (rule wp_mono [OF protect])
      (use assms in \<open>auto intro!: wp_thenRequeue_run wp_writePhase_run rr_run_same split: sum.splits\<close>)
qed

lemma wp_releaseVia:
  assumes "n \<noteq> ''''"
  shows "wp (releaseVia A n) (\<lambda>r w'. release_post consumer n (store w) (store w') \<and> reqs w' = reqs w \<and>
    (r = Inr () \<longrightarrow> notLive (store w') n)) w"
  unfolding releaseVia_def wp_bind
  by (rule wp_mono [OF wp_conj [OF delete_law [OF assms] wp_conj [OF delete_reqs delete_unknown [OF assms]]]])
    (auto simp: notLive_def split: sum.splits)

lemma wp_post_run:
  assumes "reqs w n = Some rr" and "guarded rr" and "m_DeletionTimestamp (mr_Meta rr) = None"
    and "mr_ReservationID (mr_Status rr) = '''' \<or> mr_Phase (mr_Status rr) = RRMigrating"
    and "i = (if mr_ReservationID (mr_Status rr) = '''' then ''mr-'' @ mr_UID rr else mr_ReservationID (mr_Status rr))"
    and "valid i" and "\<And>q a. adv_at (store w) q = Some a \<Longrightarrow> ledger_wf a"
  shows "wp (do { p \<leftarrow> a_PostReservation A i (Some (requestFor grp 1));
     (case p of Inl err \<Rightarrow> setFailed now E rr (msg err) | Inr _ \<Rightarrow> setReserved now E rr i prov 1) })
     (\<lambda>_ w'. rr_run consumer rr (store w) (store w') (reqs w' n)) w"
proof -
  have "i \<noteq> ''''" using assms(5) by auto
  then have "wp (a_PostReservation A i (Some (requestFor grp 1))) (\<lambda>r w'. (booked consumer (requestFor grp 1) i (store w) (store w') \<and>
      (\<forall>b. r = Inr b \<longrightarrow> resv_at (store w') i \<noteq> None)) \<and> reqs w' = reqs w) w"
    by (rule wp_conj [OF post_law post_reqs]) (use assms(6,7) in auto)
  then show ?thesis
    unfolding wp_bind
  proof (rule wp_mono, goal_cases)
    case (1 p w1)
    then have "\<exists>grp. booked consumer (requestFor grp 1) i (store w) (store w1)" by (intro exI [of _ grp]) simp
    then have book: "rr_booking consumer rr (store w) (store w1)"
      unfolding assms(5) rr_booking_def using assms(2-4) by simp
    have "reqs w1 n = Some rr" using 1 assms(1) by simp
    with book 1 assms(5) show ?case
      by (auto simp: setFailed_def setReserved_def intro!: wp_thenRequeue_run wp_writePhase_run split: sum.splits if_splits)
  qed
qed

lemma wp_reserveNew_run:
  assumes "reqs w n = Some rr" and "guarded rr" and "m_DeletionTimestamp (mr_Meta rr) = None" and "mr_ReservationID (mr_Status rr) = ''''"
    and "valid (''mr-'' @ mr_UID rr)" and "\<And>q a. adv_at (store w) q = Some a \<Longrightarrow> ledger_wf a"
  shows "wp (reserveNew Q now E A rr) (\<lambda>_ w'. rr_run consumer rr (store w) (store w') (reqs w' n)) w"
  unfolding reserveNew_def wp_bind [of "nodeGroupsFor E A rr"]
proof (rule wp_mono [OF wp_nodeGroupsFor], goal_cases)
  case (1 r w1)
  then have w1: "reqs w1 n = Some rr" "store w1 = store w" using assms(1) by simp_all
  have pend: "wp (setPending now E rr msg) (\<lambda>_ w'. rr_run consumer rr (store w) (store w') (reqs w' n)) w1" for msg
    unfolding setPending_def by (intro wp_thenRequeue_run wp_writePhase_run) (use w1 in \<open>auto simp: rr_booking_def\<close>)
  have post: "wp (do { p \<leftarrow> a_PostReservation A (''mr-'' @ mr_UID rr) (Some (requestFor grp cnt));
     (case p of Inl err \<Rightarrow> setFailed now E rr (msg err) | Inr _ \<Rightarrow> setReserved now E rr (''mr-'' @ mr_UID rr) prov cnt) })
     (\<lambda>_ w'. rr_run consumer rr (store w) (store w') (reqs w' n)) w1"
    if "pickProviderAndSize Q gs req = Some (grp, cnt)" "multiChunkUnsupported cnt = None" for gs req grp cnt msg prov
    unfolding fits_positive [OF that]
    by (rule wp_post_run [OF w1(1) assms(2,3) disjI1 [OF assms(4)], unfolded w1(2)]) (use assms(4-6) in simp_all)
  show ?case
  proof (cases r)
    case (Inr resp)
    show ?thesis
    proof (cases "pickProviderAndSize Q (nl_NodeGroups resp) (mr_Resources (mr_Spec rr))")
      case (Some gc)
      obtain grp cnt where gc: "gc = (grp, cnt)" by (cases gc)
      show ?thesis
      proof (cases "multiChunkUnsupported cnt")
        case None
        show ?thesis
          unfolding Inr Some gc None sum.case option.case prod.case by (rule post [OF Some [unfolded gc] None])
      qed (use Inr Some gc pend in simp)
    qed (use Inr pend in simp)
  qed (use pend in simp)
qed

lemma wp_completeMigration_run:
  assumes "reqs w n = Some rr" and "guarded rr" and "m_DeletionTimestamp (mr_Meta rr) = None" and "mr_ReservationID (mr_Status rr) \<noteq> ''''"
    and "mr_Phase (mr_Status rr) = RRMigrating"
    and "valid (mr_ReservationID (mr_Status rr))" and "\<And>q a. adv_at (store w) q = Some a \<Longrightarrow> ledger_wf a"
  shows "wp (completeMigration Q now E A rr) (\<lambda>_ w'. rr_run consumer rr (store w) (store w') (reqs w' n)) w"
  unfolding completeMigration_def wp_bind [of "nodeGroupsFor E A rr"]
proof (rule wp_mono [OF wp_nodeGroupsFor], goal_cases)
  case (1 r w1)
  then have w1: "reqs w1 n = Some rr" "store w1 = store w" using assms(1) by simp_all
  have book: "rr_booking consumer rr (store w) (store w1)" using w1 by (simp add: rr_booking_def)
  have pend: "wp (thenRequeue (writePhase now E rr ph msg '''' '''' 0) d) (\<lambda>_ w'. rr_run consumer rr (store w) (store w') (reqs w' n)) w1"
    for ph msg d
    by (intro wp_thenRequeue_run wp_writePhase_run) (use w1 book in auto)
  have same: "rr_run consumer rr (store w) (store w1) (reqs w1 n)" using w1 book by (simp add: rr_run_same)
  have post: "wp (do { p \<leftarrow> a_PostReservation A (mr_ReservationID (mr_Status rr)) (Some (requestFor grp cnt));
     (case p of Inl err \<Rightarrow> setFailed now E rr (msg err) | Inr _ \<Rightarrow> setReserved now E rr (mr_ReservationID (mr_Status rr)) prov cnt) })
     (\<lambda>_ w'. rr_run consumer rr (store w) (store w') (reqs w' n)) w1"
    if "pickProviderAndSize Q gs req = Some (grp, cnt)" "multiChunkUnsupported cnt = None" for gs req grp cnt msg prov
    unfolding fits_positive [OF that]
    by (rule wp_post_run [OF w1(1) assms(2,3) disjI2 [OF assms(5)], unfolded w1(2)]) (use assms(4-7) in simp_all)
  show ?case
  proof (cases r)
    case (Inr resp)
    show ?thesis
    proof (cases "pickProviderAndSize Q (nl_NodeGroups resp) (mr_Resources (mr_Spec rr))")
      case (Some gc)
      obtain grp cnt where gc: "gc = (grp, cnt)" by (cases gc)
      show ?thesis
      proof (cases "multiChunkUnsupported cnt")
        case None
        show ?thesis
          unfolding Inr Some gc None sum.case option.case prod.case by (rule post [OF Some [unfolded gc] None])
      qed (use Inr Some gc pend in simp)
    qed (use Inr pend in simp)
  qed (use same in simp)
qed

lemma wp_maybeStartMigration_run:
  assumes "reqs w n = Some rr" and "guarded rr" and "mr_ReservationID (mr_Status rr) \<noteq> ''''"
  shows "wp (maybeStartMigration Q now interval E A rr) (\<lambda>r w'. (r = Inr None \<longrightarrow> store w' = store w \<and> reqs w' = reqs w) \<and>
    rr_run consumer rr (store w) (store w') (reqs w' n)) w"
proof -
  let ?i = "mr_ReservationID (mr_Status rr)"
  have same: "rr_run consumer rr (store w) (store w') (reqs w' n)" if "store w' = store w" "reqs w' = reqs w" for w'
    using that assms(1) by (simp add: rr_run_same rr_booking_def)
  have move: "wp (do { d \<leftarrow> releaseVia A ?i;
      (case d of Inl err \<Rightarrow> State_Monad.return (Inl (RRAgent err))
       | Inr _ \<Rightarrow> do { s \<leftarrow> setMigrating now E rr (nextReservationID rr) msg;
           State_Monad.return (case s of Inl e \<Rightarrow> Inl (RRKube e) | Inr _ \<Rightarrow> Inr (Some (RequeueAfter pendingRequeue))) }) })
      (\<lambda>r w'. (r = Inr None \<longrightarrow> store w' = store w \<and> reqs w' = reqs w) \<and> rr_run consumer rr (store w) (store w') (reqs w' n)) w1"
    if "store w1 = store w" "reqs w1 = reqs w" for w1 msg
    unfolding wp_bind
  proof (rule wp_mono [OF wp_releaseVia [OF assms(3)]], goal_cases)
    case (1 d w2)
    then have w2: "reqs w2 n = Some rr" "rr_booking consumer rr (store w) (store w2)"
      using that assms by (auto simp: rr_booking_def)
    show ?case
    proof (cases d)
      case (Inl e)
      with w2 show ?thesis by (simp add: rr_run_same)
    next
      case (Inr u)
      have "wp (setMigrating now E rr (nextReservationID rr) msg) (\<lambda>_ w'. rr_run consumer rr (store w) (store w') (reqs w' n)) w2"
        unfolding setMigrating_def
        by (rule wp_status_run [OF w2]) (use 1 Inr assms(3) in \<open>auto simp: rr_moves_def\<close>)
      with Inr show ?thesis by (auto elim!: wp_mono split: sum.splits)
    qed
  qed
  show ?thesis
  proof (cases "reEvalDue now interval rr")
    case True
    have "wp (nodeGroupsFor E A rr) (\<lambda>resp. wp (case resp of
          Inl _ \<Rightarrow> State_Monad.return (Inr None)
        | Inr resp \<Rightarrow> (case migrationTarget Q rr resp of
            None \<Rightarrow> State_Monad.return (Inr None)
          | Some grp \<Rightarrow> do { d \<leftarrow> releaseVia A ?i;
              (case d of Inl err \<Rightarrow> State_Monad.return (Inl (RRAgent err))
               | Inr _ \<Rightarrow> do { s \<leftarrow> setMigrating now E rr (nextReservationID rr) (Sprintf ''migrating from %s to %s''
                     [AStr (mr_ProviderClusterID (mr_Status rr)), AStr (ng_ProviderClusterID grp)]);
                   State_Monad.return (case s of Inl e \<Rightarrow> Inl (RRKube e) | Inr _ \<Rightarrow> Inr (Some (RequeueAfter pendingRequeue))) }) }))
        (\<lambda>r w'. (r = Inr None \<longrightarrow> store w' = store w \<and> reqs w' = reqs w) \<and> rr_run consumer rr (store w) (store w') (reqs w' n))) w"
    proof (rule wp_mono [OF wp_nodeGroupsFor], goal_cases)
      case (1 r w1)
      with move [of w1] same [of w1] show ?case
        by (simp only: wp_return split: sum.split option.split) blast
    qed
    with True show ?thesis by (simp add: maybeStartMigration_def)
  qed (simp add: maybeStartMigration_def same)
qed

lemma wp_finalize_run:
  assumes "reqs w n = Some rr" and "m_DeletionTimestamp (mr_Meta rr) \<noteq> None"
  shows "wp (finalizeRequest E A rr) (\<lambda>_ w'. rr_run consumer rr (store w) (store w') (reqs w' n)) w"
proof (cases "guarded rr")
  case False
  with assms(1) show ?thesis
    by (simp add: finalizeRequest_def contains_law guarded_def rr_run_same rr_booking_def)
next
  case True
  let ?i = "mr_ReservationID (mr_Status rr)"
  let ?gone = "\<lambda>w'. ?i = '''' \<or> notLive (store w') ?i"
  have n: "m_Name (mr_Meta rr) = n" using named [OF assms(1)] .
  have released: "wp (if ?i \<noteq> '''' then releaseVia A ?i else State_Monad.return (Inr ()))
      (\<lambda>r w'. rr_booking consumer rr (store w) (store w') \<and> reqs w' = reqs w \<and> (r = Inr () \<longrightarrow> ?gone w')) w"
    using True by (auto simp: rr_booking_def intro!: wp_mono [OF wp_releaseVia])
  have drop: "wp (do { u \<leftarrow> e_UpdateRR E (rr\<lparr>mr_Meta := e_RemoveFinalizer E (mr_Meta rr) resourceRequestFinalizer\<rparr>);
      State_Monad.return (case u of Inl e \<Rightarrow> Inl (RRKube e) | Inr _ \<Rightarrow> Inr NoRequeue) })
      (\<lambda>_ w'. rr_run consumer rr (store w) (store w') (reqs w' n)) w1"
    if "rr_booking consumer rr (store w) (store w1)" "reqs w1 = reqs w" "?gone w1" for w1
    unfolding wp_bind
  proof (rule wp_mono [OF update_law], goal_cases)
    case (1 u w2)
    then have "rr_run consumer rr (store w) (store w2) (reqs w2 n)"
      using that assms n
      by (cases u) (auto simp: rr_run_same rr_run_released remove_law)
    then show ?case by simp
  qed
  show ?thesis
    unfolding finalizeRequest_def
    using True released drop assms(1)
    by (auto simp: contains_law guarded_def [symmetric] rr_run_same elim!: wp_mono split: sum.splits)
qed

lemma wp_reconcile_run:
  assumes "reqs w n = Some rr" and "\<And>q a. adv_at (store w) q = Some a \<Longrightarrow> ledger_wf a" and "valid (''mr-'' @ mr_UID rr)"
    and "valid (mr_ReservationID (mr_Status rr))"
  shows "wp (reconcileResourceRequest Q now interval E n) (\<lambda>_ w'. rr_run consumer rr (store w) (store w') (reqs w' n)) w"
  unfolding reconcileResourceRequest_def wp_bind [of "e_GetRR E n"]
proof (rule wp_mono [OF get_law], goal_cases)
  case (1 g w1)
  then have w1: "reqs w1 n = Some rr" "store w1 = store w" using assms(1) by simp_all
  have same: "rr_run consumer rr (store w) (store w1) (reqs w1 n)" using w1 by (simp add: rr_run_same rr_booking_def)
  have n: "m_Name (mr_Meta rr) = n" using named [OF assms(1)] .
  note lift = w1(2) [symmetric]
  show ?case
  proof (cases g)
    case (Inr x)
    then have x: "x = rr" using 1 assms(1) by simp
    have guard: "wp (do { u \<leftarrow> e_UpdateRR E (rr\<lparr>mr_Meta := e_AddFinalizer E (mr_Meta rr) resourceRequestFinalizer\<rparr>);
        State_Monad.return (case u of Inl e \<Rightarrow> Inl (RRKube e) | Inr _ \<Rightarrow> Inr Requeue) })
        (\<lambda>_ w'. rr_run consumer rr (store w) (store w') (reqs w' n)) w1" if "\<not> guarded rr"
      unfolding wp_bind
    proof (rule wp_mono [OF update_law], goal_cases)
      case (1 u w2)
      then have "rr_run consumer rr (store w) (store w2) (reqs w2 n)"
        using that w1 n
        by (cases u) (auto simp: rr_run_same rr_booking_def rr_run_unguarded)
      then show ?case by simp
    qed
    have keep: "wp (keepRequest Q now interval E A rr) (\<lambda>_ w'. rr_run consumer rr (store w) (store w') (reqs w' n)) w1"
      if rr: "guarded rr" "m_DeletionTimestamp (mr_Meta rr) = None" "mr_ReservationID (mr_Status rr) \<noteq> ''''"
    proof (cases "mr_Phase (mr_Status rr) = RRMigrating")
      case True
      with wp_completeMigration_run [OF w1(1) rr True assms(4)] assms(2) w1(2) show ?thesis by (simp add: keepRequest_def)
    next
      case False
      have "wp (maybeStartMigration Q now interval E A rr) (\<lambda>m. wp (case m of
          Inl e \<Rightarrow> State_Monad.return (Inl e) | Inr (Some res) \<Rightarrow> State_Monad.return (Inr res)
        | Inr None \<Rightarrow> holdReservation now E rr) (\<lambda>_ w'. rr_run consumer rr (store w) (store w') (reqs w' n))) w1"
        by (rule wp_mono [OF wp_maybeStartMigration_run [OF w1(1) rr(1,3)]])
          (use w1 in \<open>auto intro!: wp_hold_run simp: rr_booking_def split: sum.splits option.splits\<close>)
      with False show ?thesis by (simp add: keepRequest_def)
    qed
    show ?thesis
      using x Inr guard keep wp_finalize_run [OF w1(1)] wp_reserveNew_run [OF w1(1) _ _ _ assms(3)] assms(2) w1(2)
      by (simp add: env_agent contains_law guarded_def [symmetric])
  qed (use same in simp)
qed

end

section \<open>The stack as the reconciler's agent\<close>

text \<open>The agent reports a reservation as unknown only if the Broker has none of that name.\<close>

context kube_api
begin

lemma wp_release_unknown:
  "wp (handleReservationRelease K consumer n '''') (\<lambda>resp w'. \<forall>e. received (wire resp) = Inl e \<longrightarrow> er_Status e = 404 \<longrightarrow>
    resv_at (objs w') n = None) w"
proof -
  have "wp (releaseReservation K r) (\<lambda>resp w'. \<forall>e. received (wire resp) = Inl e \<longrightarrow> er_Status e = 404 \<longrightarrow>
      resv_at (objs w') n = None) w1" for r w1
    by (auto simp: releaseReservation_def wp_def received_def wire_def decodeErrorBody_def Let_def split: sum.splits prod.splits)
  then show ?thesis
    unfolding handleReservationRelease_def wp_bind
    by (intro resv.wp_get) (auto simp: received_def wire_def decodeErrorBody_def Let_def split: sum.splits)
qed

end

lemma wp_acDo_unknown:
  assumes "\<And>s. wp (h s) (\<lambda>x n'. (\<forall>c m. fst x = writeError 404 c m \<longrightarrow> R n') \<and> (\<forall>st b. fst x = writeJSON st b \<longrightarrow> st < 400)) (sk_net k)"
  shows "wp (acDo (loopback h)) (\<lambda>r k'. \<forall>e. r = Inl e \<longrightarrow> isCategory e CategoryNotFound \<longrightarrow> R (sk_net k')) k"
  using assms [of "sk_local k"]
  by (auto simp: wp_def acDo_def loopback_def Let_def wire_def isCategory_def acDecodeErrorBody_def acClassify_def
      split: prod.splits response.splits if_splits)

lemma wp_stack_delete_unknown:
  assumes "kube_api K objs" "n \<noteq> ''''"
  shows "wp (a_DeleteReservation (stackAgent Q intn clock K dns uuid srv consumer heartbeat c S) n)
    (\<lambda>r k'. \<forall>e. r = Inl e \<longrightarrow> isCategory e CategoryNotFound \<longrightarrow> resv_at (objs (n_World (sk_net k'))) n = None) k"
proof -
  let ?R = "\<lambda>x w. \<forall>e. x = Inl e \<longrightarrow> er_Status e = 404 \<longrightarrow> resv_at (objs w) n = None"
  have call: "wp (call c netCtx (exchangeWith (handleReservationRelease K consumer n '''')))
      (\<lambda>r n'. True \<and> (\<exists>x. r = typedResult x \<and> ?R x (n_World n'))) (sk_net k)"
    by (rule wp_call_gen [where R = ?R and I = "\<lambda>_. True"]) (auto intro!: wp_mono [OF kube_api.wp_release_unknown [OF assms(1)]])
  have "wp (do { r \<leftarrow> handleLocalReservationDelete D n; State_Monad.return (r, s) })
      (\<lambda>x n'. (\<forall>c m. fst x = writeError 404 c m \<longrightarrow> resv_at (objs (n_World n')) n = None) \<and>
        (\<forall>st b. fst x = writeJSON st b \<longrightarrow> st < 400)) (sk_net k)"
    if "ld_DeleteReservation D = DeleteReservation c netCtx B"
      "b_DeleteReservation B = (\<lambda>h. exchangeWith (handleReservationRelease K consumer h ''''))" for D and s :: LocalServer and B :: "'a net broker_routes"
    using assms(2) that unfolding handleLocalReservationDelete_def DeleteReservation_def
    by (auto intro!: wp_mono [OF call] simp: writeLocalError_def typedResult_def split: sum.splits option.splits if_splits)
  from wp_acDo_unknown [where R = "\<lambda>n'. resv_at (objs (n_World n')) n = None", OF this [OF deps_delete routes_delete]] show ?thesis
    using assms(2) by (simp add: stackAgent_def agentOf_def stackRoutes_def acDeleteReservation_def)
qed

text \<open>The agent beside the API server of the consumer's cluster, which keeps the requests.\<close>

type_synonym 'w cluster = "'w \<times> (string \<Rightarrow> ResourceRequest option)"

definition onFst :: "('w, 'a) state \<Rightarrow> ('w \<times> 'v, 'a) state" where
  "onFst m = State (\<lambda>(w, v). case run_state m w of (a, w') \<Rightarrow> (a, (w', v)))"

lemma wp_onFst: "wp (onFst m) Q wv = wp m (\<lambda>a w'. Q a (w', snd wv)) (fst wv)"
  by (cases wv) (simp add: wp_def onFst_def split: prod.splits)

definition besideCluster :: "'w agent \<Rightarrow> 'w cluster agent" where
  "besideCluster A = \<lparr>a_GetNodeGroups = onFst (a_GetNodeGroups A), a_PostReservation = (\<lambda>n q. onFst (a_PostReservation A n q)),
     a_DeleteReservation = (\<lambda>n. onFst (a_DeleteReservation A n)), a_GetVirtualNodes = onFst (a_GetVirtualNodes A)\<rparr>"

text \<open>The requests a cluster stores under their names.\<close>

definition namedRequests :: "(string \<Rightarrow> ResourceRequest option) \<Rightarrow> string \<Rightarrow> ResourceRequest option" where
  "namedRequests v n = (case v n of Some x \<Rightarrow> if m_Name (mr_Meta x) = n then Some x else None | None \<Rightarrow> None)"

lemma namedRequests_name: "namedRequests v n = Some x \<Longrightarrow> m_Name (mr_Meta x) = n"
  by (auto simp: namedRequests_def split: option.splits if_splits)

lemma namedRequests_upd: "(\<And>x. y = Some x \<Longrightarrow> m_Name (mr_Meta x) = n) \<Longrightarrow> namedRequests (v(n := y)) = (namedRequests v)(n := y)"
  by (auto simp: namedRequests_def fun_eq_iff split: option.splits)

definition memCluster :: "'w agent \<Rightarrow> 'w cluster rr_env" where
  "memCluster A = \<lparr>
     e_GetRR = (\<lambda>n. State (\<lambda>(w, v). (case namedRequests v n of None \<Rightarrow> Inl KNotFound | Some x \<Rightarrow> Inr x, (w, v)))),
     e_UpdateRR = (\<lambda>x. State (\<lambda>(w, v). case namedRequests v (m_Name (mr_Meta x)) of
        None \<Rightarrow> (Inl KNotFound, (w, v))
      | Some cur \<Rightarrow> if m_ResourceVersion (mr_Meta cur) \<noteq> m_ResourceVersion (mr_Meta x) then (Inl KConflict, (w, v))
          else (Inr (), (w, v(m_Name (mr_Meta x) := rr_stored (cur\<lparr>mr_Meta := (mr_Meta x)\<lparr>m_ResourceVersion :=
            Suc (m_ResourceVersion (mr_Meta x))\<rparr>, mr_Spec := mr_Spec x\<rparr>)))))),
     e_StatusRR = (\<lambda>x. State (\<lambda>(w, v). case namedRequests v (m_Name (mr_Meta x)) of
        None \<Rightarrow> (Inl KNotFound, (w, v))
      | Some cur \<Rightarrow> if m_ResourceVersion (mr_Meta cur) \<noteq> m_ResourceVersion (mr_Meta x) then (Inl KConflict, (w, v))
          else (Inr (), (w, v(m_Name (mr_Meta x) \<mapsto> cur\<lparr>mr_Meta := (mr_Meta cur)\<lparr>m_ResourceVersion :=
            Suc (m_ResourceVersion (mr_Meta x))\<rparr>, mr_Status := mr_Status x\<rparr>))))),
     e_ListVNS = (\<lambda>_. State_Monad.return (Inr [])), e_GetNode = (\<lambda>_. State_Monad.return (Inl KNotFound)),
     e_PatchNode = (\<lambda>_. State_Monad.return (Inl KNotFound)),
     e_ContainsFinalizer = (\<lambda>m fin. fin \<in> set (m_Finalizers m)),
     e_AddFinalizer = (\<lambda>m fin. if fin \<in> set (m_Finalizers m) then m else m\<lparr>m_Finalizers := m_Finalizers m @ [fin]\<rparr>),
     e_RemoveFinalizer = (\<lambda>m fin. m\<lparr>m_Finalizers := removeAll fin (m_Finalizers m)\<rparr>),
     e_Agent = Some (besideCluster A), e_Within = None\<rparr>"

lemma besideCluster_agent_api:
  assumes "agent_api A store consumer valid nodes"
  shows "agent_api (besideCluster A) (\<lambda>wv. store (fst wv)) consumer valid nodes"
proof (unfold_locales, unfold besideCluster_def agent.simps wp_onFst fst_conv, goal_cases)
  case 1
  then show ?case by (rule agent_api.groups_law [OF assms])
next
  case 2
  then show ?case by (rule agent_api.nodes_law [OF assms])
next
  case 3
  then show ?case by (rule agent_api.post_law [OF assms])
next
  case 4
  then show ?case by (rule agent_api.delete_law [OF assms])
qed

lemma memCluster_world:
  assumes "agent_api A store consumer valid nodes"
    and "\<And>n w. n \<noteq> '''' \<Longrightarrow> wp (a_DeleteReservation A n) (\<lambda>r w'. \<forall>e. r = Inl e \<longrightarrow> isCategory e CategoryNotFound \<longrightarrow>
      resv_at (store w') n = None) w"
  shows "request_world (besideCluster A) (\<lambda>wv. store (fst wv)) consumer valid nodes (memCluster A) (\<lambda>wv. namedRequests (snd wv))"
proof -
  have upd: "namedRequests (v(m_Name (mr_Meta x) := rr_stored (cur\<lparr>mr_Meta := (mr_Meta x)\<lparr>m_ResourceVersion := k\<rparr>, mr_Spec := sp\<rparr>))) =
      (namedRequests v)(m_Name (mr_Meta x) := rr_stored (cur\<lparr>mr_Meta := (mr_Meta x)\<lparr>m_ResourceVersion := k\<rparr>, mr_Spec := sp\<rparr>))" for v x cur k sp
    by (rule namedRequests_upd) (auto simp: rr_stored_def split: if_splits)
  have stat: "namedRequests (v(n \<mapsto> cur\<lparr>mr_Meta := (mr_Meta cur)\<lparr>m_ResourceVersion := k\<rparr>, mr_Status := st\<rparr>)) =
      (namedRequests v)(n \<mapsto> cur\<lparr>mr_Meta := (mr_Meta cur)\<lparr>m_ResourceVersion := k\<rparr>, mr_Status := st\<rparr>)"
    if "namedRequests v n = Some cur" for v n cur k st
    by (rule namedRequests_upd) (use namedRequests_name [OF that] in auto)
  have agent: "wp (a_GetNodeGroups (besideCluster A)) (\<lambda>_ w'. namedRequests (snd w') = namedRequests (snd w)) w"
    "wp (a_PostReservation (besideCluster A) n q) (\<lambda>_ w'. namedRequests (snd w') = namedRequests (snd w)) w"
    "wp (a_DeleteReservation (besideCluster A) n) (\<lambda>_ w'. namedRequests (snd w') = namedRequests (snd w)) w" for w n q
    by (simp_all add: besideCluster_def wp_onFst)
  have gone: "n \<noteq> '''' \<Longrightarrow> wp (a_DeleteReservation (besideCluster A) n) (\<lambda>r w'. \<forall>e. r = Inl e \<longrightarrow> isCategory e CategoryNotFound \<longrightarrow>
      resv_at (store (fst w')) n = None) w" for n w
    using assms(2) by (simp add: besideCluster_def wp_onFst)
  have "request_world_axioms (besideCluster A) (\<lambda>wv. store (fst wv)) (memCluster A) (\<lambda>wv. namedRequests (snd wv))"
  proof (standard, goal_cases)
    case (4 x w)
    show ?case by (cases w) (auto simp: wp_def memCluster_def upd split: option.splits)
  next
    case (5 x w)
    show ?case by (cases w) (auto simp: wp_def memCluster_def stat split: option.splits)
  next
    case (3 n w)
    show ?case by (cases w) (auto simp: wp_def memCluster_def split: option.splits)
  qed (use agent gone namedRequests_name in \<open>auto simp: memCluster_def wp_def split: option.splits\<close>)
  then show ?thesis
    using besideCluster_agent_api [OF assms(1)] by (simp add: request_world_def)
qed

interpretation memRequests: request_world "besideCluster (stackAgent Q intn ms_clock memK dns uuid srv consumer heartbeat c S)"
  "\<lambda>wv. mem_lookup (n_World (sk_net (fst wv)))" consumer "\<lambda>n. dns n = []" "map virtualNodeStateToView (su_VirtualNodes S)"
  "memCluster (stackAgent Q intn ms_clock memK dns uuid srv consumer heartbeat c S)" "\<lambda>wv. namedRequests (snd wv)"
  for Q intn dns uuid srv consumer heartbeat c S
  by (rule memCluster_world [OF stack_agent_api [OF mem.kube_reliable_axioms]], rule wp_stack_delete_unknown [OF mem.kube_api_axioms])

section \<open>Properties\<close>


definition exampleRequest :: ResourceRequest where
  "exampleRequest = \<lparr>mr_Meta = (named_meta ''rr'')\<lparr>m_Finalizers := [resourceRequestFinalizer]\<rparr>, mr_UID = ''u'',
     mr_Spec = \<lparr>mr_Resources = [(ResourceCPU, 1)], mr_Duration = '''', mr_Priority = 0, mr_LatencyBound = None\<rparr>,
     mr_Status = \<lparr>mr_Phase = RRNone, mr_ReservationID = '''', mr_ProviderClusterID = '''', mr_ChunkCount = 0,
       mr_MigrationCount = 0, mr_Message = text_msg '''', mr_LastTransitionTime = None\<rparr>\<rparr>"


text \<open>Covering a request: \<open>k\<close> chunks hold every requested resource.\<close>

definition covers :: "quantity_api \<Rightarrow> ResourceList \<Rightarrow> ResourceList \<Rightarrow> int \<Rightarrow> bool" where
  "covers Q req chunk k \<longleftrightarrow> (\<forall>(name, q)\<in>set req. q_MilliValue Q q \<le> 0 \<or>
     map_of chunk name \<noteq> None \<and> 0 < q_MilliValue Q (rl_get chunk name) \<and> q_MilliValue Q q \<le> k * q_MilliValue Q (rl_get chunk name))"

definition no_overflow :: "quantity_api \<Rightarrow> ResourceList \<Rightarrow> ResourceList \<Rightarrow> bool" where
  "no_overflow Q req chunk \<longleftrightarrow> (\<forall>(name, q)\<in>set req. q_MilliValue Q q + q_MilliValue Q (rl_get chunk name) < 2 ^ 63)"

lemma ceil_div_le:
  assumes "0 < (c::int)"
  shows "(r + c - 1) div c \<le> k \<longleftrightarrow> r \<le> k * c"
proof
  assume "(r + c - 1) div c \<le> k"
  then have "(r + c - 1) div c * c \<le> k * c" using assms by (simp add: mult_right_mono)
  moreover have "r + c - 1 = (r + c - 1) div c * c + (r + c - 1) mod c" by simp
  moreover have "(r + c - 1) mod c < c" using assms by simp
  ultimately show "r \<le> k * c" by linarith
next
  assume "r \<le> k * c"
  then have "(r + c - 1) div c \<le> (k * c + (c - 1)) div c" using assms by (intro zdiv_mono1) auto
  also have "\<dots> = k" using assms by (simp add: div_pos_pos_trivial)
  finally show "(r + c - 1) div c \<le> k" .
qed

lemma chunksLoop_least:
  assumes "no_overflow Q req chunk"
  shows "case chunksLoop Q req chunk n of None \<Rightarrow> \<forall>k. \<not> covers Q req chunk k
    | Some m \<Rightarrow> n \<le> m \<and> (\<forall>k. n \<le> k \<longrightarrow> (m \<le> k \<longleftrightarrow> covers Q req chunk k))"
  using assms
proof (induction req arbitrary: n)
  case (Cons a req)
  obtain name q where a: "a = (name, q)" by (cases a)
  let ?rv = "q_MilliValue Q q" and ?cv = "q_MilliValue Q (rl_get chunk name)"
  have cov: "covers Q ((name, q) # req) chunk k \<longleftrightarrow> (?rv \<le> 0 \<or> map_of chunk name \<noteq> None \<and> 0 < ?cv \<and> ?rv \<le> k * ?cv) \<and> covers Q req chunk k" for k
    by (auto simp: covers_def)
  have ov: "no_overflow Q req chunk" "?rv + ?cv < 2 ^ 63" using Cons.prems a by (auto simp: no_overflow_def)
  consider "?rv \<le> 0" | "0 < ?rv" "map_of chunk name = None \<or> ?cv \<le> 0" | "0 < ?rv" "map_of chunk name \<noteq> None" "0 < ?cv" by linarith
  then show ?case
  proof cases
    case 1
    with Cons.IH [OF ov(1), of n] show ?thesis by (simp add: a cov split: option.splits)
  next
    case 2
    then show ?thesis by (auto simp: a cov)
  next
    case 3
    let ?need = "(?rv + ?cv - 1) div ?cv"
    have "int64 (int64 (?rv + ?cv) - 1) sdiv ?cv = ?need"
      using 3 ov(2) by (simp add: int64_id sdiv_nonneg)
    with 3 have step: "chunksLoop Q ((name, q) # req) chunk n = chunksLoop Q req chunk (max n ?need)"
      by (auto simp: Let_def max_def)
    note IH = Cons.IH [OF ov(1), of "max n ?need"]
    show ?thesis
      unfolding a step
    proof (cases "chunksLoop Q req chunk (max n ?need)")
      case None
      with IH show "case chunksLoop Q req chunk (max n ?need) of None \<Rightarrow> \<forall>k. \<not> covers Q ((name, q) # req) chunk k
        | Some m \<Rightarrow> n \<le> m \<and> (\<forall>k. n \<le> k \<longrightarrow> (m \<le> k \<longleftrightarrow> covers Q ((name, q) # req) chunk k))" by (simp add: cov)
    next
      case (Some m)
      with IH have m: "max n ?need \<le> m" "\<And>k. max n ?need \<le> k \<Longrightarrow> m \<le> k \<longleftrightarrow> covers Q req chunk k" by simp_all
      have "m \<le> k \<longleftrightarrow> covers Q ((name, q) # req) chunk k" if "n \<le> k" for k
        using m(1) m(2) [of k] that 3 ceil_div_le [OF 3(3), of ?rv k] by (auto simp: cov)
      with Some m(1) show "case chunksLoop Q req chunk (max n ?need) of None \<Rightarrow> \<forall>k. \<not> covers Q ((name, q) # req) chunk k
        | Some m \<Rightarrow> n \<le> m \<and> (\<forall>k. n \<le> k \<longrightarrow> (m \<le> k \<longleftrightarrow> covers Q ((name, q) # req) chunk k))" by simp
    qed
  qed
qed (simp add: covers_def)

lemma chunksFor_least:
  assumes "no_overflow Q req chunk" and "covers Q req chunk (2 ^ 31 - 1)"
  shows "chunksFor Q req chunk = k \<and> 0 < k \<Longrightarrow> covers Q req chunk k \<and> (\<forall>j\<ge>0. covers Q req chunk j \<longrightarrow> k \<le> j)"
    and "chunksFor Q req chunk = 0 \<Longrightarrow> covers Q req chunk 0"
proof -
  from chunksLoop_least [OF assms(1), of 0] assms(2) obtain m where m: "chunksLoop Q req chunk 0 = Some m" "0 \<le> m"
    "\<And>k. 0 \<le> k \<Longrightarrow> m \<le> k \<longleftrightarrow> covers Q req chunk k" by (auto split: option.splits)
  have "m \<le> 2 ^ 31 - 1" using m(3) assms(2) by simp
  then have "int32 m = m" using m(2) by (intro int32_id) (simp add: is_int32_def)
  then have k: "chunksFor Q req chunk = (if m < 1 then 0 else m)" using m(1) by (simp add: chunksFor_def)
  show "chunksFor Q req chunk = k \<and> 0 < k \<Longrightarrow> covers Q req chunk k \<and> (\<forall>j\<ge>0. covers Q req chunk j \<longrightarrow> k \<le> j)"
    using k m(3) m(3) [of m] m(2) by (auto split: if_splits)
  show "chunksFor Q req chunk = 0 \<Longrightarrow> covers Q req chunk 0"
    using k m(2,3) by (auto split: if_splits)
qed


abbreviation sizedGroup :: "string \<Rightarrow> int \<Rightarrow> NodeGroupView" where
  "sizedGroup p n \<equiv> (demoView p n)\<lparr>ng_Type := ChunkTypeStandard, ng_ChunkResources := [(ResourceCPU, 2)], ng_MaxSize := n, ng_CurrentReserved := 0\<rparr>"


lemma migrationTarget_Some:
  assumes "migrationTarget Q rr resp = Some g"
  shows "isStableMetricPolicy (nl_AppliedPlacement resp) \<and> g \<in> set (nl_NodeGroups resp) \<and> 0 < availableIn g \<and>
    ng_ProviderClusterID g \<noteq> mr_ProviderClusterID (mr_Status rr) \<and>
    (\<forall>c. findProviderView (nl_NodeGroups resp) (mr_ProviderClusterID (mr_Status rr)) (ng_Type g) = Some c \<longrightarrow>
       ng_HasMetric c \<and> ng_HasMetric g \<and> metricStrictlyBetter (ng_PlacementMetric g) (ng_PlacementMetric c))"
  using assms
  by (auto simp: migrationTarget_def pickProviderAndSize_def fitsGroup_Some split: if_splits option.splits dest!: pickLoop_Some)

lemma metric_asym: "metricStrictlyBetter a b \<Longrightarrow> 0 \<le> a \<Longrightarrow> 0 \<le> b \<Longrightarrow> \<not> metricStrictlyBetter b a"
  by (simp add: metricStrictlyBetter_def migrationMetricMargin_def)


abbreviation heldOn :: "string \<Rightarrow> ResourceRequest" where
  "heldOn p \<equiv> exampleRequest\<lparr>mr_Status := (mr_Status exampleRequest)\<lparr>mr_Phase := RRActive, mr_ReservationID := ''mr-u'',
     mr_ProviderClusterID := p, mr_ChunkCount := 1\<rparr>\<rparr>"

definition dearGroup :: NodeGroupView where
  "dearGroup = (sizedGroup ''a'' 3)\<lparr>ng_ProviderClusterID := ''a'', ng_HasMetric := True, ng_PlacementMetric := 2\<rparr>"

definition cheapGroup :: NodeGroupView where
  "cheapGroup = (sizedGroup ''b'' 4)\<lparr>ng_ProviderClusterID := ''b'', ng_HasMetric := True, ng_PlacementMetric := 1\<rparr>"

lemma priced_simps [simp]:
  "ng_ProviderClusterID dearGroup = ''a''" "ng_HasMetric dearGroup" "ng_PlacementMetric dearGroup = 2" "ng_Type dearGroup = ChunkTypeStandard"
  "ng_MaxSize dearGroup = 3" "ng_CurrentReserved dearGroup = 0" "ng_ChunkResources dearGroup = [(ResourceCPU, 2)]"
  "ng_ProviderClusterID cheapGroup = ''b''" "ng_HasMetric cheapGroup" "ng_PlacementMetric cheapGroup = 1" "ng_Type cheapGroup = ChunkTypeStandard"
  "ng_MaxSize cheapGroup = 4" "ng_CurrentReserved cheapGroup = 0" "ng_ChunkResources cheapGroup = [(ResourceCPU, 2)]"
  by (simp_all add: dearGroup_def cheapGroup_def)

definition pricedGroups :: NodeGroupListResponse where
  "pricedGroups = \<lparr>nl_NodeGroups = [dearGroup, cheapGroup], nl_LatencyShortlist = False, nl_AppliedPlacement = PlacementStrategyPrice,
     nl_Generation = 0, nl_ServedAt = 0, nl_CacheAgeSeconds = 0\<rparr>"


section \<open>A failed migration\<close>

text \<open>An agent whose provider list is fine but which cannot post; its world counts the attempts.\<close>

definition refusingAgent :: "nat agent" where
  "refusingAgent = \<lparr>a_GetNodeGroups = State_Monad.return (Inr pricedGroups),
     a_PostReservation = (\<lambda>_ _. State (\<lambda>k. (Inl (Plain (text_msg ''no answer'')), Suc k))),
     a_DeleteReservation = (\<lambda>_. State_Monad.return (Inl (Plain (text_msg ''no answer'')))),
     a_GetVirtualNodes = State_Monad.return (Inr \<lparr>vl_VirtualNodes = []\<rparr>)\<rparr>"

definition migratingRequest :: ResourceRequest where
  "migratingRequest = exampleRequest\<lparr>mr_Status := (mr_Status exampleRequest)\<lparr>mr_Phase := RRMigrating,
     mr_ReservationID := ''mr-u-m1'', mr_ProviderClusterID := ''a'', mr_MigrationCount := 1\<rparr>\<rparr>"

definition runTwice :: "(rr_error + ctrlResult) \<times> nat cluster" where
  "runTwice = run_state (do { _ \<leftarrow> reconcileResourceRequest exactQ 0 0 (memCluster refusingAgent) ''rr'';
     reconcileResourceRequest exactQ 1 0 (memCluster refusingAgent) ''rr'' }) (0, [''rr'' \<mapsto> migratingRequest])"

text \<open>
  A failed migration is reported as reserved. The old reservation of a migrating request is
  already released; if posting the new one fails once, the phase becomes Failed but the name of
  the reservation that was never made stays recorded, so the next run does not post again: it takes
  the request for a held one and reports it as Reserved.
\<close>

theorem failed_migration_reported_reserved:
  "\<exists>y. snd (snd runTwice) ''rr'' = Some y \<and> mr_Phase (mr_Status y) = RRReserved \<and>
     mr_ReservationID (mr_Status y) = ''mr-u-m1'' \<and> fst (snd runTwice) = 1"
proof -
  have "(case snd (snd runTwice) ''rr'' of None \<Rightarrow> False | Some y \<Rightarrow> mr_Phase (mr_Status y) = RRReserved \<and>
     mr_ReservationID (mr_Status y) = ''mr-u-m1'') \<and> fst (snd runTwice) = 1"
    by code_simp
  then show ?thesis by (auto split: option.splits)
qed

end
