(* ===== verification/VirtualNodes.thy ===== *)
theory VirtualNodes
  imports RequestController
begin

text \<open>
  \<^verbatim>\<open>internal/controller/autoscaling/virtualnodestate_controller.go\<close>: the reconciler that projects the
  node Liqo materialises for a chunk onto its \<^verbatim>\<open>VirtualNodeState\<close>, the object the gRPC server answers
  the Cluster Autoscaler from.
\<close>

section \<open>Conditions\<close>

abbreviation PhaseCreating :: VirtualNodeStatePhase where "PhaseCreating \<equiv> ''Creating''"
abbreviation PhaseRunning :: VirtualNodeStatePhase where "PhaseRunning \<equiv> ''Running''"
abbreviation PhaseDeleting :: VirtualNodeStatePhase where "PhaseDeleting \<equiv> ''Deleting''"
abbreviation PhaseFailed :: VirtualNodeStatePhase where "PhaseFailed \<equiv> ''Failed''"

abbreviation ConditionReady :: string where "ConditionReady \<equiv> ''Ready''"
abbreviation ConditionFailed :: string where "ConditionFailed \<equiv> ''Failed''"

definition readyReason :: "VirtualNodeStatePhase \<Rightarrow> string" where
  "readyReason phase = (if phase = PhaseRunning then ''VirtualNodeReady'' else ''VirtualNodeNotReady'')"

definition failedReason :: "VirtualNodeStatePhase \<Rightarrow> string" where
  "failedReason phase = (if phase = PhaseFailed then ''VirtualNodeFailed'' else ''VirtualNodeNotFailed'')"

fun setCondition :: "Time \<Rightarrow> string \<Rightarrow> bool \<Rightarrow> string \<Rightarrow> message \<Rightarrow> Condition list \<Rightarrow> Condition list" where
  "setCondition now condType ok reason msg [] = [\<lparr>cd_Type = condType, cd_Status = (if ok then ''True'' else ''False''),
     cd_Reason = reason, cd_Message = msg, cd_LastTransitionTime = now\<rparr>]"
| "setCondition now condType ok reason msg (c # cs) =
    (let st = (if ok then ''True'' else ''False'')
     in if cd_Type c \<noteq> condType then c # setCondition now condType ok reason msg cs
        else c\<lparr>cd_LastTransitionTime := (if cd_Status c \<noteq> st then now else cd_LastTransitionTime c), cd_Status := st,
               cd_Reason := reason, cd_Message := msg\<rparr> # cs)"

definition updateConditions :: "Time \<Rightarrow> VirtualNodeStateStatus \<Rightarrow> VirtualNodeStateStatus" where
  "updateConditions now st = st\<lparr>vn_Conditions :=
     setCondition now ConditionFailed (vn_Phase st = PhaseFailed) (failedReason (vn_Phase st)) (vn_Message st)
       (setCondition now ConditionReady (vn_Phase st = PhaseRunning) (readyReason (vn_Phase st)) (vn_Message st) (vn_Conditions st))\<rparr>"

section \<open>Comparison\<close>

definition resourceListEqual :: "ResourceList \<Rightarrow> ResourceList \<Rightarrow> bool" where
  "resourceListEqual a b \<longleftrightarrow> length a = length b \<and> (\<forall>(k, va)\<in>set a. map_of b k = Some va)"

text \<open>The index of \<^verbatim>\<open>a\<close> keeps the last condition of a type.\<close>

definition conditionsEqual :: "Condition list \<Rightarrow> Condition list \<Rightarrow> bool" where
  "conditionsEqual a b \<longleftrightarrow> length a = length b \<and>
     (\<forall>c\<in>set b. case map_of (rev (map (\<lambda>x. (cd_Type x, x)) a)) (cd_Type c) of
        None \<Rightarrow> False
      | Some ac \<Rightarrow> cd_Status ac = cd_Status c \<and> cd_Reason ac = cd_Reason c \<and> cd_Message ac = cd_Message c)"

definition statusEqual :: "VirtualNodeStateStatus \<Rightarrow> VirtualNodeStateStatus \<Rightarrow> bool" where
  "statusEqual a b \<longleftrightarrow> vn_Phase a = vn_Phase b \<and> vn_VirtualNodeName a = vn_VirtualNodeName b \<and> vn_ProviderID a = vn_ProviderID b \<and>
     vn_ObservedGeneration a = vn_ObservedGeneration b \<and> vn_Message a = vn_Message b \<and>
     resourceListEqual (vn_Allocatable a) (vn_Allocatable b) \<and> conditionsEqual (vn_Conditions a) (vn_Conditions b)"

section \<open>Projection\<close>

definition nodeNameFor :: "VirtualNodeState \<Rightarrow> string" where
  "nodeNameFor vns = (if vn_SpecResourceSliceName (vn_Spec vns) \<noteq> '''' then vn_SpecResourceSliceName (vn_Spec vns)
     else vn_ProviderLiqoClusterID (vn_Spec vns))"

definition nodeReady :: "ClusterNode \<Rightarrow> bool" where
  "nodeReady node = (case find (\<lambda>c. fst c = ''Ready'') (cn_Conditions node) of None \<Rightarrow> False | Some c \<Rightarrow> snd c = ''True'')"

definition applyPhase :: "Time \<Rightarrow> VirtualNodeStatePhase \<Rightarrow> message \<Rightarrow> VirtualNodeStateStatus \<Rightarrow> VirtualNodeStateStatus" where
  "applyPhase now phase msg st = st\<lparr>vn_LastTransitionTime := (if vn_Phase st \<noteq> phase then Some now else vn_LastTransitionTime st),
     vn_Phase := phase, vn_Message := msg\<rparr>"

text \<open>The calls of the reconciler.\<close>

record 'w vns_env =
  v_Get :: "string \<Rightarrow> ('w, kerr + VirtualNodeState) state"
  v_GetNode :: "string \<Rightarrow> ('w, kerr + ClusterNode) state"
  v_Status :: "VirtualNodeState \<Rightarrow> ('w, kerr + unit) state"
  v_List :: "('w, kerr + VirtualNodeState list) state"

text \<open>What the node, if it was found, makes of the status.\<close>

definition statusFromNode :: "Time \<Rightarrow> string \<Rightarrow> ClusterNode option \<Rightarrow> VirtualNodeStateStatus \<Rightarrow> VirtualNodeStateStatus" where
  "statusFromNode now nodeName found st = (case found of
     None \<Rightarrow> (applyPhase now PhaseCreating (Sprintf ''waiting for Liqo to materialise node %s'' [AStr nodeName]) st)
       \<lparr>vn_VirtualNodeName := '''', vn_ProviderID := '''', vn_Allocatable := []\<rparr>
   | Some node \<Rightarrow>
       (let st = st\<lparr>vn_VirtualNodeName := nodeName\<rparr>
        in if cn_DeletionTimestamp node \<noteq> None then
             (applyPhase now PhaseDeleting (text_msg ''Liqo virtual node is terminating'') st)\<lparr>vn_ProviderID := '''', vn_Allocatable := []\<rparr>
           else if \<not> nodeReady node then
             (applyPhase now PhaseCreating (text_msg ''Liqo virtual node registered, not Ready yet'') st)
               \<lparr>vn_ProviderID := '''', vn_Allocatable := []\<rparr>
           else (applyPhase now PhaseRunning (text_msg ''Liqo virtual node is ready'') st)
             \<lparr>vn_ProviderID := cn_ProviderID node, vn_Allocatable := cn_Allocatable node\<rparr>))"

definition projectFromNode :: "Time \<Rightarrow> 'w vns_env \<Rightarrow> VirtualNodeState \<Rightarrow> string \<Rightarrow> ('w, gerr + VirtualNodeState) state" where
  "projectFromNode now E desired nodeName = do {
     r \<leftarrow> v_GetNode E nodeName;
     State_Monad.return (case r of
       Inl e \<Rightarrow> if e = KNotFound then Inr (desired\<lparr>vn_Status := statusFromNode now nodeName None (vn_Status desired)\<rparr>)
               else Inl (Wrap ''get v1.Node'' (KubeErr e))
     | Inr node \<Rightarrow> Inr (desired\<lparr>vn_Status := statusFromNode now nodeName (Some node) (vn_Status desired)\<rparr>)) }"

definition DefaultVirtualNodeStateRequeue :: Duration where
  "DefaultVirtualNodeStateRequeue = 30 * 10 ^ 9"

definition vnsRequeueAfter :: "Duration \<Rightarrow> Duration" where
  "vnsRequeueAfter cfg = (if cfg > 0 then cfg else DefaultVirtualNodeStateRequeue)"

definition observed :: "VirtualNodeState \<Rightarrow> VirtualNodeState" where
  "observed vns = vns\<lparr>vn_Status := (vn_Status vns)\<lparr>vn_ObservedGeneration := vn_Generation vns,
     vn_ResourceSliceName := vn_SpecResourceSliceName (vn_Spec vns)\<rparr>\<rparr>"

definition misconfigured :: "Time \<Rightarrow> VirtualNodeStateStatus \<Rightarrow> VirtualNodeStateStatus" where
  "misconfigured now st = (applyPhase now PhaseCreating
     (text_msg ''VirtualNodeState missing resourceSliceName and providerLiqoClusterId'') st)
     \<lparr>vn_VirtualNodeName := '''', vn_ProviderID := '''', vn_Allocatable := []\<rparr>"

definition reconcileVirtualNodeState :: "Time \<Rightarrow> Duration \<Rightarrow> 'w vns_env \<Rightarrow> string \<Rightarrow> ('w, gerr + ctrlResult) state" where
  "reconcileVirtualNodeState now cfg E name = do {
     g \<leftarrow> v_Get E name;
     (case g of
        Inl e \<Rightarrow> State_Monad.return (if e = KNotFound then Inr NoRequeue else Inl (KubeErr e))
      | Inr vns \<Rightarrow>
          if vn_DeletionTimestamp vns \<noteq> None then State_Monad.return (Inr NoRequeue)
          else do {
            let desired = observed vns;
            d \<leftarrow> (if nodeNameFor vns = '''' then State_Monad.return (Inr (desired\<lparr>vn_Status := misconfigured now (vn_Status desired)\<rparr>))
                  else projectFromNode now E desired (nodeNameFor vns));
            (case d of
               Inl err \<Rightarrow> State_Monad.return (Inl err)
             | Inr desired \<Rightarrow>
                 (let desired = desired\<lparr>vn_Status := updateConditions now (vn_Status desired)\<rparr>
                  in if statusEqual (vn_Status vns) (vn_Status desired) then State_Monad.return (Inr (RequeueAfter (vnsRequeueAfter cfg)))
                     else do {
                       u \<leftarrow> v_Status E desired;
                       State_Monad.return (case u of
                         Inl e \<Rightarrow> Inl (Wrap ''update VirtualNodeState status'' (KubeErr e))
                       | Inr _ \<Rightarrow> Inr (RequeueAfter (vnsRequeueAfter cfg))) })) }) }"

definition requestsForNode :: "'w vns_env \<Rightarrow> string \<Rightarrow> ('w, string list) state" where
  "requestsForNode E nodeName = do {
     l \<leftarrow> v_List E;
     State_Monad.return (case l of Inl _ \<Rightarrow> [] | Inr items \<Rightarrow> map vn_Name (filter (\<lambda>v. nodeNameFor v = nodeName) items)) }"

section \<open>Conditions as a map\<close>

definition cond_wf :: "Condition list \<Rightarrow> bool" where
  "cond_wf cs \<longleftrightarrow> distinct (map cd_Type cs)"

definition condition_of :: "Condition list \<Rightarrow> string \<Rightarrow> (string \<times> string \<times> message) option" where
  "condition_of cs t = map_option (\<lambda>c. (cd_Status c, cd_Reason c, cd_Message c)) (find (\<lambda>c. cd_Type c = t) cs)"

lemma setCondition_types:
  "map cd_Type (setCondition now t ok r m cs) = (if t \<in> set (map cd_Type cs) then map cd_Type cs else map cd_Type cs @ [t])"
  by (induction cs) (auto simp: Let_def)

lemma setCondition_wf: "cond_wf cs \<Longrightarrow> cond_wf (setCondition now t ok r m cs)"
  by (simp add: cond_wf_def setCondition_types)

lemma condition_of_set:
  "condition_of (setCondition now t ok r m cs) t' =
     (if t' = t then Some (if ok then ''True'' else ''False'', r, m) else condition_of cs t')"
  by (induction cs) (auto simp: condition_of_def Let_def)

lemma map_of_rev: "distinct (map fst xs) \<Longrightarrow> map_of (rev xs) = map_of xs"
proof (induction xs)
  case (Cons x xs)
  then have "dom (map_of xs) \<inter> dom [fst x \<mapsto> snd x] = {}" by (auto simp: dom_map_of_conv_image_fst)
  from map_add_comm [OF this] Cons show ?case by (cases x) simp
qed simp

lemma map_of_conditions:
  assumes "cond_wf cs"
  shows "map_of (rev (map (\<lambda>x. (cd_Type x, x)) cs)) t = find (\<lambda>c. cd_Type c = t) cs"
proof -
  have "map_of (map (\<lambda>x. (cd_Type x, x)) cs) t = find (\<lambda>c. cd_Type c = t) cs" by (induction cs) auto
  moreover have "map fst (map (\<lambda>x. (cd_Type x, x)) cs) = map cd_Type cs" by simp
  ultimately show ?thesis
    using assms map_of_rev [of "map (\<lambda>x. (cd_Type x, x)) cs"] by (simp add: cond_wf_def comp_def)
qed

lemma find_own: "distinct (map f cs) \<Longrightarrow> c \<in> set cs \<Longrightarrow> find (\<lambda>x. f x = f c) cs = Some c"
  by (induction cs) (auto simp: image_iff)

lemma conditionsEqual_iff:
  assumes "cond_wf a" "cond_wf b"
  shows "conditionsEqual a b \<longleftrightarrow> length a = length b \<and> (\<forall>c\<in>set b. condition_of a (cd_Type c) = condition_of b (cd_Type c))"
proof -
  have "condition_of b (cd_Type c) = Some (cd_Status c, cd_Reason c, cd_Message c)" if "c \<in> set b" for c
    using find_own [of cd_Type b c] assms(2) that by (simp add: condition_of_def cond_wf_def)
  moreover have holds: "(case find (\<lambda>x. cd_Type x = t) a of None \<Rightarrow> False
      | Some ac \<Rightarrow> cd_Status ac = cd_Status c \<and> cd_Reason ac = cd_Reason c \<and> cd_Message ac = cd_Message c) \<longleftrightarrow>
      condition_of a t = Some (cd_Status c, cd_Reason c, cd_Message c)" for t c
    by (auto simp: condition_of_def split: option.splits)
  ultimately show ?thesis
    unfolding conditionsEqual_def map_of_conditions [OF assms(1)] holds by simp
qed

text \<open>Setting a condition to what it already is changes no time.\<close>

lemma setCondition_same:
  "condition_of cs t = Some (if ok then ''True'' else ''False'', r, m) \<Longrightarrow> setCondition now t ok r m cs = cs"
  by (induction cs) (auto simp: condition_of_def Let_def split: if_splits)

section \<open>What the status should be\<close>

text \<open>Phase, message, node name, provider ID and allocatable resources, given the node if it exists.\<close>

definition expected :: "VirtualNodeState \<Rightarrow> ClusterNode option \<Rightarrow> VirtualNodeStatePhase \<times> message \<times> string \<times> string \<times> ResourceList" where
  "expected vns found =
    (let name = nodeNameFor vns in
     if name = '''' then (PhaseCreating, text_msg ''VirtualNodeState missing resourceSliceName and providerLiqoClusterId'', '''', '''', [])
     else case found of
       None \<Rightarrow> (PhaseCreating, Sprintf ''waiting for Liqo to materialise node %s'' [AStr name], '''', '''', [])
     | Some node \<Rightarrow>
         if cn_DeletionTimestamp node \<noteq> None then (PhaseDeleting, text_msg ''Liqo virtual node is terminating'', name, '''', [])
         else if \<not> nodeReady node then (PhaseCreating, text_msg ''Liqo virtual node registered, not Ready yet'', name, '''', [])
         else (PhaseRunning, text_msg ''Liqo virtual node is ready'', name, cn_ProviderID node, cn_Allocatable node))"

definition reflects :: "VirtualNodeState \<Rightarrow> ClusterNode option \<Rightarrow> VirtualNodeStateStatus \<Rightarrow> bool" where
  "reflects vns found st \<longleftrightarrow> (case expected vns found of (phase, msg, name, pid, alloc) \<Rightarrow>
     vn_Phase st = phase \<and> vn_Message st = msg \<and> vn_VirtualNodeName st = name \<and> vn_ProviderID st = pid \<and>
     resourceListEqual (vn_Allocatable st) alloc \<and> vn_ObservedGeneration st = vn_Generation vns \<and>
     condition_of (vn_Conditions st) ConditionReady = Some (if phase = PhaseRunning then ''True'' else ''False'', readyReason phase, msg) \<and>
     condition_of (vn_Conditions st) ConditionFailed = Some (''False'', failedReason phase, msg))"

definition desiredStatus :: "Time \<Rightarrow> VirtualNodeState \<Rightarrow> ClusterNode option \<Rightarrow> VirtualNodeStateStatus" where
  "desiredStatus now vns found = updateConditions now
     (if nodeNameFor vns = '''' then misconfigured now (vn_Status (observed vns))
      else statusFromNode now (nodeNameFor vns) found (vn_Status (observed vns)))"

lemma desired_fields:
  assumes "expected vns found = (phase, msg, name, pid, alloc)"
  shows "vn_Phase (desiredStatus now vns found) = phase \<and> vn_Message (desiredStatus now vns found) = msg \<and>
    vn_VirtualNodeName (desiredStatus now vns found) = name \<and> vn_ProviderID (desiredStatus now vns found) = pid \<and>
    vn_Allocatable (desiredStatus now vns found) = alloc \<and> vn_ObservedGeneration (desiredStatus now vns found) = vn_Generation vns \<and>
    phase \<noteq> PhaseFailed \<and>
    vn_Conditions (desiredStatus now vns found) = setCondition now ConditionFailed False (failedReason phase) msg
      (setCondition now ConditionReady (phase = PhaseRunning) (readyReason phase) msg (vn_Conditions (vn_Status vns)))"
  using assms
  by (auto simp: desiredStatus_def updateConditions_def misconfigured_def statusFromNode_def observed_def applyPhase_def expected_def Let_def
      split: if_splits option.splits)

lemma desired_wf: "cond_wf (vn_Conditions (vn_Status vns)) \<Longrightarrow> cond_wf (vn_Conditions (desiredStatus now vns found))"
  using desired_fields [of vns found] by (cases "expected vns found") (simp add: setCondition_wf)

text \<open>A status that the reconciler leaves alone is exactly one that reflects the node.\<close>

lemma statusEqual_desired:
  assumes "cond_wf (vn_Conditions (vn_Status vns))"
  shows "statusEqual (vn_Status vns) (desiredStatus now vns found) \<longleftrightarrow> reflects vns found (vn_Status vns)"
proof -
  obtain phase msg name pid alloc where e: "expected vns found = (phase, msg, name, pid, alloc)" by (cases "expected vns found")
  let ?a = "vn_Conditions (vn_Status vns)" and ?b = "vn_Conditions (desiredStatus now vns found)"
  let ?ready = "(if phase = PhaseRunning then ''True'' else ''False'', readyReason phase, msg)" and ?failed = "(''False'', failedReason phase, msg)"
  note d = desired_fields [OF e, of now]
  have b: "condition_of ?b ConditionReady = Some ?ready" "condition_of ?b ConditionFailed = Some ?failed"
    using d by (simp_all add: condition_of_set)
  have "conditionsEqual ?a ?b \<longleftrightarrow> condition_of ?a ConditionReady = Some ?ready \<and> condition_of ?a ConditionFailed = Some ?failed"
  proof
    assume "conditionsEqual ?a ?b"
    then have eq: "condition_of ?a (cd_Type c) = condition_of ?b (cd_Type c)" if "c \<in> set ?b" for c
      using conditionsEqual_iff [OF assms desired_wf [OF assms]] that by blast
    have "\<exists>c\<in>set ?b. cd_Type c = t" if "condition_of ?b t \<noteq> None" for t
      using that by (auto simp: condition_of_def find_Some_iff)
    with eq b show "condition_of ?a ConditionReady = Some ?ready \<and> condition_of ?a ConditionFailed = Some ?failed"
      by (metis option.distinct(1))
  next
    assume a: "condition_of ?a ConditionReady = Some ?ready \<and> condition_of ?a ConditionFailed = Some ?failed"
    then have "setCondition now ConditionReady (phase = PhaseRunning) (readyReason phase) msg ?a = ?a" by (simp add: setCondition_same)
    with a d have "?b = ?a" by (simp add: setCondition_same)
    then show "conditionsEqual ?a ?b" using conditionsEqual_iff [OF assms assms] by simp
  qed
  with d show ?thesis by (auto simp: statusEqual_def reflects_def e)
qed

text \<open>The keys of a Go map are distinct.\<close>

definition node_wf :: "ClusterNode option \<Rightarrow> bool" where
  "node_wf found \<longleftrightarrow> (\<forall>n. found = Some n \<longrightarrow> distinct (map fst (cn_Allocatable n)))"

lemma expected_alloc: "node_wf found \<Longrightarrow> expected vns found = (phase, msg, name, pid, alloc) \<Longrightarrow> distinct (map fst alloc)"
  by (auto simp: node_wf_def expected_def Let_def split: if_splits option.splits)

lemma expected_status [simp]: "expected (vns\<lparr>vn_Status := st\<rparr>) found = expected vns found"
  by (simp add: expected_def nodeNameFor_def)

lemma desired_reflects:
  assumes "node_wf found"
  shows "reflects (vns\<lparr>vn_Status := st\<rparr>) found (desiredStatus now vns found)"
proof -
  obtain phase msg name pid alloc where e: "expected vns found = (phase, msg, name, pid, alloc)" by (cases "expected vns found")
  have "resourceListEqual alloc alloc"
    using expected_alloc [OF assms e] by (auto simp: resourceListEqual_def)
  then show ?thesis
    using desired_fields [OF e, of now] by (simp add: reflects_def e condition_of_set)
qed

section \<open>Runs\<close>

text \<open>The node of an object, as the reconciler would find it.\<close>

definition nodeOf :: "(string \<Rightarrow> ClusterNode option) \<Rightarrow> VirtualNodeState \<Rightarrow> ClusterNode option" where
  "nodeOf nodes vns = (if nodeNameFor vns = '''' then None else nodes (nodeNameFor vns))"

text \<open>
  What a run on the object leaves: its specification and its deletion mark, and a status that
  changes only if it did not reflect the node and does if the run asks to be called again.
\<close>

definition projected :: "VirtualNodeState \<Rightarrow> ClusterNode option \<Rightarrow> gerr + ctrlResult \<Rightarrow> VirtualNodeState \<Rightarrow> bool" where
  "projected vns found r vns' \<longleftrightarrow> vns' = vns\<lparr>vn_Status := vn_Status vns'\<rparr> \<and> cond_wf (vn_Conditions (vn_Status vns')) \<and>
     (vn_DeletionTimestamp vns \<noteq> None \<or> reflects vns found (vn_Status vns) \<longrightarrow> vns' = vns) \<and>
     (\<forall>d. r = Inr (RequeueAfter d) \<longrightarrow> vn_DeletionTimestamp vns = None \<and> reflects vns' found (vn_Status vns'))"

lemma projected_same:
  "cond_wf (vn_Conditions (vn_Status vns)) \<Longrightarrow>
   (\<And>d. r = Inr (RequeueAfter d) \<Longrightarrow> vn_DeletionTimestamp vns = None \<and> reflects vns found (vn_Status vns)) \<Longrightarrow> projected vns found r vns"
  by (simp add: projected_def)

lemma projected_written:
  assumes "cond_wf (vn_Conditions (vn_Status vns))" "node_wf found" "vn_DeletionTimestamp vns = None"
    "\<not> statusEqual (vn_Status vns) (desiredStatus now vns found)"
  shows "projected vns found r (vns\<lparr>vn_Status := desiredStatus now vns found\<rparr>)"
  using assms statusEqual_desired [OF assms(1)] desired_reflects [OF assms(2)] desired_wf [OF assms(1)]
  by (auto simp: projected_def)

text \<open>What the reconciler relies on of its API server; the client's cache is in sync.\<close>

locale vns_world =
  fixes E :: "'w vns_env" and vnss :: "'w \<Rightarrow> string \<Rightarrow> VirtualNodeState option" and nodes :: "'w \<Rightarrow> string \<Rightarrow> ClusterNode option"
  assumes named: "vnss w n = Some x \<Longrightarrow> vn_Name x = n"
    and get_law: "wp (v_Get E n) (\<lambda>r w'. vnss w' = vnss w \<and> nodes w' = nodes w \<and> (\<forall>x. r = Inr x \<longrightarrow> vnss w n = Some x)) w"
    and node_law: "wp (v_GetNode E n) (\<lambda>r w'. vnss w' = vnss w \<and> nodes w' = nodes w \<and> (\<forall>x. r = Inr x \<longrightarrow> nodes w n = Some x) \<and>
      (r = Inl KNotFound \<longrightarrow> nodes w n = None)) w"
    and status_law: "wp (v_Status E x) (\<lambda>r w'. nodes w' = nodes w \<and> (\<forall>e. r = Inl e \<longrightarrow> vnss w' = vnss w) \<and>
      (r = Inr () \<longrightarrow> (\<exists>cur. vnss w (vn_Name x) = Some cur \<and> vnss w' = (vnss w)(vn_Name x \<mapsto> cur\<lparr>vn_Status := vn_Status x\<rparr>)))) w"
    and list_law: "wp (v_List E) (\<lambda>r w'. vnss w' = vnss w \<and> nodes w' = nodes w \<and>
      (\<forall>xs. r = Inr xs \<longrightarrow> (\<forall>x. x \<in> set xs \<longleftrightarrow> vnss w (vn_Name x) = Some x))) w"
begin

lemma wp_desired:
  "wp (if nodeNameFor vns = '''' then State_Monad.return (Inr ((observed vns)\<lparr>vn_Status := misconfigured now (vn_Status (observed vns))\<rparr>))
     else projectFromNode now E (observed vns) (nodeNameFor vns))
   (\<lambda>d w'. vnss w' = vnss w \<and> nodes w' = nodes w \<and> (\<forall>x. d = Inr x \<longrightarrow>
     x\<lparr>vn_Status := updateConditions now (vn_Status x)\<rparr> = vns\<lparr>vn_Status := desiredStatus now vns (nodeOf (nodes w) vns)\<rparr>)) w"
  unfolding projectFromNode_def
  by (auto simp: nodeOf_def desiredStatus_def observed_def intro!: wp_mono [OF node_law] split: sum.splits)

lemma wp_write:
  assumes "vnss w n = Some vns" "cond_wf (vn_Conditions (vn_Status vns))" "node_wf found" "vn_DeletionTimestamp vns = None"
    "\<not> statusEqual (vn_Status vns) (desiredStatus now vns found)"
  shows "wp (v_Status E (vns\<lparr>vn_Status := desiredStatus now vns found\<rparr>)) (\<lambda>u w'. nodes w' = nodes w \<and>
    (\<forall>m. m \<noteq> n \<longrightarrow> vnss w' m = vnss w m) \<and> (\<forall>r. (u = Inr () \<or> (\<forall>d. r \<noteq> Inr (RequeueAfter d))) \<longrightarrow>
      (\<exists>vns'. vnss w' n = Some vns' \<and> projected vns found r vns'))) w"
proof (rule wp_mono [OF status_law], goal_cases)
  case (1 u w')
  note n = named [OF assms(1)]
  show ?case
  proof (cases u)
    case (Inl e)
    with 1 assms(1) show ?thesis using projected_same [OF assms(2)] by auto
  next
    case (Inr y)
    with 1 n assms(1) have "vnss w' = (vnss w)(n \<mapsto> vns\<lparr>vn_Status := desiredStatus now vns found\<rparr>)" by auto
    with 1 projected_written [OF assms(2-5)] show ?thesis by simp
  qed
qed

lemma wp_reconcile:
  assumes "vnss w n = Some vns" and "cond_wf (vn_Conditions (vn_Status vns))" and "\<And>m. node_wf (nodes w m)"
  shows "wp (reconcileVirtualNodeState now cfg E n) (\<lambda>r w'. nodes w' = nodes w \<and> (\<forall>m. m \<noteq> n \<longrightarrow> vnss w' m = vnss w m) \<and>
    (\<exists>vns'. vnss w' n = Some vns' \<and> projected vns (nodeOf (nodes w) vns) r vns')) w"
  unfolding reconcileVirtualNodeState_def Let_def wp_bind [of "v_Get E n"]
proof (rule wp_mono [OF get_law], goal_cases)
  case (1 g w1)
  have stay: "vnss w' = vnss w \<Longrightarrow> nodes w' = nodes w \<Longrightarrow> (\<And>d. r \<noteq> Inr (RequeueAfter d)) \<Longrightarrow> nodes w' = nodes w \<and>
      (\<forall>m. m \<noteq> n \<longrightarrow> vnss w' m = vnss w m) \<and> (\<exists>vns'. vnss w' n = Some vns' \<and> projected vns (nodeOf (nodes w) vns) r vns')" for r w'
    using assms(1) by (auto intro!: projected_same [OF assms(2)])
  show ?case
  proof (cases "\<exists>e. g = Inl e \<or> vn_DeletionTimestamp vns \<noteq> None")
    case True
    with 1 assms(1) stay [of w1] show ?thesis by (cases g) auto
  next
    case False
    then have live: "vn_DeletionTimestamp vns = None" by simp
    with False 1 assms(1) have g: "g = Inr vns" by (cases g) auto
    have w1: "vnss w1 = vnss w" "nodes w1 = nodes w" using 1 by simp_all
    have wf: "node_wf (nodeOf (nodes w) vns)" using assms(3) by (simp add: nodeOf_def node_wf_def)
    show ?thesis
      unfolding g sum.case live simp_thms if_False wp_bind
    proof (rule wp_mono [OF wp_desired], goal_cases)
      case (1 d w2)
      show ?case
      proof (cases d)
        case (Inl e)
        with 1 w1 stay [of w2] show ?thesis by simp
      next
        case (Inr x)
        with 1 w1 have x: "x\<lparr>vn_Status := updateConditions now (vn_Status x)\<rparr> = vns\<lparr>vn_Status := desiredStatus now vns (nodeOf (nodes w) vns)\<rparr>"
          "vnss w2 = vnss w" "nodes w2 = nodes w" by simp_all
        show ?thesis
        proof (cases "statusEqual (vn_Status vns) (desiredStatus now vns (nodeOf (nodes w) vns))")
          case True
          then have "reflects vns (nodeOf (nodes w) vns) (vn_Status vns)" using statusEqual_desired [OF assms(2)] by simp
          with live have "projected vns (nodeOf (nodes w) vns) r vns" for r using projected_same [OF assms(2)] by simp
          with True Inr x assms(1) show ?thesis by simp
        next
          case False
          note written = wp_write [of w2 n vns _ now, OF _ assms(2) wf live False]
          have "wp (do { u \<leftarrow> v_Status E (vns\<lparr>vn_Status := desiredStatus now vns (nodeOf (nodes w) vns)\<rparr>);
              State_Monad.return (case u of Inl e \<Rightarrow> Inl (Wrap ''update VirtualNodeState status'' (KubeErr e))
                | Inr _ \<Rightarrow> Inr (RequeueAfter (vnsRequeueAfter cfg))) }) (\<lambda>r w'. nodes w' = nodes w \<and> (\<forall>m. m \<noteq> n \<longrightarrow> vnss w' m = vnss w m) \<and>
              (\<exists>vns'. vnss w' n = Some vns' \<and> projected vns (nodeOf (nodes w) vns) r vns')) w2"
            unfolding wp_bind wp_return
            by (rule wp_mono [OF written]) (use x assms(1) in \<open>auto split: sum.splits\<close>)
          with False Inr x show ?thesis by simp
        qed
      qed
    qed
  qed
qed

lemma wp_requestsForNode:
  "wp (requestsForNode E name) (\<lambda>ns w'. vnss w' = vnss w \<and> nodes w' = nodes w \<and> (ns = [] \<or>
     (\<forall>n. n \<in> set ns \<longleftrightarrow> (\<exists>vns. vnss w n = Some vns \<and> nodeNameFor vns = name)))) w"
  unfolding requestsForNode_def wp_bind wp_return
  by (rule wp_mono [OF list_law]) (use named in \<open>auto simp: image_iff split: sum.splits\<close>)

end

section \<open>An API server\<close>

text \<open>The objects are a list, the nodes a second one; writes keep the names.\<close>

type_synonym vns_mem = "VirtualNodeState list \<times> ClusterNode list"

definition memVns :: "vns_mem \<Rightarrow> string \<Rightarrow> VirtualNodeState option" where
  "memVns w n = find (\<lambda>x. vn_Name x = n) (fst w)"

definition memNodes :: "vns_mem \<Rightarrow> string \<Rightarrow> ClusterNode option" where
  "memNodes w n = find (\<lambda>x. cn_Name x = n) (snd w)"

definition memVnsEnv :: "vns_mem vns_env" where
  "memVnsEnv = \<lparr>
     v_Get = (\<lambda>n. State (\<lambda>w. (case memVns w n of None \<Rightarrow> Inl KNotFound | Some x \<Rightarrow> Inr x, w))),
     v_GetNode = (\<lambda>n. State (\<lambda>w. (case memNodes w n of None \<Rightarrow> Inl KNotFound | Some x \<Rightarrow> Inr x, w))),
     v_Status = (\<lambda>x. State (\<lambda>w. case memVns w (vn_Name x) of
        None \<Rightarrow> (Inl KNotFound, w)
      | Some _ \<Rightarrow> (Inr (), (map (\<lambda>y. if vn_Name y = vn_Name x then y\<lparr>vn_Status := vn_Status x\<rparr> else y) (fst w), snd w)))),
     v_List = State (\<lambda>w. (Inr (filter (\<lambda>x. memVns w (vn_Name x) = Some x) (fst w)), w))\<rparr>"

lemma memVns_name: "memVns w n = Some x \<Longrightarrow> vn_Name x = n"
  by (auto simp: memVns_def find_Some_iff)

lemma memVns_in: "memVns w n = Some x \<Longrightarrow> x \<in> set (fst w)"
  by (auto simp: memVns_def find_Some_iff)

lemma memVns_status:
  "memVns (map (\<lambda>y. if vn_Name y = n then y\<lparr>vn_Status := st\<rparr> else y) xs, ns) m =
     map_option (\<lambda>y. if vn_Name y = n then y\<lparr>vn_Status := st\<rparr> else y) (memVns (xs, ns') m)"
  by (induction xs) (auto simp: memVns_def)

interpretation memVns: vns_world memVnsEnv memVns memNodes
proof (unfold_locales, goal_cases)
  case (4 x w)
  have "memVns (map (\<lambda>y. if vn_Name y = vn_Name x then y\<lparr>vn_Status := vn_Status x\<rparr> else y) (fst w), snd w) =
      (memVns w)(vn_Name x \<mapsto> cur\<lparr>vn_Status := vn_Status x\<rparr>)" if "memVns w (vn_Name x) = Some cur" for cur
  proof
    fix m
    show "memVns (map (\<lambda>y. if vn_Name y = vn_Name x then y\<lparr>vn_Status := vn_Status x\<rparr> else y) (fst w), snd w) m =
        ((memVns w)(vn_Name x \<mapsto> cur\<lparr>vn_Status := vn_Status x\<rparr>)) m"
      unfolding memVns_status [where ns' = "snd w"]
      using that memVns_name [OF that] memVns_name [of w m] by (cases "memVns w m") (auto simp: fun_upd_def)
  qed
  then show ?case by (auto simp: memVnsEnv_def wp_def memNodes_def split: option.splits)
qed (auto simp: memVnsEnv_def wp_def dest: memVns_name memVns_in split: option.splits)

section \<open>Properties\<close>

text \<open>
  C21. Virtual nodes as the Cluster Autoscaler sees them. A run of the reconciler that ends by asking
  to be called again leaves in the object a status that reflects the node it found: the phase is
  Running exactly for a Ready node that is not being deleted, provider ID and allocatable
  resources are shown only then, and the Ready and Failed conditions agree with the phase. The
  run writes nothing for an object being deleted nor for one whose status already reflects the
  node, and never touches another object.
\<close>

theorem virtual_node_projection:
  assumes "vns_world E vnss nodes" and "vnss w n = Some vns" and "cond_wf (vn_Conditions (vn_Status vns))"
    and "\<And>m. node_wf (nodes w m)" and "run_state (reconcileVirtualNodeState now cfg E n) w = (r, w')"
  shows "nodes w' = nodes w \<and> (\<forall>m. m \<noteq> n \<longrightarrow> vnss w' m = vnss w m) \<and>
    (\<exists>vns'. vnss w' n = Some vns' \<and> projected vns (nodeOf (nodes w) vns) r vns')"
  using wp_run [OF vns_world.wp_reconcile [OF assms(1-4)] assms(5)] by blast

definition exampleVns :: VirtualNodeState where
  "exampleVns = \<lparr>vn_Name = ''vns'', vn_Generation = 1, vn_DeletionTimestamp = None,
     vn_Spec = \<lparr>vn_ProviderClusterID = ''p'', vn_ProviderLiqoClusterID = ''liqo-p'', vn_SpecResourceSliceName = ''slice'',
       vn_NodeGroupID = ''ng'', vn_ChunkIndex = 0, vn_ReservationID = ''r'', vn_Resources = []\<rparr>,
     vn_Status = \<lparr>vn_ObservedGeneration = 0, vn_Phase = '''', vn_VirtualNodeName = '''', vn_ProviderID = '''', vn_ResourceSliceName = '''',
       vn_Allocatable = [], vn_LastTransitionTime = None, vn_Message = text_msg '''', vn_Conditions = []\<rparr>\<rparr>"

definition exampleNode :: ClusterNode where
  "exampleNode = \<lparr>cn_Name = ''slice'', cn_Annotations = [], cn_DeletionTimestamp = None, cn_Conditions = [(''Ready'', ''True'')],
     cn_ProviderID = ''liqo://slice'', cn_Allocatable = [(ResourceCPU, 2)]\<rparr>"

theorem virtual_node_projection_witness:
  "\<exists>vns'. memVns (snd (run_state (reconcileVirtualNodeState 7 0 memVnsEnv ''vns'') ([exampleVns], [exampleNode]))) ''vns'' = Some vns' \<and>
     vn_Phase (vn_Status vns') = PhaseRunning \<and> vn_ProviderID (vn_Status vns') = ''liqo://slice'' \<and>
     vn_VirtualNodeName (vn_Status vns') = ''slice''"
proof -
  let ?m = "reconcileVirtualNodeState 7 0 memVnsEnv ''vns''" and ?w = "([exampleVns], [exampleNode])"
  have vns: "memVns ?w ''vns'' = Some exampleVns" by (simp add: memVns_def exampleVns_def)
  have wf: "cond_wf (vn_Conditions (vn_Status exampleVns))" by (simp add: exampleVns_def cond_wf_def)
  have nodes: "node_wf (memNodes ?w m)" for m by (simp add: node_wf_def memNodes_def exampleNode_def)
  have node: "nodeOf (memNodes ?w) exampleVns = Some exampleNode"
    by (simp add: nodeOf_def nodeNameFor_def exampleVns_def memNodes_def exampleNode_def)
  have ends: "fst (run_state ?m ?w) = Inr (RequeueAfter (30 * 10 ^ 9))" by code_simp
  from virtual_node_projection [OF memVns.vns_world_axioms vns wf nodes surjective_pairing]
  obtain vns' where "memVns (snd (run_state ?m ?w)) ''vns'' = Some vns'"
    "projected exampleVns (Some exampleNode) (fst (run_state ?m ?w)) vns'"
    unfolding node by blast
  moreover from this(2) have "reflects vns' (Some exampleNode) (vn_Status vns')" and vns': "vns' = exampleVns\<lparr>vn_Status := vn_Status vns'\<rparr>"
    unfolding projected_def ends by blast+
  moreover have "expected (exampleVns\<lparr>vn_Status := vn_Status vns'\<rparr>) (Some exampleNode) =
      (PhaseRunning, text_msg ''Liqo virtual node is ready'', ''slice'', ''liqo://slice'', [(ResourceCPU, 2)])"
    by (simp add: expected_def exampleVns_def exampleNode_def nodeNameFor_def nodeReady_def Let_def)
  ultimately show ?thesis unfolding reflects_def vns' [symmetric] by simp
qed

text \<open>
  The watch on nodes. The objects a node event enqueues are, unless the list fails or none
  exists, exactly those whose run would read that node.
\<close>

theorem node_events_reach_their_objects:
  assumes "vns_world E vnss nodes" and "run_state (requestsForNode E name) w = (ns, w')" and "ns \<noteq> []"
  shows "vnss w' = vnss w \<and> (n \<in> set ns \<longleftrightarrow> (\<exists>vns. vnss w n = Some vns \<and> nodeNameFor vns = name))"
  using wp_run [OF vns_world.wp_requestsForNode [OF assms(1)] assms(2)] assms(3) by blast

theorem node_events_reach_their_objects_witness:
  "''vns'' \<in> set (fst (run_state (requestsForNode memVnsEnv ''slice'') ([exampleVns], [exampleNode])))"
proof -
  have "fst (run_state (requestsForNode memVnsEnv ''slice'') ([exampleVns], [exampleNode])) \<noteq> []" by code_simp
  from node_events_reach_their_objects [OF memVns.vns_world_axioms surjective_pairing this, of "''vns''"] show ?thesis
    by (simp add: memVns_def nodeNameFor_def exampleVns_def)
qed

end
