(* ===== verification/Middleware.thy ===== *)
theory Middleware
  imports ReservationApi
begin

text \<open>
  The front of the Broker: \<^verbatim>\<open>internal/broker/api/middleware.go\<close>, the identity part of \<^verbatim>\<open>tls.go\<close> and the
  routes of \<^verbatim>\<open>server.go\<close>. A request passes panic recovery, request identification, logging, the
  extraction of the caller from its certificate and a rate limiter per caller before it reaches
  the handlers of the other theories.
\<close>

section \<open>Requests\<close>

text \<open>
  \<open>ht_TLS\<close> holds the verified chains of the connection, each a list of the common names of its
  certificates from the leaf on. \<open>ht_ClusterID\<close> is the value the context carries. The body is
  given by what the JSON decoder makes of it for each of the expected types; \<open>ht_Now\<close> and
  \<open>ht_UUID\<close> are the time and the fresh identifier the request will see.
\<close>

datatype http_method = GET | HEAD | POST | DELETE | OtherMethod

record http_body =
  hbody_Advertisement :: "message + AdvertisementRequest"
  hbody_Heartbeat :: "message + HeartbeatRequest"
  hbody_Reservation :: "message + ReservationRequest"
  hbody_Result :: "message + InstructionResultRequest"

record http_request =
  ht_Method :: http_method
  ht_Path :: "string list"
  ht_Chunks :: string
  ht_TLS :: "string list list option"
  ht_RequestID :: string
  ht_ReservationID :: string
  ht_Body :: http_body
  ht_ClusterID :: string
  ht_Now :: Time
  ht_UUID :: string

text \<open>An answer in JSON, or one of the plain texts of \<^verbatim>\<open>ServeMux\<close>.\<close>

datatype 'a served = Reply "'a response" | PlainText nat

record logLine =
  lg_RequestID :: string
  lg_Status :: nat
  lg_ClusterID :: string

text \<open>
  What the layers share: the Broker behind them, the limiters by caller, the log, and the header
  \<^verbatim>\<open>X-Request-Id\<close> of the request and of the response, both of which are mutable in Go.
\<close>

record ('l, 'b) front =
  fr_Broker :: 'b
  fr_Limiters :: "string \<Rightarrow> 'l option"
  fr_Log :: "logLine list"
  fr_RequestHeader :: string
  fr_ResponseHeader :: string

text \<open>A handler answers, or panics with a value (\<open>Inl\<close>).\<close>

type_synonym ('l, 'b, 'a) handler = "http_request \<Rightarrow> (('l, 'b) front, message + 'a served) state"
type_synonym ('l, 'b, 'a) middleware = "('l, 'b, 'a) handler \<Rightarrow> ('l, 'b, 'a) handler"

section \<open>Identity (tls.go)\<close>

definition ExtractClusterID :: "string list list option \<Rightarrow> message + string" where
  "ExtractClusterID st = (case st of
     None \<Rightarrow> Inl (text_msg ''tls: no connection state on request'')
   | Some cs \<Rightarrow>
       if cs = [] \<or> hd cs = [] then Inl (text_msg ''tls: no verified peer certificate'')
       else (let cn = hd (hd cs)
             in if cn = '''' then Inl (text_msg ''tls: peer certificate Subject.CN is empty'') else Inr cn))"

section \<open>The layers\<close>

definition chain :: "('l, 'b, 'a) handler \<Rightarrow> ('l, 'b, 'a) middleware list \<Rightarrow> ('l, 'b, 'a) handler" where
  "chain h mws = fold (\<lambda>mw h. mw h) (rev mws) h"

definition getFront :: "(('l, 'b) front \<Rightarrow> 'c) \<Rightarrow> (('l, 'b) front, 'c) state" where
  "getFront f = State (\<lambda>s. (f s, s))"

definition modFront :: "(('l, 'b) front \<Rightarrow> ('l, 'b) front) \<Rightarrow> (('l, 'b) front, unit) state" where
  "modFront f = State (\<lambda>s. ((), f s))"

definition RecoverMiddleware :: "('l, 'b, 'a) middleware" where
  "RecoverMiddleware h = (\<lambda>r. do {
     x \<leftarrow> h r;
     State_Monad.return (case x of
       Inl _ \<Rightarrow> Inr (Reply (writeError 500 InternalError (text_msg ''internal server error'')))
     | Inr a \<Rightarrow> Inr a) })"

definition RequestIDMiddleware :: "('l, 'b, 'a) middleware" where
  "RequestIDMiddleware h = (\<lambda>r. do {
     hdr \<leftarrow> getFront fr_RequestHeader;
     let rid = (if hdr = '''' then ht_UUID r else hdr);
     _ \<leftarrow> modFront (fr_RequestHeader_update (\<lambda>_. rid));
     _ \<leftarrow> modFront (fr_ResponseHeader_update (\<lambda>_. rid));
     h r })"

fun served_status :: "'a served \<Rightarrow> nat" where
  "served_status (Reply r) = response_status r"
| "served_status (PlainText st) = st"

text \<open>
  The line is written after the inner handler has returned, so not after a panic, and its caller
  is read from the context of the outer request.
\<close>

definition LoggerMiddleware :: "('l, 'b, 'a) middleware" where
  "LoggerMiddleware h = (\<lambda>r. do {
     rid \<leftarrow> getFront fr_RequestHeader;
     x \<leftarrow> h r;
     (case x of
        Inl p \<Rightarrow> State_Monad.return (Inl p)
      | Inr a \<Rightarrow> do {
          _ \<leftarrow> modFront (fr_Log_update (\<lambda>l. l @ [\<lparr>lg_RequestID = rid, lg_Status = served_status a, lg_ClusterID = ht_ClusterID r\<rparr>]));
          State_Monad.return (Inr a) }) })"

definition ClusterIDMiddleware :: "('l, 'b, 'a) middleware" where
  "ClusterIDMiddleware h = (\<lambda>r. case ExtractClusterID (ht_TLS r) of
     Inl err \<Rightarrow> State_Monad.return (Inr (Reply (writeError 401 Unauthenticated err)))
   | Inr clusterID \<Rightarrow> h (r\<lparr>ht_ClusterID := clusterID\<rparr>))"

record RateLimitConfig =
  rl_BurstTokens :: int
  rl_RatePerSec :: real

definition DefaultRateLimitConfig :: RateLimitConfig where
  "DefaultRateLimitConfig = \<lparr>rl_BurstTokens = 10, rl_RatePerSec = 5\<rparr>"

text \<open>\<^verbatim>\<open>golang.org/x/time/rate\<close>: a new limiter, and \<^verbatim>\<open>Allow\<close> at a time.\<close>

record 'l limiter_api =
  l_New :: "real \<Rightarrow> int \<Rightarrow> 'l"
  l_Allow :: "'l \<Rightarrow> Time \<Rightarrow> bool \<times> 'l"

definition getLimiter :: "'l limiter_api \<Rightarrow> string \<Rightarrow> (string \<Rightarrow> 'l option) \<Rightarrow> 'l" where
  "getLimiter L clusterID limiters = (case limiters clusterID of
     Some v \<Rightarrow> v
   | None \<Rightarrow> l_New L (rl_RatePerSec DefaultRateLimitConfig) (rl_BurstTokens DefaultRateLimitConfig))"

definition RateLimitMiddleware :: "'l limiter_api \<Rightarrow> ('l, 'b, 'a) middleware" where
  "RateLimitMiddleware L h = (\<lambda>r.
     if ht_ClusterID r = '''' then h r
     else do {
       (ok, l) \<leftarrow> getFront (\<lambda>s. l_Allow L (getLimiter L (ht_ClusterID r) (fr_Limiters s)) (ht_Now r));
       _ \<leftarrow> modFront (fr_Limiters_update (\<lambda>ls. ls(ht_ClusterID r \<mapsto> l)));
       if \<not> ok then State_Monad.return (Inr (Reply (writeError 429 TooManyRequests (text_msg ''per-cluster rate limit exceeded''))))
       else h r })"

definition MiddlewareChain :: "'l limiter_api \<Rightarrow> ('l, 'b, 'a) handler \<Rightarrow> ('l, 'b, 'a) handler" where
  "MiddlewareChain L h = chain h
     [RecoverMiddleware, RequestIDMiddleware, LoggerMiddleware, ClusterIDMiddleware, RateLimitMiddleware L]"

text \<open>One request: the headers start as the client sent them. A handler of the Broker sees the Broker only.\<close>

definition onBroker :: "(http_request \<Rightarrow> ('b, message + 'a served) state) \<Rightarrow> ('l, 'b, 'a) handler" where
  "onBroker h = (\<lambda>r. State (\<lambda>s. case run_state (h r) (fr_Broker s) of (x, b) \<Rightarrow> (x, s\<lparr>fr_Broker := b\<rparr>)))"

definition serveHTTP :: "'l limiter_api \<Rightarrow> (http_request \<Rightarrow> ('b, message + 'a served) state) \<Rightarrow> ('l, 'b, 'a) handler" where
  "serveHTTP L h r = do {
     _ \<leftarrow> modFront (\<lambda>s. s\<lparr>fr_RequestHeader := ht_RequestID r, fr_ResponseHeader := ''''\<rparr>);
     MiddlewareChain L (onBroker h) (r\<lparr>ht_ClusterID := ''''\<rparr>) }"

section \<open>Routes (server.go)\<close>

datatype segment = Lit string | Wild

fun matchPath :: "segment list \<Rightarrow> string list \<Rightarrow> string list option" where
  "matchPath [] [] = Some []"
| "matchPath (Lit l # ps) (x # xs) = (if l = x then matchPath ps xs else None)"
| "matchPath (Wild # ps) (x # xs) = map_option ((#) x) (matchPath ps xs)"
| "matchPath _ _ = None"

datatype endpoint =
    Healthz | AdvertisementUpsert | AdvertisementGet | Heartbeat | NodeGroupsList | ReservationCreate
  | InstructionsList | InstructionResult | ReservationGet | ReservationRelease | ReservationList

definition routes :: "(http_method \<times> segment list \<times> endpoint) list" where
  "routes =
    (let api = (\<lambda>xs. Lit ''api'' # Lit ''v1'' # xs) in
    [(GET, [Lit ''healthz''], Healthz),
     (POST, api [Lit ''advertisements''], AdvertisementUpsert),
     (GET, api [Lit ''advertisements'', Wild], AdvertisementGet),
     (POST, api [Lit ''heartbeat''], Heartbeat),
     (GET, api [Lit ''nodegroups''], NodeGroupsList),
     (POST, api [Lit ''reservations''], ReservationCreate),
     (GET, api [Lit ''instructions''], InstructionsList),
     (POST, api [Lit ''instructions'', Wild, Lit ''result''], InstructionResult),
     (GET, api [Lit ''reservations'', Wild], ReservationGet),
     (DELETE, api [Lit ''reservations'', Wild], ReservationRelease),
     (GET, api [Lit ''reservations''], ReservationList)])"

text \<open>A pattern for \<^verbatim>\<open>GET\<close> also takes \<^verbatim>\<open>HEAD\<close>; a path known under other methods only is answered with 405.\<close>

definition methodMatches :: "http_method \<Rightarrow> http_method \<Rightarrow> bool" where
  "methodMatches pat m \<longleftrightarrow> pat = m \<or> pat = GET \<and> m = HEAD"

fun muxLoop :: "(http_method \<times> segment list \<times> endpoint) list \<Rightarrow> http_method \<Rightarrow> string list \<Rightarrow> (endpoint \<times> string list) option" where
  "muxLoop [] m path = None"
| "muxLoop ((pm, pat, e) # rs) m path = (case matchPath pat path of
     Some args \<Rightarrow> if methodMatches pm m then Some (e, args) else muxLoop rs m path
   | None \<Rightarrow> muxLoop rs m path)"

definition knownPath :: "string list \<Rightarrow> bool" where
  "knownPath path \<longleftrightarrow> list_ex (\<lambda>(_, pat, _). matchPath pat path \<noteq> None) routes"

datatype answer =
    AHealth | AAdvertisement AdvertisementResponse | ASnapshot AdvertisementSnapshot | AHeartbeat HeartbeatResponse
  | ANodeGroups NodeGroupListResponse | AReservation ReservationResponse | AInstructions InstructionsResponse
  | AResult InstructionResultResponse | ARelease ReleaseResponse | AReservations ReservationListResponse

record 'w broker =
  bk_World :: 'w
  bk_Server :: Server

definition onWorld :: "('a \<Rightarrow> answer) \<Rightarrow> ('w, 'a response) state \<Rightarrow> ('w broker, answer response) state" where
  "onWorld f h = State (\<lambda>b. case run_state h (bk_World b) of (x, w) \<Rightarrow> (map_response f x, b\<lparr>bk_World := w\<rparr>))"

definition endpointHandler :: "quantity_api \<Rightarrow> (ChunkType \<Rightarrow> nat \<Rightarrow> nat) \<Rightarrow> (string \<Rightarrow> string list) \<Rightarrow> 'w kube \<Rightarrow>
    endpoint \<Rightarrow> string \<Rightarrow> http_request \<Rightarrow> Server \<Rightarrow> ('w broker, answer response) state" where
  "endpointHandler Q intn dns K e arg r srv = (case e of
     Healthz \<Rightarrow> State_Monad.return (writeJSON 200 AHealth)
   | AdvertisementUpsert \<Rightarrow> onWorld AAdvertisement (handleAdvertisementUpsert (ht_Now r) K (s_sizer srv) (ht_ClusterID r)
       (hbody_Advertisement (ht_Body r)))
   | AdvertisementGet \<Rightarrow> onWorld ASnapshot (handleAdvertisementGet K (ht_ClusterID r) arg)
   | Heartbeat \<Rightarrow> State (\<lambda>b. case handleHeartbeat (ht_Now r) (ht_ClusterID r) (hbody_Heartbeat (ht_Body r)) (s_consumers (bk_Server b)) of
       (x, cs) \<Rightarrow> (map_response AHeartbeat x, b\<lparr>bk_Server := (bk_Server b)\<lparr>s_consumers := cs\<rparr>\<rparr>))
   | NodeGroupsList \<Rightarrow> onWorld ANodeGroups (handleNodeGroupsList Q intn (ht_Now r) K srv (ht_ClusterID r))
   | ReservationCreate \<Rightarrow> onWorld AReservation (handleReservationCreate (ht_Now r) K dns (ht_UUID r) srv (ht_ClusterID r)
       (ht_ReservationID r) (hbody_Reservation (ht_Body r)))
   | InstructionsList \<Rightarrow> onWorld AInstructions (handleInstructionsList (ht_Now r) K (ht_ClusterID r))
   | InstructionResult \<Rightarrow> onWorld AResult (handleInstructionResult (ht_Now r) K (ht_ClusterID r) arg (hbody_Result (ht_Body r)))
   | ReservationGet \<Rightarrow> onWorld AReservation (handleReservationGet K (ht_ClusterID r) arg)
   | ReservationRelease \<Rightarrow> onWorld ARelease (handleReservationRelease K (ht_ClusterID r) arg (ht_Chunks r))
   | ReservationList \<Rightarrow> onWorld AReservations (handleReservationList K (ht_ClusterID r)))"

definition muxHandler :: "quantity_api \<Rightarrow> (ChunkType \<Rightarrow> nat \<Rightarrow> nat) \<Rightarrow> (string \<Rightarrow> string list) \<Rightarrow> 'w kube \<Rightarrow>
    http_request \<Rightarrow> ('w broker, message + answer served) state" where
  "muxHandler Q intn dns K r = (case muxLoop routes (ht_Method r) (ht_Path r) of
     Some (e, args) \<Rightarrow> State (\<lambda>b. case run_state (endpointHandler Q intn dns K e (case args of [] \<Rightarrow> '''' | x # _ \<Rightarrow> x) r (bk_Server b)) b of
       (x, b') \<Rightarrow> (Inr (Reply x), b'))
   | None \<Rightarrow> State_Monad.return (Inr (PlainText (if knownPath (ht_Path r) then 405 else 404))))"

section \<open>What a request does\<close>

lemma run_getFront [simp]: "run_state (getFront f) s = (f s, s)"
  by (simp add: getFront_def)

lemma run_modFront [simp]: "run_state (modFront f) s = ((), f s)"
  by (simp add: modFront_def)

lemma chain_Cons [simp]: "chain h (mw # mws) = mw (chain h mws)"
  by (simp add: chain_def)

lemma chain_Nil [simp]: "chain h [] = h"
  by (simp add: chain_def)

lemma ExtractClusterID_nonempty: "ExtractClusterID st = Inr c \<Longrightarrow> c \<noteq> ''''"
  by (auto simp: ExtractClusterID_def Let_def split: option.splits if_splits)

definition requestIDOf :: "http_request \<Rightarrow> string" where
  "requestIDOf r = (if ht_RequestID r = '''' then ht_UUID r else ht_RequestID r)"

definition recovered :: "message + 'a served \<Rightarrow> 'a served" where
  "recovered x = (case x of Inl _ \<Rightarrow> Reply (writeError 500 InternalError (text_msg ''internal server error'')) | Inr a \<Rightarrow> a)"

definition refusal :: "nat \<Rightarrow> ErrorCode \<Rightarrow> message \<Rightarrow> 'a served" where
  "refusal st code msg = Reply (writeError st code msg)"

text \<open>What the layers make of a request, given the answer \<open>x\<close> and the new state \<open>s'\<close>.\<close>

definition gated :: "'l limiter_api \<Rightarrow> (http_request \<Rightarrow> ('b, message + 'a served) state) \<Rightarrow> http_request \<Rightarrow>
    ('l, 'b) front \<Rightarrow> message + 'a served \<Rightarrow> ('l, 'b) front \<Rightarrow> bool" where
  "gated L h r s x s' = (case ExtractClusterID (ht_TLS r) of
     Inl err \<Rightarrow> x = Inr (refusal 401 Unauthenticated err) \<and> fr_Broker s' = fr_Broker s \<and> fr_Limiters s' = fr_Limiters s
   | Inr c \<Rightarrow>
      (let (ok, l) = l_Allow L (getLimiter L c (fr_Limiters s)) (ht_Now r);
           (y, b) = run_state (h (r\<lparr>ht_ClusterID := c\<rparr>)) (fr_Broker s)
       in fr_Limiters s' = (fr_Limiters s)(c \<mapsto> l) \<and>
          (if ok then x = Inr (recovered y) \<and> fr_Broker s' = b
           else x = Inr (refusal 429 TooManyRequests (text_msg ''per-cluster rate limit exceeded'')) \<and> fr_Broker s' = fr_Broker s)))"

lemma serveHTTP_run:
  assumes "run_state (serveHTTP L h r) s = (x, s')"
  shows "gated L h r s x s' \<and> fr_RequestHeader s' = requestIDOf r \<and> fr_ResponseHeader s' = requestIDOf r \<and>
    (\<exists>ls. fr_Log s' = fr_Log s @ ls \<and> (\<forall>l\<in>set ls. lg_RequestID l = requestIDOf r \<and> lg_ClusterID l = ''''))"
proof (cases "ExtractClusterID (ht_TLS r)")
  case (Inl err)
  with assms show ?thesis
    by (auto simp: serveHTTP_def MiddlewareChain_def RecoverMiddleware_def RequestIDMiddleware_def LoggerMiddleware_def
        ClusterIDMiddleware_def gated_def refusal_def requestIDOf_def Let_def)
next
  case (Inr c)
  obtain ok l where a: "l_Allow L (getLimiter L c (fr_Limiters s)) (ht_Now r) = (ok, l)" by fastforce
  obtain y b where h: "run_state (h (r\<lparr>ht_ClusterID := c\<rparr>)) (fr_Broker s) = (y, b)" by fastforce
  show ?thesis
  proof (cases ok)
    case False
    with Inr a assms ExtractClusterID_nonempty [OF Inr] show ?thesis
      by (auto simp: serveHTTP_def MiddlewareChain_def RecoverMiddleware_def RequestIDMiddleware_def LoggerMiddleware_def
          ClusterIDMiddleware_def RateLimitMiddleware_def gated_def refusal_def requestIDOf_def Let_def split: prod.splits)
  next
    case True
    with Inr a h assms ExtractClusterID_nonempty [OF Inr] show ?thesis
      by (cases y) (auto simp: serveHTTP_def MiddlewareChain_def RecoverMiddleware_def RequestIDMiddleware_def LoggerMiddleware_def
          ClusterIDMiddleware_def RateLimitMiddleware_def onBroker_def gated_def recovered_def requestIDOf_def Let_def)
  qed
qed

section \<open>Rate limiting\<close>

text \<open>
  The documented behaviour of \<^verbatim>\<open>rate.Limiter\<close>: a bucket of \<open>burst\<close> tokens, initially full, refilled at \<open>rate\<close>
  tokens per second; \<^verbatim>\<open>Allow\<close> takes one token if there is one.
\<close>

locale token_bucket =
  fixes L :: "'l limiter_api" and tokens :: "'l \<Rightarrow> Time \<Rightarrow> real" and valid :: "'l \<Rightarrow> bool" and rate :: real and burst :: int
  assumes new_valid: "valid (l_New L rate burst)"
    and bounds: "valid l \<Longrightarrow> 0 \<le> tokens l t \<and> tokens l t \<le> burst"
    and refill: "valid l \<Longrightarrow> t \<le> t' \<Longrightarrow> tokens l t' \<le> tokens l t + rate * (real_of_int (t' - t) / 10 ^ 9)"
    and allow: "valid l \<Longrightarrow> l_Allow L l t = (ok, l') \<Longrightarrow> valid l' \<and> (ok \<longrightarrow> 1 \<le> tokens l t) \<and> tokens l' t = tokens l t - of_bool ok"

primrec serveAll :: "'l limiter_api \<Rightarrow> (http_request \<Rightarrow> ('b, message + 'a served) state) \<Rightarrow> http_request list \<Rightarrow>
    (('l, 'b) front, (message + 'a served) list) state" where
  "serveAll L h [] = State_Monad.return []"
| "serveAll L h (r # rs) = do { x \<leftarrow> serveHTTP L h r; xs \<leftarrow> serveAll L h rs; State_Monad.return (x # xs) }"

text \<open>
  \<open>counts c calls h\<close>: a request of the caller \<open>c\<close> raises the observation \<open>calls\<close> of the Broker by at most
  one, a request of any other caller does not raise it.
\<close>

definition counts :: "string \<Rightarrow> ('b \<Rightarrow> nat) \<Rightarrow> (http_request \<Rightarrow> ('b, message + 'a served) state) \<Rightarrow> bool" where
  "counts c calls h \<longleftrightarrow> (\<forall>r b. wp (h r) (\<lambda>_ b'. calls b' \<le> calls b + of_bool (ht_ClusterID r = c)) b)"

lemma counts_run: "counts c calls h \<Longrightarrow> run_state (h r) b = (y, b') \<Longrightarrow> calls b' \<le> calls b + of_bool (ht_ClusterID r = c)"
  using wp_run by (fastforce simp: counts_def)

locale default_limiter = token_bucket L tokens valid "rl_RatePerSec DefaultRateLimitConfig" "rl_BurstTokens DefaultRateLimitConfig"
  for L :: "'l limiter_api" and tokens valid
begin

definition limiters_ok :: "(string \<Rightarrow> 'l option) \<Rightarrow> bool" where
  "limiters_ok ls \<longleftrightarrow> (\<forall>c l. ls c = Some l \<longrightarrow> valid l)"

definition left :: "string \<Rightarrow> ('l, 'b) front \<Rightarrow> Time \<Rightarrow> real" where
  "left c s t = tokens (getLimiter L c (fr_Limiters s)) t"

lemma getLimiter_valid: "limiters_ok ls \<Longrightarrow> valid (getLimiter L c ls)"
  using new_valid by (auto simp: getLimiter_def limiters_ok_def split: option.splits)

lemma left_bounds: "limiters_ok (fr_Limiters s) \<Longrightarrow> 0 \<le> left c s t \<and> left c s t \<le> 10"
  using bounds [OF getLimiter_valid] by (auto simp: left_def DefaultRateLimitConfig_def)

lemma left_refill: "limiters_ok (fr_Limiters s) \<Longrightarrow> t \<le> t' \<Longrightarrow> left c s t' \<le> left c s t + 5 * (real_of_int (t' - t) / 10 ^ 9)"
  using refill [OF getLimiter_valid] by (auto simp: left_def DefaultRateLimitConfig_def)

lemma limited_step:
  assumes "counts c calls h" "limiters_ok (fr_Limiters s)" "run_state (serveHTTP L h r) s = (x, s')"
  shows "limiters_ok (fr_Limiters s') \<and>
    real (calls (fr_Broker s')) + left c s' (ht_Now r) \<le> real (calls (fr_Broker s)) + left c s (ht_Now r)"
proof (cases "ExtractClusterID (ht_TLS r)")
  case (Inl err)
  with serveHTTP_run [OF assms(3)] assms(2) show ?thesis by (simp add: gated_def left_def)
next
  case (Inr d)
  obtain ok l where a: "l_Allow L (getLimiter L d (fr_Limiters s)) (ht_Now r) = (ok, l)" by fastforce
  obtain y b where h: "run_state (h (r\<lparr>ht_ClusterID := d\<rparr>)) (fr_Broker s) = (y, b)" by fastforce
  have s': "fr_Limiters s' = (fr_Limiters s)(d \<mapsto> l)" "fr_Broker s' = (if ok then b else fr_Broker s)"
    using serveHTTP_run [OF assms(3)] Inr a h by (auto simp: gated_def Let_def)
  note l = allow [OF getLimiter_valid [OF assms(2)] a]
  have "limiters_ok (fr_Limiters s')" using s' l assms(2) by (auto simp: limiters_ok_def)
  moreover have "calls (fr_Broker s') \<le> calls (fr_Broker s) + of_bool (ok \<and> d = c)"
    using s' counts_run [OF assms(1) h] by simp
  moreover have "left c s' (ht_Now r) = left c s (ht_Now r) - of_bool (ok \<and> d = c)"
    using s' l by (auto simp: left_def getLimiter_def)
  ultimately show ?thesis by (auto split: if_splits)
qed

lemma limited_run:
  assumes "counts c calls h" "limiters_ok (fr_Limiters s)" "run_state (serveAll L h rs) s = (xs, s')" "sorted (t # map ht_Now rs)"
    and "\<forall>r\<in>set rs. ht_Now r \<le> t'" "t \<le> t'"
  shows "limiters_ok (fr_Limiters s') \<and>
    real (calls (fr_Broker s')) + left c s' t' \<le> real (calls (fr_Broker s)) + left c s t + 5 * (real_of_int (t' - t) / 10 ^ 9)"
  using assms(2-)
proof (induction rs arbitrary: s xs t)
  case Nil
  then show ?case using left_refill [of s t t' c] by simp
next
  case (Cons r rs)
  obtain x s1 where x: "run_state (serveHTTP L h r) s = (x, s1)" by fastforce
  with Cons.prems(2) obtain ys where ys: "run_state (serveAll L h rs) s1 = (ys, s')" by (auto split: prod.splits)
  note step = limited_step [OF assms(1) Cons.prems(1) x]
  have "limiters_ok (fr_Limiters s') \<and> real (calls (fr_Broker s')) + left c s' t'
      \<le> real (calls (fr_Broker s1)) + left c s1 (ht_Now r) + 5 * (real_of_int (t' - ht_Now r) / 10 ^ 9)"
    using Cons.IH [OF _ ys, of "ht_Now r"] step Cons.prems by simp
  moreover have "left c s (ht_Now r) \<le> left c s t + 5 * (real_of_int (ht_Now r - t) / 10 ^ 9)"
    using left_refill [OF Cons.prems(1), of t "ht_Now r" c] Cons.prems(3) by simp
  moreover have "real_of_int (t' - ht_Now r) / 10 ^ 9 + real_of_int (ht_Now r - t) / 10 ^ 9 = real_of_int (t' - t) / 10 ^ 9"
    by (simp add: add_divide_distrib [symmetric])
  ultimately show ?case using step by linarith
qed

lemma limited_any: "limiters_ok (fr_Limiters s) \<Longrightarrow> run_state (serveAll L h rs) s = (xs, s') \<Longrightarrow> limiters_ok (fr_Limiters s')"
proof (induction rs arbitrary: s xs)
  case (Cons r rs)
  obtain x s1 where x: "run_state (serveHTTP L h r) s = (x, s1)" by fastforce
  with Cons.prems(2) obtain ys where ys: "run_state (serveAll L h rs) s1 = (ys, s')" by (auto split: prod.splits)
  have "counts '''' (\<lambda>_. 0) h" by (simp add: counts_def wp_def split: prod.splits)
  from limited_step [OF this Cons.prems(1) x] Cons.IH [OF _ ys] show ?case by simp
qed simp

end

section \<open>A limiter\<close>

record bucket =
  tb_Rate :: real
  tb_Burst :: int
  tb_Tokens :: real
  tb_Last :: Time

definition bucketTokens :: "bucket \<Rightarrow> Time \<Rightarrow> real" where
  "bucketTokens l t = min (real_of_int (tb_Burst l)) (tb_Tokens l + tb_Rate l * (real_of_int (max 0 (t - tb_Last l)) / 10 ^ 9))"

definition bucketAPI :: "bucket limiter_api" where
  "bucketAPI = \<lparr>l_New = (\<lambda>r b. \<lparr>tb_Rate = r, tb_Burst = b, tb_Tokens = real_of_int b, tb_Last = 0\<rparr>),
     l_Allow = (\<lambda>l t. if 1 \<le> bucketTokens l t then (True, l\<lparr>tb_Tokens := bucketTokens l t - 1, tb_Last := t\<rparr>) else (False, l))\<rparr>"

definition bucketValid :: "bucket \<Rightarrow> bool" where
  "bucketValid l \<longleftrightarrow> tb_Rate l = 5 \<and> tb_Burst l = 10 \<and> 0 \<le> tb_Tokens l"

interpretation bucket: default_limiter bucketAPI bucketTokens bucketValid
proof (unfold_locales, goal_cases)
  case (3 l t t')
  have "tb_Rate l * (real_of_int (max 0 (t' - tb_Last l)) / 10 ^ 9)
      \<le> tb_Rate l * (real_of_int (max 0 (t - tb_Last l)) / 10 ^ 9) + tb_Rate l * (real_of_int (t' - t) / 10 ^ 9)"
    using 3 by (simp add: bucketValid_def max_def field_simps)
  moreover have "0 \<le> tb_Rate l * (real_of_int (t' - t) / 10 ^ 9)" using 3 by (simp add: bucketValid_def)
  moreover have "rl_RatePerSec DefaultRateLimitConfig = tb_Rate l" using 3 by (simp add: bucketValid_def DefaultRateLimitConfig_def)
  moreover have "B \<le> A + D \<Longrightarrow> 0 \<le> D \<Longrightarrow> min b (k + B) \<le> min b (k + A) + D" for A B D b k :: real by linarith
  ultimately show ?case unfolding bucketTokens_def by simp
next
  case (4 l t ok l')
  then show ?case by (auto simp: bucketAPI_def bucketTokens_def bucketValid_def split: if_splits)
qed (simp_all add: bucketAPI_def bucketTokens_def bucketValid_def DefaultRateLimitConfig_def)

section \<open>Whom a request concerns\<close>

text \<open>The reservation that the instruction \<open>i\<close> names.\<close>

definition names :: "store \<Rightarrow> string \<Rightarrow> string \<Rightarrow> bool" where
  "names s i n = (case pi_at s i of
     Some p \<Rightarrow> pi_ReservationID (pi_Spec p) = n
   | None \<Rightarrow> (case ri_at s i of Some q \<Rightarrow> ri_ReservationID (ri_Spec q) = n | None \<Rightarrow> False))"

text \<open>
  The effects a caller \<open>c\<close> may have: no reservation changes its content, only those of \<open>c\<close> appear or
  disappear, and a phase moves only in a reservation of \<open>c\<close> or one that an open instruction
  addressed to \<open>c\<close> names; no other cluster's advertisement appears, disappears or changes its
  content.
\<close>

fun resv_effect :: "string \<Rightarrow> bool \<Rightarrow> Reservation option \<Rightarrow> Reservation option \<Rightarrow> bool" where
  "resv_effect c named (Some r) (Some r') \<longleftrightarrow> rs_Spec r' = rs_Spec r \<and>
     (rs_Phase (rs_Status r') = rs_Phase (rs_Status r) \<or> rs_ConsumerClusterID (rs_Spec r) = c \<or> named)"
| "resv_effect c named (Some r) None \<longleftrightarrow> rs_ConsumerClusterID (rs_Spec r) = c"
| "resv_effect c named None (Some r') \<longleftrightarrow> rs_ConsumerClusterID (rs_Spec r') = c"
| "resv_effect c named None None \<longleftrightarrow> True"

definition same_content :: "ClusterAdvertisement option \<Rightarrow> ClusterAdvertisement option \<Rightarrow> bool" where
  "same_content x x' \<longleftrightarrow> map_option ca_Spec x' = map_option ca_Spec x"

definition own_effects :: "string \<Rightarrow> store \<Rightarrow> store \<Rightarrow> bool" where
  "own_effects c s s' \<longleftrightarrow> (\<forall>n. resv_effect c (\<exists>i. addressed s i c \<and> names s i n) (resv_at s n) (resv_at s' n)) \<and>
     (\<forall>p. p \<noteq> c \<longrightarrow> same_content (adv_at s p) (adv_at s' p))"

lemma resv_effect_refl [simp]: "resv_effect c named x x"
  by (cases x) simp_all

lemma same_content_refl [simp]: "same_content x x"
  by (simp add: same_content_def)

lemma own_effects_same: "(\<And>n. resv_at s' n = resv_at s n) \<Longrightarrow> (\<And>p. p \<noteq> c \<Longrightarrow> adv_at s' p = adv_at s p) \<Longrightarrow> own_effects c s s'"
  by (simp add: own_effects_def)

lemma own_effects_refl [simp]: "own_effects c s s"
  by (rule own_effects_same) simp_all

lemma ledger_shift_specs: "ledger_shift p d s s' \<Longrightarrow> same_content (adv_at s q) (adv_at s' q)"
  by (cases "q = p") (auto simp: ledger_shift_def same_content_def)

lemma ledger_shift_own: "ledger_shift p d s s' \<Longrightarrow> (\<And>n. resv_at s' n = resv_at s n) \<Longrightarrow> own_effects c s s'"
  using ledger_shift_specs [of p d s s'] by (simp add: own_effects_def)

lemma credited_specs: "credited s r s' \<Longrightarrow> same_content (adv_at s q) (adv_at s' q)"
  by (auto simp: credited_def same_content_def split: option.splits)

lemma create_own:
  assumes "create_post n0 c req s resp s'"
  shows "own_effects c s s'"
proof (cases resp)
  case (writeError st code msg)
  with assms show ?thesis by (auto simp: create_post_def intro: ledger_shift_own split: if_splits)
next
  case (writeJSON st b)
  show ?thesis
  proof (cases "st = 201")
    case True
    with writeJSON assms have "ledger_shift (rq_ProviderClusterID req) 1 s s'" by (simp add: create_post_def)
    note shift = ledger_shift_specs [OF this]
    have "resv_effect c named (resv_at s n) (resv_at s' n)" for n named
      using writeJSON True assms by (cases "n = ro_ReservationID b") (auto simp: create_post_def reservation_for_def)
    with shift show ?thesis by (simp add: own_effects_def)
  qed (use writeJSON assms in \<open>simp add: create_post_def\<close>)
qed

lemma release_own:
  assumes "release_post c n s s'"
  shows "own_effects c s s'"
proof (cases "s' = s")
  case False
  with assms obtain r s1 where r: "resv_at s n = Some r" "c = rs_ConsumerClusterID (rs_Spec r)" "\<And>m. m \<noteq> n \<Longrightarrow> resv_at s' m = resv_at s m"
    "s1 = s \<or> credited s r s1" "\<And>q. adv_at s' q = adv_at s1 q" "\<And>r'. resv_at s' n = Some r' \<Longrightarrow> rs_Spec r' = rs_Spec r"
    unfolding release_post_def by blast
  have "same_content (adv_at s q) (adv_at s' q)" for q
    using r(4,5) credited_specs [of s r s1 q] by auto
  moreover have "resv_effect c named (resv_at s m) (resv_at s' m)" for m named
    using r(1,2,3,6) by (cases "m = n"; cases "resv_at s' m") auto
  ultimately show ?thesis by (simp add: own_effects_def)
qed simp

lemma result_own:
  assumes "\<not> addressed s i c \<Longrightarrow> s' = s" and "phase_change (result_effect s i req) s s'"
  shows "own_effects c s s'"
proof (cases "addressed s i c")
  case True
  have named: "result_effect s i req n a b \<Longrightarrow> names s i n" for n a b
    by (auto simp: result_effect_def names_def pi_effect_def ri_effect_def split: option.splits)
  have "resv_effect c (\<exists>i. addressed s i c \<and> names s i n) (resv_at s n) (resv_at s' n)" for n
  proof -
    from assms(2) have "rel_option (\<lambda>r r'. rs_Spec r' = rs_Spec r \<and> (rs_Phase (rs_Status r') = rs_Phase (rs_Status r) \<or>
        result_effect s i req n (rs_Phase (rs_Status r)) (rs_Phase (rs_Status r')))) (resv_at s n) (resv_at s' n)"
      by (simp add: phase_change_def)
    then show ?thesis using named [of n] True by cases auto
  qed
  then show ?thesis using assms(2) by (simp add: own_effects_def phase_change_def)
qed (use assms(1) in simp)

text \<open>What serving a request of \<open>c\<close> may change of the Broker.\<close>

definition concerns :: "('w \<Rightarrow> store) \<Rightarrow> string \<Rightarrow> 'w broker \<Rightarrow> 'w broker \<Rightarrow> bool" where
  "concerns objs c b b' \<longleftrightarrow> own_effects c (objs (bk_World b)) (objs (bk_World b')) \<and>
     (\<forall>d. d \<noteq> c \<longrightarrow> Lookup (s_consumers (bk_Server b')) d = Lookup (s_consumers (bk_Server b)) d)"

lemma concerns_refl [simp]: "concerns objs c b b"
  by (simp add: concerns_def)

context kube_api
begin

lemma wp_true: "wp m (\<lambda>_ _. True) w"
  by (simp add: wp_def split: prod.splits)

lemma wp_onWorld: "wp h (\<lambda>_ w'. P (objs w')) (bk_World b) \<Longrightarrow> wp (onWorld f h) (\<lambda>_ b'. P (objs (bk_World b')) \<and> bk_Server b' = bk_Server b) b"
  by (auto simp: onWorld_def wp_def split: prod.splits)

lemma wp_accept_status: "wp (acceptAdvertisement now K c req cr) (\<lambda>resp _. \<forall>st b. resp = writeJSON st b \<longrightarrow> st = 200) w"
  unfolding acceptAdvertisement_def wp_bind
proof (rule wp_mono [OF wp_true], goal_cases)
  case (1 r w1)
  show ?case
  proof (cases r)
    case (Inr a)
    show ?thesis
      unfolding Inr sum.case wp_bind wp_return
      by (rule wp_mono [OF wp_true], rule wp_mono [OF wp_true]) simp
  qed simp
qed

lemma wp_upsert_own: "wp (handleAdvertisementUpsert now K sizer c body) (\<lambda>_ w'. own_effects c (objs w) (objs w')) w"
proof -
  have "wp (handleAdvertisementUpsert now K sizer c body) (\<lambda>resp _. \<forall>st b. resp = writeJSON st b \<longrightarrow> st = 200) w"
    using wp_accept_status by (simp add: handleAdvertisementUpsert_def split: sum.split option.split list.split)
  then show ?thesis
  proof (rule wp_mono [OF wp_conj [OF wp_handleAdvertisementUpsert]], goal_cases)
    case (1 resp w')
    then show ?case by (cases resp) (auto simp: advertised_def intro: own_effects_same)
  qed
qed

lemma wp_reservation_create_own:
  assumes "\<And>p a. adv_at (objs w) p = Some a \<Longrightarrow> ledger_wf a"
  shows "wp (handleReservationCreate now K dns uuid srv c header body) (\<lambda>_ w'. own_effects c (objs w) (objs w')) w"
proof (cases body)
  case (Inl err)
  then show ?thesis by (simp add: handleReservationCreate_def)
next
  case (Inr req)
  show ?thesis
    unfolding Inr by (rule wp_mono [OF wp_handleReservationCreate]) (use assms create_own in blast)+
qed

lemma wp_instruction_result_own:
  "wp (handleInstructionResult now K c i body) (\<lambda>_ w'. own_effects c (objs w) (objs w')) w"
proof (cases body)
  case (Inl err)
  then show ?thesis by (simp add: handleInstructionResult_def)
next
  case (Inr req)
  show ?thesis
    unfolding Inr by (rule wp_mono [OF wp_handleInstructionResult]) (use result_own in blast)
qed

lemma wp_instructions_list_own: "wp (handleInstructionsList now K c) (\<lambda>_ w'. own_effects c (objs w) (objs w')) w"
  unfolding handleInstructionsList_def wp_bind wp_return
  by (rule wp_mono [OF wp_collectInstructions]) (auto simp: polled_def intro: own_effects_same)

lemma wp_reads_own:
  "wp (handleAdvertisementGet K c arg) (\<lambda>_ w'. own_effects d (objs w) (objs w')) w"
  "wp (handleReservationGet K c arg) (\<lambda>_ w'. own_effects d (objs w) (objs w')) w"
  "wp (handleNodeGroupsList Q intn now K srv c) (\<lambda>_ w'. own_effects d (objs w) (objs w')) w"
  "wp (handleReservationList K c) (\<lambda>_ w'. own_effects d (objs w) (objs w')) w"
  unfolding handleAdvertisementGet_def handleReservationGet_def
  by (auto intro!: adv.wp_get resv.wp_get wp_mono [OF wp_handleNodeGroupsList] wp_mono [OF wp_handleReservationList])

lemma wp_world_concerns:
  "wp h (\<lambda>_ w'. own_effects c (objs (bk_World b)) (objs w')) (bk_World b) \<Longrightarrow> wp (onWorld f h) (\<lambda>_ b'. concerns objs c b b') b"
  by (auto simp: concerns_def onWorld_def wp_def split: prod.splits)

lemma wp_endpoint:
  assumes "\<And>p a. adv_at (objs (bk_World b)) p = Some a \<Longrightarrow> ledger_wf a"
  shows "wp (endpointHandler Q intn dns K e arg r srv) (\<lambda>_ b'. concerns objs (ht_ClusterID r) b b') b"
proof (cases e)
  case Heartbeat
  then show ?thesis
    using heartbeat_only_own_entry
    by (auto simp: endpointHandler_def wp_def concerns_def split: prod.splits)
next
  case ReservationRelease
  have "wp (handleReservationRelease K c n q) (\<lambda>_ w'. own_effects c (objs w) (objs w')) w" for c n q w
    by (rule wp_mono [OF wp_handleReservationRelease]) (rule release_own)
  with ReservationRelease show ?thesis by (simp add: endpointHandler_def wp_world_concerns)
qed (use assms in \<open>simp_all add: endpointHandler_def wp_world_concerns wp_upsert_own wp_reservation_create_own
      wp_instruction_result_own wp_instructions_list_own wp_reads_own\<close>)

lemma wp_muxHandler:
  assumes "\<And>p a. adv_at (objs (bk_World b)) p = Some a \<Longrightarrow> ledger_wf a"
  shows "wp (muxHandler Q intn dns K r) (\<lambda>_ b'. concerns objs (ht_ClusterID r) b b') b"
proof (cases "muxLoop routes (ht_Method r) (ht_Path r)")
  case None
  then show ?thesis by (simp add: muxHandler_def)
next
  case (Some ea)
  have "wp (endpointHandler Q intn dns K e arg r srv) (\<lambda>_ b'. concerns objs (ht_ClusterID r) b b') b" for e arg srv
    using assms by (rule wp_endpoint)
  from wp_run [OF this] Some show ?thesis by (cases ea) (auto simp: muxHandler_def intro!: wpI split: prod.splits)
qed

end

section \<open>Properties\<close>

text \<open>
  The gate in front of the Broker. A request whose connection carries no verified certificate
  with a name is answered 401 and reaches neither the Broker nor a limiter; any other runs the
  handler once, under the name of the leaf certificate whatever the request says, unless the
  limiter of that name refuses it with 429; a panic becomes a 500. The answer carries the request
  identifier of the client, or a fresh one.
\<close>

theorem middleware_gate:
  "case run_state (serveHTTP L h r) s of (x, s') \<Rightarrow> gated L h r s x s' \<and> fr_ResponseHeader s' = requestIDOf r"
  using serveHTTP_run [of L h r s] by (cases "run_state (serveHTTP L h r) s") simp

text \<open>
  C26. The rate limit. Whatever requests were served before and whoever sends requests in between,
  in a window of \<open>d\<close> nanoseconds the requests of one caller have no more than \<open>10 + 5 d / 10^9\<close> effects on the
  Broker, counted by any observation one request of that caller raises by at most one and a
  request of another caller does not raise.
\<close>

theorem request_rate_bounded:
  assumes "default_limiter L tokens valid" and "counts c calls h" and "fr_Limiters s = (\<lambda>_. None)"
    and "run_state (serveAll L h rs0) s = (xs0, s0)" and "run_state (serveAll L h rs) s0 = (xs, s')"
    and "sorted (map ht_Now rs)" and "\<forall>r\<in>set rs. t \<le> ht_Now r \<and> ht_Now r \<le> t'" and "t \<le> t'"
  shows "real (calls (fr_Broker s')) \<le> real (calls (fr_Broker s0)) + 10 + 5 * (real_of_int (t' - t) / 10 ^ 9)"
proof -
  have "default_limiter.limiters_ok valid (fr_Limiters s)"
    using default_limiter.limiters_ok_def [OF assms(1)] assms(3) by simp
  note ok = default_limiter.limited_any [OF assms(1) this assms(4)]
  have "sorted (t # map ht_Now rs)" using assms(6,7) by simp
  from default_limiter.limited_run [OF assms(1,2) ok assms(5) this _ assms(8)] assms(7)
  have run: "default_limiter.limiters_ok valid (fr_Limiters s') \<and>
      real (calls (fr_Broker s')) + default_limiter.left L tokens c s' t'
        \<le> real (calls (fr_Broker s0)) + default_limiter.left L tokens c s0 t + 5 * (real_of_int (t' - t) / 10 ^ 9)" by simp
  with default_limiter.left_bounds [OF assms(1) ok, of c t] default_limiter.left_bounds [OF assms(1), of s' c t']
  show ?thesis by linarith
qed

definition countingHandler :: "http_request \<Rightarrow> (nat, message + unit served) state" where
  "countingHandler r = State (\<lambda>n. (Inr (PlainText 200), n + of_bool (ht_ClusterID r = ''c'')))"

definition exampleHttp :: http_request where
  "exampleHttp = \<lparr>ht_Method = GET, ht_Path = [''healthz''], ht_Chunks = '''', ht_TLS = Some [[''c'', ''ca'']], ht_RequestID = '''',
     ht_ReservationID = '''', ht_Body = \<lparr>hbody_Advertisement = Inl (text_msg ''''), hbody_Heartbeat = Inl (text_msg ''''),
       hbody_Reservation = Inl (text_msg ''''), hbody_Result = Inl (text_msg '''')\<rparr>,
     ht_ClusterID = '''', ht_Now = 0, ht_UUID = ''u''\<rparr>"

definition idleFront :: "'b \<Rightarrow> (bucket, 'b) front" where
  "idleFront b = \<lparr>fr_Broker = b, fr_Limiters = (\<lambda>_. None), fr_Log = [], fr_RequestHeader = '''', fr_ResponseHeader = ''''\<rparr>"

theorem request_rate_bounded_witness:
  "fr_Broker (snd (run_state (serveAll bucketAPI countingHandler (replicate 12 exampleHttp)) (idleFront 0))) \<le> 10"
proof -
  have "counts ''c'' (\<lambda>n. n) countingHandler" by (simp add: counts_def countingHandler_def wp_def)
  from request_rate_bounded [OF bucket.default_limiter_axioms this, of "idleFront 0" "[]" "[]" "idleFront 0"
      "replicate 12 exampleHttp" _ _ 0 0, OF _ _ surjective_pairing]
  show ?thesis by (simp add: idleFront_def exampleHttp_def)
qed


definition exampleBroker :: "memstore broker" where
  "exampleBroker = \<lparr>bk_World = oneProvider, bk_Server = exampleServer\<rparr>"

definition exampleCreateRequest :: http_request where
  "exampleCreateRequest = exampleHttp\<lparr>ht_Method := POST, ht_Path := [''api'', ''v1'', ''reservations''], ht_ReservationID := ''res-1'',
     ht_Body := (ht_Body exampleHttp)\<lparr>hbody_Reservation := Inr exampleResvReq\<rparr>\<rparr>"


text \<open>The patterns do not overlap: a request matches at most one of them, so their order does not matter.\<close>

fun overlap :: "segment list \<Rightarrow> segment list \<Rightarrow> bool" where
  "overlap [] [] \<longleftrightarrow> True"
| "overlap (Lit a # ps) (Lit b # qs) \<longleftrightarrow> a = b \<and> overlap ps qs"
| "overlap (_ # ps) (_ # qs) \<longleftrightarrow> overlap ps qs"
| "overlap _ _ \<longleftrightarrow> False"

lemma match_overlap: "matchPath p path \<noteq> None \<Longrightarrow> matchPath q path \<noteq> None \<Longrightarrow> overlap p q"
proof (induction p path arbitrary: q rule: matchPath.induct)
  case 1
  then show ?case by (cases q) auto
next
  case (2 l ps x xs)
  then show ?case by (cases q; cases "hd q") (auto split: if_splits)
next
  case (3 ps x xs)
  then show ?case by (cases q; cases "hd q") (auto split: if_splits)
qed auto

lemma routes_disjoint:
  "list_all (\<lambda>(m1, p1, e1). list_all (\<lambda>(m2, p2, e2). overlap p1 p2 \<longrightarrow> m1 = m2 \<longrightarrow> (p1, e1) = (p2, e2)) routes) routes"
  by code_simp

lemma routes_methods: "list_all (\<lambda>(m, _, _). m \<noteq> HEAD) routes"
  by code_simp

lemma routes_unambiguous:
  assumes "(m1, p1, e1) \<in> set routes" "(m2, p2, e2) \<in> set routes" "matchPath p1 path \<noteq> None" "matchPath p2 path \<noteq> None"
    and "methodMatches m1 m" "methodMatches m2 m"
  shows "(m1, p1, e1) = (m2, p2, e2)"
proof -
  have "m1 = m2" using assms(1,2,5,6) routes_methods by (auto simp: methodMatches_def list_all_iff)
  moreover have "m1 = m2 \<longrightarrow> (p1, e1) = (p2, e2)"
    using routes_disjoint assms(1,2) match_overlap [OF assms(3,4)] unfolding list_all_iff by blast
  ultimately show ?thesis by simp
qed

end
