(* ===== verification/Poller.thy ===== *)
theory Poller
  imports LocalApi
begin

text \<open>
  \<^verbatim>\<open>internal/agent/poller\<close>: the loop with which both agents fetch the instructions addressed to them,
  run the handler registered for each kind and report its result. Handlers are functions of the
  roles' theories; the client of the Broker, the context and the callbacks of the health probe are
  fields of the record \<open>poller\<close>.
\<close>

section \<open>The text of a message\<close>

fun codeString :: "ErrorCode \<Rightarrow> string" where
  "codeString CodeEmpty = ''''"
| "codeString InvalidRequest = ''InvalidRequest''"
| "codeString Unauthenticated = ''Unauthenticated''"
| "codeString Forbidden = ''Forbidden''"
| "codeString NotFoundCode = ''NotFound''"
| "codeString ConflictCode = ''Conflict''"
| "codeString ReservationExpired = ''ReservationExpired''"
| "codeString InsufficientCapacity = ''InsufficientCapacity''"
| "codeString TooManyRequests = ''TooManyRequests''"
| "codeString InternalError = ''InternalError''"
| "codeString UpstreamError = ''UpstreamError''"
| "codeString ServiceUnavailable = ''ServiceUnavailable''"
| "codeString TimeoutCode = ''Timeout''"

text \<open>
  \<^verbatim>\<open>fmt.Sprintf\<close> for the verbs the sources use: every verb prints its operand, \<^verbatim>\<open>%q\<close> in quotation marks
  (the escapes inside them are left out).
\<close>

fun renderFmt :: "string \<Rightarrow> (char \<Rightarrow> string) list \<Rightarrow> string" where
  "renderFmt [] as = []"
| "renderFmt (c # cs) as =
    (if c \<noteq> CHR ''%'' then c # renderFmt cs as
     else case cs of
       [] \<Rightarrow> ''%!(NOVERB)''
     | v # ds \<Rightarrow>
         if v = CHR ''%'' then CHR ''%'' # renderFmt ds as
         else case as of
           [] \<Rightarrow> ''%!'' @ v # ''(MISSING)'' @ renderFmt ds []
         | a # as' \<Rightarrow> a v @ renderFmt ds as')"

fun renderArg :: "arg \<Rightarrow> char \<Rightarrow> string" and render :: "message \<Rightarrow> string" where
  "renderArg (AStr s) v = (if v = CHR ''q'' then CHR 0x22 # s @ [CHR 0x22] else s)"
| "renderArg (AInt i) v = itoa i"
| "renderArg (ATime t) v = itoa t"
| "renderArg (ACode c) v = codeString c"
| "renderArg (AMsg m) v = render m"
| "render (Sprintf f as) = renderFmt f (map renderArg as)"

section \<open>Handlers (handler.go)\<close>

text \<open>A handler returns a result and an error, each of which may be nil, or panics.\<close>

datatype handler_outcome = Panicked message | Returned "InstructionResultRequest option" "message option"

type_synonym 'w handlerFunc = "InstructionView \<Rightarrow> ('w, handler_outcome) state"
type_synonym 'w Registry = "(string \<times> 'w handlerFunc) list"

definition NewRegistry :: "'w Registry" where
  "NewRegistry = []"

definition Register :: "string \<Rightarrow> 'w handlerFunc \<Rightarrow> 'w Registry \<Rightarrow> 'w Registry" where
  "Register kind h r = AList.update kind h r"

definition RegisterProvider :: "ProviderInstructionKind \<Rightarrow> 'w handlerFunc \<Rightarrow> 'w Registry \<Rightarrow> 'w Registry" where
  "RegisterProvider kind h r = AList.update (pi_kind_string kind) h r"

definition RegisterReservation :: "ReservationInstructionKind \<Rightarrow> 'w handlerFunc \<Rightarrow> 'w Registry \<Rightarrow> 'w Registry" where
  "RegisterReservation kind h r = AList.update (ri_kind_string kind) h r"

definition LookupHandler :: "'w Registry \<Rightarrow> string \<Rightarrow> 'w handlerFunc option" where
  "LookupHandler r kind = map_of r kind"

section \<open>The poller (poller.go)\<close>

text \<open>A callback may panic (\<open>Inl\<close>), which is recovered and ignored.\<close>

record 'w poller =
  po_Get :: "('w, goerror + InstructionsResponse) state"
  po_Post :: "string \<Rightarrow> InstructionResultRequest \<Rightarrow> ('w, goerror + unit) state"
  po_CtxErr :: "('w, bool) state"
  po_OnPollResult :: "(bool \<Rightarrow> ('w, message + unit) state) option"
  po_OnHandlerActive :: "(bool \<Rightarrow> ('w, message + unit) state) option"
  po_Registry :: "'w Registry"

definition DefaultPollInterval :: Duration where
  "DefaultPollInterval = 10 ^ 9"

definition pollInterval :: "Duration \<Rightarrow> Duration" where
  "pollInterval d = (if d \<le> 0 then DefaultPollInterval else d)"

definition notify :: "(bool \<Rightarrow> ('w, message + unit) state) option \<Rightarrow> bool \<Rightarrow> ('w, unit) state" where
  "notify cb b = (case cb of None \<Rightarrow> State_Monad.return () | Some f \<Rightarrow> do { _ \<leftarrow> f b; State_Monad.return () })"

definition safeHandle :: "'w handlerFunc \<Rightarrow> InstructionView \<Rightarrow> ('w, InstructionResultRequest option \<times> message option) state" where
  "safeHandle h i = do {
     x \<leftarrow> h i;
     State_Monad.return (case x of
       Panicked r \<Rightarrow> (None, Some (Sprintf ''handler panic: %v'' [AMsg r]))
     | Returned res err \<Rightarrow> (res, err)) }"

definition failedResult :: "ErrorCode \<Rightarrow> message \<Rightarrow> InstructionResultRequest" where
  "failedResult code msg = \<lparr>rr_Status = ResultStatusFailed, rr_Payload = None,
     rr_Error = Some \<lparr>ee_Code = codeString code, ee_Message = render msg\<rparr>\<rparr>"

definition bareSucceeded :: InstructionResultRequest where
  "bareSucceeded = \<lparr>rr_Status = ResultStatusSucceeded, rr_Payload = None, rr_Error = None\<rparr>"

definition postResult :: "'w poller \<Rightarrow> string \<Rightarrow> InstructionResultRequest \<Rightarrow> ('w, unit) state" where
  "postResult p iid r = do { _ \<leftarrow> po_Post p iid r; State_Monad.return () }"

definition outcomeResult :: "InstructionResultRequest option \<Rightarrow> message option \<Rightarrow> InstructionResultRequest" where
  "outcomeResult res err = (case err of
     Some m \<Rightarrow> failedResult InternalError m
   | None \<Rightarrow> (case res of None \<Rightarrow> bareSucceeded | Some r \<Rightarrow> r))"

definition dispatchInstruction :: "'w poller \<Rightarrow> InstructionView \<Rightarrow> ('w, unit) state" where
  "dispatchInstruction p i = do {
     _ \<leftarrow> notify (po_OnHandlerActive p) True;
     _ \<leftarrow> (case LookupHandler (po_Registry p) (iv_Kind i) of
         None \<Rightarrow> postResult p (iv_ID i) (failedResult InvalidRequest (Sprintf ''agent has no handler for kind %q'' [AStr (iv_Kind i)]))
       | Some h \<Rightarrow> do {
           (res, err) \<leftarrow> safeHandle h i;
           postResult p (iv_ID i) (outcomeResult res err) });
     notify (po_OnHandlerActive p) False }"

fun dispatchAll :: "'w poller \<Rightarrow> InstructionView list \<Rightarrow> ('w, unit) state" where
  "dispatchAll p [] = State_Monad.return ()"
| "dispatchAll p (i # is) = do {
     ended \<leftarrow> po_CtxErr p;
     if ended then State_Monad.return ()
     else do { _ \<leftarrow> dispatchInstruction p i; dispatchAll p is } }"

definition pollTick :: "'w poller \<Rightarrow> ('w, unit) state" where
  "pollTick p = do {
     resp \<leftarrow> po_Get p;
     (case resp of
        Inl _ \<Rightarrow> notify (po_OnPollResult p) False
      | Inr resp \<Rightarrow> do { _ \<leftarrow> notify (po_OnPollResult p) True; dispatchAll p (ir_Instructions resp) }) }"

text \<open>\<^verbatim>\<open>Run\<close> for a sequence of events of its \<^verbatim>\<open>select\<close>: the ticker fired (\<open>True\<close>) or the context ended.\<close>

fun pollLoop :: "'w poller \<Rightarrow> bool list \<Rightarrow> ('w, unit) state" where
  "pollLoop p [] = State_Monad.return ()"
| "pollLoop p (fired # es) = (if fired then do { _ \<leftarrow> pollTick p; pollLoop p es } else State_Monad.return ())"

definition pollRun :: "'w poller \<Rightarrow> bool list \<Rightarrow> ('w, unit) state" where
  "pollRun p es = do { _ \<leftarrow> pollTick p; pollLoop p es }"

section \<open>What is reported\<close>

lemma wp_return_fun: "wp (State_Monad.return a) Q = Q a"
  by (rule ext) simp

lemma render_nonempty: "c \<noteq> CHR ''%'' \<Longrightarrow> render (Sprintf (c # cs) as) \<noteq> ''''"
  by simp

text \<open>The result the poller reports for an outcome of a handler.\<close>

definition reportOf :: "handler_outcome \<Rightarrow> InstructionResultRequest" where
  "reportOf x = (case x of
     Panicked r \<Rightarrow> failedResult InternalError (Sprintf ''handler panic: %v'' [AMsg r])
   | Returned res err \<Rightarrow> outcomeResult res err)"

text \<open>An outcome whose report the Broker accepts: an error has a text, a result is valid.\<close>

fun good_outcome :: "handler_outcome \<Rightarrow> bool" where
  "good_outcome (Panicked _) \<longleftrightarrow> True"
| "good_outcome (Returned _ (Some m)) \<longleftrightarrow> render m \<noteq> ''''"
| "good_outcome (Returned (Some r) None) \<longleftrightarrow> validateInstructionResult r = None"
| "good_outcome (Returned None None) \<longleftrightarrow> True"

lemma failedResult_valid: "render m \<noteq> '''' \<Longrightarrow> validateInstructionResult (failedResult code m) = None"
  by (simp add: validateInstructionResult_def failedResult_def)

lemma report_valid: "good_outcome x \<Longrightarrow> validateInstructionResult (reportOf x) = None"
  by (cases x rule: good_outcome.cases)
    (auto simp: reportOf_def outcomeResult_def bareSucceeded_def validateInstructionResult_def failedResult_def)

lemma outcomeResult_err: "outcomeResult res (Some m) = failedResult InternalError m"
  by (simp add: outcomeResult_def)

text \<open>The reports an instruction may get.\<close>

definition reportable :: "'w Registry \<Rightarrow> InstructionView \<Rightarrow> InstructionResultRequest \<Rightarrow> bool" where
  "reportable reg i r = (case LookupHandler reg (iv_Kind i) of
     None \<Rightarrow> r = failedResult InvalidRequest (Sprintf ''agent has no handler for kind %q'' [AStr (iv_Kind i)])
   | Some h \<Rightarrow> (\<exists>w. r = reportOf (fst (run_state (h i) w))))"

text \<open>
  What the poller relies on: of its client, that a call posts one result; of its callbacks and
  handlers, that they post none; the handlers' outcomes are good. \<open>posts\<close> are the results sent, \<open>active\<close>
  counts the handlers the health probe takes for running.
\<close>

locale poller_world =
  fixes p :: "'w poller" and posts :: "'w \<Rightarrow> (string \<times> InstructionResultRequest) list" and active :: "'w \<Rightarrow> int"
  assumes get_law: "wp (po_Get p) (\<lambda>_ w'. posts w' = posts w \<and> active w' = active w) w"
    and post_law: "wp (po_Post p i r) (\<lambda>_ w'. posts w' = posts w @ [(i, r)] \<and> active w' = active w) w"
    and ctx_law: "wp (po_CtxErr p) (\<lambda>_ w'. posts w' = posts w \<and> active w' = active w) w"
    and poll_law: "po_OnPollResult p = Some f \<Longrightarrow> wp (f b) (\<lambda>_ w'. posts w' = posts w \<and> active w' = active w) w"
    and active_law: "po_OnHandlerActive p = Some f \<Longrightarrow> (b \<Longrightarrow> 0 \<le> active w) \<Longrightarrow> (\<not> b \<Longrightarrow> 0 < active w) \<Longrightarrow>
      wp (f b) (\<lambda>_ w'. posts w' = posts w \<and> active w' = active w + (if b then 1 else - 1)) w"
    and handler_law: "LookupHandler (po_Registry p) k = Some h \<Longrightarrow>
      wp (h j) (\<lambda>x w'. posts w' = posts w \<and> active w' = active w \<and> good_outcome x) w"
begin

lemma wp_notify_poll: "wp (notify (po_OnPollResult p) b) (\<lambda>_ w'. posts w' = posts w \<and> active w' = active w) w"
  by (cases "po_OnPollResult p") (simp_all add: notify_def wp_return_fun poll_law)

lemma wp_notify_active:
  "(b \<Longrightarrow> 0 \<le> active w) \<Longrightarrow> (\<not> b \<Longrightarrow> po_OnHandlerActive p \<noteq> None \<Longrightarrow> 0 < active w) \<Longrightarrow> wp (notify (po_OnHandlerActive p) b) (\<lambda>_ w'. posts w' = posts w \<and>
     active w' = active w + (case po_OnHandlerActive p of None \<Rightarrow> 0 | Some _ \<Rightarrow> if b then 1 else - 1)) w"
  using active_law by (cases "po_OnHandlerActive p") (simp_all add: notify_def wp_return_fun)

lemma wp_postResult: "wp (postResult p i r) (\<lambda>_ w'. posts w' = posts w @ [(i, r)] \<and> active w' = active w) w"
  using post_law by (simp add: postResult_def wp_return_fun)

lemma wp_safeHandle:
  assumes "LookupHandler (po_Registry p) (iv_Kind i) = Some h"
  shows "wp (do { (res, err) \<leftarrow> safeHandle h i; postResult p (iv_ID i) (outcomeResult res err) })
    (\<lambda>_ w'. active w' = active w \<and> (\<exists>r. posts w' = posts w @ [(iv_ID i, r)] \<and> reportable (po_Registry p) i r \<and>
       validateInstructionResult r = None)) w"
proof -
  obtain x w1 where x: "run_state (h i) w = (x, w1)" by fastforce
  from wp_run [OF handler_law [OF assms] x] have w1: "posts w1 = posts w" "active w1 = active w" "good_outcome x" by simp_all
  have r: "reportable (po_Registry p) i (reportOf x)"
    using assms x by (auto simp: reportable_def intro!: exI [of _ w])
  have "wp (postResult p (iv_ID i) (reportOf x)) (\<lambda>_ w'. active w' = active w \<and> (\<exists>r. posts w' = posts w @ [(iv_ID i, r)] \<and>
      reportable (po_Registry p) i r \<and> validateInstructionResult r = None)) w1"
    by (rule wp_mono [OF wp_postResult]) (use w1 r report_valid [OF w1(3)] in auto)
  then show ?thesis
    using x by (auto simp: safeHandle_def wp_def reportOf_def outcomeResult_err split: handler_outcome.splits)
qed

lemma wp_dispatch:
  assumes "0 \<le> active w"
  shows "wp (dispatchInstruction p i) (\<lambda>_ w'. active w' = active w \<and> (\<exists>r. posts w' = posts w @ [(iv_ID i, r)] \<and>
     reportable (po_Registry p) i r \<and> validateInstructionResult r = None)) w"
  unfolding dispatchInstruction_def wp_bind [of "notify _ _"]
proof (rule wp_mono [OF wp_notify_active], goal_cases)
  case (3 u w1)
  let ?n = "case po_OnHandlerActive p of None \<Rightarrow> 0 | Some _ \<Rightarrow> (1::int)"
  let ?body = "case LookupHandler (po_Registry p) (iv_Kind i) of
         None \<Rightarrow> postResult p (iv_ID i) (failedResult InvalidRequest (Sprintf ''agent has no handler for kind %q'' [AStr (iv_Kind i)]))
       | Some h \<Rightarrow> do { (res, err) \<leftarrow> safeHandle h i; postResult p (iv_ID i) (outcomeResult res err) }"
  have "wp ?body (\<lambda>_ w2. active w2 = active w1 \<and> (\<exists>r. posts w2 = posts w1 @ [(iv_ID i, r)] \<and>
      reportable (po_Registry p) i r \<and> validateInstructionResult r = None)) w1"
  proof (cases "LookupHandler (po_Registry p) (iv_Kind i)")
    case None
    then show ?thesis
      by (auto simp: reportable_def failedResult_valid intro!: wp_mono [OF wp_postResult])
  next
    case (Some h)
    from wp_safeHandle [OF this] show ?thesis unfolding Some by simp
  qed
  then show ?case
    unfolding wp_bind
  proof (rule wp_mono, goal_cases)
    case (1 v w2)
    have "po_OnHandlerActive p \<noteq> None \<Longrightarrow> 0 < active w2"
      using 1 3 assms by (auto split: option.splits)
    then show ?case
      by (intro wp_mono [OF wp_notify_active]) (use 1 3 in \<open>auto split: option.splits\<close>)
  qed
qed (use assms in simp_all)

lemma open_ctx: "wp (po_CtxErr p) (\<lambda>ended _. (\<forall>w. \<not> fst (run_state (po_CtxErr p) w)) \<longrightarrow> \<not> ended) w"
  by (auto intro!: wpI dest!: spec [of _ w])

lemma wp_dispatchAll:
  "0 \<le> active w \<Longrightarrow> wp (dispatchAll p is) (\<lambda>_ w'. active w' = active w \<and> (\<exists>k rs. k \<le> length is \<and> posts w' = posts w @ rs \<and>
     list_all2 (\<lambda>i (iid, r). iid = iv_ID i \<and> reportable (po_Registry p) i r \<and> validateInstructionResult r = None) (take k is) rs \<and>
     ((\<forall>w. \<not> fst (run_state (po_CtxErr p) w)) \<longrightarrow> k = length is))) w"
proof (induction "is" arbitrary: w)
  case (Cons i "is")
  show ?case
    unfolding dispatchAll.simps wp_bind
  proof (rule wp_mono [OF wp_conj [OF ctx_law open_ctx]], goal_cases)
    case (1 ended w1)
    show ?case
    proof (cases ended)
      case True
      with 1 show ?thesis by (auto intro!: exI [of _ 0])
    next
      case False
      have "wp (dispatchInstruction p i) (\<lambda>_ w2. active w2 = active w \<and> (\<exists>r. posts w2 = posts w @ [(iv_ID i, r)] \<and>
          reportable (po_Registry p) i r \<and> validateInstructionResult r = None)) w1"
        using wp_dispatch [of w1 i] 1 Cons.prems by simp
      then show ?thesis
        unfolding if_not_P [OF False] wp_bind
      proof (rule wp_mono, goal_cases)
        case (1 u w2)
        then obtain r where r: "active w2 = active w" "posts w2 = posts w @ [(iv_ID i, r)]"
          "reportable (po_Registry p) i r" "validateInstructionResult r = None" by blast
        have "0 \<le> active w2" using r Cons.prems by simp
        then show ?case
        proof (rule wp_mono [OF Cons.IH], goal_cases)
          case (1 v w3)
          then obtain k rs where k: "active w3 = active w2" "k \<le> length is" "posts w3 = posts w2 @ rs"
            "list_all2 (\<lambda>i (iid, r). iid = iv_ID i \<and> reportable (po_Registry p) i r \<and> validateInstructionResult r = None) (take k is) rs"
            "(\<forall>w. \<not> fst (run_state (po_CtxErr p) w)) \<longrightarrow> k = length is" by blast
          with r show ?case by (intro conjI exI [of _ "Suc k"] exI [of _ "(iv_ID i, r) # rs"]) auto
        qed
      qed
    qed
  qed
qed simp

lemma wp_pollTick:
  assumes "0 \<le> active w"
  shows "wp (pollTick p) (\<lambda>_ w'. active w' = active w \<and> (case fst (run_state (po_Get p) w) of
      Inl _ \<Rightarrow> posts w' = posts w
    | Inr resp \<Rightarrow> (\<exists>k rs. k \<le> length (ir_Instructions resp) \<and> posts w' = posts w @ rs \<and>
       list_all2 (\<lambda>i (iid, r). iid = iv_ID i \<and> reportable (po_Registry p) i r \<and> validateInstructionResult r = None)
         (take k (ir_Instructions resp)) rs \<and>
       ((\<forall>w. \<not> fst (run_state (po_CtxErr p) w)) \<longrightarrow> k = length (ir_Instructions resp))))) w"
proof -
  obtain g w1 where g: "run_state (po_Get p) w = (g, w1)" by fastforce
  from wp_run [OF get_law g] have w1: "posts w1 = posts w" "active w1 = active w" by simp_all
  let ?Q = "\<lambda>_ w'. active w' = active w \<and> (case g of
      Inl _ \<Rightarrow> posts w' = posts w
    | Inr resp \<Rightarrow> (\<exists>k rs. k \<le> length (ir_Instructions resp) \<and> posts w' = posts w @ rs \<and>
       list_all2 (\<lambda>i (iid, r). iid = iv_ID i \<and> reportable (po_Registry p) i r \<and> validateInstructionResult r = None)
         (take k (ir_Instructions resp)) rs \<and>
       ((\<forall>w. \<not> fst (run_state (po_CtxErr p) w)) \<longrightarrow> k = length (ir_Instructions resp))))"
  have "wp (case g of Inl _ \<Rightarrow> notify (po_OnPollResult p) False
      | Inr resp \<Rightarrow> do { _ \<leftarrow> notify (po_OnPollResult p) True; dispatchAll p (ir_Instructions resp) }) ?Q w1"
  proof (cases g)
    case (Inl e)
    then show ?thesis using w1 by (auto intro!: wp_mono [OF wp_notify_poll])
  next
    case (Inr resp)
    show ?thesis
      unfolding Inr sum.case wp_bind
    proof (rule wp_mono [OF wp_notify_poll], goal_cases)
      case (1 u w2)
      with w1 assms show ?case using wp_dispatchAll [of w2 "ir_Instructions resp"] by simp
    qed
  qed
  then show ?thesis using g by (simp add: pollTick_def wp_def)
qed

lemma wp_pollLoop_active: "0 \<le> active w \<Longrightarrow> wp (pollLoop p es) (\<lambda>_ w'. active w' = active w) w"
proof (induction es arbitrary: w)
  case (Cons e es)
  show ?case
  proof (cases e)
    case True
    have "wp (pollTick p) (\<lambda>_ w'. active w' = active w) w"
      by (rule wp_mono [OF wp_pollTick [OF Cons.prems]]) simp
    then show ?thesis
      unfolding pollLoop.simps if_P [OF True] wp_bind
    proof (rule wp_mono, goal_cases)
      case (1 u w1)
      with Cons.IH [of w1] Cons.prems show ?case by simp
    qed
  qed simp
qed simp

end

end
