(* ===== verification/Probe.thy ===== *)
theory Probe
  imports Poller
begin

text \<open>
  \<^verbatim>\<open>internal/agent/health/probe.go\<close>: the readiness gate of an agent. The poller and the loops of the role
  report their contacts with the Broker and bracket each handler; the gate is open while a contact is
  recent, or while a handler runs that has not run for too long.
\<close>

section \<open>The probe\<close>

definition DefaultPollStaleAfter :: Duration where
  "DefaultPollStaleAfter = 30 * 10 ^ 9"

definition DefaultMaxHandlerInFlight :: Duration where
  "DefaultMaxHandlerInFlight = 15 * 60 * 10 ^ 9"

text \<open>Times are Unix nanoseconds; 0 stands for none, as in the source.\<close>

record Probe =
  pb_LastPollOK :: Time
  pb_InFlight :: int
  pb_HandlerSince :: Time
  pb_PollStaleAfter :: Duration
  pb_MaxHandlerInFlight :: Duration

definition NewProbe :: "Duration \<Rightarrow> Duration \<Rightarrow> Probe" where
  "NewProbe stale inFlight = \<lparr>pb_LastPollOK = 0, pb_InFlight = 0, pb_HandlerSince = 0,
     pb_PollStaleAfter = (if stale \<le> 0 then DefaultPollStaleAfter else stale),
     pb_MaxHandlerInFlight = (if inFlight \<le> 0 then DefaultMaxHandlerInFlight else inFlight)\<rparr>"

definition RecordPoll :: "Time \<Rightarrow> bool \<Rightarrow> Probe \<Rightarrow> Probe" where
  "RecordPoll now success p = (if \<not> success then p else p\<lparr>pb_LastPollOK := now\<rparr>)"

definition RecordHandlerActive :: "Time \<Rightarrow> bool \<Rightarrow> Probe \<Rightarrow> Probe" where
  "RecordHandlerActive now act p =
    (if act then
       (let p' = p\<lparr>pb_InFlight := pb_InFlight p + 1\<rparr>
        in if pb_InFlight p' = 1 then p'\<lparr>pb_HandlerSince := now\<rparr> else p')
     else
       (let p' = p\<lparr>pb_LastPollOK := now, pb_InFlight := pb_InFlight p - 1\<rparr>
        in if pb_InFlight p' \<le> 0 then p'\<lparr>pb_InFlight := 0, pb_HandlerSince := 0\<rparr> else p'))"

definition Live :: "Probe \<Rightarrow> message option" where
  "Live p = None"

definition Ready :: "Time \<Rightarrow> Probe \<Rightarrow> message option" where
  "Ready now p =
    (let last = pb_LastPollOK p; age = now - last; since = pb_HandlerSince p; busy = now - since
     in if last = 0 then Some (text_msg ''agent has not completed a successful poll yet'')
        else if age > pb_PollStaleAfter p then
          (if pb_InFlight p > 0 \<and> since \<noteq> 0 then
             (if busy \<le> pb_MaxHandlerInFlight p then None
              else Some (Sprintf ''instruction handler has been running %s (max %s); last successful poll was %s ago''
                [AInt busy, AInt (pb_MaxHandlerInFlight p), AInt age]))
           else Some (Sprintf ''last successful poll was %s ago (threshold %s)'' [AInt age, AInt (pb_PollStaleAfter p)]))
        else None)"

text \<open>The two endpoints: the status code and the members of the JSON object.\<close>

definition handleLive :: "Probe \<Rightarrow> nat \<times> (string \<times> string) list" where
  "handleLive p = (200, [(''status'', ''ok'')])"

definition handleReady :: "Time \<Rightarrow> Probe \<Rightarrow> nat \<times> (string \<times> string) list" where
  "handleReady now p = (case Ready now p of
     Some err \<Rightarrow> (503, [(''status'', ''unavailable''), (''reason'', render err)])
   | None \<Rightarrow> (200, [(''status'', ''ready'')]))"

section \<open>What the gate shows\<close>

datatype probe_event = Contact bool | Handling bool

fun probeStep :: "Time \<times> probe_event \<Rightarrow> Probe \<Rightarrow> Probe" where
  "probeStep (t, Contact ok) p = RecordPoll t ok p"
| "probeStep (t, Handling b) p = RecordHandlerActive t b p"

text \<open>A contact with the Broker, or a handler that returned.\<close>

fun sign_of_life :: "probe_event \<Rightarrow> bool" where
  "sign_of_life (Contact ok) = ok"
| "sign_of_life (Handling b) = (\<not> b)"

text \<open>
  The probe after a history of events, the newest last. The number of handlers in flight is never
  negative, whatever the callers do, and the timestamps stand for events that happened.
\<close>

definition probe_inv :: "(Time \<times> probe_event) list \<Rightarrow> Probe \<Rightarrow> bool" where
  "probe_inv es p \<longleftrightarrow> 0 \<le> pb_InFlight p \<and> (pb_InFlight p = 0 \<longrightarrow> pb_HandlerSince p = 0) \<and>
     (pb_LastPollOK p = 0 \<or> (\<exists>e. (pb_LastPollOK p, e) \<in> set es \<and> sign_of_life e)) \<and>
     (pb_HandlerSince p = 0 \<or> (pb_HandlerSince p, Handling True) \<in> set es)"

lemma probe_inv_new: "probe_inv [] (NewProbe a b)"
  by (simp add: probe_inv_def NewProbe_def)

lemma probe_inv_step:
  assumes "probe_inv es p"
  shows "probe_inv (es @ [(t, e)]) (probeStep (t, e) p)"
proof (cases e)
  case (Contact ok)
  have "probe_inv (es @ [(t, Contact ok)]) p" using assms unfolding probe_inv_def set_append by blast
  then show ?thesis unfolding Contact
    using assms by (cases ok) (simp_all add: probe_inv_def RecordPoll_def exI [of _ "Contact True"])
next
  case (Handling b)
  have "probe_inv (es @ [(t, Handling b)]) p" using assms unfolding probe_inv_def set_append by blast
  then show ?thesis unfolding Handling
    using assms by (cases b) (simp_all add: probe_inv_def RecordHandlerActive_def Let_def exI [of _ "Handling False"])
qed

lemma probe_inv_run: "probe_inv ds p \<Longrightarrow> probe_inv (ds @ es) (fold probeStep es p)"
proof (induction es arbitrary: ds p)
  case (Cons x es)
  obtain t e where x: "x = (t, e)" by (cases x)
  from Cons.IH [OF probe_inv_step [OF Cons.prems, of t e]] show ?case by (simp add: x)
qed simp

lemma Ready_iff:
  "Ready now p = None \<longleftrightarrow> pb_LastPollOK p \<noteq> 0 \<and> (now - pb_LastPollOK p \<le> pb_PollStaleAfter p \<or>
     (0 < pb_InFlight p \<and> pb_HandlerSince p \<noteq> 0 \<and> now - pb_HandlerSince p \<le> pb_MaxHandlerInFlight p))"
  by (auto simp: Ready_def Let_def)

lemma probeStep_limits [simp]:
  "pb_PollStaleAfter (probeStep e p) = pb_PollStaleAfter p" "pb_MaxHandlerInFlight (probeStep e p) = pb_MaxHandlerInFlight p"
  by (cases "(e, p)" rule: probeStep.cases; simp add: RecordPoll_def RecordHandlerActive_def Let_def)+

lemma fold_limits [simp]:
  "pb_PollStaleAfter (fold probeStep es p) = pb_PollStaleAfter p" "pb_MaxHandlerInFlight (fold probeStep es p) = pb_MaxHandlerInFlight p"
  by (induction es arbitrary: p) simp_all



text \<open>
  The other direction: after a successful contact, or the end of a handler, the gate stays open for
  \<^verbatim>\<open>PollStaleAfter\<close>, and while a handler runs that started from the idle state it stays open for
  \<^verbatim>\<open>MaxHandlerInFlight\<close> even if no contact follows.
\<close>

lemma gate_stays_open:
  assumes "t \<noteq> 0" "pb_LastPollOK p \<noteq> 0" "pb_InFlight p = 0"
  shows "sign_of_life e \<Longrightarrow> now - t \<le> pb_PollStaleAfter p \<Longrightarrow> Ready now (probeStep (t, e) p) = None"
    and "now - t \<le> pb_MaxHandlerInFlight p \<Longrightarrow> Ready now (probeStep (t, Handling True) p) = None"
  using assms by (cases e; auto simp: Ready_iff RecordPoll_def RecordHandlerActive_def Let_def)+

end
