(* ===== verification/ConsumerAgent.thy ===== *)
theory ConsumerAgent
  imports VirtualNodes Poller
begin

text \<open>
  \<^verbatim>\<open>internal/agent/consumer/instructions\<close>: the handlers with which a consumer agent carries out the
  instructions of the Broker. Peer stages the kubeconfig, runs \<^verbatim>\<open>liqoctl peer\<close>, claims one chunk with a
  ResourceSlice and creates the VirtualNodeState of the chunk; Unpeer and Cleanup take that down
  again; Reconcile reports the states. The local API server, the file system and \<^verbatim>\<open>liqoctl\<close> are fields
  of the record \<open>local_cluster\<close>.
\<close>

section \<open>Objects\<close>

record StagedSecret =
  ss_Name :: string
  ss_Labels :: "(string \<times> string) list"
  ss_Data :: "(string \<times> string) list"

record ResourceSlice =
  sl_Name :: string
  sl_Namespace :: string
  sl_Labels :: "(string \<times> string) list"
  sl_Annotations :: "(string \<times> string) list"
  sl_ProviderClusterID :: string
  sl_Class :: string
  sl_Resources :: "(string \<times> string) list"

text \<open>
  \<open>lc_ListNamespaces p\<close> lists the namespaces labelled as a Liqo tenant of the provider \<open>p\<close>; \<open>lc_Run\<close> yields the
  standard output and error of a command and its error; \<open>lc_ErrText\<close> is the text of an API error and
  \<open>lc_QuantityString\<close> the printed form of a quantity. A VirtualNodeState is stored with its labels.
\<close>

record 'w local_cluster =
  lc_CreateSecret :: "StagedSecret \<Rightarrow> ('w, kerr + unit) state"
  lc_GetSecret :: "string \<Rightarrow> ('w, kerr + StagedSecret) state"
  lc_UpdateSecret :: "StagedSecret \<Rightarrow> ('w, kerr + unit) state"
  lc_DeleteSecret :: "string \<Rightarrow> ('w, kerr + unit) state"
  lc_ListNamespaces :: "string \<Rightarrow> ('w, kerr + string list) state"
  lc_CreateSlice :: "ResourceSlice \<Rightarrow> ('w, kerr + unit) state"
  lc_DeleteSlice :: "string \<Rightarrow> string \<Rightarrow> ('w, kerr + unit) state"
  lc_DeleteForeignCluster :: "string \<Rightarrow> ('w, kerr + unit) state"
  lc_CreateVNS :: "(string \<times> string) list \<Rightarrow> VirtualNodeState \<Rightarrow> ('w, kerr + unit) state"
  lc_DeleteVNS :: "string \<Rightarrow> ('w, kerr + unit) state"
  lc_ListVNS :: "('w, kerr + VirtualNodeState list) state"
  lc_MkdirTemp :: "string \<Rightarrow> ('w, message + string) state"
  lc_WriteFile :: "string \<Rightarrow> string \<Rightarrow> ('w, message + unit) state"
  lc_RemoveAll :: "string \<Rightarrow> ('w, unit) state"
  lc_Run :: "string \<Rightarrow> string list \<Rightarrow> ('w, string \<times> string \<times> message option) state"
  lc_ErrText :: "kerr \<Rightarrow> message"
  lc_QuantityString :: "Quantity \<Rightarrow> string"

definition failWith :: "'w local_cluster \<Rightarrow> string \<Rightarrow> arg list \<Rightarrow> kerr \<Rightarrow> message" where
  "failWith L pre args e = Sprintf (pre @ '': %w'') (args @ [AMsg (lc_ErrText L e)])"

section \<open>Secrets and files (secrets.go)\<close>

definition reservationLabel :: string where
  "reservationLabel = ''federation-autoscaler.io/reservation''"

definition KubeconfigSecretDataKey :: string where
  "KubeconfigSecretDataKey = ''kubeconfig''"

definition stagingSecretName :: "string \<Rightarrow> string" where
  "stagingSecretName rid = ''kubeconfig-'' @ rid"

definition persistKubeconfig :: "'w local_cluster \<Rightarrow> string \<Rightarrow> string \<Rightarrow> ('w, message + unit) state" where
  "persistKubeconfig L rid kubeconfig =
    (if kubeconfig = '''' then State_Monad.return (Inl (text_msg ''kubeconfig is empty''))
     else do {
       c \<leftarrow> lc_CreateSecret L \<lparr>ss_Name = stagingSecretName rid, ss_Labels = [(reservationLabel, rid)],
         ss_Data = [(KubeconfigSecretDataKey, kubeconfig)]\<rparr>;
       (case c of
          Inr _ \<Rightarrow> State_Monad.return (Inr ())
        | Inl e \<Rightarrow>
            if e \<noteq> KAlreadyExists then State_Monad.return (Inl (failWith L ''create kubeconfig secret'' [] e))
            else do {
              g \<leftarrow> lc_GetSecret L (stagingSecretName rid);
              (case g of
                 Inl e \<Rightarrow> State_Monad.return (Inl (failWith L ''get existing kubeconfig secret'' [] e))
               | Inr existing \<Rightarrow> do {
                   u \<leftarrow> lc_UpdateSecret L (existing\<lparr>ss_Data := AList.update KubeconfigSecretDataKey kubeconfig (ss_Data existing)\<rparr>);
                   State_Monad.return (case u of
                     Inl e \<Rightarrow> Inl (failWith L ''update kubeconfig secret'' [] e)
                   | Inr _ \<Rightarrow> Inr ()) }) }) })"

definition ignoreNotFound :: "'w local_cluster \<Rightarrow> string \<Rightarrow> arg list \<Rightarrow> kerr + unit \<Rightarrow> message + unit" where
  "ignoreNotFound L pre args r = (case r of
     Inl e \<Rightarrow> if e = KNotFound then Inr () else Inl (failWith L pre args e)
   | Inr _ \<Rightarrow> Inr ())"

definition deleteStagedSecret :: "'w local_cluster \<Rightarrow> string \<Rightarrow> ('w, message + unit) state" where
  "deleteStagedSecret L rid = do {
     d \<leftarrow> lc_DeleteSecret L (stagingSecretName rid);
     State_Monad.return (ignoreNotFound L ''delete kubeconfig secret'' [] d) }"

text \<open>The result is the directory to remove afterwards.\<close>

definition writeKubeconfigToTempFile :: "'w local_cluster \<Rightarrow> string \<Rightarrow> string \<Rightarrow> ('w, message + string) state" where
  "writeKubeconfigToTempFile L rid kubeconfig = do {
     d \<leftarrow> lc_MkdirTemp L (''kubeconfig-'' @ rid @ ''-'');
     (case d of
        Inl e \<Rightarrow> State_Monad.return (Inl (Sprintf ''mkdir temp: %w'' [AMsg e]))
      | Inr dir \<Rightarrow> do {
          f \<leftarrow> lc_WriteFile L (dir @ ''/kubeconfig'') kubeconfig;
          (case f of
             Inl e \<Rightarrow> do {
               _ \<leftarrow> lc_RemoveAll L dir;
               State_Monad.return (Inl (Sprintf ''write kubeconfig: %w'' [AMsg e])) }
           | Inr _ \<Rightarrow> State_Monad.return (Inr dir)) }) }"

section \<open>Liqo objects (liqo.go)\<close>

definition resourceSliceName :: "string \<Rightarrow> string" where
  "resourceSliceName rid = ''rs-'' @ rid"

definition tenantNamespaceFor :: "'w local_cluster \<Rightarrow> string \<Rightarrow> ('w, message + string) state" where
  "tenantNamespaceFor L provider = do {
     l \<leftarrow> lc_ListNamespaces L provider;
     State_Monad.return (case l of
       Inl e \<Rightarrow> Inl (Sprintf ''list tenant namespaces for %q: %w'' [AStr provider, AMsg (lc_ErrText L e)])
     | Inr [] \<Rightarrow> Inr (''liqo-tenant-'' @ provider)
     | Inr [ns] \<Rightarrow> Inr ns
     | Inr _ \<Rightarrow> Inl (Sprintf ''multiple tenant namespaces found for provider %q'' [AStr provider])) }"

definition sliceFor :: "'w local_cluster \<Rightarrow> string \<Rightarrow> string \<Rightarrow> string \<Rightarrow> ResourceList \<Rightarrow> ResourceSlice" where
  "sliceFor L namespace rid provider resources = \<lparr>sl_Name = resourceSliceName rid, sl_Namespace = namespace,
     sl_Labels = [(reservationLabel, rid), (''liqo.io/replication'', ''true''), (''liqo.io/remoteID'', provider),
       (''liqo.io/remote-cluster-id'', provider)],
     sl_Annotations = [(''liqo.io/create-virtual-node'', ''true'')], sl_ProviderClusterID = provider, sl_Class = ''default'',
     sl_Resources = map (\<lambda>(k, v). (k, lc_QuantityString L v)) resources\<rparr>"

definition ensureResourceSlice :: "'w local_cluster \<Rightarrow> string \<Rightarrow> string \<Rightarrow> ResourceList \<Rightarrow> ('w, message + string) state" where
  "ensureResourceSlice L rid provider resources = do {
     n \<leftarrow> tenantNamespaceFor L provider;
     (case n of
        Inl err \<Rightarrow> State_Monad.return (Inl err)
      | Inr namespace \<Rightarrow> do {
          c \<leftarrow> lc_CreateSlice L (sliceFor L namespace rid provider resources);
          State_Monad.return (case c of
            Inl e \<Rightarrow> if e = KAlreadyExists then Inr (resourceSliceName rid)
              else Inl (Sprintf ''create ResourceSlice %q in %q: %w''
                [AStr (resourceSliceName rid), AStr namespace, AMsg (lc_ErrText L e)])
          | Inr _ \<Rightarrow> Inr (resourceSliceName rid)) }) }"

definition deleteResourceSlice :: "'w local_cluster \<Rightarrow> string \<Rightarrow> string \<Rightarrow> ('w, message + unit) state" where
  "deleteResourceSlice L rid provider = do {
     n \<leftarrow> tenantNamespaceFor L provider;
     (case n of
        Inl err \<Rightarrow> State_Monad.return (Inl err)
      | Inr namespace \<Rightarrow> do {
          d \<leftarrow> lc_DeleteSlice L namespace (resourceSliceName rid);
          State_Monad.return (ignoreNotFound L ''delete ResourceSlice'' [] d) }) }"

definition deleteForeignCluster :: "'w local_cluster \<Rightarrow> string \<Rightarrow> ('w, message + unit) state" where
  "deleteForeignCluster L provider = do {
     d \<leftarrow> lc_DeleteForeignCluster L provider;
     State_Monad.return (ignoreNotFound L ''delete ForeignCluster %q'' [AStr provider] d) }"

section \<open>Virtual node states (virtualnodestate.go)\<close>

definition virtualNodeStateName :: "string \<Rightarrow> string" where
  "virtualNodeStateName rid = ''vns-'' @ rid"

definition deriveChunkType :: "ResourceList \<Rightarrow> ChunkType" where
  "deriveChunkType resources = (if map_of resources ''nvidia.com/gpu'' \<noteq> None then ChunkTypeGPU else ChunkTypeStandard)"

definition nodeGroupIDFor :: "string \<Rightarrow> ChunkType \<Rightarrow> string" where
  "nodeGroupIDFor provider t = ''ng-'' @ provider @ ''-'' @ t"

definition newVirtualNodeState :: "string \<Rightarrow> InstructionView \<Rightarrow> VirtualNodeState" where
  "newVirtualNodeState sliceName i = \<lparr>vn_Name = virtualNodeStateName (iv_ReservationID i), vn_Generation = 1, vn_DeletionTimestamp = None,
     vn_Spec = \<lparr>vn_ProviderClusterID = iv_ProviderClusterID i, vn_ProviderLiqoClusterID = iv_ProviderLiqoClusterID i,
       vn_SpecResourceSliceName = sliceName,
       vn_NodeGroupID = nodeGroupIDFor (iv_ProviderClusterID i) (deriveChunkType (iv_ResourceSliceResources i)),
       vn_ChunkIndex = 0, vn_ReservationID = iv_ReservationID i, vn_Resources = iv_ResourceSliceResources i\<rparr>,
     vn_Status = \<lparr>vn_ObservedGeneration = 0, vn_Phase = '''', vn_VirtualNodeName = '''', vn_ProviderID = '''', vn_ResourceSliceName = '''',
       vn_Allocatable = [], vn_LastTransitionTime = None, vn_Message = text_msg '''', vn_Conditions = []\<rparr>\<rparr>"

definition ensureVirtualNodeState :: "'w local_cluster \<Rightarrow> string \<Rightarrow> InstructionView \<Rightarrow> ('w, message + unit) state" where
  "ensureVirtualNodeState L sliceName i = do {
     c \<leftarrow> lc_CreateVNS L [(reservationLabel, iv_ReservationID i)] (newVirtualNodeState sliceName i);
     State_Monad.return (case c of
       Inl e \<Rightarrow> if e = KAlreadyExists then Inr ()
         else Inl (Sprintf ''create VirtualNodeState %q: %w'' [AStr (virtualNodeStateName (iv_ReservationID i)), AMsg (lc_ErrText L e)])
     | Inr _ \<Rightarrow> Inr ()) }"

definition deleteVirtualNodeState :: "'w local_cluster \<Rightarrow> string \<Rightarrow> ('w, message + unit) state" where
  "deleteVirtualNodeState L rid = do {
     d \<leftarrow> lc_DeleteVNS L (virtualNodeStateName rid);
     State_Monad.return (ignoreNotFound L ''delete VirtualNodeState %q'' [AStr (virtualNodeStateName rid)] d) }"

section \<open>Peer (peer.go)\<close>

text \<open>The settings the handlers share; \<open>hc_LocalClient\<close> may be nil, the instruction the poller passes never is.\<close>

record 'w handler_config =
  hc_LocalClient :: "'w local_cluster option"
  hc_Namespace :: string
  hc_LiqoctlPath :: string

definition DefaultPeerLiqoctlPath :: string where
  "DefaultPeerLiqoctlPath = ''liqoctl''"

definition liqoctlPath :: "'w handler_config \<Rightarrow> string" where
  "liqoctlPath cfg = (if hc_LiqoctlPath cfg = '''' then DefaultPeerLiqoctlPath else hc_LiqoctlPath cfg)"

definition emptyPayload :: "string \<Rightarrow> ResultPayload" where
  "emptyPayload kind = \<lparr>rp_Kind = kind, rp_Kubeconfig = '''', rp_ExpiresAt = None, rp_VirtualNodeNames = [], rp_ResourceSliceNames = [],
     rp_ReleasedChunks = 0, rp_TunnelDropped = False, rp_Advertisement = None, rp_VirtualNodeStates = []\<rparr>"

definition succeededWith :: "ResultPayload \<Rightarrow> InstructionResultRequest" where
  "succeededWith pl = \<lparr>rr_Status = ResultStatusSucceeded, rr_Payload = Some pl, rr_Error = None\<rparr>"

abbreviation failed :: "message \<Rightarrow> handler_outcome" where
  "failed m \<equiv> Returned None (Some m)"

definition stderrText :: "string \<Rightarrow> string" where
  "stderrText stderr = (let t = trimSpace stderr in if t = '''' then ''(no stderr)'' else t)"

definition peerArgs :: "string \<Rightarrow> string list" where
  "peerArgs path = [''peer'', ''--remote-kubeconfig'', path, ''--gw-server-service-type'', ''NodePort'', ''--create-resource-slice=false'']"

text \<open>The steps from the run of \<^verbatim>\<open>liqoctl\<close> on.\<close>

definition peerStaged :: "'w handler_config \<Rightarrow> 'w local_cluster \<Rightarrow> InstructionView \<Rightarrow> string \<Rightarrow> ('w, handler_outcome) state" where
  "peerStaged cfg L i path = do {
     (_, stderr, err) \<leftarrow> lc_Run L (liqoctlPath cfg) (peerArgs path);
     (case err of
        Some e \<Rightarrow> State_Monad.return (failed (Sprintf ''liqoctl peer failed: %w - stderr: %s'' [AMsg e, AStr (stderrText stderr)]))
      | None \<Rightarrow> do {
          s \<leftarrow> ensureResourceSlice L (iv_ReservationID i) (iv_ProviderLiqoClusterID i) (iv_ResourceSliceResources i);
          (case s of
             Inl e \<Rightarrow> State_Monad.return (failed e)
           | Inr sliceName \<Rightarrow> do {
               v \<leftarrow> ensureVirtualNodeState L sliceName i;
               State_Monad.return (case v of
                 Inl e \<Rightarrow> failed e
               | Inr _ \<Rightarrow> Returned (Some (succeededWith ((emptyPayload PayloadKindPeer)\<lparr>rp_ResourceSliceNames := [sliceName]\<rparr>))) None) }) }) }"

text \<open>The checks common to the handlers.\<close>

definition checkInstruction :: "'w handler_config \<Rightarrow> ReservationInstructionKind \<Rightarrow> string \<Rightarrow> InstructionView \<Rightarrow> message + 'w local_cluster" where
  "checkInstruction cfg kind who i =
    (if iv_Kind i \<noteq> ri_kind_string kind then Inl (Sprintf ''unexpected kind %q (want %s)'' [AStr (iv_Kind i), AStr (ri_kind_string kind)])
     else case hc_LocalClient cfg of
       None \<Rightarrow> Inl (text_msg (who @ '' handler: LocalClient is nil''))
     | Some L \<Rightarrow> if hc_Namespace cfg = '''' then Inl (text_msg (who @ '' handler: Namespace is required'')) else Inr L)"

definition peerHandler :: "'w handler_config \<Rightarrow> 'w handlerFunc" where
  "peerHandler cfg i = (case checkInstruction cfg RIPeer ''peer'' i of
     Inl m \<Rightarrow> State_Monad.return (failed m)
   | Inr L \<Rightarrow>
      if iv_Kubeconfig i = '''' then State_Monad.return (failed (text_msg ''instruction missing inline kubeconfig''))
      else if iv_ProviderLiqoClusterID i = '''' then State_Monad.return (failed (text_msg ''instruction missing providerLiqoClusterId''))
      else do {
        p \<leftarrow> persistKubeconfig L (iv_ReservationID i) (iv_Kubeconfig i);
        (case p of
           Inl e \<Rightarrow> State_Monad.return (failed (Sprintf ''persist kubeconfig: %w'' [AMsg e]))
         | Inr _ \<Rightarrow> do {
             t \<leftarrow> writeKubeconfigToTempFile L (iv_ReservationID i) (iv_Kubeconfig i);
             (case t of
                Inl e \<Rightarrow> State_Monad.return (failed (Sprintf ''stage kubeconfig: %w'' [AMsg e]))
              | Inr dir \<Rightarrow> do {
                  r \<leftarrow> peerStaged cfg L i (dir @ ''/kubeconfig'');
                  _ \<leftarrow> lc_RemoveAll L dir;
                  State_Monad.return r }) }) })"

section \<open>Unpeer (unpeer.go)\<close>

definition loadKubeconfigFromSecret :: "'w local_cluster \<Rightarrow> string \<Rightarrow> ('w, message + string) state" where
  "loadKubeconfigFromSecret L rid = do {
     g \<leftarrow> lc_GetSecret L (stagingSecretName rid);
     State_Monad.return (case g of
       Inl e \<Rightarrow> if e = KNotFound then Inr '''' else Inl (failWith L ''get kubeconfig secret'' [] e)
     | Inr sec \<Rightarrow> Inr (case map_of (ss_Data sec) KubeconfigSecretDataKey of None \<Rightarrow> '''' | Some v \<Rightarrow> v)) }"

text \<open>\<^verbatim>\<open>strings.Contains\<close>.\<close>

fun startsWith :: "string \<Rightarrow> string \<Rightarrow> bool" where
  "startsWith [] _ = True"
| "startsWith (p # ps) [] = False"
| "startsWith (p # ps) (c # cs) = (p = c \<and> startsWith ps cs)"

fun containsText :: "string \<Rightarrow> string \<Rightarrow> bool" where
  "containsText [] m = (m = [])"
| "containsText (c # cs) m = (startsWith m (c # cs) \<or> containsText cs m)"

definition looksAlreadyUnpeered :: "string \<Rightarrow> bool" where
  "looksAlreadyUnpeered stderr = list_ex (containsText stderr) [''not peered'', ''already unpeered'', ''no peering'', ''not found'']"

definition finishUnpeer :: "'w local_cluster \<Rightarrow> InstructionView \<Rightarrow> ('w, handler_outcome) state" where
  "finishUnpeer L i = do {
     d \<leftarrow> deleteStagedSecret L (iv_ReservationID i);
     (case d of
        Inl e \<Rightarrow> State_Monad.return (failed e)
      | Inr _ \<Rightarrow> do {
          f \<leftarrow> (if iv_LastChunk i \<and> iv_ProviderLiqoClusterID i \<noteq> '''' then deleteForeignCluster L (iv_ProviderLiqoClusterID i)
                else State_Monad.return (Inr ()));
          State_Monad.return (case f of
            Inl e \<Rightarrow> failed e
          | Inr _ \<Rightarrow> Returned (Some (succeededWith ((emptyPayload PayloadKindUnpeer)
              \<lparr>rp_ReleasedChunks := iv_ChunkCount i, rp_TunnelDropped := iv_LastChunk i\<rparr>))) None) }) }"

definition unpeerStaged :: "'w handler_config \<Rightarrow> 'w local_cluster \<Rightarrow> InstructionView \<Rightarrow> string \<Rightarrow> ('w, handler_outcome) state" where
  "unpeerStaged cfg L i path = do {
     (_, stderr, err) \<leftarrow> lc_Run L (liqoctlPath cfg) [''unpeer'', ''--remote-kubeconfig'', path];
     (case err of
        Some e \<Rightarrow> if \<not> looksAlreadyUnpeered (trimSpace stderr)
          then State_Monad.return (failed (Sprintf ''liqoctl unpeer failed: %w - stderr: %s'' [AMsg e, AStr (stderrText stderr)]))
          else finishUnpeer L i
      | None \<Rightarrow> finishUnpeer L i) }"

definition unpeerHandler :: "'w handler_config \<Rightarrow> 'w handlerFunc" where
  "unpeerHandler cfg i = (case checkInstruction cfg RIUnpeer ''unpeer'' i of
     Inl m \<Rightarrow> State_Monad.return (failed m)
   | Inr L \<Rightarrow> do {
       v \<leftarrow> deleteVirtualNodeState L (iv_ReservationID i);
       (case v of
          Inl e \<Rightarrow> State_Monad.return (failed e)
        | Inr _ \<Rightarrow> do {
            s \<leftarrow> deleteResourceSlice L (iv_ReservationID i) (iv_ProviderLiqoClusterID i);
            (case s of
               Inl e \<Rightarrow> State_Monad.return (failed e)
             | Inr _ \<Rightarrow> do {
                 k \<leftarrow> loadKubeconfigFromSecret L (iv_ReservationID i);
                 (case k of
                    Inl e \<Rightarrow> State_Monad.return (failed e)
                  | Inr kubeconfig \<Rightarrow>
                      if \<not> iv_LastChunk i \<or> kubeconfig = '''' then finishUnpeer L i
                      else do {
                        t \<leftarrow> writeKubeconfigToTempFile L (iv_ReservationID i) kubeconfig;
                        (case t of
                           Inl e \<Rightarrow> State_Monad.return (failed (Sprintf ''stage kubeconfig: %w'' [AMsg e]))
                         | Inr dir \<Rightarrow> do {
                             r \<leftarrow> unpeerStaged cfg L i (dir @ ''/kubeconfig'');
                             _ \<leftarrow> lc_RemoveAll L dir;
                             State_Monad.return r }) }) }) }) })"

section \<open>Cleanup and Reconcile (cleanup.go, reconcile.go)\<close>

definition cleanupHandler :: "'w handler_config \<Rightarrow> 'w handlerFunc" where
  "cleanupHandler cfg i = (case checkInstruction cfg RICleanup ''cleanup'' i of
     Inl m \<Rightarrow> State_Monad.return (failed m)
   | Inr L \<Rightarrow> do {
       v \<leftarrow> deleteVirtualNodeState L (iv_ReservationID i);
       (case v of
          Inl e \<Rightarrow> State_Monad.return (failed e)
        | Inr _ \<Rightarrow> do {
            s \<leftarrow> deleteResourceSlice L (iv_ReservationID i) (iv_ProviderLiqoClusterID i);
            (case s of
               Inl e \<Rightarrow> State_Monad.return (failed e)
             | Inr _ \<Rightarrow> do {
                 d \<leftarrow> deleteStagedSecret L (iv_ReservationID i);
                 State_Monad.return (case d of
                   Inl e \<Rightarrow> failed e
                 | Inr _ \<Rightarrow> Returned (Some bareSucceeded) None) }) }) })"

definition viewFromVNS :: "VirtualNodeState \<Rightarrow> ReconcileVirtualNodeStateView" where
  "viewFromVNS v = \<lparr>rv_ReservationID = vn_ReservationID (vn_Spec v), rv_ChunkIndex = vn_ChunkIndex (vn_Spec v),
     rv_NodeGroupID = vn_NodeGroupID (vn_Spec v), rv_VirtualNodeName = vn_VirtualNodeName (vn_Status v),
     rv_ResourceSlice = vn_ResourceSliceName (vn_Status v), rv_Phase = vn_Phase (vn_Status v),
     rv_LastTransition = vn_LastTransitionTime (vn_Status v)\<rparr>"

definition reconcileHandler :: "'w handler_config \<Rightarrow> 'w handlerFunc" where
  "reconcileHandler cfg i =
    (if iv_Kind i \<noteq> ri_kind_string RIReconcile then
       State_Monad.return (failed (Sprintf ''unexpected kind %q (want %s)'' [AStr (iv_Kind i), AStr (ri_kind_string RIReconcile)]))
     else case hc_LocalClient cfg of
       None \<Rightarrow> State_Monad.return (failed (text_msg ''reconcile handler: LocalClient is nil''))
     | Some L \<Rightarrow> do {
         l \<leftarrow> lc_ListVNS L;
         State_Monad.return (case l of
           Inl e \<Rightarrow> failed (failWith L ''list VirtualNodeState'' [] e)
         | Inr items \<Rightarrow> Returned (Some (succeededWith ((emptyPayload PayloadKindReconcile)
             \<lparr>rp_VirtualNodeStates := map viewFromVNS items\<rparr>))) None) })"

text \<open>The registrations of \<^verbatim>\<open>consumer.Run\<close>.\<close>

definition consumerNamespace :: "string \<Rightarrow> string" where
  "consumerNamespace ns = (if ns = '''' then ''federation-autoscaler-system'' else ns)"

definition consumerRegistry :: "'w local_cluster \<Rightarrow> string \<Rightarrow> string \<Rightarrow> 'w Registry \<Rightarrow> 'w Registry" where
  "consumerRegistry L ns path reg =
    (let cfg = \<lparr>hc_LocalClient = Some L, hc_Namespace = consumerNamespace ns, hc_LiqoctlPath = path\<rparr>
     in RegisterReservation RIReconcile (reconcileHandler cfg)
         (RegisterReservation RICleanup (cleanupHandler cfg)
           (RegisterReservation RIUnpeer (unpeerHandler cfg)
             (RegisterReservation RIPeer (peerHandler cfg) reg))))"

section \<open>The contract of the local cluster\<close>

text \<open>
  What is stored. Of a ResourceSlice accepted for deletion Liqo's finalizers may keep the object for
  a while: it has left \<open>cv_Slices\<close> and is in \<open>cv_Deleting\<close>. \<open>cv_Dirs\<close> are the temporary directories.
\<close>

record cluster_view =
  cv_Secrets :: "string \<Rightarrow> StagedSecret option"
  cv_Slices :: "string \<times> string \<Rightarrow> ResourceSlice option"
  cv_Deleting :: "(string \<times> string) set"
  cv_Vns :: "string \<Rightarrow> ((string \<times> string) list \<times> VirtualNodeState) option"
  cv_Foreign :: "string set"
  cv_Tenants :: "string \<Rightarrow> string list"
  cv_Dirs :: "string set"

text \<open>The namespace \<^verbatim>\<open>tenantNamespaceFor\<close> picks, unless several are labelled for the provider.\<close>

definition tenantOf :: "cluster_view \<Rightarrow> string \<Rightarrow> string option" where
  "tenantOf v p = (case cv_Tenants v p of [] \<Rightarrow> Some (''liqo-tenant-'' @ p) | [ns] \<Rightarrow> Some ns | _ \<Rightarrow> None)"

definition setSlice :: "string option \<Rightarrow> string \<Rightarrow> ResourceSlice option \<Rightarrow> (string \<times> string \<Rightarrow> ResourceSlice option) \<Rightarrow>
    string \<times> string \<Rightarrow> ResourceSlice option" where
  "setSlice t rid x S = (case t of None \<Rightarrow> S | Some ns \<Rightarrow> S((ns, resourceSliceName rid) := x))"

lemma setSlice_Some [simp]: "setSlice (Some ns) rid x S = S((ns, resourceSliceName rid) := x)"
  by (simp add: setSlice_def)

lemma setSlice_same: "(case t of None \<Rightarrow> True | Some ns \<Rightarrow> x = S (ns, resourceSliceName rid)) \<Longrightarrow> setSlice t rid x S = S"
  by (auto simp: setSlice_def split: option.splits)

lemma setSlice_id: obtains x where "setSlice t rid x S = S"
  by (cases t) (auto simp: setSlice_def fun_upd_idem)

lemma setSlice_twice [simp]: "setSlice t rid y (setSlice t rid x S) = setSlice t rid y S"
  by (simp add: setSlice_def split: option.splits)

lemma setSlice_other: "n \<noteq> resourceSliceName rid \<Longrightarrow> setSlice t rid x S (ns, n) = S (ns, n)"
  by (simp add: setSlice_def split: option.splits)

text \<open>
  A failed call changes nothing. \<^verbatim>\<open>liqoctl\<close> does not touch the agent's Secrets, states and files; \<^verbatim>\<open>peer\<close>
  with \<^verbatim>\<open>--create-resource-slice=false\<close> leaves the ResourceSlices alone, \<^verbatim>\<open>unpeer\<close> may remove some.
\<close>

locale consumer_cluster =
  fixes L :: "'w local_cluster" and view :: "'w \<Rightarrow> cluster_view"
  assumes create_secret: "wp (lc_CreateSecret L x) (\<lambda>r w'. case r of Inl _ \<Rightarrow> view w' = view w
      | Inr _ \<Rightarrow> cv_Secrets (view w) (ss_Name x) = None \<and> view w' = (view w)\<lparr>cv_Secrets := (cv_Secrets (view w))(ss_Name x \<mapsto> x)\<rparr>) w"
    and get_secret: "wp (lc_GetSecret L n) (\<lambda>r w'. view w' = view w \<and> (case r of
        Inl e \<Rightarrow> e = KNotFound \<longrightarrow> cv_Secrets (view w) n = None | Inr x \<Rightarrow> cv_Secrets (view w) n = Some x \<and> ss_Name x = n)) w"
    and update_secret: "wp (lc_UpdateSecret L x) (\<lambda>r w'. case r of Inl _ \<Rightarrow> view w' = view w
      | Inr _ \<Rightarrow> cv_Secrets (view w) (ss_Name x) \<noteq> None \<and> view w' = (view w)\<lparr>cv_Secrets := (cv_Secrets (view w))(ss_Name x \<mapsto> x)\<rparr>) w"
    and delete_secret: "wp (lc_DeleteSecret L n) (\<lambda>r w'. case r of
        Inl e \<Rightarrow> view w' = view w \<and> (e = KNotFound \<longrightarrow> cv_Secrets (view w) n = None)
      | Inr _ \<Rightarrow> view w' = (view w)\<lparr>cv_Secrets := (cv_Secrets (view w))(n := None)\<rparr>) w"
    and list_namespaces: "wp (lc_ListNamespaces L p) (\<lambda>r w'. view w' = view w \<and> (\<forall>ns. r = Inr ns \<longrightarrow> ns = cv_Tenants (view w) p)) w"
    and create_slice: "wp (lc_CreateSlice L sl) (\<lambda>r w'. case r of
        Inl e \<Rightarrow> view w' = view w \<and> (e = KAlreadyExists \<longrightarrow> cv_Slices (view w) (sl_Namespace sl, sl_Name sl) \<noteq> None \<or>
          (sl_Namespace sl, sl_Name sl) \<in> cv_Deleting (view w))
      | Inr _ \<Rightarrow> view w' = (view w)\<lparr>cv_Slices := (cv_Slices (view w))((sl_Namespace sl, sl_Name sl) \<mapsto> sl)\<rparr>) w"
    and delete_slice: "wp (lc_DeleteSlice L ns n) (\<lambda>r w'. case r of
        Inl e \<Rightarrow> view w' = view w \<and> (e = KNotFound \<longrightarrow> cv_Slices (view w) (ns, n) = None)
      | Inr _ \<Rightarrow> (\<exists>D. D \<subseteq> insert (ns, n) (cv_Deleting (view w)) \<and>
          view w' = (view w)\<lparr>cv_Slices := (cv_Slices (view w))((ns, n) := None), cv_Deleting := D\<rparr>)) w"
    and delete_foreign: "wp (lc_DeleteForeignCluster L p) (\<lambda>r w'. case r of
        Inl e \<Rightarrow> view w' = view w \<and> (e = KNotFound \<longrightarrow> p \<notin> cv_Foreign (view w))
      | Inr _ \<Rightarrow> view w' = (view w)\<lparr>cv_Foreign := cv_Foreign (view w) - {p}\<rparr>) w"
    and create_vns: "wp (lc_CreateVNS L ls v) (\<lambda>r w'. case r of
        Inl e \<Rightarrow> view w' = view w \<and> (e = KAlreadyExists \<longrightarrow> cv_Vns (view w) (vn_Name v) \<noteq> None)
      | Inr _ \<Rightarrow> cv_Vns (view w) (vn_Name v) = None \<and> view w' = (view w)\<lparr>cv_Vns := (cv_Vns (view w))(vn_Name v \<mapsto> (ls, v))\<rparr>) w"
    and delete_vns: "wp (lc_DeleteVNS L n) (\<lambda>r w'. case r of
        Inl e \<Rightarrow> view w' = view w \<and> (e = KNotFound \<longrightarrow> cv_Vns (view w) n = None)
      | Inr _ \<Rightarrow> view w' = (view w)\<lparr>cv_Vns := (cv_Vns (view w))(n := None)\<rparr>) w"
    and list_vns: "wp (lc_ListVNS L) (\<lambda>r w'. view w' = view w) w"
    and mkdir: "wp (lc_MkdirTemp L pre) (\<lambda>r w'. case r of Inl _ \<Rightarrow> view w' = view w
      | Inr d \<Rightarrow> d \<notin> cv_Dirs (view w) \<and> view w' = (view w)\<lparr>cv_Dirs := insert d (cv_Dirs (view w))\<rparr>) w"
    and write_file: "wp (lc_WriteFile L path txt) (\<lambda>_ w'. view w' = view w) w"
    and remove_all: "wp (lc_RemoveAll L d) (\<lambda>_ w'. view w' = (view w)\<lparr>cv_Dirs := cv_Dirs (view w) - {d}\<rparr>) w"
    and run_law: "wp (lc_Run L path args) (\<lambda>_ w'. cv_Secrets (view w') = cv_Secrets (view w) \<and> cv_Vns (view w') = cv_Vns (view w) \<and>
      cv_Dirs (view w') = cv_Dirs (view w) \<and> cv_Slices (view w') \<subseteq>\<^sub>m cv_Slices (view w) \<and>
      (hd args = ''peer'' \<longrightarrow> cv_Slices (view w') = cv_Slices (view w) \<and> cv_Deleting (view w') = cv_Deleting (view w))) w"
begin

lemma wp_persist:
  "wp (persistKubeconfig L rid kc) (\<lambda>r w'. \<exists>x. view w' = (view w)\<lparr>cv_Secrets := (cv_Secrets (view w))(stagingSecretName rid := x)\<rparr> \<and>
     (r = Inr () \<longrightarrow> (\<exists>s. x = Some s \<and> map_of (ss_Data s) KubeconfigSecretDataKey = Some kc))) w" (is "wp _ ?Q w")
proof (cases "kc = ''''")
  case True
  then show ?thesis by (auto simp: persistKubeconfig_def intro!: exI [of _ "cv_Secrets (view w) (stagingSecretName rid)"])
next
  case False
  have same: "view w' = view w \<Longrightarrow> ?Q (Inl m) w'" for w' m
    by (auto intro!: exI [of _ "cv_Secrets (view w) (stagingSecretName rid)"])
  let ?new = "\<lparr>ss_Name = stagingSecretName rid, ss_Labels = [(reservationLabel, rid)], ss_Data = [(KubeconfigSecretDataKey, kc)]\<rparr>"
  show ?thesis
    unfolding persistKubeconfig_def if_not_P [OF False] wp_bind [of "lc_CreateSecret _ _"]
  proof (rule wp_mono [OF create_secret], goal_cases)
    case (1 c w1)
    show ?case
    proof (cases c)
      case (Inr u)
      with 1 show ?thesis by (auto intro!: exI [of _ "Some ?new"])
    next
      case (Inl e)
      with 1 have w1: "view w1 = view w" by simp
      show ?thesis
      proof (cases "e = KAlreadyExists")
        case False
        with Inl w1 show ?thesis using same by simp
      next
        case True
        show ?thesis
          unfolding Inl sum.case True simp_thms if_False wp_bind
        proof (rule wp_mono [OF get_secret], goal_cases)
          case (1 g w2)
          show ?case
          proof (cases g)
            case (Inl e)
            with 1 w1 show ?thesis using same by simp
          next
            case (Inr x)
            with 1 w1 have w2: "view w2 = view w" "ss_Name x = stagingSecretName rid" by auto
            show ?thesis
              unfolding Inr sum.case wp_bind wp_return
            proof (rule wp_mono [OF update_secret], goal_cases)
              case (1 u w3)
              show ?case
              proof (cases u)
                case (Inl e)
                with 1 w2 show ?thesis using same by simp
              next
                case (Inr v)
                with 1 w2 show ?thesis
                  by (auto simp: update_conv intro!: exI [of _ "Some (x\<lparr>ss_Data := AList.update KubeconfigSecretDataKey kc (ss_Data x)\<rparr>)"])
              qed
            qed
          qed
        qed
      qed
    qed
  qed
qed

lemma wp_deleteStagedSecret:
  "wp (deleteStagedSecret L rid) (\<lambda>r w'. \<exists>x. view w' = (view w)\<lparr>cv_Secrets := (cv_Secrets (view w))(stagingSecretName rid := x)\<rparr> \<and>
     (r = Inr () \<longrightarrow> x = None)) w"
  unfolding deleteStagedSecret_def wp_bind wp_return
proof (rule wp_mono [OF delete_secret], goal_cases)
  case (1 d w')
  then show ?case
    by (cases d) (auto simp: ignoreNotFound_def fun_upd_idem intro: exI [of _ "cv_Secrets (view w) (stagingSecretName rid)"])
qed

lemma wp_deleteVirtualNodeState:
  "wp (deleteVirtualNodeState L rid) (\<lambda>r w'. \<exists>x. view w' = (view w)\<lparr>cv_Vns := (cv_Vns (view w))(virtualNodeStateName rid := x)\<rparr> \<and>
     (r = Inr () \<longrightarrow> x = None)) w"
  unfolding deleteVirtualNodeState_def wp_bind wp_return
proof (rule wp_mono [OF delete_vns], goal_cases)
  case (1 d w')
  then show ?case
    by (cases d) (auto simp: ignoreNotFound_def fun_upd_idem intro: exI [of _ "cv_Vns (view w) (virtualNodeStateName rid)"])
qed

lemma wp_writeTemp:
  "wp (writeKubeconfigToTempFile L rid kc) (\<lambda>r w'. case r of Inl _ \<Rightarrow> view w' = view w
     | Inr d \<Rightarrow> d \<notin> cv_Dirs (view w) \<and> view w' = (view w)\<lparr>cv_Dirs := insert d (cv_Dirs (view w))\<rparr>) w"
  unfolding writeKubeconfigToTempFile_def wp_bind
proof (rule wp_mono [OF mkdir], goal_cases)
  case (1 d w1)
  show ?case
  proof (cases d)
    case (Inl e)
    with 1 show ?thesis by simp
  next
    case (Inr dir)
    show ?thesis
      unfolding Inr sum.case wp_bind
    proof (rule wp_mono [OF write_file], goal_cases)
      case (1 f w2)
      with \<open>case d of Inl _ \<Rightarrow> _ | Inr d \<Rightarrow> _ d\<close> Inr show ?case
        by (cases f) (auto simp: wp_return_fun intro!: wp_mono [OF remove_all])
    qed
  qed
qed

lemma wp_tenant:
  "wp (tenantNamespaceFor L p) (\<lambda>r w'. view w' = view w \<and> (\<forall>ns. r = Inr ns \<longrightarrow> tenantOf (view w) p = Some ns)) w"
  unfolding tenantNamespaceFor_def wp_bind wp_return
  by (rule wp_mono [OF list_namespaces]) (auto simp: tenantOf_def split: sum.splits list.splits)

lemma wp_ensureSlice:
  "wp (ensureResourceSlice L rid p res) (\<lambda>r w'. \<exists>x. view w' = (view w)\<lparr>cv_Slices := setSlice (tenantOf (view w) p) rid x (cv_Slices (view w))\<rparr> \<and>
     (\<forall>n. r = Inr n \<longrightarrow> n = resourceSliceName rid \<and>
       (\<exists>ns. tenantOf (view w) p = Some ns \<and> (x \<noteq> None \<or> (ns, n) \<in> cv_Deleting (view w))))) w"
  unfolding ensureResourceSlice_def wp_bind
proof (rule wp_mono [OF wp_tenant], goal_cases)
  case (1 t w1)
  show ?case
  proof (cases t)
    case (Inl e)
    obtain x where "setSlice (tenantOf (view w) p) rid x (cv_Slices (view w)) = cv_Slices (view w)" by (rule setSlice_id)
    with 1 Inl show ?thesis by (auto intro!: exI [of _ x])
  next
    case (Inr ns)
    let ?k = "(ns, resourceSliceName rid)"
    from 1 Inr have w1: "view w1 = view w" and t: "tenantOf (view w) p = Some ns" by simp_all
    have k: "(sl_Namespace (sliceFor L ns rid p res), sl_Name (sliceFor L ns rid p res)) = ?k" by (simp add: sliceFor_def)
    show ?thesis
      unfolding Inr sum.case wp_bind wp_return
    proof (rule wp_mono [OF create_slice], goal_cases)
      case (1 c w2)
      show ?case
      proof (cases c)
        case (Inl e)
        with 1 k w1 t show ?thesis by (auto simp: fun_upd_idem intro!: exI [of _ "cv_Slices (view w) ?k"])
      next
        case (Inr u)
        with 1 k w1 t show ?thesis by (auto intro!: exI [of _ "Some (sliceFor L ns rid p res)"])
      qed
    qed
  qed
qed

lemma wp_deleteSlice:
  "wp (deleteResourceSlice L rid p) (\<lambda>r w'. \<exists>x D. view w' = (view w)\<lparr>cv_Slices := setSlice (tenantOf (view w) p) rid x (cv_Slices (view w)),
       cv_Deleting := D\<rparr> \<and> (r = Inr () \<longrightarrow> x = None \<and> tenantOf (view w) p \<noteq> None)) w"
  unfolding deleteResourceSlice_def wp_bind
proof (rule wp_mono [OF wp_tenant], goal_cases)
  case (1 t w1)
  have same: "\<exists>x D. view w = (view w)\<lparr>cv_Slices := setSlice (tenantOf (view w) p) rid x (cv_Slices (view w)), cv_Deleting := D\<rparr> \<and>
      (ok \<longrightarrow> x = None \<and> tenantOf (view w) p \<noteq> None)"
    if "ok \<Longrightarrow> tenantOf (view w) p = Some ns \<and> cv_Slices (view w) (ns, resourceSliceName rid) = None" for ns ok
    using that by (cases "tenantOf (view w) p")
      (auto simp: setSlice_def intro!: exI [of _ "cv_Slices (view w) (_, resourceSliceName rid)"] exI [of _ "cv_Deleting (view w)"])
  show ?case
  proof (cases t)
    case (Inl e)
    with 1 same [of False] show ?thesis by simp
  next
    case (Inr ns)
    from 1 Inr have w1: "view w1 = view w" and t: "tenantOf (view w) p = Some ns" by simp_all
    show ?thesis
      unfolding Inr sum.case wp_bind wp_return
    proof (rule wp_mono [OF delete_slice], goal_cases)
      case (1 d w2)
      show ?case
      proof (cases d)
        case (Inl e)
        with 1 w1 same [of "e = KNotFound" ns] t show ?thesis by (auto simp: ignoreNotFound_def)
      next
        case (Inr u)
        with 1 w1 obtain D where
          "view w2 = (view w)\<lparr>cv_Slices := (cv_Slices (view w))((ns, resourceSliceName rid) := None), cv_Deleting := D\<rparr>" by auto
        then show ?thesis using t by auto
      qed
    qed
  qed
qed

lemma wp_ensureVns:
  "wp (ensureVirtualNodeState L n i) (\<lambda>r w'. \<exists>x. view w' = (view w)\<lparr>cv_Vns := (cv_Vns (view w))(virtualNodeStateName (iv_ReservationID i) := x)\<rparr> \<and>
     (r = Inr () \<longrightarrow> x = (case cv_Vns (view w) (virtualNodeStateName (iv_ReservationID i)) of Some y \<Rightarrow> Some y
        | None \<Rightarrow> Some ([(reservationLabel, iv_ReservationID i)], newVirtualNodeState n i)))) w"
  unfolding ensureVirtualNodeState_def wp_bind wp_return
proof (rule wp_mono [OF create_vns], goal_cases)
  case (1 c w')
  have name: "vn_Name (newVirtualNodeState n i) = virtualNodeStateName (iv_ReservationID i)" by (simp add: newVirtualNodeState_def)
  show ?case
  proof (cases c)
    case (Inl e)
    with 1 name show ?thesis
      by (auto simp: fun_upd_idem intro!: exI [of _ "cv_Vns (view w) (virtualNodeStateName (iv_ReservationID i))"])
  next
    case (Inr u)
    with 1 name show ?thesis by auto
  qed
qed

end

section \<open>Outcomes the Broker accepts\<close>

text \<open>\<open>yields P m\<close>: whatever the state, the result of \<open>m\<close> satisfies \<open>P\<close>.\<close>

definition yields :: "('a \<Rightarrow> bool) \<Rightarrow> ('w, 'a) state \<Rightarrow> bool" where
  "yields P m \<longleftrightarrow> (\<forall>w. P (fst (run_state m w)))"

lemma yields_return: "P a \<Longrightarrow> yields P (State_Monad.return a)"
  by (simp add: yields_def)

lemma yields_bind: "yields P m \<Longrightarrow> (\<And>a. P a \<Longrightarrow> yields R (f a)) \<Longrightarrow> yields R (State_Monad.bind m f)"
  by (auto simp: yields_def split: prod.splits) (metis fst_conv)

lemma yields_any: "yields (\<lambda>_. True) m"
  by (simp add: yields_def)

lemmas yields_then = yields_bind [OF yields_any]

definition texted :: "message + 'a \<Rightarrow> bool" where
  "texted r \<longleftrightarrow> (\<forall>m. r = Inl m \<longrightarrow> render m \<noteq> '''')"

lemma texted_simps [simp]: "texted (Inr a)" "texted (Inl m) \<longleftrightarrow> render m \<noteq> ''''"
  by (simp_all add: texted_def)

lemma texted_persist: "yields texted (persistKubeconfig L rid kc)"
  unfolding persistKubeconfig_def
  by (auto simp: failWith_def intro!: yields_then yields_return split: sum.split)

lemma texted_deletes:
  "yields texted (deleteStagedSecret L rid)" "yields texted (deleteVirtualNodeState L rid)" "yields texted (deleteForeignCluster L p)"
  unfolding deleteStagedSecret_def deleteVirtualNodeState_def deleteForeignCluster_def ignoreNotFound_def
  by (auto simp: failWith_def intro!: yields_then yields_return split: sum.split)

lemma texted_tenant: "yields texted (tenantNamespaceFor L p)"
  unfolding tenantNamespaceFor_def
  by (auto simp: failWith_def intro!: yields_then yields_return split: sum.split list.split)

lemma texted_slice: "yields texted (ensureResourceSlice L rid p res)"
  unfolding ensureResourceSlice_def
  by (rule yields_bind [OF texted_tenant]) (auto intro!: yields_then yields_return split: sum.split)

lemma texted_deleteSlice: "yields texted (deleteResourceSlice L rid p)"
  unfolding deleteResourceSlice_def ignoreNotFound_def
  by (rule yields_bind [OF texted_tenant]) (auto simp: failWith_def intro!: yields_then yields_return split: sum.split)

lemma texted_vns: "yields texted (ensureVirtualNodeState L n i)"
  unfolding ensureVirtualNodeState_def
  by (auto simp: failWith_def intro!: yields_then yields_return split: sum.split)

lemma texted_load: "yields texted (loadKubeconfigFromSecret L rid)"
  unfolding loadKubeconfigFromSecret_def
  by (auto simp: failWith_def intro!: yields_then yields_return split: sum.split)

lemma succeeded_valid:
  "rp_Kind pl \<in> {PayloadKindPeer, PayloadKindUnpeer, PayloadKindReconcile} \<Longrightarrow> validateInstructionResult (succeededWith pl) = None"
  "validateInstructionResult bareSucceeded = None"
  by (auto simp: validateInstructionResult_def succeededWith_def bareSucceeded_def)

lemma emptyPayload_kind [simp]: "rp_Kind (emptyPayload k) = k"
  by (simp add: emptyPayload_def)

text \<open>A step whose error the handler returns as it is.\<close>

lemma good_step:
  assumes "yields texted m" "\<And>a. yields good_outcome (g a)"
  shows "yields good_outcome (do { r \<leftarrow> m; (case r of Inl e \<Rightarrow> State_Monad.return (failed e) | Inr a \<Rightarrow> g a) })"
  by (rule yields_bind [OF assms(1)]) (auto intro: yields_return assms(2) split: sum.split)

lemma good_last:
  assumes "yields texted m" "\<And>a. good_outcome (g a)"
  shows "yields good_outcome (do { r \<leftarrow> m; State_Monad.return (case r of Inl e \<Rightarrow> failed e | Inr a \<Rightarrow> g a) })"
  by (rule yields_bind [OF assms(1)]) (auto intro: yields_return assms(2) split: sum.split)

lemma good_temp:
  assumes "\<And>d. yields good_outcome (g d)"
  shows "yields good_outcome (do { t \<leftarrow> m; (case t of Inl e \<Rightarrow> State_Monad.return (failed (Sprintf ''stage kubeconfig: %w'' [AMsg e]))
     | Inr dir \<Rightarrow> do { r \<leftarrow> g (dir @ ''/kubeconfig''); _ \<leftarrow> lc_RemoveAll L dir; State_Monad.return r }) })"
  by (rule yields_then) (auto intro!: yields_return yields_bind [OF assms] yields_bind [OF yields_any [of "lc_RemoveAll _ _"]] split: sum.split)

lemma good_checked:
  assumes "who \<in> {''peer'', ''unpeer'', ''cleanup''}" "\<And>L. yields good_outcome (g L)"
  shows "yields good_outcome (case checkInstruction cfg kind who i of Inl m \<Rightarrow> State_Monad.return (failed m) | Inr L \<Rightarrow> g L)"
  using assms by (auto simp: checkInstruction_def intro!: yields_return split: option.split)

lemma good_peer: "yields good_outcome (peerHandler cfg i)"
proof -
  have made: "yields good_outcome (do { s \<leftarrow> ensureResourceSlice L rid p res; (case s of
      Inl e \<Rightarrow> State_Monad.return (failed e)
    | Inr n \<Rightarrow> do { v \<leftarrow> ensureVirtualNodeState L n i; State_Monad.return (case v of Inl e \<Rightarrow> failed e
        | Inr _ \<Rightarrow> Returned (Some (succeededWith ((emptyPayload PayloadKindPeer)\<lparr>rp_ResourceSliceNames := [n]\<rparr>))) None) }) })" for L rid p res
    by (intro good_step [OF texted_slice] good_last [OF texted_vns]) (simp add: succeeded_valid)
  have staged: "yields good_outcome (peerStaged cfg L i path)" for L path
    unfolding peerStaged_def
    by (rule yields_then) (use made in \<open>auto intro!: yields_return split: option.split\<close>)
  have all: "yields good_outcome (do { p \<leftarrow> persistKubeconfig L (iv_ReservationID i) (iv_Kubeconfig i); (case p of
      Inl e \<Rightarrow> State_Monad.return (failed (Sprintf ''persist kubeconfig: %w'' [AMsg e]))
    | Inr _ \<Rightarrow> do { t \<leftarrow> writeKubeconfigToTempFile L (iv_ReservationID i) (iv_Kubeconfig i);
        (case t of Inl e \<Rightarrow> State_Monad.return (failed (Sprintf ''stage kubeconfig: %w'' [AMsg e]))
         | Inr dir \<Rightarrow> do { r \<leftarrow> peerStaged cfg L i (dir @ ''/kubeconfig''); _ \<leftarrow> lc_RemoveAll L dir; State_Monad.return r }) }) })" for L
    by (rule yields_then) (use good_temp [OF staged] in \<open>auto intro!: yields_return split: sum.split\<close>)
  show ?thesis
    unfolding peerHandler_def checkInstruction_def
    using all by (auto intro!: yields_return split: option.split)
qed

lemma good_unpeer: "yields good_outcome (unpeerHandler cfg i)"
proof -
  have fc: "yields texted (if iv_LastChunk i \<and> iv_ProviderLiqoClusterID i \<noteq> '''' then deleteForeignCluster L (iv_ProviderLiqoClusterID i)
      else State_Monad.return (Inr ()))" for L
    using texted_deletes(3) by (auto intro: yields_return)
  have fin: "yields good_outcome (finishUnpeer L i)" for L
    unfolding finishUnpeer_def
    by (intro good_step [OF texted_deletes(1)] good_last [OF fc]) (simp add: succeeded_valid)
  have staged: "yields good_outcome (unpeerStaged cfg L i path)" for L path
    unfolding unpeerStaged_def
    by (rule yields_then) (use fin in \<open>auto intro!: yields_return split: option.split\<close>)
  have rest: "yields good_outcome (if \<not> iv_LastChunk i \<or> kc = '''' then finishUnpeer L i
      else do { t \<leftarrow> writeKubeconfigToTempFile L (iv_ReservationID i) kc;
        (case t of Inl e \<Rightarrow> State_Monad.return (failed (Sprintf ''stage kubeconfig: %w'' [AMsg e]))
         | Inr dir \<Rightarrow> do { r \<leftarrow> unpeerStaged cfg L i (dir @ ''/kubeconfig''); _ \<leftarrow> lc_RemoveAll L dir; State_Monad.return r }) })" for L kc
  proof (cases "\<not> iv_LastChunk i \<or> kc = ''''")
    case True
    then show ?thesis unfolding if_P [OF True] by (intro fin)
  next
    case False
    show ?thesis unfolding if_not_P [OF False] by (rule good_temp) (rule staged)
  qed
  show ?thesis
    unfolding unpeerHandler_def
    by (intro good_checked good_step [OF texted_deletes(2)] good_step [OF texted_deleteSlice] good_step [OF texted_load] rest) simp
qed

lemma good_cleanup: "yields good_outcome (cleanupHandler cfg i)"
  unfolding cleanupHandler_def
  by (intro good_checked good_step [OF texted_deletes(2)] good_step [OF texted_deleteSlice] good_last [OF texted_deletes(1)])
    (simp_all add: succeeded_valid)

lemma good_reconcile: "yields good_outcome (reconcileHandler cfg i)"
  unfolding reconcileHandler_def
  by (auto simp: failWith_def succeeded_valid intro!: yields_return yields_then split: option.split sum.split)

section \<open>What the handlers leave behind\<close>

fun handled :: "handler_outcome \<Rightarrow> bool" where
  "handled (Returned _ None) \<longleftrightarrow> True"
| "handled _ \<longleftrightarrow> False"

lemma wp_failing:
  assumes "wp m (\<lambda>r w'. case r of Inl e \<Rightarrow> Q (failed (f e)) w' | Inr a \<Rightarrow> wp (g a) Q w') w"
  shows "wp (do { r \<leftarrow> m; (case r of Inl e \<Rightarrow> State_Monad.return (failed (f e)) | Inr a \<Rightarrow> g a) }) Q w"
  unfolding wp_bind by (rule wp_mono [OF assms]) (auto split: sum.splits)

lemma wp_branch: "(c \<Longrightarrow> wp m Q w) \<Longrightarrow> (\<not> c \<Longrightarrow> wp m' Q w) \<Longrightarrow> wp (if c then m else m') Q w"
  by simp

lemma checked_Inr:
  assumes "checkInstruction cfg kind who i = Inr K" "hc_LocalClient cfg = Some L"
  shows "K = L"
  using assms by (auto simp: checkInstruction_def split: if_splits)

lemma wp_checked:
  assumes "hc_LocalClient cfg = Some L" "\<And>m. Q (failed m) w" "wp (g L) Q w"
  shows "wp (case checkInstruction cfg kind who i of Inl m \<Rightarrow> State_Monad.return (failed m) | Inr K \<Rightarrow> g K) Q w"
  using assms by (cases "checkInstruction cfg kind who i") (auto dest: checked_Inr)

text \<open>
  What a handler for the reservation \<open>rid\<close> may do to the Secrets and states; \<open>frame_trans\<close> composes
  the steps.
\<close>

lemma ex_upd [simp]: "\<exists>a. f = f(x := a)"
  by (rule exI [of _ "f x"]) simp

definition frame :: "string \<Rightarrow> cluster_view \<Rightarrow> cluster_view \<Rightarrow> bool" where
  "frame rid v v' \<longleftrightarrow> (\<exists>a. cv_Secrets v' = (cv_Secrets v)(stagingSecretName rid := a)) \<and>
     (\<exists>b. cv_Vns v' = (cv_Vns v)(virtualNodeStateName rid := b)) \<and> cv_Dirs v' = cv_Dirs v"

lemma frame_refl: "frame rid v v"
  by (simp add: frame_def)

lemma frame_trans: "frame rid u v \<Longrightarrow> frame rid v w \<Longrightarrow> frame rid u w"
  by (auto simp: frame_def)

definition staged :: "cluster_view \<Rightarrow> InstructionView \<Rightarrow> bool" where
  "staged v i \<longleftrightarrow> (\<exists>s. cv_Secrets v (stagingSecretName (iv_ReservationID i)) = Some s \<and>
     map_of (ss_Data s) KubeconfigSecretDataKey = Some (iv_Kubeconfig i))"

definition recorded :: "cluster_view \<Rightarrow> cluster_view \<Rightarrow> InstructionView \<Rightarrow> bool" where
  "recorded v v' i \<longleftrightarrow> cv_Vns v' (virtualNodeStateName (iv_ReservationID i)) =
     (case cv_Vns v (virtualNodeStateName (iv_ReservationID i)) of Some y \<Rightarrow> Some y
      | None \<Rightarrow> Some ([(reservationLabel, iv_ReservationID i)], newVirtualNodeState (resourceSliceName (iv_ReservationID i)) i))"

definition claimed :: "cluster_view \<Rightarrow> InstructionView \<Rightarrow> bool" where
  "claimed v i \<longleftrightarrow> (\<exists>ns. tenantOf v (iv_ProviderLiqoClusterID i) = Some ns \<and>
     (cv_Slices v (ns, resourceSliceName (iv_ReservationID i)) \<noteq> None \<or> (ns, resourceSliceName (iv_ReservationID i)) \<in> cv_Deleting v))"

context consumer_cluster begin

lemma wp_peerStaged:
  "wp (peerStaged cfg L i path) (\<lambda>x w'. frame (iv_ReservationID i) (view w) (view w') \<and> cv_Secrets (view w') = cv_Secrets (view w) \<and>
     (\<exists>y. cv_Slices (view w') = setSlice (tenantOf (view w') (iv_ProviderLiqoClusterID i)) (iv_ReservationID i) y (cv_Slices (view w))) \<and>
     (handled x \<longrightarrow> claimed (view w') i \<and> recorded (view w) (view w') i)) w" (is "wp _ ?Q w")
  unfolding peerStaged_def wp_bind
proof (rule wp_mono [OF run_law], goal_cases)
  case (1 out w1)
  obtain stdout stderr err where out: "out = (stdout, stderr, err)" by (cases out)
  from 1 have w1: "cv_Secrets (view w1) = cv_Secrets (view w)" "cv_Vns (view w1) = cv_Vns (view w)" "cv_Dirs (view w1) = cv_Dirs (view w)"
    "cv_Slices (view w1) = cv_Slices (view w)" by (simp_all add: peerArgs_def)
  have fr: "frame (iv_ReservationID i) (view w) v \<longleftrightarrow> frame (iv_ReservationID i) (view w1) v" for v
    using w1 by (simp add: frame_def)
  show ?case
  proof (cases err)
    case (Some e)
    obtain y where "setSlice (tenantOf (view w1) (iv_ProviderLiqoClusterID i)) (iv_ReservationID i) y (cv_Slices (view w1)) = cv_Slices (view w1)"
      by (rule setSlice_id)
    with Some w1 show ?thesis unfolding out fr by (auto simp: frame_refl intro!: exI [of _ y])
  next
    case None
    show ?thesis
      unfolding out prod.case None option.case
    proof (rule wp_failing [where f = "\<lambda>e. e"], rule wp_mono [OF wp_ensureSlice], goal_cases)
      case (1 s w2)
      then obtain y where y: "view w2 = (view w1)\<lparr>cv_Slices := setSlice (tenantOf (view w1) (iv_ProviderLiqoClusterID i)) (iv_ReservationID i) y (cv_Slices (view w1))\<rparr>"
        "\<forall>n. s = Inr n \<longrightarrow> n = resourceSliceName (iv_ReservationID i) \<and> (\<exists>ns. tenantOf (view w1) (iv_ProviderLiqoClusterID i) = Some ns \<and>
          (y \<noteq> None \<or> (ns, n) \<in> cv_Deleting (view w1)))" by blast
      have t: "tenantOf (view w2) = tenantOf (view w1)" by (rule ext) (simp add: y tenantOf_def)
      show ?case
      proof (cases s)
        case (Inl e)
        with y w1 t show ?thesis by (auto simp: frame_def intro: exI [of _ y])
      next
        case (Inr n)
        show ?thesis
          unfolding Inr sum.case wp_bind wp_return
        proof (rule wp_mono [OF wp_ensureVns], goal_cases)
          case (1 v w3)
          then obtain b where b: "view w3 = (view w2)\<lparr>cv_Vns := (cv_Vns (view w2))(virtualNodeStateName (iv_ReservationID i) := b)\<rparr>"
            "v = Inr () \<longrightarrow> b = (case cv_Vns (view w2) (virtualNodeStateName (iv_ReservationID i)) of Some y \<Rightarrow> Some y
              | None \<Rightarrow> Some ([(reservationLabel, iv_ReservationID i)], newVirtualNodeState n i))" by blast
          have t3: "tenantOf (view w3) = tenantOf (view w1)" using t by (auto simp: b tenantOf_def fun_eq_iff)
          have "frame (iv_ReservationID i) (view w) (view w3)"
            using b y w1 by (auto simp: frame_def)
          moreover have "cv_Slices (view w3) = setSlice (tenantOf (view w3) (iv_ProviderLiqoClusterID i)) (iv_ReservationID i) y (cv_Slices (view w))"
            using b(1) y(1) w1 t3 by simp
          moreover have "claimed (view w3) i" using b(1) y t3 Inr by (auto simp: claimed_def)
          moreover have "recorded (view w) (view w3) i" if "v = Inr ()"
          proof -
            from y(2) Inr have n: "n = resourceSliceName (iv_ReservationID i)" by simp
            from that b y(1) w1 show ?thesis unfolding n by (simp add: recorded_def)
          qed
          moreover have "cv_Secrets (view w3) = cv_Secrets (view w)" using b(1) y(1) w1 by simp
          ultimately show ?case by (cases v) auto
        qed
      qed
    qed
  qed
qed

lemma wp_temp:
  assumes same: "\<And>m. Q (failed m) (view w)"
    and mid: "\<And>d w1. view w1 = (view w)\<lparr>cv_Dirs := insert d (cv_Dirs (view w))\<rparr> \<Longrightarrow> d \<notin> cv_Dirs (view w) \<Longrightarrow>
      wp (g (d @ ''/kubeconfig'')) (\<lambda>x w'. cv_Dirs (view w') = cv_Dirs (view w1) \<and> Q x ((view w')\<lparr>cv_Dirs := cv_Dirs (view w)\<rparr>)) w1"
  shows "wp (do { t \<leftarrow> writeKubeconfigToTempFile L rid kc; (case t of
      Inl e \<Rightarrow> State_Monad.return (failed (Sprintf ''stage kubeconfig: %w'' [AMsg e]))
    | Inr dir \<Rightarrow> do { r \<leftarrow> g (dir @ ''/kubeconfig''); _ \<leftarrow> lc_RemoveAll L dir; State_Monad.return r }) }) (\<lambda>x w'. Q x (view w')) w"
proof (rule wp_failing, rule wp_mono [OF wp_writeTemp], goal_cases)
  case (1 t w1)
  show ?case
  proof (cases t)
    case (Inl e)
    with 1 same show ?thesis by simp
  next
    case (Inr d)
    with 1 have d: "d \<notin> cv_Dirs (view w)" and w1: "view w1 = (view w)\<lparr>cv_Dirs := insert d (cv_Dirs (view w))\<rparr>" by simp_all
    show ?thesis
      unfolding Inr sum.case wp_bind
    proof (rule wp_mono [OF mid [OF w1 d]], goal_cases)
      case (1 x w2)
      show ?case
        unfolding wp_return_fun
      proof (rule wp_mono [OF remove_all], goal_cases)
        case (1 u w3)
        with d w1 \<open>cv_Dirs (view w2) = _ \<and> _\<close> show ?case by (simp add: Diff_insert_absorb)
      qed
    qed
  qed
qed

lemma wp_peerHandler:
  assumes "hc_LocalClient cfg = Some L"
  shows "wp (peerHandler cfg i) (\<lambda>x w'. frame (iv_ReservationID i) (view w) (view w') \<and>
     (\<exists>y. cv_Slices (view w') = setSlice (tenantOf (view w') (iv_ProviderLiqoClusterID i)) (iv_ReservationID i) y (cv_Slices (view w))) \<and>
     (handled x \<longrightarrow> staged (view w') i \<and> claimed (view w') i \<and> recorded (view w) (view w') i)) w" (is "wp _ (\<lambda>x w'. ?Q x (view w')) w")
  unfolding peerHandler_def
proof (rule wp_checked [OF assms], goal_cases)
  case (1 m)
  obtain y where "setSlice (tenantOf (view w) (iv_ProviderLiqoClusterID i)) (iv_ReservationID i) y (cv_Slices (view w)) = cv_Slices (view w)"
    by (rule setSlice_id)
  then show ?case by (auto simp: frame_refl intro!: exI [of _ y])
next
  case 2
  have same: "?Q (failed m) v" if "\<exists>a. v = (view w)\<lparr>cv_Secrets := (cv_Secrets (view w))(stagingSecretName (iv_ReservationID i) := a)\<rparr>" for m v
  proof -
    obtain y where "setSlice (tenantOf v (iv_ProviderLiqoClusterID i)) (iv_ReservationID i) y (cv_Slices (view w)) = cv_Slices (view w)"
      by (rule setSlice_id)
    then show ?thesis using that by (auto simp: frame_def intro!: exI [of _ y])
  qed
  have start: "?Q (failed m) (view w)" for m
    by (rule same, rule exI [of _ "cv_Secrets (view w) (stagingSecretName (iv_ReservationID i))"]) simp
  have go: "wp (do { p \<leftarrow> persistKubeconfig L (iv_ReservationID i) (iv_Kubeconfig i);
        (case p of
           Inl e \<Rightarrow> State_Monad.return (failed (Sprintf ''persist kubeconfig: %w'' [AMsg e]))
         | Inr _ \<Rightarrow> do {
             t \<leftarrow> writeKubeconfigToTempFile L (iv_ReservationID i) (iv_Kubeconfig i);
             (case t of
                Inl e \<Rightarrow> State_Monad.return (failed (Sprintf ''stage kubeconfig: %w'' [AMsg e]))
              | Inr dir \<Rightarrow> do {
                  r \<leftarrow> peerStaged cfg L i (dir @ ''/kubeconfig'');
                  _ \<leftarrow> lc_RemoveAll L dir;
                  State_Monad.return r }) }) }) (\<lambda>x w'. ?Q x (view w')) w"
  proof (rule wp_failing, rule wp_mono [OF wp_persist], goal_cases)
    case (1 p w1)
    then obtain a where a: "view w1 = (view w)\<lparr>cv_Secrets := (cv_Secrets (view w))(stagingSecretName (iv_ReservationID i) := a)\<rparr>"
      "p = Inr () \<longrightarrow> (\<exists>s. a = Some s \<and> map_of (ss_Data s) KubeconfigSecretDataKey = Some (iv_Kubeconfig i))" by blast
    show ?case
    proof (cases p)
      case (Inl e)
      then show ?thesis using same [of "view w1"] a(1) by auto
    next
      case (Inr u)
      show ?thesis
        unfolding Inr sum.case
      proof (rule wp_temp [where Q = ?Q], goal_cases)
        case (1 m)
        show ?case using a(1) by (intro same) auto
      next
        case (2 d w2)
        have t: "tenantOf (v\<lparr>cv_Dirs := D\<rparr>) = tenantOf v" for v D by (simp add: tenantOf_def fun_eq_iff)
        show ?case
          by (rule wp_mono [OF wp_peerStaged]) (use 2 a Inr in \<open>auto simp: frame_def staged_def claimed_def recorded_def t\<close>)
      qed
    qed
  qed
  show ?case using go start by auto
qed

text \<open>Cleanup: on success nothing of the reservation is left.\<close>

lemma wp_cleanupHandler:
  assumes "hc_LocalClient cfg = Some L"
  shows "wp (cleanupHandler cfg i) (\<lambda>x w'. \<exists>a b c D. view w' = (view w)\<lparr>
       cv_Secrets := (cv_Secrets (view w))(stagingSecretName (iv_ReservationID i) := a),
       cv_Slices := setSlice (tenantOf (view w) (iv_ProviderLiqoClusterID i)) (iv_ReservationID i) b (cv_Slices (view w)),
       cv_Vns := (cv_Vns (view w))(virtualNodeStateName (iv_ReservationID i) := c), cv_Deleting := D\<rparr> \<and>
     (handled x \<longrightarrow> a = None \<and> b = None \<and> c = None \<and> tenantOf (view w) (iv_ProviderLiqoClusterID i) \<noteq> None)) w"
    (is "wp _ ?Q w")
  unfolding cleanupHandler_def
proof (rule wp_checked [OF assms], goal_cases)
  case (1 m)
  obtain b where "setSlice (tenantOf (view w) (iv_ProviderLiqoClusterID i)) (iv_ReservationID i) b (cv_Slices (view w)) = cv_Slices (view w)"
    by (rule setSlice_id)
  then show ?case
    by (auto intro!: exI [of _ "cv_Secrets (view w) (stagingSecretName (iv_ReservationID i))"] exI [of _ b]
      exI [of _ "cv_Vns (view w) (virtualNodeStateName (iv_ReservationID i))"] exI [of _ "cv_Deleting (view w)"])
next
  case 2
  show ?case
  proof (rule wp_failing, rule wp_mono [OF wp_deleteVirtualNodeState], goal_cases)
    case (1 v w1)
    then obtain c where c: "view w1 = (view w)\<lparr>cv_Vns := (cv_Vns (view w))(virtualNodeStateName (iv_ReservationID i) := c)\<rparr>"
      "v = Inr () \<longrightarrow> c = None" by blast
    have t: "tenantOf (view w1) = tenantOf (view w)" by (simp add: c tenantOf_def fun_eq_iff)
    show ?case
    proof (cases v)
      case (Inl e)
      obtain b where "setSlice (tenantOf (view w) (iv_ProviderLiqoClusterID i)) (iv_ReservationID i) b (cv_Slices (view w)) = cv_Slices (view w)"
        by (rule setSlice_id)
      with Inl c show ?thesis
        by (auto intro!: exI [of _ "cv_Secrets (view w) (stagingSecretName (iv_ReservationID i))"] exI [of _ b] exI [of _ c]
          exI [of _ "cv_Deleting (view w)"])
    next
      case (Inr u)
      show ?thesis
        unfolding Inr sum.case
      proof (rule wp_failing, rule wp_mono [OF wp_deleteSlice], goal_cases)
        case (1 s w2)
        then obtain b D where b: "view w2 = (view w1)\<lparr>cv_Slices := setSlice (tenantOf (view w1) (iv_ProviderLiqoClusterID i)) (iv_ReservationID i) b (cv_Slices (view w1)),
            cv_Deleting := D\<rparr>" "s = Inr () \<longrightarrow> b = None \<and> tenantOf (view w1) (iv_ProviderLiqoClusterID i) \<noteq> None" by blast
        show ?case
        proof (cases s)
          case (Inl e)
          with b c t show ?thesis
            by (auto intro!: exI [of _ "cv_Secrets (view w) (stagingSecretName (iv_ReservationID i))"] exI [of _ b] exI [of _ c] exI [of _ D])
        next
          case (Inr u')
          show ?thesis
            unfolding Inr sum.case wp_bind wp_return
          proof (rule wp_mono [OF wp_deleteStagedSecret], goal_cases)
            case (1 d w3)
            then obtain a where "view w3 = (view w2)\<lparr>cv_Secrets := (cv_Secrets (view w2))(stagingSecretName (iv_ReservationID i) := a)\<rparr>"
              "d = Inr () \<longrightarrow> a = None" by blast
            with b c t Inr \<open>v = Inr u\<close> show ?case
              by (cases d) (auto intro!: exI [of _ a] exI [of _ b] exI [of _ c] exI [of _ D])
          qed
        qed
      qed
    qed
  qed
qed

text \<open>Unpeer: the same, and the tunnel is dropped only with the last chunk.\<close>

lemma wp_deleteForeign:
  "wp (deleteForeignCluster L p) (\<lambda>r w'. \<exists>F. view w' = (view w)\<lparr>cv_Foreign := F\<rparr> \<and> (r = Inr () \<longrightarrow> p \<notin> F)) w"
  unfolding deleteForeignCluster_def wp_bind wp_return
proof (rule wp_mono [OF delete_foreign], goal_cases)
  case (1 d w')
  then show ?case
    by (cases d) (auto simp: ignoreNotFound_def intro: exI [of _ "cv_Foreign (view w)"])
qed

lemma wp_dropForeign:
  "wp (if iv_LastChunk i \<and> iv_ProviderLiqoClusterID i \<noteq> '''' then deleteForeignCluster L (iv_ProviderLiqoClusterID i)
      else State_Monad.return (Inr ())) (\<lambda>r w'. \<exists>F. view w' = (view w)\<lparr>cv_Foreign := F\<rparr> \<and>
     (\<not> iv_LastChunk i \<longrightarrow> F = cv_Foreign (view w)) \<and>
     (r = Inr () \<longrightarrow> iv_LastChunk i \<longrightarrow> iv_ProviderLiqoClusterID i \<noteq> '''' \<longrightarrow> iv_ProviderLiqoClusterID i \<notin> F)) w"
proof (cases "iv_LastChunk i \<and> iv_ProviderLiqoClusterID i \<noteq> ''''")
  case True
  show ?thesis unfolding if_P [OF True] by (rule wp_mono [OF wp_deleteForeign]) (use True in auto)
next
  case False
  then show ?thesis by (auto intro: exI [of _ "cv_Foreign (view w)"])
qed

lemma wp_finishUnpeer:
  "wp (finishUnpeer L i) (\<lambda>x w'. \<exists>a F. view w' = (view w)\<lparr>cv_Secrets := (cv_Secrets (view w))(stagingSecretName (iv_ReservationID i) := a),
       cv_Foreign := F\<rparr> \<and> (\<not> iv_LastChunk i \<longrightarrow> F = cv_Foreign (view w)) \<and>
     (handled x \<longrightarrow> a = None \<and> (iv_LastChunk i \<longrightarrow> iv_ProviderLiqoClusterID i \<noteq> '''' \<longrightarrow> iv_ProviderLiqoClusterID i \<notin> F))) w"
  unfolding finishUnpeer_def
proof (rule wp_failing, rule wp_mono [OF wp_deleteStagedSecret], goal_cases)
  case (1 d w1)
  then obtain a where a: "view w1 = (view w)\<lparr>cv_Secrets := (cv_Secrets (view w))(stagingSecretName (iv_ReservationID i) := a)\<rparr>"
    "d = Inr () \<longrightarrow> a = None" by blast
  show ?case
  proof (cases d)
    case (Inl e)
    with a show ?thesis by (auto intro!: exI [of _ a] exI [of _ "cv_Foreign (view w)"])
  next
    case (Inr u)
    show ?thesis
      unfolding Inr sum.case wp_bind wp_return
    proof (rule wp_mono [OF wp_dropForeign], goal_cases)
      case (1 f w2)
      then obtain F where "view w2 = (view w1)\<lparr>cv_Foreign := F\<rparr>" "\<not> iv_LastChunk i \<longrightarrow> F = cv_Foreign (view w1)"
        "f = Inr () \<longrightarrow> iv_LastChunk i \<longrightarrow> iv_ProviderLiqoClusterID i \<noteq> '''' \<longrightarrow> iv_ProviderLiqoClusterID i \<notin> F" by blast
      with a Inr show ?case by (cases f) (auto intro!: exI [of _ a] exI [of _ F])
    qed
  qed
qed

lemma wp_unpeerStaged:
  "wp (unpeerStaged cfg L i path) (\<lambda>x w'. frame (iv_ReservationID i) (view w) (view w') \<and> cv_Vns (view w') = cv_Vns (view w) \<and>
     cv_Slices (view w') \<subseteq>\<^sub>m cv_Slices (view w) \<and>
     (handled x \<longrightarrow> cv_Secrets (view w') (stagingSecretName (iv_ReservationID i)) = None \<and>
       (iv_LastChunk i \<longrightarrow> iv_ProviderLiqoClusterID i \<noteq> '''' \<longrightarrow> iv_ProviderLiqoClusterID i \<notin> cv_Foreign (view w')))) w" (is "wp _ ?Q w")
  unfolding unpeerStaged_def wp_bind
proof (rule wp_mono [OF run_law], goal_cases)
  case (1 out w1)
  obtain stdout stderr err where out: "out = (stdout, stderr, err)" by (cases out)
  from 1 have w1: "cv_Secrets (view w1) = cv_Secrets (view w)" "cv_Vns (view w1) = cv_Vns (view w)" "cv_Dirs (view w1) = cv_Dirs (view w)"
    "cv_Slices (view w1) \<subseteq>\<^sub>m cv_Slices (view w)" by simp_all
  have fin: "wp (finishUnpeer L i) ?Q w1"
  proof (rule wp_mono [OF wp_finishUnpeer], goal_cases)
    case (1 x w2)
    then obtain a F where "view w2 = (view w1)\<lparr>cv_Secrets := (cv_Secrets (view w1))(stagingSecretName (iv_ReservationID i) := a), cv_Foreign := F\<rparr>"
      "handled x \<longrightarrow> a = None \<and> (iv_LastChunk i \<longrightarrow> iv_ProviderLiqoClusterID i \<noteq> '''' \<longrightarrow> iv_ProviderLiqoClusterID i \<notin> F)" by blast
    then show ?case using w1 by (simp add: frame_def) blast
  qed
  have bad: "?Q (failed m) w1" for m
    using w1 by (simp add: frame_def)
  show ?case
    unfolding out prod.case using fin bad by (auto split: option.split)
qed

lemma wp_load: "wp (loadKubeconfigFromSecret L rid) (\<lambda>_ w'. view w' = view w) w"
  unfolding loadKubeconfigFromSecret_def wp_bind wp_return by (rule wp_mono [OF get_secret]) simp

lemma wp_unpeerHandler:
  assumes "hc_LocalClient cfg = Some L"
  shows "wp (unpeerHandler cfg i) (\<lambda>x w'. frame (iv_ReservationID i) (view w) (view w') \<and>
     (\<exists>b. cv_Slices (view w') \<subseteq>\<^sub>m setSlice (tenantOf (view w) (iv_ProviderLiqoClusterID i)) (iv_ReservationID i) b (cv_Slices (view w)) \<and>
       (\<not> iv_LastChunk i \<longrightarrow> cv_Slices (view w') = setSlice (tenantOf (view w) (iv_ProviderLiqoClusterID i)) (iv_ReservationID i) b (cv_Slices (view w))) \<and>
       (handled x \<longrightarrow> b = None)) \<and>
     (\<not> iv_LastChunk i \<longrightarrow> cv_Foreign (view w') = cv_Foreign (view w)) \<and>
     (handled x \<longrightarrow> tenantOf (view w) (iv_ProviderLiqoClusterID i) \<noteq> None \<and>
       cv_Secrets (view w') (stagingSecretName (iv_ReservationID i)) = None \<and> cv_Vns (view w') (virtualNodeStateName (iv_ReservationID i)) = None \<and>
       (iv_LastChunk i \<longrightarrow> iv_ProviderLiqoClusterID i \<noteq> '''' \<longrightarrow> iv_ProviderLiqoClusterID i \<notin> cv_Foreign (view w')))) w"
    (is "wp _ (\<lambda>x w'. ?Q x (view w')) w")
  unfolding unpeerHandler_def
proof (rule wp_checked [OF assms], goal_cases)
  case (1 m)
  obtain b where "setSlice (tenantOf (view w) (iv_ProviderLiqoClusterID i)) (iv_ReservationID i) b (cv_Slices (view w)) = cv_Slices (view w)"
    by (rule setSlice_id)
  then show ?case by (auto simp: frame_refl intro!: exI [of _ b])
next
  case 2
  show ?case
  proof (rule wp_failing, rule wp_mono [OF wp_deleteVirtualNodeState], goal_cases)
    case (1 v w1)
    then obtain c where c: "view w1 = (view w)\<lparr>cv_Vns := (cv_Vns (view w))(virtualNodeStateName (iv_ReservationID i) := c)\<rparr>"
      "v = Inr () \<longrightarrow> c = None" by blast
    have t: "tenantOf (view w1) = tenantOf (view w)" by (simp add: c tenantOf_def fun_eq_iff)
    show ?case
    proof (cases v)
      case (Inl e)
      obtain b where "setSlice (tenantOf (view w) (iv_ProviderLiqoClusterID i)) (iv_ReservationID i) b (cv_Slices (view w)) = cv_Slices (view w)"
        by (rule setSlice_id)
      with Inl c show ?thesis by (auto simp: frame_def intro!: exI [of _ b])
    next
      case (Inr u)
      with c have c: "view w1 = (view w)\<lparr>cv_Vns := (cv_Vns (view w))(virtualNodeStateName (iv_ReservationID i) := None)\<rparr>" by simp
      show ?thesis
        unfolding Inr sum.case
      proof (rule wp_failing, rule wp_mono [OF wp_deleteSlice], goal_cases)
        case (1 s w2)
        then obtain b D where b: "view w2 = (view w1)\<lparr>cv_Slices := setSlice (tenantOf (view w1) (iv_ProviderLiqoClusterID i)) (iv_ReservationID i) b (cv_Slices (view w1)),
            cv_Deleting := D\<rparr>" "s = Inr () \<longrightarrow> b = None \<and> tenantOf (view w1) (iv_ProviderLiqoClusterID i) \<noteq> None" by blast
        show ?case
        proof (cases s)
          case (Inl e)
          with b c t show ?thesis by (auto simp: frame_def intro!: exI [of _ b])
        next
          case (Inr u')
          show ?thesis
            unfolding Inr sum.case
          proof (rule wp_failing [where f = "\<lambda>e. e"], rule wp_mono [OF wp_load], goal_cases)
            case (1 k w3)
            from Inr b c t have w2: "view w2 = (view w)\<lparr>cv_Slices := setSlice (tenantOf (view w) (iv_ProviderLiqoClusterID i)) (iv_ReservationID i) None (cv_Slices (view w)),
                cv_Deleting := D, cv_Vns := (cv_Vns (view w))(virtualNodeStateName (iv_ReservationID i) := None)\<rparr>"
              "tenantOf (view w) (iv_ProviderLiqoClusterID i) \<noteq> None" by simp_all
            have bad: "?Q (failed m) (view w3)" for m
              using 1 w2 by (auto simp: frame_def intro!: exI [of _ None])
            have fin: "wp (finishUnpeer L i) (\<lambda>x w'. ?Q x (view w')) w3"
            proof (rule wp_mono [OF wp_finishUnpeer], goal_cases)
              case (1 x w4)
              then obtain a F where "view w4 = (view w3)\<lparr>cv_Secrets := (cv_Secrets (view w3))(stagingSecretName (iv_ReservationID i) := a), cv_Foreign := F\<rparr>"
                "\<not> iv_LastChunk i \<longrightarrow> F = cv_Foreign (view w3)"
                "handled x \<longrightarrow> a = None \<and> (iv_LastChunk i \<longrightarrow> iv_ProviderLiqoClusterID i \<noteq> '''' \<longrightarrow> iv_ProviderLiqoClusterID i \<notin> F)" by blast
              with \<open>view w3 = view w2\<close> w2 show ?case
                by (simp add: frame_def) (blast intro: map_le_refl)
            qed
            have tmp: "wp (do { t \<leftarrow> writeKubeconfigToTempFile L (iv_ReservationID i) kc; (case t of
                Inl e \<Rightarrow> State_Monad.return (failed (Sprintf ''stage kubeconfig: %w'' [AMsg e]))
              | Inr dir \<Rightarrow> do { r \<leftarrow> unpeerStaged cfg L i (dir @ ''/kubeconfig''); _ \<leftarrow> lc_RemoveAll L dir; State_Monad.return r }) })
                (\<lambda>x w'. ?Q x (view w')) w3" if "iv_LastChunk i" for kc
            proof (rule wp_temp [where Q = ?Q and g = "unpeerStaged cfg L i"], goal_cases)
              case (1 m)
              show ?case by (rule bad)
            next
              case (2 d w4)
              show ?case
              proof (rule wp_mono [OF wp_unpeerStaged], goal_cases)
                case (1 x w5)
                with 2 \<open>view w3 = view w2\<close> w2 that show ?case by (auto simp: frame_def)
              qed
            qed
            show ?case
            proof (cases k)
              case (Inl e)
              then show ?thesis using bad by simp
            next
              case (Inr kc)
              show ?thesis unfolding Inr sum.case by (rule wp_branch, rule fin, rule tmp) simp
            qed
          qed
        qed
      qed
    qed
  qed
qed

end

end
