(* ===== verification/ConsumerWorld.thy ===== *)
theory ConsumerWorld
  imports ConsumerAgent Probe
begin

text \<open>
  A consumer agent with its cluster, its poller and its health probe: the contracts of the two are met by
  an agent in memory, and the properties of its instructions follow.
\<close>

section \<open>What a computation leaves alone\<close>

definition unmoved :: "('w \<Rightarrow> 'x) \<Rightarrow> ('w, 'a) state \<Rightarrow> bool" where
  "unmoved f m \<longleftrightarrow> (\<forall>w. f (snd (run_state m w)) = f w)"

lemma unmoved_return: "unmoved f (State_Monad.return a)"
  by (simp add: unmoved_def)

lemma unmoved_bind: "unmoved f m \<Longrightarrow> (\<And>a. unmoved f (g a)) \<Longrightarrow> unmoved f (State_Monad.bind m g)"
  by (auto simp: unmoved_def split: prod.splits) (metis snd_conv)

lemma wp_unmoved: "unmoved f m \<Longrightarrow> yields P m \<Longrightarrow> wp m (\<lambda>a w'. f w' = f w \<and> P a) w"
  by (auto simp: unmoved_def yields_def wp_def split: prod.splits) (metis fst_conv snd_conv)+

text \<open>
  The loops of the two roles end each cycle with a post to the Broker and the callback of the health probe; \<open>posts\<close>
  are the requests sent with their success, \<open>results\<close> the calls of the callback.
\<close>

locale report_loop =
  fixes post :: "'req \<Rightarrow> ('w, goerror + 'resp) state" and hook :: "(bool \<Rightarrow> ('w, message + unit) state) option"
    and posts :: "'w \<Rightarrow> ('req \<times> bool) list" and results :: "'w \<Rightarrow> bool list"
  assumes post_law: "wp (post req) (\<lambda>r w'. posts w' = posts w @ [(req, \<not> isl r)] \<and> results w' = results w) w"
    and hooked: "\<exists>f. hook = Some f \<and> (\<forall>b w. wp (f b) (\<lambda>_ w'. posts w' = posts w \<and> results w' = results w @ [b]) w)"
begin

abbreviation seen :: "'w \<Rightarrow> ('req \<times> bool) list \<times> bool list" where
  "seen w \<equiv> (posts w, results w)"

lemma wp_notified: "wp (notify hook b) (\<lambda>_ w'. posts w' = posts w \<and> results w' = results w @ [b]) w"
  using hooked by (auto simp: notify_def wp_return_fun)

lemma wp_reported:
  "wp (do { resp \<leftarrow> post req; _ \<leftarrow> notify hook (case resp of Inl _ \<Rightarrow> False | Inr _ \<Rightarrow> True); State_Monad.return a })
    (\<lambda>b w'. b = a \<and> (\<exists>ok. posts w' = posts w @ [(req, ok)] \<and> results w' = results w @ [ok])) w"
  unfolding wp_bind
proof (rule wp_mono [OF post_law], goal_cases)
  case (1 r w1)
  have "(case r of Inl _ \<Rightarrow> False | Inr _ \<Rightarrow> True) = (\<not> isl r)" by (cases r) simp_all
  then show ?case
    unfolding wp_return_fun
    by (intro wp_mono [OF wp_notified]) (use 1 in auto)
qed

end

text \<open>A part \<open>f\<close> of the state no call on the cluster \<open>L\<close> touches, so no handler does.\<close>

locale inert_cluster =
  fixes f :: "'w \<Rightarrow> 'x" and L :: "'w local_cluster"
  assumes unmoved_ops:
    "unmoved f (lc_CreateSecret L x)" "unmoved f (lc_GetSecret L n)" "unmoved f (lc_UpdateSecret L x)" "unmoved f (lc_DeleteSecret L n)"
    "unmoved f (lc_ListNamespaces L p)" "unmoved f (lc_CreateSlice L sl)" "unmoved f (lc_DeleteSlice L n m)" "unmoved f (lc_DeleteForeignCluster L p)"
    "unmoved f (lc_CreateVNS L ls v)" "unmoved f (lc_DeleteVNS L n)" "unmoved f (lc_ListVNS L)" "unmoved f (lc_MkdirTemp L s)"
    "unmoved f (lc_WriteFile L s t)" "unmoved f (lc_RemoveAll L d)" "unmoved f (lc_Run L s as)"
begin

lemmas unmoved_intros = unmoved_bind unmoved_return unmoved_ops

lemma unmoved_steps:
  "unmoved f (persistKubeconfig L rid kc)" "unmoved f (deleteStagedSecret L rid)" "unmoved f (deleteVirtualNodeState L rid)"
  "unmoved f (deleteForeignCluster L q)" "unmoved f (ensureVirtualNodeState L sn i)" "unmoved f (loadKubeconfigFromSecret L rid)"
  "unmoved f (writeKubeconfigToTempFile L rid kc)" "unmoved f (tenantNamespaceFor L q)"
  unfolding persistKubeconfig_def deleteStagedSecret_def deleteVirtualNodeState_def deleteForeignCluster_def
    ensureVirtualNodeState_def loadKubeconfigFromSecret_def writeKubeconfigToTempFile_def tenantNamespaceFor_def
  by (auto intro!: unmoved_intros split: sum.split)

lemma unmoved_slices: "unmoved f (ensureResourceSlice L rid q res)" "unmoved f (deleteResourceSlice L rid q)"
  unfolding ensureResourceSlice_def deleteResourceSlice_def
  by (auto intro!: unmoved_intros unmoved_steps split: sum.split)

lemma unmoved_finish: "unmoved f (finishUnpeer L i)"
  unfolding finishUnpeer_def by (auto intro!: unmoved_intros unmoved_steps split: sum.split)

lemma unmoved_staged: "unmoved f (peerStaged cfg L i path)" "unmoved f (unpeerStaged cfg L i path)"
  unfolding peerStaged_def unpeerStaged_def
  by (auto intro!: unmoved_intros unmoved_steps unmoved_slices unmoved_finish split: sum.split option.split)

lemma unmoved_handlers:
  assumes "hc_LocalClient cfg = Some L"
  shows "unmoved f (peerHandler cfg i)" "unmoved f (unpeerHandler cfg i)" "unmoved f (cleanupHandler cfg i)" "unmoved f (reconcileHandler cfg i)"
  unfolding peerHandler_def unpeerHandler_def cleanupHandler_def reconcileHandler_def assms
  by (auto dest!: checked_Inr [OF _ assms] intro!: unmoved_intros unmoved_steps unmoved_slices unmoved_finish unmoved_staged split: sum.split)

lemma unmoved_registered:
  assumes "LookupHandler (consumerRegistry L ns path NewRegistry) k = Some h"
  shows "unmoved f (h i) \<and> yields good_outcome (h i)"
  using assms unmoved_handlers [of "\<lparr>hc_LocalClient = Some L, hc_Namespace = consumerNamespace ns, hc_LiqoctlPath = path\<rparr>" i]
    good_peer good_unpeer good_cleanup good_reconcile
  by (auto simp: LookupHandler_def consumerRegistry_def RegisterReservation_def NewRegistry_def Let_def update_conv split: if_splits)

end

section \<open>The agent in memory\<close>

text \<open>
  The cluster of a consumer with a reliable API server; \<open>aw_Liqoctl\<close> answers the runs of \<^verbatim>\<open>liqoctl\<close>, which
  the agent only starts. \<open>aw_Queue\<close> are the answers of the Broker to the polls to come.
\<close>

record agent_world =
  aw_View :: cluster_view
  aw_Liqoctl :: "string list \<Rightarrow> string \<times> string \<times> message option"
  aw_Temps :: nat
  aw_Queue :: "(goerror + InstructionsResponse) list"
  aw_Posts :: "(string \<times> InstructionResultRequest) list"
  aw_Now :: Time
  aw_Probe :: Probe
  aw_Stopped :: bool

definition onView :: "(cluster_view \<Rightarrow> (kerr + 'a) \<times> cluster_view) \<Rightarrow> (agent_world, kerr + 'a) state" where
  "onView g = State (\<lambda>w. case g (aw_View w) of (r, v) \<Rightarrow> (r, w\<lparr>aw_View := v\<rparr>))"

definition memAgent :: "agent_world local_cluster" where
  "memAgent = \<lparr>
     lc_CreateSecret = (\<lambda>x. onView (\<lambda>v. if cv_Secrets v (ss_Name x) \<noteq> None then (Inl KAlreadyExists, v)
       else (Inr (), v\<lparr>cv_Secrets := (cv_Secrets v)(ss_Name x \<mapsto> x)\<rparr>))),
     lc_GetSecret = (\<lambda>n. onView (\<lambda>v. case cv_Secrets v n of None \<Rightarrow> (Inl KNotFound, v)
       | Some x \<Rightarrow> if ss_Name x = n then (Inr x, v) else (Inl (KOther ''corrupt''), v))),
     lc_UpdateSecret = (\<lambda>x. onView (\<lambda>v. if cv_Secrets v (ss_Name x) = None then (Inl KNotFound, v)
       else (Inr (), v\<lparr>cv_Secrets := (cv_Secrets v)(ss_Name x \<mapsto> x)\<rparr>))),
     lc_DeleteSecret = (\<lambda>n. onView (\<lambda>v. if cv_Secrets v n = None then (Inl KNotFound, v)
       else (Inr (), v\<lparr>cv_Secrets := (cv_Secrets v)(n := None)\<rparr>))),
     lc_ListNamespaces = (\<lambda>p. onView (\<lambda>v. (Inr (cv_Tenants v p), v))),
     lc_CreateSlice = (\<lambda>x. onView (\<lambda>v. if cv_Slices v (sl_Namespace x, sl_Name x) \<noteq> None \<or> (sl_Namespace x, sl_Name x) \<in> cv_Deleting v
       then (Inl KAlreadyExists, v) else (Inr (), v\<lparr>cv_Slices := (cv_Slices v)((sl_Namespace x, sl_Name x) \<mapsto> x)\<rparr>))),
     lc_DeleteSlice = (\<lambda>ns n. onView (\<lambda>v. if cv_Slices v (ns, n) = None then (Inl KNotFound, v)
       else (Inr (), v\<lparr>cv_Slices := (cv_Slices v)((ns, n) := None)\<rparr>))),
     lc_DeleteForeignCluster = (\<lambda>p. onView (\<lambda>v. if p \<notin> cv_Foreign v then (Inl KNotFound, v)
       else (Inr (), v\<lparr>cv_Foreign := cv_Foreign v - {p}\<rparr>))),
     lc_CreateVNS = (\<lambda>ls x. onView (\<lambda>v. if cv_Vns v (vn_Name x) \<noteq> None then (Inl KAlreadyExists, v)
       else (Inr (), v\<lparr>cv_Vns := (cv_Vns v)(vn_Name x \<mapsto> (ls, x))\<rparr>))),
     lc_DeleteVNS = (\<lambda>n. onView (\<lambda>v. if cv_Vns v n = None then (Inl KNotFound, v)
       else (Inr (), v\<lparr>cv_Vns := (cv_Vns v)(n := None)\<rparr>))),
     lc_ListVNS = State_Monad.return (Inr []),
     lc_MkdirTemp = (\<lambda>pre. State (\<lambda>w. let d = pre @ replicate (aw_Temps w) CHR ''0'' in
       if d \<in> cv_Dirs (aw_View w) then (Inl (text_msg ''file exists''), w)
       else (Inr d, w\<lparr>aw_Temps := Suc (aw_Temps w), aw_View := (aw_View w)\<lparr>cv_Dirs := insert d (cv_Dirs (aw_View w))\<rparr>\<rparr>))),
     lc_WriteFile = (\<lambda>_ _. State_Monad.return (Inr ())),
     lc_RemoveAll = (\<lambda>d. State (\<lambda>w. ((), w\<lparr>aw_View := (aw_View w)\<lparr>cv_Dirs := cv_Dirs (aw_View w) - {d}\<rparr>\<rparr>))),
     lc_Run = (\<lambda>_ as. State (\<lambda>w. (aw_Liqoctl w as, w))),
     lc_ErrText = (\<lambda>e. text_msg ''api error''),
     lc_QuantityString = (\<lambda>_. '''')\<rparr>"

lemma wp_onView: "wp (onView g) Q w \<longleftrightarrow> (case g (aw_View w) of (r, v) \<Rightarrow> Q r (w\<lparr>aw_View := v\<rparr>))"
  by (simp add: onView_def wp_def split: prod.splits)

lemma wp_State: "wp (State g) Q w \<longleftrightarrow> (case g w of (r, w') \<Rightarrow> Q r w')"
  by (simp add: wp_def)

interpretation cc: consumer_cluster memAgent aw_View
proof (unfold_locales, goal_cases)
  case (7 ns n w)
  then show ?case by (auto simp: memAgent_def wp_onView intro!: exI [of _ "cv_Deleting (aw_View w)"])
next
  case (9 ls v w)
  show ?case by (cases "cv_Vns (aw_View w) (vn_Name v)") (auto simp: memAgent_def wp_onView)
qed (auto simp: memAgent_def wp_onView wp_State Let_def split: option.splits)

lemma unmoved_onView: "(\<And>w v. f (w\<lparr>aw_View := v\<rparr>) = f w) \<Longrightarrow> unmoved f (onView g)"
  by (simp add: unmoved_def onView_def split: prod.splits)

abbreviation beside :: "agent_world \<Rightarrow> (string \<times> InstructionResultRequest) list \<times> Probe" where
  "beside w \<equiv> (aw_Posts w, aw_Probe w)"

interpretation ic: inert_cluster beside memAgent
  by unfold_locales (auto simp: memAgent_def unmoved_return Let_def intro!: unmoved_onView, auto simp: unmoved_def)

text \<open>The poller of the agent, with the callbacks of the health probe.\<close>

definition memPoller :: "bool \<Rightarrow> string \<Rightarrow> string \<Rightarrow> agent_world poller" where
  "memPoller stopped ns path = \<lparr>
     po_Get = State (\<lambda>w. case aw_Queue w of [] \<Rightarrow> (Inr \<lparr>ir_Instructions = []\<rparr>, w) | q # qs \<Rightarrow> (q, w\<lparr>aw_Queue := qs\<rparr>)),
     po_Post = (\<lambda>i r. State (\<lambda>w. (Inr (), w\<lparr>aw_Posts := aw_Posts w @ [(i, r)]\<rparr>))),
     po_CtxErr = State_Monad.return stopped,
     po_OnPollResult = Some (\<lambda>b. State (\<lambda>w. (Inr (), w\<lparr>aw_Probe := RecordPoll (aw_Now w) b (aw_Probe w)\<rparr>))),
     po_OnHandlerActive = Some (\<lambda>b. State (\<lambda>w. (Inr (), w\<lparr>aw_Probe := RecordHandlerActive (aw_Now w) b (aw_Probe w)\<rparr>))),
     po_Registry = consumerRegistry memAgent ns path NewRegistry\<rparr>"

abbreviation inFlight :: "agent_world \<Rightarrow> int" where
  "inFlight w \<equiv> pb_InFlight (aw_Probe w)"

interpretation pw: poller_world "memPoller stopped ns path" aw_Posts inFlight
proof (unfold_locales, goal_cases)
  case (6 k h j w)
  then have "unmoved beside (h j) \<and> yields good_outcome (h j)"
    by (intro ic.unmoved_registered [of ns path k]) (simp add: memPoller_def)
  then show ?case by (intro wp_mono [OF wp_unmoved]) auto
qed (auto simp: memPoller_def wp_State RecordPoll_def RecordHandlerActive_def Let_def split: list.splits)

section \<open>An example\<close>

definition emptyView :: cluster_view where
  "emptyView = \<lparr>cv_Secrets = Map.empty, cv_Slices = Map.empty, cv_Deleting = {}, cv_Vns = Map.empty, cv_Foreign = {''p''},
     cv_Tenants = (\<lambda>_. []), cv_Dirs = {}\<rparr>"

definition instructionFor :: "ReservationInstructionKind \<Rightarrow> bool \<Rightarrow> InstructionView" where
  "instructionFor k final = \<lparr>iv_ID = ''i'', iv_Kind = ri_kind_string k, iv_ReservationID = ''r'', iv_ChunkCount = 1, iv_LastChunk = final,
     iv_ConsumerClusterID = ''c'', iv_ConsumerLiqoClusterID = ''c'', iv_ProviderClusterID = ''p'', iv_ProviderLiqoClusterID = ''p'',
     iv_Kubeconfig = ''k'', iv_ResourceSliceResources = [(''cpu'', 2)], iv_ResourceSliceNames = [], iv_Namespaces = [], iv_IssuedAt = 0,
     iv_ExpiresAt = 1\<rparr>"

definition exampleWorld :: "bool \<Rightarrow> agent_world" where
  "exampleWorld works = \<lparr>aw_View = emptyView, aw_Liqoctl = (\<lambda>_. ('''', '''', if works then None else Some (text_msg ''exit status 1''))),
     aw_Temps = 0, aw_Queue = [Inr \<lparr>ir_Instructions = [instructionFor RIPeer False, instructionFor RICleanup False]\<rparr>], aw_Posts = [],
     aw_Now = 10, aw_Probe = NewProbe 0 0, aw_Stopped = False\<rparr>"

definition exampleConfig :: "agent_world handler_config" where
  "exampleConfig = \<lparr>hc_LocalClient = Some memAgent, hc_Namespace = ''ns'', hc_LiqoctlPath = ''''\<rparr>"

lemma example_handled:
  "handled (fst (run_state (peerHandler exampleConfig (instructionFor RIPeer False)) (exampleWorld True)))"
  "handled (fst (run_state (unpeerHandler exampleConfig (instructionFor RIUnpeer True)) (exampleWorld True)))"
  "handled (fst (run_state (cleanupHandler exampleConfig (instructionFor RICleanup False))
     (snd (run_state (peerHandler exampleConfig (instructionFor RIPeer False)) (exampleWorld False)))))"
  by code_simp+

section \<open>Properties\<close>

text \<open>
  C12. A chunk is taken down without a trace. Let a Peer instruction run for a reservation the cluster knows
  nothing of, and succeed or fail at any of its steps. When a later Cleanup of the reservation succeeds, or
  an Unpeer that is not for the last chunk, the Secrets, the ResourceSlices, the VirtualNodeStates and
  the temporary directories are exactly those from before the Peer.
\<close>

theorem peer_teardown_roundtrip:
  assumes "consumer_cluster L view" "hc_LocalClient cfg = Some L"
    and same: "iv_ReservationID j = iv_ReservationID i" "iv_ProviderLiqoClusterID j = iv_ProviderLiqoClusterID i"
    and fresh: "cv_Secrets (view w) (stagingSecretName (iv_ReservationID i)) = None"
      "cv_Vns (view w) (virtualNodeStateName (iv_ReservationID i)) = None"
      "\<forall>ns. cv_Slices (view w) (ns, resourceSliceName (iv_ReservationID i)) = None"
    and peer: "run_state (peerHandler cfg i) w = (x, w1)"
    and down: "run_state (h j) w1 = (y, w2)" "handled y"
      "h = cleanupHandler cfg \<or> h = unpeerHandler cfg \<and> \<not> iv_LastChunk j"
  shows "cv_Secrets (view w2) = cv_Secrets (view w) \<and> cv_Slices (view w2) = cv_Slices (view w) \<and>
    cv_Vns (view w2) = cv_Vns (view w) \<and> cv_Dirs (view w2) = cv_Dirs (view w)"
proof -
  let ?rid = "iv_ReservationID i" and ?t = "tenantOf (view w1) (iv_ProviderLiqoClusterID i)"
  note p = wp_run [OF consumer_cluster.wp_peerHandler [OF assms(1, 2)] peer]
  then obtain z where fr: "frame ?rid (view w) (view w1)" and z: "cv_Slices (view w1) = setSlice ?t ?rid z (cv_Slices (view w))" by blast
  have "frame ?rid (view w1) (view w2) \<and> cv_Slices (view w2) = setSlice ?t ?rid None (cv_Slices (view w1)) \<and>
      cv_Secrets (view w2) (stagingSecretName ?rid) = None \<and> cv_Vns (view w2) (virtualNodeStateName ?rid) = None"
    using down(3)
  proof
    assume h: "h = cleanupHandler cfg"
    from wp_run [OF consumer_cluster.wp_cleanupHandler [OF assms(1, 2)] down(1) [unfolded h]] down(2) same
    show ?thesis by (auto simp: frame_def)
  next
    assume h: "h = unpeerHandler cfg \<and> \<not> iv_LastChunk j"
    from wp_run [OF consumer_cluster.wp_unpeerHandler [OF assms(1, 2)] down(1) [unfolded h [THEN conjunct1]]] down(2) same h
    show ?thesis by auto
  qed
  moreover from this have "frame ?rid (view w) (view w2)" using frame_trans [OF fr] by blast
  moreover have "setSlice ?t ?rid None (cv_Slices (view w)) = cv_Slices (view w)"
    using fresh(3) by (intro setSlice_same) (simp split: option.split)
  ultimately show ?thesis
    using z fresh(1, 2) by (simp add: frame_def) (metis fun_upd_same fun_upd_triv)
qed

text \<open>The Peer fails at \<^verbatim>\<open>liqoctl\<close>, with the Secret already staged; the Cleanup removes it.\<close>

theorem peer_teardown_roundtrip_witness:
  "cv_Secrets (aw_View (snd (run_state (cleanupHandler exampleConfig (instructionFor RICleanup False))
     (snd (run_state (peerHandler exampleConfig (instructionFor RIPeer False)) (exampleWorld False)))))) = cv_Secrets emptyView"
  using peer_teardown_roundtrip [OF cc.consumer_cluster_axioms, of exampleConfig "instructionFor RICleanup False" "instructionFor RIPeer False"
      "exampleWorld False" _ _ "cleanupHandler exampleConfig", OF _ _ _ _ _ _ surjective_pairing surjective_pairing example_handled(3)]
  by (simp add: exampleConfig_def instructionFor_def exampleWorld_def emptyView_def)



text \<open>
  C14. Releasing a chunk: unless it is the last of the peering, Unpeer leaves the ForeignCluster and the
  chunks of other reservations alone. When it succeeds, Secret, VirtualNodeState and ResourceSlice of the
  reservation are gone, and for the last chunk the provider's ForeignCluster too, so the tunnel falls with
  the last chunk and not before.
\<close>

theorem unpeer_effects:
  assumes "consumer_cluster L view" "hc_LocalClient cfg = Some L" "run_state (unpeerHandler cfg i) w = (x, w')"
  shows "frame (iv_ReservationID i) (view w) (view w') \<and>
    (iv_LastChunk i \<or> cv_Foreign (view w') = cv_Foreign (view w) \<and>
      (\<forall>ns n. n = resourceSliceName (iv_ReservationID i) \<or> cv_Slices (view w') (ns, n) = cv_Slices (view w) (ns, n))) \<and>
    (\<not> handled x \<or> cv_Secrets (view w') (stagingSecretName (iv_ReservationID i)) = None \<and>
      cv_Vns (view w') (virtualNodeStateName (iv_ReservationID i)) = None \<and>
      (\<exists>ns. tenantOf (view w) (iv_ProviderLiqoClusterID i) = Some ns \<and>
        cv_Slices (view w') (ns, resourceSliceName (iv_ReservationID i)) = None) \<and>
      (\<not> iv_LastChunk i \<or> iv_ProviderLiqoClusterID i = '''' \<or> iv_ProviderLiqoClusterID i \<notin> cv_Foreign (view w')))"
proof -
  note p = wp_run [OF consumer_cluster.wp_unpeerHandler [OF assms(1, 2)] assms(3)]
  then obtain b where b: "cv_Slices (view w') \<subseteq>\<^sub>m setSlice (tenantOf (view w) (iv_ProviderLiqoClusterID i)) (iv_ReservationID i) b (cv_Slices (view w))"
    "\<not> iv_LastChunk i \<longrightarrow> cv_Slices (view w') = setSlice (tenantOf (view w) (iv_ProviderLiqoClusterID i)) (iv_ReservationID i) b (cv_Slices (view w))"
    "handled x \<longrightarrow> b = None" by blast
  have "cv_Slices (view w') (ns, resourceSliceName (iv_ReservationID i)) = None"
    if "handled x" "tenantOf (view w) (iv_ProviderLiqoClusterID i) = Some ns" for ns
    using b(1, 3) that by (simp add: map_le_def) (metis domIff fun_upd_same)
  moreover have "iv_LastChunk i \<or> (\<forall>ns n. n = resourceSliceName (iv_ReservationID i) \<or> cv_Slices (view w') (ns, n) = cv_Slices (view w) (ns, n))"
    using b(2) setSlice_other by metis
  ultimately show ?thesis using p by blast
qed

theorem unpeer_effects_witness:
  "''p'' \<notin> cv_Foreign (aw_View (snd (run_state (unpeerHandler exampleConfig (instructionFor RIUnpeer True)) (exampleWorld True))))"
  using unpeer_effects [OF cc.consumer_cluster_axioms _ surjective_pairing, of exampleConfig "instructionFor RIUnpeer True" "exampleWorld True"]
    example_handled(2) by (simp add: exampleConfig_def instructionFor_def)



end
