(* ===== verification/Discovery.thy ===== *)
theory Discovery
  imports Poller
begin

text \<open>
  What an agent finds out about its own place: the address of its node (\<^verbatim>\<open>internal/agent/nodeip\<close>), the location
  of that address (\<^verbatim>\<open>internal/agent/geo\<close>) and the carbon intensity of the region (\<^verbatim>\<open>internal/agent/eco\<close>). One HTTP
  exchange with the two services is an argument; the clients' caches are threaded through.
\<close>

section \<open>Node address (nodeip.go)\<close>

fun pickAddress :: "(string \<times> string) list \<Rightarrow> string \<Rightarrow> string" where
  "pickAddress [] internal = internal"
| "pickAddress ((t, a) # addrs) internal =
    (if t = ''ExternalIP'' \<and> a \<noteq> '''' then a
     else if t = ''InternalIP'' \<and> internal = '''' then pickAddress addrs a
     else pickAddress addrs internal)"

text \<open>\<open>get\<close> reads the addresses of a node; a nil client is \<open>None\<close>.\<close>

definition ResolveIP :: "(string \<Rightarrow> ('w, kerr + (string \<times> string) list) state) option \<Rightarrow> string \<Rightarrow> string \<Rightarrow> ('w, message + string) state" where
  "ResolveIP get nodeName override =
    (if override \<noteq> '''' then State_Monad.return (Inr override)
     else case get of
       None \<Rightarrow> State_Monad.return (Inr '''')
     | Some get \<Rightarrow>
         if nodeName = '''' then State_Monad.return (Inr '''')
         else do {
           r \<leftarrow> get nodeName;
           State_Monad.return (case r of
             Inl e \<Rightarrow> Inl (Sprintf ''nodeip: get node %q: %w'' [AStr nodeName, AMsg (kubeMessage e)])
           | Inr addrs \<Rightarrow> Inr (pickAddress addrs '''')) })"

section \<open>HTTP exchanges\<close>

text \<open>A request that cannot be built, one without an answer, or a status with the decoded body.\<close>

datatype 'a fetched = NoRequest message | NoAnswer message | Answer nat "message + 'a"

section \<open>Geolocation (geo/client.go)\<close>

record GeoLocation =
  ge_Lat :: real
  ge_Lon :: real
  ge_Region :: string
  ge_RegionName :: string
  ge_City :: string
  ge_CountryCode :: string
  ge_ContinentCode :: string

record geoResponse = GeoLocation +
  gr_Status :: string

type_synonym geoCache = "(string \<times> GeoLocation) list"

definition geoUsable :: "geoResponse \<Rightarrow> bool" where
  "geoUsable out \<longleftrightarrow> \<not> (gr_Status out = ''fail'' \<or> ge_Region out = '''' \<and> ge_Lat out = 0 \<and> ge_Lon out = 0)"

definition geoParse :: "string \<Rightarrow> geoResponse fetched \<Rightarrow> message + GeoLocation option" where
  "geoParse ip x = (case x of
     NoRequest e \<Rightarrow> Inl (Sprintf ''geo: build request: %w'' [AMsg e])
   | NoAnswer e \<Rightarrow> Inl (Sprintf ''geo: call mock-geo: %w'' [AMsg e])
   | Answer st body \<Rightarrow>
       if st \<noteq> 200 then Inl (Sprintf ''geo: mock-geo returned status %d for ip %q'' [AInt (int st), AStr ip])
       else case body of
         Inl e \<Rightarrow> Inl (Sprintf ''geo: decode response: %w'' [AMsg e])
       | Inr out \<Rightarrow> Inr (if geoUsable out then Some (GeoLocation.truncate out) else None))"

definition geoLookup :: "(string \<Rightarrow> string \<Rightarrow> ('w, geoResponse fetched) state) \<Rightarrow> string \<Rightarrow> string \<Rightarrow> geoCache \<Rightarrow>
    ('w, (message + GeoLocation option) \<times> geoCache) state" where
  "geoLookup fetch baseURL ip cache =
    (if baseURL = '''' \<or> ip = '''' then State_Monad.return (Inr None, cache)
     else case map_of cache ip of
       Some v \<Rightarrow> State_Monad.return (Inr (Some v), cache)
     | None \<Rightarrow> do {
         x \<leftarrow> fetch baseURL ip;
         State_Monad.return (case geoParse ip x of
           Inr (Some v) \<Rightarrow> (Inr (Some v), AList.update ip v cache)
         | r \<Rightarrow> (r, cache)) })"

section \<open>Carbon intensity (eco/client.go)\<close>

record EcoClient =
  ec_cache :: "(string \<times> real \<times> Time) list"
  ec_fcache :: "(string \<times> real list \<times> Time) list"
  ec_ttl :: Duration

definition NewEcoClient :: "Duration \<Rightarrow> EcoClient" where
  "NewEcoClient ttl = \<lparr>ec_cache = [], ec_fcache = [], ec_ttl = (if ttl \<le> 0 then 3600 * 10 ^ 9 else ttl)\<rparr>"

text \<open>The errors of one exchange; \<open>what\<close> is the infix by which the two endpoints' texts differ.\<close>

definition ecoParse :: "string \<Rightarrow> string \<Rightarrow> 'a fetched \<Rightarrow> message + 'a" where
  "ecoParse what region x = (case x of
     NoRequest e \<Rightarrow> Inl (Sprintf (''eco: build '' @ what @ ''request: %w'') [AMsg e])
   | NoAnswer e \<Rightarrow> Inl (Sprintf (''eco: call mock-eco '' @ what @ '': %w'') [AMsg e])
   | Answer st body \<Rightarrow>
       if st \<noteq> 200 then Inl (Sprintf (''eco: mock-eco '' @ what @ ''returned status %d for region %q'') [AInt (int st), AStr region])
       else case body of
         Inl e \<Rightarrow> Inl (Sprintf (''eco: decode '' @ what @ ''response: %w'') [AMsg e])
       | Inr out \<Rightarrow> Inr out)"

definition staleOrErr :: "EcoClient \<Rightarrow> string \<Rightarrow> message \<Rightarrow> message + real option" where
  "staleOrErr c region err = (case map_of (ec_cache c) region of Some (v, _) \<Rightarrow> Inr (Some v) | None \<Rightarrow> Inl err)"

definition CurrentCarbon :: "('w, Time) state \<Rightarrow> (string \<Rightarrow> string \<Rightarrow> ('w, real fetched) state) \<Rightarrow> string \<Rightarrow> string \<Rightarrow> EcoClient \<Rightarrow>
    ('w, (message + real option) \<times> EcoClient) state" where
  "CurrentCarbon clock fetch baseURL region c =
    (if baseURL = '''' \<or> region = '''' then State_Monad.return (Inr None, c)
     else do {
       now \<leftarrow> clock;
       let cached = map_of (ec_cache c) region;
       if (case cached of Some (_, fetchedAt) \<Rightarrow> now - fetchedAt < ec_ttl c | None \<Rightarrow> False)
       then State_Monad.return (Inr (map_option fst cached), c)
       else do {
         x \<leftarrow> fetch baseURL region;
         (case ecoParse '''' region x of
            Inl err \<Rightarrow> State_Monad.return (staleOrErr c region err, c)
          | Inr v \<Rightarrow> do {
              fetchedAt \<leftarrow> clock;
              State_Monad.return (Inr (Some v), c\<lparr>ec_cache := AList.update region (v, fetchedAt) (ec_cache c)\<rparr>) }) } })"

definition staleForecastOrErr :: "EcoClient \<Rightarrow> string \<Rightarrow> message \<Rightarrow> message + real list" where
  "staleForecastOrErr c region err = (case map_of (ec_fcache c) region of Some (vs, _) \<Rightarrow> Inr vs | None \<Rightarrow> Inl err)"

definition Forecast :: "('w, Time) state \<Rightarrow> (string \<Rightarrow> string \<Rightarrow> ('w, int list fetched) state) \<Rightarrow> string \<Rightarrow> string \<Rightarrow> EcoClient \<Rightarrow>
    ('w, (message + real list) \<times> EcoClient) state" where
  "Forecast clock fetch baseURL region c =
    (if baseURL = '''' \<or> region = '''' then State_Monad.return (Inr [], c)
     else do {
       now \<leftarrow> clock;
       let cached = map_of (ec_fcache c) region;
       if (case cached of Some (_, fetchedAt) \<Rightarrow> now - fetchedAt < ec_ttl c | None \<Rightarrow> False)
       then State_Monad.return (Inr (fst (the cached)), c)
       else do {
         x \<leftarrow> fetch baseURL region;
         (case ecoParse ''forecast '' region x of
            Inl err \<Rightarrow> State_Monad.return (staleForecastOrErr c region err, c)
          | Inr out \<Rightarrow> do {
              fetchedAt \<leftarrow> clock;
              let vs = map real_of_int out;
              State_Monad.return (Inr vs, c\<lparr>ec_fcache := AList.update region (vs, fetchedAt) (ec_fcache c)\<rparr>) }) } })"

section \<open>What the caches give\<close>

text \<open>A location once found is kept: later lookups need no service and give the same answer.\<close>

lemma geoLookup_found:
  "wp (geoLookup fetch baseURL ip cache) (\<lambda>(r, cache') w'. (\<forall>v. r = Inr (Some v) \<longrightarrow> map_of cache' ip = Some v) \<and>
     (\<forall>k v. map_of cache k = Some v \<longrightarrow> map_of cache' k = Some v)) w"
  unfolding geoLookup_def
  by (auto simp: wp_def update_conv split: option.splits prod.splits sum.splits)

lemma geoLookup_cached:
  "baseURL \<noteq> '''' \<Longrightarrow> ip \<noteq> '''' \<Longrightarrow> map_of cache ip = Some v \<Longrightarrow> geoLookup fetch baseURL ip cache = State_Monad.return (Inr (Some v), cache)"
  by (simp add: geoLookup_def)

text \<open>A region whose intensity was read once has a value from then on, whatever the service answers.\<close>

lemma carbon_found:
  "wp (CurrentCarbon clock fetch baseURL region c) (\<lambda>(r, c') w'.
     (\<forall>v. r = Inr (Some v) \<longrightarrow> map_of (ec_cache c') region \<noteq> None) \<and>
     (\<forall>k. map_of (ec_cache c) k \<noteq> None \<longrightarrow> map_of (ec_cache c') k \<noteq> None) \<and>
     (map_of (ec_cache c) region \<noteq> None \<longrightarrow> baseURL \<noteq> '''' \<longrightarrow> region \<noteq> '''' \<longrightarrow> (\<exists>v. r = Inr (Some v)))) w"
  unfolding CurrentCarbon_def staleOrErr_def Let_def
  by (auto simp: wp_def update_conv' split: option.splits prod.splits sum.splits if_splits)

end
