(* ===== verification/Heartbeater.thy ===== *)
theory Heartbeater
  imports ConsumerWorld Discovery
begin

text \<open>
  \<^verbatim>\<open>internal/agent/consumer/heartbeat\<close>: the loop by which a consumer tells the Broker that it is alive, where it is and
  which placement policy it wants.
\<close>

section \<open>The heartbeat\<close>

definition DefaultHeartbeatInterval :: Duration where
  "DefaultHeartbeatInterval = 15 * 10 ^ 9"

definition heartbeatInterval :: "Duration \<Rightarrow> Duration" where
  "heartbeatInterval d = (if d \<le> 0 then DefaultHeartbeatInterval else d)"

record Heartbeater =
  he_ClusterID :: string
  he_LiqoClusterID :: string
  he_NodeName :: string
  he_AdvertisedIP :: string
  he_MockGeoURL :: string
  he_GeoCache :: geoCache
  he_Location :: "GeoLocation option"

text \<open>The local API server, which may be absent, the geolocation service, the prober and the choice of the local brain, the Broker and the callback.\<close>

record 'w heartbeat_client =
  hk_ListPolicies :: "('w, kerr + ConsumerPolicy list) state"
  hk_GetNode :: "string \<Rightarrow> ('w, kerr + (string \<times> string) list) state"

record 'w heartbeat_env =
  hv_Client :: "'w heartbeat_client option"
  hv_Geo :: "string \<Rightarrow> string \<Rightarrow> ('w, geoResponse fetched) state"
  hv_LastMeasurements :: "('w, ProbeResult) state option"
  hv_LocalChoice :: "('w, string) state option"
  hv_Post :: "HeartbeatRequest \<Rightarrow> ('w, goerror + HeartbeatResponse) state"
  hv_OnResult :: "(bool \<Rightarrow> ('w, message + unit) state) option"

definition LastLocation :: "Heartbeater \<Rightarrow> real \<times> real \<times> string \<times> bool" where
  "LastLocation h = (case he_Location h of None \<Rightarrow> (0, 0, '''', False) | Some l \<Rightarrow> (ge_Lat l, ge_Lon l, ge_Region l, True))"

text \<open>Unreachable sites have no finite round trip.\<close>

definition finiteRTTs :: "(string \<times> rtt) list \<Rightarrow> (string \<times> real) list" where
  "finiteRTTs m = concat (map (\<lambda>(k, v). case v of None \<Rightarrow> [] | Some d \<Rightarrow> [(k, d)]) m)"

definition currentPlacement :: "'w heartbeat_env \<Rightarrow> ('w, PlacementPolicy option) state" where
  "currentPlacement E = (case hv_Client E of
     None \<Rightarrow> State_Monad.return None
   | Some c \<Rightarrow> do {
       l \<leftarrow> hk_ListPolicies c;
       State_Monad.return (case l of
         Inl _ \<Rightarrow> None
       | Inr [] \<Rightarrow> None
       | Inr (x # xs) \<Rightarrow> Some (cp_Placement (cp_Spec (lowestPolicy x (x # xs))))) })"

definition beatRequest :: "Heartbeater \<Rightarrow> PlacementPolicy option \<Rightarrow> GeoLocation option \<Rightarrow> ProbeResult option \<Rightarrow> string option \<Rightarrow> HeartbeatRequest" where
  "beatRequest h placement loc measured choice =
    (let req = \<lparr>hb_ClusterID = he_ClusterID h, hb_LiqoClusterID = he_LiqoClusterID h, hb_Placement = placement,
           hb_Region = (case loc of None \<Rightarrow> '''' | Some l \<Rightarrow> ge_Region l), hb_City = (case loc of None \<Rightarrow> '''' | Some l \<Rightarrow> ge_City l),
           hb_Latitude = map_option ge_Lat loc, hb_Longitude = map_option ge_Lon loc,
           hb_MeasuredLatencies = [], hb_ChosenProvider = '''', hb_DecidedBy = ''''\<rparr>;
         req = (case measured of
             None \<Rightarrow> req
           | Some m \<Rightarrow> if pr_RTTs m = [] then req
               else req\<lparr>hb_MeasuredLatencies := finiteRTTs (pr_RTTs m), hb_ChosenProvider := pr_Chosen m\<rparr>)
     in case choice of None \<Rightarrow> req | Some c \<Rightarrow> req\<lparr>hb_DecidedBy := DecidedByLocal, hb_ChosenProvider := c\<rparr>)"

definition optional :: "('w, 'a) state option \<Rightarrow> ('w, 'a option) state" where
  "optional m = (case m of None \<Rightarrow> State_Monad.return None | Some m \<Rightarrow> do { x \<leftarrow> m; State_Monad.return (Some x) })"

definition locateConsumer :: "'w heartbeat_env \<Rightarrow> Heartbeater \<Rightarrow> message + string \<Rightarrow> ('w, GeoLocation option \<times> Heartbeater) state" where
  "locateConsumer E h r = (case r of
     Inl _ \<Rightarrow> State_Monad.return (None, h)
   | Inr ip \<Rightarrow> do {
       (l, g) \<leftarrow> geoLookup (hv_Geo E) (he_MockGeoURL h) ip (he_GeoCache h);
       let h = h\<lparr>he_GeoCache := g\<rparr>;
       State_Monad.return (case l of
         Inr (Some loc) \<Rightarrow> (Some loc, h\<lparr>he_Location := Some loc\<rparr>)
       | _ \<Rightarrow> (None, h)) })"

definition beatOnce :: "'w heartbeat_env \<Rightarrow> Heartbeater \<Rightarrow> ('w, Heartbeater) state" where
  "beatOnce E h = do {
     placement \<leftarrow> currentPlacement E;
     r \<leftarrow> ResolveIP (map_option hk_GetNode (hv_Client E)) (he_NodeName h) (he_AdvertisedIP h);
     (loc, h) \<leftarrow> locateConsumer E h r;
     measured \<leftarrow> optional (hv_LastMeasurements E);
     choice \<leftarrow> optional (hv_LocalChoice E);
     resp \<leftarrow> hv_Post E (beatRequest h placement loc measured choice);
     _ \<leftarrow> notify (hv_OnResult E) (case resp of Inl _ \<Rightarrow> False | Inr _ \<Rightarrow> True);
     State_Monad.return h }"

text \<open>\<^verbatim>\<open>Run\<close> for the events of its \<^verbatim>\<open>select\<close>: the ticker fired or the context ended.\<close>

fun beatLoop :: "'w heartbeat_env \<Rightarrow> bool list \<Rightarrow> Heartbeater \<Rightarrow> ('w, Heartbeater) state" where
  "beatLoop E [] h = State_Monad.return h"
| "beatLoop E (fired # es) h = (if fired then do { h \<leftarrow> beatOnce E h; beatLoop E es h } else State_Monad.return h)"

definition beatRun :: "'w heartbeat_env \<Rightarrow> bool list \<Rightarrow> Heartbeater \<Rightarrow> ('w, Heartbeater) state" where
  "beatRun E es h = do { h \<leftarrow> beatOnce E h; beatLoop E es h }"

section \<open>What the Broker makes of it\<close>

text \<open>The lowest-named policy.\<close>

lemma lowestPolicy_least:
  "lowestPolicy x items \<in> insert x (set items) \<and> (\<forall>y\<in>insert x (set items). cp_Name (lowestPolicy x items) \<le> cp_Name y)"
  unfolding lowestPolicy_def
proof (induction items arbitrary: x)
  case (Cons y items)
  from Cons.IH [of x] Cons.IH [of y] show ?case by (auto intro: order_trans less_imp_le)
qed simp

lemma beatRequest_fields [simp]:
  "hb_ClusterID (beatRequest h pl loc m c) = he_ClusterID h" "hb_LiqoClusterID (beatRequest h pl loc m c) = he_LiqoClusterID h"
  "hb_Placement (beatRequest h pl loc m c) = pl" "hb_Region (beatRequest h pl loc m c) = (case loc of None \<Rightarrow> '''' | Some l \<Rightarrow> ge_Region l)"
  "hb_Latitude (beatRequest h pl loc m c) = map_option ge_Lat loc" "hb_Longitude (beatRequest h pl loc m c) = map_option ge_Lon loc"
  "hb_DecidedBy (beatRequest h pl loc m c) = (case c of None \<Rightarrow> '''' | Some _ \<Rightarrow> DecidedByLocal)"
  by (auto simp: beatRequest_def Let_def split: option.split)

text \<open>The Broker accepts every heartbeat an agent sends in its own name, and knows the consumer with its policy from then on.\<close>

lemma beat_accepted:
  assumes "he_ClusterID h \<noteq> ''''" "he_LiqoClusterID h \<noteq> ''''"
  shows "\<exists>R' e. handleHeartbeat now (he_ClusterID h) (Inr (beatRequest h pl loc m c)) R = (writeJSON 200 \<lparr>hr_AckAt = now\<rparr>, R') \<and>
    Lookup R' (he_ClusterID h) = (e, True) \<and> ce_LiqoClusterID e = he_LiqoClusterID h \<and> ce_LastSeen e = now \<and>
    ce_Placement e = (case pl of Some p \<Rightarrow> p | None \<Rightarrow> \<lparr>pp_Type = ''''\<rparr>) \<and> (ce_HasLocation e \<longleftrightarrow> loc \<noteq> None)"
  using assms
  by (cases loc; cases c)
    (auto simp: handleHeartbeat_def validateHeartbeatRequest_def Let_def Lookup_def Touch_def SetDecision_def zero_ConsumerEntry_def update_conv'
      split: option.split)

text \<open>Reading policies, nodes, the location, the measurements and the local choice posts and reports nothing.\<close>

locale heartbeat_world = report_loop "hv_Post E" "hv_OnResult E" posts results
  for E :: "'w heartbeat_env" and posts :: "'w \<Rightarrow> (HeartbeatRequest \<times> bool) list" and results :: "'w \<Rightarrow> bool list" +
  assumes client_quiet: "hv_Client E = Some c \<Longrightarrow> unmoved seen (hk_ListPolicies c)" "hv_Client E = Some c \<Longrightarrow> unmoved seen (hk_GetNode c n)"
    and geo_quiet: "unmoved seen (hv_Geo E n m)"
    and prober_quiet: "hv_LastMeasurements E = Some pm \<Longrightarrow> unmoved seen pm"
    and choice_quiet: "hv_LocalChoice E = Some cm \<Longrightarrow> unmoved seen cm"
begin

lemma unmoved_optional:
  "unmoved seen (optional (hv_LastMeasurements E))" "unmoved seen (optional (hv_LocalChoice E))"
  using prober_quiet choice_quiet unfolding optional_def by (auto intro!: unmoved_bind unmoved_return split: option.split)

lemma unmoved_reads:
  "unmoved seen (currentPlacement E)" "unmoved seen (ResolveIP (map_option hk_GetNode (hv_Client E)) name ip)"
  "unmoved seen (geoLookup (hv_Geo E) u ip c)"
  using client_quiet geo_quiet unfolding currentPlacement_def ResolveIP_def geoLookup_def
  by (auto intro!: unmoved_bind unmoved_return split: option.split)

end

definition same_consumer :: "Heartbeater \<Rightarrow> Heartbeater \<Rightarrow> bool" where
  "same_consumer h h' \<longleftrightarrow> he_ClusterID h' = he_ClusterID h \<and> he_LiqoClusterID h' = he_LiqoClusterID h"

lemma located_same: "yields (\<lambda>(_, h'). same_consumer h h') (locateConsumer E h r)"
  unfolding locateConsumer_def Let_def same_consumer_def
  by (auto intro!: yields_then yields_return split: sum.splits prod.splits option.splits)

context heartbeat_world begin

lemma unmoved_located: "unmoved seen (locateConsumer E h r)"
  unfolding locateConsumer_def Let_def
  by (auto intro!: unmoved_bind unmoved_return unmoved_reads split: sum.split prod.split)

lemma wp_beatOnce:
  "wp (beatOnce E h) (\<lambda>h' w'. same_consumer h h' \<and> (\<exists>loc m c ok. posts w' = posts w @ [(beatRequest h' (fst (run_state (currentPlacement E) w)) loc m c, ok)] \<and>
     results w' = results w @ [ok])) w"
proof -
  obtain pl w0 where pl: "run_state (currentPlacement E) w = (pl, w0)" by fastforce
  have w0: "seen w0 = seen w" using unmoved_reads(1) pl by (simp add: unmoved_def) (metis snd_conv)
  have "wp (currentPlacement E) (\<lambda>x w'. x = pl \<and> w' = w0) w" using pl by (simp add: wp_def)
  then show ?thesis
    unfolding beatOnce_def wp_bind [of "currentPlacement _"]
  proof (rule wp_mono, goal_cases)
    case (1 x w1)
    then have x: "x = pl" and w1: "seen w1 = seen w" using w0 by simp_all
    show ?case
      unfolding wp_bind [of "ResolveIP _ _ _"]
    proof (rule wp_mono [OF wp_unmoved [OF unmoved_reads(2) yields_any]], goal_cases)
      case (1 r w2)
      then have w2: "seen w2 = seen w" using w1 by simp
      show ?case
        unfolding wp_bind [of "locateConsumer _ _ _"]
      proof (rule wp_mono [OF wp_unmoved [OF unmoved_located located_same]], goal_cases)
        case (1 y w3)
        obtain loc h' where y: "y = (loc, h')" by (cases y)
        with 1 w2 have w3: "seen w3 = seen w" "same_consumer h h'" by simp_all
        show ?case
          unfolding y prod.case wp_bind [of "optional (hv_LastMeasurements E)"]
        proof (rule wp_mono [OF wp_unmoved [OF unmoved_optional(1) yields_any]], goal_cases)
          case (1 m w4)
          then have w4: "seen w4 = seen w" using w3 by simp
          show ?case
            unfolding wp_bind [of "optional (hv_LocalChoice E)"]
          proof (rule wp_mono [OF wp_unmoved [OF unmoved_optional(2) yields_any]], goal_cases)
            case (1 c w5)
            then have w5: "seen w5 = seen w" using w4 by simp
            show ?case
            proof (rule wp_mono [OF wp_reported], goal_cases)
              case (1 q w6)
              with w5 w3(2) pl x show ?case by auto
            qed
          qed
        qed
      qed
    qed
  qed
qed

end

section \<open>A consumer and the Broker's registry in memory\<close>

record beat_world =
  bw_Policies :: "ConsumerPolicy list"
  bw_Registry :: ConsumerRegistry
  bw_Posts :: "(HeartbeatRequest \<times> bool) list"
  bw_Results :: "bool list"

definition memBeats :: "string \<Rightarrow> beat_world heartbeat_env" where
  "memBeats cid = \<lparr>
     hv_Client = Some \<lparr>hk_ListPolicies = State (\<lambda>w. (Inr (bw_Policies w), w)), hk_GetNode = (\<lambda>_. State_Monad.return (Inl KNotFound))\<rparr>,
     hv_Geo = (\<lambda>_ _. State_Monad.return (NoAnswer (text_msg ''no route''))),
     hv_LastMeasurements = None, hv_LocalChoice = None,
     hv_Post = (\<lambda>req. State (\<lambda>w. case handleHeartbeat 0 cid (Inr req) (bw_Registry w) of
       (resp, R) \<Rightarrow> (let r = (case resp of writeJSON _ b \<Rightarrow> Inr b | writeError _ _ m \<Rightarrow> Inl (Plain m))
         in (r, w\<lparr>bw_Registry := R, bw_Posts := bw_Posts w @ [(req, \<not> isl r)]\<rparr>)))),
     hv_OnResult = Some (\<lambda>b. State (\<lambda>w. (Inr (), w\<lparr>bw_Results := bw_Results w @ [b]\<rparr>)))\<rparr>"

interpretation bw: heartbeat_world "memBeats cid" bw_Posts bw_Results
  by unfold_locales (auto simp: memBeats_def unmoved_def wp_State Let_def split: prod.splits)

section \<open>Properties\<close>

text \<open>
  C18. One heartbeat, whatever the local API server, the services and the Broker answer: exactly one request is sent
  and the health probe hears of its success exactly once. Delivered under the consumer's certificate the
  Broker accepts it, and from then on knows the consumer, seen at that time, with the placement policy of the
  lowest-named ConsumerPolicy the agent read, so that its reservations are no longer refused as unknown.
\<close>

theorem heartbeat_registers:
  assumes "heartbeat_world E posts results" "he_ClusterID h \<noteq> ''''" "he_LiqoClusterID h \<noteq> ''''" "run_state (beatOnce E h) w = (h', w')"
  shows "\<exists>req ok. posts w' = posts w @ [(req, ok)] \<and> results w' = results w @ [ok] \<and>
    (\<forall>now R. \<exists>R' e. handleHeartbeat now (he_ClusterID h) (Inr req) R = (writeJSON 200 \<lparr>hr_AckAt = now\<rparr>, R') \<and>
      Lookup R' (he_ClusterID h) = (e, True) \<and> ce_LiqoClusterID e = he_LiqoClusterID h \<and> ce_LastSeen e = now \<and>
      (\<forall>c ps. hv_Client E = Some c \<longrightarrow> fst (run_state (hk_ListPolicies c) w) = Inr ps \<longrightarrow> ps \<noteq> [] \<longrightarrow>
        (\<exists>x\<in>set ps. ce_Placement e = cp_Placement (cp_Spec x) \<and> (\<forall>y\<in>set ps. cp_Name x \<le> cp_Name y))))"
proof -
  let ?pl = "fst (run_state (currentPlacement E) w)"
  from wp_run [OF heartbeat_world.wp_beatOnce [OF assms(1)] assms(4)] obtain loc m c ok where
    same: "same_consumer h h'" and p: "posts w' = posts w @ [(beatRequest h' ?pl loc m c, ok)]" "results w' = results w @ [ok]" by blast
  have chosen: "\<exists>x\<in>set ps. ?pl = Some (cp_Placement (cp_Spec x)) \<and> (\<forall>y\<in>set ps. cp_Name x \<le> cp_Name y)"
    if "hv_Client E = Some k" "fst (run_state (hk_ListPolicies k) w) = Inr ps" "ps \<noteq> []" for k ps
  proof -
    obtain x xs where ps: "ps = x # xs" using \<open>ps \<noteq> []\<close> by (cases ps) auto
    have "?pl = Some (cp_Placement (cp_Spec (lowestPolicy x ps)))"
      using that by (auto simp: currentPlacement_def ps split: prod.splits)
    with lowestPolicy_least [of x ps] show ?thesis by (auto simp: ps)
  qed
  have "\<exists>R' e. handleHeartbeat now (he_ClusterID h) (Inr (beatRequest h' ?pl loc m c)) R = (writeJSON 200 \<lparr>hr_AckAt = now\<rparr>, R') \<and>
      Lookup R' (he_ClusterID h) = (e, True) \<and> ce_LiqoClusterID e = he_LiqoClusterID h \<and> ce_LastSeen e = now \<and>
      (\<forall>c ps. hv_Client E = Some c \<longrightarrow> fst (run_state (hk_ListPolicies c) w) = Inr ps \<longrightarrow> ps \<noteq> [] \<longrightarrow>
        (\<exists>x\<in>set ps. ce_Placement e = cp_Placement (cp_Spec x) \<and> (\<forall>y\<in>set ps. cp_Name x \<le> cp_Name y)))" for now R
  proof -
    obtain R' e where e: "handleHeartbeat now (he_ClusterID h) (Inr (beatRequest h' ?pl loc m c)) R = (writeJSON 200 \<lparr>hr_AckAt = now\<rparr>, R')"
      "Lookup R' (he_ClusterID h) = (e, True)" "ce_LiqoClusterID e = he_LiqoClusterID h" "ce_LastSeen e = now"
      "ce_Placement e = (case ?pl of Some p \<Rightarrow> p | None \<Rightarrow> \<lparr>pp_Type = ''''\<rparr>)"
      using beat_accepted [of h' now ?pl loc m c R] same assms(2, 3) by (auto simp: same_consumer_def)
    have "\<exists>x\<in>set ps. ce_Placement e = cp_Placement (cp_Spec x) \<and> (\<forall>y\<in>set ps. cp_Name x \<le> cp_Name y)"
      if "hv_Client E = Some c" "fst (run_state (hk_ListPolicies c) w) = Inr ps" "ps \<noteq> []" for c ps
      using chosen [OF that] e(5) by auto
    with e show ?thesis by blast
  qed
  with p show ?thesis by blast
qed

definition examplePolicies :: "ConsumerPolicy list" where
  "examplePolicies = [\<lparr>cp_Name = ''b'', cp_Spec = zero_ConsumerPolicySpec\<lparr>cp_Placement := \<lparr>pp_Type = ''Eco''\<rparr>\<rparr>\<rparr>,
     \<lparr>cp_Name = ''a'', cp_Spec = zero_ConsumerPolicySpec\<lparr>cp_Placement := \<lparr>pp_Type = ''Price''\<rparr>\<rparr>\<rparr>]"

definition exampleHeartbeater :: Heartbeater where
  "exampleHeartbeater = \<lparr>he_ClusterID = ''c'', he_LiqoClusterID = ''c'', he_NodeName = '''', he_AdvertisedIP = '''', he_MockGeoURL = '''',
     he_GeoCache = [], he_Location = None\<rparr>"

theorem heartbeat_registers_witness:
  "\<exists>req ok. bw_Posts (snd (run_state (beatOnce (memBeats ''c'') exampleHeartbeater)
     \<lparr>bw_Policies = examplePolicies, bw_Registry = [], bw_Posts = [], bw_Results = []\<rparr>)) = [(req, ok)]"
  using heartbeat_registers [OF bw.heartbeat_world_axioms _ _ surjective_pairing, of exampleHeartbeater "''c''"
      "\<lparr>bw_Policies = examplePolicies, bw_Registry = [], bw_Posts = [], bw_Results = []\<rparr>"]
  by (auto simp: exampleHeartbeater_def)

end
