(* ===== verification/ProviderAgent.thy ===== *)
theory ProviderAgent
  imports ConsumerAgent Discovery
begin

text \<open>
  The provider's agent (\<^verbatim>\<open>internal/agent/provider\<close>): the snapshot of the cluster's nodes, the capacity caps and the
  advertisement published from them, and the handlers of the provider's instructions.
\<close>

section \<open>Snapshot (snapshot.go)\<close>

record LocalNode =
  ln_Name :: string
  ln_Unschedulable :: bool
  ln_Conditions :: "(string \<times> string) list"
  ln_Allocatable :: ResourceList

record NodeSnapshot =
  sn_Allocatable :: ResourceList
  sn_CountedNodes :: nat
  sn_SkippedNodes :: "(string \<times> string) list"

text \<open>The empty string is no reason.\<close>

definition skipReason :: "LocalNode \<Rightarrow> string" where
  "skipReason n =
    (if ln_Unschedulable n then ''cordoned''
     else case find (\<lambda>(t, st). t = ''Ready'' \<and> st \<noteq> ''True'') (ln_Conditions n) of
       Some (_, st) \<Rightarrow> ''not ready (status='' @ st @ '')''
     | None \<Rightarrow> '''')"

definition addNodeResources :: "quantity_api \<Rightarrow> ResourceList \<Rightarrow> ResourceList \<Rightarrow> ResourceList" where
  "addNodeResources Q dst src = fold (\<lambda>(k, v) dst. case map_of dst k of
       None \<Rightarrow> AList.update k v dst
     | Some existing \<Rightarrow> AList.update k (q_Add Q existing v) dst) src dst"

definition snapshotStep :: "quantity_api \<Rightarrow> LocalNode \<Rightarrow> NodeSnapshot \<Rightarrow> NodeSnapshot" where
  "snapshotStep Q n out =
    (if skipReason n \<noteq> '''' then out\<lparr>sn_SkippedNodes := AList.update (ln_Name n) (skipReason n) (sn_SkippedNodes out)\<rparr>
     else out\<lparr>sn_Allocatable := addNodeResources Q (sn_Allocatable out) (ln_Allocatable n), sn_CountedNodes := Suc (sn_CountedNodes out)\<rparr>)"

definition snapshotOf :: "quantity_api \<Rightarrow> LocalNode list \<Rightarrow> NodeSnapshot" where
  "snapshotOf Q nodes = fold (snapshotStep Q) nodes \<lparr>sn_Allocatable = [], sn_CountedNodes = 0, sn_SkippedNodes = []\<rparr>"

text \<open>\<^verbatim>\<open>Take\<close>; a nil client is \<open>None\<close>.\<close>

definition TakeSnapshot :: "quantity_api \<Rightarrow> ('w, kerr + LocalNode list) state option \<Rightarrow> ('w, message + NodeSnapshot) state" where
  "TakeSnapshot Q client = (case client of
     None \<Rightarrow> State_Monad.return (Inl (text_msg ''snapshot: client is nil''))
   | Some ls \<Rightarrow> do {
       r \<leftarrow> ls;
       State_Monad.return (case r of
         Inl e \<Rightarrow> Inl (Sprintf ''snapshot: list nodes: %w'' [AMsg (kubeMessage e)])
       | Inr nodes \<Rightarrow> Inr (snapshotOf Q nodes)) })"

section \<open>Capacity caps (publisher.go)\<close>

datatype capRule = PercentCap int | FixedCap Quantity

text \<open>The product is taken in 64 bits before the division.\<close>

definition scaleQuantity :: "quantity_api \<Rightarrow> Quantity \<Rightarrow> int \<Rightarrow> Quantity" where
  "scaleQuantity Q q percent = q_NewMilli Q (int64 (q_MilliValue Q q * percent) sdiv 100)"

fun scaleLoop :: "quantity_api \<Rightarrow> (string \<times> capRule) list \<Rightarrow> ResourceList \<Rightarrow> ResourceList \<times> (string \<times> int) list \<times> ResourceList" where
  "scaleLoop Q caps [] = ([], [], [])"
| "scaleLoop Q caps ((name, qty) # alloc) =
    (case scaleLoop Q caps alloc of (scaled, pctCaps, fixedCaps) \<Rightarrow>
      (case map_of caps name of
         None \<Rightarrow> ((name, qty) # scaled, pctCaps, fixedCaps)
       | Some (PercentCap p) \<Rightarrow>
           if p < 0 then ((name, qty) # scaled, pctCaps, fixedCaps)
           else if p \<ge> 100 then ((name, qty) # scaled, pctCaps, fixedCaps)
           else ((name, scaleQuantity Q qty p) # scaled, (name, p) # pctCaps, fixedCaps)
       | Some (FixedCap f) \<Rightarrow>
           if f < qty then ((name, f) # scaled, pctCaps, (name, f) # fixedCaps)
           else ((name, qty) # scaled, pctCaps, fixedCaps)))"

definition applyCapacityScaling :: "quantity_api \<Rightarrow> (string \<times> capRule) list \<Rightarrow> ResourceList \<Rightarrow>
    ResourceList \<times> (string \<times> int) list \<times> ResourceList" where
  "applyCapacityScaling Q caps alloc = (if caps = [] then (alloc, [], []) else scaleLoop Q caps alloc)"

definition cutPercent :: "string \<Rightarrow> string option" where
  "cutPercent s = (case rev s of c # t \<Rightarrow> if c = CHR ''%'' then Some (rev t) else None | [] \<Rightarrow> None)"

definition parsePercent :: "string \<Rightarrow> int option" where
  "parsePercent s = (case cutPercent s of
     Some t \<Rightarrow> map_option int32 (atoi (trimSpace t))
   | None \<Rightarrow> map_option int32 (atoi s))"

section \<open>The publisher\<close>

text \<open>
  What the publisher calls: the API server, the file system, the decoders of its three files, the two services,
  the clock, the Broker and the callback of the health probe, which may panic.
\<close>

record 'w publisher_env =
  pe_ListNodes :: "('w, kerr + LocalNode list) state"
  pe_GetNode :: "string \<Rightarrow> ('w, kerr + (string \<times> string) list) state"
  pe_ReadFile :: "string \<Rightarrow> ('w, message + string) state"
  pe_PricesYaml :: "string \<Rightarrow> message + ResourceList"
  pe_RenewableYaml :: "string \<Rightarrow> message + bool"
  pe_CapsYaml :: "string \<Rightarrow> message + (string \<times> string) list"
  pe_ParseQuantity :: "string \<Rightarrow> message + Quantity"
  pe_Geo :: "string \<Rightarrow> string \<Rightarrow> ('w, geoResponse fetched) state"
  pe_Carbon :: "string \<Rightarrow> string \<Rightarrow> ('w, real fetched) state"
  pe_Forecast :: "string \<Rightarrow> string \<Rightarrow> ('w, int list fetched) state"
  pe_Clock :: "('w, Time) state"
  pe_Post :: "AdvertisementRequest \<Rightarrow> ('w, goerror + AdvertisementResponse) state"
  pe_OnResult :: "(bool \<Rightarrow> ('w, message + unit) state) option"

record Publisher =
  pu_ClusterID :: string
  pu_LiqoClusterID :: string
  pu_PriceFile :: string
  pu_CapacityFile :: string
  pu_RenewableFile :: string
  pu_NodeName :: string
  pu_AdvertisedIP :: string
  pu_MockEcoURL :: string
  pu_MockGeoURL :: string
  pu_ProbeUDPPort :: int
  pu_EcoClient :: EcoClient
  pu_GeoCache :: geoCache

text \<open>An unset, unreadable or blank file, and a text that does not decode, all read as \<open>none\<close>.\<close>

definition readConfig :: "'w publisher_env \<Rightarrow> string \<Rightarrow> (string \<Rightarrow> message + 'a) \<Rightarrow> 'a \<Rightarrow> ('w, 'a) state" where
  "readConfig E path decode none =
    (if path = '''' then State_Monad.return none
     else do {
       r \<leftarrow> pe_ReadFile E path;
       State_Monad.return (case r of
         Inl _ \<Rightarrow> none
       | Inr data \<Rightarrow> if trimSpace data = '''' then none else (case decode data of Inl _ \<Rightarrow> none | Inr x \<Rightarrow> x)) })"

definition loadUnitPrices :: "'w publisher_env \<Rightarrow> Publisher \<Rightarrow> ('w, ResourceList) state" where
  "loadUnitPrices E p = readConfig E (pu_PriceFile p) (pe_PricesYaml E) []"

definition loadRenewable :: "'w publisher_env \<Rightarrow> Publisher \<Rightarrow> ('w, bool) state" where
  "loadRenewable E p = readConfig E (pu_RenewableFile p) (pe_RenewableYaml E) False"

definition capRuleOf :: "'w publisher_env \<Rightarrow> string \<times> string \<Rightarrow> (string \<times> capRule) list" where
  "capRuleOf E nv = (case nv of (name, v) \<Rightarrow>
     (let s = trimSpace v
      in if s = '''' then []
         else case parsePercent s of
           Some pct \<Rightarrow> [(name, PercentCap pct)]
         | None \<Rightarrow> (case pe_ParseQuantity E s of Inl _ \<Rightarrow> [] | Inr q \<Rightarrow> [(name, FixedCap q)])))"

definition loadCapacityCaps :: "'w publisher_env \<Rightarrow> Publisher \<Rightarrow> ('w, (string \<times> capRule) list) state" where
  "loadCapacityCaps E p = do {
     raw \<leftarrow> readConfig E (pu_CapacityFile p) (pe_CapsYaml E) [];
     State_Monad.return (concat (map (capRuleOf E) raw)) }"

definition loadCarbon :: "'w publisher_env \<Rightarrow> Publisher \<Rightarrow> string \<Rightarrow> ('w, (real option \<times> real list) \<times> Publisher) state" where
  "loadCarbon E p region = do {
     (f, c) \<leftarrow> Forecast (pe_Clock E) (pe_Forecast E) (pu_MockEcoURL p) region (pu_EcoClient p);
     let p = p\<lparr>pu_EcoClient := c\<rparr>;
     (case f of
        Inr (cur # rest) \<Rightarrow> State_Monad.return ((Some cur, cur # rest), p)
      | _ \<Rightarrow> do {
          (r, c) \<leftarrow> CurrentCarbon (pe_Clock E) (pe_Carbon E) (pu_MockEcoURL p) region (pu_EcoClient p);
          State_Monad.return ((case r of Inl _ \<Rightarrow> None | Inr cur \<Rightarrow> cur, []), p\<lparr>pu_EcoClient := c\<rparr>) }) }"

definition loadPlacementInputs :: "'w publisher_env \<Rightarrow> Publisher \<Rightarrow> string \<Rightarrow>
    ('w, (Topology option \<times> real option \<times> real list) \<times> Publisher) state" where
  "loadPlacementInputs E p ip =
    (if ip = '''' then State_Monad.return ((None, None, []), p)
     else do {
       (r, g) \<leftarrow> geoLookup (pe_Geo E) (pu_MockGeoURL p) ip (pu_GeoCache p);
       let p = p\<lparr>pu_GeoCache := g\<rparr>;
       (case r of
          Inr (Some loc) \<Rightarrow> do {
            ((carbon, forecast), p) \<leftarrow> loadCarbon E p (ge_Region loc);
            State_Monad.return ((Some \<lparr>t_Zone = '''', t_Region = ge_Region loc, t_City = ge_City loc, t_Latitude = ge_Lat loc,
              t_Longitude = ge_Lon loc\<rparr>, carbon, forecast), p) }
        | _ \<Rightarrow> State_Monad.return ((None, None, []), p)) })"

text \<open>\<^verbatim>\<open>net.JoinHostPort\<close>.\<close>

definition joinHostPort :: "string \<Rightarrow> string \<Rightarrow> string" where
  "joinHostPort host port = (if list_ex (\<lambda>c. c = CHR '':'' \<or> c = CHR ''%'') host then ''['' @ host @ '']:'' @ port else host @ '':'' @ port)"

definition probeEndpointOf :: "Publisher \<Rightarrow> string \<Rightarrow> string" where
  "probeEndpointOf p ip = (if ip \<noteq> '''' \<and> pu_ProbeUDPPort p > 0 then joinHostPort ip (itoa (pu_ProbeUDPPort p)) else '''')"

definition publishOnce :: "quantity_api \<Rightarrow> 'w publisher_env \<Rightarrow> Publisher \<Rightarrow> ('w, Publisher) state" where
  "publishOnce Q E p = do {
     snap \<leftarrow> TakeSnapshot Q (Some (pe_ListNodes E));
     (case snap of
        Inl _ \<Rightarrow> do { _ \<leftarrow> notify (pe_OnResult E) False; State_Monad.return p }
      | Inr snap \<Rightarrow> do {
          caps \<leftarrow> loadCapacityCaps E p;
          let (scaled, pctCustom, fixedCustom) = applyCapacityScaling Q caps (sn_Allocatable snap);
          r \<leftarrow> ResolveIP (Some (pe_GetNode E)) (pu_NodeName p) (pu_AdvertisedIP p);
          let ip = (case r of Inl _ \<Rightarrow> '''' | Inr ip \<Rightarrow> ip);
          ((topology, carbon, carbonForecast), p) \<leftarrow> loadPlacementInputs E p ip;
          prices \<leftarrow> loadUnitPrices E p;
          renewable \<leftarrow> loadRenewable E p;
          resp \<leftarrow> pe_Post E \<lparr>ar_ClusterID = pu_ClusterID p, ar_LiqoClusterID = pu_LiqoClusterID p, ar_Resources = scaled,
            ar_Topology = topology, ar_UnitPrices = prices, ar_CarbonIntensity = carbon, ar_CarbonForecast = carbonForecast,
            ar_CapacityScalePercent = pctCustom, ar_CapacityFixed = fixedCustom, ar_Renewable = renewable,
            ar_ProbeEndpoint = probeEndpointOf p ip\<rparr>;
          _ \<leftarrow> notify (pe_OnResult E) (case resp of Inl _ \<Rightarrow> False | Inr _ \<Rightarrow> True);
          State_Monad.return p }) }"

text \<open>\<^verbatim>\<open>Run\<close> for the events of its \<^verbatim>\<open>select\<close>: the ticker fired or the context ended.\<close>

fun publishLoop :: "quantity_api \<Rightarrow> 'w publisher_env \<Rightarrow> bool list \<Rightarrow> Publisher \<Rightarrow> ('w, Publisher) state" where
  "publishLoop Q E [] p = State_Monad.return p"
| "publishLoop Q E (fired # es) p = (if fired then do { p \<leftarrow> publishOnce Q E p; publishLoop Q E es p } else State_Monad.return p)"

definition publishRun :: "quantity_api \<Rightarrow> 'w publisher_env \<Rightarrow> bool list \<Rightarrow> Publisher \<Rightarrow> ('w, Publisher) state" where
  "publishRun Q E es p = do { p \<leftarrow> publishOnce Q E p; publishLoop Q E es p }"

section \<open>Instruction handlers\<close>

type_synonym 'w runFunc = "string \<Rightarrow> string list \<Rightarrow> ('w, string \<times> string \<times> message option) state"

definition providerLiqoctl :: "string \<Rightarrow> string" where
  "providerLiqoctl path = (if path = '''' then ''liqoctl'' else path)"

definition wrongKind :: "InstructionView \<Rightarrow> ProviderInstructionKind \<Rightarrow> message" where
  "wrongKind i kind = Sprintf ''unexpected kind %q (want %s)'' [AStr (iv_Kind i), AStr (pi_kind_string kind)]"

definition generateKubeconfigHandler :: "'w runFunc \<Rightarrow> string \<Rightarrow> 'w handlerFunc" where
  "generateKubeconfigHandler run path i =
    (if iv_Kind i \<noteq> pi_kind_string PIGenerateKubeconfig then State_Monad.return (failed (wrongKind i PIGenerateKubeconfig))
     else if iv_ConsumerClusterID i = '''' then State_Monad.return (failed (text_msg ''instruction is missing consumerClusterId''))
     else do {
       (stdout, stderr, err) \<leftarrow> run (providerLiqoctl path) [''generate'', ''peering-user'', ''--consumer-cluster-id'', iv_ConsumerClusterID i];
       State_Monad.return (case err of
         Some e \<Rightarrow> failed (Sprintf ''liqoctl generate peering-user failed: %w - stderr: %s'' [AMsg e, AStr (stderrText stderr)])
       | None \<Rightarrow>
           (let kubeconfig = trimSpace stdout
            in if kubeconfig = '''' then failed (text_msg ''liqoctl returned empty kubeconfig'')
               else Returned (Some (succeededWith ((emptyPayload PayloadKindKubeconfig)\<lparr>rp_Kubeconfig := kubeconfig\<rparr>))) None)) })"

definition isNotFound :: "string \<Rightarrow> bool" where
  "isNotFound stderr = list_ex (containsText stderr) [''not found'', ''does not exist'', ''NotFound'']"

definition providerCleanupHandler :: "'w runFunc \<Rightarrow> string \<Rightarrow> 'w handlerFunc" where
  "providerCleanupHandler run path i =
    (if iv_Kind i \<noteq> pi_kind_string PICleanup then State_Monad.return (failed (wrongKind i PICleanup))
     else if iv_ConsumerClusterID i = '''' then State_Monad.return (failed (text_msg ''instruction is missing consumerClusterId''))
     else do {
       (stdout, stderr, err) \<leftarrow> run (providerLiqoctl path) [''delete'', ''peering-user'', ''--consumer-cluster-id'', iv_ConsumerClusterID i];
       State_Monad.return (case err of
         None \<Rightarrow> Returned (Some bareSucceeded) None
       | Some e \<Rightarrow>
           if isNotFound (trimSpace stderr) then Returned (Some bareSucceeded) None
           else failed (Sprintf ''liqoctl delete peering-user failed: %w - stderr: %s'' [AMsg e, AStr (stderrText stderr)])) })"

definition providerReconcileHandler :: "quantity_api \<Rightarrow> ('w, kerr + LocalNode list) state option \<Rightarrow> string \<Rightarrow> string \<Rightarrow> 'w handlerFunc" where
  "providerReconcileHandler Q client clusterID liqoClusterID i =
    (if iv_Kind i \<noteq> pi_kind_string PIReconcile then State_Monad.return (failed (wrongKind i PIReconcile))
     else case client of
       None \<Rightarrow> State_Monad.return (failed (text_msg ''reconcile handler: LocalClient is nil''))
     | Some _ \<Rightarrow>
         if clusterID = '''' \<or> liqoClusterID = '''' then
           State_Monad.return (failed (text_msg ''reconcile handler: ClusterID and LiqoClusterID are required''))
         else do {
           s \<leftarrow> TakeSnapshot Q client;
           State_Monad.return (case s of
             Inl e \<Rightarrow> failed (Sprintf ''snapshot: %w'' [AMsg e])
           | Inr snap \<Rightarrow> Returned (Some (succeededWith ((emptyPayload PayloadKindReconcile)\<lparr>rp_Advertisement :=
               Some \<lparr>ar_ClusterID = clusterID, ar_LiqoClusterID = liqoClusterID, ar_Resources = sn_Allocatable snap, ar_Topology = None,
                 ar_UnitPrices = [], ar_CarbonIntensity = None, ar_CarbonForecast = [], ar_CapacityScalePercent = [], ar_CapacityFixed = [],
                 ar_Renewable = False, ar_ProbeEndpoint = ''''\<rparr>\<rparr>))) None) })"

text \<open>The registrations of \<^verbatim>\<open>provider.Run\<close>.\<close>

definition providerRegistry :: "quantity_api \<Rightarrow> 'w runFunc \<Rightarrow> ('w, kerr + LocalNode list) state \<Rightarrow> string \<Rightarrow> string \<Rightarrow> string \<Rightarrow>
    'w Registry \<Rightarrow> 'w Registry" where
  "providerRegistry Q run nodes path clusterID liqoClusterID reg =
    RegisterProvider PIReconcile (providerReconcileHandler Q (Some nodes) clusterID liqoClusterID)
      (RegisterProvider PICleanup (providerCleanupHandler run path)
        (RegisterProvider PIGenerateKubeconfig (generateKubeconfigHandler run path) reg))"

section \<open>What is counted\<close>

text \<open>The amount of a resource on the nodes that should count: not cordoned, and no condition says they are not ready.\<close>

definition usable :: "LocalNode \<Rightarrow> bool" where
  "usable n \<longleftrightarrow> \<not> ln_Unschedulable n \<and> list_all (\<lambda>(t, st). t = ''Ready'' \<longrightarrow> st = ''True'') (ln_Conditions n)"

definition countedNodes :: "LocalNode list \<Rightarrow> LocalNode list" where
  "countedNodes nodes = filter usable nodes"

lemma skipReason_usable: "skipReason n = '''' \<longleftrightarrow> usable n"
proof (cases "find (\<lambda>(t, st). t = ''Ready'' \<and> st \<noteq> ''True'') (ln_Conditions n)")
  case None
  then have "list_all (\<lambda>(t, st). t = ''Ready'' \<longrightarrow> st = ''True'') (ln_Conditions n)"
    by (auto simp: list_all_iff find_None_iff)
  with None show ?thesis by (simp add: skipReason_def usable_def)
next
  case (Some c)
  then have "c \<in> set (ln_Conditions n)" "case c of (t, st) \<Rightarrow> t = ''Ready'' \<and> st \<noteq> ''True''"
    by (metis (no_types, lifting) find_Some_iff nth_mem)+
  with Some show ?thesis by (auto simp: skipReason_def usable_def list_all_iff)
qed

definition nodesTotal :: "LocalNode list \<Rightarrow> string \<Rightarrow> Quantity" where
  "nodesTotal nodes k = (\<Sum>n\<leftarrow>countedNodes nodes. rl_get (ln_Allocatable n) k)"

text \<open>A resource list is a Go map: its keys are distinct. Amounts are not negative.\<close>

definition node_ok :: "LocalNode \<Rightarrow> bool" where
  "node_ok n \<longleftrightarrow> distinct (map fst (ln_Allocatable n)) \<and> list_all (\<lambda>(k, q). 0 \<le> q) (ln_Allocatable n)"

lemma rl_get_update [simp]: "rl_get (AList.update k v d) j = (if k = j then v else rl_get d j)"
  by (simp add: rl_get_def update_conv')

lemma addNodeResources_get:
  assumes "\<And>a b. q_Add Q a b = a + b" "distinct (map fst src)"
  shows "rl_get (addNodeResources Q dst src) k = rl_get dst k + rl_get src k"
  using assms(2)
proof (induction src arbitrary: dst)
  case (Cons x src)
  obtain j v where x: "x = (j, v)" by (cases x)
  let ?d = "case map_of dst j of None \<Rightarrow> AList.update j v dst | Some e \<Rightarrow> AList.update j (q_Add Q e v) dst"
  have step: "addNodeResources Q dst (x # src) = addNodeResources Q ?d src" by (simp add: addNodeResources_def x)
  have d: "rl_get ?d k = rl_get dst k + (if k = j then v else 0)"
    by (cases "map_of dst j") (auto simp: assms(1) rl_get_def update_conv')
  have "k = j \<Longrightarrow> rl_get src k = 0" using Cons.prems by (simp add: x rl_get_def map_of_eq_None_iff [THEN iffD2])
  then have "rl_get (x # src) k = rl_get src k + (if k = j then v else 0)" by (simp add: x rl_get_def)
  with Cons.IH [of ?d] Cons.prems show ?case unfolding step d by simp
qed (simp add: addNodeResources_def rl_get_def)

lemma snapshot_total:
  assumes "quantity_laws Q" "list_all node_ok nodes"
  shows "rl_get (sn_Allocatable (snapshotOf Q nodes)) k = nodesTotal nodes k"
proof -
  have "rl_get (sn_Allocatable (fold (snapshotStep Q) nodes s)) k = rl_get (sn_Allocatable s) k + nodesTotal nodes k" for s
    using assms(2)
    by (induction nodes arbitrary: s)
      (auto simp: snapshotStep_def skipReason_usable countedNodes_def nodesTotal_def node_ok_def addNodeResources_get [OF quantity_laws.Add_law [OF assms(1)]])
  then show ?thesis by (simp add: snapshotOf_def rl_get_def)
qed

lemma nodesTotal_nonneg:
  assumes "list_all node_ok nodes"
  shows "0 \<le> nodesTotal nodes k"
proof -
  have "0 \<le> rl_get (ln_Allocatable n) k" if "node_ok n" for n
    using that by (auto simp: node_ok_def rl_get_def list_all_iff split: option.split dest: map_of_SomeD)
  with assms show ?thesis
    by (induction nodes) (auto simp: nodesTotal_def countedNodes_def)
qed

section \<open>Caps only lower\<close>

definition capAmount :: "quantity_api \<Rightarrow> (string \<times> capRule) list \<Rightarrow> string \<Rightarrow> Quantity \<Rightarrow> Quantity" where
  "capAmount Q caps k q = (case map_of caps k of
     Some (PercentCap p) \<Rightarrow> if 0 \<le> p \<and> p < 100 then scaleQuantity Q q p else q
   | Some (FixedCap f) \<Rightarrow> min f q
   | None \<Rightarrow> q)"

lemma scaleLoop_get: "map_of (fst (scaleLoop Q caps alloc)) k = map_option (capAmount Q caps k) (map_of alloc k)"
  by (induction Q caps alloc rule: scaleLoop.induct)
    (auto simp: capAmount_def min_def split: prod.splits option.splits capRule.splits)

lemma scaled_get: "map_of (fst (applyCapacityScaling Q caps alloc)) k = map_option (capAmount Q caps k) (map_of alloc k)"
proof (cases "caps = []")
  case True
  then have "capAmount Q caps k = (\<lambda>q. q)" by (simp add: capAmount_def fun_eq_iff)
  with True show ?thesis by (simp add: applyCapacityScaling_def option.map_ident)
qed (simp add: applyCapacityScaling_def scaleLoop_get)

definition caps_ok :: "(string \<times> capRule) list \<Rightarrow> bool" where
  "caps_ok caps \<longleftrightarrow> list_all (\<lambda>(k, r). case r of FixedCap f \<Rightarrow> 0 \<le> f | PercentCap _ \<Rightarrow> True) caps"

lemma scaleQuantity_bounds:
  assumes "quantity_laws Q" "0 \<le> q" "q * 10 ^ 5 < 2 ^ 62" "0 \<le> p" "p < 100"
  shows "0 \<le> scaleQuantity Q q p" "scaleQuantity Q q p \<le> q"
proof -
  let ?m = "\<lceil>1000 * q\<rceil>"
  have m0: "0 \<le> ?m" using assms(2) by simp
  have m: "of_int ?m < 1000 * q + 1" by linarith
  then have "of_int ?m * 100 < (2 ^ 63 :: rat)" using assms(3) by simp
  then have big: "?m * 100 < 2 ^ 63" by (metis of_int_less_iff of_int_mult of_int_numeral of_int_power)
  from big m0 have "?m < 2 ^ 63" by linarith
  then have mv: "q_MilliValue Q q = ?m" by (rule quantity_laws.MilliValue_law [OF assms(1, 2)])
  have "?m * p \<le> ?m * 100" using m0 assms(5) by (intro mult_left_mono) auto
  with big have "?m * p < 2 ^ 63" by linarith
  moreover have "0 \<le> ?m * p" using m0 assms(4) by simp
  ultimately have "int64 (?m * p) = ?m * p"
    unfolding int64_def by (intro signed_take_bit_int_eq_self) auto
  then have s: "scaleQuantity Q q p = of_int (?m * p div 100) / 1000"
    using mv \<open>0 \<le> ?m * p\<close> by (simp add: scaleQuantity_def quantity_laws.NewMilli_law [OF assms(1)] sdiv_nonneg)
  show "0 \<le> scaleQuantity Q q p" unfolding s using \<open>0 \<le> ?m * p\<close> by simp
  have "?m * p div 100 = 0 \<or> ?m * p div 100 \<le> ?m - 1"
  proof (cases "?m = 0")
    case False
    with m0 have "0 < ?m" by linarith
    with assms(5) have "?m * p < ?m * 100" by (rule mult_strict_left_mono)
    then have "?m * p div 100 < ?m" by linarith
    then show ?thesis by simp
  qed simp
  then have "of_int (?m * p div 100) \<le> 1000 * q"
  proof
    assume "?m * p div 100 \<le> ?m - 1"
    then have "of_int (?m * p div 100) \<le> (of_int (?m - 1) :: rat)" by (rule of_int_le_iff [THEN iffD2])
    also have "\<dots> \<le> 1000 * q" using m by simp
    finally show ?thesis .
  qed (use assms(2) in simp)
  then show "scaleQuantity Q q p \<le> q" by (simp add: s)
qed

lemma capAmount_bounds:
  assumes "quantity_laws Q" "caps_ok caps" "0 \<le> q" "q * 10 ^ 5 < 2 ^ 62"
  shows "0 \<le> capAmount Q caps k q" "capAmount Q caps k q \<le> q"
proof -
  have "0 \<le> f" if "map_of caps k = Some (FixedCap f)" for f
    using assms(2) map_of_SomeD [OF that] by (auto simp: caps_ok_def list_all_iff)
  with scaleQuantity_bounds [OF assms(1, 3, 4)] assms(3)
  show "0 \<le> capAmount Q caps k q" "capAmount Q caps k q \<le> q"
    by (auto simp: capAmount_def min_def split: option.split capRule.split)
qed

lemma milli_mono:
  assumes "quantity_laws Q" "0 \<le> a" "a \<le> b" "b * 10 ^ 5 < 2 ^ 62"
  shows "q_MilliValue Q a \<le> q_MilliValue Q b" "q_Value Q a \<le> q_Value Q b" "0 \<le> q_MilliValue Q a" "0 \<le> q_Value Q a"
proof -
  have ceil: "\<lceil>1000 * a\<rceil> \<le> \<lceil>1000 * b\<rceil>" "\<lceil>a\<rceil> \<le> \<lceil>b\<rceil>" using assms(3) by (auto intro: ceiling_mono)
  have "1000 * b \<le> 2 ^ 62" "b \<le> 2 ^ 62" using assms(2-4) by auto
  then have "\<lceil>1000 * b\<rceil> \<le> 2 ^ 62" "\<lceil>b\<rceil> \<le> 2 ^ 62" by (simp_all add: ceiling_le_iff)
  with ceil assms have "q_MilliValue Q a = \<lceil>1000 * a\<rceil>" "q_MilliValue Q b = \<lceil>1000 * b\<rceil>" "q_Value Q a = \<lceil>a\<rceil>" "q_Value Q b = \<lceil>b\<rceil>"
    by (auto intro!: quantity_laws.MilliValue_law [OF assms(1)] quantity_laws.Value_law [OF assms(1)])
  with ceil assms(2) show "q_MilliValue Q a \<le> q_MilliValue Q b" "q_Value Q a \<le> q_Value Q b" "0 \<le> q_MilliValue Q a" "0 \<le> q_Value Q a"
    by simp_all
qed

section \<open>Properties\<close>

text \<open>
  Whatever caps the operator set, the chunks the Broker derives from the published amounts fit, resource by
  resource, what the schedulable, ready nodes of the provider have together. The amounts are not negative
  and below the ranges of the 64-bit arithmetic.
\<close>

lemma chunks_fit_nodes:
  assumes "quantity_laws Q" "list_all node_ok nodes" "caps_ok caps" "\<forall>k. nodesTotal nodes k * 10 ^ 5 < 2 ^ 62"
    "nodesTotal nodes ResourceCPU < 2 ^ 31"
    "r \<in> set (DefaultSizer_Size Q (fst (applyCapacityScaling Q caps (sn_Allocatable (snapshotOf Q nodes)))))"
  shows "r_Count r * boxCPUMilli (r_Type r) \<le> q_MilliValue Q (nodesTotal nodes ResourceCPU) \<and>
    r_Count r * boxMemBytes (r_Type r) \<le> q_Value Q (nodesTotal nodes ResourceMemory) \<and>
    (r_Type r = ChunkTypeStandard \<or> r_Count r \<le> q_Value Q (nodesTotal nodes gpuResourceName))"
proof -
  let ?rl = "fst (applyCapacityScaling Q caps (sn_Allocatable (snapshotOf Q nodes)))"
  have le: "0 \<le> rl_get ?rl k \<and> rl_get ?rl k \<le> nodesTotal nodes k" for k
  proof -
    have t: "rl_get (sn_Allocatable (snapshotOf Q nodes)) k = nodesTotal nodes k" by (rule snapshot_total [OF assms(1, 2)])
    have c: "0 \<le> capAmount Q caps k (nodesTotal nodes k)" "capAmount Q caps k (nodesTotal nodes k) \<le> nodesTotal nodes k"
      using capAmount_bounds [OF assms(1, 3) nodesTotal_nonneg [OF assms(2)], of k k] assms(4) by blast+
    show ?thesis
    proof (cases "map_of (sn_Allocatable (snapshotOf Q nodes)) k")
      case None
      then show ?thesis using nodesTotal_nonneg [OF assms(2)] by (simp add: rl_get_def scaled_get)
    next
      case (Some q)
      with t c show ?thesis by (simp add: rl_get_def scaled_get)
    qed
  qed
  have mono: "q_MilliValue Q (rl_get ?rl k) \<le> q_MilliValue Q (nodesTotal nodes k)" "q_Value Q (rl_get ?rl k) \<le> q_Value Q (nodesTotal nodes k)"
    "0 \<le> q_MilliValue Q (rl_get ?rl k)" "0 \<le> q_Value Q (rl_get ?rl k)" for k
    using milli_mono [OF assms(1), of "rl_get ?rl k" "nodesTotal nodes k"] le [of k] assms(4) by blast+
  have "1000 * nodesTotal nodes ResourceCPU < 2 ^ 31 * 1000" using assms(5) by simp
  then have c: "\<lceil>1000 * nodesTotal nodes ResourceCPU\<rceil> \<le> 2 ^ 31 * 1000" by (simp add: ceiling_le_iff)
  then have "\<lceil>1000 * nodesTotal nodes ResourceCPU\<rceil> < 2 ^ 63" by simp
  with c have "q_MilliValue Q (nodesTotal nodes ResourceCPU) < 2 ^ 31 * 2000"
    using quantity_laws.MilliValue_law [OF assms(1) nodesTotal_nonneg [OF assms(2)]] by simp
  then have "q_MilliValue Q (rl_get ?rl ResourceCPU) < 2 ^ 31 * 2000" using mono(1) [of ResourceCPU] by linarith
  moreover have "nonneg_amounts Q ?rl" using mono(3, 4) by (simp add: nonneg_amounts_def)
  ultimately have "n \<le> r_Count r \<longleftrightarrow> fits Q ?rl (boxCPUMilli (r_Type r)) (boxMemBytes (r_Type r)) n \<and>
      (r_Type r = ChunkTypeGPU \<longrightarrow> n \<le> q_Value Q (rl_get ?rl gpuResourceName))" for n
    using sized_fits [of Q ?rl r n] assms(6) by blast
  from this [of "r_Count r"] have f: "fits Q ?rl (boxCPUMilli (r_Type r)) (boxMemBytes (r_Type r)) (r_Count r)"
    "r_Type r = ChunkTypeGPU \<longrightarrow> r_Count r \<le> q_Value Q (rl_get ?rl gpuResourceName)" by simp_all
  have "r_Type r = ChunkTypeGPU \<or> r_Type r = ChunkTypeStandard"
    using assms(6) by (auto simp: DefaultSizer_Size_def sizeGPU_def sizeStandard_def Let_def split: if_splits)
  with f mono(1) [of ResourceCPU] mono(2) [of ResourceMemory] mono(2) [of gpuResourceName] show ?thesis
    unfolding fits_def by force
qed

definition exampleNodes :: "LocalNode list" where
  "exampleNodes = [\<lparr>ln_Name = ''a'', ln_Unschedulable = False, ln_Conditions = [(''Ready'', ''True'')],
       ln_Allocatable = [(ResourceCPU, 4), (ResourceMemory, 2 ^ 33)]\<rparr>,
     \<lparr>ln_Name = ''b'', ln_Unschedulable = True, ln_Conditions = [(''Ready'', ''True'')],
       ln_Allocatable = [(ResourceCPU, 64), (ResourceMemory, 2 ^ 40)]\<rparr>]"

text \<open>
  A percentage is narrowed to 32 bits before it is compared with 100: a cap of 4294967296 percent, which is
  documented to leave the full amount (anything above 100 does), advertises nothing of the resource.
\<close>

theorem percent_cap_wraps:
  "parsePercent ''4294967296%'' = Some 0 \<and>
   fst (applyCapacityScaling exactQ [(ResourceCPU, PercentCap 0)] [(ResourceCPU, 8)]) = [(ResourceCPU, 0)] \<and>
   fst (applyCapacityScaling exactQ [(ResourceCPU, PercentCap 4294967296)] [(ResourceCPU, 8)]) = [(ResourceCPU, 8)]"
  by code_simp

section \<open>The handlers' outcomes\<close>

lemma good_generate: "yields good_outcome (generateKubeconfigHandler run path i)"
  unfolding generateKubeconfigHandler_def
  by (auto simp: wrongKind_def Let_def validateInstructionResult_def succeededWith_def emptyPayload_def
      intro!: yields_return yields_then split: option.split prod.split)

lemma good_provider_cleanup: "yields good_outcome (providerCleanupHandler run path i)"
  unfolding providerCleanupHandler_def
  by (auto simp: wrongKind_def succeeded_valid intro!: yields_return yields_then split: option.split prod.split)

lemma good_provider_reconcile: "yields good_outcome (providerReconcileHandler Q client c l i)"
  unfolding providerReconcileHandler_def
  by (auto simp: wrongKind_def succeeded_valid intro!: yields_return yields_then split: option.split sum.split)

lemma good_provider_registered:
  assumes "LookupHandler (providerRegistry Q run nodes path c l NewRegistry) k = Some h"
  shows "yields good_outcome (h i)"
  using assms good_generate good_provider_cleanup good_provider_reconcile
  by (auto simp: LookupHandler_def providerRegistry_def RegisterProvider_def NewRegistry_def update_conv split: if_splits)

end
