(* ===== verification/ProviderWorld.thy ===== *)
theory ProviderWorld
  imports ConsumerWorld ProviderAgent
begin

text \<open>
  A provider's agent at work: what one cycle of the publisher and one round of its poller do, stated for any
  environment that meets their contracts, and an agent in memory that does.
\<close>

section \<open>The publisher\<close>

text \<open>Reading nodes, files, services and the clock posts nothing and reports nothing to the probe.\<close>

locale publisher_world = report_loop "pe_Post E" "pe_OnResult E" posts results
  for E :: "'w publisher_env" and posts :: "'w \<Rightarrow> (AdvertisementRequest \<times> bool) list" and results :: "'w \<Rightarrow> bool list" +
  assumes quiet:
      "unmoved seen (pe_ListNodes E)" "unmoved seen (pe_GetNode E n)" "unmoved seen (pe_ReadFile E n)" "unmoved seen (pe_Geo E n m)"
      "unmoved seen (pe_Carbon E n m)" "unmoved seen (pe_Forecast E n m)" "unmoved seen (pe_Clock E)"
begin

lemma unmoved_config: "unmoved seen (readConfig E path decode none)"
  unfolding readConfig_def by (auto intro!: unmoved_bind unmoved_return quiet)

lemma unmoved_carbon: "unmoved seen (CurrentCarbon (pe_Clock E) (pe_Carbon E) u g c)" "unmoved seen (Forecast (pe_Clock E) (pe_Forecast E) u g c)"
  unfolding CurrentCarbon_def Forecast_def Let_def
  by (auto intro!: unmoved_bind unmoved_return quiet split: sum.split)

lemma unmoved_inputs:
  "unmoved seen (loadCapacityCaps E p)" "unmoved seen (loadUnitPrices E p)" "unmoved seen (loadRenewable E p)"
  "unmoved seen (TakeSnapshot Q (Some (pe_ListNodes E)))" "unmoved seen (ResolveIP (Some (pe_GetNode E)) name ip)"
  unfolding loadCapacityCaps_def loadUnitPrices_def loadRenewable_def TakeSnapshot_def ResolveIP_def
  by (auto intro!: unmoved_bind unmoved_return unmoved_config quiet)

lemma unmoved_loadCarbon: "unmoved seen (loadCarbon E p region)"
  unfolding loadCarbon_def Let_def
  by (auto intro!: unmoved_bind unmoved_return unmoved_carbon split: sum.split list.split prod.split)

lemma unmoved_placement: "unmoved seen (loadPlacementInputs E p ip)"
  unfolding loadPlacementInputs_def geoLookup_def Let_def
  by (auto intro!: unmoved_bind unmoved_return unmoved_loadCarbon quiet split: sum.split option.split prod.split)

end

text \<open>The caches are all a cycle changes of the publisher.\<close>

definition same_config :: "Publisher \<Rightarrow> Publisher \<Rightarrow> bool" where
  "same_config p p' \<longleftrightarrow> (\<exists>c g. p' = p\<lparr>pu_EcoClient := c, pu_GeoCache := g\<rparr>)"

lemma same_config_refl: "same_config p p"
  unfolding same_config_def by (rule exI [of _ "pu_EcoClient p"], rule exI [of _ "pu_GeoCache p"]) simp

lemma same_config_ids: "same_config p p' \<Longrightarrow> pu_ClusterID p' = pu_ClusterID p \<and> pu_LiqoClusterID p' = pu_LiqoClusterID p"
  by (auto simp: same_config_def)

lemma same_config_trans: "same_config p q \<Longrightarrow> same_config q r \<Longrightarrow> same_config p r"
  unfolding same_config_def by force

lemma loadCarbon_config: "yields (\<lambda>(_, p'). same_config p p') (loadCarbon E p region)"
proof -
  have c: "same_config p (p\<lparr>pu_EcoClient := c\<rparr>)" for c
    unfolding same_config_def by (rule exI [of _ c], rule exI [of _ "pu_GeoCache p"]) simp
  show ?thesis
    unfolding loadCarbon_def Let_def
    by (auto intro!: yields_return yields_then c split: sum.split list.split prod.split)
qed

lemma placement_config: "yields (\<lambda>(_, p'). same_config p p') (loadPlacementInputs E p ip)"
proof -
  have g: "same_config p (p\<lparr>pu_GeoCache := g\<rparr>)" for g
    unfolding same_config_def by (rule exI [of _ "pu_EcoClient p"], rule exI [of _ g]) simp
  have "yields (\<lambda>(_, p'). same_config p p') (do {
      ((carbon, forecast), p) \<leftarrow> loadCarbon E (p\<lparr>pu_GeoCache := c\<rparr>) region;
      State_Monad.return (f carbon forecast, p) })" for c region f
    by (rule yields_bind [OF loadCarbon_config]) (auto intro!: yields_return intro: same_config_trans [OF g])
  note deep = this
  have located: "yields (\<lambda>(_, p'). same_config p p') (case r of
      Inr (Some loc) \<Rightarrow> do {
        ((carbon, forecast), p) \<leftarrow> loadCarbon E (p\<lparr>pu_GeoCache := c\<rparr>) (ge_Region loc);
        State_Monad.return ((Some \<lparr>t_Zone = '''', t_Region = ge_Region loc, t_City = ge_City loc, t_Latitude = ge_Lat loc,
          t_Longitude = ge_Lon loc\<rparr>, carbon, forecast), p) }
    | _ \<Rightarrow> State_Monad.return ((None, None, []), p\<lparr>pu_GeoCache := c\<rparr>))" for r c
    using deep by (auto intro!: yields_return g split: sum.split option.split)
  show ?thesis
  proof (cases "ip = ''''")
    case False
    show ?thesis
      unfolding loadPlacementInputs_def if_not_P [OF False] Let_def
      by (rule yields_then, split prod.split) (intro allI impI located)
  qed (simp add: loadPlacementInputs_def yields_return same_config_refl)
qed

text \<open>The fixed caps are quantities the file held.\<close>

definition caps_parsed :: "'w publisher_env \<Rightarrow> (string \<times> capRule) list \<Rightarrow> bool" where
  "caps_parsed E caps \<longleftrightarrow> (\<forall>k f. (k, FixedCap f) \<in> set caps \<longrightarrow> (\<exists>s. pe_ParseQuantity E s = Inr f))"

lemma loadCapacityCaps_parsed: "yields (caps_parsed E) (loadCapacityCaps E p)"
proof -
  have "\<exists>s. pe_ParseQuantity E s = Inr f" if "(k, FixedCap f) \<in> set (capRuleOf E nv)" for k f nv
    using that by (auto simp: capRuleOf_def Let_def split: prod.splits if_splits option.splits sum.splits)
  then show ?thesis
    unfolding loadCapacityCaps_def by (auto simp: caps_parsed_def intro!: yields_then yields_return)
qed

lemma caps_parsed_ok: "caps_parsed E caps \<Longrightarrow> (\<And>s q. pe_ParseQuantity E s = Inr q \<Longrightarrow> 0 \<le> q) \<Longrightarrow> caps_ok caps"
  by (auto simp: caps_parsed_def caps_ok_def list_all_iff split: capRule.split) blast

context publisher_world begin

lemma wp_publishOnce:
  "wp (publishOnce Q E p) (\<lambda>p' w'. same_config p p' \<and> (case fst (run_state (pe_ListNodes E) w) of
      Inl _ \<Rightarrow> posts w' = posts w \<and> results w' = results w @ [False]
    | Inr ns \<Rightarrow> \<exists>req ok caps. caps_parsed E caps \<and> posts w' = posts w @ [(req, ok)] \<and> results w' = results w @ [ok] \<and>
        ar_ClusterID req = pu_ClusterID p \<and> ar_LiqoClusterID req = pu_LiqoClusterID p \<and>
        (ar_Resources req, ar_CapacityScalePercent req, ar_CapacityFixed req) =
          applyCapacityScaling Q caps (sn_Allocatable (snapshotOf Q ns)))) w" (is "wp _ (\<lambda>p' w'. ?Q p' w') w")
proof -
  obtain l w0 where l: "run_state (pe_ListNodes E) w = (l, w0)" by fastforce
  let ?snap = "case l of Inl e \<Rightarrow> Inl (Sprintf ''snapshot: list nodes: %w'' [AMsg (kubeMessage e)]) | Inr nodes \<Rightarrow> Inr (snapshotOf Q nodes)"
  have w0: "seen w0 = seen w" using quiet(1) l by (simp add: unmoved_def) (metis snd_conv)
  have "wp (TakeSnapshot Q (Some (pe_ListNodes E))) (\<lambda>s w'. s = ?snap \<and> w' = w0) w"
    using l by (simp add: TakeSnapshot_def wp_def)
  then show ?thesis
    unfolding publishOnce_def wp_bind [of "TakeSnapshot _ _"]
  proof (rule wp_mono, goal_cases)
    case (1 s w1)
    show ?case
    proof (cases l)
      case (Inl e)
      then have s: "s = Inl (Sprintf ''snapshot: list nodes: %w'' [AMsg (kubeMessage e)])" using 1 by simp
      show ?thesis
        unfolding s sum.case wp_bind wp_return_fun
        by (rule wp_mono [OF wp_notified]) (use Inl l w0 1 in \<open>simp add: same_config_refl\<close>)
    next
      case (Inr ns)
      then have s: "s = Inr (snapshotOf Q ns)" using 1 by simp
      have w1: "seen w1 = seen w" using 1 w0 by simp
      show ?thesis
        unfolding s sum.case wp_bind [of "loadCapacityCaps _ _"]
      proof (rule wp_mono [OF wp_unmoved [OF unmoved_inputs(1) loadCapacityCaps_parsed]], goal_cases)
        case (1 caps w2)
        then have parsed: "caps_parsed E caps" by simp
        obtain scaled pct fix' where sc: "applyCapacityScaling Q caps (sn_Allocatable (snapshotOf Q ns)) = (scaled, pct, fix')" by (metis prod_cases3)
        show ?case
          unfolding sc Let_def prod.case wp_bind [of "ResolveIP _ _ _"]
        proof (rule wp_mono [OF wp_unmoved [OF unmoved_inputs(5) yields_any]], goal_cases)
          case (1 ip w3)
          show ?case
            unfolding wp_bind [of "loadPlacementInputs _ _ _"]
          proof (rule wp_mono [OF wp_unmoved [OF unmoved_placement placement_config]], goal_cases)
            case (1 x w4)
            obtain topology carbon forecast p' where x: "x = ((topology, carbon, forecast), p')" by (metis prod.exhaust)
            with 1 have p': "same_config p p'" by simp
            show ?case
              unfolding x prod.case wp_bind [of "loadUnitPrices _ _"]
            proof (rule wp_mono [OF wp_unmoved [OF unmoved_inputs(2) yields_any]], goal_cases)
              case (1 prices w5)
              show ?case
                unfolding wp_bind [of "loadRenewable _ _"]
              proof (rule wp_mono [OF wp_unmoved [OF unmoved_inputs(3) yields_any]], goal_cases)
                case (1 renewable w6)
                have w6: "seen w6 = seen w"
                  using 1 \<open>seen w5 = seen w4 \<and> True\<close> \<open>seen w4 = seen w3 \<and> _\<close> \<open>seen w3 = seen w2 \<and> True\<close> \<open>seen w2 = seen w1 \<and> _\<close> w1 by simp
                show ?case
                proof (rule wp_mono [OF wp_reported], goal_cases)
                  case (1 q w7)
                  with w6 l Inr p' same_config_ids [OF p'] sc parsed show ?case by (auto intro!: exI [of _ caps])
                qed
              qed
            qed
          qed
        qed
      qed
    qed
  qed
qed

text \<open>Every tick of the loop ends in exactly one call of the callback.\<close>

lemma wp_publishLoop:
  "wp (publishLoop Q E es p) (\<lambda>p' w'. same_config p p' \<and> (\<exists>bs. results w' = results w @ bs \<and> length bs = length (takeWhile (\<lambda>b. b) es))) w"
proof (induction es arbitrary: p w)
  case Nil
  then show ?case by (simp add: same_config_refl)
next
  case (Cons e es)
  show ?case
  proof (cases e)
    case False
    then show ?thesis by (simp add: same_config_refl)
  next
    case True
    have "wp (publishOnce Q E p) (\<lambda>q w1. same_config p q \<and> (\<exists>b. results w1 = results w @ [b])) w"
      by (rule wp_mono [OF wp_publishOnce]) (auto split: sum.splits)
    then show ?thesis
      unfolding publishLoop.simps if_P [OF True] wp_bind
    proof (rule wp_mono, goal_cases)
      case (1 q w1)
      then obtain b where b: "same_config p q" "results w1 = results w @ [b]" by blast
      show ?case
      proof (rule wp_mono [OF Cons.IH], goal_cases)
        case (1 p' w')
        then obtain bs where bs: "same_config q p'" "results w' = results w1 @ bs" "length bs = length (takeWhile (\<lambda>b. b) es)" by blast
        have "results w' = results w @ b # bs" using b(2) bs(2) by simp
        moreover have "length (b # bs) = length (takeWhile (\<lambda>b. b) (e # es))" using bs(3) True by simp
        ultimately show ?case using same_config_trans [OF b(1) bs(1)] by blast
      qed
    qed
  qed
qed

end

section \<open>A provider and the Broker in memory\<close>

record provider_world =
  pv_Nodes :: "LocalNode list"
  pv_Files :: "string \<Rightarrow> string"
  pv_Store :: memstore
  pv_Posts :: "(AdvertisementRequest \<times> bool) list"
  pv_Results :: "bool list"
  pv_Queue :: "(goerror + InstructionsResponse) list"
  pv_Reports :: "(string \<times> InstructionResultRequest) list"
  pv_Probe :: Probe

text \<open>
  The posts arrive at the Broker's handler under the provider's certificate; the decoders know the texts of the
  example. There is no location service.
\<close>

definition memProvider :: "string \<Rightarrow> provider_world publisher_env" where
  "memProvider cid = \<lparr>
     pe_ListNodes = State (\<lambda>w. (Inr (pv_Nodes w), w)),
     pe_GetNode = (\<lambda>_. State_Monad.return (Inl KNotFound)),
     pe_ReadFile = (\<lambda>n. State (\<lambda>w. (Inr (pv_Files w n), w))),
     pe_PricesYaml = (\<lambda>_. Inr []), pe_RenewableYaml = (\<lambda>_. Inr False),
     pe_CapsYaml = (\<lambda>s. Inr [(ResourceCPU, s)]),
     pe_ParseQuantity = (\<lambda>_. Inl (text_msg ''not a quantity'')),
     pe_Geo = (\<lambda>_ _. State_Monad.return (NoAnswer (text_msg ''no route''))),
     pe_Carbon = (\<lambda>_ _. State_Monad.return (NoAnswer (text_msg ''no route''))),
     pe_Forecast = (\<lambda>_ _. State_Monad.return (NoAnswer (text_msg ''no route''))),
     pe_Clock = State_Monad.return 0,
     pe_Post = (\<lambda>req. State (\<lambda>w. case run_state (handleAdvertisementUpsert 0 memK (DefaultSizer_Size exactQ) cid (Inr req)) (pv_Store w) of
       (resp, st) \<Rightarrow> (let r = (case resp of writeJSON _ b \<Rightarrow> Inr b | writeError _ _ m \<Rightarrow> Inl (Plain m))
         in (r, w\<lparr>pv_Store := st, pv_Posts := pv_Posts w @ [(req, \<not> isl r)]\<rparr>)))),
     pe_OnResult = Some (\<lambda>b. State (\<lambda>w. (Inr (), w\<lparr>pv_Results := pv_Results w @ [b]\<rparr>)))\<rparr>"

interpretation pv: publisher_world "memProvider cid" pv_Posts pv_Results
  by unfold_locales (auto simp: memProvider_def unmoved_def wp_State split: prod.splits simp: Let_def)

text \<open>The provider's poller meets the contract of the poller too.\<close>

lemma provider_unmoved:
  assumes "\<And>a b. unmoved f (run a b)" "unmoved f nodes" "LookupHandler (providerRegistry Q run nodes path c l NewRegistry) k = Some h"
  shows "unmoved f (h i)"
proof -
  have "unmoved f (generateKubeconfigHandler run path i)" "unmoved f (providerCleanupHandler run path i)"
      "unmoved f (providerReconcileHandler Q (Some nodes) c l i)"
    unfolding generateKubeconfigHandler_def providerCleanupHandler_def providerReconcileHandler_def TakeSnapshot_def
    using assms(1, 2) by (auto intro!: unmoved_bind unmoved_return split: prod.split)
  with assms(3) show ?thesis
    by (auto simp: LookupHandler_def providerRegistry_def RegisterProvider_def NewRegistry_def update_conv split: if_splits)
qed

definition memProviderPoller :: "string \<times> string \<times> message option \<Rightarrow> provider_world poller" where
  "memProviderPoller answer = \<lparr>
     po_Get = State (\<lambda>w. case pv_Queue w of [] \<Rightarrow> (Inr \<lparr>ir_Instructions = []\<rparr>, w) | q # qs \<Rightarrow> (q, w\<lparr>pv_Queue := qs\<rparr>)),
     po_Post = (\<lambda>i r. State (\<lambda>w. (Inr (), w\<lparr>pv_Reports := pv_Reports w @ [(i, r)]\<rparr>))),
     po_CtxErr = State_Monad.return False,
     po_OnPollResult = Some (\<lambda>b. State (\<lambda>w. (Inr (), w\<lparr>pv_Probe := RecordPoll 1 b (pv_Probe w)\<rparr>))),
     po_OnHandlerActive = Some (\<lambda>b. State (\<lambda>w. (Inr (), w\<lparr>pv_Probe := RecordHandlerActive 1 b (pv_Probe w)\<rparr>))),
     po_Registry = providerRegistry exactQ (\<lambda>_ _. State_Monad.return answer) (State (\<lambda>w. (Inr (pv_Nodes w), w))) '''' ''p'' ''p'' NewRegistry\<rparr>"

interpretation pp: poller_world "memProviderPoller answer" pv_Reports "\<lambda>w. pb_InFlight (pv_Probe w)"
proof (unfold_locales, goal_cases)
  case (6 k h j w)
  then have "LookupHandler (providerRegistry exactQ (\<lambda>_ _. State_Monad.return answer) (State (\<lambda>w. (Inr (pv_Nodes w), w))) '''' ''p'' ''p'' NewRegistry) k = Some h"
    by (simp add: memProviderPoller_def)
  note h = this good_provider_registered [OF this, of j]
  have u: "unmoved (\<lambda>w. (pv_Reports w, pv_Probe w)) (h j)"
    by (rule provider_unmoved [OF _ _ h(1)]) (simp_all add: unmoved_def)
  show ?case by (rule wp_mono [OF wp_unmoved [OF u h(2)]]) simp
qed (auto simp: memProviderPoller_def wp_State RecordPoll_def RecordHandlerActive_def Let_def split: list.splits)

section \<open>Properties\<close>


definition exampleProvider :: Publisher where
  "exampleProvider = \<lparr>pu_ClusterID = ''p'', pu_LiqoClusterID = ''p'', pu_PriceFile = '''', pu_CapacityFile = ''caps'', pu_RenewableFile = '''',
     pu_NodeName = '''', pu_AdvertisedIP = '''', pu_MockEcoURL = '''', pu_MockGeoURL = '''', pu_ProbeUDPPort = 0, pu_EcoClient = NewEcoClient 0,
     pu_GeoCache = []\<rparr>"

definition exampleProviderWorld :: provider_world where
  "exampleProviderWorld = \<lparr>pv_Nodes = exampleNodes, pv_Files = (\<lambda>_. ''50%''), pv_Store = Ledger.exampleWorld [], pv_Posts = [], pv_Results = [],
     pv_Queue = [], pv_Reports = [], pv_Probe = NewProbe 0 0\<rparr>"


end
