(* ===== verification/Selector.thy ===== *)
theory Selector
  imports LocalApi
begin

text \<open>
  \<^verbatim>\<open>internal/agent/ollama\<close>, the client of the language model that answers for the ConsumerChoice policy: what the
  model is shown, the call, how its answer is judged and how a failure is classified. The HTTP exchange, the JSON
  codecs, the decimal text of a quantity and the wording of the system prompt are arguments. The last section joins
  the client to the loopback server of theory LocalApi.
\<close>

section \<open>What the model is shown (prompt.go)\<close>

record OllamaLocation =
  ol_Latitude :: real
  ol_Longitude :: real
  ol_Region :: string

record ProviderInfo =
  po_ProviderID :: string
  po_NodeGroupID :: string
  po_ClusterType :: string
  po_AvailableChunks :: int
  po_CPUPerChunk :: string
  po_MemoryPerChunk :: string
  po_GPUPerChunk :: string
  po_AvailableCPUMillicores :: int
  po_AvailableMemoryMiB :: int
  po_CostPerChunk :: "real option"
  po_CarbonIntensity :: "real option"
  po_Region :: string
  po_Latitude :: real
  po_Longitude :: real

record SelectionResponse =
  sr_ProviderID :: string
  sr_RankedList :: "string list"
  sr_Reason :: string
  sr_Confidence :: "real option"
  sr_Reasoning :: string

text \<open>A prompt is the sequence of texts written to its builder.\<close>

type_synonym prompt = "message list"

record ollamaRequest =
  oq_Model :: string
  oq_System :: string
  oq_Prompt :: prompt
  oq_Format :: string
  oq_Stream :: bool

record ollamaResponse =
  os_Model :: string
  os_CreatedAt :: Time
  os_Response :: string
  os_Done :: bool
  os_DoneReason :: string
  os_TotalDuration :: int
  os_LoadDuration :: int
  os_PromptEvalCount :: int
  os_PromptEvalDuration :: int
  os_EvalCount :: int
  os_EvalDuration :: int

text \<open>An error of the transport: its text, whether it is a deadline, and \<^verbatim>\<open>Timeout()\<close> if it is a \<^verbatim>\<open>net.Error\<close>.\<close>

record netError =
  ne_Text :: message
  ne_DeadlineExceeded :: bool
  ne_Timeout :: "bool option"

datatype ollama_exchange = Unbuilt message | Unanswered netError | Replied nat string "netError + ollamaResponse"

text \<open>
  What the client calls: the clock, one POST (timeout, URL, body), the codecs, the texts of a quantity. An encoder
  that fails is \<open>None\<close>.
\<close>

record 'w ollama_env =
  oe_Now :: "('w, Time) state"
  oe_Do :: "Duration \<Rightarrow> string \<Rightarrow> string \<Rightarrow> ('w, ollama_exchange) state"
  oe_SystemPrompt :: string
  oe_MarshalRequest :: "ollamaRequest \<Rightarrow> message + string"
  oe_MarshalIndent :: "ProviderInfo list \<Rightarrow> string option"
  oe_MarshalProviders :: "ProviderInfo list \<Rightarrow> string option"
  oe_MarshalLocation :: "OllamaLocation \<Rightarrow> string"
  oe_DecodeSelection :: "string \<Rightarrow> message + SelectionResponse"
  oe_QuantityString :: "Quantity \<Rightarrow> string"
  oe_QuantityDecimal :: "Quantity \<Rightarrow> real option"

definition NodeGroupViewToProviderInfo :: "quantity_api \<Rightarrow> 'w ollama_env \<Rightarrow> NodeGroupView \<Rightarrow> ProviderInfo" where
  "NodeGroupViewToProviderInfo Q E ng =
    (let avail = int32 (ng_MaxSize ng - ng_CurrentReserved ng);
         text = (\<lambda>k. case map_of (ng_ChunkResources ng) k of Some q \<Rightarrow> oe_QuantityString E q | None \<Rightarrow> '''')
     in \<lparr>po_ProviderID = ng_ProviderClusterID ng, po_NodeGroupID = ng_ID ng, po_ClusterType = ng_Type ng, po_AvailableChunks = avail,
         po_CPUPerChunk = text ResourceCPU, po_MemoryPerChunk = text ResourceMemory, po_GPUPerChunk = text ''nvidia.com/gpu'',
         po_AvailableCPUMillicores = (case map_of (ng_ChunkResources ng) ResourceCPU of
             Some q \<Rightarrow> if avail > 0 then int64 (avail * q_MilliValue Q q) else 0
           | None \<Rightarrow> 0),
         po_AvailableMemoryMiB = (case map_of (ng_ChunkResources ng) ResourceMemory of
             Some q \<Rightarrow> if avail > 0 then int64 (avail * q_Value Q q) sdiv (1024 * 1024) else 0
           | None \<Rightarrow> 0),
         po_CostPerChunk = map_option (\<lambda>c. case oe_QuantityDecimal E c of Some v \<Rightarrow> v | None \<Rightarrow> q_Float Q c) (ng_Cost ng),
         po_CarbonIntensity = ng_CarbonIntensity ng,
         po_Region = (case ng_Topology ng of Some t \<Rightarrow> t_Region t | None \<Rightarrow> ''''),
         po_Latitude = (case ng_Topology ng of Some t \<Rightarrow> t_Latitude t | None \<Rightarrow> 0),
         po_Longitude = (case ng_Topology ng of Some t \<Rightarrow> t_Longitude t | None \<Rightarrow> 0)\<rparr>)"

definition BuildUserPrompt :: "'w ollama_env \<Rightarrow> string \<Rightarrow> OllamaLocation option \<Rightarrow> ProviderInfo list \<Rightarrow> prompt" where
  "BuildUserPrompt E userRequest consumer providers =
    (let providersJSON = (case oe_MarshalIndent E providers of
           Some s \<Rightarrow> s
         | None \<Rightarrow> (case oe_MarshalProviders E providers of Some s \<Rightarrow> s | None \<Rightarrow> ''''))
     in [text_msg ''USER REQUEST:\<newline>'', Sprintf ''%q\<newline>\<newline>'' [AStr userRequest]] @
        (case consumer of
           None \<Rightarrow> []
         | Some loc \<Rightarrow> [text_msg ''CONSUMER LOCATION (where the request comes from):\<newline>'', Sprintf ''%s'' [AStr (oe_MarshalLocation E loc)],
             text_msg ''\<newline>\<newline>'']) @
        [text_msg ''AVAILABLE PROVIDERS:\<newline>'', Sprintf ''%s'' [AStr providersJSON],
         Sprintf ''\<newline>\<newline>Rank ALL the providers above for this USER REQUEST: %q'' [AStr userRequest]])"

section \<open>The client (client.go)\<close>

record OllamaOptions =
  oo_Timeout :: Duration
  oo_ConsumerLocation :: "OllamaLocation option"

record OllamaClient =
  oc_baseURL :: string
  oc_model :: string
  oc_timeout :: Duration
  oc_opts :: OllamaOptions

definition NewWithOptions :: "string \<Rightarrow> string \<Rightarrow> OllamaOptions \<Rightarrow> OllamaClient" where
  "NewWithOptions baseURL model opts =
     \<lparr>oc_baseURL = rev (dropWhile (\<lambda>c. c = CHR ''/'') (rev baseURL)), oc_model = model,
      oc_timeout = (if oo_Timeout opts \<le> 0 then 120 * 10 ^ 9 else oo_Timeout opts), oc_opts = opts\<rparr>"

definition NewOllama :: "string \<Rightarrow> string \<Rightarrow> OllamaClient" where
  "NewOllama baseURL model = NewWithOptions baseURL model \<lparr>oo_Timeout = 0, oo_ConsumerLocation = None\<rparr>"

definition WithConsumerLocation :: "OllamaLocation option \<Rightarrow> OllamaClient \<Rightarrow> OllamaClient" where
  "WithConsumerLocation loc c = c\<lparr>oc_opts := (oc_opts c)\<lparr>oo_ConsumerLocation := loc\<rparr>\<rparr>"

datatype ErrorKind =
    ErrKindNone | ErrKindNoCapacity | ErrKindUnreachable | ErrKindTimeout | ErrKindHTTPStatus | ErrKindEnvelopeDecode
  | ErrKindInvalidJSON | ErrKindEmptyProviderID | ErrKindUnknownProviderID

record SelectError =
  se_Kind :: ErrorKind
  se_Err :: message

definition selectErr :: "ErrorKind \<Rightarrow> string \<Rightarrow> arg list \<Rightarrow> SelectError" where
  "selectErr kind format args = \<lparr>se_Kind = kind, se_Err = Sprintf format args\<rparr>"

record Trace =
  tr_Model :: string
  tr_SystemPrompt :: string
  tr_UserPrompt :: prompt
  tr_Providers :: "ProviderInfo list"
  tr_Format :: string
  tr_StartedAt :: Time
  tr_FinishedAt :: Time
  tr_HTTPStatus :: nat
  tr_RawResponse :: string
  tr_RawErrorBody :: string
  tr_Envelope :: "ollamaResponse option"
  tr_Parsed :: "SelectionResponse option"
  tr_Ranked :: "string list"
  tr_UnknownIDs :: "string list"
  tr_SingleCandidate :: bool
  tr_ErrorKind :: ErrorKind
  tr_Error :: "message option"

type_synonym selection = "Trace \<times> SelectError option"

definition newTrace :: "'w ollama_env \<Rightarrow> OllamaClient \<Rightarrow> Time \<Rightarrow> Trace" where
  "newTrace E c now = \<lparr>tr_Model = oc_model c, tr_SystemPrompt = oe_SystemPrompt E, tr_UserPrompt = [], tr_Providers = [],
     tr_Format = '''', tr_StartedAt = now, tr_FinishedAt = 0, tr_HTTPStatus = 0, tr_RawResponse = '''', tr_RawErrorBody = '''',
     tr_Envelope = None, tr_Parsed = None, tr_Ranked = [], tr_UnknownIDs = [], tr_SingleCandidate = False,
     tr_ErrorKind = ErrKindNone, tr_Error = None\<rparr>"

definition traceFail :: "'w ollama_env \<Rightarrow> SelectError \<Rightarrow> Trace \<Rightarrow> ('w, selection) state" where
  "traceFail E err t = do {
     now \<leftarrow> oe_Now E;
     State_Monad.return (t\<lparr>tr_FinishedAt := now, tr_ErrorKind := se_Kind err, tr_Error := Some (se_Err err)\<rparr>, Some err) }"

text \<open>The successful ends of \<^verbatim>\<open>SelectDetailed\<close>: the ranking and the end time are set.\<close>

definition traceDone :: "'w ollama_env \<Rightarrow> string list \<Rightarrow> Trace \<Rightarrow> ('w, selection) state" where
  "traceDone E ranked t = do {
     now \<leftarrow> oe_Now E;
     State_Monad.return (t\<lparr>tr_Ranked := ranked, tr_FinishedAt := now\<rparr>, None) }"

definition isTimeout :: "netError \<Rightarrow> bool" where
  "isTimeout err \<longleftrightarrow> ne_DeadlineExceeded err \<or> ne_Timeout err = Some True"

definition ollamaGenerate :: "'w ollama_env \<Rightarrow> OllamaClient \<Rightarrow> Trace \<Rightarrow> ('w, (SelectError + ollamaResponse) \<times> Trace) state" where
  "ollamaGenerate E c t =
    (case oe_MarshalRequest E \<lparr>oq_Model = oc_model c, oq_System = tr_SystemPrompt t, oq_Prompt = tr_UserPrompt t,
        oq_Format = tr_Format t, oq_Stream = False\<rparr> of
       Inl err \<Rightarrow> State_Monad.return (Inl (selectErr ErrKindInvalidJSON ''marshal ollama request: %w'' [AMsg err]), t)
     | Inr body \<Rightarrow> do {
         x \<leftarrow> oe_Do E (oc_timeout c) (oc_baseURL c @ ''/api/generate'') body;
         State_Monad.return (case x of
           Unbuilt err \<Rightarrow> (Inl (selectErr ErrKindUnreachable ''build ollama HTTP request: %w'' [AMsg err]), t)
         | Unanswered err \<Rightarrow>
             (Inl (selectErr (if isTimeout err then ErrKindTimeout else ErrKindUnreachable) ''call ollama: %w'' [AMsg (ne_Text err)]), t)
         | Replied st raw decoded \<Rightarrow>
             (let t = t\<lparr>tr_HTTPStatus := st\<rparr>
              in if st \<noteq> 200 then
                   (Inl (selectErr ErrKindHTTPStatus ''ollama returned status %d: %s'' [AInt (int st), AStr (take 512 raw)]),
                    t\<lparr>tr_RawErrorBody := take 512 raw\<rparr>)
                 else case decoded of
                   Inl err \<Rightarrow>
                     (Inl (if isTimeout err then selectErr ErrKindTimeout ''read ollama response: %w'' [AMsg (ne_Text err)]
                           else selectErr ErrKindEnvelopeDecode ''decode ollama response: %w'' [AMsg (ne_Text err)]), t)
                 | Inr envelope \<Rightarrow> (Inr envelope, t))) })"

text \<open>A set of identifiers as \<^verbatim>\<open>%v\<close> prints its sorted list.\<close>

fun joinWith :: "string \<Rightarrow> string list \<Rightarrow> string" where
  "joinWith sep [] = ''''"
| "joinWith sep [x] = x"
| "joinWith sep (x # y # ys) = x @ sep @ joinWith sep (y # ys)"

definition validIDsList :: "string list \<Rightarrow> string" where
  "validIDsList ids = ''['' @ joinWith '' '' (sort (remdups ids)) @ '']''"

text \<open>One turn of the loop over the model's list: what is ranked, and what is unknown.\<close>

definition rankStep :: "string list \<Rightarrow> string \<Rightarrow> string list \<times> string list \<Rightarrow> string list \<times> string list" where
  "rankStep validIDs i acc = (case acc of (ranked, unknown) \<Rightarrow>
     if i \<notin> set validIDs then (ranked, unknown @ [i])
     else if i \<notin> set ranked then (ranked @ [i], unknown)
     else (ranked, unknown))"

definition judgeSelection :: "'w ollama_env \<Rightarrow> string list \<Rightarrow> string \<Rightarrow> Trace \<Rightarrow> ('w, selection) state" where
  "judgeSelection E validIDs response t =
    (case oe_DecodeSelection E response of
       Inl err \<Rightarrow> traceFail E (selectErr ErrKindInvalidJSON ''parse LLM selection JSON %q: %w'' [AStr response, AMsg err]) t
     | Inr sel \<Rightarrow>
        (let t = t\<lparr>tr_Parsed := Some sel\<rparr>
         in if sr_RankedList sel \<noteq> [] then
              (case fold (rankStep validIDs) (sr_RankedList sel) ([], []) of (ranked, unknown) \<Rightarrow>
                (let t = t\<lparr>tr_UnknownIDs := unknown\<rparr>
                 in if ranked = [] then
                      traceFail E (selectErr ErrKindUnknownProviderID ''LLM rankedList contains no valid IDs (valid: %v)''
                        [AStr (validIDsList validIDs)]) t
                    else traceDone E ranked t))
            else if sr_ProviderID sel = '''' then
              traceFail E (selectErr ErrKindEmptyProviderID ''LLM returned empty providerId in response %q'' [AStr response]) t
            else if sr_ProviderID sel \<notin> set validIDs then
              traceFail E (selectErr ErrKindUnknownProviderID ''LLM returned unknown providerId %q (valid: %v)''
                [AStr (sr_ProviderID sel), AStr (validIDsList validIDs)]) (t\<lparr>tr_UnknownIDs := [sr_ProviderID sel]\<rparr>)
            else traceDone E [sr_ProviderID sel] t))"

text \<open>The test of \<^verbatim>\<open>SelectDetailed\<close>, which compares and does not subtract.\<close>

definition hasCapacity :: "NodeGroupView \<Rightarrow> bool" where
  "hasCapacity ng \<longleftrightarrow> ng_MaxSize ng > ng_CurrentReserved ng"

definition SelectDetailed :: "quantity_api \<Rightarrow> 'w ollama_env \<Rightarrow> OllamaClient \<Rightarrow> string \<Rightarrow> NodeGroupView list \<Rightarrow> ('w, selection) state" where
  "SelectDetailed Q E c userPrompt groups = do {
     started \<leftarrow> oe_Now E;
     let providers = map (NodeGroupViewToProviderInfo Q E) (filter hasCapacity groups);
     let validIDs = map ng_ProviderClusterID (filter hasCapacity groups);
     let t = (newTrace E c started)\<lparr>tr_Providers := providers\<rparr>;
     (case providers of
        [] \<Rightarrow> traceFail E (selectErr ErrKindNoCapacity ''no providers with available capacity'' []) t
      | [p] \<Rightarrow> traceDone E [po_ProviderID p] (t\<lparr>tr_SingleCandidate := True\<rparr>)
      | _ \<Rightarrow> do {
          (g, t) \<leftarrow> ollamaGenerate E c (t\<lparr>tr_UserPrompt := BuildUserPrompt E userPrompt (oo_ConsumerLocation (oc_opts c)) providers,
            tr_Format := ''json''\<rparr>);
          (case g of
             Inl err \<Rightarrow> traceFail E err t
           | Inr envelope \<Rightarrow> judgeSelection E validIDs (os_Response envelope)
               (t\<lparr>tr_Envelope := Some envelope, tr_RawResponse := os_Response envelope\<rparr>)) }) }"

definition SelectRanking :: "quantity_api \<Rightarrow> 'w ollama_env \<Rightarrow> OllamaClient \<Rightarrow> string \<Rightarrow> NodeGroupView list \<Rightarrow> ('w, SelectError + string list) state" where
  "SelectRanking Q E c userPrompt groups = do {
     (t, err) \<leftarrow> SelectDetailed Q E c userPrompt groups;
     State_Monad.return (case err of Some e \<Rightarrow> Inl e | None \<Rightarrow> Inr (tr_Ranked t)) }"

section \<open>What a selection returns\<close>

text \<open>The reading of an answer: its known identifiers, in the order of their first mention.\<close>

definition firstMentions :: "string list \<Rightarrow> string list" where
  "firstMentions xs = rev (remdups (rev xs))"

definition obeyed :: "string list \<Rightarrow> SelectionResponse \<Rightarrow> string list" where
  "obeyed ids sel = firstMentions (filter (\<lambda>i. i \<in> set ids) (if sr_RankedList sel = [] then [sr_ProviderID sel] else sr_RankedList sel))"

lemma firstMentions_simps [simp]:
  "firstMentions [] = []" "firstMentions [x] = [x]"
  "firstMentions (xs @ [x]) = (if x \<in> set xs then firstMentions xs else firstMentions xs @ [x])"
  "set (firstMentions xs) = set xs" "distinct (firstMentions xs)" "firstMentions xs = [] \<longleftrightarrow> xs = []"
  by (simp_all add: firstMentions_def)

lemma set_obeyed: "set (obeyed ids sel) \<subseteq> set ids"
  by (auto simp: obeyed_def)

lemma rank_loop:
  "fold (rankStep ids) xs ([], []) = (firstMentions (filter (\<lambda>i. i \<in> set ids) xs), filter (\<lambda>i. i \<notin> set ids) xs)"
  by (induction xs rule: rev_induct) (simp_all add: rankStep_def)

lemma wp_traceFail:
  "(\<And>now w'. P (t\<lparr>tr_FinishedAt := now, tr_ErrorKind := se_Kind err, tr_Error := Some (se_Err err)\<rparr>, Some err) w') \<Longrightarrow>
    wp (traceFail E err t) P w"
  by (auto simp: traceFail_def intro: wpI)

lemma wp_traceDone: "(\<And>now w'. P (t\<lparr>tr_Ranked := ranked, tr_FinishedAt := now\<rparr>, None) w') \<Longrightarrow> wp (traceDone E ranked t) P w"
  by (auto simp: traceDone_def intro: wpI)

definition verdict :: "string list \<Rightarrow> Trace \<Rightarrow> selection \<Rightarrow> bool" where
  "verdict ids t r = (case r of (t', err) \<Rightarrow> tr_Providers t' = tr_Providers t \<and> (case err of
      None \<Rightarrow> (\<exists>sel. tr_Parsed t' = Some sel \<and> tr_Ranked t' = obeyed ids sel) \<and> tr_Ranked t' \<noteq> []
    | Some e \<Rightarrow> tr_Ranked t' = tr_Ranked t \<and> tr_ErrorKind t' = se_Kind e \<and> se_Kind e \<notin> {ErrKindNone, ErrKindNoCapacity}))"

lemma wp_judgeSelection: "wp (judgeSelection E ids response t) (\<lambda>r w'. verdict ids t r) w"
proof (cases "oe_DecodeSelection E response")
  case (Inl e)
  then show ?thesis by (auto simp: judgeSelection_def verdict_def selectErr_def intro!: wp_traceFail)
next
  case (Inr sel)
  then show ?thesis
    by (auto simp: judgeSelection_def verdict_def selectErr_def rank_loop Let_def obeyed_def intro!: wp_traceFail wp_traceDone)
qed

lemma wp_ollamaGenerate:
  "wp (ollamaGenerate E c t) (\<lambda>(g, t') w'. tr_Providers t' = tr_Providers t \<and> tr_Ranked t' = tr_Ranked t \<and>
     (\<forall>e. g = Inl e \<longrightarrow> se_Kind e \<notin> {ErrKindNone, ErrKindNoCapacity})) w"
  unfolding ollamaGenerate_def
  by (auto simp: selectErr_def Let_def intro!: wpI split: sum.splits ollama_exchange.splits if_splits)

definition soundSelection :: "NodeGroupView list \<Rightarrow> selection \<Rightarrow> bool" where
  "soundSelection candidates r = (case r of (t, err) \<Rightarrow> map po_ProviderID (tr_Providers t) = map ng_ProviderClusterID candidates \<and>
    (case err of
       Some e \<Rightarrow> tr_Ranked t = [] \<and> tr_ErrorKind t = se_Kind e \<and> se_Kind e \<noteq> ErrKindNone \<and>
         (se_Kind e = ErrKindNoCapacity \<longleftrightarrow> candidates = [])
     | None \<Rightarrow> tr_Ranked t \<noteq> [] \<and> distinct (tr_Ranked t) \<and> set (tr_Ranked t) \<subseteq> set (map ng_ProviderClusterID candidates) \<and>
         (if length candidates = 1 then tr_Parsed t = None
          else \<exists>sel. tr_Parsed t = Some sel \<and> tr_Ranked t = obeyed (map ng_ProviderClusterID candidates) sel)))"

lemma shown_provider [simp]: "po_ProviderID (NodeGroupViewToProviderInfo Q E ng) = ng_ProviderClusterID ng"
  by (simp add: NodeGroupViewToProviderInfo_def Let_def)

lemma shown_providers [simp]: "map po_ProviderID (map (NodeGroupViewToProviderInfo Q E) groups) = map ng_ProviderClusterID groups"
  by simp

lemma newTrace_simps [simp]:
  "tr_Ranked (newTrace E c now) = []" "tr_Parsed (newTrace E c now) = None"
  by (simp_all add: newTrace_def)

lemma verdict_sound:
  assumes "verdict (map ng_ProviderClusterID candidates) t r" "map po_ProviderID (tr_Providers t) = map ng_ProviderClusterID candidates"
    "tr_Ranked t = []" "length candidates \<ge> 2"
  shows "soundSelection candidates r"
  using assms set_obeyed [of "map ng_ProviderClusterID candidates"]
  by (auto simp: verdict_def soundSelection_def obeyed_def split: option.splits)

text \<open>What \<^verbatim>\<open>SelectDetailed\<close> does with the outcome of the call.\<close>

abbreviation finishCall :: "'w ollama_env \<Rightarrow> string list \<Rightarrow> SelectError + ollamaResponse \<Rightarrow> Trace \<Rightarrow> ('w, selection) state" where
  "finishCall E ids x t \<equiv> (case x of
     Inl err \<Rightarrow> traceFail E err t
   | Inr envelope \<Rightarrow> judgeSelection E ids (os_Response envelope) (t\<lparr>tr_Envelope := Some envelope, tr_RawResponse := os_Response envelope\<rparr>))"

lemma wp_judged:
  assumes "map po_ProviderID (tr_Providers t) = map ng_ProviderClusterID candidates" "tr_Ranked t = []" "length candidates \<ge> 2"
    "\<forall>e. x = Inl e \<longrightarrow> se_Kind e \<notin> {ErrKindNone, ErrKindNoCapacity}"
  shows "wp (finishCall E (map ng_ProviderClusterID candidates) x t) (\<lambda>r w'. soundSelection candidates r) w"
proof (cases x)
  case (Inl e)
  with assms show ?thesis by (auto simp: soundSelection_def intro!: wp_traceFail)
next
  case (Inr envelope)
  with assms show ?thesis by (auto intro!: wp_mono [OF wp_judgeSelection] elim!: verdict_sound)
qed

lemma wp_SelectDetailed: "wp (SelectDetailed Q E c prompt groups) (\<lambda>r w'. soundSelection (filter hasCapacity groups) r) w"
proof -
  consider "filter hasCapacity groups = []" | g where "filter hasCapacity groups = [g]"
    | g h gs where "filter hasCapacity groups = g # h # gs" by (metis list.exhaust)
  then show ?thesis
  proof cases
    case 1
    then show ?thesis
      by (auto simp: SelectDetailed_def Let_def soundSelection_def selectErr_def intro!: wpI [of "oe_Now E"] wp_traceFail)
  next
    case 2
    then show ?thesis
      by (auto simp: SelectDetailed_def Let_def soundSelection_def intro!: wpI [of "oe_Now E"] wp_traceDone)
  next
    case (3 g h gs)
    have "wp (finishCall E (map ng_ProviderClusterID (g # h # gs)) x t) (\<lambda>r w'. soundSelection (g # h # gs) r) v"
      if "map po_ProviderID (tr_Providers t) = map ng_ProviderClusterID (g # h # gs)" "tr_Ranked t = []"
        "\<forall>e. x = Inl e \<longrightarrow> se_Kind e \<notin> {ErrKindNone, ErrKindNoCapacity}" for x t v
      using that by (intro wp_judged) auto
    then show ?thesis
      unfolding SelectDetailed_def Let_def 3
      by (auto intro!: wpI [of "oe_Now E"] wp_mono [OF wp_ollamaGenerate])
  qed
qed


definition exampleModel :: "string list \<Rightarrow> unit ollama_env" where
  "exampleModel ranking = \<lparr>oe_Now = State_Monad.return 0,
     oe_Do = (\<lambda>_ _ _. State_Monad.return (Replied 200 '''' (Inr \<lparr>os_Model = '''', os_CreatedAt = 0, os_Response = ''answer'', os_Done = True,
       os_DoneReason = '''', os_TotalDuration = 0, os_LoadDuration = 0, os_PromptEvalCount = 0, os_PromptEvalDuration = 0, os_EvalCount = 0,
       os_EvalDuration = 0\<rparr>))),
     oe_SystemPrompt = '''', oe_MarshalRequest = (\<lambda>_. Inr ''''), oe_MarshalIndent = (\<lambda>_. Some ''''), oe_MarshalProviders = (\<lambda>_. Some ''''),
     oe_MarshalLocation = (\<lambda>_. ''''), oe_DecodeSelection = (\<lambda>_. Inr \<lparr>sr_ProviderID = '''', sr_RankedList = ranking, sr_Reason = '''',
       sr_Confidence = None, sr_Reasoning = ''''\<rparr>), oe_QuantityString = (\<lambda>_. ''''), oe_QuantityDecimal = (\<lambda>_. None)\<rparr>"

text \<open>A model that repeats itself and invents a provider.\<close>

abbreviation exampleSelection :: "selection \<times> unit" where
  "exampleSelection \<equiv> run_state (SelectDetailed exactQ (exampleModel [''z'', ''c'', ''b'', ''c'']) (NewOllama ''http://localhost:11434/'' ''m'')
     ''cheap'' (nl_NodeGroups exampleGroups)) ()"

lemma exampleSelection_ranked: "snd (fst exampleSelection) = None" "tr_Ranked (fst (fst exampleSelection)) = [''c'', ''b'']"
  by (simp_all add: SelectDetailed_def exampleModel_def ollamaGenerate_def judgeSelection_def traceDone_def rankStep_def hasCapacity_def
    demoView_def Let_def)


section \<open>The model's choice is what grows\<close>

text \<open>What the background task of the loopback server hands to its last step.\<close>

definition selectionOutcome :: "selection \<Rightarrow> goerror + string list" where
  "selectionOutcome r = (case r of (t, err) \<Rightarrow> (case err of Some e \<Rightarrow> Inl (Plain (se_Err e)) | None \<Rightarrow> Inr (tr_Ranked t)))"

lemma find_append_Some: "find P xs = Some p \<Longrightarrow> find P (xs @ ys) = Some p"
  by (induction xs) (auto split: if_splits)

text \<open>
  C23. For a minute after a selection has ended, the node groups are served so that exactly one provider can grow: the
  first of the model's ranking that has free capacity at that moment, or, if the selection failed, the first such
  provider of the deterministic ranking.
\<close>

theorem model_choice_served:
  assumes "run_state (SelectDetailed Q E c prompt groups) w = ((t, err), w')"
    and "ai_Prompt (ls_ai s) = prompt" and "later - now < 60 * 10 ^ 9"
    and "list_all (\<lambda>ng. ng_ProviderClusterID ng \<noteq> '''') (nl_NodeGroups resp)"
    and "find (\<lambda>p. list_ex (\<lambda>ng. headroom ng \<and> ng_ProviderClusterID ng = p) (nl_NodeGroups resp))
      (if err = None then tr_Ranked t else fst (DeterministicFallback Q groups)) = Some p"
  shows "\<exists>served s'. serveChoice Q later resp (Some prompt)
      (s\<lparr>ls_ai := finishSelection Q now prompt groups (selectionOutcome (t, err)) (ls_ai s)\<rparr>) = (writeJSON 200 served, s', None) \<and>
    {ng_ProviderClusterID ng |ng. ng \<in> set (nl_NodeGroups served) \<and> headroom ng} = {p}"
proof -
  let ?ranked = "if err = None then tr_Ranked t else fst (DeterministicFallback Q groups)"
  let ?capacity = "\<lambda>p. \<exists>ng\<in>set (nl_NodeGroups resp). headroom ng \<and> ng_ProviderClusterID ng = p"
  let ?ai = "finishSelection Q now prompt groups (selectionOutcome (t, err)) (ls_ai s)"
  have found: "find ?capacity ?ranked = Some p"
    using assms(5) by (simp add: list_ex_iff)
  then have "?ranked \<noteq> []" by auto
  then have result: "ai_Result ?ai = completeRanking Q ?ranked groups" "ai_Timestamp ?ai = now" "ai_Prompt ?ai = prompt"
    using assms(2) by (auto simp: finishSelection_def selectionOutcome_def Let_def split: option.splits)
  then obtain rest where rest: "ai_Result ?ai = ?ranked @ rest" using completeRanking_prefix by metis
  then have "ai_Result ?ai \<noteq> []" using \<open>?ranked \<noteq> []\<close> by auto
  then have "pollChoice later prompt (nl_NodeGroups resp) ?ai = (ServeRanking (ai_Result ?ai), ?ai, None)"
    using assms(3) result by (simp add: pollChoice_def Let_def)
  moreover have "find ?capacity (ai_Result ?ai) = Some p"
    unfolding rest using found by (rule find_append_Some)
  then have "{ng_ProviderClusterID ng |ng. ng \<in> set (nl_NodeGroups (maskToFirstAvailable resp (ai_Result ?ai))) \<and> headroom ng} = {p}"
    using choice_single_provider [of resp "ai_Result ?ai"] assms(4) by (simp add: list_all_iff)
  ultimately show ?thesis by (simp add: serveChoice_def serveNodeGroups_def)
qed

definition exampleLocalServer :: LocalServer where
  "exampleLocalServer = \<lparr>ls_ai = \<lparr>ai_Running = True, ai_Result = [], ai_Timestamp = 0, ai_Prompt = ''cheap''\<rparr>, ls_brain = None\<rparr>"

text \<open>The provider \<^verbatim>\<open>c\<close> that the model ranked first is full by the time of the next poll.\<close>

theorem model_choice_served_witness:
  "\<exists>served s'. serveChoice exactQ 1 (exampleGroups\<lparr>nl_NodeGroups := [demoView ''a'' 5, demoView ''b'' 2, demoView ''c'' 1]\<rparr>) (Some ''cheap'')
      (exampleLocalServer\<lparr>ls_ai := finishSelection exactQ 0 ''cheap'' (nl_NodeGroups exampleGroups)
        (selectionOutcome (fst exampleSelection)) (ls_ai exampleLocalServer)\<rparr>) = (writeJSON 200 served, s', None) \<and>
    {ng_ProviderClusterID ng |ng. ng \<in> set (nl_NodeGroups served) \<and> headroom ng} = {''b''}"
proof -
  obtain t err u where e: "exampleSelection = ((t, err), u)" by (metis surj_pair)
  note r = exampleSelection_ranked [unfolded e, simplified]
  have views: "list_all (\<lambda>ng. ng_ProviderClusterID ng \<noteq> '''') [demoView ''a'' 5, demoView ''b'' 2, demoView ''c'' 1]"
    "\<not> headroom (demoView ''c'' 1)" "headroom (demoView ''b'' 2)"
    by (simp_all add: demoView_def headroom_def int32_id is_int32_def)
  then show ?thesis
    unfolding e fst_conv
    by (intro model_choice_served [OF e]) (use r in \<open>simp_all add: exampleLocalServer_def demoView_def\<close>)
qed

end
