(* ===== verification/Dashboard.thy ===== *)
theory Dashboard
  imports Middleware
begin

text \<open>
  The Broker's read-only dashboard (\<^verbatim>\<open>internal/broker/api/dashboard.go\<close>): the overview of all stored objects and
  of the consumer registry, its handlers, its routes and the reduced chain of layers in front of them. The embedded
  page is a constant answer. The listener itself (\<^verbatim>\<open>dashboard_runnable.go\<close>) is not modelled.
\<close>

section \<open>Wire types\<close>

record ChunkTypeCapacity =
  ct_TotalChunks :: int
  ct_ReservedChunks :: int
  ct_AvailableChunks :: int

record CapacitySummary =
  cy_TotalChunks :: int
  cy_ReservedChunks :: int
  cy_AvailableChunks :: int
  cy_ProviderCount :: nat
  cy_AvailableProviderCount :: nat
  cy_ByChunkType :: "(string \<times> ChunkTypeCapacity) list"
  cy_ChunkSizes :: "(string \<times> ResourceList) list"

record DashboardReservationView =
  dr_ReservationResponse :: ReservationResponse
  dr_TerminatedAt :: "Time option"

text \<open>There is no field for a kubeconfig.\<close>

record DashboardInstructionView =
  di_ID :: string
  di_Kind :: string
  di_ReservationID :: string
  di_TargetClusterID :: string
  di_ChunkCount :: int
  di_LastChunk :: bool
  di_Enforced :: bool
  di_Attempts :: int
  di_IssuedAt :: "Time option"
  di_LastDeliveredAt :: "Time option"
  di_LastUpdateTime :: "Time option"
  di_ExpiresAt :: "Time option"
  di_Message :: message
  di_ConsumerClusterID :: string
  di_ConsumerLiqoClusterID :: string
  di_ProviderClusterID :: string
  di_ResourceSliceNames :: "string list"

record ConsumerView =
  cw_ClusterID :: string
  cw_LiqoClusterID :: string
  cw_Placement :: string
  cw_Region :: string
  cw_City :: string
  cw_ChosenProvider :: string
  cw_MeasuredRTT :: "real option"
  cw_DecidedBy :: string
  cw_LastSeen :: Time

record Overview =
  ov_GeneratedAt :: Time
  ov_Namespace :: string
  ov_Capacity :: CapacitySummary
  ov_Advertisements :: "AdvertisementSnapshot list"
  ov_Reservations :: "DashboardReservationView list"
  ov_ProviderInstructions :: "DashboardInstructionView list"
  ov_ReservationInstructions :: "DashboardInstructionView list"
  ov_Consumers :: "ConsumerView list"

section \<open>The projections\<close>

definition dashboardReservationView :: "Reservation \<Rightarrow> DashboardReservationView" where
  "dashboardReservationView r = \<lparr>dr_ReservationResponse = reservationResponseFromCR r, dr_TerminatedAt = rs_TerminatedAt (rs_Status r)\<rparr>"

definition dashboardViewFromProviderInstruction :: "ProviderInstruction \<Rightarrow> DashboardInstructionView" where
  "dashboardViewFromProviderInstruction p =
    \<lparr>di_ID = m_Name (pi_Meta p), di_Kind = pi_kind_string (pi_Kind (pi_Spec p)), di_ReservationID = pi_ReservationID (pi_Spec p),
     di_TargetClusterID = pi_TargetClusterID (pi_Spec p), di_ChunkCount = pi_ChunkCount (pi_Spec p), di_LastChunk = pi_LastChunk (pi_Spec p),
     di_Enforced = is_Enforced (pi_Status p), di_Attempts = is_Attempts (pi_Status p), di_IssuedAt = is_IssuedAt (pi_Status p),
     di_LastDeliveredAt = is_LastDeliveredAt (pi_Status p), di_LastUpdateTime = is_LastUpdateTime (pi_Status p),
     di_ExpiresAt = pi_ExpiresAt (pi_Spec p), di_Message = is_Message (pi_Status p),
     di_ConsumerClusterID = pi_ConsumerClusterID (pi_Spec p), di_ConsumerLiqoClusterID = pi_ConsumerLiqoClusterID (pi_Spec p),
     di_ProviderClusterID = '''', di_ResourceSliceNames = []\<rparr>"

definition dashboardViewFromReservationInstruction :: "ReservationInstruction \<Rightarrow> DashboardInstructionView" where
  "dashboardViewFromReservationInstruction q =
    \<lparr>di_ID = m_Name (ri_Meta q), di_Kind = ri_kind_string (ri_Kind (ri_Spec q)), di_ReservationID = ri_ReservationID (ri_Spec q),
     di_TargetClusterID = ri_TargetClusterID (ri_Spec q), di_ChunkCount = ri_ChunkCount (ri_Spec q), di_LastChunk = ri_LastChunk (ri_Spec q),
     di_Enforced = is_Enforced (ri_Status q), di_Attempts = is_Attempts (ri_Status q), di_IssuedAt = is_IssuedAt (ri_Status q),
     di_LastDeliveredAt = is_LastDeliveredAt (ri_Status q), di_LastUpdateTime = is_LastUpdateTime (ri_Status q),
     di_ExpiresAt = ri_ExpiresAt (ri_Spec q), di_Message = is_Message (ri_Status q),
     di_ConsumerClusterID = '''', di_ConsumerLiqoClusterID = '''',
     di_ProviderClusterID = ri_ProviderClusterID (ri_Spec q), di_ResourceSliceNames = ri_ResourceSliceNames (ri_Spec q)\<rparr>"

definition consumerView :: "ConsumerEntry \<Rightarrow> ConsumerView" where
  "consumerView e = \<lparr>cw_ClusterID = ce_ClusterID e, cw_LiqoClusterID = ce_LiqoClusterID e, cw_Placement = pp_Type (ce_Placement e),
     cw_Region = ce_Region e, cw_City = ce_City e, cw_ChosenProvider = ce_ChosenProvider e,
     cw_MeasuredRTT = map_of (ce_MeasuredLatencies e) (ce_ChosenProvider e), cw_DecidedBy = ce_DecidedBy e, cw_LastSeen = ce_LastSeen e\<rparr>"

definition dashboardAdvertisement :: "quantity_api \<Rightarrow> Sizer \<Rightarrow> ClusterAdvertisement \<Rightarrow> AdvertisementSnapshot" where
  "dashboardAdvertisement Q sizer cadv =
    (case perChunkCostWith Q sizer cadv of (cost, ok) \<Rightarrow>
      if ok then (advertisementSnapshotFromCR cadv)\<lparr>as_CostPerChunk := Some cost\<rparr> else advertisementSnapshotFromCR cadv)"

definition chunkSizes :: "quantity_api \<Rightarrow> Sizer \<Rightarrow> (string \<times> ResourceList) list" where
  "chunkSizes Q sizer =
    (let standardRef = [(ResourceCPU, q_MustParse Q ''1000''), (ResourceMemory, q_MustParse Q ''1000Gi'')];
         gpuRef = standardRef @ [(''nvidia.com/gpu'', q_MustParse Q ''1000'')];
         note = (\<lambda>r out. AList.update (r_Type r) (r_PerChunk r) out)
     in fold note (sizer gpuRef) (fold note (sizer standardRef) []))"

section \<open>The overview\<close>

definition zero_ChunkTypeCapacity :: ChunkTypeCapacity where
  "zero_ChunkTypeCapacity = \<lparr>ct_TotalChunks = 0, ct_ReservedChunks = 0, ct_AvailableChunks = 0\<rparr>"

definition addChunks :: "ClusterAdvertisementStatus \<Rightarrow> ChunkTypeCapacity \<Rightarrow> ChunkTypeCapacity" where
  "addChunks st c = \<lparr>ct_TotalChunks = int32 (ct_TotalChunks c + ca_TotalChunks st),
     ct_ReservedChunks = int32 (ct_ReservedChunks c + ca_ReservedChunks st),
     ct_AvailableChunks = int32 (ct_AvailableChunks c + ca_AvailableChunks st)\<rparr>"

text \<open>One turn of the loop over the advertisements.\<close>

definition tallyStep :: "ClusterAdvertisement \<Rightarrow> CapacitySummary \<Rightarrow> CapacitySummary" where
  "tallyStep cadv cap =
    (let st = ca_Status cadv; key = ca_ClusterType (ca_Spec cadv);
         bucket = (case map_of (cy_ByChunkType cap) key of Some b \<Rightarrow> b | None \<Rightarrow> zero_ChunkTypeCapacity)
     in cap\<lparr>cy_ProviderCount := Suc (cy_ProviderCount cap),
         cy_AvailableProviderCount := (if ca_Available st then Suc (cy_AvailableProviderCount cap) else cy_AvailableProviderCount cap),
         cy_TotalChunks := int32 (cy_TotalChunks cap + ca_TotalChunks st),
         cy_ReservedChunks := int32 (cy_ReservedChunks cap + ca_ReservedChunks st),
         cy_AvailableChunks := int32 (cy_AvailableChunks cap + ca_AvailableChunks st),
         cy_ByChunkType := AList.update key (addChunks st bucket) (cy_ByChunkType cap)\<rparr>)"

definition tally :: "(string \<times> ResourceList) list \<Rightarrow> ClusterAdvertisement list \<Rightarrow> CapacitySummary" where
  "tally sizes cadvs = fold tallyStep cadvs \<lparr>cy_TotalChunks = 0, cy_ReservedChunks = 0, cy_AvailableChunks = 0, cy_ProviderCount = 0,
     cy_AvailableProviderCount = 0, cy_ByChunkType = [], cy_ChunkSizes = sizes\<rparr>"

text \<open>
  The objects of a list have distinct names, so sorting by name needs no tie-break; two advertisements of one cluster
  ID, which \<^verbatim>\<open>sort.Slice\<close> may swap, are kept in their order.
\<close>

definition buildOverview :: "quantity_api \<Rightarrow> string \<Rightarrow> Time \<Rightarrow> 'w kube \<Rightarrow> Server \<Rightarrow> ('w, gerr + Overview) state" where
  "buildOverview Q ns now K srv = do {
     a \<leftarrow> ListAdv K;
     (case a of
        Inl e \<Rightarrow> State_Monad.return (Inl (Wrap ''list ClusterAdvertisement'' (KubeErr e)))
      | Inr cadvs \<Rightarrow> do {
          r \<leftarrow> ListResv K;
          (case r of
             Inl e \<Rightarrow> State_Monad.return (Inl (Wrap ''list Reservation'' (KubeErr e)))
           | Inr resvs \<Rightarrow> do {
               p \<leftarrow> ListPI K;
               (case p of
                  Inl e \<Rightarrow> State_Monad.return (Inl (Wrap ''list ProviderInstruction'' (KubeErr e)))
                | Inr pis \<Rightarrow> do {
                    q \<leftarrow> ListRI K;
                    State_Monad.return (case q of
                       Inl e \<Rightarrow> Inl (Wrap ''list ReservationInstruction'' (KubeErr e))
                     | Inr ris \<Rightarrow> Inr
                         \<lparr>ov_GeneratedAt = now, ov_Namespace = ns, ov_Capacity = tally (chunkSizes Q (s_sizer srv)) cadvs,
                          ov_Advertisements = sort_key as_ClusterID (map (dashboardAdvertisement Q (s_sizer srv)) cadvs),
                          ov_Reservations = sort_key (\<lambda>v. ro_ReservationID (dr_ReservationResponse v)) (map dashboardReservationView resvs),
                          ov_ProviderInstructions = sort_key di_ID (map dashboardViewFromProviderInstruction pis),
                          ov_ReservationInstructions = sort_key di_ID (map dashboardViewFromReservationInstruction ris),
                          ov_Consumers = map consumerView (Snapshot (s_consumers srv))\<rparr>) }) }) }) }"

section \<open>Handlers and routes\<close>

text \<open>\<open>DPage\<close> stands for the embedded page.\<close>

datatype dashboard_answer = DHealth | DOverview Overview | DPage

definition handleOverview :: "quantity_api \<Rightarrow> string \<Rightarrow> Time \<Rightarrow> 'w kube \<Rightarrow> Server \<Rightarrow> ('w, dashboard_answer response) state" where
  "handleOverview Q ns now K srv = do {
     r \<leftarrow> buildOverview Q ns now K srv;
     State_Monad.return (case r of
       Inl _ \<Rightarrow> writeError 500 InternalError (text_msg ''overview read failed'')
     | Inr ov \<Rightarrow> writeJSON 200 (DOverview ov)) }"

text \<open>The path \<^verbatim>\<open>/\<close> is one empty segment.\<close>

definition handleDashboardIndex :: "http_request \<Rightarrow> dashboard_answer served" where
  "handleDashboardIndex r = (if ht_Path r \<noteq> [''''] then PlainText 404 else Reply (writeJSON 200 DPage))"

definition DashboardHandler :: "quantity_api \<Rightarrow> string \<Rightarrow> 'w kube \<Rightarrow> http_request \<Rightarrow> ('w broker, message + dashboard_answer served) state" where
  "DashboardHandler Q ns K r =
    (if \<not> methodMatches GET (ht_Method r) then State_Monad.return (Inr (PlainText 405))
     else if ht_Path r = [''healthz''] then State_Monad.return (Inr (Reply (writeJSON 200 DHealth)))
     else if ht_Path r = [''api'', ''v1'', ''overview''] then
       State (\<lambda>b. case run_state (handleOverview Q ns (ht_Now r) K (bk_Server b)) (bk_World b) of
         (x, w) \<Rightarrow> (Inr (Reply x), b\<lparr>bk_World := w\<rparr>))
     else State_Monad.return (Inr (handleDashboardIndex r)))"

definition DashboardMiddlewareChain :: "('l, 'b, 'a) handler \<Rightarrow> ('l, 'b, 'a) handler" where
  "DashboardMiddlewareChain h = chain h [RecoverMiddleware, RequestIDMiddleware, LoggerMiddleware]"

text \<open>One request of the dashboard listener.\<close>

definition serveDashboard :: "quantity_api \<Rightarrow> string \<Rightarrow> 'w kube \<Rightarrow> ('l, 'w broker, dashboard_answer) handler" where
  "serveDashboard Q ns K r = do {
     _ \<leftarrow> modFront (\<lambda>s. s\<lparr>fr_RequestHeader := ht_RequestID r, fr_ResponseHeader := ''''\<rparr>);
     DashboardMiddlewareChain (onBroker (DashboardHandler Q ns K)) (r\<lparr>ht_ClusterID := ''''\<rparr>) }"

section \<open>What the overview says\<close>

lemma int32_add [simp]: "int32 (int32 a + b) = int32 (a + b)"
  unfolding int32_def by (metis signed_take_bit_add signed_take_bit_signed_take_bit min.idem)

definition ofType :: "string \<Rightarrow> ClusterAdvertisement list \<Rightarrow> ClusterAdvertisement list" where
  "ofType t = filter (\<lambda>a. ca_ClusterType (ca_Spec a) = t)"

text \<open>The chunks of a list of advertisements, in the arithmetic of the counters.\<close>

definition chunkSums :: "ClusterAdvertisement list \<Rightarrow> ChunkTypeCapacity" where
  "chunkSums as = \<lparr>ct_TotalChunks = int32 (\<Sum>a\<leftarrow>as. ca_TotalChunks (ca_Status a)),
     ct_ReservedChunks = int32 (\<Sum>a\<leftarrow>as. ca_ReservedChunks (ca_Status a)),
     ct_AvailableChunks = int32 (\<Sum>a\<leftarrow>as. ca_AvailableChunks (ca_Status a))\<rparr>"

definition tallied :: "ClusterAdvertisement list \<Rightarrow> CapacitySummary \<Rightarrow> bool" where
  "tallied as cap \<longleftrightarrow> cy_ProviderCount cap = length as \<and>
     cy_AvailableProviderCount cap = length (filter (\<lambda>a. ca_Available (ca_Status a)) as) \<and>
     \<lparr>ct_TotalChunks = cy_TotalChunks cap, ct_ReservedChunks = cy_ReservedChunks cap, ct_AvailableChunks = cy_AvailableChunks cap\<rparr> = chunkSums as \<and>
     map_of (cy_ByChunkType cap) = (\<lambda>t. if ofType t as = [] then None else Some (chunkSums (ofType t as)))"

lemma addChunks_sums: "addChunks (ca_Status a) (chunkSums as) = chunkSums (as @ [a])"
  by (simp add: addChunks_def chunkSums_def)

lemma chunkSums_Nil [simp]: "chunkSums [] = zero_ChunkTypeCapacity"
  by (simp add: chunkSums_def zero_ChunkTypeCapacity_def int32_id)

lemma tallyStep_tallied:
  assumes "tallied as cap"
  shows "tallied (as @ [a]) (tallyStep a cap)"
proof -
  let ?key = "ca_ClusterType (ca_Spec a)"
  have "(case map_of (cy_ByChunkType cap) ?key of Some b \<Rightarrow> b | None \<Rightarrow> zero_ChunkTypeCapacity) = chunkSums (ofType ?key as)"
    using assms by (simp add: tallied_def)
  then have "map_of (cy_ByChunkType (tallyStep a cap)) = (map_of (cy_ByChunkType cap))(?key \<mapsto> chunkSums (ofType ?key (as @ [a])))"
    by (simp add: tallyStep_def Let_def update_conv' addChunks_sums ofType_def)
  with assms show ?thesis
    by (auto simp: tallied_def tallyStep_def Let_def chunkSums_def ofType_def fun_eq_iff)
qed

lemma tally_tallied: "tallied as (tally sizes as)"
proof (induction as rule: rev_induct)
  case Nil
  then show ?case by (auto simp: tallied_def tally_def ofType_def zero_ChunkTypeCapacity_def)
next
  case (snoc a as)
  then show ?case using tallyStep_tallied by (simp add: tally_def)
qed

text \<open>The overview shows what is stored: every advertisement counted once, every reservation and every instruction.\<close>

definition shows_store :: "store \<Rightarrow> Overview \<Rightarrow> bool" where
  "shows_store st ov \<longleftrightarrow>
    (\<exists>as. distinct (map (\<lambda>a. m_Name (ca_Meta a)) as) \<and> (\<forall>a. a \<in> set as \<longleftrightarrow> adv_at st (m_Name (ca_Meta a)) = Some a) \<and>
       tallied as (ov_Capacity ov) \<and> mset (map as_ClusterID (ov_Advertisements ov)) = mset (map (\<lambda>a. ca_ClusterID (ca_Spec a)) as)) \<and>
    set (map (\<lambda>v. ro_ReservationID (dr_ReservationResponse v)) (ov_Reservations ov)) = {n. resv_at st n \<noteq> None} \<and>
    set (map di_ID (ov_ProviderInstructions ov)) = {n. pi_at st n \<noteq> None} \<and>
    set (map di_ID (ov_ReservationInstructions ov)) = {n. ri_at st n \<noteq> None}"

lemma view_names [simp]:
  "ro_ReservationID (dr_ReservationResponse (dashboardReservationView r)) = m_Name (rs_Meta r)"
  "di_ID (dashboardViewFromProviderInstruction p) = m_Name (pi_Meta p)"
  "di_ID (dashboardViewFromReservationInstruction q) = m_Name (ri_Meta q)"
  "as_ClusterID (dashboardAdvertisement Q sizer a) = ca_ClusterID (ca_Spec a)"
  by (simp_all add: dashboardReservationView_def reservationResponseFromCR_def dashboardViewFromProviderInstruction_def
    dashboardViewFromReservationInstruction_def dashboardAdvertisement_def advertisementSnapshotFromCR_def split: prod.split)

context kube_kind
begin

lemma listed_names:
  assumes "\<And>x. x \<in> set xs \<longleftrightarrow> look (objs w) (m_Name (meta x)) = Some x"
  shows "(\<lambda>x. m_Name (meta x)) ` set xs = {n. look (objs w) n \<noteq> None}"
proof (intro subset_antisym subsetI)
  fix n assume "n \<in> {n. look (objs w) n \<noteq> None}"
  then obtain x where "look (objs w) n = Some x" by blast
  with look_name [OF this] assms [of x] show "n \<in> (\<lambda>x. m_Name (meta x)) ` set xs" by blast
qed (use assms in auto)

end

context kube_api
begin

lemma wp_buildOverview:
  "wp (buildOverview Q ns now K srv) (\<lambda>r w'. objs w' = objs w \<and> (\<forall>ov. r = Inr ov \<longrightarrow> shows_store (objs w) ov)) w"
proof -
  have shown: "shows_store (objs w) \<lparr>ov_GeneratedAt = now, ov_Namespace = ns, ov_Capacity = tally sizes cadvs,
      ov_Advertisements = sort_key as_ClusterID (map (dashboardAdvertisement Q (s_sizer srv)) cadvs),
      ov_Reservations = sort_key (\<lambda>v. ro_ReservationID (dr_ReservationResponse v)) (map dashboardReservationView resvs),
      ov_ProviderInstructions = sort_key di_ID (map dashboardViewFromProviderInstruction pis),
      ov_ReservationInstructions = sort_key di_ID (map dashboardViewFromReservationInstruction ris), ov_Consumers = cs\<rparr>"
    if "distinct (map (\<lambda>a. m_Name (ca_Meta a)) cadvs)" "\<And>a. a \<in> set cadvs \<longleftrightarrow> adv_at (objs w) (m_Name (ca_Meta a)) = Some a"
      and "\<And>x. x \<in> set resvs \<longleftrightarrow> resv_at (objs w) (m_Name (rs_Meta x)) = Some x"
      and "\<And>x. x \<in> set pis \<longleftrightarrow> pi_at (objs w) (m_Name (pi_Meta x)) = Some x"
      and "\<And>x. x \<in> set ris \<longleftrightarrow> ri_at (objs w) (m_Name (ri_Meta x)) = Some x"
    for sizes cadvs resvs pis ris cs
    unfolding shows_store_def
    using that(1,2) resv.listed_names [OF that(3)] pi.listed_names [OF that(4)] ri.listed_names [OF that(5)] tally_tallied [of cadvs sizes]
    by (auto simp: image_image comp_def image_mset.compositionality intro!: exI [of _ cadvs])
  show ?thesis
    unfolding buildOverview_def wp_bind
    by (rule adv.wp_list; simp)
      (rule resv.wp_list; simp; rule pi.wp_list; simp; rule ri.wp_list; simp add: shown)
qed

end

lemma serveDashboard_run:
  assumes "run_state (serveDashboard Q ns K r) s = (x, s')"
  shows "fr_Limiters s' = fr_Limiters s \<and> (\<exists>b y. run_state (DashboardHandler Q ns K (r\<lparr>ht_ClusterID := ''''\<rparr>)) (fr_Broker s) = (y, b) \<and>
    fr_Broker s' = b \<and> x = Inr (recovered y))"
  using assms
  by (auto simp: serveDashboard_def DashboardMiddlewareChain_def RecoverMiddleware_def RequestIDMiddleware_def LoggerMiddleware_def
    onBroker_def recovered_def Let_def split: prod.splits sum.splits)

text \<open>
  C27. The dashboard only reads. Whatever request reaches its listener, which asks for no certificate, the stored
  objects, the consumer registry and the rate limiters are as before. An overview it answers with counts every stored
  advertisement once, in the totals and in the row of its chunk type, and lists every stored reservation and
  instruction.
\<close>

theorem dashboard_read_only:
  assumes "kube_api K objs" and "run_state (serveDashboard Q ns K r) s = (x, s')"
  shows "objs (bk_World (fr_Broker s')) = objs (bk_World (fr_Broker s)) \<and> bk_Server (fr_Broker s') = bk_Server (fr_Broker s) \<and>
    fr_Limiters s' = fr_Limiters s \<and>
    (\<forall>ov. x = Inr (Reply (writeJSON 200 (DOverview ov))) \<longrightarrow> shows_store (objs (bk_World (fr_Broker s))) ov)"
proof -
  obtain y b where h: "run_state (DashboardHandler Q ns K (r\<lparr>ht_ClusterID := ''''\<rparr>)) (fr_Broker s) = (y, b)" "fr_Broker s' = b"
      "x = Inr (recovered y)" "fr_Limiters s' = fr_Limiters s"
    using serveDashboard_run [OF assms(2)] by blast
  obtain o' w' where o: "run_state (buildOverview Q ns (ht_Now r) K (bk_Server (fr_Broker s))) (bk_World (fr_Broker s)) = (o', w')" by fastforce
  from wp_run [OF kube_api.wp_buildOverview [OF assms(1)] o] h o show ?thesis
    by (auto simp: DashboardHandler_def handleOverview_def handleDashboardIndex_def recovered_def split: if_splits sum.splits)
qed

theorem dashboard_read_only_witness:
  "mem_lookup (bk_World (fr_Broker (snd (run_state (serveDashboard exactQ ''ns'' memK (exampleHttp\<lparr>ht_Path := [''api'', ''v1'', ''overview'']\<rparr>))
     (idleFront exampleBroker))))) = mem_lookup oneProvider"
  using dashboard_read_only [OF mem.kube_api_axioms surjective_pairing, of exactQ "''ns''"
      "exampleHttp\<lparr>ht_Path := [''api'', ''v1'', ''overview'']\<rparr>" "idleFront exampleBroker"]
  by (simp add: idleFront_def exampleBroker_def)

end
