(* ===== verification/Console.thy ===== *)
theory Console
  imports ProviderAgent RequestController Middleware
begin

text \<open>
  The agent's configuration console (\<^verbatim>\<open>internal/agent/console\<close>): the routes and handlers by which an operator reads
  and changes the settings of a cluster. The API server of the cluster is a parameter, with the locale \<open>console_api\<close>
  as its contract. The YAML decoders, the quantity parser, Go's quoting, the embedded manifest and the services that
  tell the location are arguments; the pages are constant answers, and the listener is not modelled.
\<close>

section \<open>Objects and the client\<close>

record ConfigMap =
  cm_Name :: string
  cm_Data :: "(string \<times> string) list"

text \<open>A request with its labels, which no other component reads.\<close>

record LabelledRequest =
  lr_Labels :: "(string \<times> string) list"
  lr_Request :: ResourceRequest

text \<open>Of a Deployment: where it is, its replicas and the resources of its first container, if it has one.\<close>

record Deployment =
  dp_Namespace :: string
  dp_Name :: string
  dp_Replicas :: "int option"
  dp_Container :: "(ResourceList \<times> ResourceList) option"

datatype console_kind = ConfigMapKind | PolicyKind | RequestKind | DeploymentKind

datatype console_object =
    OConfigMap ConfigMap
  | OPolicy ConsumerPolicy
  | ORequest LabelledRequest
  | ODeployment Deployment

text \<open>Kind, namespace and name.\<close>

type_synonym console_key = "console_kind \<times> string \<times> string"

text \<open>\<open>cl_Generate\<close> creates an object under a fresh name with the given prefix.\<close>

record 'w console_client =
  cl_Get :: "console_key \<Rightarrow> ('w, kerr + console_object) state"
  cl_ListRequests :: "string \<Rightarrow> string \<times> string \<Rightarrow> ('w, kerr + LabelledRequest list) state"
  cl_Create :: "console_key \<Rightarrow> console_object \<Rightarrow> ('w, kerr + unit) state"
  cl_Generate :: "console_kind \<times> string \<Rightarrow> string \<Rightarrow> console_object \<Rightarrow> ('w, kerr + unit) state"
  cl_Update :: "console_key \<Rightarrow> console_object \<Rightarrow> ('w, kerr + unit) state"
  cl_Delete :: "console_key \<Rightarrow> ('w, kerr + unit) state"

record 'w console_env = "'w console_client" +
  cx_GetNode :: "string \<Rightarrow> ('w, kerr + (string \<times> string) list) state"
  cx_Geo :: "string \<Rightarrow> string \<Rightarrow> ('w, geoResponse fetched) state"
  cx_Clock :: "('w, Time) state"
  cx_ParseQuantity :: "string \<Rightarrow> message + Quantity"
  cx_QuantityString :: "Quantity \<Rightarrow> string"
  cx_Quote :: "string \<Rightarrow> string"
  cx_YamlValues :: "string \<Rightarrow> message + (string \<times> string option) list"
  cx_RenewableYaml :: "string \<Rightarrow> message + bool"
  cx_Workload :: "message + Deployment"
  cx_Prober :: "(Candidate list \<Rightarrow> ('w, ProbeResult) state) option"

section \<open>The server (server.go)\<close>

abbreviation RoleConsumer :: string where "RoleConsumer \<equiv> ''consumer''"
abbreviation RoleProvider :: string where "RoleProvider \<equiv> ''provider''"

abbreviation pricesConfigMap :: string where "pricesConfigMap \<equiv> ''agent-prices''"
abbreviation pricesKey :: string where "pricesKey \<equiv> ''prices.yaml''"
abbreviation capacityConfigMap :: string where "capacityConfigMap \<equiv> ''agent-capacity''"
abbreviation capacityKey :: string where "capacityKey \<equiv> ''capacity.yaml''"
abbreviation renewableConfigMap :: string where "renewableConfigMap \<equiv> ''agent-renewable''"
abbreviation renewableKey :: string where "renewableKey \<equiv> ''renewable.yaml''"
abbreviation consumerPolicyName :: string where "consumerPolicyName \<equiv> ''default''"

definition consoleManaged :: "string \<times> string" where
  "consoleManaged = (''federation-autoscaler.io/console'', ''manual-reservation'')"

record ConsoleOptions =
  cp_Role :: string
  cp_BindAddress :: string
  cp_HasClient :: bool
  cp_Namespace :: string
  cp_ClusterID :: string
  cp_LiqoClusterID :: string
  cp_NodeName :: string
  cp_AdvertisedIP :: string
  cp_MockGeoURL :: string
  cp_ShutdownTimeout :: Duration

record ConsoleServer =
  co_role :: string
  co_bind :: string
  co_ns :: string
  co_clusterID :: string
  co_liqoClusterID :: string
  co_nodeName :: string
  co_advertisedIP :: string
  co_mockGeoURL :: string
  co_geoCache :: geoCache
  co_shutdown :: Duration

definition NewConsole :: "ConsoleOptions \<Rightarrow> message + ConsoleServer" where
  "NewConsole opts =
    (if cp_Role opts \<noteq> RoleConsumer \<and> cp_Role opts \<noteq> RoleProvider then
       Inl (Sprintf ''console: Role must be %q or %q, got %q'' [AStr RoleConsumer, AStr RoleProvider, AStr (cp_Role opts)])
     else if cp_BindAddress opts = '''' then Inl (text_msg ''console: BindAddress is required'')
     else if \<not> cp_HasClient opts then Inl (text_msg ''console: LocalClient is required'')
     else Inr \<lparr>co_role = cp_Role opts, co_bind = cp_BindAddress opts,
       co_ns = (if cp_Namespace opts = '''' then ''federation-autoscaler-system'' else cp_Namespace opts),
       co_clusterID = cp_ClusterID opts, co_liqoClusterID = cp_LiqoClusterID opts, co_nodeName = cp_NodeName opts,
       co_advertisedIP = cp_AdvertisedIP opts, co_mockGeoURL = cp_MockGeoURL opts, co_geoCache = [],
       co_shutdown = (if cp_ShutdownTimeout opts \<le> 0 then 5 * 10 ^ 9 else cp_ShutdownTimeout opts)\<rparr>)"

section \<open>What the console shows (state.go, workload.go)\<close>

record discoveredLocation =
  dl_IP :: string
  dl_Source :: string
  dl_Region :: string
  dl_City :: string
  dl_Country :: string
  dl_Lat :: real
  dl_Lon :: real

record manualReservationInfo =
  mi_Name :: string
  mi_Phase :: ResourceRequestPhase
  mi_Provider :: string
  mi_Chunks :: int
  mi_Message :: message
  mi_CPU :: string
  mi_Memory :: string
  mi_GPU :: string

record workloadInfo =
  wi_Present :: bool
  wi_Replicas :: int
  wi_Requests :: "(string \<times> string) list"
  wi_Limits :: "(string \<times> string) list"

record consumerState =
  ks_Role :: string
  ks_ClusterID :: string
  ks_LiqoClusterID :: string
  ks_Policy :: string
  ks_UserPrompt :: string
  ks_Location :: "discoveredLocation option"
  ks_Workload :: workloadInfo
  ks_ManualReservations :: "manualReservationInfo list"

record providerState =
  vs_Role :: string
  vs_ClusterID :: string
  vs_LiqoClusterID :: string
  vs_Prices :: "(string \<times> string) list"
  vs_Location :: "discoveredLocation option"
  vs_Capacity :: "(string \<times> string) list"
  vs_Renewable :: bool

definition staticWorkloadInfo :: "'w console_env \<Rightarrow> message + workloadInfo" where
  "staticWorkloadInfo E = (case cx_Workload E of
     Inl e \<Rightarrow> Inl e
   | Inr dep \<Rightarrow>
      (let asText = map (\<lambda>(k, q). (k, cx_QuantityString E q))
       in Inr \<lparr>wi_Present = False, wi_Replicas = (case dp_Replicas dep of Some n \<Rightarrow> n | None \<Rightarrow> 0),
           wi_Requests = (case dp_Container dep of Some (requests, limits) \<Rightarrow> asText requests | None \<Rightarrow> []),
           wi_Limits = (case dp_Container dep of Some (requests, limits) \<Rightarrow> asText limits | None \<Rightarrow> [])\<rparr>))"

definition workloadPresent :: "'w console_env \<Rightarrow> ('w, bool) state" where
  "workloadPresent E = do {
     r \<leftarrow> cl_Get E (DeploymentKind, ''default'', ''federation-demo'');
     State_Monad.return (case r of Inl _ \<Rightarrow> False | Inr _ \<Rightarrow> True) }"

text \<open>A missing ConfigMap, a failed read and a missing key all read as the empty text.\<close>

definition readConfigMapKey :: "'w console_env \<Rightarrow> ConsoleServer \<Rightarrow> string \<Rightarrow> string \<Rightarrow> ('w, string) state" where
  "readConfigMapKey E s name key = do {
     r \<leftarrow> cl_Get E (ConfigMapKind, co_ns s, name);
     State_Monad.return (case r of
       Inr (OConfigMap cm) \<Rightarrow> (case map_of (cm_Data cm) key of Some v \<Rightarrow> v | None \<Rightarrow> '''')
     | _ \<Rightarrow> '''') }"

text \<open>\<^verbatim>\<open>readPrices\<close> and \<^verbatim>\<open>readCapacity\<close> differ in the ConfigMap they read.\<close>

definition readValues :: "'w console_env \<Rightarrow> ConsoleServer \<Rightarrow> string \<Rightarrow> string \<Rightarrow> ('w, (string \<times> string) list) state" where
  "readValues E s name key = do {
     raw \<leftarrow> readConfigMapKey E s name key;
     State_Monad.return (if raw = '''' then []
       else case cx_YamlValues E raw of
         Inl _ \<Rightarrow> []
       | Inr values \<Rightarrow> List.map_filter (\<lambda>k. case map_of values k of
           Some (Some v) \<Rightarrow> Some (k, trimSpace v) | _ \<Rightarrow> None) [''cpu'', ''memory'']) }"

definition readPrices :: "'w console_env \<Rightarrow> ConsoleServer \<Rightarrow> ('w, (string \<times> string) list) state" where
  "readPrices E s = readValues E s pricesConfigMap pricesKey"

definition readCapacity :: "'w console_env \<Rightarrow> ConsoleServer \<Rightarrow> ('w, (string \<times> string) list) state" where
  "readCapacity E s = readValues E s capacityConfigMap capacityKey"

definition readRenewable :: "'w console_env \<Rightarrow> ConsoleServer \<Rightarrow> ('w, bool) state" where
  "readRenewable E s = do {
     raw \<leftarrow> readConfigMapKey E s renewableConfigMap renewableKey;
     State_Monad.return (if raw = '''' then False else case cx_RenewableYaml E raw of Inl _ \<Rightarrow> False | Inr b \<Rightarrow> b) }"

definition readPolicyAndPrompt :: "'w console_env \<Rightarrow> ConsoleServer \<Rightarrow> ('w, string \<times> string) state" where
  "readPolicyAndPrompt E s = do {
     r \<leftarrow> cl_Get E (PolicyKind, co_ns s, consumerPolicyName);
     State_Monad.return (case r of
       Inr (OPolicy cp) \<Rightarrow> (pp_Type (cp_Placement (cp_Spec cp)), cp_UserPrompt (cp_Spec cp))
     | _ \<Rightarrow> ('''', '''')) }"

definition manualReservationOf :: "'w console_env \<Rightarrow> LabelledRequest \<Rightarrow> manualReservationInfo" where
  "manualReservationOf E l =
    (let rr = lr_Request l; text = (\<lambda>k. case map_of (mr_Resources (mr_Spec rr)) k of Some q \<Rightarrow> cx_QuantityString E q | None \<Rightarrow> '''')
     in \<lparr>mi_Name = m_Name (mr_Meta rr), mi_Phase = mr_Phase (mr_Status rr), mi_Provider = mr_ProviderClusterID (mr_Status rr),
         mi_Chunks = mr_ChunkCount (mr_Status rr), mi_Message = mr_Message (mr_Status rr), mi_CPU = text ResourceCPU,
         mi_Memory = text ResourceMemory, mi_GPU = text ''nvidia.com/gpu''\<rparr>)"

definition listManualReservations :: "'w console_env \<Rightarrow> ConsoleServer \<Rightarrow> ('w, manualReservationInfo list) state" where
  "listManualReservations E s = do {
     r \<leftarrow> cl_ListRequests E (co_ns s) consoleManaged;
     State_Monad.return (case r of Inl _ \<Rightarrow> [] | Inr items \<Rightarrow> sort_key mi_Name (map (manualReservationOf E) items)) }"

definition discoverLocation :: "'w console_env \<Rightarrow> ConsoleServer \<Rightarrow> ('w, discoveredLocation option \<times> ConsoleServer) state" where
  "discoverLocation E s = do {
     r \<leftarrow> ResolveIP (Some (cx_GetNode E)) (co_nodeName s) (co_advertisedIP s);
     (case r of
        Inl _ \<Rightarrow> State_Monad.return (None, s)
      | Inr ip \<Rightarrow>
          if ip = '''' then State_Monad.return (None, s)
          else do {
            let dl = \<lparr>dl_IP = ip, dl_Source = (if co_advertisedIP s \<noteq> '''' then ''advertised-ip'' else ''node''), dl_Region = '''', dl_City = '''',
              dl_Country = '''', dl_Lat = 0, dl_Lon = 0\<rparr>;
            (g, cache) \<leftarrow> geoLookup (cx_Geo E) (co_mockGeoURL s) ip (co_geoCache s);
            State_Monad.return (Some (case g of
                Inr (Some loc) \<Rightarrow> dl\<lparr>dl_Region := ge_Region loc, dl_City := ge_City loc, dl_Country := ge_CountryCode loc,
                  dl_Lat := ge_Lat loc, dl_Lon := ge_Lon loc\<rparr>
              | _ \<Rightarrow> dl), s\<lparr>co_geoCache := cache\<rparr>) }) }"

text \<open>The answers of the console; \<open>CPage\<close> is the page of a role, \<open>CPlain\<close> a plain text of \<^verbatim>\<open>ServeMux\<close>.\<close>

datatype console_answer =
    CError nat message | COk | CHealth | CPage string | CPlain nat
  | CConsumer consumerState | CProvider providerState
  | CProbe string "(string \<times> real) list" real

definition handleState :: "'w console_env \<Rightarrow> ConsoleServer \<Rightarrow> ('w, console_answer \<times> ConsoleServer) state" where
  "handleState E s = do {
     (location, s) \<leftarrow> discoverLocation E s;
     (if co_role s = RoleConsumer then
        (case staticWorkloadInfo E of
           Inl err \<Rightarrow> State_Monad.return (CError 500 (Sprintf ''decode embedded workload: %s'' [AMsg err]), s)
         | Inr info \<Rightarrow> do {
             present \<leftarrow> workloadPresent E;
             (policy, userPrompt) \<leftarrow> readPolicyAndPrompt E s;
             reservations \<leftarrow> listManualReservations E s;
             State_Monad.return (CConsumer \<lparr>ks_Role = RoleConsumer, ks_ClusterID = co_clusterID s, ks_LiqoClusterID = co_liqoClusterID s,
               ks_Policy = policy, ks_UserPrompt = userPrompt, ks_Location = location, ks_Workload = info\<lparr>wi_Present := present\<rparr>,
               ks_ManualReservations = reservations\<rparr>, s) })
      else do {
        prices \<leftarrow> readPrices E s;
        capacity \<leftarrow> readCapacity E s;
        renewable \<leftarrow> readRenewable E s;
        State_Monad.return (CProvider \<lparr>vs_Role = RoleProvider, vs_ClusterID = co_clusterID s, vs_LiqoClusterID = co_liqoClusterID s,
          vs_Prices = prices, vs_Location = location, vs_Capacity = capacity, vs_Renewable = renewable\<rparr>, s) }) }"

section \<open>Writing\<close>

definition upsertConfigMap :: "'w console_env \<Rightarrow> ConsoleServer \<Rightarrow> string \<Rightarrow> string \<Rightarrow> string \<Rightarrow> ('w, kerr + unit) state" where
  "upsertConfigMap E s name key val =
    (let k = (ConfigMapKind, co_ns s, name)
     in do {
       r \<leftarrow> cl_Get E k;
       (case r of
          Inl e \<Rightarrow> if e = KNotFound then cl_Create E k (OConfigMap \<lparr>cm_Name = name, cm_Data = [(key, val)]\<rparr>)
                   else State_Monad.return (Inl e)
        | Inr (OConfigMap cm) \<Rightarrow> cl_Update E k (OConfigMap (cm\<lparr>cm_Data := AList.update key val (cm_Data cm)\<rparr>))
        | Inr _ \<Rightarrow> State_Monad.return (Inl (KOther ''kind''))) })"

definition upsertConsumerPolicy :: "'w console_env \<Rightarrow> ConsoleServer \<Rightarrow> PlacementStrategy \<Rightarrow> string \<Rightarrow> ('w, kerr + unit) state" where
  "upsertConsumerPolicy E s t userPrompt =
    (let k = (PolicyKind, co_ns s, consumerPolicyName)
     in do {
       r \<leftarrow> cl_Get E k;
       (case r of
          Inl e \<Rightarrow> if e = KNotFound then cl_Create E k (OPolicy \<lparr>cp_Name = consumerPolicyName,
                     cp_Spec = zero_ConsumerPolicySpec\<lparr>cp_Placement := \<lparr>pp_Type = t\<rparr>, cp_UserPrompt := userPrompt\<rparr>\<rparr>)
                   else State_Monad.return (Inl e)
        | Inr (OPolicy cp) \<Rightarrow> cl_Update E k (OPolicy (cp\<lparr>cp_Spec := (cp_Spec cp)\<lparr>cp_Placement := (cp_Placement (cp_Spec cp))\<lparr>pp_Type := t\<rparr>,
            cp_UserPrompt := userPrompt\<rparr>\<rparr>))
        | Inr _ \<Rightarrow> State_Monad.return (Inl (KOther ''kind''))) })"

definition deleteConsumerPolicy :: "'w console_env \<Rightarrow> ConsoleServer \<Rightarrow> ('w, kerr + unit) state" where
  "deleteConsumerPolicy E s = do {
     r \<leftarrow> cl_Delete E (PolicyKind, co_ns s, consumerPolicyName);
     State_Monad.return (if r = Inl KNotFound then Inr () else r) }"

definition createManualReservation :: "'w console_env \<Rightarrow> ConsoleServer \<Rightarrow> ResourceList \<Rightarrow> string \<Rightarrow> int \<Rightarrow> ('w, kerr + unit) state" where
  "createManualReservation E s res duration priority =
     cl_Generate E (RequestKind, co_ns s) ''manual-res-'' (ORequest \<lparr>lr_Labels = [consoleManaged],
       lr_Request = \<lparr>mr_Meta = named_meta '''', mr_UID = '''',
         mr_Spec = \<lparr>mr_Resources = res, mr_Duration = duration, mr_Priority = priority, mr_LatencyBound = None\<rparr>,
         mr_Status = \<lparr>mr_Phase = RRNone, mr_ReservationID = '''', mr_ProviderClusterID = '''', mr_ChunkCount = 0, mr_MigrationCount = 0,
           mr_Message = text_msg '''', mr_LastTransitionTime = None\<rparr>\<rparr>\<rparr>)"

definition releaseManualReservation :: "'w console_env \<Rightarrow> ConsoleServer \<Rightarrow> string \<Rightarrow> ('w, message + unit) state" where
  "releaseManualReservation E s name =
    (let k = (RequestKind, co_ns s, name); text = map_sum kubeMessage id
     in do {
       r \<leftarrow> cl_Get E k;
       (case r of
          Inl e \<Rightarrow> State_Monad.return (if e = KNotFound then Inr () else Inl (kubeMessage e))
        | Inr (ORequest l) \<Rightarrow>
            if map_of (lr_Labels l) (fst consoleManaged) \<noteq> Some (snd consoleManaged) then
              State_Monad.return (Inl (Sprintf ''reservation %q is not managed by the console'' [AStr name]))
            else do { d \<leftarrow> cl_Delete E k; State_Monad.return (text d) }
        | Inr _ \<Rightarrow> State_Monad.return (Inl (kubeMessage (KOther ''kind'')))) })"

definition joinLines :: "string list \<Rightarrow> string" where
  "joinLines ls = (if ls = [] then '''' else concat (map (\<lambda>l. l @ ''\<newline>'') ls))"

definition clampPercent :: "int \<Rightarrow> int" where
  "clampPercent v = (if v < 0 then 0 else if v > 100 then 100 else v)"

text \<open>\<open>None\<close>: not a percentage. \<open>Some None\<close>: a percentage that is no number.\<close>

definition parseCapacityPercent :: "string \<Rightarrow> int option option" where
  "parseCapacityPercent val = (case cutPercent val of
     Some t \<Rightarrow> Some (atoi (trimSpace t))
   | None \<Rightarrow> (case atoi val of Some n \<Rightarrow> Some (Some n) | None \<Rightarrow> None))"

text \<open>The error of \<^verbatim>\<open>strconv.Atoi\<close> stands as the text it was given.\<close>

definition capacityLine :: "'w console_env \<Rightarrow> string \<Rightarrow> string \<Rightarrow> message + string" where
  "capacityLine E name val = (case parseCapacityPercent val of
     Some (Some pct) \<Rightarrow> Inr (name @ '': '' @ itoa (clampPercent pct))
   | Some None \<Rightarrow> Inl (Sprintf ''invalid %s percentage %q: %v'' [AStr name, AStr val, AStr val])
   | None \<Rightarrow> (case cx_ParseQuantity E val of
       Inl _ \<Rightarrow> Inl (Sprintf ''invalid %s capacity %q: not a percentage (e.g. 80 or \"80%%\") or a Kubernetes quantity (e.g. \"8Gi\")''
         [AStr name, AStr val])
     | Inr _ \<Rightarrow> Inr (name @ '': '' @ cx_Quote E val)))"

text \<open>The loops of the two settings forms: an empty field is skipped, the first invalid one ends the request.\<close>

fun linesOf :: "(string \<Rightarrow> string \<Rightarrow> message + string) \<Rightarrow> (string \<times> string) list \<Rightarrow> message + string list" where
  "linesOf toLine [] = Inr []"
| "linesOf toLine ((name, val) # kvs) =
    (if val = '''' then linesOf toLine kvs
     else case toLine name val of
       Inl e \<Rightarrow> Inl e
     | Inr line \<Rightarrow> map_sum id ((#) line) (linesOf toLine kvs))"

definition priceLine :: "'w console_env \<Rightarrow> string \<Rightarrow> string \<Rightarrow> message + string" where
  "priceLine E name val = (case cx_ParseQuantity E val of
     Inl e \<Rightarrow> Inl (Sprintf ''invalid %s price %q: %v'' [AStr name, AStr val, AMsg e])
   | Inr _ \<Rightarrow> Inr (name @ '': '' @ cx_Quote E val))"

section \<open>Handlers\<close>

record policyBody =
  plb_Type :: string
  plb_UserPrompt :: string

record reservationBody =
  rvb_Action :: string
  rvb_Name :: string
  rvb_CPU :: string
  rvb_Memory :: string
  rvb_GPU :: string
  rvb_Duration :: string
  rvb_Priority :: int

record settingsBody =
  stb_CPU :: string
  stb_Memory :: string

text \<open>What the JSON decoder makes of a body for each of the expected types.\<close>

record console_body =
  cb_Policy :: "message + policyBody"
  cb_Action :: "message + string"
  cb_Reservation :: "message + reservationBody"
  cb_Candidates :: "message + Candidate list"
  cb_Settings :: "message + settingsBody"
  cb_Renewable :: "message + bool"

definition undecoded :: "message \<Rightarrow> console_answer" where
  "undecoded err = CError 400 (Sprintf ''decode body: %s'' [AMsg err])"

text \<open>The end of a handler that writes: 500 with the error of the write, or the answer \<^verbatim>\<open>ok\<close>.\<close>

definition afterWrite :: "string \<Rightarrow> message + unit \<Rightarrow> console_answer" where
  "afterWrite what r = (case r of Inl e \<Rightarrow> CError 500 (Sprintf what [AMsg e]) | Inr _ \<Rightarrow> COk)"

abbreviation kubeText :: "kerr + unit \<Rightarrow> message + unit" where
  "kubeText \<equiv> map_sum kubeMessage id"

definition handlePolicy :: "'w console_env \<Rightarrow> ConsoleServer \<Rightarrow> message + policyBody \<Rightarrow> ('w, console_answer) state" where
  "handlePolicy E s body =
    (if co_role s \<noteq> RoleConsumer then State_Monad.return (CError 405 (text_msg ''policy is a consumer-only setting''))
     else case body of
       Inl err \<Rightarrow> State_Monad.return (undecoded err)
     | Inr b \<Rightarrow>
         if plb_Type b \<in> {'''', ''None''} then do {
           r \<leftarrow> deleteConsumerPolicy E s; State_Monad.return (afterWrite ''delete ConsumerPolicy: %s'' (kubeText r)) }
         else if plb_Type b \<in> {PlacementStrategyPrice, PlacementStrategyEco, PlacementStrategyLatency, PlacementStrategyConsumerChoice,
             PlacementStrategyRandom} then do {
           r \<leftarrow> upsertConsumerPolicy E s (plb_Type b) (plb_UserPrompt b); State_Monad.return (afterWrite ''write ConsumerPolicy: %s'' (kubeText r)) }
         else State_Monad.return (CError 400 (Sprintf ''unknown policy type %q'' [AStr (plb_Type b)])))"

definition unknownAction :: "string \<Rightarrow> console_answer" where
  "unknownAction a = CError 400 (Sprintf ''unknown action %q (want apply|delete)'' [AStr a])"

definition handleWorkload :: "'w console_env \<Rightarrow> ConsoleServer \<Rightarrow> message + string \<Rightarrow> ('w, console_answer) state" where
  "handleWorkload E s body =
    (if co_role s \<noteq> RoleConsumer then State_Monad.return (CError 405 (text_msg ''workload is a consumer-only control''))
     else case body of
       Inl err \<Rightarrow> State_Monad.return (undecoded err)
     | Inr action \<Rightarrow>
        (case cx_Workload E of
           Inl err \<Rightarrow> State_Monad.return (CError 500 (Sprintf ''decode embedded workload: %s'' [AMsg err]))
         | Inr dep \<Rightarrow>
            (let k = (DeploymentKind, dp_Namespace dep, dp_Name dep)
             in if action = ''apply'' then do {
                  r \<leftarrow> cl_Create E k (ODeployment dep);
                  State_Monad.return (afterWrite ''apply workload: %s'' (kubeText (if r = Inl KAlreadyExists then Inr () else r))) }
                else if action = ''delete'' then do {
                  r \<leftarrow> cl_Delete E k;
                  State_Monad.return (afterWrite ''delete workload: %s'' (kubeText (if r = Inl KNotFound then Inr () else r))) }
                else State_Monad.return (unknownAction action))))"

fun requestedResources :: "'w console_env \<Rightarrow> (string \<times> string) list \<Rightarrow> message + ResourceList" where
  "requestedResources E [] = Inr []"
| "requestedResources E ((name, val) # kvs) =
    (let v = trimSpace val
     in if v = '''' then requestedResources E kvs
        else case cx_ParseQuantity E v of
          Inl err \<Rightarrow> Inl (Sprintf ''invalid %s quantity %q: %v'' [AStr name, AStr v, AMsg err])
        | Inr q \<Rightarrow> map_sum id ((#) (name, q)) (requestedResources E kvs))"

definition handleReservation :: "'w console_env \<Rightarrow> ConsoleServer \<Rightarrow> message + reservationBody \<Rightarrow> ('w, console_answer) state" where
  "handleReservation E s body =
    (if co_role s \<noteq> RoleConsumer then State_Monad.return (CError 405 (text_msg ''manual reservation is a consumer-only action''))
     else case body of
       Inl err \<Rightarrow> State_Monad.return (undecoded err)
     | Inr b \<Rightarrow>
         if rvb_Action b = ''apply'' then
           (case requestedResources E [(ResourceCPU, rvb_CPU b), (ResourceMemory, rvb_Memory b), (''nvidia.com/gpu'', rvb_GPU b)] of
              Inl err \<Rightarrow> State_Monad.return (CError 400 err)
            | Inr res \<Rightarrow>
                if res = [] then State_Monad.return (CError 400 (text_msg ''at least one of cpu/memory/gpu is required''))
                else do {
                  r \<leftarrow> createManualReservation E s res (trimSpace (rvb_Duration b)) (rvb_Priority b);
                  State_Monad.return (afterWrite ''apply reservation: %s'' (kubeText r)) })
         else if rvb_Action b = ''delete'' then
           (let name = trimSpace (rvb_Name b)
            in if name = '''' then State_Monad.return (CError 400 (text_msg ''name is required to release a reservation''))
               else do { r \<leftarrow> releaseManualReservation E s name; State_Monad.return (afterWrite ''release reservation: %s'' r) })
         else State_Monad.return (unknownAction (rvb_Action b)))"

text \<open>A provider that never answered has no time and is left out of the answer.\<close>

definition handleProbe :: "'w console_env \<Rightarrow> message + Candidate list \<Rightarrow> ('w, console_answer) state" where
  "handleProbe E body = (case cx_Prober E of
     None \<Rightarrow> State_Monad.return (CError 503 (text_msg ''prober not configured''))
   | Some measureAndPick \<Rightarrow>
      (case body of
         Inl err \<Rightarrow> State_Monad.return (undecoded err)
       | Inr cands \<Rightarrow>
           if cands = [] then State_Monad.return (CError 400 (text_msg ''candidates list is empty''))
           else do {
             start \<leftarrow> cx_Clock E;
             res \<leftarrow> measureAndPick cands;
             now \<leftarrow> cx_Clock E;
             State_Monad.return (CProbe (pr_Chosen res)
               (List.map_filter (\<lambda>(p, rtt). map_option (\<lambda>x. (p, x)) rtt) (pr_RTTs res))
               (real_of_int ((now - start) sdiv 1000) / 1000)) }))"

definition handleRenewable :: "'w console_env \<Rightarrow> ConsoleServer \<Rightarrow> message + bool \<Rightarrow> ('w, console_answer) state" where
  "handleRenewable E s body =
    (if co_role s \<noteq> RoleProvider then State_Monad.return (CError 405 (text_msg ''renewable is a provider-only setting''))
     else case body of
       Inl err \<Rightarrow> State_Monad.return (undecoded err)
     | Inr b \<Rightarrow> do {
         r \<leftarrow> upsertConfigMap E s renewableConfigMap renewableKey (''renewable: '' @ (if b then ''true'' else ''false'') @ ''\<newline>'');
         State_Monad.return (afterWrite ''write agent-renewable: %s'' (kubeText r)) })"

text \<open>The form of prices and that of capacity caps.\<close>

definition writeSettings :: "'w console_env \<Rightarrow> ConsoleServer \<Rightarrow> string \<Rightarrow> string \<Rightarrow> string \<Rightarrow> (string \<Rightarrow> string \<Rightarrow> message + string) \<Rightarrow>
    string \<Rightarrow> string \<Rightarrow> ('w, console_answer) state" where
  "writeSettings E s name key what toLine cpu memory =
    (if cpu = '''' \<and> memory = '''' then State_Monad.return (CError 400 (text_msg ''at least one of cpu/memory is required''))
     else case linesOf toLine [(''cpu'', cpu), (''memory'', memory)] of
       Inl err \<Rightarrow> State_Monad.return (CError 400 err)
     | Inr ls \<Rightarrow> do {
         r \<leftarrow> upsertConfigMap E s name key (joinLines ls);
         State_Monad.return (afterWrite what (kubeText r)) })"

definition handlePrices :: "'w console_env \<Rightarrow> ConsoleServer \<Rightarrow> message + settingsBody \<Rightarrow> ('w, console_answer) state" where
  "handlePrices E s body =
    (if co_role s \<noteq> RoleProvider then State_Monad.return (CError 405 (text_msg ''prices is a provider-only setting''))
     else case body of
       Inl err \<Rightarrow> State_Monad.return (undecoded err)
     | Inr b \<Rightarrow> writeSettings E s pricesConfigMap pricesKey ''write agent-prices: %s'' (priceLine E) (stb_CPU b) (stb_Memory b))"

definition handleCapacity :: "'w console_env \<Rightarrow> ConsoleServer \<Rightarrow> message + settingsBody \<Rightarrow> ('w, console_answer) state" where
  "handleCapacity E s body =
    (if co_role s \<noteq> RoleProvider then State_Monad.return (CError 405 (text_msg ''capacity is a provider-only setting''))
     else case body of
       Inl err \<Rightarrow> State_Monad.return (undecoded err)
     | Inr b \<Rightarrow> writeSettings E s capacityConfigMap capacityKey ''write agent-capacity: %s'' (capacityLine E)
         (trimSpace (stb_CPU b)) (trimSpace (stb_Memory b)))"

section \<open>Routes\<close>

record console_request =
  cr_Method :: http_method
  cr_Path :: "string list"
  cr_Body :: console_body

definition handleIndex :: "ConsoleServer \<Rightarrow> console_request \<Rightarrow> console_answer" where
  "handleIndex s r = (if cr_Path r \<noteq> [''''] then CPlain 404
     else CPage (if co_role s = RoleConsumer then RoleConsumer else RoleProvider))"

text \<open>The handlers registered for POST: only those of the active role.\<close>

definition postHandler :: "'w console_env \<Rightarrow> ConsoleServer \<Rightarrow> console_request \<Rightarrow> ('w, console_answer) state option" where
  "postHandler E s r =
    (let path = cr_Path r; body = cr_Body r
     in if co_role s = RoleConsumer then
          (if path = [''api'', ''policy''] then Some (handlePolicy E s (cb_Policy body))
           else if path = [''api'', ''workload''] then Some (handleWorkload E s (cb_Action body))
           else if path = [''api'', ''reservation''] then Some (handleReservation E s (cb_Reservation body))
           else if path = [''api'', ''probe''] \<and> cx_Prober E \<noteq> None then Some (handleProbe E (cb_Candidates body))
           else None)
        else if co_role s = RoleProvider then
          (if path = [''api'', ''prices''] then Some (handlePrices E s (cb_Settings body))
           else if path = [''api'', ''capacity''] then Some (handleCapacity E s (cb_Settings body))
           else if path = [''api'', ''renewable''] then Some (handleRenewable E s (cb_Renewable body))
           else None)
        else None)"

text \<open>\<^verbatim>\<open>GET /\<close> takes every path, so another method on an unregistered path is answered with 405.\<close>

definition consoleHandler :: "'w console_env \<Rightarrow> ConsoleServer \<Rightarrow> console_request \<Rightarrow> ('w, console_answer \<times> ConsoleServer) state" where
  "consoleHandler E s r =
    (if methodMatches GET (cr_Method r) then
       (if cr_Path r = [''healthz''] then State_Monad.return (CHealth, s)
        else if cr_Path r = [''api'', ''state''] then handleState E s
        else State_Monad.return (handleIndex s r, s))
     else case (if cr_Method r = POST then postHandler E s r else None) of
       Some h \<Rightarrow> do { a \<leftarrow> h; State_Monad.return (a, s) }
     | None \<Rightarrow> State_Monad.return (CPlain 405, s))"

end
