(* ===== verification/ConsoleWorld.thy ===== *)
theory ConsoleWorld
  imports Console
begin

text \<open>
  What the configuration console may change, over the contract of its cluster's API server, and that the capacity
  caps it writes are the caps the provider agent reads.
\<close>

section \<open>The contract of the cluster\<close>

text \<open>An object created under a generated name differs in its metadata only.\<close>

fun generated :: "string \<Rightarrow> console_object \<Rightarrow> console_object \<Rightarrow> bool" where
  "generated n (ORequest l) x \<longleftrightarrow> (\<exists>m. m_Name m = n \<and> x = ORequest (l\<lparr>lr_Request := (lr_Request l)\<lparr>mr_Meta := m\<rparr>\<rparr>))"
| "generated n y x \<longleftrightarrow> x = y"

text \<open>
  A call that fails changes nothing. A delete takes the object away or, while a finalizer holds it, leaves it marked.
  Reading nodes, asking the services and probing touch no object.
\<close>

locale console_api =
  fixes E :: "'w console_env" and cobjs :: "'w \<Rightarrow> console_key \<Rightarrow> console_object option"
  assumes get_law: "run_state (cl_Get E k) w = (r, w') \<Longrightarrow>
      cobjs w' = cobjs w \<and> (\<forall>x. r = Inr x \<longrightarrow> cobjs w k = Some x) \<and> (r = Inl KNotFound \<longrightarrow> cobjs w k = None)"
    and list_law: "run_state (cl_ListRequests E ns l) w = (rs, w') \<Longrightarrow> cobjs w' = cobjs w"
    and create_law: "run_state (cl_Create E k x) w = (u, w') \<Longrightarrow>
      (\<forall>e. u = Inl e \<longrightarrow> cobjs w' = cobjs w) \<and> (u = Inr () \<longrightarrow> cobjs w k = None \<and> cobjs w' = (cobjs w)(k \<mapsto> x))"
    and generate_law: "run_state (cl_Generate E (kd, ns) prefix x) w = (u, w') \<Longrightarrow>
      (\<forall>e. u = Inl e \<longrightarrow> cobjs w' = cobjs w) \<and>
      (u = Inr () \<longrightarrow> (\<exists>suffix x'. generated (prefix @ suffix) x x' \<and> cobjs w (kd, ns, prefix @ suffix) = None \<and>
        cobjs w' = (cobjs w)((kd, ns, prefix @ suffix) \<mapsto> x')))"
    and update_law: "run_state (cl_Update E k x) w = (u, w') \<Longrightarrow>
      (\<forall>e. u = Inl e \<longrightarrow> cobjs w' = cobjs w) \<and> (u = Inr () \<longrightarrow> cobjs w k \<noteq> None \<and> cobjs w' = (cobjs w)(k \<mapsto> x))"
    and delete_law: "run_state (cl_Delete E k) w = (u, w') \<Longrightarrow>
      (\<forall>e. u = Inl e \<longrightarrow> cobjs w' = cobjs w) \<and> (u = Inr () \<longrightarrow> cobjs w k \<noteq> None \<and> (\<exists>v. cobjs w' = (cobjs w)(k := v)))"
    and node_law: "run_state (cx_GetNode E n) w = (nd, w') \<Longrightarrow> cobjs w' = cobjs w"
    and geo_law: "run_state (cx_Geo E url ip) w = (g, w') \<Longrightarrow> cobjs w' = cobjs w"
    and clock_law: "run_state (cx_Clock E) w = (t, w') \<Longrightarrow> cobjs w' = cobjs w"
    and probe_law: "cx_Prober E = Some mp \<Longrightarrow> run_state (mp cs) w = (pr, w') \<Longrightarrow> cobjs w' = cobjs w"
begin

lemma wp_cget:
  assumes "\<And>w' e. cobjs w' = cobjs w \<Longrightarrow> (e = KNotFound \<Longrightarrow> cobjs w k = None) \<Longrightarrow> P (Inl e) w'"
    and "\<And>w' x. cobjs w' = cobjs w \<Longrightarrow> cobjs w k = Some x \<Longrightarrow> P (Inr x) w'"
  shows "wp (cl_Get E k) P w"
proof (rule wpI)
  fix r w' assume "run_state (cl_Get E k) w = (r, w')"
  from get_law [OF this] assms show "P r w'" by (cases r) auto
qed

text \<open>The common shape of the writes: nothing happened, or one object is as the rule says.\<close>

definition wrote :: "'w \<Rightarrow> (console_key \<Rightarrow> console_object option \<Rightarrow> bool) \<Rightarrow> 'e + unit \<Rightarrow> 'w \<Rightarrow> bool" where
  "wrote w rule u w' \<longleftrightarrow> (case u of
     Inl _ \<Rightarrow> cobjs w' = cobjs w
   | Inr _ \<Rightarrow> cobjs w' = cobjs w \<or> (\<exists>k v. rule k v \<and> cobjs w' = (cobjs w)(k := v)))"

lemma wroteI:
  "(\<forall>e. u = Inl e \<longrightarrow> cobjs w' = cobjs w) \<Longrightarrow> (u = Inr () \<longrightarrow> (\<exists>k v. rule k v \<and> cobjs w' = (cobjs w)(k := v))) \<Longrightarrow> wrote w rule u w'"
  by (cases u) (auto simp: wrote_def)

lemma wrote_same: "cobjs w' = cobjs w \<Longrightarrow> wrote w rule u w'"
  by (auto simp: wrote_def split: sum.split)

lemma wrote_mono:
  assumes "wrote v rule u w'" "cobjs v = cobjs w" "\<And>k x. rule k x \<Longrightarrow> rule' k x"
  shows "wrote w rule' u w'"
proof (cases u)
  case (Inr a)
  with assms(1,2) have "cobjs w' = cobjs w \<or> (\<exists>k x. rule k x \<and> cobjs w' = (cobjs w)(k := x))" by (simp add: wrote_def)
  with assms(3) have "cobjs w' = cobjs w \<or> (\<exists>k x. rule' k x \<and> cobjs w' = (cobjs w)(k := x))" by blast
  with Inr show ?thesis by (simp add: wrote_def)
qed (use assms in \<open>simp add: wrote_def\<close>)

text \<open>A write after reads, under a weaker rule; the second form changes the reported result.\<close>

lemma wp_wrote:
  assumes "wp m (wrote v rule) v" "cobjs v = cobjs w" "\<And>k x. rule k x \<Longrightarrow> rule' k x"
  shows "wp m (wrote w rule') v"
  by (rule wp_mono [OF assms(1)]) (erule wrote_mono [OF _ assms(2,3)])

lemma wp_wrote_report:
  assumes "wp m (wrote v rule) v" "cobjs v = cobjs w" "\<And>k x. rule k x \<Longrightarrow> rule' k x" "\<And>u w'. wrote w rule' u w' \<Longrightarrow> wrote w rule' (f u) w'"
  shows "wp m (\<lambda>u. wp (State_Monad.return (f u)) (wrote w rule')) v"
proof (rule wp_mono)
  show "wp m (wrote w rule') v" by (rule wp_wrote [OF assms(1,2)]) (rule assms(3))
qed (unfold wp_return, rule assms(4))

text \<open>Replacing the reported error, or an error by success, keeps what was written.\<close>

lemma wrote_map: "wrote w rule (map_sum f id u) w' \<longleftrightarrow> wrote w rule u w'"
  by (cases u) (auto simp: wrote_def)

lemma wrote_forgive: "wrote w rule u w' \<Longrightarrow> wrote w rule (if u = Inl e then Inr () else u) w'"
  by (auto simp: wrote_def)

lemma wp_ccreate: "wp (cl_Create E k x) (wrote w (\<lambda>j v. j = k \<and> v = Some x \<and> cobjs w k = None)) w"
  by (rule wpI, drule create_law) (auto intro!: wroteI)

lemma wp_cupdate: "wp (cl_Update E k x) (wrote w (\<lambda>j v. j = k \<and> v = Some x \<and> cobjs w k \<noteq> None)) w"
  by (rule wpI, drule update_law) (auto intro!: wroteI)

lemma wp_cdelete: "wp (cl_Delete E k) (wrote w (\<lambda>j v. j = k \<and> cobjs w k \<noteq> None)) w"
  by (rule wpI, drule delete_law) (auto intro!: wroteI)

lemma wp_cgenerate:
  "wp (cl_Generate E (kd, ns) prefix x)
     (wrote w (\<lambda>j v. \<exists>suffix x'. j = (kd, ns, prefix @ suffix) \<and> v = Some x' \<and> generated (prefix @ suffix) x x' \<and> cobjs w j = None)) w"
  by (rule wpI, drule generate_law) (auto intro!: wroteI)

end

section \<open>What a request may change\<close>

definition managed :: "console_object option \<Rightarrow> bool" where
  "managed x \<longleftrightarrow> (case x of Some (ORequest l) \<Rightarrow> map_of (lr_Labels l) (fst consoleManaged) = Some (snd consoleManaged) | _ \<Rightarrow> False)"

definition dataOf :: "console_object option \<Rightarrow> string \<Rightarrow> string option" where
  "dataOf x = (case x of Some (OConfigMap cm) \<Rightarrow> map_of (cm_Data cm) | _ \<Rightarrow> (\<lambda>_. None))"

text \<open>
  On a consumer: the one policy of the console, its workload, and the requests it created or creates. On a provider:
  one key of each of the three ConfigMaps.
\<close>

definition settingOf :: "string \<Rightarrow> string option" where
  "settingOf = [pricesConfigMap \<mapsto> pricesKey, capacityConfigMap \<mapsto> capacityKey, renewableConfigMap \<mapsto> renewableKey]"

definition owned :: "'w console_env \<Rightarrow> ConsoleServer \<Rightarrow> console_key \<Rightarrow> console_object option \<Rightarrow> console_object option \<Rightarrow> bool" where
  "owned E s k old new = (case k of
     (PolicyKind, ns, n) \<Rightarrow> co_role s = RoleConsumer \<and> ns = co_ns s \<and> n = consumerPolicyName
   | (DeploymentKind, ns, n) \<Rightarrow> co_role s = RoleConsumer \<and> (\<exists>dep. cx_Workload E = Inr dep \<and> ns = dp_Namespace dep \<and> n = dp_Name dep)
   | (RequestKind, ns, n) \<Rightarrow> co_role s = RoleConsumer \<and> ns = co_ns s \<and> managed (if old = None then new else old)
   | (ConfigMapKind, ns, n) \<Rightarrow> co_role s = RoleProvider \<and> ns = co_ns s \<and>
       (\<exists>key val. settingOf n = Some key \<and> dataOf new = (dataOf old)(key \<mapsto> val)))"

context console_api
begin

lemma wp_upsertConfigMap:
  "wp (upsertConfigMap E s name key val) (wrote w (\<lambda>k v. k = (ConfigMapKind, co_ns s, name) \<and> dataOf v = (dataOf (cobjs w k))(key \<mapsto> val))) w"
  unfolding upsertConfigMap_def Let_def wp_bind
  by (rule wp_cget) (auto simp: dataOf_def update_conv' intro!: wrote_same wp_wrote [OF wp_ccreate] wp_wrote [OF wp_cupdate]
    split: console_object.split)

lemma wp_upsertConsumerPolicy:
  "wp (upsertConsumerPolicy E s t prompt) (wrote w (\<lambda>k v. k = (PolicyKind, co_ns s, consumerPolicyName))) w"
  unfolding upsertConsumerPolicy_def Let_def wp_bind
  by (rule wp_cget) (auto intro!: wrote_same wp_wrote [OF wp_ccreate] wp_wrote [OF wp_cupdate] split: console_object.split)

lemma wp_deleteConsumerPolicy: "wp (deleteConsumerPolicy E s) (wrote w (\<lambda>k v. k = (PolicyKind, co_ns s, consumerPolicyName))) w"
  unfolding deleteConsumerPolicy_def wp_bind
  by (rule wp_wrote_report [OF wp_cdelete refl]) (blast, rule wrote_forgive)

lemma wp_createManualReservation:
  "wp (createManualReservation E s res d p) (wrote w (\<lambda>k v. \<exists>n. k = (RequestKind, co_ns s, n) \<and> cobjs w k = None \<and> managed v)) w"
  unfolding createManualReservation_def
  by (rule wp_wrote [OF wp_cgenerate refl]) (auto simp: managed_def)

lemma wp_releaseManualReservation:
  "wp (releaseManualReservation E s name) (wrote w (\<lambda>k v. k = (RequestKind, co_ns s, name) \<and> managed (cobjs w k))) w"
proof -
  have "wp (cl_Delete E (RequestKind, co_ns s, name)) (\<lambda>u. wp (State_Monad.return (map_sum kubeMessage id u))
      (wrote w (\<lambda>k v. k = (RequestKind, co_ns s, name) \<and> managed (cobjs w k)))) v"
    if "cobjs v = cobjs w" "managed (cobjs w (RequestKind, co_ns s, name))" for v
    by (rule wp_wrote_report [OF wp_cdelete that(1)]) (use that(2) in \<open>auto simp: wrote_map\<close>)
  then show ?thesis
    unfolding releaseManualReservation_def Let_def wp_bind
    by (intro wp_cget) (auto simp: managed_def intro!: wrote_same split: console_object.split)
qed

end

context console_api
begin

definition scoped :: "ConsoleServer \<Rightarrow> 'w \<Rightarrow> console_answer \<Rightarrow> 'w \<Rightarrow> bool" where
  "scoped s w a w' \<longleftrightarrow> cobjs w' = cobjs w \<or> a = COk \<and> (\<exists>k v. owned E s k (cobjs w k) v \<and> cobjs w' = (cobjs w)(k := v))"

lemma scoped_same: "cobjs w' = cobjs w \<Longrightarrow> scoped s w a w'"
  by (simp add: scoped_def)

lemma scoped_afterWrite:
  assumes "wrote w rule u w'" "\<And>k v. rule k v \<Longrightarrow> owned E s k (cobjs w k) v"
  shows "scoped s w (afterWrite what u) w'"
proof (cases u)
  case (Inr a)
  with assms(1) have "cobjs w' = cobjs w \<or> (\<exists>k v. rule k v \<and> cobjs w' = (cobjs w)(k := v))" by (simp add: wrote_def)
  with assms(2) have "cobjs w' = cobjs w \<or> (\<exists>k v. owned E s k (cobjs w k) v \<and> cobjs w' = (cobjs w)(k := v))" by blast
  with Inr show ?thesis by (simp add: scoped_def afterWrite_def)
qed (use assms in \<open>simp add: wrote_def scoped_def\<close>)

text \<open>The write that ends a handler.\<close>

lemma wp_scoped:
  fixes f :: "'e + unit \<Rightarrow> message + unit"
  assumes "wp m (wrote w rule) w" "\<And>u w'. wrote w rule u w' \<Longrightarrow> wrote w rule (f u) w'"
    "\<And>k v. rule k v \<Longrightarrow> owned E s k (cobjs w k) v"
  shows "wp m (\<lambda>u. wp (State_Monad.return (afterWrite what (f u))) (scoped s w)) w"
proof (rule wp_mono [OF assms(1)])
  fix u :: "'e + unit" and w' assume "wrote w rule u w'"
  then show "wp (State_Monad.return (afterWrite what (f u))) (scoped s w) w'"
    unfolding wp_return by (intro scoped_afterWrite [of w rule] assms(2,3))
qed

lemma wrote_kubeText: "wrote w rule u w' \<Longrightarrow> wrote w rule (kubeText u) w'"
  by (simp add: wrote_map)

lemmas wp_scoped_kube = wp_scoped [where f = kubeText, OF _ wrote_kubeText]

lemma wp_handlePolicy: "wp (handlePolicy E s body) (scoped s w) w"
  unfolding handlePolicy_def
  by (auto intro!: scoped_same wp_scoped_kube [OF wp_deleteConsumerPolicy, simplified] wp_scoped_kube [OF wp_upsertConsumerPolicy, simplified]
    simp: owned_def split: sum.split)

lemma wp_handleWorkload: "wp (handleWorkload E s body) (scoped s w) w"
proof -
  have forgiven: "wrote w rule u w' \<Longrightarrow> wrote w rule (kubeText (if u = Inl e then Inr () else u)) w'" for rule u e w'
    by (intro wrote_kubeText wrote_forgive)
  note c = wp_scoped [where f = "\<lambda>u. kubeText (if u = Inl KAlreadyExists then Inr () else u)", OF wp_ccreate forgiven]
    and d = wp_scoped [where f = "\<lambda>u. kubeText (if u = Inl KNotFound then Inr () else u)", OF wp_cdelete forgiven]
  show ?thesis
    unfolding handleWorkload_def Let_def
    by (auto intro!: scoped_same c [simplified] d [simplified] simp: owned_def unknownAction_def split: sum.split)
qed

lemma wp_handleReservation: "wp (handleReservation E s body) (scoped s w) w"
  unfolding handleReservation_def Let_def
  by (auto intro!: scoped_same wp_scoped_kube [OF wp_createManualReservation, simplified]
      wp_scoped [where f = "\<lambda>u. u", OF wp_releaseManualReservation, simplified]
    simp: owned_def managed_def unknownAction_def split: sum.split)

lemma wp_handleRenewable: "wp (handleRenewable E s body) (scoped s w) w"
  unfolding handleRenewable_def
  by (auto intro!: scoped_same wp_scoped_kube [OF wp_upsertConfigMap, simplified] simp: owned_def settingOf_def split: sum.split)

lemma wp_writeSettings:
  assumes "settingOf name = Some key" "co_role s = RoleProvider"
  shows "wp (writeSettings E s name key what toLine cpu mem) (scoped s w) w"
  using assms unfolding writeSettings_def
  by (auto intro!: scoped_same wp_scoped_kube [OF wp_upsertConfigMap, simplified] simp: owned_def split: sum.split)

lemma wp_handlePrices: "wp (handlePrices E s body) (scoped s w) w"
  unfolding handlePrices_def by (auto intro!: scoped_same wp_writeSettings simp: settingOf_def split: sum.split)

lemma wp_handleCapacity: "wp (handleCapacity E s body) (scoped s w) w"
  unfolding handleCapacity_def by (auto intro!: scoped_same wp_writeSettings simp: settingOf_def split: sum.split)

lemma wp_handleProbe: "wp (handleProbe E body) (\<lambda>a w'. cobjs w' = cobjs w) w"
  unfolding handleProbe_def
  by (auto simp: wp_def split: option.split sum.split prod.split dest!: clock_law probe_law)

end

section \<open>Reading\<close>

context console_api
begin

definition reads :: "('w, 'a) state \<Rightarrow> bool" where
  "reads m \<longleftrightarrow> (\<forall>w a w'. run_state m w = (a, w') \<longrightarrow> cobjs w' = cobjs w)"

lemma reads_return: "reads (State_Monad.return a)"
  by (simp add: reads_def)

lemma reads_bind: "reads m \<Longrightarrow> (\<And>a. reads (f a)) \<Longrightarrow> reads (State_Monad.bind m f)"
  unfolding reads_def by (fastforce split: prod.splits)

lemma reads_calls: "reads (cl_Get E k)" "reads (cl_ListRequests E ns l)" "reads (cx_GetNode E n)" "reads (cx_Geo E url ip)"
  using get_law list_law node_law geo_law unfolding reads_def by blast+

lemmas reads_intros = reads_return reads_bind reads_calls

lemma reads_ResolveIP: "reads (ResolveIP (Some (cx_GetNode E)) node ip)"
  by (auto simp: ResolveIP_def intro!: reads_intros)

lemma reads_geoLookup: "reads (geoLookup (cx_Geo E) url ip cache)"
  by (auto simp: geoLookup_def intro!: reads_intros split: option.split)

lemma reads_discoverLocation: "reads (discoverLocation E s)"
  by (auto simp: discoverLocation_def Let_def intro!: reads_intros reads_ResolveIP reads_geoLookup split: sum.split)

lemma reads_readValues: "reads (readValues E s n k)"
  by (auto simp: readValues_def readConfigMapKey_def intro!: reads_intros)

lemma reads_handleState: "reads (handleState E s)"
  unfolding handleState_def readPrices_def readCapacity_def
  by (auto simp: workloadPresent_def readPolicyAndPrompt_def listManualReservations_def readRenewable_def readConfigMapKey_def
    intro!: reads_intros reads_discoverLocation reads_readValues split: sum.split prod.split)

lemma wp_reads: "reads m \<Longrightarrow> wp m (\<lambda>a w'. cobjs w' = cobjs w) w"
  by (auto simp: reads_def intro: wpI)

lemma wp_postHandler:
  assumes "postHandler E s r = Some h"
  shows "wp h (scoped s w) w"
proof -
  have "wp (handleProbe E body) (scoped s w) w" for body by (rule wp_mono [OF wp_handleProbe]) (rule scoped_same)
  with assms show ?thesis
    by (auto simp: postHandler_def Let_def intro: wp_handlePolicy wp_handleWorkload wp_handleReservation wp_handlePrices wp_handleCapacity
      wp_handleRenewable split: if_splits)
qed

lemma console_scoped:
  assumes "run_state (consoleHandler E s r) w = ((a, s'), w')"
  shows "scoped s w a w' \<and> (cr_Method r \<noteq> POST \<longrightarrow> cobjs w' = cobjs w)"
proof -
  have "wp (consoleHandler E s r) (\<lambda>(a, s') w'. scoped s w a w' \<and> (cr_Method r \<noteq> POST \<longrightarrow> cobjs w' = cobjs w)) w"
    unfolding consoleHandler_def
    by (auto intro!: scoped_same wp_mono [OF wp_reads [OF reads_handleState]] wp_mono [OF wp_postHandler] simp: methodMatches_def split: option.split if_splits)
  from wp_run [OF this assms] show ?thesis by simp
qed

end

text \<open>
  C16. What the console may do to the cluster, for every request it can be sent. Only a POST changes anything, and then
  one object, and the answer is \<^verbatim>\<open>ok\<close>. On a consumer that object is the policy named \<^verbatim>\<open>default\<close>, the embedded workload,
  or a resource request that carries the console's label: one it creates, or one it finds labelled and releases. On a
  provider it is one of the three settings ConfigMaps, of which one key is set and the others are kept.
\<close>

theorem console_scope:
  assumes "console_api E cobjs" "run_state (consoleHandler E s r) w = ((a, s'), w')"
  shows "cobjs w' = cobjs w \<or>
    a = COk \<and> cr_Method r = POST \<and> (\<exists>k v. owned E s k (cobjs w k) v \<and> cobjs w' = (cobjs w)(k := v))"
  using console_api.console_scoped [OF assms] unfolding console_api.scoped_def [OF assms(1)] by auto

section \<open>A cluster in memory\<close>

definition nameIt :: "string \<Rightarrow> console_object \<Rightarrow> console_object" where
  "nameIt n x = (case x of ORequest l \<Rightarrow> ORequest (l\<lparr>lr_Request := (lr_Request l)\<lparr>mr_Meta := named_meta n\<rparr>\<rparr>) | _ \<Rightarrow> x)"

type_synonym console_store = "(console_key \<times> console_object) list"

definition memCreate :: "console_key \<Rightarrow> console_object \<Rightarrow> (console_store, kerr + unit) state" where
  "memCreate k x = State (\<lambda>w. if map_of w k \<noteq> None then (Inl KAlreadyExists, w) else (Inr (), AList.update k x w))"

text \<open>A parser of whole numbers of gibibytes, and Go's quoting of a text without special characters.\<close>

definition plainQuote :: "string \<Rightarrow> string" where
  "plainQuote s = CHR 0x22 # s @ [CHR 0x22]"

definition gibibytes :: "string \<Rightarrow> message + Quantity" where
  "gibibytes v = (if v = ''8Gi'' then Inr (8 * 2 ^ 30) else Inl (text_msg ''unable to parse quantity's suffix''))"

definition memConsole :: "console_store console_env" where
  "memConsole = \<lparr>
     cl_Get = (\<lambda>k. State (\<lambda>w. (case map_of w k of None \<Rightarrow> Inl KNotFound | Some x \<Rightarrow> Inr x, w))),
     cl_ListRequests = (\<lambda>ns (lk, lv). State (\<lambda>w. (Inr (List.map_filter (\<lambda>((kd, n, _), x). case x of
       ORequest l \<Rightarrow> if n = ns \<and> map_of (lr_Labels l) lk = Some lv then Some l else None | _ \<Rightarrow> None) w), w))),
     cl_Create = memCreate,
     cl_Generate = (\<lambda>(kd, ns) prefix x. State (\<lambda>w. run_state (memCreate (kd, ns, prefix @ itoa (int (length w))) (nameIt (prefix @ itoa (int (length w))) x)) w)),
     cl_Update = (\<lambda>k x. State (\<lambda>w. if map_of w k = None then (Inl KNotFound, w) else (Inr (), AList.update k x w))),
     cl_Delete = (\<lambda>k. State (\<lambda>w. if map_of w k = None then (Inl KNotFound, w) else (Inr (), AList.delete k w))),
     cx_GetNode = (\<lambda>_. State_Monad.return (Inl KNotFound)), cx_Geo = (\<lambda>_ _. State_Monad.return (NoAnswer (text_msg ''''))),
     cx_Clock = State_Monad.return 0, cx_ParseQuantity = gibibytes, cx_QuantityString = (\<lambda>_. ''''), cx_Quote = plainQuote,
     cx_YamlValues = (\<lambda>_. Inr []), cx_RenewableYaml = (\<lambda>_. Inr False),
     cx_Workload = Inr \<lparr>dp_Namespace = ''default'', dp_Name = ''federation-demo'', dp_Replicas = Some 4, dp_Container = None\<rparr>, cx_Prober = None\<rparr>"

lemma generated_nameIt: "generated n x (nameIt n x)"
  by (cases x) (auto simp: nameIt_def intro!: exI [of _ "named_meta n"] simp: named_meta_def)

interpretation mc: console_api memConsole map_of
proof
  fix kd ns prefix x w u w'
  assume "run_state (cl_Generate memConsole (kd, ns) prefix x) w = (u, w')"
  then show "(\<forall>e. u = Inl e \<longrightarrow> map_of w' = map_of w) \<and>
      (u = Inr () \<longrightarrow> (\<exists>suffix x'. generated (prefix @ suffix) x x' \<and> map_of w (kd, ns, prefix @ suffix) = None \<and>
        map_of w' = (map_of w)((kd, ns, prefix @ suffix) \<mapsto> x')))"
    using generated_nameIt [of "prefix @ itoa (int (length w))" x]
    by (auto simp: memConsole_def memCreate_def update_conv' split: if_splits
      intro!: exI [of _ "itoa (int (length w))"] exI [of _ "nameIt (prefix @ itoa (int (length w))) x"])
qed (auto simp: memConsole_def memCreate_def update_conv' delete_conv' split: if_splits option.splits)

definition exampleConsole :: "string \<Rightarrow> ConsoleServer" where
  "exampleConsole role = \<lparr>co_role = role, co_bind = '':9095'', co_ns = ''ns'', co_clusterID = ''p'', co_liqoClusterID = ''p'', co_nodeName = '''',
     co_advertisedIP = '''', co_mockGeoURL = '''', co_geoCache = [], co_shutdown = 5 * 10 ^ 9\<rparr>"

definition examplePost :: "string \<Rightarrow> settingsBody \<Rightarrow> console_request" where
  "examplePost path b = \<lparr>cr_Method = POST, cr_Path = [''api'', path], cr_Body = \<lparr>cb_Policy = Inl (text_msg ''''), cb_Action = Inl (text_msg ''''),
     cb_Reservation = Inl (text_msg ''''), cb_Candidates = Inl (text_msg ''''), cb_Settings = Inr b, cb_Renewable = Inl (text_msg '''')\<rparr>\<rparr>"

text \<open>A percentage beyond 32 bits and an amount.\<close>

definition exampleCaps :: settingsBody where
  "exampleCaps = \<lparr>stb_CPU = '' 4294967296% '', stb_Memory = ''8Gi''\<rparr>"

theorem console_scope_witness:
  "\<exists>k v. owned memConsole (exampleConsole RoleProvider) k None v \<and>
    map_of (snd (run_state (consoleHandler memConsole (exampleConsole RoleProvider) (examplePost ''capacity'' exampleCaps)) [])) = Map.empty(k := v)"
proof -
  obtain a s' w' where run: "run_state (consoleHandler memConsole (exampleConsole RoleProvider) (examplePost ''capacity'' exampleCaps)) [] = ((a, s'), w')"
    by (metis surj_pair)
  have "snd (run_state (consoleHandler memConsole (exampleConsole RoleProvider) (examplePost ''capacity'' exampleCaps)) []) \<noteq> []"
    by code_simp
  then have "map_of w' \<noteq> Map.empty" unfolding run by (simp add: map_of_eq_empty_iff)
  with console_scope [OF mc.console_api_axioms run] show ?thesis unfolding run by auto
qed

section \<open>Capacity caps from the console to the agent\<close>

text \<open>
  The lines of the capacity file: a number stands bare, any other value quoted. The decoder of the agent is assumed to
  read such a document back, for values of plain characters; \<^verbatim>\<open>intstr.IntOrString\<close> renders a number in decimal.
\<close>

definition plain :: "string \<Rightarrow> bool" where
  "plain = list_all (\<lambda>c. c \<notin> {CHR 0x22, CHR 0x5C, CHR ''\<newline>''})"

fun yamlLine :: "(string \<Rightarrow> string) \<Rightarrow> string \<times> (int + string) \<Rightarrow> string" where
  "yamlLine quote (name, Inl n) = name @ '': '' @ itoa n"
| "yamlLine quote (name, Inr v) = name @ '': '' @ quote v"

fun yamlScalar :: "string \<times> (int + string) \<Rightarrow> string \<times> string" where
  "yamlScalar (name, Inl n) = (name, itoa n)"
| "yamlScalar (name, Inr v) = (name, v)"

definition entry_ok :: "string \<times> (int + string) \<Rightarrow> bool" where
  "entry_ok e = (case e of (name, x) \<Rightarrow> name \<in> {''cpu'', ''memory''} \<and> (case x of Inl n \<Rightarrow> 0 \<le> n | Inr v \<Rightarrow> plain v))"

locale caps_yaml =
  fixes quote :: "string \<Rightarrow> string" and decode :: "string \<Rightarrow> message + (string \<times> string) list"
  assumes reads_back: "list_all entry_ok es \<Longrightarrow> distinct (map fst es) \<Longrightarrow>
    decode (joinLines (map (yamlLine quote) es)) = Inr (map yamlScalar es)"

text \<open>What the operator asked for, read without the code: a share between 0 and 100 percent, or an amount.\<close>

definition capFor :: "'w console_env \<Rightarrow> string \<Rightarrow> capRule option" where
  "capFor E v = (if v = '''' then None else case parseCapacityPercent v of
     Some (Some n) \<Rightarrow> Some (PercentCap (max 0 (min 100 n)))
   | _ \<Rightarrow> (case cx_ParseQuantity E v of Inr q \<Rightarrow> Some (FixedCap q) | Inl _ \<Rightarrow> None))"

definition entryOf :: "string \<times> string \<Rightarrow> string \<times> (int + string)" where
  "entryOf kv = (fst kv, case parseCapacityPercent (snd kv) of Some (Some n) \<Rightarrow> Inl (clampPercent n) | _ \<Rightarrow> Inr (snd kv))"

lemma trimSpace_idem [simp]: "trimSpace (trimSpace s) = trimSpace s"
proof -
  define a where "a = dropWhile isSpace s"
  define b where "b = dropWhile isSpace (rev a)"
  have t: "trimSpace s = rev b" by (simp add: trimSpace_def a_def b_def)
  have "a = rev b @ rev (takeWhile isSpace (rev a))"
    unfolding b_def by (metis rev_append rev_rev_ident takeWhile_dropWhile_id)
  then have "dropWhile isSpace (rev b) = rev b"
    by (metis a_def append_is_Nil_conv dropWhile_eq_self_iff hd_append2 hd_dropWhile)
  moreover have "dropWhile isSpace b = b" by (simp add: b_def)
  ultimately show ?thesis unfolding t by (simp add: trimSpace_def)
qed

lemma clampPercent_eq: "clampPercent n = max 0 (min 100 n)"
  by (simp add: clampPercent_def)

lemma natDigits_digits: "c \<in> set (natDigits n) \<Longrightarrow> digit c \<noteq> None"
proof (induction n rule: natDigits.induct)
  case (1 n)
  then show ?case by (subst (asm) natDigits.simps) (auto simp: digit_char split: if_splits)
qed

lemma natDigits_nonempty [simp]: "natDigits n \<noteq> []"
  by (subst natDigits.simps) simp

lemma itoa_plain:
  assumes "0 \<le> n"
  shows "itoa n \<noteq> [] \<and> (\<forall>c\<in>set (itoa n). \<not> isSpace c \<and> c \<notin> {CHR ''%'', CHR 0x22, CHR 0x5C, CHR ''\<newline>''})"
proof -
  have d: "\<not> isSpace c \<and> c \<notin> {CHR ''%'', CHR 0x22, CHR 0x5C, CHR ''\<newline>''}" if "digit c \<noteq> None" for c
  proof -
    from that have "48 \<le> (of_char c :: int)" by (auto simp: digit_def Let_def split: if_splits)
    moreover have "int (of_char c) = of_char c" by (simp add: of_char_def)
    ultimately have "48 \<le> (of_char c :: nat)" by linarith
    then show ?thesis using that by (auto simp: isSpace_def digit_def Let_def)
  qed
  show ?thesis using assms natDigits_digits [THEN d] by (simp add: itoa_def)
qed

lemma trimSpace_id:
  assumes "\<forall>c\<in>set s. \<not> isSpace c"
  shows "trimSpace s = s"
proof (cases "s = []")
  case False
  with assms have "\<not> isSpace (hd s)" "\<not> isSpace (hd (rev s))" by (simp_all add: hd_rev)
  then have "dropWhile isSpace s = s" "dropWhile isSpace (rev s) = rev s" by (simp_all add: dropWhile_eq_self_iff)
  then show ?thesis by (simp add: trimSpace_def)
qed (simp add: trimSpace_def)

lemma percent_texts:
  assumes "0 \<le> n" "n \<le> 100"
  shows "trimSpace (itoa n) \<noteq> []" "parsePercent (trimSpace (itoa n)) = Some n"
proof -
  have t: "trimSpace (itoa n) = itoa n" by (rule trimSpace_id) (use itoa_plain [OF assms(1)] in blast)
  have "last (itoa n) \<noteq> CHR ''%''" using itoa_plain [OF assms(1)] last_in_set by auto
  then have "cutPercent (itoa n) = None"
    using itoa_plain [OF assms(1)] by (cases "itoa n" rule: rev_cases) (auto simp: cutPercent_def)
  with assms show "parsePercent (trimSpace (itoa n)) = Some n"
    by (simp add: t parsePercent_def atoi_itoa int32_id is_int32_def)
  show "trimSpace (itoa n) \<noteq> []" using itoa_plain [OF assms(1)] by (simp add: t)
qed

text \<open>An accepted line is the line of its entry, and the agent makes of the entry what was asked for.\<close>

lemma capacityLine_entry:
  "capacityLine E name v = Inr line \<Longrightarrow> line = yamlLine (cx_Quote E) (entryOf (name, v))"
  by (auto simp: capacityLine_def entryOf_def split: option.splits sum.splits)

lemma capRuleOf_entry:
  assumes "capacityLine E name v = Inr line" "v \<noteq> ''''" "trimSpace v = v" "pe_ParseQuantity A = cx_ParseQuantity E"
  shows "\<exists>r. capFor E v = Some r \<and> capRuleOf A (yamlScalar (entryOf (name, v))) = [(name, r)]"
proof (cases "parseCapacityPercent v")
  case None
  then have "parsePercent v = None" by (auto simp: parseCapacityPercent_def parsePercent_def split: option.splits)
  with None assms show ?thesis
    by (auto simp: capacityLine_def entryOf_def capRuleOf_def capFor_def split: sum.splits)
next
  case (Some pct)
  with assms obtain n where "pct = Some n" by (auto simp: capacityLine_def split: option.splits)
  with Some assms percent_texts [of "clampPercent n"] show ?thesis
    by (auto simp: capRuleOf_def entryOf_def capFor_def clampPercent_eq)
qed

lemma kubeText_ok [simp]: "kubeText u = Inr () \<longleftrightarrow> u = Inr ()"
  by (cases u) auto

lemma linesOf_entries:
  assumes "linesOf (capacityLine E) kvs = Inr ls"
  shows "ls = map (yamlLine (cx_Quote E) \<circ> entryOf) (filter (\<lambda>kv. snd kv \<noteq> '''') kvs) \<and>
    (\<forall>name v. (name, v) \<in> set kvs \<longrightarrow> v \<noteq> '''' \<longrightarrow> (\<exists>l. capacityLine E name v = Inr l))"
  using assms
proof (induction kvs arbitrary: ls)
  case (Cons kv kvs)
  obtain name v where kv: "kv = (name, v)" by (cases kv)
  show ?case
  proof (cases "v = ''''")
    case True
    with Cons kv show ?thesis by auto
  next
    case False
    with Cons.prems kv obtain l ls' where l: "capacityLine E name v = Inr l" "linesOf (capacityLine E) kvs = Inr ls'" "ls = l # ls'"
      by (auto split: sum.splits simp: map_sum_def)
    with False Cons.IH [OF l(2)] capacityLine_entry [OF l(1)] kv show ?thesis by auto
  qed
qed simp

context console_api
begin

lemma wp_upsertConfigMap_value:
  "wp (upsertConfigMap E s name key val) (\<lambda>u w'. u = Inr () \<longrightarrow> dataOf (cobjs w' (ConfigMapKind, co_ns s, name)) key = Some val) w"
  unfolding upsertConfigMap_def Let_def wp_bind
  by (rule wp_cget) (auto simp: dataOf_def update_conv' split: console_object.split intro!: wpI dest!: create_law update_law)

lemma handleCapacity_written:
  assumes "run_state (handleCapacity E s (Inr b)) w = (COk, w')"
  shows "\<exists>ls. linesOf (capacityLine E) [(''cpu'', trimSpace (stb_CPU b)), (''memory'', trimSpace (stb_Memory b))] = Inr ls \<and>
    (trimSpace (stb_CPU b) \<noteq> '''' \<or> trimSpace (stb_Memory b) \<noteq> '''') \<and>
    dataOf (cobjs w' (ConfigMapKind, co_ns s, capacityConfigMap)) capacityKey = Some (joinLines ls)"
proof -
  have "wp (handleCapacity E s (Inr b)) (\<lambda>a w'. a = COk \<longrightarrow>
      (\<exists>ls. linesOf (capacityLine E) [(''cpu'', trimSpace (stb_CPU b)), (''memory'', trimSpace (stb_Memory b))] = Inr ls \<and>
        (trimSpace (stb_CPU b) \<noteq> '''' \<or> trimSpace (stb_Memory b) \<noteq> '''') \<and>
        dataOf (cobjs w' (ConfigMapKind, co_ns s, capacityConfigMap)) capacityKey = Some (joinLines ls))) w"
    unfolding handleCapacity_def writeSettings_def
    by (auto simp del: linesOf.simps simp: afterWrite_def split: sum.split intro!: wp_mono [OF wp_upsertConfigMap_value])
  from wp_run [OF this assms] show ?thesis by simp
qed

end

lemma joinLines_text: "ls \<noteq> [] \<Longrightarrow> \<forall>l\<in>set ls. l \<noteq> '''' \<and> \<not> isSpace (hd l) \<Longrightarrow> trimSpace (joinLines ls) \<noteq> ''''"
  by (cases ls; cases "hd ls") (auto simp: joinLines_def trimSpace_def)

lemma entry_ok_accepted:
  assumes "capacityLine E name v = Inr l" "name \<in> {''cpu'', ''memory''}" "\<And>v q. cx_ParseQuantity E v = Inr q \<Longrightarrow> plain v"
  shows "entry_ok (entryOf (name, v))"
proof (cases "parseCapacityPercent v")
  case None
  with assms(1) obtain q where "cx_ParseQuantity E v = Inr q" by (auto simp: capacityLine_def split: sum.splits)
  from assms(3) [OF this] None assms(2) show ?thesis by (simp add: entry_ok_def entryOf_def)
next
  case (Some pct)
  with assms(1) obtain n where "pct = Some n" by (cases pct) (auto simp: capacityLine_def)
  with Some assms(2) show ?thesis by (simp add: entry_ok_def entryOf_def clampPercent_def)
qed

lemma capacity_text_read:
  assumes "caps_yaml (cx_Quote E) (pe_CapsYaml A)" and "pe_ParseQuantity A = cx_ParseQuantity E"
    and "\<And>v q. cx_ParseQuantity E v = Inr q \<Longrightarrow> plain v" and "linesOf (capacityLine E) kvs = Inr ls"
    and "\<And>name v. (name, v) \<in> set kvs \<Longrightarrow> name \<in> {''cpu'', ''memory''} \<and> trimSpace v = v" and "distinct (map fst kvs)"
  shows "\<exists>raw. pe_CapsYaml A (joinLines ls) = Inr raw \<and>
    (\<forall>name v. (name, v) \<in> set kvs \<longrightarrow> map_of (concat (map (capRuleOf A) raw)) name = capFor E v)"
proof -
  define asked where "asked = filter (\<lambda>kv. snd kv \<noteq> '''') kvs"
  have asked: "(name, v) \<in> set asked \<longleftrightarrow> (name, v) \<in> set kvs \<and> v \<noteq> ''''" for name v by (auto simp: asked_def)
  note lines = linesOf_entries [OF assms(4), folded asked_def]
  have accepted: "\<exists>l. capacityLine E name v = Inr l" if "(name, v) \<in> set asked" for name v using that lines asked by blast
  have ok: "list_all entry_ok (map entryOf asked)"
    unfolding list_all_iff
  proof (clarsimp)
    fix name v assume m: "(name, v) \<in> set asked"
    from accepted [OF m] obtain l where "capacityLine E name v = Inr l" by blast
    moreover have "name \<in> {''cpu'', ''memory''}" using assms(5) m asked by blast
    ultimately show "entry_ok (entryOf (name, v))" by (rule entry_ok_accepted) (rule assms(3))
  qed
  have d: "distinct (map fst asked)" using assms(6) by (simp add: asked_def distinct_map_filter)
  then have "distinct (map fst (map entryOf asked))" by (simp add: entryOf_def comp_def)
  from caps_yaml.reads_back [OF assms(1) ok this] have raw: "pe_CapsYaml A (joinLines ls) = Inr (map (yamlScalar \<circ> entryOf) asked)"
    using lines by (simp add: comp_def)
  have "capRuleOf A (yamlScalar (entryOf kv)) = [(fst kv, the (capFor E (snd kv)))]" if "kv \<in> set asked" for kv
  proof -
    obtain name v where kv: "kv = (name, v)" by (cases kv)
    from that accepted kv obtain l where "capacityLine E name v = Inr l" by blast
    from capRuleOf_entry [OF this _ _ assms(2)] that asked assms(5) show ?thesis unfolding kv by fastforce
  qed
  then have rules: "concat (map (capRuleOf A) (map (yamlScalar \<circ> entryOf) asked)) = map (\<lambda>kv. (fst kv, the (capFor E (snd kv)))) asked"
    by (induction asked) auto
  have "map_of (map (\<lambda>kv. (fst kv, the (capFor E (snd kv)))) asked) name = capFor E v" if "(name, v) \<in> set kvs" for name v
  proof (cases "v = ''''")
    case True
    then have "name \<notin> fst ` set asked" using asked by (auto dest: eq_key_imp_eq_value [OF assms(6) that])
    then show ?thesis using True by (simp add: capFor_def map_of_eq_None_iff image_image)
  next
    case False
    then have m: "(name, v) \<in> set asked" using that asked by simp
    from accepted [OF m] obtain l where "capacityLine E name v = Inr l" by blast
    from capRuleOf_entry [OF this False _ assms(2)] assms(5) [OF that] obtain r where r: "capFor E v = Some r" by blast
    have "map_of (map (\<lambda>kv. (fst kv, the (capFor E (snd kv)))) asked) name = Some (the (capFor E v))"
      by (rule map_of_is_SomeI) (use d m in \<open>auto simp: comp_def intro!: rev_image_eqI [OF m]\<close>)
    with r show ?thesis by simp
  qed
  with raw rules show ?thesis by auto
qed


text \<open>A decoder for such documents.\<close>

fun splitLines :: "string \<Rightarrow> string list" where
  "splitLines [] = []"
| "splitLines (c # cs) = (if c = CHR ''\<newline>'' then [] # splitLines cs
     else case splitLines cs of [] \<Rightarrow> [[c]] | l # ls \<Rightarrow> (c # l) # ls)"

definition unquote :: "string \<Rightarrow> string" where
  "unquote s = (case s of c # t \<Rightarrow> if c = CHR 0x22 then butlast t else s | [] \<Rightarrow> [])"

definition readLine :: "string \<Rightarrow> string \<times> string" where
  "readLine l = (takeWhile (\<lambda>c. c \<noteq> CHR '':'') l, unquote (drop 2 (dropWhile (\<lambda>c. c \<noteq> CHR '':'') l)))"

definition simpleYaml :: "string \<Rightarrow> message + (string \<times> string) list" where
  "simpleYaml t = Inr (map readLine (splitLines t))"

lemma splitLines_line: "CHR ''\<newline>'' \<notin> set l \<Longrightarrow> splitLines (l @ CHR ''\<newline>'' # rest) = l # splitLines rest"
  by (induction l) auto

lemma splitLines_joinLines: "\<forall>l\<in>set ls. CHR ''\<newline>'' \<notin> set l \<Longrightarrow> splitLines (joinLines ls) = ls"
  by (induction ls) (auto simp: joinLines_def splitLines_line split: if_splits)

lemma readLine_entry:
  assumes "entry_ok e"
  shows "readLine (yamlLine plainQuote e) = yamlScalar e" "CHR ''\<newline>'' \<notin> set (yamlLine plainQuote e)"
proof -
  obtain name x where e: "e = (name, x)" by (cases e)
  have "unquote (itoa n) = itoa n" if "0 \<le> n" for n
    using itoa_plain [OF that] by (cases "itoa n") (auto simp: unquote_def)
  moreover have "unquote (plainQuote v) = v" for v by (simp add: unquote_def plainQuote_def)
  ultimately show "readLine (yamlLine plainQuote e) = yamlScalar e"
    using assms by (cases x) (auto simp: e entry_ok_def readLine_def)
  show "CHR ''\<newline>'' \<notin> set (yamlLine plainQuote e)"
  proof (cases x)
    case (Inl n)
    with assms have "0 \<le> n" "CHR ''\<newline>'' \<notin> set name" by (auto simp: e entry_ok_def)
    with itoa_plain [of n] Inl show ?thesis by (auto simp: e)
  next
    case (Inr v)
    with assms have "plain v" "CHR ''\<newline>'' \<notin> set name" by (auto simp: e entry_ok_def)
    then have "CHR ''\<newline>'' \<notin> set v" unfolding plain_def list_all_iff by blast
    with Inr \<open>CHR ''\<newline>'' \<notin> set name\<close> show ?thesis by (simp add: e plainQuote_def)
  qed
qed

interpretation sy: caps_yaml plainQuote simpleYaml
proof
  fix es assume "list_all entry_ok es"
  then have "\<forall>e\<in>set es. readLine (yamlLine plainQuote e) = yamlScalar e \<and> CHR ''\<newline>'' \<notin> set (yamlLine plainQuote e)"
    using readLine_entry by (simp add: list_all_iff)
  then show "simpleYaml (joinLines (map (yamlLine plainQuote) es)) = Inr (map yamlScalar es)"
    by (simp add: simpleYaml_def splitLines_joinLines)
qed

definition exampleAgent :: "string \<Rightarrow> unit publisher_env" where
  "exampleAgent contents = \<lparr>pe_ListNodes = State_Monad.return (Inr []), pe_GetNode = (\<lambda>_. State_Monad.return (Inl KNotFound)),
     pe_ReadFile = (\<lambda>_. State_Monad.return (Inr contents)), pe_PricesYaml = (\<lambda>_. Inr []), pe_RenewableYaml = (\<lambda>_. Inr False),
     pe_CapsYaml = simpleYaml, pe_ParseQuantity = gibibytes, pe_Geo = (\<lambda>_ _. State_Monad.return (NoAnswer (text_msg ''''))),
     pe_Carbon = (\<lambda>_ _. State_Monad.return (NoAnswer (text_msg ''''))), pe_Forecast = (\<lambda>_ _. State_Monad.return (NoAnswer (text_msg ''''))),
     pe_Clock = State_Monad.return 0, pe_Post = (\<lambda>_. State_Monad.return (Inl (Plain (text_msg '''')))), pe_OnResult = None\<rparr>"

definition exampleCapsPublisher :: Publisher where
  "exampleCapsPublisher = \<lparr>pu_ClusterID = ''p'', pu_LiqoClusterID = ''p'', pu_PriceFile = '''', pu_CapacityFile = ''capacity.yaml'', pu_RenewableFile = '''',
     pu_NodeName = '''', pu_AdvertisedIP = '''', pu_MockEcoURL = '''', pu_MockGeoURL = '''', pu_ProbeUDPPort = 0, pu_EcoClient = NewEcoClient 0,
     pu_GeoCache = []\<rparr>"

definition exampleCapsFile :: string where
  "exampleCapsFile = joinLines [''cpu: 100'', ''memory: '' @ plainQuote ''8Gi'']"

lemma exampleCaps_written:
  "run_state (handleCapacity memConsole (exampleConsole RoleProvider) (Inr exampleCaps)) [] =
    (COk, [((ConfigMapKind, ''ns'', ''agent-capacity''), OConfigMap \<lparr>cm_Name = ''agent-capacity'', cm_Data = [(''capacity.yaml'', exampleCapsFile)]\<rparr>)])"
  by code_simp


end
