(* ===== verification/Spec2Isabelle.thy ===== *)
theory Spec2Isabelle
  imports Chunk Pricing Registry Placement Ledger LedgerRace Instructions Advertisement ReservationApi
    InstructionController ReservationController ReservationMachine Stack RequestController VirtualNodes
    Middleware Poller Probe ConsumerAgent ConsumerWorld
    Discovery Heartbeater ProviderAgent ProviderWorld Selector Dashboard Console ConsoleWorld
begin

text \<open>
  Verification of the federation autoscaler: clusters that lend and borrow capacity through a central Broker.

  \<^bold>\<open>The program.\<close> A provider's agent advertises the free resources of its cluster to the Broker, which cuts them into chunks
  of fixed size. A consumer's Cluster Autoscaler asks the external gRPC provider for nodes; the gRPC provider asks the
  consumer's agent on its loopback API, which asks the Broker for a reservation. A reconciler of the Broker drives the
  reservation through its phases and queues instructions, which the two agents poll, carry out with \<^verbatim>\<open>liqoctl\<close> and
  report. Liqo then shows the chunk as a virtual node of the consumer, which a reconciler on the consumer projects onto
  a \<^verbatim>\<open>VirtualNodeState\<close>. Objects live in the Kubernetes API servers of the clusters.

  \<^bold>\<open>Method.\<close> Go functions are HOL functions of the same name, or of a name that says which of two namesakes is meant. Code
  that calls an API server, the network or a clock is in the state monad over an arbitrary world \<open>'w\<close>, with the calls as
  fields of a record: \<open>kube\<close> for the Broker's API server, \<open>local_cluster\<close> for the consumer's, \<open>'w poller\<close>, \<open>publisher_env\<close>,
  \<open>heartbeat_env\<close>, \<open>vns_env\<close>, \<open>console_env\<close> and so on for the rest. What the code relies on of such a record is a locale, and every locale is
  interpreted on a world in memory in which the modelled code runs: theory MemStore for the API server, the
  theories named World for the agents. Errors are values of a sum; a panic is a value too where the code recovers it.
  A statement about a run is \<open>wp m Q w\<close>: the run of \<open>m\<close> from \<open>w\<close> ends, and \<open>Q\<close> holds of its result and its final state.

  \<^bold>\<open>Foundations.\<close>
  \<^item> Prelude: \<open>int32\<close> and \<open>int64\<close> wrap-around, messages and HTTP answers, weakest preconditions.
  \<^item> ApiTypes: the custom resources (\<^verbatim>\<open>api/broker/v1alpha1\<close>, \<^verbatim>\<open>api/autoscaling/v1alpha1\<close>).
  \<^item> Kube, MemStore: the contract of the API server (optimistic concurrency, finalizers, status subresource) and a store and a
    faulty store that meet it.

  \<^bold>\<open>Broker\<close> (\<^verbatim>\<open>internal/broker\<close>, \<^verbatim>\<open>internal/controller/broker\<close>).
  \<^item> Chunk (\<^verbatim>\<open>chunk/chunk.go\<close>): the number of chunks is the largest that fits.
  \<^item> Pricing, Registry, Placement (\<^verbatim>\<open>pricing.go\<close>, \<^verbatim>\<open>geo.go\<close>, \<^verbatim>\<open>registry.go\<close>, \<^verbatim>\<open>heartbeat.go\<close>, \<^verbatim>\<open>placement.go\<close>, \<^verbatim>\<open>nodegroups.go\<close>): the
    masking policies refine one specification, of which the locale \<open>group_policy\<close> has the common part.
  \<^item> Ledger, LedgerRace (\<^verbatim>\<open>reservation.go\<close>): the reserve and credit loops, three attempts each, and their interleavings as a
    step relation: no advertisement is ever overcommitted.
  \<^item> Instructions, Advertisement, ReservationApi (\<^verbatim>\<open>instructions.go\<close>, \<^verbatim>\<open>advertisement.go\<close>, \<^verbatim>\<open>reservation.go\<close>): the handlers, on every
    branch.
  \<^item> Middleware (\<^verbatim>\<open>middleware.go\<close>, \<^verbatim>\<open>tls.go\<close>, routes of \<^verbatim>\<open>server.go\<close>): who may cause which effect at the Broker, and how often
    (10 requests at once, 5 per second).
  \<^item> Dashboard (\<^verbatim>\<open>dashboard.go\<close>): the unauthenticated overview only reads, and shows what is stored.
  \<^item> ReservationController, ReservationMachine (\<^verbatim>\<open>reservation_controller.go\<close>): one run of \<^verbatim>\<open>Reconcile\<close> with all its handlers; its phase
    moves, the instructions it queues, the credentials it deletes and the chunks it credits. InstructionController: the reconcilers of
    the work queue.

  \<^bold>\<open>Agents\<close> (\<^verbatim>\<open>internal/agent\<close>).
  \<^item> AgentClient (\<^verbatim>\<open>client\<close>): three retries with a back-off of 100 ms doubled up to 2 s; behind a network that loses messages
    a reservation is booked at most once.
  \<^item> Latency, Brain, LocalApi (\<^verbatim>\<open>consumer/latency\<close>, \<^verbatim>\<open>consumer/brain\<close>, \<^verbatim>\<open>consumer/localapi\<close>, fallback ranking of \<^verbatim>\<open>ollama\<close>): the local placement decision
    and the loopback API, with the asynchronous choice of a provider as a step relation.
  \<^item> Selector (\<^verbatim>\<open>ollama\<close>): what the language model is shown and how its answer is judged; whatever it answers, only offered providers with
    room are ranked, and the first of them that still has room is the one provider the loopback API lets grow.
  \<^item> Poller, Probe (\<^verbatim>\<open>poller\<close>, \<^verbatim>\<open>health\<close>): each instruction gets exactly one valid report; the readiness gate is open for a reason.
  \<^item> ConsumerAgent, ConsumerWorld (\<^verbatim>\<open>consumer/instructions\<close>, registrations of \<^verbatim>\<open>consumer.go\<close>): Peer, Unpeer, Cleanup, Reconcile;
    what is peered is torn down without a trace, the tunnel falls with the last chunk.
  \<^item> Discovery, Heartbeater (\<^verbatim>\<open>nodeip\<close>, \<^verbatim>\<open>geo\<close>, \<^verbatim>\<open>eco\<close>, \<^verbatim>\<open>consumer/heartbeat\<close>) and ProviderAgent, ProviderWorld (\<^verbatim>\<open>provider\<close>): what the agents tell
    the Broker; a provider never offers more chunks than its ready nodes hold.
  \<^item> Console, ConsoleWorld (\<^verbatim>\<open>console\<close>): the operator's web API of an agent; the objects a request can change, and that the capacity caps set
    there are the caps the provider's publisher applies.

  \<^bold>\<open>Consumer cluster.\<close>
  \<^item> GrpcServer (\<^verbatim>\<open>internal/grpcserver\<close>): all RPCs, with the cache of node groups (2 s).
  \<^item> Stack: gRPC provider, loopback, agent, client, network and Broker composed; the locale \<open>agent_api\<close> is the contract the top
    relies on and the composition meets it, so scaling up and down have end-to-end statements.
  \<^item> RequestController, VirtualNodes (\<^verbatim>\<open>internal/controller/autoscaling\<close>): manual reservations with their migration, and the states of the
    virtual nodes.

  \<^bold>\<open>Bounds.\<close> Loops of the code are structural recursions: over retries (at most three conflicts, at most \<open>maxRetries\<close> repeats), over lists, and
  for the endless loops of the agents over the list of events that wake them, so no fuel is chosen anywhere. Fixed-width
  conversions are written out; where a theorem needs amounts to be in range it says so (amounts below $2^{62}$ after scaling, cpu below
  $2^{31}$ cores).

  \<^bold>\<open>Idealisations.\<close> \<^verbatim>\<open>float64\<close> is the reals and rounding is left out. Times are integers in nanoseconds. \<^verbatim>\<open>resource.Quantity\<close> is a
  rational number read through the parameter \<open>quantity_api\<close>. Reads of an API server are not stale. JSON, YAML and protobuf
  coding, UUIDs, random numbers, UDP probes, the answer of the language model and the runs of \<^verbatim>\<open>liqoctl\<close> are arguments. The order in which
  Go ranges over a map is an argument where it matters. Logging and metrics are left out.

  \<^bold>\<open>Not modelled.\<close> The entry points, \<^verbatim>\<open>runnable.go\<close> and the set-up of listeners, TLS and controllers: wiring of libraries. The
  embedded web pages and the wording of the system prompt: text. Mock services, generated
  code, end-to-end tests and the drivers under \<^verbatim>\<open>federation-tests\<close>: not part of the running system.
\<close>

section \<open>The agents and the Broker\<close>

text \<open>
  C29. The agent and the Broker agree on the node group of a chunk: the group id the agent writes into the
  VirtualNodeState, from the resources of the instruction alone, is the one the Broker computes for the provider
  and the type of chunk it sized, so a state is found under the group it was reserved from. And the node the controller
  of the states looks for is the ResourceSlice the agent claimed the chunk with.
\<close>

theorem agent_group_is_broker_group:
  assumes "r \<in> set (DefaultSizer_Size Q rl)"
    "map fst (iv_ResourceSliceResources i) = map fst (r_PerChunk r)"
  shows "vn_NodeGroupID (vn_Spec (newVirtualNodeState (resourceSliceName (iv_ReservationID i)) i)) = nodeGroupID (iv_ProviderClusterID i) (r_Type r) \<and>
    nodeNameFor (newVirtualNodeState (resourceSliceName (iv_ReservationID i)) i) = resourceSliceName (iv_ReservationID i)"
proof -
  have "map_of (iv_ResourceSliceResources i) g \<noteq> None \<longleftrightarrow> g \<in> set (map fst (r_PerChunk r))" for g
    unfolding assms(2) [symmetric] by (simp add: map_of_eq_None_iff)
  then show ?thesis
    using assms(1)
    by (auto simp: newVirtualNodeState_def nodeNameFor_def resourceSliceName_def nodeGroupIDFor_def nodeGroupID_def deriveChunkType_def DefaultSizer_Size_def sizeGPU_def
        sizeStandard_def lower_char_def Let_def of_char_def split: if_splits)
qed

theorem agent_group_is_broker_group_witness:
  "vn_NodeGroupID (vn_Spec (newVirtualNodeState (resourceSliceName ''r'') (instructionFor RIPeer False\<lparr>iv_ResourceSliceResources :=
     r_PerChunk (sizeGPU exactQ [(''nvidia.com/gpu'', 1)] 1)\<rparr>))) = nodeGroupID ''p'' ''gpu''"
  using agent_group_is_broker_group [of "sizeGPU exactQ [(''nvidia.com/gpu'', 1)] 1" exactQ "[(''nvidia.com/gpu'', 1)]"
      "instructionFor RIPeer False\<lparr>iv_ResourceSliceResources := r_PerChunk (sizeGPU exactQ [(''nvidia.com/gpu'', 1)] 1)\<rparr>"]
  by (simp add: DefaultSizer_Size_def sizeGPU_def Let_def rl_get_def exactQ_def instructionFor_def)

end
